(* ===== verification/Prelude.thy ===== *)
theory Prelude
  imports Main "HOL-Library.Word"
begin

text \<open>
  Shared vocabulary of the development: Go's byte slices, sized integers, strings and
  instants; the \<open>(T, error)\<close> return convention; \<open>encoding/binary.BigEndian\<close>; and the
  generic lemmas the components use.

  \<^item> \<open>byte\<close>, \<open>bytes\<close>: Go's \<open>byte\<close> and \<open>[]byte\<close>. A nil slice and an empty slice have the
    same length and contents and are one value here.
  \<^item> \<open>u16\<close>, \<open>u32\<close>, \<open>u64\<close>: Go's sized unsigned integers, with wrap-around.
  \<^item> \<open>gotime\<close>: a \<open>time.Time\<close> as the number of nanoseconds since the Unix epoch, unbounded as
    \<open>time.Time\<close> is for every purpose of the sources; \<open>zero_time\<close> is the zero value (year 1).
  \<^item> \<open>chk\<close> and \<open>first_err\<close>: the early-return chains of the validators.
\<close>

type_synonym byte = "8 word"
type_synonym bytes = "byte list"
type_synonym u16 = "16 word"
type_synonym u32 = "32 word"
type_synonym u64 = "64 word"
type_synonym gotime = int

named_theorems codec_simps
named_theorems validate_defs

definition HashSize :: nat where
  "HashSize = 32"

definition zeros :: "nat \<Rightarrow> bytes" where
  "zeros n = replicate n 0"

definition isAllZero :: "bytes \<Rightarrow> bool" where
  "isAllZero b = list_all (\<lambda>x. x = 0) b"

definition zero_time :: gotime where
  "zero_time = - 62135596800000000000"

definition UnixNano :: "gotime \<Rightarrow> u64" where
  "UnixNano t = word_of_int t"

definition string_bytes :: "string \<Rightarrow> bytes" where
  "string_bytes s = map (\<lambda>c. of_nat (of_char c)) s"

text \<open>Decimal rendering, as \<open>fmt\<close>'s \<open>%d\<close> on a non-negative integer.\<close>

fun digits_acc :: "nat \<Rightarrow> string \<Rightarrow> string" where
  "digits_acc n acc =
     (let acc' = char_of (48 + n mod 10) # acc
      in if n < 10 then acc' else digits_acc (n div 10) acc')"

declare digits_acc.simps [simp del]

definition fmt_d :: "nat \<Rightarrow> string" where
  "fmt_d n = digits_acc n []"

text \<open>Lowercase hexadecimal, as \<open>encoding/hex.EncodeToString\<close>.\<close>

definition hex_digit :: "nat \<Rightarrow> char" where
  "hex_digit n = (if n < 10 then char_of (48 + n) else char_of (87 + n))"

fun hex_encode :: "bytes \<Rightarrow> string" where
  "hex_encode [] = []"
| "hex_encode (b # bs) = hex_digit (unat b div 16) # hex_digit (unat b mod 16) # hex_encode bs"

text \<open>The \<open>n\<close>-byte big-endian form of a number, and its reading.\<close>

fun be :: "nat \<Rightarrow> nat \<Rightarrow> bytes" where
  "be 0 x = []"
| "be (Suc n) x = be n (x div 256) @ [of_nat x]"

definition unbe :: "bytes \<Rightarrow> nat" where
  "unbe bs = foldl (\<lambda>a b. a * 256 + unat b) 0 bs"

definition PutUint16 :: "u16 \<Rightarrow> bytes" where
  "PutUint16 w = be 2 (unat w)"

definition PutUint32 :: "u32 \<Rightarrow> bytes" where
  "PutUint32 w = be 4 (unat w)"

definition PutUint64 :: "u64 \<Rightarrow> bytes" where
  "PutUint64 w = be 8 (unat w)"

text \<open>
  A 4-byte length prefix followed by the bytes, as the fixed packings write every variable
  field; Go converts the length with \<open>uint32(len(x))\<close>, which wraps.
\<close>

definition len_prefixed :: "bytes \<Rightarrow> bytes" where
  "len_prefixed b = PutUint32 (of_nat (length b)) @ b"

text \<open>Early-return chains: \<open>if c { return e }\<close>, in order.\<close>

definition chk :: "bool \<Rightarrow> 'e \<Rightarrow> 'e option" where
  "chk c e = (if c then Some e else None)"

fun first_err :: "'e option list \<Rightarrow> 'e option" where
  "first_err [] = None"
| "first_err (None # xs) = first_err xs"
| "first_err (Some e # xs) = Some e"

text \<open>\<open>x, err := f(); if err != nil { return err }\<close>.\<close>

fun bindR :: "'e + 'a \<Rightarrow> ('a \<Rightarrow> 'e + 'b) \<Rightarrow> 'e + 'b" where
  "bindR (Inl e) f = Inl e"
| "bindR (Inr x) f = f x"

text \<open>\<open>if err := v(); err != nil { return err }\<close> ahead of a result.\<close>

definition guardR :: "'e option \<Rightarrow> 'e + 'a \<Rightarrow> 'e + 'a" where
  "guardR v r = (case v of Some e \<Rightarrow> Inl e | None \<Rightarrow> r)"

text \<open>Two hash inputs that collide: they differ and have one digest.\<close>

definition collides :: "(bytes \<Rightarrow> bytes) \<Rightarrow> bytes \<Rightarrow> bytes \<Rightarrow> bool" where
  "collides H x y \<longleftrightarrow> x \<noteq> y \<and> H x = H y"

section \<open>Checks and results\<close>

lemma chk_eq_None [simp]: "chk c e = None \<longleftrightarrow> \<not> c"
  by (simp add: chk_def)

lemma chk_eq_Some [simp]: "chk c e = Some e' \<longleftrightarrow> c \<and> e' = e"
  by (auto simp: chk_def)

lemma Some_eq_chk [simp]: "Some e' = chk c e \<longleftrightarrow> c \<and> e' = e"
  by (auto simp: chk_def)

lemma chk_True [simp]: "chk True e = Some e"
  by (simp add: chk_def)

lemma chk_False [simp]: "chk False e = None"
  by (simp add: chk_def)

lemma first_err_eq_None [simp]: "first_err xs = None \<longleftrightarrow> (\<forall>x\<in>set xs. x = None)"
  by (induction xs rule: first_err.induct) auto

lemma first_err_in_set: "first_err xs = Some e \<Longrightarrow> Some e \<in> set xs"
  by (induction xs rule: first_err.induct) auto

lemma first_err_Cons:
  "first_err (x # xs) = (case x of None \<Rightarrow> first_err xs | Some e \<Rightarrow> Some e)"
  by (cases x) auto

lemma bindR_Inr_iff [simp]: "bindR r f = Inr y \<longleftrightarrow> (\<exists>x. r = Inr x \<and> f x = Inr y)"
  by (cases r) auto

lemma bindR_Inl_iff: "bindR r f = Inl e \<longleftrightarrow> r = Inl e \<or> (\<exists>x. r = Inr x \<and> f x = Inl e)"
  by (cases r) auto

lemma guardR_Inr_iff [simp]: "guardR v r = Inr y \<longleftrightarrow> v = None \<and> r = Inr y"
  by (cases v) (auto simp: guardR_def)

lemma guardR_None [simp]: "guardR None r = r"
  by (simp add: guardR_def)

lemma guardR_Some [simp]: "guardR (Some e) r = Inl e"
  by (simp add: guardR_def)

section \<open>Bytes and big-endian numbers\<close>

lemma length_zeros [simp]: "length (zeros n) = n"
  by (simp add: zeros_def)

lemma isAllZero_zeros [simp]: "isAllZero (zeros n)"
  by (simp add: isAllZero_def zeros_def list_all_iff)

lemma isAllZero_iff: "isAllZero b \<longleftrightarrow> b = zeros (length b)"
  by (induction b) (auto simp: isAllZero_def zeros_def)

lemma length_be [simp]: "length (be n x) = n"
  by (induction n arbitrary: x) auto

lemma unbe_snoc: "unbe (bs @ [b]) = unbe bs * 256 + unat b"
  by (simp add: unbe_def)

lemma unat_of_nat_byte: "unat (of_nat x :: byte) = x mod 256"
  by (simp add: unat_of_nat)

lemma unbe_be: "unbe (be n x) = x mod 256 ^ n"
proof (induction n arbitrary: x)
  case 0
  show ?case by (simp add: unbe_def)
next
  case (Suc n)
  have "unbe (be (Suc n) x) = (x div 256 mod 256 ^ n) * 256 + x mod 256"
    by (simp add: unbe_snoc Suc.IH unat_of_nat_byte)
  also have "\<dots> = x mod (256 * 256 ^ n)"
    by (simp add: mod_mult2_eq)
  finally show ?case by simp
qed

lemma be_inj: "x < 256 ^ n \<Longrightarrow> y < 256 ^ n \<Longrightarrow> be n x = be n y \<longleftrightarrow> x = y"
  by (metis mod_less unbe_be)

lemma length_PutUint [simp]:
  "length (PutUint16 a) = 2" "length (PutUint32 b) = 4" "length (PutUint64 c) = 8"
  by (simp_all add: PutUint16_def PutUint32_def PutUint64_def)

lemma PutUint16_inj [simp]: "PutUint16 a = PutUint16 b \<longleftrightarrow> a = b"
  using be_inj [of "unat a" 2 "unat b"] unsigned_less [of a, where 'a = nat] unsigned_less [of b, where 'a = nat]
  by (simp add: PutUint16_def word_unat_eq_iff)

lemma PutUint32_inj [simp]: "PutUint32 a = PutUint32 b \<longleftrightarrow> a = b"
  using be_inj [of "unat a" 4 "unat b"] unsigned_less [of a, where 'a = nat] unsigned_less [of b, where 'a = nat]
  by (simp add: PutUint32_def word_unat_eq_iff)

lemma PutUint64_inj [simp]: "PutUint64 a = PutUint64 b \<longleftrightarrow> a = b"
  using be_inj [of "unat a" 8 "unat b"] unsigned_less [of a, where 'a = nat] unsigned_less [of b, where 'a = nat]
  by (simp add: PutUint64_def word_unat_eq_iff)

lemma append_eq_len:
  "length a = length b \<Longrightarrow> a @ x = b @ y \<longleftrightarrow> a = b \<and> x = y"
  by simp

lemma length_len_prefixed [simp]: "length (len_prefixed b) = 4 + length b"
  by (simp add: len_prefixed_def)

text \<open>A length-prefixed field followed by anything is read unambiguously.\<close>

lemma len_prefixed_append_inj:
  assumes "length a < 2 ^ 32" and "length b < 2 ^ 32"
  shows "len_prefixed a @ x = len_prefixed b @ y \<longleftrightarrow> a = b \<and> x = y"
proof
  assume eq: "len_prefixed a @ x = len_prefixed b @ y"
  then have "PutUint32 (of_nat (length a)) = PutUint32 (of_nat (length b))"
    by (simp add: len_prefixed_def)
  then have "(of_nat (length a) :: u32) = of_nat (length b)"
    by simp
  then have "length a = length b"
    using assms by (simp add: word_unat_eq_iff unat_of_nat)
  with eq show "a = b \<and> x = y"
    by (simp add: len_prefixed_def)
next
  assume "a = b \<and> x = y"
  then show "len_prefixed a @ x = len_prefixed b @ y" by simp
qed

lemma len_prefixed_inj:
  "length a < 2 ^ 32 \<Longrightarrow> length b < 2 ^ 32 \<Longrightarrow> len_prefixed a = len_prefixed b \<longleftrightarrow> a = b"
  using len_prefixed_append_inj [of a b "[]" "[]"] by simp

lemma length_string_bytes [simp]: "length (string_bytes s) = length s"
  by (simp add: string_bytes_def)

lemma char_byte_inj: "(of_nat (of_char c) :: byte) = of_nat (of_char d) \<longleftrightarrow> c = d"
proof -
  have "(of_char c :: nat) < 256" and "(of_char d :: nat) < 256"
    by simp_all
  then show ?thesis
    by (simp add: word_unat_eq_iff unat_of_nat)
qed

lemma string_bytes_inj [simp]: "string_bytes s = string_bytes t \<longleftrightarrow> s = t"
  unfolding string_bytes_def
  by (rule inj_map_eq_map) (simp add: inj_def char_byte_inj)

lemma string_bytes_eq_Nil [simp]: "string_bytes s = [] \<longleftrightarrow> s = []"
  by (simp add: string_bytes_def)

lemma UnixNano_inj:
  "- (2 ^ 63) \<le> s \<Longrightarrow> s < 2 ^ 63 \<Longrightarrow> - (2 ^ 63) \<le> t \<Longrightarrow> t < 2 ^ 63 \<Longrightarrow>
   UnixNano s = UnixNano t \<longleftrightarrow> s = t"
  by (auto simp: UnixNano_def signed_of_int signed_take_bit_int_eq_self
      dest!: arg_cong [where f = sint])

lemmas codec_facts [codec_simps] =
  append_eq_len len_prefixed_append_inj len_prefixed_inj

text \<open>
  The contract of an append-only sequence, which the witness log and the audit chain both
  promise their readers: a successful append adds the item it returns at the end, a refused one
  changes nothing a reader sees, and the invariant survives both while the sequence is below the
  capacity of a Go slice. What a reader may conclude over any history of appends is proved once.
\<close>

fun run_appends :: "('l \<Rightarrow> 'i \<Rightarrow> 'r \<times> 'l) \<Rightarrow> 'l \<Rightarrow> 'i list \<Rightarrow> 'l" where
  "run_appends f l [] = l"
| "run_appends f l (x # xs) = run_appends f (snd (f l x)) xs"

locale append_only =
  fixes inv :: "'l \<Rightarrow> bool"
    and items :: "'l \<Rightarrow> 'e list"
    and app :: "'l \<Rightarrow> 'i \<Rightarrow> ('err + 'e) \<times> 'l"
    and cap :: nat
  assumes app_ok: "inv l \<Longrightarrow> app l x = (Inr e, l') \<Longrightarrow> items l' = items l @ [e]"
    and app_error: "inv l \<Longrightarrow> app l x = (Inl err, l') \<Longrightarrow> items l' = items l"
    and app_inv: "inv l \<Longrightarrow> length (items l) + 1 < cap \<Longrightarrow> app l x = (r, l') \<Longrightarrow> inv l'"
begin

lemma app_step:
  assumes "inv l"
  shows "\<exists>zs. items (snd (app l x)) = items l @ zs \<and> length zs \<le> 1"
proof (cases "app l x")
  case (Pair r l')
  show ?thesis
  proof (cases r)
    case (Inl err)
    then show ?thesis using app_error [OF assms] Pair by simp
  next
    case (Inr e)
    then have "items (snd (app l x)) = items l @ [e]" using app_ok [OF assms] Pair by simp
    then show ?thesis by simp
  qed
qed

lemma run_history:
  assumes "inv l" "length (items l) + length xs < cap"
  shows "inv (run_appends app l xs) \<and>
    (\<exists>zs. items (run_appends app l xs) = items l @ zs \<and> length zs \<le> length xs)"
  using assms
proof (induction xs arbitrary: l)
  case (Cons x xs)
  let ?l' = "snd (app l x)"
  obtain ys where ys: "items ?l' = items l @ ys" "length ys \<le> 1"
    using app_step [OF Cons.prems(1)] by blast
  have "inv ?l'"
    using app_inv [OF Cons.prems(1) _ prod.collapse [symmetric]] Cons.prems(2) by simp
  moreover have "length (items ?l') + length xs < cap"
    using ys Cons.prems(2) by simp
  ultimately obtain zs where "inv (run_appends app ?l' xs)"
      "items (run_appends app ?l' xs) = items ?l' @ zs" "length zs \<le> length xs"
    using Cons.IH by blast
  with ys show ?case by auto
qed simp

lemma run_stable:
  assumes "inv l" "length (items l) + length xs < cap" "i < length (items l)"
  shows "items (run_appends app l xs) ! i = items l ! i"
  using run_history [OF assms(1,2)] assms(3) by (auto simp: nth_append)

end

end
