(* ===== verification/Errors.thy ===== *)
theory Errors
  imports Prelude
begin

text \<open>
  The classified errors of src/internal/shared/errors/errors.go, which every operation of the
  platform returns and which route a failure: a category, a stable code, a message and a cause.
  Go's \<open>error\<close> values that are not classified (\<open>fmt.Errorf\<close>) carry a message and the error
  they wrap, if any. An \<open>error\<close> result is \<open>go_error option\<close> (\<open>None\<close> is nil); a
  \<open>(T, error)\<close> result is \<open>go_error + 'a\<close>.
\<close>

datatype Category =
    CategoryUnknown
  | CategoryStructural
  | CategoryAuthority
  | CategoryOperational
  | CategoryIntegrity
  | CategoryIncident

datatype go_error =
    ClassifiedError Category string string "go_error option"
  | PlainError string "go_error option"

fun Category_String :: "Category \<Rightarrow> string" where
  "Category_String CategoryStructural = ''structural''"
| "Category_String CategoryAuthority = ''authority''"
| "Category_String CategoryOperational = ''operational''"
| "Category_String CategoryIntegrity = ''integrity''"
| "Category_String CategoryIncident = ''incident''"
| "Category_String CategoryUnknown = ''unknown''"

definition Structural :: "string \<Rightarrow> string \<Rightarrow> go_error option \<Rightarrow> go_error" where
  "Structural code msg cause = ClassifiedError CategoryStructural code msg cause"

definition Authority :: "string \<Rightarrow> string \<Rightarrow> go_error option \<Rightarrow> go_error" where
  "Authority code msg cause = ClassifiedError CategoryAuthority code msg cause"

definition Operational :: "string \<Rightarrow> string \<Rightarrow> go_error option \<Rightarrow> go_error" where
  "Operational code msg cause = ClassifiedError CategoryOperational code msg cause"

definition Integrity :: "string \<Rightarrow> string \<Rightarrow> go_error option \<Rightarrow> go_error" where
  "Integrity code msg cause = ClassifiedError CategoryIntegrity code msg cause"

definition Incident :: "string \<Rightarrow> string \<Rightarrow> go_error option \<Rightarrow> go_error" where
  "Incident code msg cause = ClassifiedError CategoryIncident code msg cause"

lemmas error_defs = Structural_def Authority_def Operational_def Integrity_def Incident_def

text \<open>The rendered message: \<open>category[code]: msg\<close>, then the cause's rendering.\<close>

fun Error_String :: "go_error \<Rightarrow> string" where
  "Error_String (ClassifiedError c code msg None) =
     Category_String c @ ''['' @ code @ '']: '' @ msg"
| "Error_String (ClassifiedError c code msg (Some e)) =
     Category_String c @ ''['' @ code @ '']: '' @ msg @ '': '' @ Error_String e"
| "Error_String (PlainError msg cause) = msg"

text \<open>
  \<open>stderrors.As(err, &e)\<close> for the interface of classified errors: the first classified error on
  the chain that starts at \<open>err\<close> itself and follows \<open>Unwrap\<close>.
\<close>

fun As_classified :: "go_error \<Rightarrow> go_error option" where
  "As_classified (ClassifiedError c code msg cause) = Some (ClassifiedError c code msg cause)"
| "As_classified (PlainError msg None) = None"
| "As_classified (PlainError msg (Some e)) = As_classified e"

definition CategoryOf :: "go_error option \<Rightarrow> Category" where
  "CategoryOf err =
     (case Option.bind err As_classified of
        Some (ClassifiedError c code msg cause) \<Rightarrow> c
      | _ \<Rightarrow> CategoryUnknown)"

definition Is :: "go_error option \<Rightarrow> Category \<Rightarrow> bool" where
  "Is err cat =
     (case Option.bind err As_classified of
        Some (ClassifiedError c code msg cause) \<Rightarrow> c = cat
      | _ \<Rightarrow> False)"

definition CodeOf :: "go_error option \<Rightarrow> string" where
  "CodeOf err =
     (case Option.bind err As_classified of
        Some (ClassifiedError c code msg cause) \<Rightarrow> code
      | _ \<Rightarrow> [])"

abbreviation CodeSchemaVersionUnsupported :: string where
  "CodeSchemaVersionUnsupported \<equiv> ''schema_version_unsupported''"
abbreviation CodeRequiredFieldMissing :: string where
  "CodeRequiredFieldMissing \<equiv> ''required_field_missing''"
abbreviation CodeFieldValueInvalid :: string where
  "CodeFieldValueInvalid \<equiv> ''field_value_invalid''"
abbreviation CodeCrossFieldInconsistent :: string where
  "CodeCrossFieldInconsistent \<equiv> ''cross_field_inconsistent''"
abbreviation CodeSessionExpired :: string where
  "CodeSessionExpired \<equiv> ''session_expired''"
abbreviation CodeSessionInvalidated :: string where
  "CodeSessionInvalidated \<equiv> ''session_invalidated''"
abbreviation CodeAttestationDenied :: string where
  "CodeAttestationDenied \<equiv> ''attestation_denied''"
abbreviation CodePolicyDrifted :: string where
  "CodePolicyDrifted \<equiv> ''policy_drifted''"
abbreviation CodeIssuerFinalized :: string where
  "CodeIssuerFinalized \<equiv> ''issuer_finalized''"
abbreviation CodeSignatureInvalid :: string where
  "CodeSignatureInvalid \<equiv> ''signature_invalid''"
abbreviation CodeTamperSignal :: string where
  "CodeTamperSignal \<equiv> ''tamper_signal''"
abbreviation CodeResourceExhausted :: string where
  "CodeResourceExhausted \<equiv> ''resource_exhausted''"

section \<open>Classification\<close>

lemma CategoryOf_simps [simp]:
  "CategoryOf None = CategoryUnknown"
  "CategoryOf (Some (Structural c m x)) = CategoryStructural"
  "CategoryOf (Some (Authority c m x)) = CategoryAuthority"
  "CategoryOf (Some (Operational c m x)) = CategoryOperational"
  "CategoryOf (Some (Integrity c m x)) = CategoryIntegrity"
  "CategoryOf (Some (Incident c m x)) = CategoryIncident"
  by (simp_all add: CategoryOf_def error_defs)

lemma As_classified_shape:
  "As_classified e = Some e' \<Longrightarrow> \<exists>c code msg cause. e' = ClassifiedError c code msg cause"
  by (induction e rule: As_classified.induct) auto

lemma Is_iff_CategoryOf:
  "cat \<noteq> CategoryUnknown \<Longrightarrow> Is err cat \<longleftrightarrow> CategoryOf err = cat"
  by (cases "Option.bind err As_classified")
    (auto simp: Is_def CategoryOf_def split: go_error.splits)

end
