(* ===== verification/LogEntry.thy ===== *)
theory LogEntry
  imports Errors
begin

text \<open>
  One witnessed event of the transparency log
  (src/internal/contracts/witness/log_entry.go): the record, its structural gate, the fixed
  binary packing that is the pre-image of its leaf hash, the derivation of leaf hash and entry
  id, and the content-addressing gate \<open>Validate\<close>.

  \<open>H\<close> is \<open>crypto.SHA256\<close>. The lemmas show that the packing loses nothing (two well-formed
  entries with one packing are one entry), so that a validated leaf hash commits to every field.
\<close>

record LogEntry =
  LE_SchemaVersion :: u16
  LE_EntryID :: string
  LE_Index :: u64
  LE_PrevLeafHash :: bytes
  LE_LeafHash :: bytes
  LE_Timestamp :: gotime
  LE_GenomeID :: string
  LE_AttestationRoot :: bytes
  LE_BatteryMerkleRoot :: bytes
  LE_ScorecardRoot :: bytes
  LE_ParentGenomeID :: string
  LE_DerivationMethod :: string

definition SchemaVersionMin :: u16 where
  "SchemaVersionMin = 1"

definition SchemaVersionMax :: u16 where
  "SchemaVersionMax = 1"

definition SchemaVersionCurrent :: u16 where
  "SchemaVersionCurrent = 1"

definition EntryIDPrefix :: string where
  "EntryIDPrefix = ''log:''"

definition leafTag :: byte where
  "leafTag = 0"

definition nodeTag :: byte where
  "nodeTag = 1"

definition isKnownDerivation :: "string \<Rightarrow> bool" where
  "isKnownDerivation m =
     (m = ''fine-tune'' \<or> m = ''distill'' \<or> m = ''merge'' \<or> m = ''quantize'' \<or> m = ''reconstruct'')"

definition validateStructural :: "LogEntry \<Rightarrow> go_error option" where
  "validateStructural e =
     (let allZero = isAllZero (LE_PrevLeafHash e);
          hasParent = (LE_ParentGenomeID e \<noteq> []);
          hasMethod = (LE_DerivationMethod e \<noteq> [])
      in first_err
        [chk (LE_SchemaVersion e < SchemaVersionMin \<or> LE_SchemaVersion e > SchemaVersionMax)
           (Structural CodeSchemaVersionUnsupported ''log_entry: schema_version out of supported range'' None),
         chk (length (LE_PrevLeafHash e) \<noteq> HashSize)
           (Structural CodeFieldValueInvalid ''log_entry: prev_leaf_hash must be 32 bytes'' None),
         chk (LE_Index e = 0 \<and> \<not> allZero)
           (Structural CodeCrossFieldInconsistent ''log_entry: prev_leaf_hash must be all-zero at index 0'' None),
         chk (LE_Index e \<noteq> 0 \<and> allZero)
           (Structural CodeCrossFieldInconsistent ''log_entry: prev_leaf_hash must be non-zero at index > 0'' None),
         chk (LE_Timestamp e = zero_time)
           (Structural CodeRequiredFieldMissing ''log_entry: timestamp required'' None),
         chk (LE_GenomeID e = [])
           (Structural CodeRequiredFieldMissing ''log_entry: genome_id required'' None),
         chk (length (LE_AttestationRoot e) \<noteq> HashSize)
           (Structural CodeFieldValueInvalid ''log_entry: attestation_root must be 32 bytes'' None),
         chk (length (LE_BatteryMerkleRoot e) \<noteq> HashSize)
           (Structural CodeFieldValueInvalid ''log_entry: battery_merkle_root must be 32 bytes'' None),
         chk (length (LE_ScorecardRoot e) \<noteq> HashSize)
           (Structural CodeFieldValueInvalid ''log_entry: scorecard_root must be 32 bytes'' None),
         chk (hasParent \<noteq> hasMethod)
           (Structural CodeCrossFieldInconsistent
              ''log_entry: parent_genome_id and derivation_method must be set together'' None),
         chk (hasMethod \<and> \<not> isKnownDerivation (LE_DerivationMethod e))
           (Structural CodeFieldValueInvalid
              (''log_entry: unknown derivation_method: '' @ LE_DerivationMethod e) None)])"

definition canonicalLeafBytes :: "LogEntry \<Rightarrow> bytes" where
  "canonicalLeafBytes e =
     PutUint16 (LE_SchemaVersion e) @
     PutUint64 (LE_Index e) @
     LE_PrevLeafHash e @
     PutUint64 (UnixNano (LE_Timestamp e)) @
     len_prefixed (string_bytes (LE_GenomeID e)) @
     LE_AttestationRoot e @ LE_BatteryMerkleRoot e @ LE_ScorecardRoot e @
     len_prefixed (string_bytes (LE_ParentGenomeID e)) @
     len_prefixed (string_bytes (LE_DerivationMethod e))"

text \<open>The bytes hashed for a leaf: the leaf tag, then the packing.\<close>

definition leaf_input :: "LogEntry \<Rightarrow> bytes" where
  "leaf_input e = leafTag # canonicalLeafBytes e"

definition DeriveLeafHashAndID ::
    "(bytes \<Rightarrow> bytes) \<Rightarrow> LogEntry option \<Rightarrow> go_error + bytes \<times> string" where
  "DeriveLeafHashAndID H r =
     (case r of
        None \<Rightarrow> Inl (Structural CodeRequiredFieldMissing ''log_entry: nil receiver'' None)
      | Some e \<Rightarrow>
          guardR (validateStructural e)
            (let h = H (leaf_input e) in Inr (h, EntryIDPrefix @ hex_encode h)))"

definition LogEntry_Validate :: "(bytes \<Rightarrow> bytes) \<Rightarrow> LogEntry \<Rightarrow> go_error option" where
  "LogEntry_Validate H e =
     first_err
       [validateStructural e,
        chk (length (LE_LeafHash e) \<noteq> HashSize)
          (Structural CodeFieldValueInvalid ''log_entry: leaf_hash must be 32 bytes'' None),
        chk (LE_EntryID e = [])
          (Structural CodeRequiredFieldMissing
             ''log_entry: entry_id required (run DeriveLeafHashAndID before Validate)'' None),
        (case DeriveLeafHashAndID H (Some (e\<lparr>LE_EntryID := [], LE_LeafHash := []\<rparr>)) of
           Inl err \<Rightarrow> Some err
         | Inr (derivedLeaf, derivedID) \<Rightarrow>
             first_err
               [chk (derivedLeaf \<noteq> LE_LeafHash e)
                  (Integrity CodeSignatureInvalid ''log_entry: derived leaf_hash disagrees with stored'' None),
                chk (derivedID \<noteq> LE_EntryID e)
                  (Integrity CodeSignatureInvalid ''log_entry: derived entry_id disagrees with stored'' None)])]"

text \<open>
  What the packing needs to be read back: the variable fields fit their 4-byte length prefix and
  the instant fits the 64-bit nanosecond count it is written as.
\<close>

definition packable :: "LogEntry \<Rightarrow> bool" where
  "packable e \<longleftrightarrow>
     length (LE_GenomeID e) < 2 ^ 32 \<and> length (LE_ParentGenomeID e) < 2 ^ 32 \<and>
     length (LE_DerivationMethod e) < 2 ^ 32 \<and>
     - (2 ^ 63) \<le> LE_Timestamp e \<and> LE_Timestamp e < 2 ^ 63"

text \<open>The payload of an entry: everything but the two derived fields.\<close>

definition payload :: "LogEntry \<Rightarrow> LogEntry" where
  "payload e = e\<lparr>LE_EntryID := [], LE_LeafHash := []\<rparr>"

section \<open>The structural gate\<close>

lemma schema_gate:
  "\<not> (v < SchemaVersionMin \<or> v > SchemaVersionMax) \<longleftrightarrow> v = 1"
proof -
  have "v < 1 \<longleftrightarrow> v = 0"
    by simp
  moreover have "\<not> v > 1 \<Longrightarrow> v = 0 \<or> v = 1"
    by unat_arith
  ultimately show ?thesis
    by (auto simp: SchemaVersionMin_def SchemaVersionMax_def)
qed

lemma validateStructural_ok:
  "validateStructural e = None \<longleftrightarrow>
     LE_SchemaVersion e = 1 \<and> length (LE_PrevLeafHash e) = 32 \<and>
     (LE_Index e = 0 \<longleftrightarrow> LE_PrevLeafHash e = zeros 32) \<and>
     LE_Timestamp e \<noteq> zero_time \<and> LE_GenomeID e \<noteq> [] \<and>
     length (LE_AttestationRoot e) = 32 \<and> length (LE_BatteryMerkleRoot e) = 32 \<and>
     length (LE_ScorecardRoot e) = 32 \<and>
     (LE_ParentGenomeID e = [] \<longleftrightarrow> LE_DerivationMethod e = []) \<and>
     (LE_DerivationMethod e = [] \<or> isKnownDerivation (LE_DerivationMethod e))"
  by (simp add: validateStructural_def Let_def HashSize_def schema_gate isAllZero_iff
      del: de_Morgan_disj) (auto simp: isAllZero_iff)

lemma validateStructural_category:
  "validateStructural e = Some err \<Longrightarrow> CategoryOf (Some err) = CategoryStructural"
  unfolding validateStructural_def Let_def
  by (drule first_err_in_set) auto

lemma validateStructural_derived [simp]:
  "validateStructural (e\<lparr>LE_EntryID := i\<rparr>) = validateStructural e"
  "validateStructural (e\<lparr>LE_LeafHash := h\<rparr>) = validateStructural e"
  by (simp_all add: validateStructural_def)

lemma leaf_input_derived [simp]:
  "leaf_input (e\<lparr>LE_EntryID := i\<rparr>) = leaf_input e"
  "leaf_input (e\<lparr>LE_LeafHash := h\<rparr>) = leaf_input e"
  by (simp_all add: leaf_input_def canonicalLeafBytes_def)

lemma DeriveLeafHashAndID_Inr [simp]:
  "DeriveLeafHashAndID H (Some e) = Inr (h, i) \<longleftrightarrow>
     validateStructural e = None \<and> h = H (leaf_input e) \<and> i = EntryIDPrefix @ hex_encode h"
  by (auto simp: DeriveLeafHashAndID_def Let_def)

lemma EntryIDPrefix_not_Nil [simp]: "EntryIDPrefix @ s \<noteq> []"
  by (simp add: EntryIDPrefix_def)

section \<open>The content-addressing gate\<close>

lemma LogEntry_Validate_ok:
  "LogEntry_Validate H e = None \<longleftrightarrow>
     validateStructural e = None \<and> length (LE_LeafHash e) = 32 \<and>
     LE_LeafHash e = H (leaf_input e) \<and>
     LE_EntryID e = EntryIDPrefix @ hex_encode (LE_LeafHash e)"
proof (cases "validateStructural e")
  case None
  then have d: "DeriveLeafHashAndID H (Some (e\<lparr>LE_EntryID := [], LE_LeafHash := []\<rparr>)) =
      Inr (H (leaf_input e), EntryIDPrefix @ hex_encode (H (leaf_input e)))"
    by simp
  with None show ?thesis
    by (auto simp: LogEntry_Validate_def d HashSize_def EntryIDPrefix_def)
next
  case (Some err)
  then show ?thesis by (simp add: LogEntry_Validate_def)
qed

section \<open>The packing loses nothing\<close>

lemma canonicalLeafBytes_inj:
  assumes "validateStructural a = None" and "validateStructural b = None"
    and "packable a" and "packable b"
    and eq: "canonicalLeafBytes a = canonicalLeafBytes b"
  shows "payload a = payload b"
proof -
  have len: "length (LE_PrevLeafHash a) = length (LE_PrevLeafHash b)"
      "length (LE_AttestationRoot a) = length (LE_AttestationRoot b)"
      "length (LE_BatteryMerkleRoot a) = length (LE_BatteryMerkleRoot b)"
      "length (LE_ScorecardRoot a) = length (LE_ScorecardRoot b)"
    using assms(1,2) by (simp_all add: validateStructural_ok)
  have "LE_SchemaVersion a = LE_SchemaVersion b \<and> LE_Index a = LE_Index b \<and>
      LE_PrevLeafHash a = LE_PrevLeafHash b \<and>
      UnixNano (LE_Timestamp a) = UnixNano (LE_Timestamp b) \<and>
      LE_GenomeID a = LE_GenomeID b \<and> LE_AttestationRoot a = LE_AttestationRoot b \<and>
      LE_BatteryMerkleRoot a = LE_BatteryMerkleRoot b \<and> LE_ScorecardRoot a = LE_ScorecardRoot b \<and>
      LE_ParentGenomeID a = LE_ParentGenomeID b \<and> LE_DerivationMethod a = LE_DerivationMethod b"
    using eq len assms(3,4)
    by (simp add: canonicalLeafBytes_def packable_def codec_simps)
  then show ?thesis
    using assms(3,4) by (simp add: payload_def packable_def UnixNano_inj)
qed

text \<open>
  Two validated entries with one leaf hash agree on every field, or their packings are a
  collision of the hash.
\<close>

lemma leaf_hash_commits:
  assumes "LogEntry_Validate H a = None" and "LogEntry_Validate H b = None"
    and "packable a" and "packable b" and "LE_LeafHash a = LE_LeafHash b"
  shows "a = b \<or> collides H (leaf_input a) (leaf_input b)"
proof (cases "leaf_input a = leaf_input b")
  case True
  then have "payload a = payload b"
    using assms by (intro canonicalLeafBytes_inj) (auto simp: LogEntry_Validate_ok leaf_input_def)
  moreover have "LE_EntryID a = LE_EntryID b"
    using assms by (simp add: LogEntry_Validate_ok)
  ultimately show ?thesis
    using assms(5) by (cases a, cases b) (simp add: payload_def)
next
  case False
  then show ?thesis
    using assms by (auto simp: collides_def LogEntry_Validate_ok)
qed

end
