(* ===== verification/Signatures.thy ===== *)
theory Signatures
  imports Errors
begin

text \<open>
  The signature suites of src/internal/shared/crypto/signature_suite.go and the AES-256-GCM
  helpers of gcm.go. The standard library's Ed25519, ECDSA P-384, ML-DSA-87 and AES-GCM are the
  fields of a record \<open>prims\<close> that every definition takes; \<open>prims_ok\<close> states what the library
  documents of them: what a key signs verifies under its public half, the sizes, and that a
  sealed message, longer by its nonce and tag, opens to itself. A private key is the library's opaque value, as bytes.

  ECDSA and ML-DSA sign with fresh randomness and GCM draws its nonce: the fields give the value
  one call produced.
\<close>

record prims =
  pr_ed_public :: "bytes \<Rightarrow> bytes"
  pr_ed_sign :: "bytes \<Rightarrow> bytes \<Rightarrow> bytes"
  pr_ed_verify :: "bytes \<Rightarrow> bytes \<Rightarrow> bytes \<Rightarrow> bool"
  pr_ec_public :: "bytes \<Rightarrow> go_error + bytes"
  pr_ec_sign :: "bytes \<Rightarrow> bytes \<Rightarrow> go_error + nat \<times> nat"
  pr_ec_parse :: "bytes \<Rightarrow> go_error option"
  pr_ec_verify :: "bytes \<Rightarrow> bytes \<Rightarrow> nat \<Rightarrow> nat \<Rightarrow> bool"
  pr_ml_public :: "bytes \<Rightarrow> bytes"
  pr_ml_sign :: "bytes \<Rightarrow> bytes \<Rightarrow> go_error + bytes"
  pr_ml_parse :: "bytes \<Rightarrow> go_error option"
  pr_ml_verify :: "bytes \<Rightarrow> bytes \<Rightarrow> bytes \<Rightarrow> go_error option"
  pr_gcm_seal :: "bytes \<Rightarrow> bytes \<Rightarrow> bytes \<Rightarrow> bytes"
  pr_gcm_open :: "bytes \<Rightarrow> bytes \<Rightarrow> bytes \<Rightarrow> go_error + bytes"

type_synonym SignatureSuite = string

definition SuiteEd25519 :: SignatureSuite where
  "SuiteEd25519 = ''ed25519''"

definition SuiteECDSAP384SHA384 :: SignatureSuite where
  "SuiteECDSAP384SHA384 = ''ecdsa-p384-sha384''"

definition SuiteMLDSA87 :: SignatureSuite where
  "SuiteMLDSA87 = ''ml-dsa-87''"

lemmas suite_defs = SuiteEd25519_def SuiteECDSAP384SHA384_def SuiteMLDSA87_def

definition Suites :: "SignatureSuite list" where
  "Suites = [SuiteEd25519, SuiteECDSAP384SHA384, SuiteMLDSA87]"

text \<open>A name in an error message: cut at 64 bytes, in double quotes.\<close>

definition quote :: "string \<Rightarrow> string" where
  "quote s = [CHR 0x22] @ (if length s > 64 then take 64 s @ [CHR 0xE2, CHR 0x80, CHR 0xA6] else s) @ [CHR 0x22]"

definition ParseSignatureSuite :: "string \<Rightarrow> go_error + SignatureSuite" where
  "ParseSignatureSuite s =
     (if s = SuiteEd25519 \<or> s = SuiteECDSAP384SHA384 \<or> s = SuiteMLDSA87 then Inr s
      else Inl (Structural CodeFieldValueInvalid
        (''crypto: unknown signature suite '' @ quote s @ '' (ed25519, ecdsa-p384-sha384, ml-dsa-87)'') None))"

definition RecordSuite :: "SignatureSuite \<Rightarrow> go_error + SignatureSuite" where
  "RecordSuite alg = (if alg = [] then Inr SuiteEd25519 else ParseSignatureSuite alg)"

definition RecordAlg :: "SignatureSuite \<Rightarrow> SignatureSuite" where
  "RecordAlg suite = (if suite = SuiteEd25519 then [] else suite)"

definition SuiteOrDefault :: "string \<Rightarrow> go_error + SignatureSuite" where
  "SuiteOrDefault s = (if s = [] then Inr SuiteEd25519 else ParseSignatureSuite s)"

definition Suite_Valid :: "SignatureSuite \<Rightarrow> bool" where
  "Suite_Valid s = (case ParseSignatureSuite s of Inl err \<Rightarrow> False | Inr r \<Rightarrow> True)"

definition SignatureSize :: "SignatureSuite \<Rightarrow> nat" where
  "SignatureSize s =
     (if s = SuiteEd25519 then 64 else if s = SuiteECDSAP384SHA384 then 96
      else if s = SuiteMLDSA87 then 4627 else 0)"

definition PublicKeySize :: "SignatureSuite \<Rightarrow> nat" where
  "PublicKeySize s =
     (if s = SuiteEd25519 then 32 else if s = SuiteECDSAP384SHA384 then 97
      else if s = SuiteMLDSA87 then 2592 else 0)"

definition SeedSize :: "SignatureSuite \<Rightarrow> nat" where
  "SeedSize s = (if s = SuiteEd25519 then 32 else if s = SuiteMLDSA87 then 32 else 0)"

definition unknown_suite :: "string \<Rightarrow> go_error" where
  "unknown_suite s =
     Structural CodeFieldValueInvalid (''crypto: unknown signature suite '' @ quote s) None"

definition Suite_Available :: "prims \<Rightarrow> SignatureSuite \<Rightarrow> go_error option" where
  "Suite_Available P s =
     (if s = SuiteEd25519 \<or> s = SuiteECDSAP384SHA384 then None
      else if s = SuiteMLDSA87
      then (case pr_ml_parse P (zeros 2592) of
              None \<Rightarrow> None
            | Some err \<Rightarrow> Some (Structural CodeFieldValueInvalid
                ''crypto: signature suite ml-dsa-87 is unavailable on this build'' (Some err)))
      else Some (unknown_suite s))"

text \<open>A private key of one suite; \<open>None\<close> where the key was wiped or never set.\<close>

record SigningKey =
  SK_suite :: SignatureSuite
  SK_priv :: "bytes option"

definition SigningKeyFromSeed :: "prims \<Rightarrow> SignatureSuite \<Rightarrow> bytes \<Rightarrow> go_error + SigningKey" where
  "SigningKeyFromSeed P suite seed =
     (if suite = SuiteEd25519
      then (if length seed \<noteq> 32
            then Inl (Structural CodeFieldValueInvalid ''crypto: ed25519 seed must be 32 bytes'' None)
            else Inr \<lparr>SK_suite = suite, SK_priv = Some seed\<rparr>)
      else if suite = SuiteMLDSA87
      then (if length seed \<noteq> 32
            then Inl (Structural CodeFieldValueInvalid ''crypto: ml-dsa-87 seed must be 32 bytes'' None)
            else (case pr_ml_parse P (zeros 2592) of
                    Some err \<Rightarrow> Inl (Structural CodeFieldValueInvalid
                      ''crypto: ml-dsa-87 key from seed failed'' (Some err))
                  | None \<Rightarrow> Inr \<lparr>SK_suite = suite, SK_priv = Some seed\<rparr>))
      else if suite = SuiteECDSAP384SHA384
      then Inl (Structural CodeFieldValueInvalid
             ''crypto: ecdsa-p384-sha384 has no seed form; the key is PKCS#8'' None)
      else Inl (unknown_suite suite))"

definition PublicKeyBytes :: "prims \<Rightarrow> SigningKey \<Rightarrow> bytes" where
  "PublicKeyBytes P k =
     (case SK_priv k of
        None \<Rightarrow> []
      | Some v \<Rightarrow>
          if SK_suite k = SuiteEd25519 then pr_ed_public P v
          else if SK_suite k = SuiteECDSAP384SHA384
          then (case pr_ec_public P v of Inl err \<Rightarrow> [] | Inr b \<Rightarrow> b)
          else if SK_suite k = SuiteMLDSA87 then pr_ml_public P v
          else [])"

text \<open>The fixed-length \<open>r || s\<close> of an ECDSA signature: 48 bytes each, big-endian.\<close>

definition ecdsaFixedFromASN1 :: "nat \<times> nat \<Rightarrow> go_error + bytes" where
  "ecdsaFixedFromASN1 rs =
     (case rs of (r, s) \<Rightarrow>
        if r = 0 \<or> s = 0 \<or> r \<ge> 2 ^ 384 \<or> s \<ge> 2 ^ 384
        then Inl (Integrity CodeFieldValueInvalid ''crypto: ecdsa signature encoding invalid'' None)
        else Inr (be 48 r @ be 48 s))"

definition SigningKey_Sign :: "prims \<Rightarrow> SigningKey \<Rightarrow> bytes \<Rightarrow> go_error + bytes" where
  "SigningKey_Sign P k msg =
     (case SK_priv k of
        None \<Rightarrow> Inl (Structural CodeRequiredFieldMissing ''crypto: empty signing key'' None)
      | Some v \<Rightarrow>
          if SK_suite k = SuiteEd25519 then Inr (pr_ed_sign P v msg)
          else if SK_suite k = SuiteECDSAP384SHA384
          then (case pr_ec_sign P v msg of
                  Inl err \<Rightarrow> Inl (Integrity CodeFieldValueInvalid
                    ''crypto: ecdsa P-384 signing failed'' (Some err))
                | Inr rs \<Rightarrow> ecdsaFixedFromASN1 rs)
          else if SK_suite k = SuiteMLDSA87
          then (case pr_ml_sign P v msg of
                  Inl err \<Rightarrow> Inl (Structural CodeFieldValueInvalid
                    ''crypto: ml-dsa-87 signing failed'' (Some err))
                | Inr sig \<Rightarrow> Inr sig)
          else Inl (Structural CodeRequiredFieldMissing ''crypto: empty signing key'' None))"

definition SigningKey_Zeroize :: "SigningKey \<Rightarrow> SigningKey" where
  "SigningKey_Zeroize k = k\<lparr>SK_priv := None\<rparr>"

definition VerifySuite ::
    "prims \<Rightarrow> SignatureSuite \<Rightarrow> bytes \<Rightarrow> bytes \<Rightarrow> bytes \<Rightarrow> go_error option" where
  "VerifySuite P suite pub msg sig =
     (if PublicKeySize suite = 0 then Some (unknown_suite suite)
      else if length pub \<noteq> PublicKeySize suite
      then Some (Structural CodeFieldValueInvalid (''crypto: '' @ suite @ '' public key length wrong'') None)
      else if length sig \<noteq> SignatureSize suite
      then Some (Integrity CodeSignatureInvalid (''crypto: '' @ suite @ '' signature length wrong'') None)
      else if suite = SuiteEd25519
      then chk (\<not> pr_ed_verify P pub msg sig)
             (Integrity CodeSignatureInvalid ''crypto: ed25519 signature verification failed'' None)
      else if suite = SuiteECDSAP384SHA384
      then (case pr_ec_parse P pub of
              Some err \<Rightarrow> Some (Structural CodeFieldValueInvalid
                ''crypto: ecdsa P-384 public key invalid'' (Some err))
            | None \<Rightarrow> chk (\<not> pr_ec_verify P pub msg (unbe (take 48 sig)) (unbe (drop 48 sig)))
                (Integrity CodeSignatureInvalid
                   ''crypto: ecdsa-p384-sha384 signature verification failed'' None))
      else if suite = SuiteMLDSA87
      then (case pr_ml_parse P pub of
              Some err \<Rightarrow>
                (case Suite_Available P suite of
                   Some avail \<Rightarrow> Some avail
                 | None \<Rightarrow> Some (Structural CodeFieldValueInvalid
                     ''crypto: ml-dsa-87 public key invalid'' (Some err)))
            | None \<Rightarrow>
                (case pr_ml_verify P pub msg sig of
                   Some err \<Rightarrow> Some (Integrity CodeSignatureInvalid
                     ''crypto: ml-dsa-87 signature verification failed'' (Some err))
                 | None \<Rightarrow> None))
      else Some (unknown_suite suite))"

definition VerifyRecord ::
    "prims \<Rightarrow> SignatureSuite \<Rightarrow> bytes \<Rightarrow> SignatureSuite \<Rightarrow> bytes \<Rightarrow> bytes \<Rightarrow> go_error option" where
  "VerifyRecord P suite pub alg msg sig =
     (case RecordSuite alg of
        Inl err \<Rightarrow> Some err
      | Inr want \<Rightarrow>
          if suite = []
          then Some (Structural CodeRequiredFieldMissing
                 ''crypto: verifying key names no signature suite'' None)
          else if want \<noteq> suite
          then Some (Integrity CodeSignatureInvalid
                 (''crypto: record alg '' @ quote want @ '' does not match the key's suite '' @ quote suite) None)
          else VerifySuite P suite pub msg sig)"

section \<open>AES-256-GCM\<close>

definition NewGCM :: "bytes \<Rightarrow> go_error + bytes" where
  "NewGCM key =
     (if length key \<noteq> 32
      then Inl (Structural CodeFieldValueInvalid ''crypto: AES-256 key must be 32 bytes'' None)
      else Inr key)"

definition GCM_Seal :: "prims \<Rightarrow> bytes \<Rightarrow> bytes \<Rightarrow> bytes \<Rightarrow> go_error + bytes \<times> bytes" where
  "GCM_Seal P key plaintext aad =
     bindR (NewGCM key) (\<lambda>aead.
       let out = pr_gcm_seal P aead plaintext aad
       in if length out < 12 + 16
          then Inl (Integrity CodeFieldValueInvalid ''crypto: GCM seal produced a short output'' None)
          else Inr (take 12 out, drop 12 out))"

definition GCM_Open :: "prims \<Rightarrow> bytes \<Rightarrow> bytes \<Rightarrow> bytes \<Rightarrow> bytes \<Rightarrow> go_error + bytes" where
  "GCM_Open P key nonce ciphertext aad =
     bindR (NewGCM key) (\<lambda>aead.
       if length nonce \<noteq> 12
       then Inl (Structural CodeFieldValueInvalid ''crypto: GCM nonce must be 12 bytes'' None)
       else (case pr_gcm_open P aead (nonce @ ciphertext) aad of
               Inl err \<Rightarrow> Inl (Integrity CodeSignatureInvalid
                 ''crypto: GCM open failed (authentication)'' (Some err))
             | Inr plaintext \<Rightarrow> Inr plaintext))"

section \<open>What the standard library documents\<close>

definition prims_ok :: "prims \<Rightarrow> bool" where
  "prims_ok P \<longleftrightarrow>
     (\<forall>k m. length (pr_ed_public P k) = 32 \<and> length (pr_ed_sign P k m) = 64 \<and>
        pr_ed_verify P (pr_ed_public P k) m (pr_ed_sign P k m)) \<and>
     (\<forall>k m b r s. pr_ec_public P k = Inr b \<longrightarrow> pr_ec_sign P k m = Inr (r, s) \<longrightarrow>
        pr_ec_parse P b = None \<and> pr_ec_verify P b m r s) \<and>
     (\<forall>k m sig. pr_ml_sign P k m = Inr sig \<longrightarrow>
        length sig = 4627 \<and> pr_ml_parse P (pr_ml_public P k) = None \<and>
        pr_ml_verify P (pr_ml_public P k) m sig = None) \<and>
     (\<forall>k p a. length (pr_gcm_seal P k p a) = 28 + length p \<and>
        pr_gcm_open P k (pr_gcm_seal P k p a) a = Inr p)"

lemma suites_distinct [simp]:
  "SuiteEd25519 \<noteq> SuiteECDSAP384SHA384" "SuiteECDSAP384SHA384 \<noteq> SuiteEd25519"
  "SuiteEd25519 \<noteq> SuiteMLDSA87" "SuiteMLDSA87 \<noteq> SuiteEd25519"
  "SuiteECDSAP384SHA384 \<noteq> SuiteMLDSA87" "SuiteMLDSA87 \<noteq> SuiteECDSAP384SHA384"
  "SuiteEd25519 \<noteq> []" "SuiteECDSAP384SHA384 \<noteq> []" "SuiteMLDSA87 \<noteq> []"
  "[] \<noteq> SuiteEd25519" "[] \<noteq> SuiteECDSAP384SHA384" "[] \<noteq> SuiteMLDSA87"
  by (simp_all add: suite_defs)

lemma Suite_Valid_iff:
  "Suite_Valid s \<longleftrightarrow> s = SuiteEd25519 \<or> s = SuiteECDSAP384SHA384 \<or> s = SuiteMLDSA87"
  by (auto simp: Suite_Valid_def ParseSignatureSuite_def)

lemma RecordSuite_RecordAlg: "Suite_Valid s \<Longrightarrow> RecordSuite (RecordAlg s) = Inr s"
  by (auto simp: Suite_Valid_iff RecordSuite_def RecordAlg_def ParseSignatureSuite_def)

lemma unbe_be_48: "r < 2 ^ 384 \<Longrightarrow> unbe (be 48 r) = r"
  by (simp add: unbe_be)

lemma ecdsaFixed_roundtrip:
  "ecdsaFixedFromASN1 (r, s) = Inr sig \<Longrightarrow>
   length sig = 96 \<and> unbe (take 48 sig) = r \<and> unbe (drop 48 sig) = s"
  by (auto simp: ecdsaFixedFromASN1_def unbe_be_48 not_le split: if_splits)

text \<open>What a key of a suite signs verifies under its public half, in every suite.\<close>

lemma VerifySuite_Sign:
  assumes ok: "prims_ok P" and sig: "SigningKey_Sign P k msg = Inr sig"
    and len: "length (PublicKeyBytes P k) = PublicKeySize (SK_suite k)"
  shows "VerifySuite P (SK_suite k) (PublicKeyBytes P k) msg sig = None"
proof -
  from sig obtain v where v: "SK_priv k = Some v"
    by (auto simp: SigningKey_Sign_def split: option.splits)
  from sig v consider (ed) "SK_suite k = SuiteEd25519"
    | (ec) "SK_suite k = SuiteECDSAP384SHA384" | (ml) "SK_suite k = SuiteMLDSA87"
    by (auto simp: SigningKey_Sign_def split: if_splits)
  then show ?thesis
  proof cases
    case ed
    with sig v ok len show ?thesis
      by (auto simp: SigningKey_Sign_def VerifySuite_def PublicKeyBytes_def PublicKeySize_def
          SignatureSize_def prims_ok_def)
  next
    case ec
    with sig v obtain r s where rs: "pr_ec_sign P v msg = Inr (r, s)" "ecdsaFixedFromASN1 (r, s) = Inr sig"
      by (auto simp: SigningKey_Sign_def split: sum.splits)
    from ec len v obtain b where b: "pr_ec_public P v = Inr b"
      by (auto simp: PublicKeyBytes_def PublicKeySize_def split: sum.splits)
    with rs ok have "pr_ec_parse P b = None \<and> pr_ec_verify P b msg r s"
      unfolding prims_ok_def by blast
    with ec v len b ecdsaFixed_roundtrip [OF rs(2)] show ?thesis
      by (simp add: VerifySuite_def PublicKeyBytes_def PublicKeySize_def SignatureSize_def)
  next
    case ml
    with sig v have "pr_ml_sign P v msg = Inr sig"
      by (auto simp: SigningKey_Sign_def split: sum.splits)
    with ok have "length sig = 4627 \<and> pr_ml_parse P (pr_ml_public P v) = None \<and>
        pr_ml_verify P (pr_ml_public P v) msg sig = None"
      unfolding prims_ok_def by blast
    with ml v len show ?thesis
      by (simp add: VerifySuite_def PublicKeyBytes_def PublicKeySize_def SignatureSize_def)
  qed
qed

lemma Sign_not_Nil:
  assumes "prims_ok P" "SigningKey_Sign P k msg = Inr sig"
    "length (PublicKeyBytes P k) = PublicKeySize (SK_suite k)"
  shows "sig \<noteq> []"
proof
  assume "sig = []"
  with VerifySuite_Sign [OF assms] show False
    by (auto simp: VerifySuite_def SignatureSize_def PublicKeySize_def split: if_splits)
qed

text \<open>A record cannot choose an algorithm its key was not made for.\<close>

lemma VerifyRecord_ok:
  "VerifyRecord P suite pub alg msg sig = None \<longleftrightarrow>
     RecordSuite alg = Inr suite \<and> VerifySuite P suite pub msg sig = None"
  by (auto simp: VerifyRecord_def RecordSuite_def ParseSignatureSuite_def split: sum.splits if_splits)

lemma VerifyRecord_Sign:
  assumes "prims_ok P" "SigningKey_Sign P k msg = Inr sig" "Suite_Valid (SK_suite k)"
    "length (PublicKeyBytes P k) = PublicKeySize (SK_suite k)"
  shows "VerifyRecord P (SK_suite k) (PublicKeyBytes P k) (RecordAlg (SK_suite k)) msg sig = None"
  using assms by (simp add: VerifyRecord_ok RecordSuite_RecordAlg VerifySuite_Sign)

text \<open>What was sealed opens to itself under the same key and associated data.\<close>

lemma GCM_roundtrip:
  assumes "prims_ok P" "GCM_Seal P key plaintext aad = Inr (nonce, ct)"
  shows "GCM_Open P key nonce ct aad = Inr plaintext"
  using assms
  by (auto simp: GCM_Seal_def GCM_Open_def Let_def prims_ok_def NewGCM_def split: if_splits)

section \<open>A concrete library\<close>

text \<open>
  An instance that meets \<open>prims_ok\<close>: the private key is its own public half, a signature is the
  message cut or padded to the suite's length, a seal is 28 zero bytes before the message. It
  shows that the documented laws can hold together.
\<close>

definition fit :: "nat \<Rightarrow> bytes \<Rightarrow> bytes" where
  "fit n b = take n (b @ zeros n)"

definition plain_prims :: prims where
  "plain_prims =
     \<lparr>pr_ed_public = fit 32, pr_ed_sign = (\<lambda>k m. fit 64 (fit 32 k @ m)),
      pr_ed_verify = (\<lambda>p m s. s = fit 64 (p @ m)),
      pr_ec_public = (\<lambda>k. Inr (fit 97 k)), pr_ec_sign = (\<lambda>k m. Inr (1, 1)),
      pr_ec_parse = (\<lambda>p. None), pr_ec_verify = (\<lambda>p m r s. r = 1 \<and> s = 1),
      pr_ml_public = fit 2592, pr_ml_sign = (\<lambda>k m. Inr (fit 4627 m)),
      pr_ml_parse = (\<lambda>p. None), pr_ml_verify = (\<lambda>p m s. chk (s \<noteq> fit 4627 m) (PlainError [] None)),
      pr_gcm_seal = (\<lambda>k p a. zeros 28 @ p), pr_gcm_open = (\<lambda>k c a. Inr (drop 28 c))\<rparr>"

lemma length_fit [simp]: "length (fit n b) = n"
  by (simp add: fit_def)

lemma plain_prims_ok: "prims_ok plain_prims"
  by (simp add: prims_ok_def plain_prims_def)

end
