(* ===== verification/KeyStore.thy ===== *)
theory KeyStore
  imports Signatures
begin

text \<open>
  The vault's key store (src/internal/vault/keys/keys.go): signing keys bound to one purpose each,
  AES-256 sealing keys, and the capabilities the rest of the platform sees of it, \<open>Resolver\<close> and
  \<open>Signer\<close>, as records of functions.

  A random key and a clock reading are arguments of the operation that draws them. The mutex
  makes each method one atomic step on the store. \<open>Zeroize\<close> and \<open>EraseSealing\<close> also return what
  the wiped objects hold afterwards, since other references to them may exist.

  The locale \<open>keyring\<close> is the contract the signing clients rely on; it is interpreted on the store.
\<close>

type_synonym KeyID = string

datatype Purpose =
    PurposeUnknown
  | PurposeSigningAuthority
  | PurposeSigningAudit
  | PurposeSealing
  | PurposeSigningWitness

fun Purpose_String :: "Purpose \<Rightarrow> string" where
  "Purpose_String PurposeSigningAuthority = ''signing_authority''"
| "Purpose_String PurposeSigningAudit = ''signing_audit''"
| "Purpose_String PurposeSealing = ''sealing''"
| "Purpose_String PurposeSigningWitness = ''signing_witness''"
| "Purpose_String PurposeUnknown = ''unknown''"

record VerifyingKey =
  VK_KeyID :: KeyID
  VK_Purpose :: Purpose
  VK_Suite :: SignatureSuite
  VK_PublicKey :: bytes
  VK_CreatedAt :: u64

definition VerifyingKey_Verify :: "prims \<Rightarrow> VerifyingKey \<Rightarrow> bytes \<Rightarrow> bytes \<Rightarrow> go_error option" where
  "VerifyingKey_Verify P vk msg sig =
     (if VK_Suite vk = []
      then Some (Structural CodeRequiredFieldMissing ''keys: verifying key names no signature suite'' None)
      else VerifySuite P (VK_Suite vk) (VK_PublicKey vk) msg sig)"

definition VerifyingKey_VerifyRecord ::
    "prims \<Rightarrow> VerifyingKey \<Rightarrow> SignatureSuite \<Rightarrow> bytes \<Rightarrow> bytes \<Rightarrow> go_error option" where
  "VerifyingKey_VerifyRecord P vk alg msg sig =
     VerifyRecord P (VK_Suite vk) (VK_PublicKey vk) alg msg sig"

record signingKey =
  sk_Verifying :: VerifyingKey
  sk_Priv :: SigningKey

record sealingKey =
  sl_KeyID :: KeyID
  sl_Purpose :: Purpose
  sl_Material :: bytes
  sl_CreatedAt :: u64

record Resolver =
  rs_Resolve :: "KeyID \<Rightarrow> Purpose \<Rightarrow> go_error + VerifyingKey"

record Signer =
  sg_Sign :: "KeyID \<Rightarrow> Purpose \<Rightarrow> bytes \<Rightarrow> go_error + bytes"
  sg_Suite :: "KeyID \<Rightarrow> go_error + SignatureSuite"

definition keys_RecordAlg :: "Signer \<Rightarrow> KeyID \<Rightarrow> go_error + SignatureSuite" where
  "keys_RecordAlg signer kid = bindR (sg_Suite signer kid) (\<lambda>suite. Inr (RecordAlg suite))"

record InMemoryStore =
  st_signing :: "KeyID \<rightharpoonup> signingKey"
  st_sealing :: "KeyID \<rightharpoonup> sealingKey"

definition NewInMemoryStore :: InMemoryStore where
  "NewInMemoryStore = \<lparr>st_signing = Map.empty, st_sealing = Map.empty\<rparr>"

definition is_signing_purpose :: "Purpose \<Rightarrow> bool" where
  "is_signing_purpose p =
     (p = PurposeSigningAuthority \<or> p = PurposeSigningAudit \<or> p = PurposeSigningWitness)"

definition RegisterSigningKey ::
    "prims \<Rightarrow> InMemoryStore \<Rightarrow> gotime \<Rightarrow> KeyID \<Rightarrow> Purpose \<Rightarrow> SigningKey option \<Rightarrow>
     (go_error + VerifyingKey) \<times> InMemoryStore" where
  "RegisterSigningKey P s now kid purpose key =
     (if kid = []
      then (Inl (Structural CodeRequiredFieldMissing ''keys: KeyID required'' None), s)
      else if \<not> is_signing_purpose purpose
      then (Inl (Structural CodeFieldValueInvalid ''keys: purpose must be a signing purpose'' None), s)
      else (case key of
          None \<Rightarrow> (Inl (Structural CodeRequiredFieldMissing ''keys: signing key required'' None), s)
        | Some k \<Rightarrow>
            if \<not> Suite_Valid (SK_suite k)
            then (Inl (Structural CodeRequiredFieldMissing ''keys: signing key required'' None), s)
            else (case Suite_Available P (SK_suite k) of
                Some err \<Rightarrow> (Inl err, s)
              | None \<Rightarrow>
                  let pub = PublicKeyBytes P k
                  in if length pub \<noteq> PublicKeySize (SK_suite k)
                     then (Inl (Structural CodeFieldValueInvalid
                             ''keys: signing key has no public key'' None), s)
                     else let vk = \<lparr>VK_KeyID = kid, VK_Purpose = purpose, VK_Suite = SK_suite k,
                                    VK_PublicKey = pub, VK_CreatedAt = UnixNano now\<rparr>
                       in if st_signing s kid \<noteq> None
                          then (Inl (Structural CodeFieldValueInvalid
                                  ''keys: kid already registered (signing)'' None), s)
                          else (Inr vk, s\<lparr>st_signing :=
                                  (st_signing s)(kid \<mapsto> \<lparr>sk_Verifying = vk, sk_Priv = k\<rparr>)\<rparr>))))"

text \<open>\<open>fresh\<close> is what \<open>crypto.GenerateSigningKey(suite, nil)\<close> returned.\<close>

definition GenerateSigningSuite ::
    "prims \<Rightarrow> InMemoryStore \<Rightarrow> gotime \<Rightarrow> KeyID \<Rightarrow> Purpose \<Rightarrow> SignatureSuite \<Rightarrow>
     (go_error + SigningKey) \<Rightarrow> (go_error + VerifyingKey) \<times> InMemoryStore" where
  "GenerateSigningSuite P s now kid purpose suite fresh =
     (case Suite_Available P suite of
        Some err \<Rightarrow> (Inl err, s)
      | None \<Rightarrow> (case fresh of
          Inl err \<Rightarrow> (Inl err, s)
        | Inr key \<Rightarrow> RegisterSigningKey P s now kid purpose (Some key)))"

definition GenerateSigning ::
    "prims \<Rightarrow> InMemoryStore \<Rightarrow> gotime \<Rightarrow> KeyID \<Rightarrow> Purpose \<Rightarrow> (go_error + SigningKey) \<Rightarrow>
     (go_error + VerifyingKey) \<times> InMemoryStore" where
  "GenerateSigning P s now kid purpose fresh =
     GenerateSigningSuite P s now kid purpose SuiteEd25519 fresh"

definition RegisterSigningFromSeed ::
    "prims \<Rightarrow> InMemoryStore \<Rightarrow> gotime \<Rightarrow> KeyID \<Rightarrow> Purpose \<Rightarrow> bytes \<Rightarrow>
     (go_error + VerifyingKey) \<times> InMemoryStore" where
  "RegisterSigningFromSeed P s now kid purpose seed =
     (if kid = []
      then (Inl (Structural CodeRequiredFieldMissing ''keys: KeyID required'' None), s)
      else if \<not> is_signing_purpose purpose
      then (Inl (Structural CodeFieldValueInvalid ''keys: purpose must be a signing purpose'' None), s)
      else if length seed \<noteq> 32
      then (Inl (Structural CodeFieldValueInvalid
              ''keys: seed must be 32 bytes (Ed25519 seed size)'' None), s)
      else (case SigningKeyFromSeed P SuiteEd25519 seed of
          Inl err \<Rightarrow> (Inl err, s)
        | Inr key \<Rightarrow> RegisterSigningKey P s now kid purpose (Some key)))"

definition RegisterSealing ::
    "InMemoryStore \<Rightarrow> gotime \<Rightarrow> KeyID \<Rightarrow> bytes \<Rightarrow> go_error option \<times> InMemoryStore" where
  "RegisterSealing s now kid material =
     (if kid = []
      then (Some (Structural CodeRequiredFieldMissing ''keys: KeyID required'' None), s)
      else if length material \<noteq> 32
      then (Some (Structural CodeFieldValueInvalid
              ''keys: sealing material must be AES256KeySize bytes'' None), s)
      else if st_sealing s kid \<noteq> None
      then (Some (Structural CodeFieldValueInvalid ''keys: kid already registered (sealing)'' None), s)
      else (None, s\<lparr>st_sealing := (st_sealing s)(kid \<mapsto>
              \<lparr>sl_KeyID = kid, sl_Purpose = PurposeSealing, sl_Material = material,
               sl_CreatedAt = UnixNano now\<rparr>)\<rparr>))"

text \<open>\<open>rng\<close> is the outcome of filling 32 bytes from \<open>rand.Reader\<close>.\<close>

definition GenerateSealing ::
    "InMemoryStore \<Rightarrow> gotime \<Rightarrow> KeyID \<Rightarrow> (go_error + bytes) \<Rightarrow> go_error option \<times> InMemoryStore" where
  "GenerateSealing s now kid rng =
     (if kid = []
      then (Some (Structural CodeRequiredFieldMissing ''keys: KeyID required'' None), s)
      else (case rng of
          Inl err \<Rightarrow> (Some (Integrity CodeFieldValueInvalid ''keys: sealing key RNG failed'' (Some err)), s)
        | Inr mat \<Rightarrow>
            if st_sealing s kid \<noteq> None
            then (Some (Structural CodeFieldValueInvalid ''keys: kid already registered (sealing)'' None), s)
            else (None, s\<lparr>st_sealing := (st_sealing s)(kid \<mapsto>
                    \<lparr>sl_KeyID = kid, sl_Purpose = PurposeSealing, sl_Material = mat,
                     sl_CreatedAt = UnixNano now\<rparr>)\<rparr>)))"

definition Store_Resolve :: "InMemoryStore \<Rightarrow> KeyID \<Rightarrow> Purpose \<Rightarrow> go_error + VerifyingKey" where
  "Store_Resolve s kid want =
     (case st_signing s kid of
        None \<Rightarrow> Inl (Authority CodeRequiredFieldMissing ''keys: unknown kid'' None)
      | Some sk \<Rightarrow>
          if VK_Purpose (sk_Verifying sk) \<noteq> want
          then Inl (Integrity CodeFieldValueInvalid ''keys: purpose mismatch on resolve'' None)
          else Inr (sk_Verifying sk))"

definition Store_Sign ::
    "prims \<Rightarrow> InMemoryStore \<Rightarrow> KeyID \<Rightarrow> Purpose \<Rightarrow> bytes \<Rightarrow> go_error + bytes" where
  "Store_Sign P s kid purpose msg =
     (case st_signing s kid of
        None \<Rightarrow> Inl (Authority CodeRequiredFieldMissing ''keys: unknown kid on sign'' None)
      | Some sk \<Rightarrow>
          if VK_Purpose (sk_Verifying sk) \<noteq> purpose
          then Inl (Integrity CodeFieldValueInvalid ''keys: purpose mismatch on sign'' None)
          else SigningKey_Sign P (sk_Priv sk) msg)"

definition Store_Suite :: "InMemoryStore \<Rightarrow> KeyID \<Rightarrow> go_error + SignatureSuite" where
  "Store_Suite s kid =
     (case st_signing s kid of
        None \<Rightarrow> Inl (Authority CodeRequiredFieldMissing ''keys: unknown kid on suite'' None)
      | Some sk \<Rightarrow> Inr (VK_Suite (sk_Verifying sk)))"

definition Store_Seal ::
    "prims \<Rightarrow> InMemoryStore \<Rightarrow> KeyID \<Rightarrow> bytes \<Rightarrow> bytes \<Rightarrow> go_error + bytes \<times> bytes" where
  "Store_Seal P s kid plaintext aad =
     (case st_sealing s kid of
        None \<Rightarrow> Inl (Authority CodeRequiredFieldMissing ''keys: unknown sealing kid'' None)
      | Some k \<Rightarrow> GCM_Seal P (sl_Material k) plaintext aad)"

definition Store_Open ::
    "prims \<Rightarrow> InMemoryStore \<Rightarrow> KeyID \<Rightarrow> bytes \<Rightarrow> bytes \<Rightarrow> bytes \<Rightarrow> go_error + bytes" where
  "Store_Open P s kid nonce ciphertext aad =
     (case st_sealing s kid of
        None \<Rightarrow> Inl (Authority CodeRequiredFieldMissing ''keys: unknown sealing kid'' None)
      | Some k \<Rightarrow> GCM_Open P (sl_Material k) nonce ciphertext aad)"

definition wiped_material :: "bytes \<Rightarrow> bytes" where
  "wiped_material m = map (\<lambda>b. 0) m"

definition EraseSealing :: "InMemoryStore \<Rightarrow> KeyID \<Rightarrow> bool \<times> bytes option \<times> InMemoryStore" where
  "EraseSealing s kid =
     (case st_sealing s kid of
        None \<Rightarrow> (False, None, s)
      | Some k \<Rightarrow> (True, Some (wiped_material (sl_Material k)),
                   s\<lparr>st_sealing := (st_sealing s)(kid := None)\<rparr>))"

definition Zeroize ::
    "InMemoryStore \<Rightarrow> (KeyID \<rightharpoonup> SigningKey) \<times> (KeyID \<rightharpoonup> bytes) \<times> InMemoryStore" where
  "Zeroize s =
     ((\<lambda>kid. map_option (\<lambda>sk. SigningKey_Zeroize (sk_Priv sk)) (st_signing s kid)),
      (\<lambda>kid. map_option (\<lambda>k. wiped_material (sl_Material k)) (st_sealing s kid)),
      s\<lparr>st_signing := Map.empty, st_sealing := Map.empty\<rparr>)"

definition store_resolver :: "InMemoryStore \<Rightarrow> Resolver" where
  "store_resolver s = \<lparr>rs_Resolve = Store_Resolve s\<rparr>"

definition store_signer :: "prims \<Rightarrow> InMemoryStore \<Rightarrow> Signer" where
  "store_signer P s = \<lparr>sg_Sign = Store_Sign P s, sg_Suite = Store_Suite s\<rparr>"

section \<open>The store's invariant\<close>

text \<open>
  Every signing entry is filed under its own id with a signing purpose, and its public half is
  its private key's, in the private key's suite; every sealing entry is filed under its own id
  for sealing, with 32 bytes.
\<close>

definition signing_entry_wf :: "prims \<Rightarrow> KeyID \<Rightarrow> signingKey \<Rightarrow> bool" where
  "signing_entry_wf P kid sk \<longleftrightarrow>
     VK_KeyID (sk_Verifying sk) = kid \<and> kid \<noteq> [] \<and>
     is_signing_purpose (VK_Purpose (sk_Verifying sk)) \<and>
     VK_Suite (sk_Verifying sk) = SK_suite (sk_Priv sk) \<and>
     Suite_Valid (SK_suite (sk_Priv sk)) \<and>
     VK_PublicKey (sk_Verifying sk) = PublicKeyBytes P (sk_Priv sk) \<and>
     length (PublicKeyBytes P (sk_Priv sk)) = PublicKeySize (SK_suite (sk_Priv sk))"

definition sealing_entry_wf :: "KeyID \<Rightarrow> sealingKey \<Rightarrow> bool" where
  "sealing_entry_wf kid k \<longleftrightarrow>
     sl_KeyID k = kid \<and> kid \<noteq> [] \<and> sl_Purpose k = PurposeSealing \<and> length (sl_Material k) = 32"

definition store_wf :: "prims \<Rightarrow> InMemoryStore \<Rightarrow> bool" where
  "store_wf P s \<longleftrightarrow>
     (\<forall>kid sk. st_signing s kid = Some sk \<longrightarrow> signing_entry_wf P kid sk) \<and>
     (\<forall>kid k. st_sealing s kid = Some k \<longrightarrow> sealing_entry_wf kid k)"

text \<open>The operations that change the store, as the steps of a history.\<close>

inductive store_step :: "prims \<Rightarrow> InMemoryStore \<Rightarrow> InMemoryStore \<Rightarrow> bool" for P where
  register: "store_step P s (snd (RegisterSigningKey P s now kid p key))"
| generate_suite: "store_step P s (snd (GenerateSigningSuite P s now kid p suite fresh))"
| generate: "store_step P s (snd (GenerateSigning P s now kid p fresh))"
| from_seed: "store_step P s (snd (RegisterSigningFromSeed P s now kid p seed))"
| register_sealing: "store_step P s (snd (RegisterSealing s now kid material))"
| generate_sealing: "(\<forall>m. rng = Inr m \<longrightarrow> length m = 32) \<Longrightarrow>
    store_step P s (snd (GenerateSealing s now kid rng))"
| erase: "store_step P s (snd (snd (EraseSealing s kid)))"
| zeroize: "store_step P s (snd (snd (Zeroize s)))"

inductive store_reachable :: "prims \<Rightarrow> InMemoryStore \<Rightarrow> bool" for P where
  init: "store_reachable P NewInMemoryStore"
| step: "store_reachable P s \<Longrightarrow> store_step P s s' \<Longrightarrow> store_reachable P s'"

lemma RegisterSigningKey_outcome:
  "(\<exists>e. RegisterSigningKey P s now kid p key = (Inl e, s)) \<or>
   (\<exists>k vk. key = Some k \<and> kid \<noteq> [] \<and> is_signing_purpose p \<and> Suite_Valid (SK_suite k) \<and>
      length (PublicKeyBytes P k) = PublicKeySize (SK_suite k) \<and> st_signing s kid = None \<and>
      vk = \<lparr>VK_KeyID = kid, VK_Purpose = p, VK_Suite = SK_suite k,
            VK_PublicKey = PublicKeyBytes P k, VK_CreatedAt = UnixNano now\<rparr> \<and>
      RegisterSigningKey P s now kid p key =
        (Inr vk, s\<lparr>st_signing := (st_signing s)(kid \<mapsto> \<lparr>sk_Verifying = vk, sk_Priv = k\<rparr>)\<rparr>))"
  by (simp add: RegisterSigningKey_def Let_def split: option.split)

lemma RegisterSigningKey_wf:
  "store_wf P s \<Longrightarrow> store_wf P (snd (RegisterSigningKey P s now kid p key))"
  using RegisterSigningKey_outcome [of P s now kid p key]
  by (elim disjE exE conjE) (auto simp: store_wf_def signing_entry_wf_def)

lemma register_variants_step:
  "snd (GenerateSigningSuite P s now kid p suite fresh) = s \<or>
   (\<exists>key. snd (GenerateSigningSuite P s now kid p suite fresh) = snd (RegisterSigningKey P s now kid p key))"
  "snd (RegisterSigningFromSeed P s now kid p seed) = s \<or>
   (\<exists>key. snd (RegisterSigningFromSeed P s now kid p seed) = snd (RegisterSigningKey P s now kid p key))"
  by (auto simp: GenerateSigningSuite_def RegisterSigningFromSeed_def split: option.splits sum.splits)

lemma store_step_wf: "store_step P s s' \<Longrightarrow> store_wf P s \<Longrightarrow> store_wf P s'"
proof (induction rule: store_step.induct)
  case (register s now kid p key)
  then show ?case by (rule RegisterSigningKey_wf)
next
  case (generate_suite s now kid p suite fresh)
  then show ?case using register_variants_step(1) RegisterSigningKey_wf by metis
next
  case (generate s now kid p fresh)
  then show ?case
    unfolding GenerateSigning_def using register_variants_step(1) RegisterSigningKey_wf by metis
next
  case (from_seed s now kid p seed)
  then show ?case using register_variants_step(2) RegisterSigningKey_wf by metis
qed (auto simp: store_wf_def sealing_entry_wf_def RegisterSealing_def GenerateSealing_def
    EraseSealing_def Zeroize_def split: option.splits sum.splits)

lemma store_reachable_wf: "store_reachable P s \<Longrightarrow> store_wf P s"
proof (induction rule: store_reachable.induct)
  case init
  show ?case by (simp add: NewInMemoryStore_def store_wf_def)
qed (rule store_step_wf)

section \<open>The contract of a keyring\<close>

text \<open>
  What the signing clients of the platform rely on: a resolved key is the one asked for, bound to
  the purpose asked for, and bound to that purpose only; a signature made under a purpose
  verifies as a record signature under the key that purpose resolves to.
\<close>

locale keyring =
  fixes ok :: "'s \<Rightarrow> bool"
    and lib :: "'s \<Rightarrow> prims"
    and signer :: "'s \<Rightarrow> Signer"
    and resolver :: "'s \<Rightarrow> Resolver"
  assumes resolve_purpose:
      "ok s \<Longrightarrow> rs_Resolve (resolver s) kid p = Inr vk \<Longrightarrow> VK_KeyID vk = kid \<and> VK_Purpose vk = p"
    and resolve_unique:
      "ok s \<Longrightarrow> rs_Resolve (resolver s) kid p = Inr vk \<Longrightarrow> rs_Resolve (resolver s) kid q = Inr vk' \<Longrightarrow>
       p = q \<and> vk = vk'"
    and sign_resolves:
      "ok s \<Longrightarrow> sg_Sign (signer s) kid p msg = Inr sig \<Longrightarrow>
       \<exists>suite vk. sg_Suite (signer s) kid = Inr suite \<and> rs_Resolve (resolver s) kid p = Inr vk \<and>
         VerifyingKey_VerifyRecord (lib s) vk (RecordAlg suite) msg sig = None"
begin

lemma sign_one_purpose:
  assumes "ok s" "sg_Sign (signer s) kid p msg = Inr sig" "sg_Sign (signer s) kid q msg' = Inr sig'"
  shows "p = q"
  using assms sign_resolves resolve_unique by metis

lemma signed_record_verifies:
  assumes "ok s" "keys_RecordAlg (signer s) kid = Inr alg" "sg_Sign (signer s) kid p msg = Inr sig"
  shows "\<exists>vk. rs_Resolve (resolver s) kid p = Inr vk \<and>
     VerifyingKey_VerifyRecord (lib s) vk alg msg sig = None"
  using sign_resolves [OF assms(1,3)] assms(2) by (auto simp: keys_RecordAlg_def)

lemma signature_not_Nil:
  assumes "ok s" "sg_Sign (signer s) kid p msg = Inr sig"
  shows "sig \<noteq> []"
proof
  assume "sig = []"
  with sign_resolves [OF assms] show False
    by (auto simp: VerifyingKey_VerifyRecord_def VerifyRecord_ok VerifySuite_def SignatureSize_def
        PublicKeySize_def split: if_splits)
qed

end

text \<open>The store as a keyring: the standard library's primitives with the store's state.\<close>

type_synonym ring = "prims \<times> InMemoryStore"

definition ring_ok :: "ring \<Rightarrow> bool" where
  "ring_ok r \<longleftrightarrow> prims_ok (fst r) \<and> store_wf (fst r) (snd r)"

definition ring_signer :: "ring \<Rightarrow> Signer" where
  "ring_signer r = store_signer (fst r) (snd r)"

definition ring_resolver :: "ring \<Rightarrow> Resolver" where
  "ring_resolver r = store_resolver (snd r)"

lemmas ring_defs = ring_ok_def ring_signer_def ring_resolver_def store_signer_def store_resolver_def

lemma Store_Sign_resolves:
  assumes "prims_ok P" "store_wf P s" "Store_Sign P s kid p msg = Inr sig"
  shows "\<exists>suite vk. Store_Suite s kid = Inr suite \<and> Store_Resolve s kid p = Inr vk \<and>
     VerifyingKey_VerifyRecord P vk (RecordAlg suite) msg sig = None"
proof -
  from assms(3) obtain sk where sk: "st_signing s kid = Some sk" "VK_Purpose (sk_Verifying sk) = p"
    "SigningKey_Sign P (sk_Priv sk) msg = Inr sig"
    by (auto simp: Store_Sign_def split: option.splits if_splits)
  with assms(2) have "signing_entry_wf P kid sk"
    by (auto simp: store_wf_def)
  with sk assms(1) show ?thesis
    by (auto simp: Store_Suite_def Store_Resolve_def VerifyingKey_VerifyRecord_def signing_entry_wf_def
        VerifyRecord_Sign)
qed

interpretation vault_ring: keyring ring_ok fst ring_signer ring_resolver
proof
  fix r :: ring and kid p msg sig
  assume "ring_ok r" "sg_Sign (ring_signer r) kid p msg = Inr sig"
  then show "\<exists>suite vk. sg_Suite (ring_signer r) kid = Inr suite \<and>
      rs_Resolve (ring_resolver r) kid p = Inr vk \<and>
      VerifyingKey_VerifyRecord (fst r) vk (RecordAlg suite) msg sig = None"
    using Store_Sign_resolves [of "fst r" "snd r" kid p msg sig] by (simp add: ring_defs)
qed (auto simp: ring_defs Store_Resolve_def store_wf_def signing_entry_wf_def
    split: option.splits if_splits)

end
