(* ===== verification/TreeHead.thy ===== *)
theory TreeHead
  imports LogEntry KeyStore
begin

text \<open>
  The signed tree head (src/internal/contracts/witness/signed_tree_head.go): the operator's signed
  commitment to a tree size, a Merkle root and the last leaf. \<open>sthCoverBytes\<close> is the fixed packing
  under the signature; signing and verifying are bound to \<open>PurposeSigningWitness\<close>.

  The lemmas show what the gate accepts, that the packing loses nothing (the algorithm included),
  and, for any keyring, that a head signed and then validated verifies under its resolver.
\<close>

record SignedTreeHead =
  STH_SchemaVersion :: u16
  STH_TreeSize :: u64
  STH_TreeHash :: bytes
  STH_TreeChainHead :: bytes
  STH_Timestamp :: gotime
  STH_SigningKeyID :: KeyID
  STH_Alg :: SignatureSuite
  STH_Signature :: bytes

definition SignedTreeHead_Validate :: "SignedTreeHead option \<Rightarrow> go_error option" where
  "SignedTreeHead_Validate r =
     (case r of
        None \<Rightarrow> Some (Structural CodeRequiredFieldMissing ''sth: nil receiver'' None)
      | Some s \<Rightarrow>
          first_err
            [chk (STH_SchemaVersion s < SchemaVersionMin \<or> STH_SchemaVersion s > SchemaVersionMax)
               (Structural CodeSchemaVersionUnsupported ''sth: schema_version out of supported range'' None),
             chk (length (STH_TreeHash s) \<noteq> HashSize)
               (Structural CodeFieldValueInvalid ''sth: tree_hash must be 32 bytes'' None),
             chk (length (STH_TreeChainHead s) \<noteq> HashSize)
               (Structural CodeFieldValueInvalid ''sth: tree_chain_head must be 32 bytes'' None),
             (if STH_TreeSize s = 0
              then first_err
                [chk (\<not> isAllZero (STH_TreeHash s))
                   (Structural CodeCrossFieldInconsistent
                      ''sth: tree_hash must be all-zero when tree_size == 0'' None),
                 chk (\<not> isAllZero (STH_TreeChainHead s))
                   (Structural CodeCrossFieldInconsistent
                      ''sth: tree_chain_head must be all-zero when tree_size == 0'' None)]
              else first_err
                [chk (isAllZero (STH_TreeHash s))
                   (Structural CodeCrossFieldInconsistent
                      ''sth: tree_hash must be non-zero when tree_size > 0'' None),
                 chk (isAllZero (STH_TreeChainHead s))
                   (Structural CodeCrossFieldInconsistent
                      ''sth: tree_chain_head must be non-zero when tree_size > 0'' None),
                 chk (STH_TreeSize s = 1 \<and> STH_TreeHash s \<noteq> STH_TreeChainHead s)
                   (Structural CodeCrossFieldInconsistent
                      ''sth: for tree_size == 1, tree_hash must equal tree_chain_head'' None)]),
             chk (STH_Timestamp s = zero_time)
               (Structural CodeRequiredFieldMissing ''sth: timestamp required'' None),
             chk (STH_SigningKeyID s = [])
               (Structural CodeRequiredFieldMissing ''sth: signing_key_id required'' None),
             chk (STH_Signature s = [])
               (Structural CodeRequiredFieldMissing ''sth: signature required'' None)])"

definition sthCoverBytes :: "SignedTreeHead \<Rightarrow> bytes" where
  "sthCoverBytes s =
     PutUint16 (STH_SchemaVersion s) @
     PutUint64 (STH_TreeSize s) @
     STH_TreeHash s @ STH_TreeChainHead s @
     PutUint64 (UnixNano (STH_Timestamp s)) @
     len_prefixed (string_bytes (STH_SigningKeyID s)) @
     (if STH_Alg s \<noteq> [] then len_prefixed (string_bytes (STH_Alg s)) else [])"

definition SignedTreeHead_CanonicalBytes :: "SignedTreeHead option \<Rightarrow> go_error + bytes" where
  "SignedTreeHead_CanonicalBytes r =
     guardR (SignedTreeHead_Validate r)
       (case r of None \<Rightarrow> Inr [] | Some s \<Rightarrow> Inr (sthCoverBytes s))"

text \<open>The receiver is updated in place: the error, and the head as the call leaves it.\<close>

definition SignedTreeHead_SignWith ::
    "SignedTreeHead \<Rightarrow> Signer \<Rightarrow> go_error option \<times> SignedTreeHead" where
  "SignedTreeHead_SignWith s signer =
     (if STH_SigningKeyID s = []
      then (Some (Structural CodeRequiredFieldMissing ''sth: signing_key_id required before sign'' None), s)
      else if length (STH_TreeHash s) \<noteq> HashSize \<or> length (STH_TreeChainHead s) \<noteq> HashSize
      then (Some (Structural CodeRequiredFieldMissing
              ''sth: tree_hash and tree_chain_head required before sign'' None), s)
      else (case keys_RecordAlg signer (STH_SigningKeyID s) of
          Inl err \<Rightarrow> (Some err, s)
        | Inr alg \<Rightarrow>
            let s' = s\<lparr>STH_Alg := alg\<rparr>
            in (case sg_Sign signer (STH_SigningKeyID s') PurposeSigningWitness (sthCoverBytes s') of
                  Inl err \<Rightarrow> (Some err, s')
                | Inr sig \<Rightarrow> (None, s'\<lparr>STH_Signature := sig\<rparr>))))"

definition SignedTreeHead_VerifySignature ::
    "prims \<Rightarrow> SignedTreeHead option \<Rightarrow> Resolver option \<Rightarrow> go_error option" where
  "SignedTreeHead_VerifySignature P r resolver =
     (case resolver of
        None \<Rightarrow> Some (Structural CodeRequiredFieldMissing
          ''sth: key resolver required to verify the signature'' None)
      | Some res \<Rightarrow>
          (case SignedTreeHead_CanonicalBytes r of
             Inl err \<Rightarrow> Some err
           | Inr cb \<Rightarrow>
               (case r of
                  None \<Rightarrow> None
                | Some s \<Rightarrow>
                    (case rs_Resolve res (STH_SigningKeyID s) PurposeSigningWitness of
                       Inl err \<Rightarrow> Some err
                     | Inr vk \<Rightarrow> VerifyingKey_VerifyRecord P vk (STH_Alg s) cb (STH_Signature s)))))"

section \<open>The gate\<close>

lemma SignedTreeHead_Validate_ok:
  "SignedTreeHead_Validate (Some s) = None \<longleftrightarrow>
     STH_SchemaVersion s = 1 \<and> length (STH_TreeHash s) = HashSize \<and>
     length (STH_TreeChainHead s) = HashSize \<and>
     (STH_TreeSize s = 0 \<longleftrightarrow> isAllZero (STH_TreeHash s)) \<and>
     (STH_TreeSize s = 0 \<longleftrightarrow> isAllZero (STH_TreeChainHead s)) \<and>
     (STH_TreeSize s = 1 \<longrightarrow> STH_TreeHash s = STH_TreeChainHead s) \<and>
     STH_Timestamp s \<noteq> zero_time \<and> STH_SigningKeyID s \<noteq> [] \<and> STH_Signature s \<noteq> []"
  by (auto simp: SignedTreeHead_Validate_def schema_gate simp del: de_Morgan_disj)

lemma SignedTreeHead_Validate_category:
  "SignedTreeHead_Validate r = Some err \<Longrightarrow> CategoryOf (Some err) = CategoryStructural"
  by (cases r)
    (auto simp: SignedTreeHead_Validate_def first_err_Cons chk_def split: if_splits)

lemma SignedTreeHead_VerifySignature_ok:
  "SignedTreeHead_VerifySignature P (Some s) (Some res) = None \<longleftrightarrow>
     SignedTreeHead_Validate (Some s) = None \<and>
     (\<exists>vk. rs_Resolve res (STH_SigningKeyID s) PurposeSigningWitness = Inr vk \<and>
        VerifyingKey_VerifyRecord P vk (STH_Alg s) (sthCoverBytes s) (STH_Signature s) = None)"
  by (auto simp: SignedTreeHead_VerifySignature_def SignedTreeHead_CanonicalBytes_def guardR_def
      split: option.splits sum.splits)

section \<open>The packing loses nothing\<close>

definition sth_packable :: "SignedTreeHead \<Rightarrow> bool" where
  "sth_packable s \<longleftrightarrow>
     length (STH_TreeHash s) = HashSize \<and> length (STH_TreeChainHead s) = HashSize \<and>
     length (STH_SigningKeyID s) < 2 ^ 32 \<and> length (STH_Alg s) < 2 ^ 32 \<and>
     - (2 ^ 63) \<le> STH_Timestamp s \<and> STH_Timestamp s < 2 ^ 63"

lemma optional_prefixed_inj:
  assumes "length a < 2 ^ 32" "length b < 2 ^ 32"
    and eq: "(if a \<noteq> [] then len_prefixed (string_bytes a) else []) =
         (if b \<noteq> [] then len_prefixed (string_bytes b) else [])"
  shows "a = b"
proof -
  have "length (len_prefixed (string_bytes s)) \<noteq> 0" for s by simp
  then have "len_prefixed (string_bytes s) \<noteq> []" "[] \<noteq> len_prefixed (string_bytes s)" for s
    by (metis length_0_conv)+
  with eq assms(1,2) show ?thesis
    by (cases "a = []"; cases "b = []") (auto simp: len_prefixed_inj)
qed

lemma sthCoverBytes_inj:
  assumes "sth_packable a" "sth_packable b" and eq: "sthCoverBytes a = sthCoverBytes b"
  shows "a\<lparr>STH_Signature := []\<rparr> = b\<lparr>STH_Signature := []\<rparr>"
proof -
  have "STH_SchemaVersion a = STH_SchemaVersion b \<and> STH_TreeSize a = STH_TreeSize b \<and>
      STH_TreeHash a = STH_TreeHash b \<and> STH_TreeChainHead a = STH_TreeChainHead b \<and>
      UnixNano (STH_Timestamp a) = UnixNano (STH_Timestamp b) \<and>
      STH_SigningKeyID a = STH_SigningKeyID b \<and> STH_Alg a = STH_Alg b"
    using eq assms(1,2) optional_prefixed_inj [of "STH_Alg a" "STH_Alg b"]
    by (simp add: sthCoverBytes_def sth_packable_def append_eq_len len_prefixed_append_inj
        del: if_split split del: if_split)
  then show ?thesis
    using assms(1,2) by (simp add: sth_packable_def UnixNano_inj)
qed

section \<open>Signing and verifying under a keyring\<close>

lemma SignWith_ok:
  assumes "SignedTreeHead_SignWith s signer = (None, s')"
  obtains alg sig where "keys_RecordAlg signer (STH_SigningKeyID s) = Inr alg"
    "sg_Sign signer (STH_SigningKeyID s) PurposeSigningWitness (sthCoverBytes s') = Inr sig"
    "s' = s\<lparr>STH_Alg := alg, STH_Signature := sig\<rparr>"
    "length (STH_TreeHash s) = HashSize" "length (STH_TreeChainHead s) = HashSize"
    "STH_SigningKeyID s \<noteq> []"
proof -
  have "sthCoverBytes (t\<lparr>STH_Signature := sig\<rparr>) = sthCoverBytes t" for t sig
    by (simp add: sthCoverBytes_def)
  with assms that show thesis
    by (fastforce simp: SignedTreeHead_SignWith_def Let_def split: if_splits sum.splits)
qed

context keyring
begin

lemma SignWith_verifies:
  assumes "ok r" "SignedTreeHead_SignWith s (signer r) = (None, s')"
    and "SignedTreeHead_Validate (Some s') = None"
  shows "SignedTreeHead_VerifySignature (lib r) (Some s') (Some (resolver r)) = None"
  using assms(2)
proof (rule SignWith_ok)
  fix alg sig
  assume alg: "keys_RecordAlg (signer r) (STH_SigningKeyID s) = Inr alg"
    and sig: "sg_Sign (signer r) (STH_SigningKeyID s) PurposeSigningWitness (sthCoverBytes s') = Inr sig"
    and s': "s' = s\<lparr>STH_Alg := alg, STH_Signature := sig\<rparr>"
  from signed_record_verifies [OF assms(1) alg sig] assms(3) show ?thesis
    unfolding SignedTreeHead_VerifySignature_ok s' by simp
qed

lemma SignWith_signature:
  assumes "ok r" "SignedTreeHead_SignWith s (signer r) = (None, s')"
  shows "STH_Signature s' \<noteq> []"
  using assms(2) by (rule SignWith_ok) (use assms(1) signature_not_Nil in auto)

end

end
