(* ===== verification/Sha256.thy ===== *)
theory Sha256
  imports Prelude
begin

unbundle bit_operations_syntax

text \<open>
  The hash every commitment of the platform goes through, \<open>crypto.SHA256\<close>
  (src/internal/shared/crypto/hash.go), which is the standard library's
  \<open>sha256.Sum256\<close>: SHA-256 as FIPS 180-4 defines it, on 32-bit words.

  The components take the hash as an argument \<open>H\<close> and use of it only that a digest has
  32 bytes; the locale \<open>digest32\<close> is that interface, and \<open>SHA256\<close> is interpreted in it.
\<close>

definition rotr :: "nat \<Rightarrow> u32 \<Rightarrow> u32" where
  "rotr n x = drop_bit n x OR push_bit (32 - n) x"

definition Ch :: "u32 \<Rightarrow> u32 \<Rightarrow> u32 \<Rightarrow> u32" where
  "Ch x y z = (x AND y) XOR (NOT x AND z)"

definition Maj :: "u32 \<Rightarrow> u32 \<Rightarrow> u32 \<Rightarrow> u32" where
  "Maj x y z = (x AND y) XOR (x AND z) XOR (y AND z)"

definition bsig0 :: "u32 \<Rightarrow> u32" where
  "bsig0 x = rotr 2 x XOR rotr 13 x XOR rotr 22 x"

definition bsig1 :: "u32 \<Rightarrow> u32" where
  "bsig1 x = rotr 6 x XOR rotr 11 x XOR rotr 25 x"

definition ssig0 :: "u32 \<Rightarrow> u32" where
  "ssig0 x = rotr 7 x XOR rotr 18 x XOR drop_bit 3 x"

definition ssig1 :: "u32 \<Rightarrow> u32" where
  "ssig1 x = rotr 17 x XOR rotr 19 x XOR drop_bit 10 x"

definition initial_state :: "u32 list" where
  "initial_state =
    [0x6a09e667, 0xbb67ae85, 0x3c6ef372, 0xa54ff53a, 0x510e527f, 0x9b05688c, 0x1f83d9ab, 0x5be0cd19]"

text \<open>Padding: a one bit, zeros up to 56 bytes modulo 64, the bit length in 8 bytes.\<close>

definition pad :: "bytes \<Rightarrow> bytes" where
  "pad m = (let l = length m in m @ [0x80] @ zeros ((119 - l mod 64) mod 64) @ be 8 (8 * l))"

definition word_of :: "byte \<Rightarrow> byte \<Rightarrow> byte \<Rightarrow> byte \<Rightarrow> u32" where
  "word_of a b c d =
     push_bit 24 (ucast a) OR push_bit 16 (ucast b) OR push_bit 8 (ucast c) OR ucast d"

definition bytes_of :: "u32 \<Rightarrow> bytes" where
  "bytes_of w = [ucast (drop_bit 24 w), ucast (drop_bit 16 w), ucast (drop_bit 8 w), ucast w]"

fun words_of :: "bytes \<Rightarrow> u32 list" where
  "words_of (a # b # c # d # r) = word_of a b c d # words_of r"
| "words_of _ = []"

text \<open>The sixty-four round constants, eight to a row.\<close>

definition round_constants :: "u32 list" where
  "round_constants = concat (map (\<lambda>row. words_of (be 32 row))
    [0x428a2f9871374491b5c0fbcfe9b5dba53956c25b59f111f1923f82a4ab1c5ed5,
     0xd807aa9812835b01243185be550c7dc372be5d7480deb1fe9bdc06a7c19bf174,
     0xe49b69c1efbe47860fc19dc6240ca1cc2de92c6f4a7484aa5cb0a9dc76f988da,
     0x983e5152a831c66db00327c8bf597fc7c6e00bf3d5a7914706ca635114292967,
     0x27b70a852e1b21384d2c6dfc53380d13650a7354766a0abb81c2c92e92722c85,
     0xa2bfe8a1a81a664bc24b8b70c76c51a3d192e819d6990624f40e3585106aa070,
     0x19a4c1161e376c082748774c34b0bcb5391c0cb34ed8aa4a5b9cca4f682e6ff3,
     0x748f82ee78a5636f84c878148cc7020890befffaa4506cebbef9a3f7c67178f2])"

text \<open>The message schedule, newest word first.\<close>

fun expand :: "nat \<Rightarrow> u32 list \<Rightarrow> u32 list" where
  "expand 0 w = w"
| "expand (Suc n) w = expand n ((ssig1 (w ! 1) + w ! 6 + ssig0 (w ! 14) + w ! 15) # w)"

fun round_step :: "u32 list \<Rightarrow> u32 \<times> u32 \<Rightarrow> u32 list" where
  "round_step [a, b, c, d, e, f, g, h] (k, w) =
     (let t1 = h + bsig1 e + Ch e f g + k + w; t2 = bsig0 a + Maj a b c
      in [t1 + t2, a, b, c, d + t1, e, f, g])"
| "round_step s _ = s"

definition compress :: "u32 list \<Rightarrow> bytes \<Rightarrow> u32 list" where
  "compress s blk =
     map2 (+) s (foldl round_step s (zip round_constants (rev (expand 48 (rev (words_of blk))))))"

function blocks :: "u32 list \<Rightarrow> bytes \<Rightarrow> u32 list" where
  "blocks s bs = (if length bs < 64 then s else blocks (compress s (take 64 bs)) (drop 64 bs))"
  by pat_completeness auto
termination
  by (relation "measure (\<lambda>(s, bs). length bs)") auto

declare blocks.simps [simp del]

definition SHA256 :: "bytes \<Rightarrow> bytes" where
  "SHA256 m = concat (map bytes_of (blocks initial_state (pad m)))"

section \<open>Shape\<close>

lemma round_step_shape: "length s = 8 \<Longrightarrow> length (round_step s x) = 8"
  by (induction s x rule: round_step.induct) (auto simp: Let_def)

lemma foldl_round_step_shape: "length s = 8 \<Longrightarrow> length (foldl round_step s xs) = 8"
  by (induction xs arbitrary: s) (auto simp: round_step_shape)

lemma compress_shape: "length s = 8 \<Longrightarrow> length (compress s blk) = 8"
  by (simp add: compress_def foldl_round_step_shape)

lemma blocks_shape: "length s = 8 \<Longrightarrow> length (blocks s bs) = 8"
proof (induction s bs rule: blocks.induct)
  case (1 s bs)
  then show ?case
    by (subst blocks.simps) (simp add: compress_shape)
qed

lemma concat_bytes_of_length: "length (concat (map bytes_of ws)) = 4 * length ws"
  by (induction ws) (auto simp: bytes_of_def)

lemma pad_gap: "r < 64 \<Longrightarrow> (r + (9 + (119 - r) mod 64)) mod 64 = (0::nat)"
proof (cases "r \<le> 55")
  case True
  then have "119 - r = (55 - r) + 1 * 64"
    by simp
  with True show ?thesis
    by (simp only: mod_mult_self1) simp
next
  case False
  moreover assume "r < 64"
  ultimately show ?thesis by simp
qed

lemma pad_multiple: "length (pad m) mod 64 = 0"
proof -
  have "length (pad m) = length m + (9 + (119 - length m mod 64) mod 64)"
    by (simp add: pad_def Let_def)
  also have "\<dots> mod 64 = (length m mod 64 + (9 + (119 - length m mod 64) mod 64)) mod 64"
    by (simp only: mod_add_left_eq)
  also have "\<dots> = 0"
    by (rule pad_gap) simp
  finally show ?thesis .
qed

section \<open>The interface of a 32-byte digest\<close>

locale digest32 =
  fixes H :: "bytes \<Rightarrow> bytes"
  assumes digest_length [simp]: "length (H m) = HashSize"
begin

text \<open>A digest has the size every hash-typed field is checked against.\<close>

lemma digest_not_Nil: "H m \<noteq> []"
  using digest_length [of m] by (auto simp: HashSize_def simp del: digest_length)

end

lemma SHA256_length: "length (SHA256 m) = HashSize"
  by (simp add: SHA256_def concat_bytes_of_length blocks_shape initial_state_def HashSize_def)

interpretation sha256: digest32 SHA256
  by unfold_locales (rule SHA256_length)

end
