(* ===== verification/MerkleTree.thy ===== *)
theory MerkleTree
  imports LogEntry Sha256 "HOL-Library.While_Combinator"
begin

text \<open>
  The RFC 6962 Merkle tree of the witness log: combining two nodes, the level-by-level root
  (src/internal/contracts/witness/log_entry.go), the operator's builders of audit paths and of
  consistency proofs (src/internal/genome/witness/log.go), and the verifiers
  (src/internal/contracts/witness/proofs.go).

  Go's loops over levels are recursions on the level; the verifiers' loops over the path carry
  the loop variables as arguments. The counters are \<open>uint64\<close> in the records and are read with
  \<open>unat\<close>: the loops only shift them right and compare them, which is \<open>div 2\<close> and comparison
  on the value. A panic of the operator's builders (impossible on its own leaves) is \<open>None\<close>, as
  is a recursion that does not return.
\<close>

record InclusionProof =
  IP_LeafIndex :: u64
  IP_TreeSize :: u64
  IP_Path :: "bytes list"

record ConsistencyProof =
  CP_OldSize :: u64
  CP_NewSize :: u64
  CP_Path :: "bytes list"

section \<open>Nodes and roots\<close>

definition node_input :: "bytes \<Rightarrow> bytes \<Rightarrow> bytes" where
  "node_input left right = nodeTag # left @ right"

definition CombineNodes :: "(bytes \<Rightarrow> bytes) \<Rightarrow> bytes \<Rightarrow> bytes \<Rightarrow> go_error + bytes" where
  "CombineNodes H left right =
     (if length left \<noteq> HashSize \<or> length right \<noteq> HashSize
      then Inl (Structural CodeFieldValueInvalid ''witness: combine: inputs must be 32 bytes'' None)
      else Inr (H (node_input left right)))"

text \<open>One level up: pairs combined, an odd last node promoted unchanged.\<close>

fun pair_level :: "(bytes \<Rightarrow> bytes) \<Rightarrow> bytes list \<Rightarrow> go_error + bytes list" where
  "pair_level H (l # r # rest) =
     bindR (CombineNodes H l r) (\<lambda>h. bindR (pair_level H rest) (\<lambda>next. Inr (h # next)))"
| "pair_level H [x] = Inr [x]"
| "pair_level H [] = Inr []"

lemma pair_level_length: "pair_level H xs = Inr ys \<Longrightarrow> length ys = (length xs + 1) div 2"
  by (induction H xs arbitrary: ys rule: pair_level.induct) auto

function root_loop :: "(bytes \<Rightarrow> bytes) \<Rightarrow> bytes list \<Rightarrow> go_error + bytes" where
  "root_loop H level =
     (if 1 < length level
      then (case pair_level H level of Inl err \<Rightarrow> Inl err | Inr next \<Rightarrow> root_loop H next)
      else Inr (level ! 0))"
  by pat_completeness auto
termination
  by (relation "measure (\<lambda>(H, level). length level)") (auto dest: pair_level_length)

declare root_loop.simps [simp del]

definition ComputeMerkleRoot :: "(bytes \<Rightarrow> bytes) \<Rightarrow> bytes list \<Rightarrow> go_error + bytes" where
  "ComputeMerkleRoot H leaves =
     (if leaves = [] then Inr (zeros HashSize)
      else if list_ex (\<lambda>l. length l \<noteq> HashSize) leaves
      then Inl (Structural CodeFieldValueInvalid ''witness: leaf at index N not 32 bytes'' None)
      else root_loop H leaves)"

section \<open>The operator's builders\<close>

text \<open>
  The sibling of one level: none for an unpaired last node. An index out of range is Go's
  run-time panic.
\<close>

definition level_sibling :: "bytes list \<Rightarrow> nat \<Rightarrow> bytes list option" where
  "level_sibling level index =
     (if odd index
      then (if index - 1 < length level then Some [level ! (index - 1)] else None)
      else if index + 1 < length level then Some [level ! (index + 1)]
      else Some [])"

function path_loop :: "(bytes \<Rightarrow> bytes) \<Rightarrow> bytes list \<Rightarrow> nat \<Rightarrow> bytes list option" where
  "path_loop H level index =
     (if 1 < length level
      then (case level_sibling level index of
              None \<Rightarrow> None
            | Some sibling \<Rightarrow>
                (case pair_level H level of
                   Inl err \<Rightarrow> None
                 | Inr next \<Rightarrow> map_option (append sibling) (path_loop H next (index div 2))))
      else Some [])"
  by pat_completeness auto
termination
  by (relation "measure (\<lambda>(H, level, index). length level)") (auto dest: pair_level_length)

declare path_loop.simps [simp del]

definition buildInclusionPathInternal ::
    "(bytes \<Rightarrow> bytes) \<Rightarrow> bytes list \<Rightarrow> nat \<Rightarrow> bytes list option" where
  "buildInclusionPathInternal H leaves m =
     (if length leaves \<le> 1 then Some [] else path_loop H leaves m)"

definition largestPow2Less :: "nat \<Rightarrow> nat" where
  "largestPow2Less n = (if n \<le> 1 then 0 else while (\<lambda>k. k * 2 < n) (\<lambda>k. k * 2) 1)"

definition root_or_panic :: "(bytes \<Rightarrow> bytes) \<Rightarrow> bytes list \<Rightarrow> bytes option" where
  "root_or_panic H leaves = (case ComputeMerkleRoot H leaves of Inl err \<Rightarrow> None | Inr r \<Rightarrow> Some r)"

partial_function (option) subproofInternal ::
    "(bytes \<Rightarrow> bytes) \<Rightarrow> nat \<Rightarrow> bytes list \<Rightarrow> bool \<Rightarrow> bytes list option" where
  "subproofInternal H m leaves isFirst =
     (if m = length leaves
      then (if isFirst then Some [] else Option.bind (root_or_panic H leaves) (\<lambda>r. Some [r]))
      else if m \<le> largestPow2Less (length leaves)
      then Option.bind (root_or_panic H (drop (largestPow2Less (length leaves)) leaves)) (\<lambda>r.
             Option.bind (subproofInternal H m (take (largestPow2Less (length leaves)) leaves) isFirst)
               (\<lambda>sub. Some (sub @ [r])))
      else Option.bind (root_or_panic H (take (largestPow2Less (length leaves)) leaves)) (\<lambda>r.
             Option.bind (subproofInternal H (m - largestPow2Less (length leaves))
                            (drop (largestPow2Less (length leaves)) leaves) False)
               (\<lambda>sub. Some (sub @ [r]))))"

section \<open>Inclusion\<close>

definition InclusionProof_Validate :: "InclusionProof option \<Rightarrow> go_error option" where
  "InclusionProof_Validate r =
     (case r of
        None \<Rightarrow> Some (Structural CodeRequiredFieldMissing ''inclusion_proof: nil receiver'' None)
      | Some p \<Rightarrow>
          first_err
            [chk (IP_TreeSize p = 0)
               (Structural CodeFieldValueInvalid ''inclusion_proof: tree_size must be > 0'' None),
             chk (IP_LeafIndex p \<ge> IP_TreeSize p)
               (Structural CodeCrossFieldInconsistent
                  ''inclusion_proof: leaf_index must be < tree_size'' None),
             chk (list_ex (\<lambda>x. length x \<noteq> HashSize) (IP_Path p))
               (Structural CodeFieldValueInvalid ''inclusion_proof: path element not 32 bytes'' None),
             chk (IP_TreeSize p = 1 \<and> IP_Path p \<noteq> [])
               (Structural CodeCrossFieldInconsistent
                  ''inclusion_proof: singleton tree must have empty path'' None),
             chk (IP_TreeSize p \<noteq> 1 \<and> IP_Path p = [])
               (Structural CodeCrossFieldInconsistent
                  ''inclusion_proof: non-singleton tree must have non-empty path'' None)])"

text \<open>Right-edge bubble-up: shift both counters until the first is odd or zero.\<close>

fun bubble :: "nat \<Rightarrow> nat \<Rightarrow> nat \<times> nat" where
  "bubble sn fn = (if even sn \<and> sn \<noteq> 0 then bubble (sn div 2) (fn div 2) else (sn, fn))"

declare bubble.simps [simp del]

fun incl_loop ::
    "(bytes \<Rightarrow> bytes) \<Rightarrow> nat \<Rightarrow> nat \<Rightarrow> bytes \<Rightarrow> bytes list \<Rightarrow> go_error + nat \<times> bytes" where
  "incl_loop H sn fn h [] = Inr (fn, h)"
| "incl_loop H sn fn h (p # ps) =
     (if fn = 0
      then Inl (Integrity CodeSignatureInvalid ''verify_inclusion: audit path too long'' None)
      else if odd sn \<or> sn = fn
      then bindR (CombineNodes H p h) (\<lambda>combined.
             let (sn', fn') = (if even sn then bubble sn fn else (sn, fn))
             in incl_loop H (sn' div 2) (fn' div 2) combined ps)
      else bindR (CombineNodes H h p) (\<lambda>combined.
             incl_loop H (sn div 2) (fn div 2) combined ps))"

definition VerifyInclusion ::
    "(bytes \<Rightarrow> bytes) \<Rightarrow> bytes \<Rightarrow> InclusionProof option \<Rightarrow> bytes \<Rightarrow> go_error option" where
  "VerifyInclusion H leafHash r expectedRoot =
     first_err
       [chk (length leafHash \<noteq> HashSize)
          (Structural CodeFieldValueInvalid ''verify_inclusion: leaf_hash must be 32 bytes'' None),
        chk (length expectedRoot \<noteq> HashSize)
          (Structural CodeFieldValueInvalid ''verify_inclusion: expected_root must be 32 bytes'' None),
        InclusionProof_Validate r,
        (case r of
           None \<Rightarrow> None
         | Some proof \<Rightarrow>
             if IP_TreeSize proof = 1
             then chk (leafHash \<noteq> expectedRoot)
                    (Integrity CodeSignatureInvalid ''verify_inclusion: singleton tree leaf != root'' None)
             else (case incl_loop H (unat (IP_LeafIndex proof)) (unat (IP_TreeSize proof - 1))
                          leafHash (IP_Path proof) of
                     Inl err \<Rightarrow> Some err
                   | Inr (fn, h) \<Rightarrow>
                       first_err
                         [chk (fn \<noteq> 0)
                            (Integrity CodeSignatureInvalid ''verify_inclusion: audit path too short'' None),
                          chk (h \<noteq> expectedRoot)
                            (Integrity CodeSignatureInvalid
                               ''verify_inclusion: reconstructed root mismatch'' None)]))]"

section \<open>Consistency\<close>

definition ConsistencyProof_Validate :: "ConsistencyProof option \<Rightarrow> go_error option" where
  "ConsistencyProof_Validate r =
     (case r of
        None \<Rightarrow> Some (Structural CodeRequiredFieldMissing ''consistency_proof: nil receiver'' None)
      | Some c \<Rightarrow>
          first_err
            [chk (CP_OldSize c > CP_NewSize c)
               (Structural CodeCrossFieldInconsistent ''consistency_proof: old_size > new_size'' None),
             chk (list_ex (\<lambda>x. length x \<noteq> HashSize) (CP_Path c))
               (Structural CodeFieldValueInvalid ''consistency_proof: path element not 32 bytes'' None),
             chk ((CP_OldSize c = 0 \<or> CP_OldSize c = CP_NewSize c) \<and> CP_Path c \<noteq> [])
               (Structural CodeCrossFieldInconsistent
                  ''consistency_proof: trivial case must have empty path'' None)])"

text \<open>The trailing ones of the old tree's last index: levels without a sibling yet.\<close>

function strip_ones :: "nat \<Rightarrow> nat \<Rightarrow> nat \<times> nat" where
  "strip_ones node lastNode =
     (if odd node then strip_ones (node div 2) (lastNode div 2) else (node, lastNode))"
  by pat_completeness auto
termination
  by (relation "measure fst") (auto elim!: oddE)

declare strip_ones.simps [simp del]

fun cons_loop ::
    "(bytes \<Rightarrow> bytes) \<Rightarrow> nat \<Rightarrow> nat \<Rightarrow> bytes \<Rightarrow> bytes \<Rightarrow> bytes list \<Rightarrow>
     go_error + nat \<times> bytes \<times> bytes" where
  "cons_loop H node lastNode hash1 hash2 [] = Inr (lastNode, hash1, hash2)"
| "cons_loop H node lastNode hash1 hash2 (p # ps) =
     (if lastNode = 0
      then Inl (Integrity CodeSignatureInvalid ''verify_consistency: proof too long'' None)
      else if odd node \<or> node = lastNode
      then bindR (CombineNodes H p hash1) (\<lambda>combined1.
             bindR (CombineNodes H p hash2) (\<lambda>combined2.
               let (node', lastNode') = bubble node lastNode
               in cons_loop H (node' div 2) (lastNode' div 2) combined1 combined2 ps))
      else bindR (CombineNodes H hash2 p) (\<lambda>combined2.
             cons_loop H (node div 2) (lastNode div 2) hash1 combined2 ps))"

text \<open>The walk after the trivial cases: seed, side-by-side reconstruction, comparison.\<close>

definition cons_walk ::
    "(bytes \<Rightarrow> bytes) \<Rightarrow> nat \<Rightarrow> nat \<Rightarrow> bytes \<Rightarrow> bytes \<Rightarrow> bytes list \<Rightarrow> go_error option" where
  "cons_walk H node lastNode oldRoot newRoot path =
     (if 0 < node \<and> path = []
      then Some (Integrity CodeSignatureInvalid ''verify_consistency: proof unexpectedly empty'' None)
      else
        let seed = (if 0 < node then hd path else oldRoot);
            rest = (if 0 < node then tl path else path)
        in (case cons_loop H node lastNode seed seed rest of
              Inl err \<Rightarrow> Some err
            | Inr (lastNode', hash1, hash2) \<Rightarrow>
                first_err
                  [chk (lastNode' \<noteq> 0)
                     (Integrity CodeSignatureInvalid ''verify_consistency: proof too short'' None),
                   chk (hash1 \<noteq> oldRoot)
                     (Integrity CodeSignatureInvalid
                        ''verify_consistency: reconstructed old_root mismatch'' None),
                   chk (hash2 \<noteq> newRoot)
                     (Integrity CodeSignatureInvalid
                        ''verify_consistency: reconstructed new_root mismatch'' None)]))"

definition VerifyConsistency ::
    "(bytes \<Rightarrow> bytes) \<Rightarrow> bytes \<Rightarrow> bytes \<Rightarrow> ConsistencyProof option \<Rightarrow> go_error option" where
  "VerifyConsistency H oldRoot newRoot r =
     first_err
       [chk (length oldRoot \<noteq> HashSize)
          (Structural CodeFieldValueInvalid ''verify_consistency: old_root must be 32 bytes'' None),
        chk (length newRoot \<noteq> HashSize)
          (Structural CodeFieldValueInvalid ''verify_consistency: new_root must be 32 bytes'' None),
        ConsistencyProof_Validate r,
        (case r of
           None \<Rightarrow> None
         | Some proof \<Rightarrow>
             if CP_OldSize proof = 0 then None
             else if CP_OldSize proof = CP_NewSize proof
             then chk (oldRoot \<noteq> newRoot)
                    (Integrity CodeSignatureInvalid ''verify_consistency: same-size roots differ'' None)
             else (let (node, lastNode) =
                         strip_ones (unat (CP_OldSize proof - 1)) (unat (CP_NewSize proof - 1))
                   in cons_walk H node lastNode oldRoot newRoot (CP_Path proof)))]"

end
