(* ===== verification/MerkleSpec.thy ===== *)
theory MerkleSpec
  imports MerkleTree
begin

text \<open>
  The abstract tree of RFC 6962 and the proof that the level-by-level code computes it.

  \<open>mth\<close> and \<open>rfc_path\<close> are the recursive definitions of RFC 6962 section 2.1 (split at the
  largest power of two below the size); \<open>up\<close> is one level of the bottom-up construction.
  The lemmas, proved for any 32-byte digest in the locale \<open>digest32\<close>, show that one level up
  changes neither the root nor, but for the sibling it strips, the audit path: this is what
  relates the code's loops to the recursive specification.
\<close>

definition node :: "(bytes \<Rightarrow> bytes) \<Rightarrow> bytes \<Rightarrow> bytes \<Rightarrow> bytes" where
  "node H l r = H (node_input l r)"

fun up :: "(bytes \<Rightarrow> bytes) \<Rightarrow> bytes list \<Rightarrow> bytes list" where
  "up H (l # r # xs) = node H l r # up H xs"
| "up H [x] = [x]"
| "up H [] = []"

definition hashes :: "bytes list \<Rightarrow> bool" where
  "hashes xs \<longleftrightarrow> (\<forall>x \<in> set xs. length x = HashSize)"

definition sibling :: "bytes list \<Rightarrow> nat \<Rightarrow> bytes list" where
  "sibling xs i =
     (if odd i then [xs ! (i - 1)] else if i + 1 < length xs then [xs ! (i + 1)] else [])"

section \<open>The largest power of two below a size\<close>

lemma largestPow2Less_spec:
  assumes "2 \<le> n"
  shows "\<exists>a. largestPow2Less n = 2 ^ a \<and> 2 ^ a < n \<and> n \<le> 2 * 2 ^ a"
proof -
  have "\<exists>a. while (\<lambda>k. k * 2 < n) (\<lambda>k. k * 2) 1 = 2 ^ a \<and> 2 ^ a < n \<and> n \<le> 2 * 2 ^ a"
  proof (rule while_rule [where P = "\<lambda>k. \<exists>a. k = 2 ^ a \<and> 2 ^ a < n"
        and r = "measure (\<lambda>k. n - k)"], goal_cases)
    case 1
    have "(1::nat) = 2 ^ 0 \<and> 2 ^ 0 < n"
      using assms by simp
    then show ?case by blast
  next
    case (2 k)
    then obtain a where "k = 2 ^ a" by blast
    with 2 have "k * 2 = 2 ^ Suc a \<and> 2 ^ Suc a < n" by simp
    then show ?case by blast
  qed (auto simp: mult.commute intro!: diff_less_mono2)
  with assms show ?thesis
    by (simp add: largestPow2Less_def)
qed

lemma pow2_window_unique:
  fixes n :: nat
  assumes "2 ^ a < n" "n \<le> 2 * 2 ^ a" "2 ^ b < n" "n \<le> 2 * 2 ^ b"
  shows "a = b"
proof -
  have "(2::nat) ^ a < 2 ^ Suc b" and "(2::nat) ^ b < 2 ^ Suc a"
    using assms by simp_all
  then have "a < Suc b" and "b < Suc a"
    by (simp_all only: power_strict_increasing_iff)
  then show ?thesis by simp
qed

lemma largestPow2Less_eqI:
  "2 ^ a < n \<Longrightarrow> n \<le> 2 * 2 ^ a \<Longrightarrow> largestPow2Less n = 2 ^ a"
proof -
  assume a: "2 ^ a < n" "n \<le> 2 * 2 ^ a"
  moreover have "(1::nat) \<le> 2 ^ a" by simp
  ultimately have "2 \<le> n" by linarith
  with a show ?thesis
    using largestPow2Less_spec [of n] pow2_window_unique [of a n] by blast
qed

lemma largestPow2Less_bounds:
  "2 \<le> n \<Longrightarrow> 0 < largestPow2Less n \<and> largestPow2Less n < n"
  using largestPow2Less_spec [of n] by fastforce

lemma largestPow2Less_2 [simp]: "largestPow2Less 2 = 1"
  using largestPow2Less_eqI [of 0 2] by simp

lemma largestPow2Less_Suc_Suc_0 [simp]: "largestPow2Less (Suc (Suc 0)) = 1"
  using largestPow2Less_2 by (simp only: numeral_2_eq_2)

lemma largestPow2Less_half:
  assumes "3 \<le> n"
  shows "largestPow2Less n = 2 * largestPow2Less ((n + 1) div 2)"
proof -
  have "2 \<le> (n + 1) div 2" using assms by linarith
  then obtain a where a: "largestPow2Less ((n + 1) div 2) = 2 ^ a"
      "2 ^ a < (n + 1) div 2" "(n + 1) div 2 \<le> 2 * 2 ^ a"
    using largestPow2Less_spec by blast
  then have "2 ^ Suc a < n" and "n \<le> 2 * 2 ^ Suc a"
    by auto
  then have "largestPow2Less n = 2 ^ Suc a"
    by (rule largestPow2Less_eqI)
  with a show ?thesis by simp
qed

lemma largestPow2Less_odd: "2 \<le> n \<Longrightarrow> odd (largestPow2Less n) \<Longrightarrow> largestPow2Less n = 1"
  using largestPow2Less_spec [of n] by fastforce

section \<open>The recursive specification\<close>

function mth :: "(bytes \<Rightarrow> bytes) \<Rightarrow> bytes list \<Rightarrow> bytes" where
  "mth H xs =
     (if xs = [] then zeros HashSize
      else if length xs = 1 then hd xs
      else let k = largestPow2Less (length xs)
           in node H (mth H (take k xs)) (mth H (drop k xs)))"
  by pat_completeness auto
termination
proof (relation "measure (\<lambda>(H, xs). length xs)", goal_cases)
  case (2 H xs k)
  then have "2 \<le> length xs" by (cases xs) (auto simp: Suc_le_eq)
  with 2 show ?case using largestPow2Less_bounds [of "length xs"] by simp
next
  case (3 H xs k)
  then have "2 \<le> length xs" by (cases xs) (auto simp: Suc_le_eq)
  with 3 show ?case using largestPow2Less_bounds [of "length xs"] by simp
qed simp

declare mth.simps [simp del]

function rfc_path :: "(bytes \<Rightarrow> bytes) \<Rightarrow> nat \<Rightarrow> bytes list \<Rightarrow> bytes list" where
  "rfc_path H m xs =
     (if length xs \<le> 1 then []
      else let k = largestPow2Less (length xs)
           in if m < k then rfc_path H m (take k xs) @ [mth H (drop k xs)]
              else rfc_path H (m - k) (drop k xs) @ [mth H (take k xs)])"
  by pat_completeness auto
termination
proof (relation "measure (\<lambda>(H, m, xs). length xs)", goal_cases)
  case (2 H m xs k)
  then show ?case using largestPow2Less_bounds [of "length xs"] by simp
next
  case (3 H m xs k)
  then have "0 < k \<and> k < length xs" using largestPow2Less_bounds [of "length xs"] by simp
  then show ?case by simp linarith
qed simp

declare rfc_path.simps [simp del]

text \<open>The inputs the tree hashes, level by level.\<close>

fun pair_inputs :: "bytes list \<Rightarrow> bytes list" where
  "pair_inputs (l # r # xs) = node_input l r # pair_inputs xs"
| "pair_inputs _ = []"

lemma length_up [simp]: "length (up H xs) = (length xs + 1) div 2"
  by (induction H xs rule: up.induct) auto

function tree_inputs :: "(bytes \<Rightarrow> bytes) \<Rightarrow> bytes list \<Rightarrow> bytes list" where
  "tree_inputs H xs = (if 1 < length xs then pair_inputs xs @ tree_inputs H (up H xs) else [])"
  by pat_completeness auto
termination
  by (relation "measure (\<lambda>(H, xs). length xs)") auto

declare tree_inputs.simps [simp del]

section \<open>One level up\<close>

lemma up_nth:
  "i < length (up H xs) \<Longrightarrow>
   up H xs ! i =
     (if 2 * i + 1 < length xs then node H (xs ! (2 * i)) (xs ! (2 * i + 1)) else xs ! (2 * i))"
proof (induction H xs arbitrary: i rule: up.induct)
  case (1 H l r xs)
  then show ?case by (cases i) auto
qed auto

lemma up_take: "up H (take (2 * j) xs) = take j (up H xs)"
proof (induction H xs arbitrary: j rule: up.induct)
  case (1 H l r xs)
  then show ?case by (cases j) auto
next
  case (2 H x)
  then show ?case by (cases j) auto
qed simp

lemma up_drop: "up H (drop (2 * j) xs) = drop j (up H xs)"
proof (induction H xs arbitrary: j rule: up.induct)
  case (1 H l r xs)
  then show ?case by (cases j) auto
next
  case (2 H x)
  then show ?case by (cases j) auto
qed simp

lemma up_eq_Nil [simp]: "up H xs = [] \<longleftrightarrow> xs = []"
  by (induction H xs rule: up.induct) auto

lemma pair_inputs_nth:
  "2 * i + 1 < length xs \<Longrightarrow> node_input (xs ! (2 * i)) (xs ! (2 * i + 1)) \<in> set (pair_inputs xs)"
proof (induction xs arbitrary: i rule: pair_inputs.induct)
  case (1 l r xs)
  then show ?case by (cases i) auto
qed auto

lemma hashes_take [simp]: "hashes xs \<Longrightarrow> hashes (take k xs)"
  by (auto simp: hashes_def dest: in_set_takeD)

lemma hashes_drop [simp]: "hashes xs \<Longrightarrow> hashes (drop k xs)"
  by (auto simp: hashes_def dest: in_set_dropD)

lemma hashes_Cons [simp]: "hashes (x # xs) \<longleftrightarrow> length x = HashSize \<and> hashes xs"
  by (auto simp: hashes_def)

lemma hashes_Nil [simp]: "hashes []"
  by (simp add: hashes_def)

lemma hashes_append [simp]: "hashes (xs @ ys) \<longleftrightarrow> hashes xs \<and> hashes ys"
  by (auto simp: hashes_def)

lemma hashes_nth [simp]: "hashes xs \<Longrightarrow> i < length xs \<Longrightarrow> length (xs ! i) = HashSize"
  by (simp add: hashes_def)

lemma hashes_list_ex: "list_ex (\<lambda>x. length x \<noteq> HashSize) xs \<longleftrightarrow> \<not> hashes xs"
  by (auto simp: hashes_def list_ex_iff)

lemma node_input_inj:
  "length a = HashSize \<Longrightarrow> length c = HashSize \<Longrightarrow>
   node_input a b = node_input c d \<longleftrightarrow> a = c \<and> b = d"
  by (simp add: node_input_def)

lemma list_size_cases:
  obtains "xs = []" | x where "xs = [x]" | "2 \<le> length xs"
proof (cases xs)
  case (Cons y ys)
  then show ?thesis using that by (cases ys) auto
qed (use that in simp)

text \<open>Induction on the levels.\<close>

lemma level_induct [case_names nil single level]:
  assumes "P []" and "\<And>x. P [x]"
    and "\<And>xs. 2 \<le> length xs \<Longrightarrow> P (up H xs) \<Longrightarrow> P xs"
  shows "P xs"
proof (induction xs rule: length_induct)
  case (1 xs)
  consider "xs = []" | x where "xs = [x]" | "2 \<le> length xs"
    by (rule list_size_cases)
  then show ?case
  proof cases
    case 3
    then have "length (up H xs) < length xs" by auto
    then have "P (up H xs)" using 1 by blast
    with 3 show ?thesis by (rule assms(3))
  qed (use assms in auto)
qed

lemma mth_single [simp]: "mth H [x] = x"
  by (subst mth.simps) simp

lemma mth_Nil [simp]: "mth H [] = zeros HashSize"
  by (subst mth.simps) simp

lemma mth_split:
  "2 \<le> length xs \<Longrightarrow>
   mth H xs = node H (mth H (take (largestPow2Less (length xs)) xs))
                     (mth H (drop (largestPow2Less (length xs)) xs))"
  by (auto simp: mth.simps [of H xs] Let_def)

lemma rfc_path_split:
  "2 \<le> length xs \<Longrightarrow>
   rfc_path H m xs =
     (let k = largestPow2Less (length xs)
      in if m < k then rfc_path H m (take k xs) @ [mth H (drop k xs)]
         else rfc_path H (m - k) (drop k xs) @ [mth H (take k xs)])"
  by (simp add: rfc_path.simps [of H m xs])

lemma rfc_path_small [simp]: "length xs \<le> 1 \<Longrightarrow> rfc_path H m xs = []"
  by (subst rfc_path.simps) simp

lemma mth_up: "mth H (up H xs) = mth H xs"
proof (induction xs rule: length_induct)
  case (1 xs)
  consider "length xs \<le> 1" | "length xs = 2" | "3 \<le> length xs" by linarith
  then show ?case
  proof cases
    case 1
    then show ?thesis by (cases xs) auto
  next
    case 2
    then obtain a b where "xs = [a, b]" by (auto simp: length_Suc_conv numeral_2_eq_2)
    then show ?thesis by (simp add: mth_split [of "[a, b]"])
  next
    case 3
    define k where "k = largestPow2Less ((length xs + 1) div 2)"
    have k2: "largestPow2Less (length xs) = 2 * k"
      using 3 by (simp add: k_def largestPow2Less_half)
    have kb: "0 < k" "2 * k < length xs"
      using 3 k2 largestPow2Less_bounds [of "length xs"] by auto
    have "2 \<le> (length xs + 1) div 2"
      using 3 by linarith
    then have "mth H (up H xs) = node H (mth H (take k (up H xs))) (mth H (drop k (up H xs)))"
      by (simp add: mth_split [of "up H xs"] k_def)
    also have "\<dots> = node H (mth H (take (2 * k) xs)) (mth H (drop (2 * k) xs))"
      using "1.IH" kb by (simp add: up_take [symmetric] up_drop [symmetric])
    also have "\<dots> = mth H xs"
      using 3 k2 by (simp add: mth_split [of xs])
    finally show ?thesis .
  qed
qed

lemma sibling_take: "even k \<Longrightarrow> i < k \<Longrightarrow> k \<le> length xs \<Longrightarrow> sibling (take k xs) i = sibling xs i"
  by (auto simp: sibling_def elim!: evenE)

lemma sibling_drop: "even k \<Longrightarrow> k \<le> i \<Longrightarrow> i < length xs \<Longrightarrow> sibling (drop k xs) (i - k) = sibling xs i"
  by (auto simp: sibling_def elim!: oddE)

lemma rfc_path_up:
  "i < length xs \<Longrightarrow> rfc_path H i xs = sibling xs i @ rfc_path H (i div 2) (up H xs)"
proof (induction xs arbitrary: i rule: length_induct)
  case (1 xs)
  consider "length xs \<le> 1" | "length xs = 2" | "3 \<le> length xs" by linarith
  then show ?case
  proof cases
    case 1
    with "1.prems" have "i = 0" by simp
    with 1 show ?thesis by (simp add: sibling_def)
  next
    case 2
    with "1.prems" show ?thesis
      by (auto simp: rfc_path_split sibling_def length_Suc_conv numeral_2_eq_2 less_Suc_eq)
  next
    case 3
    define k where "k = largestPow2Less ((length xs + 1) div 2)"
    have k2: "largestPow2Less (length xs) = 2 * k"
      using 3 by (simp add: k_def largestPow2Less_half)
    have kb: "0 < k" "2 * k < length xs"
      using 3 k2 largestPow2Less_bounds [of "length xs"] by auto
    have upl: "2 \<le> length (up H xs)" "largestPow2Less (length (up H xs)) = k"
      using 3 by (auto simp: k_def)
    show ?thesis
    proof (cases "i < 2 * k")
      case True
      then have "i div 2 < k" by simp
      have "rfc_path H i xs =
          sibling (take (2 * k) xs) i @ rfc_path H (i div 2) (up H (take (2 * k) xs)) @
          [mth H (drop (2 * k) xs)]"
        using "1.IH" kb 3 k2 True by (simp add: rfc_path_split [of xs] Let_def)
      also have "\<dots> = sibling xs i @ rfc_path H (i div 2) (up H xs)"
        using True kb upl \<open>i div 2 < k\<close>
        by (simp add: sibling_take rfc_path_split [of "up H xs"] Let_def up_take
            up_drop [symmetric] mth_up)
      finally show ?thesis .
    next
      case False
      have d: "(i - 2 * k) div 2 = i div 2 - k" and "\<not> i div 2 < k"
        using False by auto
      have "rfc_path H i xs =
          sibling (drop (2 * k) xs) (i - 2 * k) @
          rfc_path H ((i - 2 * k) div 2) (up H (drop (2 * k) xs)) @ [mth H (take (2 * k) xs)]"
        using "1.IH" "1.prems" kb 3 k2 False by (simp add: rfc_path_split [of xs] Let_def)
      also have "\<dots> = sibling xs i @ rfc_path H (i div 2) (up H xs)"
        using False kb upl d "1.prems" \<open>\<not> i div 2 < k\<close>
        by (simp add: sibling_drop rfc_path_split [of "up H xs"] Let_def up_drop
            up_take [symmetric] mth_up)
      finally show ?thesis .
    qed
  qed
qed

section \<open>The code computes the specification\<close>

context digest32
begin

lemma length_node [simp]: "length (node H l r) = HashSize"
  by (simp add: node_def)

lemma hashes_up [simp]: "hashes xs \<Longrightarrow> hashes (up H xs)"
  by (induction xs rule: induct_list012) auto

lemma CombineNodes_ok [simp]:
  "length l = HashSize \<Longrightarrow> length r = HashSize \<Longrightarrow> CombineNodes H l r = Inr (node H l r)"
  by (simp add: CombineNodes_def node_def)

lemma pair_level_up [simp]: "hashes xs \<Longrightarrow> pair_level H xs = Inr (up H xs)"
  by (induction xs rule: induct_list012) auto

lemma length_mth [simp]: "hashes xs \<Longrightarrow> length (mth H xs) = HashSize"
  by (cases xs rule: list_size_cases) (auto simp: mth_split)

lemma root_loop_mth: "hashes xs \<Longrightarrow> xs \<noteq> [] \<Longrightarrow> root_loop H xs = Inr (mth H xs)"
proof (induction xs rule: level_induct [where H = H])
  case nil
  then show ?case by simp
next
  case (single x)
  then show ?case by (simp add: root_loop.simps)
next
  case (level xs)
  then show ?case by (simp add: root_loop.simps [of H xs] mth_up)
qed

lemma ComputeMerkleRoot_mth: "hashes xs \<Longrightarrow> ComputeMerkleRoot H xs = Inr (mth H xs)"
  by (simp add: ComputeMerkleRoot_def root_loop_mth hashes_list_ex)

lemma root_or_panic_mth [simp]: "hashes xs \<Longrightarrow> root_or_panic H xs = Some (mth H xs)"
  by (simp add: root_or_panic_def ComputeMerkleRoot_mth)

lemma path_loop_rfc:
  "hashes xs \<Longrightarrow> i < length xs \<Longrightarrow> path_loop H xs i = Some (rfc_path H i xs)"
proof (induction xs arbitrary: i rule: level_induct [where H = H])
  case nil
  then show ?case by simp
next
  case (single x)
  then show ?case by (simp add: path_loop.simps)
next
  case (level xs)
  have "level_sibling xs i = Some (sibling xs i)"
    using level.prems by (auto simp: level_sibling_def sibling_def)
  moreover have "path_loop H (up H xs) (i div 2) = Some (rfc_path H (i div 2) (up H xs))"
    using level by (intro level.IH) auto
  ultimately show ?case
    using level by (simp add: path_loop.simps [of H xs] rfc_path_up [of i xs])
qed

lemma buildInclusionPath_rfc:
  "hashes xs \<Longrightarrow> i < length xs \<Longrightarrow> buildInclusionPathInternal H xs i = Some (rfc_path H i xs)"
  by (cases xs) (auto simp: buildInclusionPathInternal_def path_loop_rfc)

lemma hashes_rfc_path [simp]: "hashes xs \<Longrightarrow> hashes (rfc_path H m xs)"
proof (induction xs arbitrary: m rule: length_induct)
  case (1 xs)
  show ?case
  proof (cases "2 \<le> length xs")
    case True
    define k where "k = largestPow2Less (length xs)"
    have "length (take k xs) < length xs" "length (drop k xs) < length xs"
      using True largestPow2Less_bounds [of "length xs"] by (auto simp: k_def)
    with True "1.IH" "1.prems" show ?thesis
      by (simp add: rfc_path_split Let_def k_def [symmetric])
  next
    case False
    then show ?thesis by simp
  qed
qed

end

end
