(* ===== verification/MerkleProofs.thy ===== *)
theory MerkleProofs
  imports MerkleSpec
begin

text \<open>
  Correctness of the proof verifiers of the witness log: the operator's audit paths and
  consistency proofs are accepted, and an accepted proof is the operator's or exhibits a
  collision of the hash between an input of the tree and an input of the verifier.

  The verifiers' loops follow the levels of the tree from the leaf up; the lemmas go one level
  at a time. \<open>incl_inputs\<close> lists what the inclusion loop hashes; \<open>old_fold\<close> is the
  reconstruction of the old root in the consistency loop.
\<close>

fun incl_inputs ::
    "(bytes \<Rightarrow> bytes) \<Rightarrow> nat \<Rightarrow> nat \<Rightarrow> bytes \<Rightarrow> bytes list \<Rightarrow> bytes list" where
  "incl_inputs H sn fn h [] = []"
| "incl_inputs H sn fn h (p # ps) =
     (if fn = 0 then []
      else if odd sn \<or> sn = fn
      then (let (sn', fn') = bubble sn fn
            in node_input p h # incl_inputs H (sn' div 2) (fn' div 2) (node H p h) ps)
      else node_input h p # incl_inputs H (sn div 2) (fn div 2) (node H h p) ps)"

fun old_fold :: "(bytes \<Rightarrow> bytes) \<Rightarrow> nat \<Rightarrow> nat \<Rightarrow> bytes \<Rightarrow> bytes list \<Rightarrow> bytes" where
  "old_fold H n l h [] = h"
| "old_fold H n l h (p # ps) =
     (if odd n \<or> n = l
      then (let (n', l') = bubble n l in old_fold H (n' div 2) (l' div 2) (node H p h) ps)
      else old_fold H (n div 2) (l div 2) h ps)"

text \<open>What the consistency verifier hashes for the new root, from the two sizes.\<close>

definition cons_inputs ::
    "(bytes \<Rightarrow> bytes) \<Rightarrow> nat \<Rightarrow> nat \<Rightarrow> bytes \<Rightarrow> bytes list \<Rightarrow> bytes list" where
  "cons_inputs H m n oldRoot path =
     (let (nd, l) = strip_ones (m - 1) (n - 1)
      in incl_inputs H nd l (if 0 < nd then hd path else oldRoot) (if 0 < nd then tl path else path))"

text \<open>An input of the tree over \<open>xs\<close> and one of \<open>ins\<close> that collide.\<close>

definition tree_collision :: "(bytes \<Rightarrow> bytes) \<Rightarrow> bytes list \<Rightarrow> bytes list \<Rightarrow> bool" where
  "tree_collision H ins xs \<longleftrightarrow> (\<exists>x \<in> set (tree_inputs H xs). \<exists>y \<in> set ins. collides H x y)"

section \<open>The counters\<close>

lemma bubble_odd [simp]: "odd sn \<Longrightarrow> bubble sn fn = (sn, fn)"
  by (simp add: bubble.simps)

lemma bubble_even: "even sn \<Longrightarrow> sn \<noteq> 0 \<Longrightarrow> bubble sn fn = bubble (sn div 2) (fn div 2)"
  by (subst bubble.simps) simp

lemma strip_ones_odd [simp]: "odd nd \<Longrightarrow> strip_ones nd l = strip_ones (nd div 2) (l div 2)"
  by (subst strip_ones.simps) simp

lemma strip_ones_even [simp]: "even nd \<Longrightarrow> strip_ones nd l = (nd, l)"
  by (subst strip_ones.simps) simp

lemma strip_ones_level:
  assumes "even m" "0 < m" "m < n"
  shows "strip_ones (m - 1) (n - 1) = strip_ones (m div 2 - 1) ((n + 1) div 2 - 1)"
proof -
  from assms have "odd (m - 1)" and "(m - 1) div 2 = m div 2 - 1"
    and "(n - 1) div 2 = (n + 1) div 2 - 1"
    by (auto elim!: evenE)
  then show ?thesis by simp
qed

lemma last_index_up: "2 \<le> length xs \<Longrightarrow> length (up H xs) - Suc 0 = (length xs - Suc 0) div 2"
  by auto

lemma up_last:
  assumes "even i" "i = length xs - 1" "2 \<le> length xs"
  shows "up H xs ! (i div 2) = xs ! i"
proof -
  from assms(1) obtain j where j: "i = 2 * j" by (elim evenE)
  with assms have "\<not> 2 * j + 1 < length xs" and "j < length (up H xs)" by auto
  with j show ?thesis by (simp add: up_nth del: length_up)
qed

lemma tree_inputs_up: "2 \<le> length xs \<Longrightarrow> set (tree_inputs H (up H xs)) \<subseteq> set (tree_inputs H xs)"
  by (subst (2) tree_inputs.simps) auto

lemma pair_inputs_tree:
  "2 \<le> length xs \<Longrightarrow> set (pair_inputs xs) \<subseteq> set (tree_inputs H xs)"
  by (subst tree_inputs.simps) auto

context digest32
begin

section \<open>One step of the loops\<close>

lemma incl_loop_left:
  "\<lbrakk>length h = HashSize; length p = HashSize; odd i; 0 < l\<rbrakk> \<Longrightarrow>
   incl_loop H i l h (p # ps) = incl_loop H (i div 2) (l div 2) (node H p h) ps"
  by simp

lemma incl_loop_right:
  "\<lbrakk>length h = HashSize; length p = HashSize; even i; i < l\<rbrakk> \<Longrightarrow>
   incl_loop H i l h (p # ps) = incl_loop H (i div 2) (l div 2) (node H h p) ps"
  by simp

lemma half_eq_0_iff: "even i \<Longrightarrow> 0 < i \<Longrightarrow> i div 2 \<noteq> (0::nat)"
  by (auto elim!: evenE)

lemma incl_loop_promote:
  assumes "even i" "0 < i"
  shows "incl_loop H i i h ps = Inr (0, r) \<longleftrightarrow> incl_loop H (i div 2) (i div 2) h ps = Inr (0, r)"
proof (cases ps)
  case Nil
  with assms show ?thesis by (auto elim!: evenE)
next
  case (Cons p ps')
  have "bubble i i = (if even (i div 2) then bubble (i div 2) (i div 2) else (i div 2, i div 2))"
    using assms by (simp add: bubble_even)
  with Cons assms half_eq_0_iff [OF assms] show ?thesis by simp
qed

lemma incl_inputs_promote:
  assumes "even i" "0 < i"
  shows "incl_inputs H i i h ps = incl_inputs H (i div 2) (i div 2) h ps"
proof (cases ps)
  case (Cons p ps')
  then show ?thesis using assms half_eq_0_iff [OF assms] by (simp add: bubble_even)
qed simp

lemma old_fold_promote:
  assumes "even i" "0 < i"
  shows "old_fold H i i h ps = old_fold H (i div 2) (i div 2) h ps"
proof (cases ps)
  case (Cons p ps')
  then show ?thesis using assms by (simp add: bubble_even)
qed simp

section \<open>Inclusion\<close>

text \<open>One level of the honest walk: consume the sibling, if there is one, and go up.\<close>

lemma honest_step:
  assumes "2 \<le> length xs" "i < length xs" "hashes xs" "hashes ps"
  shows "incl_loop H i (length xs - 1) (xs ! i) (sibling xs i @ ps) = Inr (0, r) \<longleftrightarrow>
    incl_loop H (i div 2) (length (up H xs) - 1) (up H xs ! (i div 2)) ps = Inr (0, r)"
proof -
  consider (odd) "odd i" | (even) "even i" "i + 1 < length xs" | (last) "even i" "i = length xs - 1"
    using assms(2) by linarith
  then show ?thesis
  proof cases
    case odd
    then obtain j where j: "i = 2 * j + 1" by (elim oddE)
    then have "up H xs ! (i div 2) = node H (xs ! (i - 1)) (xs ! i)"
      using assms by (simp add: up_nth)
    with odd assms show ?thesis
      by (simp add: sibling_def last_index_up incl_loop_left del: length_up incl_loop.simps)
  next
    case even
    then obtain j where j: "i = 2 * j" by (elim evenE)
    then have "up H xs ! (i div 2) = node H (xs ! i) (xs ! (i + 1))"
      using assms even by (simp add: up_nth)
    with even assms show ?thesis
      by (simp add: sibling_def last_index_up incl_loop_right del: length_up incl_loop.simps)
  next
    case last
    then have "up H xs ! (i div 2) = xs ! i"
      using assms by (intro up_last)
    moreover have "0 < i" using last assms by simp
    moreover have "sibling xs i = []" using last by (auto simp: sibling_def)
    ultimately show ?thesis
      using last assms incl_loop_promote [of i "xs ! i" ps r]
      by (simp add: last_index_up del: length_up)
  qed
qed

lemma incl_loop_complete:
  "hashes xs \<Longrightarrow> i < length xs \<Longrightarrow>
   incl_loop H i (length xs - 1) (xs ! i) (rfc_path H i xs) = Inr (0, mth H xs)"
proof (induction xs arbitrary: i rule: level_induct [where H = H])
  case nil
  then show ?case by simp
next
  case (single x)
  then show ?case by simp
next
  case (level xs)
  then have "incl_loop H (i div 2) (length (up H xs) - 1) (up H xs ! (i div 2))
      (rfc_path H (i div 2) (up H xs)) = Inr (0, mth H xs)"
    by (subst level.IH) (auto simp: mth_up)
  with level show ?case
    by (simp only: rfc_path_up [of i xs] honest_step hashes_rfc_path hashes_up)
qed

text \<open>
  Soundness of the walk: what reaches the root of \<open>xs\<close> from position \<open>i\<close> started at
  \<open>xs ! i\<close> and followed its audit path, or two different inputs were hashed to one digest.
\<close>

lemma tree_collision_up:
  "2 \<le> length xs \<Longrightarrow> tree_collision H ins (up H xs) \<Longrightarrow> set ins \<subseteq> set ins' \<Longrightarrow> tree_collision H ins' xs"
  using tree_inputs_up by (fastforce simp: tree_collision_def)

lemma node_collision:
  assumes "node H a b = up H xs ! j" "2 * j + 1 < length xs" "hashes xs" "length a = HashSize"
    and "node_input a b \<in> set ins"
  shows "(a = xs ! (2 * j) \<and> b = xs ! (2 * j + 1)) \<or> tree_collision H ins xs"
proof (cases "node_input (xs ! (2 * j)) (xs ! (2 * j + 1)) = node_input a b")
  case True
  then show ?thesis using assms by (simp add: node_input_inj)
next
  case False
  have "j < length (up H xs)" using assms(2) by simp
  then have "H (node_input (xs ! (2 * j)) (xs ! (2 * j + 1))) = H (node_input a b)"
    using assms(1,2) by (simp add: up_nth node_def)
  with False assms pair_inputs_nth [OF assms(2)] pair_inputs_tree [of xs] show ?thesis
    by (fastforce simp: tree_collision_def collides_def)
qed

lemma incl_loop_sound:
  "\<lbrakk>hashes xs; i < length xs; length h = HashSize; hashes ps;
    incl_loop H i (length xs - 1) h ps = Inr (0, mth H xs)\<rbrakk> \<Longrightarrow>
   (h = xs ! i \<and> ps = rfc_path H i xs) \<or> tree_collision H (incl_inputs H i (length xs - 1) h ps) xs"
proof (induction xs arbitrary: i h ps rule: level_induct [where H = H])
  case nil
  then show ?case by simp
next
  case (single x)
  then show ?case by (cases ps) auto
next
  case (level xs)
  have iu: "i div 2 < length (up H xs)" and hu: "hashes (up H xs)"
    using level.prems level.hyps by auto
  have lu: "length (up H xs) - 1 = (length xs - 1) div 2"
    using last_index_up [OF level.hyps] by (simp only: One_nat_def)
  note IH = level.IH [OF hu iu, unfolded lu mth_up]
  consider (odd) "odd i" | (even) "even i" "i + 1 < length xs" | (last) "even i" "i = length xs - 1"
    using level.prems(2) by linarith
  then show ?case
  proof cases
    case odd
    then obtain j where j: "i = 2 * j + 1" by (elim oddE)
    from level obtain p ps' where ps: "ps = p # ps'" by (cases ps) auto
    have ins: "incl_inputs H i (length xs - 1) h ps =
        node_input p h # incl_inputs H (i div 2) ((length xs - 1) div 2) (node H p h) ps'"
      using ps odd level.hyps by simp
    have "incl_loop H (i div 2) ((length xs - 1) div 2) (node H p h) ps' = Inr (0, mth H xs)"
      using level.prems level.hyps ps odd by (simp add: incl_loop_left del: incl_loop.simps)
    then have "(node H p h = up H xs ! j \<and> ps' = rfc_path H (i div 2) (up H xs)) \<or>
        tree_collision H (incl_inputs H i (length xs - 1) h ps) xs"
      using IH [of "node H p h" ps'] level ps j ins by (auto intro: tree_collision_up)
    moreover have "node H p h = up H xs ! j \<Longrightarrow>
        (p = xs ! (2 * j) \<and> h = xs ! (2 * j + 1)) \<or>
        tree_collision H (incl_inputs H i (length xs - 1) h ps) xs"
      using level ps j ins by (intro node_collision) auto
    moreover have "rfc_path H i xs = xs ! (2 * j) # rfc_path H (i div 2) (up H xs)"
      using level j by (subst rfc_path_up) (auto simp: sibling_def)
    ultimately show ?thesis
      using ps j by auto
  next
    case even
    then obtain j where j: "i = 2 * j" by (elim evenE)
    have "i < length xs - 1" using even(2) by simp
    from level even obtain p ps' where ps: "ps = p # ps'" by (cases ps) auto
    have ins: "incl_inputs H i (length xs - 1) h ps =
        node_input h p # incl_inputs H (i div 2) ((length xs - 1) div 2) (node H h p) ps'"
      using ps even(1) \<open>i < length xs - 1\<close> by simp
    have "incl_loop H (i div 2) ((length xs - 1) div 2) (node H h p) ps' = Inr (0, mth H xs)"
      using level.prems level.hyps ps even by (simp add: incl_loop_right del: incl_loop.simps)
    then have "(node H h p = up H xs ! j \<and> ps' = rfc_path H (i div 2) (up H xs)) \<or>
        tree_collision H (incl_inputs H i (length xs - 1) h ps) xs"
      using IH [of "node H h p" ps'] level ps j ins by (auto intro: tree_collision_up)
    moreover have "node H h p = up H xs ! j \<Longrightarrow>
        (h = xs ! (2 * j) \<and> p = xs ! (2 * j + 1)) \<or>
        tree_collision H (incl_inputs H i (length xs - 1) h ps) xs"
      using level ps j ins even by (intro node_collision) auto
    moreover have "rfc_path H i xs = xs ! (2 * j + 1) # rfc_path H (i div 2) (up H xs)"
      using level j even by (subst rfc_path_up) (auto simp: sibling_def)
    ultimately show ?thesis
      using ps j by auto
  next
    case last
    have i0: "0 < i" using last level.hyps by simp
    have "incl_loop H (i div 2) ((length xs - 1) div 2) h ps = Inr (0, mth H xs)"
      using incl_loop_promote [of i h ps] last i0 level.prems by simp
    then have "(h = up H xs ! (i div 2) \<and> ps = rfc_path H (i div 2) (up H xs)) \<or>
        tree_collision H (incl_inputs H i (length xs - 1) h ps) xs"
      using IH [of h ps] level.prems level.hyps incl_inputs_promote [of i h ps] last i0
      by (auto intro: tree_collision_up)
    moreover have "up H xs ! (i div 2) = xs ! i"
      using last level.hyps by (intro up_last)
    moreover have "rfc_path H i xs = rfc_path H (i div 2) (up H xs)"
      using level last by (subst rfc_path_up) (auto simp: sibling_def)
    ultimately show ?thesis by simp
  qed
qed

section \<open>Consistency\<close>

text \<open>The consistency loop is the inclusion loop for the new root beside the old fold.\<close>

lemma cons_loop_incl:
  assumes "length h1 = HashSize" "length h2 = HashSize" "hashes ps"
  shows "cons_loop H nd l h1 h2 ps = Inr (0, a, b) \<longleftrightarrow>
    incl_loop H nd l h2 ps = Inr (0, b) \<and> a = old_fold H nd l h1 ps"
  using assms
proof (induction ps arbitrary: nd l h1 h2)
  case (Cons p ps)
  have b: "(if even nd then bubble nd l else (nd, l)) = bubble nd l"
    by simp
  show ?case
  proof (cases "odd nd \<or> nd = l")
    case True
    obtain n' l' where "bubble nd l = (n', l')" by fastforce
    with True b Cons show ?thesis by (cases "l = 0") (simp_all)
  next
    case False
    with Cons show ?thesis by (cases "l = 0") (simp_all)
  qed
qed auto

text \<open>
  The old tree at a level: it agrees with the new tree's level up to its last node, which is the
  old fold's current hash.
\<close>

lemma up_old_level:
  assumes "i < length xs"
  shows "up H (take i xs @ [h]) =
    take (i div 2) (up H xs) @ [if odd i then node H (xs ! (i - 1)) h else h]"
proof -
  have e: "up H (take (2 * j) xs @ ys) = take j (up H xs) @ up H ys" if "2 * j \<le> length xs" for j ys
    using that
  proof (induction j arbitrary: xs)
    case (Suc j)
    then obtain a b zs where xs: "xs = a # b # zs"
      by (cases xs rule: list_size_cases) (auto simp: numeral_2_eq_2 Suc_le_length_iff)
    with Suc show ?case by simp
  qed simp
  show ?thesis
  proof (cases "odd i")
    case True
    then obtain j where j: "i = 2 * j + 1" by (elim oddE)
    then have "take i xs = take (2 * j) xs @ [xs ! (2 * j)]"
      using assms by (simp add: take_Suc_conv_app_nth)
    with j e [of j "[xs ! (2 * j), h]"] assms show ?thesis by simp
  next
    case False
    then have "even i" by simp
    then obtain j where "i = 2 * j" by (elim evenE)
    with e [of j "[h]"] assms show ?thesis by simp
  qed
qed

lemma old_fold_complete:
  "hashes xs \<Longrightarrow> i < length xs \<Longrightarrow>
   old_fold H i (length xs - 1) h (rfc_path H i xs) = mth H (take i xs @ [h])"
proof (induction xs arbitrary: i h rule: level_induct [where H = H])
  case nil
  then show ?case by simp
next
  case (single x)
  then show ?case by simp
next
  case (level xs)
  define h' where "h' = (if odd i then node H (xs ! (i - 1)) h else h)"
  have "old_fold H (i div 2) (length (up H xs) - 1) h' (rfc_path H (i div 2) (up H xs)) =
      mth H (take i xs @ [h])"
    using level by (subst level.IH) (auto simp: up_old_level [symmetric] h'_def mth_up)
  moreover have "old_fold H i (length xs - 1) h (sibling xs i @ rfc_path H (i div 2) (up H xs)) =
      old_fold H (i div 2) (length (up H xs) - 1) h' (rfc_path H (i div 2) (up H xs))"
  proof (cases "even i \<and> i = length xs - 1")
    case True
    then have ev: "even i" and li: "length xs - 1 = i" by auto
    have "sibling xs i = []" and "0 < i" using ev li level.hyps by (auto simp: sibling_def)
    moreover have "h' = h" using ev by (simp add: h'_def)
    moreover have "length (up H xs) - 1 = i div 2"
      using li last_index_up [OF level.hyps] by simp
    ultimately show ?thesis
      using old_fold_promote [OF ev] by (simp only: li append_Nil)
  next
    case False
    with level show ?thesis
      by (auto simp: sibling_def h'_def last_index_up simp del: length_up)
  qed
  ultimately show ?case
    using level.prems by (simp only: rfc_path_up [of i xs])
qed

text \<open>The operator's consistency proof, one level up for an even old size.\<close>

lemma subproof_unfold:
  "hashes xs \<Longrightarrow>
   subproofInternal H m xs b =
     (if m = length xs then Some (if b then [] else [mth H xs])
      else let k = largestPow2Less (length xs)
           in if m \<le> k
              then map_option (\<lambda>s. s @ [mth H (drop k xs)]) (subproofInternal H m (take k xs) b)
              else map_option (\<lambda>s. s @ [mth H (take k xs)])
                     (subproofInternal H (m - k) (drop k xs) False))"
  by (subst subproofInternal.simps) (auto simp: Let_def map_option_case split: option.split)

lemma subproof_up:
  "\<lbrakk>hashes xs; even m; 0 < m; m \<le> length xs\<rbrakk> \<Longrightarrow>
   subproofInternal H m xs b = subproofInternal H (m div 2) (up H xs) b"
proof (induction xs arbitrary: m b rule: length_induct)
  case (1 xs)
  note IH = "1.IH" [rule_format]
  have m2: "2 \<le> m" using "1.prems" by (auto elim!: evenE)
  show ?case
  proof (cases "m = length xs")
    case True
    then have "length (up H xs) = m div 2" using "1.prems" by (auto elim!: evenE)
    with True "1.prems" show ?thesis by (simp add: subproof_unfold mth_up del: length_up)
  next
    case False
    then have n3: "3 \<le> length xs" using m2 "1.prems" by simp
    define k where "k = largestPow2Less ((length xs + 1) div 2)"
    have k2: "largestPow2Less (length xs) = 2 * k" "largestPow2Less (length (up H xs)) = k"
      using n3 by (simp_all add: k_def largestPow2Less_half)
    have kb: "0 < k" "2 * k < length xs"
      using n3 k2 largestPow2Less_bounds [of "length xs"] by auto
    have ne: "m div 2 \<noteq> length (up H xs)" using False "1.prems" by (auto elim!: evenE)
    show ?thesis
    proof (cases "m \<le> 2 * k")
      case True
      then have mk: "m div 2 \<le> k" by simp
      have "subproofInternal H m (take (2 * k) xs) b =
          subproofInternal H (m div 2) (take k (up H xs)) b"
        using IH [of "take (2 * k) xs" m b] kb "1.prems" True by (simp add: up_take)
      moreover have "mth H (drop k (up H xs)) = mth H (drop (2 * k) xs)"
        by (simp add: up_drop [symmetric] mth_up)
      ultimately show ?thesis
        using True False ne k2 mk "1.prems"(1)
        by (simp only: subproof_unfold [of xs m] subproof_unfold [of "up H xs" "m div 2"]
            hashes_up Let_def if_False if_True)
    next
      case F: False
      have d: "(m - 2 * k) div 2 = m div 2 - k" and nk: "\<not> m div 2 \<le> k"
        using F "1.prems"(2) by (auto elim!: evenE)
      have "subproofInternal H (m - 2 * k) (drop (2 * k) xs) False =
          subproofInternal H (m div 2 - k) (drop k (up H xs)) False"
        using IH [of "drop (2 * k) xs" "m - 2 * k" False] kb "1.prems" F d by (simp add: up_drop)
      moreover have "mth H (take k (up H xs)) = mth H (take (2 * k) xs)"
        by (simp add: up_take [symmetric] mth_up)
      ultimately show ?thesis
        using F False ne k2 nk "1.prems"(1)
        by (simp only: subproof_unfold [of xs m] subproof_unfold [of "up H xs" "m div 2"]
            hashes_up Let_def if_False if_True)
    qed
  qed
qed

lemma subproof_odd:
  "\<lbrakk>hashes xs; odd m; m < length xs \<or> m = 1 \<and> length xs = 1\<rbrakk> \<Longrightarrow>
   subproofInternal H m xs b =
     Some ((if b \<and> m = 1 then [] else [xs ! (m - 1)]) @ rfc_path H (m - 1) xs)"
proof (induction xs arbitrary: m b rule: length_induct)
  case (1 xs)
  note IH = "1.IH" [rule_format]
  show ?case
  proof (cases "m < length xs")
    case False
    with "1.prems" obtain x where "xs = [x]" by (auto simp: length_Suc_conv)
    with False "1.prems" show ?thesis by (simp add: subproof_unfold)
  next
    case True
    define k where "k = largestPow2Less (length xs)"
    have m0: "0 < m" using "1.prems"(2) by (rule odd_pos)
    with True have n2: "2 \<le> length xs" by simp
    then have kb: "0 < k" "k < length xs" using largestPow2Less_bounds by (simp_all add: k_def)
    have ko: "odd k \<Longrightarrow> k = 1" using largestPow2Less_odd n2 by (simp add: k_def)
    show ?thesis
    proof (cases "m \<le> k")
      case mk: True
      have "subproofInternal H m (take k xs) b =
          Some ((if b \<and> m = 1 then [] else [take k xs ! (m - 1)]) @ rfc_path H (m - 1) (take k xs))"
        using IH [of "take k xs" m b] "1.prems" kb mk ko m0 by (cases "m = k") auto
      moreover have "m - 1 < k" using mk m0 by simp
      ultimately show ?thesis
        using True mk n2 m0 "1.prems"
        by (simp add: subproof_unfold [of xs] rfc_path_split [of xs] k_def [symmetric] Let_def)
    next
      case mk: False
      have "k \<noteq> 1"
      proof
        assume "k = 1"
        with n2 have "length xs \<le> 2"
          using largestPow2Less_spec [of "length xs"] by (auto simp: k_def)
        with mk True \<open>k = 1\<close> show False by simp
      qed
      with ko have "even k" by blast
      with mk "1.prems"(2) have od: "odd (m - k)" by simp
      have "length (drop k xs) < length xs" and "m - k < length (drop k xs)"
        using kb mk True by auto
      then have "subproofInternal H (m - k) (drop k xs) False =
          Some (drop k xs ! (m - k - 1) # rfc_path H (m - k - 1) (drop k xs))"
        using IH [of "drop k xs" "m - k" False] "1.prems"(1) od by simp
      moreover have "\<not> m - 1 < k" and "m - k - 1 = m - 1 - k" and "k \<le> m - 1"
        using mk by auto
      ultimately show ?thesis
        using True mk n2 kb "1.prems"
        by (simp add: subproof_unfold [of xs] rfc_path_split [of xs] k_def [symmetric] Let_def)
    qed
  qed
qed

text \<open>The walk of the consistency verifier, on the operator's proof.\<close>

lemma cons_walk_iff:
  assumes "length oldRoot = HashSize" "hashes path"
  shows "cons_walk H nd l oldRoot newRoot path = None \<longleftrightarrow>
    (let seed = (if 0 < nd then hd path else oldRoot); rest = (if 0 < nd then tl path else path)
     in \<not> (0 < nd \<and> path = []) \<and> incl_loop H nd l seed rest = Inr (0, newRoot) \<and>
        old_fold H nd l seed rest = oldRoot)"
proof (cases "0 < nd \<and> path = []")
  case True
  then show ?thesis by (simp add: cons_walk_def)
next
  case False
  define seed where "seed = (if 0 < nd then hd path else oldRoot)"
  define rest where "rest = (if 0 < nd then tl path else path)"
  have "length seed = HashSize" and "hashes rest"
    using False assms by (cases path; simp add: seed_def rest_def)+
  then have key: "cons_loop H nd l seed seed rest = Inr (0, a, b) \<longleftrightarrow>
      incl_loop H nd l seed rest = Inr (0, b) \<and> a = old_fold H nd l seed rest" for a b
    by (intro cons_loop_incl)
  have "cons_walk H nd l oldRoot newRoot path = None \<longleftrightarrow>
      cons_loop H nd l seed seed rest = Inr (0, oldRoot, newRoot)"
    using False
    by (auto simp: cons_walk_def seed_def [symmetric] rest_def [symmetric] Let_def
        split: sum.splits prod.splits)
  then show ?thesis
    using False key by (auto simp: seed_def [symmetric] rest_def [symmetric] Let_def)
qed

lemma walk_complete:
  "\<lbrakk>hashes xs; 0 < m; m < length xs\<rbrakk> \<Longrightarrow>
   \<exists>path. subproofInternal H m xs True = Some path \<and> hashes path \<and>
     (\<forall>nd l. strip_ones (m - 1) (length xs - 1) = (nd, l) \<longrightarrow>
        cons_walk H nd l (mth H (take m xs)) (mth H xs) path = None)"
proof (induction xs arbitrary: m rule: level_induct [where H = H])
  case nil
  then show ?case by simp
next
  case (single x)
  then show ?case by simp
next
  case (level xs)
  show ?case
  proof (cases "even m")
    case True
    then obtain j where j: "m = 2 * j" by (elim evenE)
    have "mth H (take (m div 2) (up H xs)) = mth H (take m xs)"
      by (simp add: j up_take [symmetric] mth_up)
    moreover have "m div 2 < length (up H xs)" "0 < m div 2"
      using level.prems j by auto
    moreover have "subproofInternal H m xs True = subproofInternal H (m div 2) (up H xs) True"
      using level.prems True by (intro subproof_up) auto
    moreover have "strip_ones (m - 1) (length xs - 1) =
        strip_ones (m div 2 - 1) (length (up H xs) - 1)"
      using strip_ones_level [OF True level.prems(2,3)] by simp
    ultimately show ?thesis
      using level.IH [of "m div 2"] level.prems(1) by (simp only: mth_up hashes_up)
  next
    case False
    define seed where "seed = xs ! (m - 1)"
    have m1: "m - 1 < length xs" and tk: "take (m - 1) xs @ [seed] = take m xs"
      using level.prems take_Suc_conv_app_nth [of "m - 1" xs] by (simp_all add: seed_def)
    have sub: "subproofInternal H m xs True =
        Some ((if m = 1 then [] else [seed]) @ rfc_path H (m - 1) xs)"
      using False level.prems by (simp add: subproof_odd seed_def)
    have "old_fold H (m - 1) (length xs - 1) seed (rfc_path H (m - 1) xs) = mth H (take m xs)"
      using old_fold_complete [OF level.prems(1) m1, of seed] by (simp only: tk)
    moreover have "incl_loop H (m - 1) (length xs - 1) seed (rfc_path H (m - 1) xs) = Inr (0, mth H xs)"
      using level.prems m1 by (simp only: seed_def incl_loop_complete)
    moreover have "m = 1 \<Longrightarrow> mth H (take m xs) = seed"
      using m1 by (cases xs) (auto simp: seed_def)
    moreover have "length seed = HashSize" using level.prems m1 by (simp add: seed_def)
    ultimately show ?thesis
      using False level.prems sub
      by (cases "m = 1") (simp_all add: cons_walk_iff Let_def)
  qed
qed

lemma walk_sound:
  "\<lbrakk>hashes xs; 0 < m; m < length xs; length oldRoot = HashSize; hashes path;
    strip_ones (m - 1) (length xs - 1) = (nd, l);
    cons_walk H nd l oldRoot (mth H xs) path = None\<rbrakk> \<Longrightarrow>
   oldRoot = mth H (take m xs) \<or> tree_collision H (cons_inputs H m (length xs) oldRoot path) xs"
proof (induction xs arbitrary: m rule: level_induct [where H = H])
  case nil
  then show ?case by simp
next
  case (single x)
  then show ?case by simp
next
  case (level xs)
  show ?case
  proof (cases "even m")
    case True
    then obtain j where j: "m = 2 * j" by (elim evenE)
    have mt: "mth H (take (m div 2) (up H xs)) = mth H (take m xs)"
      by (simp add: j up_take [symmetric] mth_up)
    have b: "m div 2 < length (up H xs)" "0 < m div 2"
      using level.prems j by auto
    have st: "strip_ones (m - 1) (length xs - 1) = strip_ones (m div 2 - 1) (length (up H xs) - 1)"
      using strip_ones_level [OF True level.prems(2,3)] by simp
    then have "cons_inputs H m (length xs) oldRoot path =
        cons_inputs H (m div 2) (length (up H xs)) oldRoot path"
      by (simp only: cons_inputs_def)
    moreover have "oldRoot = mth H (take m xs) \<or>
        tree_collision H (cons_inputs H (m div 2) (length (up H xs)) oldRoot path) (up H xs)"
      using level.IH [of "m div 2"] level.prems b st by (simp only: mth_up hashes_up mt)
    ultimately show ?thesis
      using level.hyps by (auto intro: tree_collision_up)
  next
    case False
    then have nd: "nd = m - 1" "l = length xs - 1" using level.prems by auto
    define seed where "seed = (if 0 < nd then hd path else oldRoot)"
    define rest where "rest = (if 0 < nd then tl path else path)"
    have w: "incl_loop H nd l seed rest = Inr (0, mth H xs)" "old_fold H nd l seed rest = oldRoot"
      and ne: "\<not> (0 < nd \<and> path = [])"
      using level.prems by (auto simp: cons_walk_iff seed_def rest_def Let_def)
    have "length seed = HashSize" and "hashes rest"
      using level.prems ne by (cases path; simp add: seed_def rest_def)+
    then have "(seed = xs ! nd \<and> rest = rfc_path H nd xs) \<or>
        tree_collision H (incl_inputs H nd l seed rest) xs"
      using incl_loop_sound [of xs nd seed rest] w level.prems nd by simp
    moreover have "take nd xs @ [xs ! nd] = take m xs"
      using level.prems nd take_Suc_conv_app_nth [of nd xs] by simp
    moreover have "cons_inputs H m (length xs) oldRoot path = incl_inputs H nd l seed rest"
      using level.prems by (simp add: cons_inputs_def seed_def rest_def Let_def)
    ultimately show ?thesis
      using w(2) old_fold_complete [of xs nd "xs ! nd"] level.prems nd by auto
  qed
qed

end

end
