(* ===== verification/Verifiers.thy ===== *)
theory Verifiers
  imports MerkleProofs
begin

text \<open>
  The verifiers of src/internal/contracts/witness/proofs.go as a whole: what
  \<open>VerifyInclusion\<close> and \<open>VerifyConsistency\<close> accept, on the operator's proofs and on any
  proof, stated for \<open>SHA256\<close> through its interpretation as a 32-byte digest.
\<close>

section \<open>Sizes as words\<close>

lemma unat_of_nat_u64: "n < 2 ^ 64 \<Longrightarrow> unat (of_nat n :: u64) = n"
  by (simp add: unat_of_nat)

lemma unat_pred: "(w :: u64) \<noteq> 0 \<Longrightarrow> unat (w - 1) = unat w - 1"
  by (rule unat_minus_one)

lemma of_nat_u64_eq_iff:
  "m < 2 ^ 64 \<Longrightarrow> n < 2 ^ 64 \<Longrightarrow> (of_nat m :: u64) = of_nat n \<longleftrightarrow> m = n"
  by (simp add: word_unat_eq_iff unat_of_nat_u64)

lemma of_nat_u64_le_iff:
  "m < 2 ^ 64 \<Longrightarrow> n < 2 ^ 64 \<Longrightarrow> (of_nat m :: u64) \<le> of_nat n \<longleftrightarrow> m \<le> n"
  by (simp add: word_le_nat_alt unat_of_nat_u64)

lemma of_nat_u64_eq_0_iff: "m < 2 ^ 64 \<Longrightarrow> (of_nat m :: u64) = 0 \<longleftrightarrow> m = 0"
  using of_nat_u64_eq_iff [of m 0] by simp

lemma of_nat_u64_eq_1_iff: "m < 2 ^ 64 \<Longrightarrow> (of_nat m :: u64) = 1 \<longleftrightarrow> m = 1"
  using of_nat_u64_eq_iff [of m 1] by simp

lemma unat_u64_eq_1_iff: "unat (w :: u64) = 1 \<longleftrightarrow> w = 1"
  using word_unat_eq_iff [of w 1] by simp

lemma unat_size_pred:
  "0 < n \<Longrightarrow> n < 2 ^ 64 \<Longrightarrow> unat ((of_nat n :: u64) - 1) = n - 1"
  using unat_pred [of "of_nat n"] of_nat_u64_eq_0_iff [of n] by (simp add: unat_of_nat_u64)

lemmas u64_sizes = unat_size_pred of_nat_u64_eq_iff of_nat_u64_le_iff of_nat_u64_eq_0_iff
  of_nat_u64_eq_1_iff unat_of_nat_u64

lemma rfc_path_not_Nil: "2 \<le> length xs \<Longrightarrow> rfc_path H m xs \<noteq> []"
  by (simp add: rfc_path_split Let_def)

context digest32
begin

lemma VerifyInclusion_iff:
  "VerifyInclusion H leaf (Some p) root = None \<longleftrightarrow>
     length leaf = HashSize \<and> length root = HashSize \<and> InclusionProof_Validate (Some p) = None \<and>
     (if IP_TreeSize p = 1 then leaf = root
      else incl_loop H (unat (IP_LeafIndex p)) (unat (IP_TreeSize p - 1)) leaf (IP_Path p) =
             Inr (0, root))"
  by (auto simp: VerifyInclusion_def split: sum.splits prod.splits)

lemma InclusionProof_Validate_iff:
  "InclusionProof_Validate (Some p) = None \<longleftrightarrow>
     IP_TreeSize p \<noteq> 0 \<and> IP_LeafIndex p < IP_TreeSize p \<and> hashes (IP_Path p) \<and>
     (IP_TreeSize p = 1 \<longleftrightarrow> IP_Path p = [])"
  by (auto simp: InclusionProof_Validate_def hashes_list_ex not_le)

lemma VerifyInclusion_complete:
  assumes "hashes xs" "i < length xs" "length xs < 2 ^ 64"
  shows "VerifyInclusion H (xs ! i)
    (Some \<lparr>IP_LeafIndex = of_nat i, IP_TreeSize = of_nat (length xs), IP_Path = rfc_path H i xs\<rparr>)
    (mth H xs) = None"
proof -
  have il: "i < 2 ^ 64" using assms by simp
  have "InclusionProof_Validate (Some \<lparr>IP_LeafIndex = of_nat i, IP_TreeSize = of_nat (length xs),
      IP_Path = rfc_path H i xs\<rparr>) = None"
    using assms il rfc_path_not_Nil [of xs H i]
    by (cases xs rule: list_size_cases)
      (auto simp: InclusionProof_Validate_iff u64_sizes word_less_nat_alt)
  moreover have "length xs = 1 \<Longrightarrow> xs ! i = mth H xs"
    using assms(2) by (auto simp: length_Suc_conv)
  moreover have "incl_loop H i (length xs - 1) (xs ! i) (rfc_path H i xs) = Inr (0, mth H xs)"
    using assms by (intro incl_loop_complete)
  moreover have "0 < length xs" using assms(2) by linarith
  ultimately show ?thesis
    using assms il by (simp add: VerifyInclusion_iff u64_sizes)
qed

lemma VerifyInclusion_sound:
  assumes "hashes xs" "unat (IP_TreeSize p) = length xs"
    and acc: "VerifyInclusion H leaf (Some p) (mth H xs) = None"
  shows "unat (IP_LeafIndex p) < length xs \<and>
    (leaf = xs ! unat (IP_LeafIndex p) \<and> IP_Path p = rfc_path H (unat (IP_LeafIndex p)) xs \<or>
     tree_collision H
       (incl_inputs H (unat (IP_LeafIndex p)) (length xs - 1) leaf (IP_Path p)) xs)"
proof -
  define i where "i = unat (IP_LeafIndex p)"
  have v: "IP_TreeSize p \<noteq> 0" "i < length xs" "hashes (IP_Path p)" "length leaf = HashSize"
      "IP_TreeSize p = 1 \<longleftrightarrow> IP_Path p = []"
    using acc assms(2)
    by (auto simp: VerifyInclusion_iff InclusionProof_Validate_iff i_def word_less_nat_alt)
  show ?thesis
  proof (cases "IP_TreeSize p = 1")
    case True
    with assms(2) have "length xs = 1" by simp
    then obtain x where "xs = [x]" by (auto simp: length_Suc_conv)
    with acc True v show ?thesis by (simp add: VerifyInclusion_iff i_def)
  next
    case False
    then have "incl_loop H i (length xs - 1) leaf (IP_Path p) = Inr (0, mth H xs)"
      using acc v assms(2) by (simp add: VerifyInclusion_iff unat_pred i_def)
    with incl_loop_sound [OF assms(1) v(2,4,3)] v(2) show ?thesis
      by (simp add: i_def)
  qed
qed

lemma ConsistencyProof_Validate_iff:
  "ConsistencyProof_Validate (Some c) = None \<longleftrightarrow>
     CP_OldSize c \<le> CP_NewSize c \<and> hashes (CP_Path c) \<and>
     (CP_OldSize c = 0 \<or> CP_OldSize c = CP_NewSize c \<longrightarrow> CP_Path c = [])"
  by (auto simp: ConsistencyProof_Validate_def hashes_list_ex not_less)

lemma VerifyConsistency_iff:
  "VerifyConsistency H oldRoot newRoot (Some c) = None \<longleftrightarrow>
     length oldRoot = HashSize \<and> length newRoot = HashSize \<and>
     ConsistencyProof_Validate (Some c) = None \<and>
     (CP_OldSize c = 0 \<or>
      CP_OldSize c = CP_NewSize c \<and> oldRoot = newRoot \<or>
      CP_OldSize c \<noteq> 0 \<and> CP_OldSize c \<noteq> CP_NewSize c \<and>
      (\<forall>nd l. strip_ones (unat (CP_OldSize c - 1)) (unat (CP_NewSize c - 1)) = (nd, l) \<longrightarrow>
         cons_walk H nd l oldRoot newRoot (CP_Path c) = None))"
  by (auto simp: VerifyConsistency_def Let_def split: prod.splits)

text \<open>The path the operator's \<open>ConsistencyProof\<close> sends: none in the two trivial cases.\<close>

lemma VerifyConsistency_complete:
  assumes "hashes xs" "m \<le> length xs" "length xs < 2 ^ 64"
  shows "\<exists>path.
    (if m \<noteq> 0 \<and> m \<noteq> length xs then subproofInternal H m xs True else Some []) = Some path \<and>
    VerifyConsistency H (mth H (take m xs)) (mth H xs)
      (Some \<lparr>CP_OldSize = of_nat m, CP_NewSize = of_nat (length xs), CP_Path = path\<rparr>) = None"
proof (cases "m \<noteq> 0 \<and> m \<noteq> length xs")
  case True
  then obtain path where p: "subproofInternal H m xs True = Some path" "hashes path"
    "\<And>nd l. strip_ones (m - 1) (length xs - 1) = (nd, l) \<Longrightarrow>
       cons_walk H nd l (mth H (take m xs)) (mth H xs) path = None"
    using walk_complete [of xs m] assms by auto
  have "m < 2 ^ 64" "0 < m" "0 < length xs" using assms True by linarith+
  with p True assms show ?thesis
    by (simp add: VerifyConsistency_iff ConsistencyProof_Validate_iff u64_sizes)
next
  case False
  with assms show ?thesis
    by (auto simp: VerifyConsistency_iff ConsistencyProof_Validate_iff)
qed

lemma VerifyConsistency_sound:
  assumes "hashes xs" "unat (CP_NewSize c) = length xs" "CP_OldSize c \<noteq> 0"
    and acc: "VerifyConsistency H oldRoot (mth H xs) (Some c) = None"
  shows "unat (CP_OldSize c) \<le> length xs \<and>
    (oldRoot = mth H (take (unat (CP_OldSize c)) xs) \<or>
     tree_collision H
       (cons_inputs H (unat (CP_OldSize c)) (length xs) oldRoot (CP_Path c)) xs)"
proof -
  define m where "m = unat (CP_OldSize c)"
  have le: "m \<le> length xs" and v: "length oldRoot = HashSize" "hashes (CP_Path c)"
    using acc assms(2)
    by (simp_all add: VerifyConsistency_iff ConsistencyProof_Validate_iff m_def word_le_nat_alt)
  show ?thesis
  proof (cases "CP_OldSize c = CP_NewSize c")
    case True
    with acc assms(2,3) le show ?thesis by (simp add: VerifyConsistency_iff m_def)
  next
    case False
    then have "m \<noteq> length xs"
      using assms(2) by (simp add: m_def word_unat_eq_iff)
    have m0: "0 < m"
      using assms(3) by (simp add: m_def unat_gt_0)
    with \<open>m \<noteq> length xs\<close> have lt: "m < length xs" using le by simp
    obtain nd l where st: "strip_ones (m - 1) (length xs - 1) = (nd, l)" by fastforce
    moreover have "CP_NewSize c \<noteq> 0" using assms(2) lt by auto
    ultimately have "cons_walk H nd l oldRoot (mth H xs) (CP_Path c) = None"
      using acc assms(2,3) False by (simp add: VerifyConsistency_iff unat_pred m_def)
    with walk_sound [OF assms(1) m0 lt v st] le show ?thesis by (simp add: m_def)
  qed
qed

end

end
