(* ===== verification/ForkDetection.thy ===== *)
theory ForkDetection
  imports TreeHead Verifiers
begin

text \<open>
  Fork detection between two signed tree heads
  (src/internal/contracts/witness/fork_detection.go). \<open>DetectFork\<close> returns an error, no evidence
  (a consistent pair), or evidence of one \<open>ForkKind\<close>.

  The lemmas give exactly which pairs are reported consistent, the kind reported on every other
  branch, that the order of the arguments does not change the kind, and that a pair of different
  sizes is cleared only when the older root is the root of a prefix of the newer tree, up to a
  hash collision.
\<close>

datatype ForkKind =
    ForkKindSameSizeDifferentRoot
  | ForkKindSameSizeDifferentChainHead
  | ForkKindTimestampNonMonotonic
  | ForkKindInconsistentProof
  | ForkKindDifferentSigners

fun ForkKind_string :: "ForkKind \<Rightarrow> string" where
  "ForkKind_string ForkKindSameSizeDifferentRoot = ''same_size_different_root''"
| "ForkKind_string ForkKindSameSizeDifferentChainHead = ''same_size_different_chain_head''"
| "ForkKind_string ForkKindTimestampNonMonotonic = ''timestamp_non_monotonic''"
| "ForkKind_string ForkKindInconsistentProof = ''inconsistent_proof''"
| "ForkKind_string ForkKindDifferentSigners = ''different_signers''"

record ForkEvidence =
  FE_A :: SignedTreeHead
  FE_B :: SignedTreeHead
  FE_Kind :: ForkKind
  FE_Detail :: string

fun IsIncident :: "ForkKind \<Rightarrow> bool" where
  "IsIncident ForkKindSameSizeDifferentRoot = True"
| "IsIncident ForkKindSameSizeDifferentChainHead = True"
| "IsIncident ForkKindTimestampNonMonotonic = True"
| "IsIncident ForkKindInconsistentProof = True"
| "IsIncident ForkKindDifferentSigners = False"

definition ForkEvidence_AsError :: "ForkEvidence option \<Rightarrow> go_error option" where
  "ForkEvidence_AsError r =
     (case r of
        None \<Rightarrow> None
      | Some e \<Rightarrow>
          if IsIncident (FE_Kind e)
          then Some (Incident CodeTamperSignal
            (''witness: fork detected ('' @ ForkKind_string (FE_Kind e) @ ''): '' @ FE_Detail e) None)
          else Some (Structural CodeCrossFieldInconsistent
            (''witness: inconsistent signers ('' @ ForkKind_string (FE_Kind e) @ ''): '' @ FE_Detail e) None))"

definition signerEqual :: "KeyID \<Rightarrow> KeyID \<Rightarrow> bool" where
  "signerEqual a b = (a = b)"

text \<open>The digit loop fills the buffer from its end while the number is positive.\<close>

fun format_loop :: "nat \<Rightarrow> string \<Rightarrow> string" where
  "format_loop n buf =
     (if 0 < n then format_loop (n div 10) (char_of (48 + n mod 10) # buf) else buf)"

declare format_loop.simps [simp del]

definition formatUint :: "u64 \<Rightarrow> string" where
  "formatUint n = (if n = 0 then ''0'' else format_loop (unat n) [])"

text \<open>The comparison once \<open>x\<close> is the head of the smaller or equal tree.\<close>

definition fork_verdict ::
    "(bytes \<Rightarrow> bytes) \<Rightarrow> SignedTreeHead \<Rightarrow> SignedTreeHead \<Rightarrow> ConsistencyProof option \<Rightarrow>
     (ForkKind \<times> string) option" where
  "fork_verdict H x y proof =
     (if \<not> signerEqual (STH_SigningKeyID x) (STH_SigningKeyID y)
      then Some (ForkKindDifferentSigners,
        ''a.signing_key_id='' @ STH_SigningKeyID x @ '' b.signing_key_id='' @ STH_SigningKeyID y)
      else if STH_TreeSize x = STH_TreeSize y
      then (if STH_TreeHash x \<noteq> STH_TreeHash y
            then Some (ForkKindSameSizeDifferentRoot, ''tree_size='' @ formatUint (STH_TreeSize x))
            else if STH_TreeChainHead x \<noteq> STH_TreeChainHead y
            then Some (ForkKindSameSizeDifferentChainHead, ''tree_size='' @ formatUint (STH_TreeSize x))
            else None)
      else if STH_Timestamp y < STH_Timestamp x
      then Some (ForkKindTimestampNonMonotonic,
        ''a.tree_size='' @ formatUint (STH_TreeSize x) @ '' b.tree_size='' @ formatUint (STH_TreeSize y))
      else (case proof of
          None \<Rightarrow> Some (ForkKindInconsistentProof, ''consistency_proof missing'')
        | Some p \<Rightarrow>
            if CP_OldSize p \<noteq> STH_TreeSize x \<or> CP_NewSize p \<noteq> STH_TreeSize y
            then Some (ForkKindInconsistentProof, ''consistency_proof sizes disagree with STHs'')
            else (case VerifyConsistency H (STH_TreeHash x) (STH_TreeHash y) proof of
                Some err \<Rightarrow> Some (ForkKindInconsistentProof,
                  ''consistency proof failed: '' @ Error_String err)
              | None \<Rightarrow> None)))"

definition DetectFork ::
    "(bytes \<Rightarrow> bytes) \<Rightarrow> SignedTreeHead option \<Rightarrow> SignedTreeHead option \<Rightarrow> ConsistencyProof option \<Rightarrow>
     go_error + ForkEvidence option" where
  "DetectFork H ra rb proof =
     (case (ra, rb) of
        (Some a, Some b) \<Rightarrow>
          guardR (SignedTreeHead_Validate ra) (guardR (SignedTreeHead_Validate rb)
            (let (x, y) = (if STH_TreeSize a > STH_TreeSize b then (b, a) else (a, b))
             in Inr (map_option (\<lambda>(kind, detail).
                       \<lparr>FE_A = x, FE_B = y, FE_Kind = kind, FE_Detail = detail\<rparr>)
                     (fork_verdict H x y proof))))
      | _ \<Rightarrow> Inl (Structural CodeRequiredFieldMissing ''witness: DetectFork: both STHs required'' None))"

section \<open>The decimal rendering\<close>

lemma format_loop_digits: "0 < n \<Longrightarrow> format_loop n buf = digits_acc n buf"
proof (induction n arbitrary: buf rule: less_induct)
  case (less n)
  show ?case
  proof (cases "n < 10")
    case True
    with less.prems show ?thesis
      by (simp add: format_loop.simps [of n] format_loop.simps [of 0] digits_acc.simps [of n])
  next
    case False
    with less.prems show ?thesis
      by (simp add: format_loop.simps [of n] digits_acc.simps [of n] less.IH)
  qed
qed

lemma formatUint_fmt_d: "formatUint n = fmt_d (unat n)"
proof (cases "n = 0")
  case True
  have "(char_of (48 :: nat)) = CHR ''0''" by code_simp
  with True show ?thesis by (simp add: formatUint_def fmt_d_def digits_acc.simps [of 0])
qed (simp add: formatUint_def fmt_d_def format_loop_digits unat_gt_0)

section \<open>Which pairs are cleared\<close>

definition fork_kind :: "go_error + ForkEvidence option \<Rightarrow> ForkKind option" where
  "fork_kind r = (case r of Inr (Some e) \<Rightarrow> Some (FE_Kind e) | _ \<Rightarrow> None)"

text \<open>The pair an honest append-only operator would publish, \<open>x\<close> no larger than \<open>y\<close>.\<close>

definition heads_agree :: "(bytes \<Rightarrow> bytes) \<Rightarrow> SignedTreeHead \<Rightarrow> SignedTreeHead \<Rightarrow> ConsistencyProof option \<Rightarrow> bool" where
  "heads_agree H x y proof \<longleftrightarrow>
     STH_SigningKeyID x = STH_SigningKeyID y \<and>
     (if STH_TreeSize x = STH_TreeSize y
      then STH_TreeHash x = STH_TreeHash y \<and> STH_TreeChainHead x = STH_TreeChainHead y
      else STH_Timestamp x \<le> STH_Timestamp y \<and>
        (case proof of
           None \<Rightarrow> False
         | Some p \<Rightarrow> CP_OldSize p = STH_TreeSize x \<and> CP_NewSize p = STH_TreeSize y \<and>
             VerifyConsistency H (STH_TreeHash x) (STH_TreeHash y) proof = None))"

lemma fork_verdict_None: "fork_verdict H x y proof = None \<longleftrightarrow> heads_agree H x y proof"
  by (auto simp: fork_verdict_def heads_agree_def signerEqual_def split: option.splits)

lemma fork_verdict_signers:
  "fork_verdict H x y proof = Some (k, d) \<Longrightarrow>
   IsIncident k \<longleftrightarrow> STH_SigningKeyID x = STH_SigningKeyID y"
  by (auto simp: fork_verdict_def signerEqual_def split: if_splits option.splits)

lemma fork_verdict_equal_size:
  "STH_TreeSize x = STH_TreeSize y \<Longrightarrow>
   map_option fst (fork_verdict H x y proof) = map_option fst (fork_verdict H y x proof)"
  by (auto simp: fork_verdict_def signerEqual_def)

lemma DetectFork_valid:
  assumes "SignedTreeHead_Validate (Some a) = None" "SignedTreeHead_Validate (Some b) = None"
    and "STH_TreeSize a \<le> STH_TreeSize b"
  shows "DetectFork H (Some a) (Some b) proof =
    Inr (map_option (\<lambda>(kind, detail). \<lparr>FE_A = a, FE_B = b, FE_Kind = kind, FE_Detail = detail\<rparr>)
      (fork_verdict H a b proof))"
  using assms leD [OF assms(3)] by (simp add: DetectFork_def)

lemma DetectFork_swap:
  assumes "SignedTreeHead_Validate (Some a) = None" "SignedTreeHead_Validate (Some b) = None"
    and "STH_TreeSize b < STH_TreeSize a"
  shows "DetectFork H (Some a) (Some b) proof = DetectFork H (Some b) (Some a) proof"
  using assms leD [OF less_imp_le [OF assms(3)]] by (simp add: DetectFork_def)

lemma DetectFork_Inr_validated:
  "DetectFork H (Some a) (Some b) proof = Inr v \<Longrightarrow>
   SignedTreeHead_Validate (Some a) = None \<and> SignedTreeHead_Validate (Some b) = None"
  by (simp add: DetectFork_def)

lemma DetectFork_ordered:
  assumes "STH_TreeSize a \<le> STH_TreeSize b"
  shows "DetectFork H (Some a) (Some b) proof = Inr None \<longleftrightarrow>
    SignedTreeHead_Validate (Some a) = None \<and> SignedTreeHead_Validate (Some b) = None \<and>
    heads_agree H a b proof"
  using DetectFork_Inr_validated [of H a b "proof" None] DetectFork_valid [OF _ _ assms]
  by (auto simp: fork_verdict_None)

lemma fork_kind_valid:
  "SignedTreeHead_Validate (Some a) = None \<Longrightarrow> SignedTreeHead_Validate (Some b) = None \<Longrightarrow>
   STH_TreeSize a \<le> STH_TreeSize b \<Longrightarrow>
   fork_kind (DetectFork H (Some a) (Some b) proof) = map_option fst (fork_verdict H a b proof)"
  by (cases "fork_verdict H a b proof") (auto simp: DetectFork_valid fork_kind_def)

lemma DetectFork_kind_commutes:
  assumes "SignedTreeHead_Validate (Some a) = None" "SignedTreeHead_Validate (Some b) = None"
  shows "fork_kind (DetectFork H (Some a) (Some b) proof) =
    fork_kind (DetectFork H (Some b) (Some a) proof)"
proof (cases rule: linorder_cases [of "STH_TreeSize a" "STH_TreeSize b"])
  case equal
  with assms fork_verdict_equal_size show ?thesis by (simp add: fork_kind_valid)
next
  case less
  show ?thesis using DetectFork_swap [OF assms(2,1) less] by simp
next
  case greater
  show ?thesis using DetectFork_swap [OF assms greater] by simp
qed

lemma DetectFork_AsError:
  assumes "DetectFork H (Some a) (Some b) proof = Inr (Some e)"
  shows "CategoryOf (ForkEvidence_AsError (Some e)) =
      (if STH_SigningKeyID a = STH_SigningKeyID b then CategoryIncident else CategoryStructural)"
proof -
  obtain x y where xy: "{x, y} = {a, b}"
    and e: "fork_verdict H x y proof = Some (FE_Kind e, FE_Detail e)"
    using assms by (fastforce simp: DetectFork_def Let_def split: if_splits)
  have "IsIncident (FE_Kind e) \<longleftrightarrow> STH_SigningKeyID a = STH_SigningKeyID b"
    using fork_verdict_signers [OF e] xy by (auto simp: doubleton_eq_iff)
  then show ?thesis by (simp add: ForkEvidence_AsError_def)
qed

context digest32
begin

text \<open>
  A cleared pair of different sizes: the older root is the root of a prefix of the newer tree.
\<close>

lemma DetectFork_clears_prefix:
  assumes "DetectFork H (Some a) (Some b) (Some p) = Inr None"
    and "STH_TreeSize a < STH_TreeSize b" "STH_TreeSize a \<noteq> 0"
    and "hashes xs" "unat (STH_TreeSize b) = length xs" "STH_TreeHash b = mth H xs"
  shows "STH_TreeHash a = mth H (take (unat (STH_TreeSize a)) xs) \<or>
    tree_collision H
      (cons_inputs H (unat (STH_TreeSize a)) (length xs) (STH_TreeHash a) (CP_Path p)) xs"
proof -
  have "heads_agree H a b (Some p)"
    using DetectFork_ordered [of a b] assms(1,2) by simp
  then have p: "CP_OldSize p = STH_TreeSize a" "CP_NewSize p = STH_TreeSize b"
      "VerifyConsistency H (STH_TreeHash a) (mth H xs) (Some p) = None"
    using less_imp_neq [OF assms(2)] assms(6) by (auto simp: heads_agree_def)
  with VerifyConsistency_sound [of xs p "STH_TreeHash a"] assms(3,4,5) show ?thesis
    by simp
qed

end

text \<open>
  The witness receipt (src/internal/contracts/witness/witness_receipt.go): an entry, its inclusion
  proof and the signed tree head it is proved against, checked without access to the log.

  The lemmas give what \<open>Verify\<close> accepts, and what an accepted receipt proves: the entry is the one
  at its index in the tree the operator's head commits to, or a hash collision is at hand.
\<close>

record WitnessReceipt =
  WR_SchemaVersion :: u16
  WR_Entry :: LogEntry
  WR_InclusionProof :: InclusionProof
  WR_STH :: SignedTreeHead

definition WitnessReceipt_Validate ::
    "(bytes \<Rightarrow> bytes) \<Rightarrow> WitnessReceipt option \<Rightarrow> go_error option" where
  "WitnessReceipt_Validate H rcv =
     (case rcv of
        None \<Rightarrow> Some (Structural CodeRequiredFieldMissing ''witness_receipt: nil receiver'' None)
      | Some r \<Rightarrow>
          first_err
            [chk (WR_SchemaVersion r < SchemaVersionMin \<or> WR_SchemaVersion r > SchemaVersionMax)
               (Structural CodeSchemaVersionUnsupported
                  ''witness_receipt: schema_version out of supported range'' None),
             LogEntry_Validate H (WR_Entry r),
             InclusionProof_Validate (Some (WR_InclusionProof r)),
             SignedTreeHead_Validate (Some (WR_STH r)),
             chk (LE_Index (WR_Entry r) \<noteq> IP_LeafIndex (WR_InclusionProof r))
               (Structural CodeCrossFieldInconsistent
                  ''witness_receipt: entry.index != inclusion_proof.leaf_index'' None),
             chk (IP_TreeSize (WR_InclusionProof r) \<noteq> STH_TreeSize (WR_STH r))
               (Structural CodeCrossFieldInconsistent
                  ''witness_receipt: inclusion_proof.tree_size != sth.tree_size'' None),
             chk (LE_Index (WR_Entry r) \<ge> STH_TreeSize (WR_STH r))
               (Structural CodeCrossFieldInconsistent ''witness_receipt: entry.index >= sth.tree_size'' None),
             chk (STH_Timestamp (WR_STH r) < LE_Timestamp (WR_Entry r))
               (Structural CodeCrossFieldInconsistent
                  ''witness_receipt: sth.timestamp before entry.timestamp'' None),
             chk (STH_TreeSize (WR_STH r) = LE_Index (WR_Entry r) + 1 \<and>
                  STH_TreeChainHead (WR_STH r) \<noteq> LE_LeafHash (WR_Entry r))
               (Integrity CodeSignatureInvalid
                  ''witness_receipt: sth.tree_chain_head != entry.leaf_hash at tail'' None),
             VerifyInclusion H (LE_LeafHash (WR_Entry r)) (Some (WR_InclusionProof r))
               (STH_TreeHash (WR_STH r))])"

definition WitnessReceipt_VerifySignature ::
    "prims \<Rightarrow> WitnessReceipt \<Rightarrow> Resolver option \<Rightarrow> go_error option" where
  "WitnessReceipt_VerifySignature P r resolver =
     (case resolver of
        None \<Rightarrow> Some (Structural CodeRequiredFieldMissing
          ''witness_receipt: key resolver required to verify the signature'' None)
      | Some res \<Rightarrow> SignedTreeHead_VerifySignature P (Some (WR_STH r)) resolver)"

definition WitnessReceipt_Verify ::
    "(bytes \<Rightarrow> bytes) \<Rightarrow> prims \<Rightarrow> WitnessReceipt option \<Rightarrow> Resolver option \<Rightarrow> go_error option" where
  "WitnessReceipt_Verify H P rcv resolver =
     (case WitnessReceipt_Validate H rcv of
        Some err \<Rightarrow> Some err
      | None \<Rightarrow> (case rcv of None \<Rightarrow> None | Some r \<Rightarrow> WitnessReceipt_VerifySignature P r resolver))"

lemma WitnessReceipt_Validate_ok:
  "WitnessReceipt_Validate H (Some r) = None \<longleftrightarrow>
     WR_SchemaVersion r = 1 \<and> LogEntry_Validate H (WR_Entry r) = None \<and>
     SignedTreeHead_Validate (Some (WR_STH r)) = None \<and>
     LE_Index (WR_Entry r) = IP_LeafIndex (WR_InclusionProof r) \<and>
     IP_TreeSize (WR_InclusionProof r) = STH_TreeSize (WR_STH r) \<and>
     LE_Index (WR_Entry r) < STH_TreeSize (WR_STH r) \<and>
     LE_Timestamp (WR_Entry r) \<le> STH_Timestamp (WR_STH r) \<and>
     (STH_TreeSize (WR_STH r) = LE_Index (WR_Entry r) + 1 \<longrightarrow>
        STH_TreeChainHead (WR_STH r) = LE_LeafHash (WR_Entry r)) \<and>
     VerifyInclusion H (LE_LeafHash (WR_Entry r)) (Some (WR_InclusionProof r))
       (STH_TreeHash (WR_STH r)) = None"
  by (auto simp: WitnessReceipt_Validate_def schema_gate not_le not_less VerifyInclusion_def
      simp del: de_Morgan_disj)

lemma WitnessReceipt_Verify_ok:
  "WitnessReceipt_Verify H P (Some r) (Some res) = None \<longleftrightarrow>
     WitnessReceipt_Validate H (Some r) = None \<and>
     SignedTreeHead_VerifySignature P (Some (WR_STH r)) (Some res) = None"
  by (auto simp: WitnessReceipt_Verify_def WitnessReceipt_VerifySignature_def split: option.splits)

context digest32
begin

text \<open>
  An accepted receipt whose head's root is that of a list of leaves names the leaf at its index,
  or the path or the tree holds a collision.
\<close>

lemma receipt_names_leaf:
  assumes "WitnessReceipt_Validate H (Some r) = None"
    and "hashes xs" "unat (STH_TreeSize (WR_STH r)) = length xs" "STH_TreeHash (WR_STH r) = mth H xs"
  shows "unat (LE_Index (WR_Entry r)) < length xs \<and>
    (LE_LeafHash (WR_Entry r) = xs ! unat (LE_Index (WR_Entry r)) \<or>
     tree_collision H
       (incl_inputs H (unat (LE_Index (WR_Entry r))) (length xs - 1) (LE_LeafHash (WR_Entry r))
          (IP_Path (WR_InclusionProof r))) xs)"
  using VerifyInclusion_sound [of xs "WR_InclusionProof r" "LE_LeafHash (WR_Entry r)"] assms
  by (auto simp: WitnessReceipt_Validate_ok)

end

end
