(* ===== verification/WitnessLog.thy ===== *)
theory WitnessLog
  imports ForkDetection Prelude
begin

text \<open>
  The witness log itself (src/internal/genome/witness/log.go): the operator's append-only
  sequence of entries with the parallel slice of leaf hashes, its signed heads, its inclusion and
  consistency proofs and its receipts.

  The log's mutex makes every method one step on the state; a clock reading is an argument of
  the methods that read the clock. \<open>None\<close> is a run-time panic of a proof builder. The leaves
  \<open>l.leaves[index-1]\<close> and entries \<open>l.entries[index]\<close> are read where the invariant puts them in
  range. \<open>cloneEntry\<close> and \<open>cloneLeaves\<close> copy slices and are the identity on values.

  The log is interpreted as an \<open>append_only\<close> sequence.
\<close>

record InMemoryLog =
  IL_signer :: Signer
  IL_kid :: KeyID
  IL_entries :: "LogEntry list"
  IL_leaves :: "bytes list"

definition cloneEntry :: "LogEntry \<Rightarrow> LogEntry" where
  "cloneEntry e =
     e\<lparr>LE_PrevLeafHash := [] @ LE_PrevLeafHash e, LE_LeafHash := [] @ LE_LeafHash e,
       LE_AttestationRoot := [] @ LE_AttestationRoot e,
       LE_BatteryMerkleRoot := [] @ LE_BatteryMerkleRoot e,
       LE_ScorecardRoot := [] @ LE_ScorecardRoot e\<rparr>"

definition cloneLeaves :: "bytes list \<Rightarrow> bytes list" where
  "cloneLeaves src = map (\<lambda>x. [] @ x) src"

definition NewInMemoryLog :: "Signer option \<Rightarrow> KeyID \<Rightarrow> go_error + InMemoryLog" where
  "NewInMemoryLog signer kid =
     (case signer of
        None \<Rightarrow> Inl (Structural CodeRequiredFieldMissing ''witness-log: signer required'' None)
      | Some s \<Rightarrow>
          if kid = []
          then Inl (Structural CodeRequiredFieldMissing ''witness-log: signing key id required'' None)
          else Inr \<lparr>IL_signer = s, IL_kid = kid, IL_entries = [], IL_leaves = []\<rparr>)"

text \<open>The entry the log fills in before it derives the leaf hash.\<close>

definition threaded :: "InMemoryLog \<Rightarrow> LogEntry \<Rightarrow> LogEntry" where
  "threaded l entry =
     (let n = length (IL_entries l)
      in entry\<lparr>LE_Index := of_nat n, LE_LeafHash := [], LE_EntryID := [],
           LE_SchemaVersion :=
             (if LE_SchemaVersion entry = 0 then SchemaVersionCurrent else LE_SchemaVersion entry),
           LE_PrevLeafHash := (if n = 0 then zeros HashSize else [] @ IL_leaves l ! (n - 1))\<rparr>)"

definition Log_Append ::
    "(bytes \<Rightarrow> bytes) \<Rightarrow> InMemoryLog \<Rightarrow> LogEntry \<Rightarrow> (go_error + LogEntry) \<times> InMemoryLog" where
  "Log_Append H l entry0 =
     (let n = length (IL_entries l);
          entry = threaded l entry0
      in if 0 < n \<and> LE_Timestamp entry < LE_Timestamp (IL_entries l ! (n - 1))
         then (Inl (Incident CodeTamperSignal ''witness-log: non-monotonic timestamp at append'' None), l)
         else (case DeriveLeafHashAndID H (Some entry) of
             Inl err \<Rightarrow> (Inl err, l)
           | Inr (leaf, entryID) \<Rightarrow>
               let entry' = entry\<lparr>LE_LeafHash := leaf, LE_EntryID := entryID\<rparr>
               in (case LogEntry_Validate H entry' of
                     Some err \<Rightarrow> (Inl err, l)
                   | None \<Rightarrow>
                       (Inr (cloneEntry entry'),
                        l\<lparr>IL_entries := IL_entries l @ [entry'], IL_leaves := IL_leaves l @ [leaf]\<rparr>))))"

definition Log_Size :: "InMemoryLog \<Rightarrow> u64" where
  "Log_Size l = of_nat (length (IL_entries l))"

definition Log_Entry :: "InMemoryLog \<Rightarrow> u64 \<Rightarrow> go_error + LogEntry" where
  "Log_Entry l index =
     (if index \<ge> Log_Size l
      then Inl (Operational ''witness_log_index_out_of_range''
             ''witness-log: entry index out of range'' None)
      else Inr (cloneEntry (IL_entries l ! unat index)))"

definition headLocked ::
    "(bytes \<Rightarrow> bytes) \<Rightarrow> InMemoryLog \<Rightarrow> gotime \<Rightarrow> u64 \<Rightarrow> go_error + SignedTreeHead" where
  "headLocked H l now sz =
     (if sz > Log_Size l
      then Inl (Operational ''witness_log_tree_size_out_of_range''
             ''witness-log: STH size out of range'' None)
      else
        let n = unat sz;
            ts = (if sz > 0 \<and> LE_Timestamp (IL_entries l ! (n - 1)) > now
                  then LE_Timestamp (IL_entries l ! (n - 1)) else now);
            sth = (\<lambda>treeHash chainHead.
              \<lparr>STH_SchemaVersion = SchemaVersionCurrent, STH_TreeSize = sz, STH_TreeHash = treeHash,
               STH_TreeChainHead = chainHead, STH_Timestamp = ts, STH_SigningKeyID = IL_kid l,
               STH_Alg = [], STH_Signature = []\<rparr>);
            signed = (\<lambda>s. case SignedTreeHead_SignWith s (IL_signer l) of
                (Some err, s') \<Rightarrow> Inl err
              | (None, s') \<Rightarrow> Inr s')
        in if sz = 0 then signed (sth (zeros HashSize) (zeros HashSize))
           else (case ComputeMerkleRoot H (cloneLeaves (take n (IL_leaves l))) of
                   Inl err \<Rightarrow> Inl err
                 | Inr root \<Rightarrow> signed (sth root ([] @ IL_leaves l ! (n - 1)))))"

definition Log_Head :: "(bytes \<Rightarrow> bytes) \<Rightarrow> InMemoryLog \<Rightarrow> gotime \<Rightarrow> go_error + SignedTreeHead" where
  "Log_Head H l now = headLocked H l now (Log_Size l)"

definition Log_InclusionProof ::
    "(bytes \<Rightarrow> bytes) \<Rightarrow> InMemoryLog \<Rightarrow> u64 \<Rightarrow> u64 \<Rightarrow> (go_error + InclusionProof) option" where
  "Log_InclusionProof H l leafIndex treeSize =
     (if treeSize = 0 \<or> treeSize > Log_Size l
      then Some (Inl (Operational ''witness_log_tree_size_out_of_range''
             ''witness-log: inclusion proof tree_size out of range'' None))
      else if leafIndex \<ge> treeSize
      then Some (Inl (Operational ''witness_log_leaf_index_out_of_range''
             ''witness-log: inclusion proof leaf_index out of range'' None))
      else map_option
             (\<lambda>path. Inr \<lparr>IP_LeafIndex = leafIndex, IP_TreeSize = treeSize, IP_Path = path\<rparr>)
             (buildInclusionPathInternal H (cloneLeaves (take (unat treeSize) (IL_leaves l)))
                (unat leafIndex)))"

definition Log_ConsistencyProof ::
    "(bytes \<Rightarrow> bytes) \<Rightarrow> InMemoryLog \<Rightarrow> u64 \<Rightarrow> u64 \<Rightarrow> (go_error + ConsistencyProof) option" where
  "Log_ConsistencyProof H l oldSize newSize =
     (if newSize > Log_Size l
      then Some (Inl (Operational ''witness_log_tree_size_out_of_range''
             ''witness-log: consistency proof new_size out of range'' None))
      else if oldSize > newSize
      then Some (Inl (Structural CodeCrossFieldInconsistent
             ''witness-log: consistency proof old_size > new_size'' None))
      else map_option
             (\<lambda>path. Inr \<lparr>CP_OldSize = oldSize, CP_NewSize = newSize, CP_Path = path\<rparr>)
             (if oldSize \<noteq> 0 \<and> oldSize \<noteq> newSize
              then subproofInternal H (unat oldSize) (cloneLeaves (take (unat newSize) (IL_leaves l))) True
              else Some []))"

definition Log_Receipt ::
    "(bytes \<Rightarrow> bytes) \<Rightarrow> InMemoryLog \<Rightarrow> gotime \<Rightarrow> u64 \<Rightarrow> (go_error + WitnessReceipt) option" where
  "Log_Receipt H l now index =
     (let sz = Log_Size l
      in if index \<ge> sz
         then Some (Inl (Operational ''witness_log_index_out_of_range''
                ''witness-log: receipt index out of range'' None))
         else (case headLocked H l now sz of
             Inl err \<Rightarrow> Some (Inl err)
           | Inr sth \<Rightarrow>
               map_option
                 (\<lambda>path. Inr \<lparr>WR_SchemaVersion = SchemaVersionCurrent,
                    WR_Entry = cloneEntry (IL_entries l ! unat index),
                    WR_InclusionProof =
                      \<lparr>IP_LeafIndex = index, IP_TreeSize = sz, IP_Path = path\<rparr>,
                    WR_STH = sth\<rparr>)
                 (buildInclusionPathInternal H (cloneLeaves (take (unat sz) (IL_leaves l)))
                    (unat index))))"

lemma cloneEntry_id [simp]: "cloneEntry e = e"
  by (simp add: cloneEntry_def)

lemma cloneLeaves_id [simp]: "cloneLeaves xs = xs"
  by (simp add: cloneLeaves_def)

section \<open>The invariant of the log\<close>

text \<open>
  Every committed entry is at its index, validates, is threaded to the leaf before it and is no
  older than it; the leaves are the entries' leaf hashes. A Go slice has fewer than \<open>2^63\<close>
  elements.
\<close>

definition entry_at_ok :: "(bytes \<Rightarrow> bytes) \<Rightarrow> LogEntry list \<Rightarrow> nat \<Rightarrow> bool" where
  "entry_at_ok H es i \<longleftrightarrow>
     LE_Index (es ! i) = of_nat i \<and> LogEntry_Validate H (es ! i) = None \<and>
     LE_PrevLeafHash (es ! i) = (if i = 0 then zeros HashSize else LE_LeafHash (es ! (i - 1))) \<and>
     (0 < i \<longrightarrow> LE_Timestamp (es ! (i - 1)) \<le> LE_Timestamp (es ! i))"

definition log_inv :: "(bytes \<Rightarrow> bytes) \<Rightarrow> InMemoryLog \<Rightarrow> bool" where
  "log_inv H l \<longleftrightarrow>
     IL_kid l \<noteq> [] \<and> length (IL_entries l) < 2 ^ 63 \<and>
     IL_leaves l = map LE_LeafHash (IL_entries l) \<and>
     (\<forall>i < length (IL_entries l). entry_at_ok H (IL_entries l) i)"

inductive log_reachable :: "(bytes \<Rightarrow> bytes) \<Rightarrow> Signer \<Rightarrow> KeyID \<Rightarrow> InMemoryLog \<Rightarrow> bool"
  for H signer kid where
  init: "NewInMemoryLog (Some signer) kid = Inr l \<Longrightarrow> log_reachable H signer kid l"
| append: "log_reachable H signer kid l \<Longrightarrow> length (IL_entries l) + 1 < 2 ^ 63 \<Longrightarrow>
    Log_Append H l e = (r, l') \<Longrightarrow> log_reachable H signer kid l'"

lemma log_invD:
  assumes "log_inv H l"
  shows "IL_kid l \<noteq> []" "length (IL_entries l) < 2 ^ 63" "IL_leaves l = map LE_LeafHash (IL_entries l)"
    "\<And>i. i < length (IL_entries l) \<Longrightarrow> entry_at_ok H (IL_entries l) i"
  using assms by (simp_all add: log_inv_def)

lemma entry_at_ok_append:
  "i < length es \<Longrightarrow> entry_at_ok H (es @ ys) i \<longleftrightarrow> entry_at_ok H es i"
  by (cases i) (simp_all add: entry_at_ok_def nth_append)

lemma Log_Append_error: "Log_Append H l e = (Inl err, l') \<Longrightarrow> l' = l"
  by (auto simp: Log_Append_def Let_def split: if_splits sum.splits option.splits)

lemma Log_Append_ok:
  assumes "Log_Append H l e = (Inr e', l')"
  shows "l' = l\<lparr>IL_entries := IL_entries l @ [e'], IL_leaves := IL_leaves l @ [LE_LeafHash e']\<rparr>"
    and "LogEntry_Validate H e' = None"
    and "payload e' = payload (threaded l e)"
    and "IL_entries l \<noteq> [] \<Longrightarrow> LE_Timestamp (last (IL_entries l)) \<le> LE_Timestamp e'"
  using assms
  by (auto simp: Log_Append_def Let_def payload_def last_conv_nth not_less
      split: if_splits sum.splits option.splits)

lemma payload_threaded:
  assumes "payload e' = payload (threaded l e)"
  shows "LE_Index e' = of_nat (length (IL_entries l))"
    and "LE_PrevLeafHash e' =
      (if IL_entries l = [] then zeros HashSize else IL_leaves l ! (length (IL_entries l) - 1))"
  using arg_cong [OF assms, of LE_Index] arg_cong [OF assms, of LE_PrevLeafHash]
  by (simp_all add: payload_def threaded_def Let_def)

lemma Log_Append_inv:
  assumes "log_inv H l" "length (IL_entries l) + 1 < 2 ^ 63" "Log_Append H l e = (r, l')"
  shows "log_inv H l'"
proof (cases r)
  case (Inl err)
  with assms show ?thesis by (auto dest: Log_Append_error)
next
  case (Inr e')
  let ?es = "IL_entries l"
  note inv = log_invD [OF assms(1)]
  from assms(3) Inr have app: "Log_Append H l e = (Inr e', l')" by simp
  note a = Log_Append_ok [OF app] and t = payload_threaded [OF Log_Append_ok(3) [OF app]]
  have "entry_at_ok H (?es @ [e']) (length ?es)"
    using a(2,4) t inv(3)
    by (cases "?es = []") (auto simp: entry_at_ok_def nth_append last_conv_nth)
  moreover have "entry_at_ok H (?es @ [e']) i" if "i < length ?es" for i
    using that inv(4) by (simp add: entry_at_ok_append)
  ultimately have "\<forall>i < length (?es @ [e']). entry_at_ok H (?es @ [e']) i"
    by (metis length_append_singleton less_SucE)
  with a(1) inv assms(2) show ?thesis by (simp add: log_inv_def)
qed

lemma NewInMemoryLog_inv: "NewInMemoryLog s kid = Inr l \<Longrightarrow> log_inv H l"
  by (auto simp: NewInMemoryLog_def log_inv_def split: option.splits if_splits)

lemma Log_Append_same_key:
  "Log_Append H l e = (r, l') \<Longrightarrow> IL_signer l' = IL_signer l \<and> IL_kid l' = IL_kid l"
  by (cases r) (auto dest: Log_Append_error Log_Append_ok(1))

lemma log_reachable_inv:
  "log_reachable H signer kid l \<Longrightarrow> log_inv H l \<and> IL_signer l = signer \<and> IL_kid l = kid"
proof (induction rule: log_reachable.induct)
  case (init l)
  then show ?case
    using NewInMemoryLog_inv [OF init, of H] by (auto simp: NewInMemoryLog_def split: if_splits)
next
  case (append l e r l')
  then show ?case using Log_Append_inv Log_Append_same_key by metis
qed

interpretation witness_log: append_only "log_inv H" IL_entries "Log_Append H" "2 ^ 63"
proof
  fix l x e l'
  show "Log_Append H l x = (Inr e, l') \<Longrightarrow> IL_entries l' = IL_entries l @ [e]"
    by (drule Log_Append_ok(1)) simp
next
  fix l x r l'
  show "log_inv H l \<Longrightarrow> length (IL_entries l) + 1 < 2 ^ 63 \<Longrightarrow> Log_Append H l x = (r, l') \<Longrightarrow>
      log_inv H l'"
    by (rule Log_Append_inv)
qed (drule Log_Append_error, simp)

lemma run_appends_same_key:
  "IL_signer (run_appends (Log_Append H) l xs) = IL_signer l \<and>
   IL_kid (run_appends (Log_Append H) l xs) = IL_kid l"
proof (induction xs arbitrary: l)
  case (Cons x xs)
  obtain r l' where "Log_Append H l x = (r, l')" by fastforce
  with Cons.IH [of l'] Log_Append_same_key [OF this] show ?case by simp
qed simp

lemma log_inv_hashes: "log_inv H l \<Longrightarrow> hashes (IL_leaves l)"
  by (auto simp: log_inv_def hashes_def in_set_conv_nth entry_at_ok_def LogEntry_Validate_ok HashSize_def)

lemma Log_Size_unat: "log_inv H l \<Longrightarrow> unat (Log_Size l) = length (IL_entries l)"
  by (simp add: Log_Size_def log_inv_def unat_of_nat_u64)

lemma size_le_iff:
  "log_inv H l \<Longrightarrow> \<not> sz > Log_Size l \<longleftrightarrow> unat sz \<le> length (IL_entries l)"
  by (simp add: not_less word_le_nat_alt Log_Size_unat)

lemma index_less_iff:
  "log_inv H l \<Longrightarrow> \<not> index \<ge> Log_Size l \<longleftrightarrow> unat index < length (IL_entries l)"
  by (simp add: not_le word_less_nat_alt Log_Size_unat)

text \<open>Timestamps never go back along the log.\<close>

lemma log_inv_timestamps:
  assumes "log_inv H l" "i \<le> j" "j < length (IL_entries l)"
  shows "LE_Timestamp (IL_entries l ! i) \<le> LE_Timestamp (IL_entries l ! j)"
  using assms(2,3)
proof (induction j rule: dec_induct)
  case (step n)
  then have "LE_Timestamp (IL_entries l ! n) \<le> LE_Timestamp (IL_entries l ! Suc n)"
    using log_invD(4) [OF assms(1), of "Suc n"] by (simp add: entry_at_ok_def)
  with step show ?case by simp
qed simp

end
