(* ===== verification/LogProofs.thy ===== *)
theory LogProofs
  imports WitnessLog
begin

text \<open>
  What the witness log's operations give, for any 32-byte digest: the exact content of a head,
  the proofs the operator builds and that the verifiers accept them, that heads and receipts of
  one log are never reported as forks, and what a chain head and a root commit to. The properties
  stated for \<open>SHA256\<close> follow in \<open>LogProperties\<close>.
\<close>

text \<open>The instant of a head over the first \<open>n\<close> entries: the clock's, or the newest entry's.\<close>

definition head_time :: "InMemoryLog \<Rightarrow> gotime \<Rightarrow> nat \<Rightarrow> gotime" where
  "head_time l now n = (if n = 0 then now else max now (LE_Timestamp (IL_entries l ! (n - 1))))"

definition head_body :: "(bytes \<Rightarrow> bytes) \<Rightarrow> InMemoryLog \<Rightarrow> gotime \<Rightarrow> u64 \<Rightarrow> SignedTreeHead" where
  "head_body H l now sz =
     \<lparr>STH_SchemaVersion = SchemaVersionCurrent, STH_TreeSize = sz,
      STH_TreeHash = mth H (take (unat sz) (IL_leaves l)),
      STH_TreeChainHead = (if sz = 0 then zeros HashSize else IL_leaves l ! (unat sz - 1)),
      STH_Timestamp = head_time l now (unat sz), STH_SigningKeyID = IL_kid l,
      STH_Alg = [], STH_Signature = []\<rparr>"

definition signed_result :: "go_error option \<times> SignedTreeHead \<Rightarrow> go_error + SignedTreeHead" where
  "signed_result r = (case r of (Some err, s') \<Rightarrow> Inl err | (None, s') \<Rightarrow> Inr s')"

lemma signed_result_Inr [simp]: "signed_result r = Inr s \<longleftrightarrow> r = (None, s)"
  by (auto simp: signed_result_def split: option.splits prod.splits)

context digest32
begin

lemma headLocked_eq:
  assumes "log_inv H l"
  shows "headLocked H l now sz =
    (if unat sz \<le> length (IL_entries l)
     then signed_result (SignedTreeHead_SignWith (head_body H l now sz) (IL_signer l))
     else Inl (Operational ''witness_log_tree_size_out_of_range''
             ''witness-log: STH size out of range'' None))"
proof -
  have ts: "(if sz > 0 \<and> LE_Timestamp (IL_entries l ! (unat sz - 1)) > now
      then LE_Timestamp (IL_entries l ! (unat sz - 1)) else now) = head_time l now (unat sz)"
    by (simp add: head_time_def word_gt_0 unat_eq_zero max_def)
  have "sz > Log_Size l \<longleftrightarrow> \<not> unat sz \<le> length (IL_entries l)"
    using size_le_iff [OF assms] by blast
  moreover have "ComputeMerkleRoot H (take (unat sz) (IL_leaves l)) =
      Inr (mth H (take (unat sz) (IL_leaves l)))"
    using log_inv_hashes [OF assms] by (intro ComputeMerkleRoot_mth) simp
  ultimately show ?thesis
    unfolding headLocked_def Let_def ts
    by (simp add: head_body_def signed_result_def)
qed

lemma headLocked_Inr:
  assumes "log_inv H l" "headLocked H l now sz = Inr sth"
  shows "unat sz \<le> length (IL_entries l)"
    and "SignedTreeHead_SignWith (head_body H l now sz) (IL_signer l) = (None, sth)"
  using assms headLocked_eq [OF assms(1), of now sz] by (simp_all split: if_splits)

lemma headLocked_fields:
  assumes "log_inv H l" "headLocked H l now sz = Inr sth"
  shows "STH_SchemaVersion sth = 1 \<and> STH_TreeSize sth = sz \<and>
    STH_TreeHash sth = mth H (take (unat sz) (IL_leaves l)) \<and>
    STH_TreeChainHead sth = (if sz = 0 then zeros HashSize else IL_leaves l ! (unat sz - 1)) \<and>
    STH_Timestamp sth = head_time l now (unat sz) \<and> STH_SigningKeyID sth = IL_kid l"
  using headLocked_Inr(2) [OF assms]
  by (rule SignWith_ok) (simp add: head_body_def SchemaVersionCurrent_def)

text \<open>
  The head of a log validates once it is signed, unless the digest it publishes is all zeros: the
  gate reserves that value for the empty tree.
\<close>

lemma headLocked_validates:
  assumes inv: "log_inv H l" and head: "headLocked H l now sz = Inr sth"
    and sig: "STH_Signature sth \<noteq> []" and now: "zero_time < now"
  shows "SignedTreeHead_Validate (Some sth) = None \<or>
    sz \<noteq> 0 \<and> (isAllZero (STH_TreeHash sth) \<or> isAllZero (STH_TreeChainHead sth))"
proof -
  let ?n = "unat sz"
  note f = headLocked_fields [OF inv head] and le = headLocked_Inr(1) [OF inv head]
  have h: "hashes (IL_leaves l)" by (rule log_inv_hashes [OF inv])
  have len: "length (IL_leaves l) = length (IL_entries l)" using log_invD(3) [OF inv] by simp
  have chain: "length (STH_TreeChainHead sth) = HashSize"
    using f le len h hashes_nth [OF h, of "?n - 1"]
    by (auto simp: unat_gt_0 simp del: hashes_nth) (metis One_nat_def diff_less le_zero_eq
        less_le_trans not_gr_zero unat_eq_zero zero_less_one)
  have root: "length (STH_TreeHash sth) = HashSize" using f h by simp
  have time: "STH_Timestamp sth \<noteq> zero_time" using f now by (auto simp: head_time_def)
  have one: "STH_TreeHash sth = STH_TreeChainHead sth" if "sz = 1"
    using that f le len by (cases "IL_leaves l") auto
  have "sz = 0 \<Longrightarrow> isAllZero (STH_TreeHash sth) \<and> isAllZero (STH_TreeChainHead sth)"
    using f by simp
  with f root chain time one sig log_invD(1) [OF inv] show ?thesis
    by (auto simp: SignedTreeHead_Validate_ok)
qed

section \<open>The operator's proofs\<close>

lemma Log_InclusionProof_verifies:
  assumes inv: "log_inv H l" and "leafIndex < treeSize" "treeSize \<le> Log_Size l"
  shows "\<exists>p. Log_InclusionProof H l leafIndex treeSize = Some (Inr p) \<and>
    VerifyInclusion H (IL_leaves l ! unat leafIndex) (Some p)
      (mth H (take (unat treeSize) (IL_leaves l))) = None"
proof -
  let ?xs = "take (unat treeSize) (IL_leaves l)"
  have i: "unat leafIndex < unat treeSize" using assms(2) by (simp add: word_less_nat_alt)
  have n: "unat treeSize \<le> length (IL_entries l)"
    using assms(3) size_le_iff [OF inv, of treeSize] by (simp add: not_less)
  have h: "hashes ?xs" using log_inv_hashes [OF inv] by simp
  have len: "length ?xs = unat treeSize" using n log_invD(3) [OF inv] by simp
  have b: "unat treeSize < 2 ^ 64" using unsigned_less [of treeSize, where 'a = nat] by simp
  have "VerifyInclusion H (?xs ! unat leafIndex)
      (Some \<lparr>IP_LeafIndex = of_nat (unat leafIndex), IP_TreeSize = of_nat (length ?xs),
             IP_Path = rfc_path H (unat leafIndex) ?xs\<rparr>) (mth H ?xs) = None"
    using h i len b by (intro VerifyInclusion_complete) simp_all
  moreover have "buildInclusionPathInternal H ?xs (unat leafIndex) =
      Some (rfc_path H (unat leafIndex) ?xs)"
    using h i len by (intro buildInclusionPath_rfc) simp_all
  moreover have "treeSize \<noteq> 0" using i by auto
  ultimately show ?thesis
    using assms(2,3) i len by (simp add: Log_InclusionProof_def not_less not_le)
qed

lemma Log_ConsistencyProof_verifies:
  assumes inv: "log_inv H l" and "oldSize \<le> newSize" "newSize \<le> Log_Size l"
  shows "\<exists>p. Log_ConsistencyProof H l oldSize newSize = Some (Inr p) \<and>
    CP_OldSize p = oldSize \<and> CP_NewSize p = newSize \<and>
    VerifyConsistency H (mth H (take (unat oldSize) (IL_leaves l)))
      (mth H (take (unat newSize) (IL_leaves l))) (Some p) = None"
proof -
  let ?xs = "take (unat newSize) (IL_leaves l)" and ?m = "unat oldSize"
  have m: "?m \<le> unat newSize" using assms(2) by (simp add: word_le_nat_alt)
  have n: "unat newSize \<le> length (IL_entries l)"
    using assms(3) size_le_iff [OF inv, of newSize] by (simp add: not_less)
  have h: "hashes ?xs" using log_inv_hashes [OF inv] by simp
  have len: "length ?xs = unat newSize" using n log_invD(3) [OF inv] by simp
  have b: "unat newSize < 2 ^ 64" using unsigned_less [of newSize, where 'a = nat] by simp
  have same: "?m \<noteq> 0 \<and> ?m \<noteq> length ?xs \<longleftrightarrow> oldSize \<noteq> 0 \<and> oldSize \<noteq> newSize"
    using len by (simp add: unat_eq_zero word_unat_eq_iff [of oldSize newSize])
  have "?m \<le> length ?xs" "length ?xs < 2 ^ 64" using m b by (simp_all only: len)
  then obtain path where "(if oldSize \<noteq> 0 \<and> oldSize \<noteq> newSize then subproofInternal H ?m ?xs True else Some []) = Some path"
      "VerifyConsistency H (mth H (take ?m ?xs)) (mth H ?xs)
        (Some \<lparr>CP_OldSize = of_nat ?m, CP_NewSize = of_nat (length ?xs), CP_Path = path\<rparr>) = None"
    using VerifyConsistency_complete [OF h, of ?m] unfolding same by blast
  moreover from this(1)
  have "Log_ConsistencyProof H l oldSize newSize =
      Some (Inr \<lparr>CP_OldSize = oldSize, CP_NewSize = newSize, CP_Path = path\<rparr>)"
    using leD [OF assms(2)] leD [OF assms(3)]
    unfolding Log_ConsistencyProof_def cloneLeaves_id by (simp split del: if_split)
  ultimately show ?thesis
    using m len by (simp add: min_absorb1)
qed

section \<open>Receipts\<close>

lemma Log_Receipt_eq:
  assumes inv: "log_inv H l" and i: "unat index < length (IL_entries l)"
  shows "Log_Receipt H l now index =
    Some (bindR (headLocked H l now (Log_Size l)) (\<lambda>sth.
      Inr \<lparr>WR_SchemaVersion = SchemaVersionCurrent, WR_Entry = IL_entries l ! unat index,
           WR_InclusionProof = \<lparr>IP_LeafIndex = index, IP_TreeSize = Log_Size l,
             IP_Path = rfc_path H (unat index) (IL_leaves l)\<rparr>,
           WR_STH = sth\<rparr>))"
proof -
  have len: "length (IL_leaves l) = length (IL_entries l)" using log_invD(3) [OF inv] by simp
  have "buildInclusionPathInternal H (IL_leaves l) (unat index) =
      Some (rfc_path H (unat index) (IL_leaves l))"
    using i len by (intro buildInclusionPath_rfc log_inv_hashes [OF inv]) simp
  moreover have "\<not> index \<ge> Log_Size l" using i index_less_iff [OF inv] by blast
  ultimately show ?thesis
    using len Log_Size_unat [OF inv]
    by (auto simp: Log_Receipt_def Let_def not_le leD split: sum.split)
qed

lemma receipt_validates:
  assumes inv: "log_inv H l" and i: "unat index < length (IL_entries l)"
    and r: "Log_Receipt H l now index = Some (Inr r)"
    and v: "SignedTreeHead_Validate (Some (WR_STH r)) = None"
  shows "WitnessReceipt_Validate H (Some r) = None"
proof -
  let ?n = "length (IL_entries l)"
  obtain sth where head: "headLocked H l now (Log_Size l) = Inr sth"
    and r': "r = \<lparr>WR_SchemaVersion = SchemaVersionCurrent, WR_Entry = IL_entries l ! unat index,
           WR_InclusionProof = \<lparr>IP_LeafIndex = index, IP_TreeSize = Log_Size l,
             IP_Path = rfc_path H (unat index) (IL_leaves l)\<rparr>, WR_STH = sth\<rparr>"
    using r Log_Receipt_eq [OF inv i, of now] by auto
  note f = headLocked_fields [OF inv head] and sz = Log_Size_unat [OF inv]
  have len: "length (IL_leaves l) = ?n" using log_invD(3) [OF inv] by simp
  have e: "entry_at_ok H (IL_entries l) (unat index)" using i by (rule log_invD(4) [OF inv])
  have leaf: "LE_LeafHash (IL_entries l ! unat index) = IL_leaves l ! unat index"
    using i log_invD(3) [OF inv] by simp
  have "?n < 2 ^ 64" using log_invD(2) [OF inv] by simp
  then have incl: "VerifyInclusion H (IL_leaves l ! unat index)
      (Some \<lparr>IP_LeafIndex = index, IP_TreeSize = Log_Size l,
             IP_Path = rfc_path H (unat index) (IL_leaves l)\<rparr>) (mth H (IL_leaves l)) = None"
    using VerifyInclusion_complete [OF log_inv_hashes [OF inv], of "unat index"] i len
    by (simp add: Log_Size_def)
  have time: "LE_Timestamp (IL_entries l ! unat index) \<le> STH_Timestamp sth"
  proof -
    have "LE_Timestamp (IL_entries l ! unat index) \<le> LE_Timestamp (IL_entries l ! (?n - 1))"
      using i by (intro log_inv_timestamps [OF inv]) auto
    with f i sz show ?thesis by (auto simp: head_time_def)
  qed
  have tail: "STH_TreeChainHead sth = IL_leaves l ! unat index" if "Log_Size l = index + 1"
  proof -
    have "unat (index + 1) = unat index + 1"
      using i log_invD(2) [OF inv] by (simp add: unat_word_ariths)
    then have "unat (Log_Size l) - 1 = unat index" "Log_Size l \<noteq> 0"
      using that sz i by auto
    then show ?thesis using f by simp
  qed
  show ?thesis
    using v f e leaf incl time tail i sz len
    by (simp add: WitnessReceipt_Validate_ok r' entry_at_ok_def SchemaVersionCurrent_def
        word_less_nat_alt)
qed

section \<open>Honest heads are never a fork\<close>

lemma heads_of_one_log_agree:
  assumes inv: "log_inv H l" "log_inv H l'" and ext: "IL_entries l' = IL_entries l @ zs"
    and kid: "IL_kid l' = IL_kid l" and clock: "now \<le> now'"
    and head: "Log_Head H l now = Inr a" "Log_Head H l' now' = Inr b"
  shows "\<exists>p. Log_ConsistencyProof H l' (Log_Size l) (Log_Size l') = Some (Inr p) \<and>
    STH_TreeSize a \<le> STH_TreeSize b \<and> heads_agree H a b (Some p)"
proof -
  let ?n = "length (IL_entries l)" and ?n' = "length (IL_entries l')"
  have sizes: "unat (Log_Size l) = ?n" "unat (Log_Size l') = ?n'"
    using inv by (simp_all add: Log_Size_unat)
  have le: "Log_Size l \<le> Log_Size l'"
    using ext by (simp add: word_le_nat_alt sizes)
  have leaves: "IL_leaves l' = IL_leaves l @ map LE_LeafHash zs"
      "length (IL_leaves l) = ?n" "length (IL_leaves l') = ?n'"
    using inv [THEN log_invD(3)] ext by simp_all
  note fa = headLocked_fields [OF inv(1) head(1) [unfolded Log_Head_def]]
    and fb = headLocked_fields [OF inv(2) head(2) [unfolded Log_Head_def]]
  obtain p where p: "Log_ConsistencyProof H l' (Log_Size l) (Log_Size l') = Some (Inr p)"
      "CP_OldSize p = Log_Size l" "CP_NewSize p = Log_Size l'"
      "VerifyConsistency H (mth H (take ?n (IL_leaves l'))) (mth H (take ?n' (IL_leaves l'))) (Some p) = None"
    using Log_ConsistencyProof_verifies [OF inv(2) le] sizes by auto
  have time: "STH_Timestamp a \<le> STH_Timestamp b"
  proof (cases "?n = 0")
    case True
    with fa fb sizes clock show ?thesis by (auto simp: head_time_def)
  next
    case False
    then have "IL_entries l ! (?n - 1) = IL_entries l' ! (?n - 1)"
      using ext by (simp add: nth_append)
    moreover have "LE_Timestamp (IL_entries l' ! (?n - 1)) \<le> LE_Timestamp (IL_entries l' ! (?n' - 1))"
      using False ext by (intro log_inv_timestamps [OF inv(2)]) auto
    ultimately show ?thesis
      using fa fb sizes clock False ext by (auto simp: head_time_def)
  qed
  have "heads_agree H a b (Some p)"
    using fa fb p time kid leaves sizes ext by (auto simp: heads_agree_def word_unat_eq_iff)
  with p(1) le fa fb show ?thesis by auto
qed

end

section \<open>What a chain head and a root commit to\<close>

text \<open>
  The last leaf hash of a log fixes its whole history: another log that validates with the same
  last leaf is the same log, or two entries are a collision.
\<close>

definition entries_collide :: "(bytes \<Rightarrow> bytes) \<Rightarrow> LogEntry list \<Rightarrow> LogEntry list \<Rightarrow> bool" where
  "entries_collide H es fs \<longleftrightarrow> (\<exists>e \<in> set es. \<exists>f \<in> set fs. collides H (leaf_input e) (leaf_input f))"

lemma chain_step_back:
  assumes "\<forall>i < length (es @ [e]). entry_at_ok H (es @ [e]) i" "length (es @ [e]) < 2 ^ 63"
  shows "\<forall>i < length es. entry_at_ok H es i"
    and "LogEntry_Validate H e = None" "unat (LE_Index e) = length es"
    and "es \<noteq> [] \<Longrightarrow> LE_PrevLeafHash e = LE_LeafHash (last es)"
proof -
  have "entry_at_ok H (es @ [e]) (length es)" using assms(1) by simp
  then show "LogEntry_Validate H e = None" "unat (LE_Index e) = length es"
      "es \<noteq> [] \<Longrightarrow> LE_PrevLeafHash e = LE_LeafHash (last es)"
    using assms(2)
    by (auto simp: entry_at_ok_def nth_append last_conv_nth unat_of_nat)
  show "\<forall>i < length es. entry_at_ok H es i"
    using assms(1) by (simp add: entry_at_ok_append less_Suc_eq)
qed

lemma chain_head_commits:
  assumes "\<forall>i < length es. entry_at_ok H es i" "\<forall>i < length fs. entry_at_ok H fs i"
    and "length es < 2 ^ 63" "length fs < 2 ^ 63" "es \<noteq> []" "fs \<noteq> []"
    and "list_all packable es" "list_all packable fs"
    and "LE_LeafHash (last es) = LE_LeafHash (last fs)"
  shows "es = fs \<or> entries_collide H es fs"
  using assms
proof (induction es arbitrary: fs rule: rev_induct)
  case (snoc e es)
  obtain f gs where fs: "fs = gs @ [f]" using snoc.prems(6) by (cases fs rule: rev_cases) auto
  note se = chain_step_back [OF snoc.prems(1,3)]
    and sf = chain_step_back [OF snoc.prems(2,4) [unfolded fs]]
  have "e = f \<or> collides H (leaf_input e) (leaf_input f)"
    using snoc.prems(7,8,9) fs se(2) sf(2) by (intro leaf_hash_commits) auto
  then show ?case
  proof
    assume ef: "e = f"
    then have len: "length es = length gs" using se(3) sf(3) by simp
    show ?thesis
    proof (cases "es = []")
      case False
      with len have "gs \<noteq> []" by auto
      then have "LE_LeafHash (last es) = LE_LeafHash (last gs)"
        using False ef se(4) sf(4) by simp
      then have "es = gs \<or> entries_collide H es gs"
        using snoc.prems(3,4,7,8) fs se(1) sf(1) False \<open>gs \<noteq> []\<close>
        by (intro snoc.IH) auto
      then show ?thesis using fs ef by (auto simp: entries_collide_def)
    qed (use len fs ef in auto)
  qed (use fs in \<open>auto simp: entries_collide_def\<close>)
qed simp

text \<open>The tree size and the Merkle root fix every leaf.\<close>

definition leaves_collide :: "(bytes \<Rightarrow> bytes) \<Rightarrow> bytes list \<Rightarrow> bytes list \<Rightarrow> bool" where
  "leaves_collide H xs ys \<longleftrightarrow>
     (\<exists>i < length xs. tree_collision H (incl_inputs H i (length ys - 1) (xs ! i) (rfc_path H i xs)) ys)"

context digest32
begin

lemma root_commits:
  assumes h: "hashes xs" "hashes ys" and len: "length xs = length ys" "length ys < 2 ^ 64"
    and root: "mth H xs = mth H ys"
  shows "xs = ys \<or> leaves_collide H xs ys"
proof (cases "leaves_collide H xs ys")
  case False
  have "xs ! i = ys ! i" if i: "i < length xs" for i
  proof -
    have iw: "i < 2 ^ 64" using i len by simp
    have "VerifyInclusion H (xs ! i) (Some \<lparr>IP_LeafIndex = of_nat i,
        IP_TreeSize = of_nat (length ys), IP_Path = rfc_path H i xs\<rparr>) (mth H ys) = None"
      using VerifyInclusion_complete [OF h(1) i] len root by simp
    from VerifyInclusion_sound [OF h(2) _ this] False i iw len
    show ?thesis by (auto simp: leaves_collide_def unat_of_nat_u64)
  qed
  then show ?thesis using len by (auto intro: nth_equalityI)
qed simp

end

text \<open>
  The log and the key store together: a log whose signer is a keyring. The locale
  \<open>witness_operator\<close> joins the contract of the digest and the contract of the keyring; it is
  interpreted on \<open>SHA256\<close> and the vault's key store.
\<close>

text \<open>A head over a non-empty tree that publishes an all-zero digest: the gate refuses it.\<close>

definition zero_digest_head :: "SignedTreeHead \<Rightarrow> bool" where
  "zero_digest_head s \<longleftrightarrow>
     STH_TreeSize s \<noteq> 0 \<and> (isAllZero (STH_TreeHash s) \<or> isAllZero (STH_TreeChainHead s))"

text \<open>The signer signs any message under \<open>kid\<close> for the witness purpose.\<close>

definition signs_heads :: "Signer \<Rightarrow> KeyID \<Rightarrow> bool" where
  "signs_heads signer kid \<longleftrightarrow> (\<forall>msg. \<exists>sig. sg_Sign signer kid PurposeSigningWitness msg = Inr sig)"

locale witness_operator = digest32 H + keyring ok lib signer resolver
  for H :: "bytes \<Rightarrow> bytes" and ok :: "'s \<Rightarrow> bool" and lib :: "'s \<Rightarrow> prims"
    and signer :: "'s \<Rightarrow> Signer" and resolver :: "'s \<Rightarrow> Resolver"
begin

lemma head_exists:
  assumes inv: "log_inv H l" and sg: "IL_signer l = signer r" and ok: "ok r"
    and can: "signs_heads (signer r) (IL_kid l)" and n: "unat sz \<le> length (IL_entries l)"
  shows "\<exists>sth. headLocked H l now sz = Inr sth"
proof -
  have h: "hashes (IL_leaves l)" by (rule log_inv_hashes [OF inv])
  have len: "length (IL_leaves l) = length (IL_entries l)" using log_invD(3) [OF inv] by simp
  obtain sig where "sg_Sign (signer r) (IL_kid l) PurposeSigningWitness [] = Inr sig"
    using can by (auto simp: signs_heads_def)
  from sign_resolves [OF ok this] obtain alg where alg: "keys_RecordAlg (signer r) (IL_kid l) = Inr alg"
    by (auto simp: keys_RecordAlg_def)
  let ?b = "head_body H l now sz"
  have body: "STH_SigningKeyID ?b = IL_kid l" "length (STH_TreeHash ?b) = HashSize"
      "length (STH_TreeChainHead ?b) = HashSize"
    using h n len unat_gt_0 [of sz] by (auto simp: head_body_def intro!: hashes_nth)
  obtain sig' where "sg_Sign (signer r) (IL_kid l) PurposeSigningWitness
      (sthCoverBytes (?b\<lparr>STH_Alg := alg\<rparr>)) = Inr sig'"
    using can by (auto simp: signs_heads_def)
  with body alg sg log_invD(1) [OF inv] n show ?thesis
    by (simp add: headLocked_eq [OF inv] SignedTreeHead_SignWith_def Let_def)
qed

lemma head_verifies:
  assumes inv: "log_inv H l" and sg: "IL_signer l = signer r" and ok: "ok r"
    and now: "zero_time < now" and head: "headLocked H l now sz = Inr sth"
  shows "SignedTreeHead_VerifySignature (lib r) (Some sth) (Some (resolver r)) = None \<or>
    zero_digest_head sth"
proof -
  have s: "SignedTreeHead_SignWith (head_body H l now sz) (signer r) = (None, sth)"
    using headLocked_Inr(2) [OF inv head] sg by simp
  have "SignedTreeHead_Validate (Some sth) = None \<or> zero_digest_head sth"
    using headLocked_validates [OF inv head SignWith_signature [OF ok s] now]
      headLocked_fields [OF inv head] by (simp add: zero_digest_head_def)
  then show ?thesis
  proof
    assume "SignedTreeHead_Validate (Some sth) = None"
    then show ?thesis using SignWith_verifies [OF ok s] by simp
  qed simp
qed

lemma receipt_verifies:
  assumes inv: "log_inv H l" and sg: "IL_signer l = signer r" and ok: "ok r"
    and can: "signs_heads (signer r) (IL_kid l)" and now: "zero_time < now" and i: "index < Log_Size l"
  shows "\<exists>rc. Log_Receipt H l now index = Some (Inr rc) \<and> WR_Entry rc = IL_entries l ! unat index \<and>
    (WitnessReceipt_Verify H (lib r) (Some rc) (Some (resolver r)) = None \<or>
     zero_digest_head (WR_STH rc))"
proof -
  have idx: "unat index < length (IL_entries l)"
    using i index_less_iff [OF inv, of index] by (simp add: not_le)
  obtain sth where head: "headLocked H l now (Log_Size l) = Inr sth"
    using head_exists [OF inv sg ok can, of "Log_Size l"] Log_Size_unat [OF inv] by auto
  then obtain rc where rc: "Log_Receipt H l now index = Some (Inr rc)" "WR_STH rc = sth"
      "WR_Entry rc = IL_entries l ! unat index"
    using Log_Receipt_eq [OF inv idx, of now] by auto
  have "WitnessReceipt_Verify H (lib r) (Some rc) (Some (resolver r)) = None"
    if "\<not> zero_digest_head sth"
    using that head_verifies [OF inv sg ok now head] rc(2) receipt_validates [OF inv idx rc(1)]
    by (auto simp: WitnessReceipt_Verify_ok SignedTreeHead_VerifySignature_ok)
  with rc show ?thesis by blast
qed

lemma honest_heads_clear:
  assumes inv: "log_inv H l" and sg: "IL_signer l = signer r" and ok: "ok r"
    and room: "length (IL_entries l) + length es < 2 ^ 63"
    and l': "l' = run_appends (Log_Append H) l es"
    and clock: "zero_time < now" "now \<le> now'"
    and head: "Log_Head H l now = Inr a" "Log_Head H l' now' = Inr b"
  shows "\<exists>p. Log_ConsistencyProof H l' (Log_Size l) (Log_Size l') = Some (Inr p) \<and>
    (DetectFork H (Some a) (Some b) (Some p) = Inr None \<or> zero_digest_head a \<or> zero_digest_head b)"
proof -
  obtain zs where run: "log_inv H l'" "IL_entries l' = IL_entries l @ zs"
    using witness_log.run_history [OF inv room] l' by blast
  have key: "IL_signer l' = signer r" "IL_kid l' = IL_kid l"
    using run_appends_same_key [of H l es] l' sg by auto
  obtain p where p: "Log_ConsistencyProof H l' (Log_Size l) (Log_Size l') = Some (Inr p)"
      "STH_TreeSize a \<le> STH_TreeSize b" "heads_agree H a b (Some p)"
    using heads_of_one_log_agree [OF inv run key(2) clock(2) head] by blast
  have "SignedTreeHead_Validate (Some a) = None \<or> zero_digest_head a"
    using head_verifies [OF inv sg ok clock(1) head(1) [unfolded Log_Head_def]]
    by (auto simp: SignedTreeHead_VerifySignature_ok)
  moreover have "SignedTreeHead_Validate (Some b) = None \<or> zero_digest_head b"
    using head_verifies [OF run(1) key(1) ok _ head(2) [unfolded Log_Head_def]] clock
    by (auto simp: SignedTreeHead_VerifySignature_ok)
  ultimately show ?thesis
    using p DetectFork_ordered [OF p(2)] by blast
qed

end

interpretation sha_operator: witness_operator SHA256 ring_ok fst ring_signer ring_resolver
  by unfold_locales

end
