(* ===== verification/LogProperties.thy ===== *)
theory LogProperties
  imports LogProofs
begin

text \<open>
  The properties of the witness log, its proofs, its heads and its fork detection, stated for
  \<open>SHA256\<close> and the vault's key store, each with a concrete instance.
\<close>

section \<open>A concrete operator\<close>

text \<open>
  An operator over \<open>plain_prims\<close> with one Ed25519 witness key, and a log it has appended one entry
  to: the instances below apply the properties to it.
\<close>

definition demo_key :: SigningKey where
  "demo_key = \<lparr>SK_suite = SuiteEd25519, SK_priv = Some (zeros 32)\<rparr>"

definition demo_store :: InMemoryStore where
  "demo_store = snd (RegisterSigningKey plain_prims NewInMemoryStore 0 ''w''
     PurposeSigningWitness (Some demo_key))"

definition demo_ring :: ring where
  "demo_ring = (plain_prims, demo_store)"

definition demo_empty :: InMemoryLog where
  "demo_empty = \<lparr>IL_signer = ring_signer demo_ring, IL_kid = ''w'', IL_entries = [], IL_leaves = []\<rparr>"

definition demo_entry :: LogEntry where
  "demo_entry =
     \<lparr>LE_SchemaVersion = 1, LE_EntryID = [], LE_Index = 0, LE_PrevLeafHash = [], LE_LeafHash = [],
      LE_Timestamp = 7, LE_GenomeID = ''g'', LE_AttestationRoot = zeros 32,
      LE_BatteryMerkleRoot = zeros 32, LE_ScorecardRoot = zeros 32, LE_ParentGenomeID = [],
      LE_DerivationMethod = []\<rparr>"

definition demo_log :: InMemoryLog where
  "demo_log = snd (Log_Append SHA256 demo_empty demo_entry)"

definition demo_leaves :: "bytes list" where
  "demo_leaves = [zeros 32, zeros 32, zeros 32]"

text \<open>
  A digest whose values are known, for the instances that need a head that validates: every
  digest is 32 ones.
\<close>

definition toy_digest :: "bytes \<Rightarrow> bytes" where
  "toy_digest m = replicate 32 1"

definition toy_entry :: LogEntry where
  "toy_entry = (threaded demo_empty demo_entry)
     \<lparr>LE_LeafHash := replicate 32 1, LE_EntryID := EntryIDPrefix @ hex_encode (replicate 32 1)\<rparr>"

definition toy_head :: "u64 \<Rightarrow> SignedTreeHead" where
  "toy_head n =
     \<lparr>STH_SchemaVersion = 1, STH_TreeSize = n, STH_TreeHash = replicate 32 1,
      STH_TreeChainHead = replicate 32 1, STH_Timestamp = 9, STH_SigningKeyID = ''w'',
      STH_Alg = [], STH_Signature = [1]\<rparr>"

definition toy_receipt :: WitnessReceipt where
  "toy_receipt =
     \<lparr>WR_SchemaVersion = 1, WR_Entry = toy_entry,
      WR_InclusionProof = \<lparr>IP_LeafIndex = 0, IP_TreeSize = 1, IP_Path = []\<rparr>, WR_STH = toy_head 1\<rparr>"

lemma demo_ring_ok: "ring_ok demo_ring"
proof -
  have "store_wf plain_prims NewInMemoryStore"
    by (simp add: NewInMemoryStore_def store_wf_def)
  then show ?thesis
    by (simp add: ring_ok_def demo_ring_def demo_store_def plain_prims_ok RegisterSigningKey_wf)
qed

lemma demo_store_key:
  "st_signing demo_store ''w'' = Some
     \<lparr>sk_Verifying = \<lparr>VK_KeyID = ''w'', VK_Purpose = PurposeSigningWitness, VK_Suite = SuiteEd25519,
        VK_PublicKey = PublicKeyBytes plain_prims demo_key, VK_CreatedAt = 0\<rparr>,
      sk_Priv = demo_key\<rparr>"
  by (simp add: demo_store_def RegisterSigningKey_def is_signing_purpose_def Suite_Valid_iff
      Suite_Available_def demo_key_def PublicKeyBytes_def plain_prims_def PublicKeySize_def Let_def
      NewInMemoryStore_def UnixNano_def)

lemma demo_signs: "signs_heads (ring_signer demo_ring) ''w''"
  by (simp add: signs_heads_def ring_defs demo_ring_def Store_Sign_def demo_store_key demo_key_def
      SigningKey_Sign_def)

lemma demo_empty_new: "NewInMemoryLog (Some (ring_signer demo_ring)) ''w'' = Inr demo_empty"
  by (simp add: NewInMemoryLog_def demo_empty_def)

lemma demo_empty_inv: "log_inv H demo_empty"
  by (rule NewInMemoryLog_inv [OF demo_empty_new])

lemma demo_validates: "validateStructural (threaded demo_empty demo_entry) = None"
  by (simp add: validateStructural_ok threaded_def demo_empty_def demo_entry_def zero_time_def
      HashSize_def)

lemma toy_digest32: "digest32 toy_digest"
  by (simp add: digest32_def toy_digest_def HashSize_def)

lemma toy_ones: "\<not> isAllZero (replicate 32 1)" "zeros 32 \<noteq> replicate 32 1" "replicate 32 1 \<noteq> zeros 32"
  by (simp_all add: isAllZero_def zeros_def list_all_iff)

lemma toy_head_valid: "n \<noteq> 0 \<Longrightarrow> SignedTreeHead_Validate (Some (toy_head n)) = None"
  by (simp add: SignedTreeHead_Validate_ok toy_head_def HashSize_def toy_ones zero_time_def)

lemma toy_receipt_valid: "WitnessReceipt_Validate toy_digest (Some toy_receipt) = None"
proof -
  have "LogEntry_Validate toy_digest toy_entry = None"
    using demo_validates by (simp add: LogEntry_Validate_ok toy_entry_def toy_digest_def)
  then show ?thesis
    using toy_head_valid [of 1]
    by (simp add: WitnessReceipt_Validate_ok toy_receipt_def toy_entry_def threaded_def Let_def
        demo_empty_def demo_entry_def toy_head_def
        digest32.VerifyInclusion_iff [OF toy_digest32]
        digest32.InclusionProof_Validate_iff [OF toy_digest32] HashSize_def)
qed

lemma demo_append:
  "\<exists>e. Log_Append SHA256 demo_empty demo_entry = (Inr e, demo_log) \<and> IL_entries demo_log = [e]"
proof -
  let ?t = "threaded demo_empty demo_entry"
  let ?h = "SHA256 (leaf_input ?t)"
  let ?e = "?t\<lparr>LE_LeafHash := ?h, LE_EntryID := EntryIDPrefix @ hex_encode ?h\<rparr>"
  have "LogEntry_Validate SHA256 ?e = None"
    using demo_validates by (simp add: LogEntry_Validate_ok HashSize_def [symmetric])
  then have "Log_Append SHA256 demo_empty demo_entry = (Inr ?e,
      demo_empty\<lparr>IL_entries := [?e], IL_leaves := [?h]\<rparr>)"
    using demo_validates
    by (simp add: Log_Append_def DeriveLeafHashAndID_def Let_def demo_empty_def)
  then show ?thesis by (simp add: demo_log_def)
qed

lemma demo_log_inv: "log_inv SHA256 demo_log"
  using demo_append Log_Append_inv [OF demo_empty_inv] by (auto simp: demo_empty_def)

lemma demo_log_facts:
  "IL_signer demo_log = ring_signer demo_ring" "IL_kid demo_log = ''w''"
  "length (IL_entries demo_log) = 1" "Log_Size demo_log = 1"
  using demo_append Log_Append_same_key [of SHA256 demo_empty demo_entry]
  by (auto simp: demo_empty_def Log_Size_def)

lemma demo_leaves_hashes: "hashes demo_leaves" "length demo_leaves = 3"
  by (simp_all add: demo_leaves_def HashSize_def)

section \<open>The Merkle tree\<close>



text \<open>C2: \<open>VerifyInclusion\<close> is sound: if it accepts a leaf and a proof against the root of a tree
  of the proof's size, the leaf is the tree's leaf at the proof's index, unless a hash input of
  the verifier's walk collides with one of the tree's.\<close>

theorem VerifyInclusion_proves_membership:
  assumes "hashes xs" "unat (IP_TreeSize p) = length xs"
    and "VerifyInclusion SHA256 leaf (Some p) (mth SHA256 xs) = None"
  shows "unat (IP_LeafIndex p) < length xs \<and>
    (leaf = xs ! unat (IP_LeafIndex p) \<or>
     tree_collision SHA256
       (incl_inputs SHA256 (unat (IP_LeafIndex p)) (length xs - 1) leaf (IP_Path p)) xs)"
  using sha256.VerifyInclusion_sound [OF assms] by blast

theorem VerifyInclusion_proves_membership_witness:
  "\<exists>p. VerifyInclusion SHA256 (zeros 32) (Some p) (mth SHA256 demo_leaves) = None \<and>
     (zeros 32 = demo_leaves ! unat (IP_LeafIndex p) \<or>
      tree_collision SHA256
        (incl_inputs SHA256 (unat (IP_LeafIndex p)) 2 (zeros 32) (IP_Path p)) demo_leaves)"
proof -
  let ?p = "\<lparr>IP_LeafIndex = of_nat 1, IP_TreeSize = of_nat (length demo_leaves),
      IP_Path = rfc_path SHA256 1 demo_leaves\<rparr>"
  have acc: "VerifyInclusion SHA256 (demo_leaves ! 1) (Some ?p) (mth SHA256 demo_leaves) = None"
    by (rule sha256.VerifyInclusion_complete) (simp_all add: demo_leaves_hashes)
  from VerifyInclusion_proves_membership [OF demo_leaves_hashes(1) _ acc] acc show ?thesis
    by (intro exI [of _ ?p]) (simp add: demo_leaves_hashes(2) demo_leaves_def)
qed

text \<open>C1: \<open>VerifyConsistency\<close> is sound: if it accepts an older root of non-zero size against the
  root of a tree of the proof's new size, the older root is the root of that tree's prefix of the
  old size, unless a hash input of the verifier's walk collides with one of the tree's.\<close>

theorem VerifyConsistency_proves_prefix:
  assumes "hashes xs" "unat (CP_NewSize c) = length xs" "CP_OldSize c \<noteq> 0"
    and "VerifyConsistency SHA256 oldRoot (mth SHA256 xs) (Some c) = None"
  shows "unat (CP_OldSize c) \<le> length xs \<and>
    (oldRoot = mth SHA256 (take (unat (CP_OldSize c)) xs) \<or>
     tree_collision SHA256
       (cons_inputs SHA256 (unat (CP_OldSize c)) (length xs) oldRoot (CP_Path c)) xs)"
  using assms by (rule sha256.VerifyConsistency_sound)

theorem VerifyConsistency_proves_prefix_witness:
  "\<exists>c root. CP_OldSize c = 2 \<and>
     VerifyConsistency SHA256 root (mth SHA256 demo_leaves) (Some c) = None \<and>
     (root = mth SHA256 (take 2 demo_leaves) \<or>
      tree_collision SHA256 (cons_inputs SHA256 2 3 root (CP_Path c)) demo_leaves)"
proof -
  have "\<exists>path. (if (2::nat) \<noteq> 0 \<and> 2 \<noteq> length demo_leaves
        then subproofInternal SHA256 2 demo_leaves True else Some []) = Some path \<and>
      VerifyConsistency SHA256 (mth SHA256 (take 2 demo_leaves)) (mth SHA256 demo_leaves)
        (Some \<lparr>CP_OldSize = of_nat 2, CP_NewSize = of_nat (length demo_leaves), CP_Path = path\<rparr>) = None"
    by (rule sha256.VerifyConsistency_complete) (simp_all add: demo_leaves_hashes)
  then obtain path where acc: "VerifyConsistency SHA256 (mth SHA256 (take 2 demo_leaves))
      (mth SHA256 demo_leaves) (Some \<lparr>CP_OldSize = 2, CP_NewSize = 3, CP_Path = path\<rparr>) = None"
    by (auto simp: demo_leaves_hashes(2))
  let ?c = "\<lparr>CP_OldSize = 2, CP_NewSize = 3, CP_Path = path\<rparr>"
  from VerifyConsistency_proves_prefix [OF demo_leaves_hashes(1) _ _ acc] acc show ?thesis
    by (intro exI [of _ ?c] exI [of _ "mth SHA256 (take 2 demo_leaves)"])
      (simp add: demo_leaves_hashes(2))
qed

text \<open>A Merkle root with its tree size commits to every leaf: two lists of leaves of one length
  with one root are equal, unless their trees hold a collision.\<close>

theorem root_commits_to_leaves:
  assumes "hashes xs" "hashes ys" "length xs = length ys" "length ys < 2 ^ 64"
    and "ComputeMerkleRoot SHA256 xs = ComputeMerkleRoot SHA256 ys"
  shows "xs = ys \<or> leaves_collide SHA256 xs ys"
  using assms by (intro sha256.root_commits) (simp_all add: sha256.ComputeMerkleRoot_mth)

theorem root_commits_to_leaves_witness:
  "ComputeMerkleRoot SHA256 demo_leaves = ComputeMerkleRoot SHA256 [zeros 32, zeros 32, zeros 32] \<and>
   (demo_leaves = [zeros 32, zeros 32, zeros 32] \<or>
    leaves_collide SHA256 demo_leaves [zeros 32, zeros 32, zeros 32])"
  using root_commits_to_leaves [of demo_leaves "[zeros 32, zeros 32, zeros 32]"] demo_leaves_hashes
  by (simp add: demo_leaves_def HashSize_def)

section \<open>The log\<close>

text \<open>C40: Every log an operator can build keeps its invariant: each entry sits at its index and
  validates, is threaded to the leaf hash before it, is no older than it, and the cached leaves are
  the entries' leaf hashes.\<close>

theorem log_reachable_invariant:
  assumes "log_reachable SHA256 signer kid l"
  shows "log_inv SHA256 l \<and> IL_signer l = signer \<and> IL_kid l = kid"
  using assms by (rule log_reachable_inv)

theorem log_reachable_invariant_witness:
  "log_reachable SHA256 (ring_signer demo_ring) ''w'' demo_log \<and> log_inv SHA256 demo_log"
proof -
  obtain e where "Log_Append SHA256 demo_empty demo_entry = (Inr e, demo_log)"
    using demo_append by blast
  then have "log_reachable SHA256 (ring_signer demo_ring) ''w'' demo_log"
    by (intro log_reachable.append [OF log_reachable.init [OF demo_empty_new]])
      (simp_all add: demo_empty_def)
  with log_reachable_invariant [OF this] show ?thesis by simp
qed

text \<open>The log is append-only: whatever is appended, successful or refused, every entry a reader
  has seen stays at its index unchanged, and at most one entry is added per call.\<close>

theorem log_is_append_only:
  assumes "log_inv SHA256 l" "length (IL_entries l) + length es < 2 ^ 63"
  shows "\<exists>zs. IL_entries (run_appends (Log_Append SHA256) l es) = IL_entries l @ zs \<and>
    length zs \<le> length es"
  using witness_log.run_history [OF assms] by blast

theorem log_is_append_only_witness:
  "\<exists>zs. IL_entries (run_appends (Log_Append SHA256) demo_log [demo_entry, demo_entry]) =
     IL_entries demo_log @ zs \<and> length zs \<le> length [demo_entry, demo_entry]"
  using log_is_append_only [OF demo_log_inv, of "[demo_entry, demo_entry]"]
  by (simp only: demo_log_facts) simp

text \<open>An append of an entry older than the last one is refused as an incident and changes
  nothing.\<close>

theorem Append_refuses_rollback:
  assumes "IL_entries l \<noteq> []" "LE_Timestamp e < LE_Timestamp (last (IL_entries l))"
  shows "\<exists>err. Log_Append H l e = (Inl err, l) \<and> CategoryOf (Some err) = CategoryIncident"
  using assms by (simp add: Log_Append_def Let_def threaded_def last_conv_nth)

theorem Append_refuses_rollback_witness:
  "\<exists>err. Log_Append SHA256 demo_log (demo_entry\<lparr>LE_Timestamp := 6\<rparr>) = (Inl err, demo_log) \<and>
     CategoryOf (Some err) = CategoryIncident"
proof -
  obtain e where e: "Log_Append SHA256 demo_empty demo_entry = (Inr e, demo_log)"
      "IL_entries demo_log = [e]"
    using demo_append by blast
  have "LE_Timestamp e = 7"
    using arg_cong [OF Log_Append_ok(3) [OF e(1)], of LE_Timestamp]
    by (simp add: payload_def threaded_def Let_def demo_entry_def)
  then show ?thesis
    using Append_refuses_rollback [of demo_log "demo_entry\<lparr>LE_Timestamp := 6\<rparr>" SHA256] e(2) by simp
qed

text \<open>The operator's inclusion proof for any leaf and any tree size the log has had is built
  without a panic and is accepted by \<open>VerifyInclusion\<close> against that tree's root.\<close>

theorem InclusionProof_accepted:
  assumes "log_inv SHA256 l" "leafIndex < treeSize" "treeSize \<le> Log_Size l"
  shows "\<exists>p root. Log_InclusionProof SHA256 l leafIndex treeSize = Some (Inr p) \<and>
    ComputeMerkleRoot SHA256 (take (unat treeSize) (IL_leaves l)) = Inr root \<and>
    VerifyInclusion SHA256 (IL_leaves l ! unat leafIndex) (Some p) root = None"
  using sha256.Log_InclusionProof_verifies [OF assms] log_inv_hashes [OF assms(1)]
  by (simp add: sha256.ComputeMerkleRoot_mth)

theorem InclusionProof_accepted_witness:
  "\<exists>p root. Log_InclusionProof SHA256 demo_log 0 1 = Some (Inr p) \<and>
    ComputeMerkleRoot SHA256 (take 1 (IL_leaves demo_log)) = Inr root \<and>
    VerifyInclusion SHA256 (IL_leaves demo_log ! 0) (Some p) root = None"
  using InclusionProof_accepted [OF demo_log_inv, of 0 1] demo_log_facts by simp

text \<open>The operator's consistency proof between any two sizes the log has had is built without a
  panic, in finite time, and is accepted by \<open>VerifyConsistency\<close> between the two roots.\<close>

theorem ConsistencyProof_accepted:
  assumes "log_inv SHA256 l" "oldSize \<le> newSize" "newSize \<le> Log_Size l"
  shows "\<exists>p oldRoot newRoot. Log_ConsistencyProof SHA256 l oldSize newSize = Some (Inr p) \<and>
    ComputeMerkleRoot SHA256 (take (unat oldSize) (IL_leaves l)) = Inr oldRoot \<and>
    ComputeMerkleRoot SHA256 (take (unat newSize) (IL_leaves l)) = Inr newRoot \<and>
    VerifyConsistency SHA256 oldRoot newRoot (Some p) = None"
  using sha256.Log_ConsistencyProof_verifies [OF assms] log_inv_hashes [OF assms(1)]
  by (auto simp: sha256.ComputeMerkleRoot_mth)

theorem ConsistencyProof_accepted_witness:
  "\<exists>p oldRoot newRoot. Log_ConsistencyProof SHA256 demo_log 0 1 = Some (Inr p) \<and>
    ComputeMerkleRoot SHA256 (take 0 (IL_leaves demo_log)) = Inr oldRoot \<and>
    ComputeMerkleRoot SHA256 (take 1 (IL_leaves demo_log)) = Inr newRoot \<and>
    VerifyConsistency SHA256 oldRoot newRoot (Some p) = None"
  using ConsistencyProof_accepted [OF demo_log_inv, of 0 1] demo_log_facts by simp

text \<open>C3: A receipt is available for every committed entry and passes the consumer's full check
  (entry, inclusion proof, head and signature) under the operator's key store, unless \<open>SHA256\<close>
  gave the all-zero digest the head's gate reserves for the empty tree.\<close>

theorem Receipt_verifies:
  assumes "log_inv SHA256 l" "IL_signer l = ring_signer r" "ring_ok r"
    and "signs_heads (ring_signer r) (IL_kid l)" "zero_time < now" "index < Log_Size l"
  shows "\<exists>rc. Log_Receipt SHA256 l now index = Some (Inr rc) \<and>
    WR_Entry rc = IL_entries l ! unat index \<and>
    (WitnessReceipt_Verify SHA256 (fst r) (Some rc) (Some (ring_resolver r)) = None \<or>
     zero_digest_head (WR_STH rc))"
  using assms by (rule sha_operator.receipt_verifies)

theorem Receipt_verifies_witness:
  "\<exists>rc. Log_Receipt SHA256 demo_log 9 0 = Some (Inr rc) \<and>
    (WitnessReceipt_Verify SHA256 plain_prims (Some rc) (Some (ring_resolver demo_ring)) = None \<or>
     zero_digest_head (WR_STH rc))"
  using Receipt_verifies [OF demo_log_inv demo_log_facts(1) demo_ring_ok, of 9 0] demo_signs
    demo_log_facts
  by (auto simp: zero_time_def demo_ring_def)

text \<open>An accepted receipt whose head's root is the root of a list of leaves of the head's size
  names the leaf at the entry's index, and that leaf is the digest of the entry's own packing,
  unless the walk or the tree holds a collision. It holds for any 32-byte digest.\<close>

theorem Receipt_names_leaf:
  assumes "digest32 H" "WitnessReceipt_Validate H (Some r) = None" "hashes xs"
    and "unat (STH_TreeSize (WR_STH r)) = length xs"
    and "ComputeMerkleRoot H xs = Inr (STH_TreeHash (WR_STH r))"
  shows "unat (LE_Index (WR_Entry r)) < length xs \<and>
    (xs ! unat (LE_Index (WR_Entry r)) = H (leaf_input (WR_Entry r)) \<or>
     tree_collision H
       (incl_inputs H (unat (LE_Index (WR_Entry r))) (length xs - 1) (LE_LeafHash (WR_Entry r))
          (IP_Path (WR_InclusionProof r))) xs)"
proof -
  have "LE_LeafHash (WR_Entry r) = H (leaf_input (WR_Entry r))"
    using assms(2) by (simp add: WitnessReceipt_Validate_ok LogEntry_Validate_ok)
  moreover have "STH_TreeHash (WR_STH r) = mth H xs"
    using assms(3,5) by (simp add: digest32.ComputeMerkleRoot_mth [OF assms(1)])
  ultimately show ?thesis
    using digest32.receipt_names_leaf [OF assms(1,2,3,4)] by auto
qed

theorem Receipt_names_leaf_witness:
  "WitnessReceipt_Validate toy_digest (Some toy_receipt) = None \<and>
   ([replicate 32 1] ! 0 = toy_digest (leaf_input (WR_Entry toy_receipt)) \<or>
    tree_collision toy_digest
      (incl_inputs toy_digest 0 0 (replicate 32 1) (IP_Path (WR_InclusionProof toy_receipt)))
      [replicate 32 1])"
proof -
  have "hashes [replicate 32 1]" by (simp add: HashSize_def)
  then have "ComputeMerkleRoot toy_digest [replicate 32 1] = Inr (replicate 32 1)"
    by (simp add: digest32.ComputeMerkleRoot_mth [OF toy_digest32])
  then show ?thesis
    using Receipt_names_leaf [OF toy_digest32 toy_receipt_valid, of "[replicate 32 1]"]
      toy_receipt_valid
    by (simp add: toy_receipt_def toy_head_def toy_entry_def HashSize_def threaded_def Let_def demo_empty_def)
qed

section \<open>Forks\<close>

text \<open>C4: An honest operator is never accused: two heads of one log, the second taken after any
  further appends and no earlier on the clock, are cleared by \<open>DetectFork\<close> with the log's own
  consistency proof, unless a head shows the all-zero digest.\<close>

theorem honest_operator_not_accused:
  assumes "log_inv SHA256 l" "IL_signer l = ring_signer r" "ring_ok r"
    and "length (IL_entries l) + length es < 2 ^ 63"
    and "l' = run_appends (Log_Append SHA256) l es" "zero_time < now" "now \<le> now'"
    and "Log_Head SHA256 l now = Inr a" "Log_Head SHA256 l' now' = Inr b"
  shows "\<exists>p. Log_ConsistencyProof SHA256 l' (Log_Size l) (Log_Size l') = Some (Inr p) \<and>
    (DetectFork SHA256 (Some a) (Some b) (Some p) = Inr None \<or> zero_digest_head a \<or> zero_digest_head b)"
  using assms by (rule sha_operator.honest_heads_clear)

theorem honest_operator_not_accused_witness:
  "\<exists>a b p. Log_Head SHA256 demo_empty 8 = Inr a \<and> Log_Head SHA256 demo_log 9 = Inr b \<and>
    Log_ConsistencyProof SHA256 demo_log (Log_Size demo_empty) (Log_Size demo_log) = Some (Inr p) \<and>
    (DetectFork SHA256 (Some a) (Some b) (Some p) = Inr None \<or> zero_digest_head a \<or> zero_digest_head b)"
proof -
  have sg: "IL_signer demo_empty = ring_signer demo_ring" "IL_kid demo_empty = ''w''"
    by (simp_all add: demo_empty_def)
  have run: "demo_log = run_appends (Log_Append SHA256) demo_empty [demo_entry]"
    by (simp add: demo_log_def)
  obtain a where a: "Log_Head SHA256 demo_empty 8 = Inr a"
    using sha_operator.head_exists [OF demo_empty_inv sg(1) demo_ring_ok, of "Log_Size demo_empty" 8]
      demo_signs by (auto simp: Log_Head_def Log_Size_unat [OF demo_empty_inv] sg(2))
  obtain b where b: "Log_Head SHA256 demo_log 9 = Inr b"
    using sha_operator.head_exists [OF demo_log_inv demo_log_facts(1) demo_ring_ok, of "Log_Size demo_log" 9]
      demo_signs by (auto simp: Log_Head_def Log_Size_unat [OF demo_log_inv] demo_log_facts)
  show ?thesis
    using honest_operator_not_accused [OF demo_empty_inv sg(1) demo_ring_ok _ run _ _ a b] a b
    by (simp add: zero_time_def demo_empty_def)
qed

text \<open>A pair of different non-zero sizes is cleared only when the older root is the root of the
  newer tree's prefix: a rewritten history is reported, unless the proof holds a collision. It
  holds for any 32-byte digest.\<close>

theorem cleared_pair_is_prefix:
  assumes "digest32 H" "DetectFork H (Some a) (Some b) (Some p) = Inr None"
    and "STH_TreeSize a < STH_TreeSize b" "STH_TreeSize a \<noteq> 0" "hashes xs"
    and "unat (STH_TreeSize b) = length xs" "ComputeMerkleRoot H xs = Inr (STH_TreeHash b)"
  shows "ComputeMerkleRoot H (take (unat (STH_TreeSize a)) xs) = Inr (STH_TreeHash a) \<or>
    tree_collision H
      (cons_inputs H (unat (STH_TreeSize a)) (length xs) (STH_TreeHash a) (CP_Path p)) xs"
proof -
  note root = digest32.ComputeMerkleRoot_mth [OF assms(1)]
  have "STH_TreeHash b = mth H xs" using assms(5,7) by (simp add: root)
  from digest32.DetectFork_clears_prefix [OF assms(1,2,3,4,5,6) this] assms(5) show ?thesis
    by (auto simp: root)
qed

theorem cleared_pair_is_prefix_witness:
  "\<exists>p. DetectFork toy_digest (Some (toy_head 1)) (Some (toy_head 2)) (Some p) = Inr None \<and>
    (ComputeMerkleRoot toy_digest (take 1 [replicate 32 1, replicate 32 1]) = Inr (replicate 32 1) \<or>
     tree_collision toy_digest
       (cons_inputs toy_digest 1 (length [replicate 32 1 :: bytes, replicate 32 1]) (replicate 32 1)
          (CP_Path p)) [replicate 32 1, replicate 32 1])"
proof -
  let ?o = "replicate 32 1 :: bytes" and ?xs = "[replicate 32 1, replicate 32 1 :: bytes]"
  have h: "hashes ?xs" by (simp add: HashSize_def)
  have root: "mth toy_digest ?xs = ?o" "mth toy_digest [?o] = ?o"
    by (simp_all add: mth_split node_def toy_digest_def)
  obtain path where "VerifyConsistency toy_digest (mth toy_digest (take 1 ?xs)) (mth toy_digest ?xs)
      (Some \<lparr>CP_OldSize = of_nat 1, CP_NewSize = of_nat (length ?xs), CP_Path = path\<rparr>) = None"
    using digest32.VerifyConsistency_complete [OF toy_digest32 h, of 1] by auto
  then have "VerifyConsistency toy_digest ?o ?o
      (Some \<lparr>CP_OldSize = 1, CP_NewSize = 2, CP_Path = path\<rparr>) = None"
    by (simp add: root)
  then have d: "DetectFork toy_digest (Some (toy_head 1)) (Some (toy_head 2))
      (Some \<lparr>CP_OldSize = 1, CP_NewSize = 2, CP_Path = path\<rparr>) = Inr None"
    using toy_head_valid [of 1] toy_head_valid [of 2]
    by (simp add: DetectFork_ordered heads_agree_def toy_head_def)
  have "ComputeMerkleRoot toy_digest ?xs = Inr ?o"
    using digest32.ComputeMerkleRoot_mth [OF toy_digest32 h] root by simp
  then show ?thesis
    using cleared_pair_is_prefix [OF toy_digest32 d, of ?xs] d h
    by (intro exI [of _ "\<lparr>CP_OldSize = 1, CP_NewSize = 2, CP_Path = path\<rparr>"])
      (simp add: toy_head_def)
qed

text \<open>Which pairs are cleared, exactly: both heads validate, one signer, and either equal sizes
  with equal root and chain head, or a later timestamp on the larger tree with a consistency proof
  of the two sizes that verifies.\<close>

theorem DetectFork_clears_iff:
  assumes "STH_TreeSize a \<le> STH_TreeSize b"
  shows "DetectFork H (Some a) (Some b) proof = Inr None \<longleftrightarrow>
    SignedTreeHead_Validate (Some a) = None \<and> SignedTreeHead_Validate (Some b) = None \<and>
    heads_agree H a b proof"
  using assms by (rule DetectFork_ordered)

theorem DetectFork_clears_iff_witness:
  "DetectFork SHA256 (Some (toy_head 1)) (Some (toy_head 1)) None = Inr None \<longleftrightarrow>
    SignedTreeHead_Validate (Some (toy_head 1)) = None \<and>
    heads_agree SHA256 (toy_head 1) (toy_head 1) None"
  using DetectFork_clears_iff [of "toy_head 1" "toy_head 1" SHA256 None] by simp

text \<open>The order of the two heads does not change the finding: valid heads give the same fork
  kind either way.\<close>

theorem DetectFork_order_irrelevant:
  assumes "SignedTreeHead_Validate (Some a) = None" "SignedTreeHead_Validate (Some b) = None"
  shows "fork_kind (DetectFork H (Some a) (Some b) proof) =
    fork_kind (DetectFork H (Some b) (Some a) proof)"
  using assms by (rule DetectFork_kind_commutes)

theorem DetectFork_order_irrelevant_witness:
  "fork_kind (DetectFork SHA256 (Some (toy_head 1)) (Some (toy_head 2)) None) =
    fork_kind (DetectFork SHA256 (Some (toy_head 2)) (Some (toy_head 1)) None)"
  using DetectFork_order_irrelevant [OF toy_head_valid toy_head_valid, of 1 2 SHA256 None] by simp

text \<open>Evidence is routed by its signers: under one signing key every fork is an incident, and
  a pair under two keys is a structural error of the caller, never an incident.\<close>

theorem fork_evidence_category:
  assumes "DetectFork H (Some a) (Some b) proof = Inr (Some e)"
  shows "CategoryOf (ForkEvidence_AsError (Some e)) =
    (if STH_SigningKeyID a = STH_SigningKeyID b then CategoryIncident else CategoryStructural)"
  using assms by (rule DetectFork_AsError)

theorem fork_evidence_category_witness:
  "\<exists>e. DetectFork SHA256 (Some (toy_head 1)) (Some (toy_head 2)) None = Inr (Some e) \<and>
    CategoryOf (ForkEvidence_AsError (Some e)) = CategoryIncident"
proof -
  have "\<exists>e. DetectFork SHA256 (Some (toy_head 1)) (Some (toy_head 2)) None = Inr (Some e)"
    using toy_head_valid [of 1] toy_head_valid [of 2]
    by (simp add: DetectFork_valid fork_verdict_def signerEqual_def toy_head_def)
  then show ?thesis
    using fork_evidence_category [of SHA256 "toy_head 1" "toy_head 2" None] by (auto simp: toy_head_def)
qed

section \<open>Commitments\<close>

text \<open>A chain head commits to the whole history: two logs with the invariant whose last leaf
  hashes agree hold the same entries, unless two entries' packings are a collision.\<close>

theorem chain_head_commits_to_history:
  assumes "log_inv SHA256 l" "log_inv SHA256 l'" "IL_entries l \<noteq> []" "IL_entries l' \<noteq> []"
    and "list_all packable (IL_entries l)" "list_all packable (IL_entries l')"
    and "last (IL_leaves l) = last (IL_leaves l')"
  shows "IL_entries l = IL_entries l' \<or> entries_collide SHA256 (IL_entries l) (IL_entries l')"
  using assms(3-7) log_invD(2-4) [OF assms(1)] log_invD(2-4) [OF assms(2)]
  by (intro chain_head_commits) (simp_all add: last_map)

theorem chain_head_commits_to_history_witness:
  "last (IL_leaves demo_log) = last (IL_leaves demo_log) \<and>
   (IL_entries demo_log = IL_entries demo_log \<or>
    entries_collide SHA256 (IL_entries demo_log) (IL_entries demo_log))"
proof -
  obtain e where e: "Log_Append SHA256 demo_empty demo_entry = (Inr e, demo_log)"
      "IL_entries demo_log = [e]"
    using demo_append by blast
  have "packable (payload e) = packable (payload (threaded demo_empty demo_entry))"
    using Log_Append_ok(3) [OF e(1)] by simp
  then have "packable e"
    by (simp add: packable_def payload_def threaded_def Let_def demo_entry_def)
  with chain_head_commits_to_history [OF demo_log_inv demo_log_inv] e(2) show ?thesis by simp
qed

text \<open>A leaf hash commits to its entry: two entries that validate with one leaf hash are equal
  in every field, unless their packings collide.\<close>

theorem leaf_hash_commits_to_entry:
  assumes "LogEntry_Validate SHA256 a = None" "LogEntry_Validate SHA256 b = None"
    and "packable a" "packable b" "LE_LeafHash a = LE_LeafHash b"
  shows "a = b \<or> collides SHA256 (leaf_input a) (leaf_input b)"
  using assms by (rule leaf_hash_commits)

theorem leaf_hash_commits_to_entry_witness:
  "\<exists>e. LogEntry_Validate SHA256 e = None \<and> packable e \<and>
     (e = e \<or> collides SHA256 (leaf_input e) (leaf_input e))"
proof -
  obtain e where e: "Log_Append SHA256 demo_empty demo_entry = (Inr e, demo_log)"
    using demo_append by blast
  have "packable (payload e) = packable (payload (threaded demo_empty demo_entry))"
    using Log_Append_ok(3) [OF e] by simp
  then have p: "packable e"
    by (simp add: packable_def payload_def threaded_def Let_def demo_entry_def)
  note v = Log_Append_ok(2) [OF e]
  from leaf_hash_commits_to_entry [OF v v p p] v p show ?thesis by blast
qed

text \<open>The bytes under a head's signature determine every signed field, the algorithm included:
  two heads with one cover differ at most in the signature.\<close>

theorem sth_cover_injective:
  assumes "sth_packable a" "sth_packable b" "sthCoverBytes a = sthCoverBytes b"
  shows "a\<lparr>STH_Signature := []\<rparr> = b\<lparr>STH_Signature := []\<rparr>"
  using assms by (rule sthCoverBytes_inj)

theorem sth_cover_injective_witness:
  "sthCoverBytes (toy_head 1) = sthCoverBytes ((toy_head 1)\<lparr>STH_Signature := [2]\<rparr>) \<and>
   (toy_head 1)\<lparr>STH_Signature := []\<rparr> = (toy_head 1)\<lparr>STH_Signature := [2], STH_Signature := []\<rparr>"
  using sth_cover_injective [of "toy_head 1" "(toy_head 1)\<lparr>STH_Signature := [2]\<rparr>"]
  by (simp add: sth_packable_def toy_head_def HashSize_def sthCoverBytes_def)

end
