(* ===== verification/KeyProperties.thy ===== *)
theory KeyProperties
  imports LogProperties
begin

text \<open>
  The properties of the key store: its invariant over every history, the separation of purposes,
  no silent overwrite, the wipe, and the round trips of signing and sealing.
\<close>

definition demo_sealing :: InMemoryStore where
  "demo_sealing = snd (RegisterSealing demo_store 5 ''s'' (zeros 32))"

lemma demo_store_reachable: "store_reachable plain_prims demo_store"
  unfolding demo_store_def by (intro store_reachable.step [OF store_reachable.init] store_step.register)

text \<open>In every store that any history of registrations, generations, erasures and wipes
  reaches, each signing key is filed under its own id with a signing purpose and its public half is
  its private key's; each sealing key has 32 bytes.\<close>

theorem store_reachable_invariant:
  assumes "store_reachable P s"
  shows "store_wf P s"
  using assms by (rule store_reachable_wf)

theorem store_reachable_invariant_witness: "store_wf plain_prims demo_store"
  using store_reachable_invariant [OF demo_store_reachable] .

text \<open>A key serves exactly one purpose: if it signs under a purpose, its signature verifies as a
  record signature under the key that purpose resolves to, with the record algorithm the signer
  reports, and under every other purpose both signing and resolving are refused as integrity
  errors.\<close>

theorem key_purpose_separation:
  assumes "prims_ok P" "store_reachable P s" "Store_Sign P s kid p msg = Inr sig"
  shows "(\<exists>alg vk. keys_RecordAlg (store_signer P s) kid = Inr alg \<and>
      Store_Resolve s kid p = Inr vk \<and> VerifyingKey_VerifyRecord P vk alg msg sig = None) \<and>
    (\<forall>q msg'. q \<noteq> p \<longrightarrow>
      (\<exists>e e'. Store_Sign P s kid q msg' = Inl e \<and> Store_Resolve s kid q = Inl e' \<and>
        CategoryOf (Some e) = CategoryIntegrity \<and> CategoryOf (Some e') = CategoryIntegrity))"
proof
  have wf: "store_wf P s" using assms(2) by (rule store_reachable_wf)
  show "\<exists>alg vk. keys_RecordAlg (store_signer P s) kid = Inr alg \<and>
      Store_Resolve s kid p = Inr vk \<and> VerifyingKey_VerifyRecord P vk alg msg sig = None"
    using Store_Sign_resolves [OF assms(1) wf assms(3)]
    by (auto simp: keys_RecordAlg_def store_signer_def)
qed (use assms(3) in \<open>auto simp: Store_Sign_def Store_Resolve_def split: option.splits if_splits\<close>)

theorem key_purpose_separation_witness:
  "(\<exists>sig alg vk. Store_Sign plain_prims demo_store ''w'' PurposeSigningWitness [1] = Inr sig \<and>
      keys_RecordAlg (store_signer plain_prims demo_store) ''w'' = Inr alg \<and>
      Store_Resolve demo_store ''w'' PurposeSigningWitness = Inr vk \<and>
      VerifyingKey_VerifyRecord plain_prims vk alg [1] sig = None) \<and>
   (\<exists>e. Store_Sign plain_prims demo_store ''w'' PurposeSigningAudit [2] = Inl e \<and>
      CategoryOf (Some e) = CategoryIntegrity)"
proof -
  obtain sig where s: "Store_Sign plain_prims demo_store ''w'' PurposeSigningWitness [1] = Inr sig"
    by (auto simp: Store_Sign_def demo_store_key demo_key_def SigningKey_Sign_def)
  have "PurposeSigningAudit \<noteq> PurposeSigningWitness" by simp
  with key_purpose_separation [OF plain_prims_ok demo_store_reachable s] s show ?thesis by blast
qed

text \<open>No registration or generation overwrites a key: a signing or sealing key that is held
  stays exactly as it was, whatever is registered next.\<close>

theorem registration_never_overwrites:
  assumes "s' \<in> {snd (RegisterSigningKey P s now kid p key),
      snd (GenerateSigningSuite P s now kid p suite fresh), snd (GenerateSigning P s now kid p fresh),
      snd (RegisterSigningFromSeed P s now kid p seed), snd (RegisterSealing s now kid material),
      snd (GenerateSealing s now kid rng)}"
  shows "(st_signing s k = Some sk \<longrightarrow> st_signing s' k = Some sk) \<and>
    (st_sealing s k = Some sl \<longrightarrow> st_sealing s' k = Some sl)"
proof -
  have reg: "(st_signing s k = Some sk \<longrightarrow> st_signing (snd (RegisterSigningKey P s now kid p key')) k = Some sk) \<and>
      st_sealing (snd (RegisterSigningKey P s now kid p key')) k = st_sealing s k" for key'
    using RegisterSigningKey_outcome [of P s now kid p key'] by auto
  have "(\<exists>key'. s' = snd (RegisterSigningKey P s now kid p key')) \<or> s' = s \<or>
      s' = snd (RegisterSealing s now kid material) \<or> s' = snd (GenerateSealing s now kid rng)"
    using assms register_variants_step(1) [of P s now kid p suite fresh]
      register_variants_step(1) [of P s now kid p SuiteEd25519 fresh]
      register_variants_step(2) [of P s now kid p seed]
    by (auto simp: GenerateSigning_def)
  then show ?thesis
    using reg by (auto simp: RegisterSealing_def GenerateSealing_def split: sum.splits)
qed

theorem registration_never_overwrites_witness:
  "st_signing demo_store ''w'' \<noteq> None \<and>
   st_signing (snd (RegisterSigningFromSeed plain_prims demo_store 9 ''w'' PurposeSigningAudit
     (replicate 32 1))) ''w'' = st_signing demo_store ''w''"
proof -
  let ?s' = "snd (RegisterSigningFromSeed plain_prims demo_store 9 ''w'' PurposeSigningAudit (replicate 32 1))"
  obtain sk where sk: "st_signing demo_store ''w'' = Some sk" using demo_store_key by blast
  have "(st_signing demo_store ''w'' = Some sk \<longrightarrow> st_signing ?s' ''w'' = Some sk) \<and>
      (st_sealing demo_store ''w'' = Some undefined \<longrightarrow> st_sealing ?s' ''w'' = Some undefined)"
    by (rule registration_never_overwrites
        [of _ plain_prims demo_store 9 "''w''" PurposeSigningAudit None SuiteEd25519 "Inr demo_key"
          "replicate 32 1" "[]" "Inr []"]) simp
  with sk show ?thesis by simp
qed

text \<open>After \<open>Zeroize\<close> the store resolves, signs, seals and opens nothing, no wiped signing key can
  sign any more, and every wiped sealing key is all zeros.\<close>

theorem Zeroize_wipes:
  assumes "Zeroize s = (wiped, material, s')"
  shows "st_signing s' = Map.empty \<and> st_sealing s' = Map.empty \<and>
    (\<forall>kid p m. \<exists>e. Store_Sign P s' kid p m = Inl e) \<and> (\<forall>kid p. \<exists>e. Store_Resolve s' kid p = Inl e) \<and>
    (\<forall>kid m a. \<exists>e. Store_Seal P s' kid m a = Inl e) \<and>
    (\<forall>kid n c a. \<exists>e. Store_Open P s' kid n c a = Inl e) \<and>
    (\<forall>kid k m. wiped kid = Some k \<longrightarrow> (\<exists>e. SigningKey_Sign P k m = Inl e)) \<and>
    (\<forall>kid b. material kid = Some b \<longrightarrow> isAllZero b)"
  using assms
  by (auto simp: Zeroize_def Store_Sign_def Store_Resolve_def Store_Seal_def Store_Open_def
      SigningKey_Zeroize_def SigningKey_Sign_def wiped_material_def isAllZero_def list_all_iff)

theorem Zeroize_wipes_witness:
  "\<exists>wiped material s'. Zeroize demo_sealing = (wiped, material, s') \<and> wiped ''w'' \<noteq> None \<and>
     material ''s'' \<noteq> None \<and> st_signing s' = Map.empty \<and>
     (\<forall>kid b. material kid = Some b \<longrightarrow> isAllZero b)"
proof -
  obtain wiped material s' where z: "Zeroize demo_sealing = (wiped, material, s')"
    by (cases "Zeroize demo_sealing")
  have "st_sealing demo_store ''s'' = None"
    by (simp add: demo_store_def RegisterSigningKey_def NewInMemoryStore_def Let_def demo_key_def
        split: option.split)
  then have "st_sealing demo_sealing ''s'' \<noteq> None" "st_signing demo_sealing ''w'' \<noteq> None"
    using demo_store_key by (simp_all add: demo_sealing_def RegisterSealing_def)
  with z Zeroize_wipes [OF z, of plain_prims] show ?thesis by (auto simp: Zeroize_def)
qed

text \<open>What the store seals under a key it opens again, to the same plaintext, with the same key
  and associated data.\<close>

theorem Seal_Open_roundtrip:
  assumes "prims_ok P" "Store_Seal P s kid plaintext aad = Inr (nonce, ct)"
  shows "Store_Open P s kid nonce ct aad = Inr plaintext"
  using assms
  by (auto simp: Store_Seal_def Store_Open_def split: option.splits intro: GCM_roundtrip)

theorem Seal_Open_roundtrip_witness:
  "\<exists>nonce ct. Store_Seal plain_prims demo_sealing ''s'' [1, 2] [3] = Inr (nonce, ct) \<and>
     Store_Open plain_prims demo_sealing ''s'' nonce ct [3] = Inr [1, 2]"
proof -
  have "st_sealing demo_store ''s'' = None"
    by (simp add: demo_store_def RegisterSigningKey_def NewInMemoryStore_def Let_def demo_key_def
        split: option.split)
  then obtain nonce ct where "Store_Seal plain_prims demo_sealing ''s'' [1, 2] [3] = Inr (nonce, ct)"
    by (simp add: Store_Seal_def demo_sealing_def RegisterSealing_def GCM_Seal_def NewGCM_def Let_def
        plain_prims_def)
  with Seal_Open_roundtrip [OF plain_prims_ok this] show ?thesis by blast
qed

end
