(* ===== verification/JsonScalars.thy ===== *)
theory JsonScalars
  imports Prelude
begin

text \<open>
  The scalar encodings of Go's \<open>encoding/json\<close> that the canonical form uses: strings with their
  escapes, byte slices in base64, and instants in RFC 3339 with nanoseconds. A Go string is its
  UTF-8 bytes, one \<open>char\<close> per byte. Each encoding is shown to be readable back, the string one on
  well-formed UTF-8: an ill-formed byte is written as the replacement character, whatever it is.
\<close>

section \<open>Strings\<close>

definition cont_byte :: "nat \<Rightarrow> bool" where
  "cont_byte b \<longleftrightarrow> 128 \<le> b \<and> b \<le> 191"

text \<open>\<open>utf8.DecodeRune\<close> on a non-ASCII lead byte: the length of the rune, 0 if ill-formed.\<close>

definition rune_len :: "string \<Rightarrow> nat" where
  "rune_len s =
     (let n = length s; b = (\<lambda>i. of_char (s ! i) :: nat)
      in if 2 \<le> n \<and> 194 \<le> b 0 \<and> b 0 \<le> 223 \<and> cont_byte (b 1) then 2
         else if 3 \<le> n \<and> 224 \<le> b 0 \<and> b 0 \<le> 239 \<and> (if b 0 = 224 then 160 else 128) \<le> b 1 \<and>
           b 1 \<le> (if b 0 = 237 then 159 else 191) \<and> cont_byte (b 2) then 3
         else if 4 \<le> n \<and> 240 \<le> b 0 \<and> b 0 \<le> 244 \<and> (if b 0 = 240 then 144 else 128) \<le> b 1 \<and>
           b 1 \<le> (if b 0 = 244 then 143 else 191) \<and> cont_byte (b 2) \<and> cont_byte (b 3) then 4
         else 0)"

definition escape_ascii :: "char \<Rightarrow> string" where
  "escape_ascii c =
     (let b = (of_char c :: nat)
      in if b = 34 \<or> b = 92 then [CHR 0x5C, c]
         else if b = 8 then [CHR 0x5C, CHR ''b'']
         else if b = 12 then [CHR 0x5C, CHR ''f'']
         else if b = 10 then [CHR 0x5C, CHR ''n'']
         else if b = 13 then [CHR 0x5C, CHR ''r'']
         else if b = 9 then [CHR 0x5C, CHR ''t'']
         else if b < 32 \<or> b = 38 \<or> b = 60 \<or> b = 62
         then [CHR 0x5C, CHR ''u'', CHR ''0'', CHR ''0'', hex_digit (b div 16), hex_digit (b mod 16)]
         else [c])"

definition line_sep :: string where
  "line_sep = [CHR 0xE2, CHR 0x80, CHR 0xA8]"

definition para_sep :: string where
  "para_sep = [CHR 0xE2, CHR 0x80, CHR 0xA9]"

definition escape_rune :: "string \<Rightarrow> string" where
  "escape_rune w =
     (if w = line_sep then CHR 0x5C # ''u2028'' else if w = para_sep then CHR 0x5C # ''u2029'' else w)"

function marshal_chars :: "string \<Rightarrow> string" where
  "marshal_chars s =
     (case s of
        [] \<Rightarrow> []
      | c # cs \<Rightarrow>
          if of_char c < (128 :: nat) then escape_ascii c @ marshal_chars cs
          else if rune_len s = 0 then CHR 0x5C # ''ufffd'' @ marshal_chars cs
          else escape_rune (take (rune_len s) s) @ marshal_chars (drop (rune_len s) s))"
  by pat_completeness auto
termination by (relation "measure length") auto

function valid_utf8 :: "string \<Rightarrow> bool" where
  "valid_utf8 s =
     (case s of
        [] \<Rightarrow> True
      | c # cs \<Rightarrow>
          if of_char c < (128 :: nat) then valid_utf8 cs
          else if rune_len s = 0 then False
          else valid_utf8 (drop (rune_len s) s))"
  by pat_completeness auto
termination by (relation "measure length") auto

declare marshal_chars.simps [simp del] valid_utf8.simps [simp del]

definition marshal_string :: "string \<Rightarrow> string" where
  "marshal_string s = CHR 0x22 # marshal_chars s @ [CHR 0x22]"

text \<open>The reader of an escaped body up to its closing quote.\<close>

definition hex_value :: "char \<Rightarrow> nat" where
  "hex_value c = (let b = of_char c in if b < 58 then b - 48 else b - 87)"

definition read_code :: "string \<Rightarrow> string option" where
  "read_code w =
     (if w = ''2028'' then Some line_sep
      else if w = ''2029'' then Some para_sep
      else if take 2 w = ''00'' then Some [char_of (16 * hex_value (w ! 2) + hex_value (w ! 3))]
      else None)"

definition read_short :: "char \<Rightarrow> string option" where
  "read_short d =
     (if d = CHR 0x22 \<or> d = CHR 0x5C then Some [d]
      else if d = CHR ''b'' then Some [CHR 0x08]
      else if d = CHR ''f'' then Some [CHR 0x0C]
      else if d = CHR ''n'' then Some [CHR 0x0A]
      else if d = CHR ''r'' then Some [CHR 0x0D]
      else if d = CHR ''t'' then Some [CHR 0x09]
      else None)"

definition prepend :: "string option \<Rightarrow> (string \<times> string) option \<Rightarrow> (string \<times> string) option" where
  "prepend w m = Option.bind w (\<lambda>x. map_option (\<lambda>(s, r). (x @ s, r)) m)"

function unescape :: "string \<Rightarrow> (string \<times> string) option" where
  "unescape s =
     (case s of
        [] \<Rightarrow> None
      | c # r \<Rightarrow>
          if c = CHR 0x22 then Some ([], r)
          else if c = CHR 0x5C
          then (case r of
                  [] \<Rightarrow> None
                | d # r' \<Rightarrow>
                    if d = CHR ''u'' then prepend (read_code (take 4 r')) (unescape (drop 4 r'))
                    else prepend (read_short d) (unescape r'))
          else prepend (Some [c]) (unescape r))"
  by pat_completeness auto
termination by (relation "measure length") auto

declare unescape.simps [simp del]

lemma unescape_quote [simp]: "unescape (CHR 0x22 # r) = Some ([], r)"
  by (simp add: unescape.simps)

lemma prepend_append [simp]:
  "prepend (Some x) (prepend (Some y) m) = prepend (Some (x @ y)) m" "prepend (Some []) m = m"
  by (cases m; auto simp: prepend_def)+

lemma hex_value_digit: "n < 16 \<Longrightarrow> hex_value (hex_digit n) = n"
  by (simp add: hex_value_def hex_digit_def of_char_of Let_def)

lemma char_eq_of_char: "c = d \<longleftrightarrow> (of_char c :: nat) = of_char d"
  by (metis char_of_char)

lemma unescape_ascii:
  assumes "of_char c < (128 :: nat)"
  shows "unescape (escape_ascii c @ z) = prepend (Some [c]) (unescape z)"
proof -
  let ?b = "of_char c :: nat"
  have eq: "c = char_of ?b" by simp
  have "16 * (?b div 16) + ?b mod 16 = ?b" by simp
  then have hex: "read_code [CHR ''0'', CHR ''0'', hex_digit (?b div 16), hex_digit (?b mod 16)] = Some [c]"
    using assms by (simp add: read_code_def hex_value_digit)
  have sh: "?b = 8 \<Longrightarrow> c = CHR 0x08" "?b = 12 \<Longrightarrow> c = CHR 0x0C" "?b = 10 \<Longrightarrow> c = CHR 0x0A"
      "?b = 13 \<Longrightarrow> c = CHR 0x0D" "?b = 9 \<Longrightarrow> c = CHR 0x09" "?b = 34 \<longleftrightarrow> c = CHR 0x22"
      "?b = 92 \<longleftrightarrow> c = CHR 0x5C"
    by (simp_all add: char_eq_of_char)
  show ?thesis
    unfolding escape_ascii_def Let_def
    by (subst unescape.simps)
      (use hex sh in \<open>auto simp: read_short_def prepend_def\<close>)
qed

lemma unescape_high:
  "list_all (\<lambda>c. 128 \<le> (of_char c :: nat)) w \<Longrightarrow> unescape (w @ z) = prepend (Some w) (unescape z)"
proof (induction w)
  case (Cons c w)
  have "c \<noteq> CHR 0x22" "c \<noteq> CHR 0x5C" using Cons.prems by auto
  with Cons show ?case by (subst unescape.simps) simp
qed simp

lemma rune_len_le: "rune_len s \<le> length s"
  by (simp add: rune_len_def Let_def)

lemma rune_bytes_high:
  assumes "rune_len s \<noteq> 0"
  shows "list_all (\<lambda>c. 128 \<le> (of_char c :: nat)) (take (rune_len s) s)"
proof -
  have "\<forall>i < rune_len s. 128 \<le> (of_char (s ! i) :: nat)"
    using assms
    by (auto simp: rune_len_def Let_def cont_byte_def less_Suc_eq numeral_eq_Suc split: if_splits)
  then show ?thesis by (simp add: list_all_length)
qed

lemma unescape_rune:
  assumes "rune_len s \<noteq> 0"
  shows "unescape (escape_rune (take (rune_len s) s) @ z) =
    prepend (Some (take (rune_len s) s)) (unescape z)"
proof -
  have esc: "unescape (CHR 0x5C # CHR ''u'' # a # b # c # d # z) =
      prepend (read_code [a, b, c, d]) (unescape z)" for a b c d
    by (subst unescape.simps) simp
  show ?thesis
    using unescape_high [OF rune_bytes_high [OF assms]]
    by (simp add: escape_rune_def esc read_code_def)
qed

lemma unescape_marshal:
  "valid_utf8 s \<Longrightarrow> unescape (marshal_chars s @ CHR 0x22 # r) = Some (s, r)"
proof (induction s rule: valid_utf8.induct)
  case (1 s)
  show ?case
  proof (cases s)
    case Nil
    then show ?thesis by (simp add: marshal_chars.simps)
  next
    case (Cons c cs)
    show ?thesis
    proof (cases "of_char c < (128 :: nat)")
      case True
      then have "unescape (marshal_chars cs @ CHR 0x22 # r) = Some (cs, r)"
        using 1 Cons by (simp add: valid_utf8.simps [of "c # cs"])
      with True Cons show ?thesis
        by (simp add: marshal_chars.simps [of "c # cs"] unescape_ascii prepend_def)
    next
      case False
      with 1(3) Cons have k: "rune_len s \<noteq> 0" "valid_utf8 (drop (rune_len s) s)"
        by (simp_all add: valid_utf8.simps [of "c # cs"] split: if_splits)
      then have "unescape (marshal_chars (drop (rune_len s) s) @ CHR 0x22 # r) = Some (drop (rune_len s) s, r)"
        using 1(2) [OF Cons False] by simp
      with False Cons k show ?thesis
        by (simp add: marshal_chars.simps [of "c # cs"] unescape_rune prepend_def)
    qed
  qed
qed

text \<open>A marshalled string followed by anything is read unambiguously.\<close>

lemma marshal_string_append_inj:
  assumes "valid_utf8 s" "valid_utf8 t" "marshal_string s @ x = marshal_string t @ y"
  shows "s = t \<and> x = y"
proof -
  have "marshal_chars s @ CHR 0x22 # x = marshal_chars t @ CHR 0x22 # y"
    using assms(3) by (simp add: marshal_string_def)
  then have "Some (s, x) = Some (t, y)"
    using unescape_marshal [OF assms(1)] unescape_marshal [OF assms(2)] by metis
  then show ?thesis by simp
qed

lemma valid_utf8_ascii: "list_all (\<lambda>c. of_char c < (128 :: nat)) s \<Longrightarrow> valid_utf8 s"
proof (induction s)
  case Nil
  show ?case by (simp add: valid_utf8.simps [of "[]"])
next
  case (Cons c s)
  then show ?case by (simp add: valid_utf8.simps [of "c # s"])
qed

section \<open>Byte slices\<close>

definition b64_alphabet :: string where
  "b64_alphabet = ''ABCDEFGHIJKLMNOPQRSTUVWXYZabcdefghijklmnopqrstuvwxyz0123456789+/''"

definition b64 :: "nat \<Rightarrow> char" where
  "b64 n = b64_alphabet ! n"

fun base64 :: "bytes \<Rightarrow> string" where
  "base64 (a # b # c # rest) =
     b64 (unat a div 4) # b64 (unat a mod 4 * 16 + unat b div 16) #
     b64 (unat b mod 16 * 4 + unat c div 64) # b64 (unat c mod 64) # base64 rest"
| "base64 [a, b] =
     [b64 (unat a div 4), b64 (unat a mod 4 * 16 + unat b div 16), b64 (unat b mod 16 * 4), CHR ''='']"
| "base64 [a] = [b64 (unat a div 4), b64 (unat a mod 4 * 16), CHR ''='', CHR ''='']"
| "base64 [] = []"

lemma b64_alphabet_length: "length b64_alphabet = 64"
  by (simp add: b64_alphabet_def)

lemma b64_alphabet_distinct: "distinct b64_alphabet"
  by (simp add: b64_alphabet_def)

lemma b64_inj: "m < 64 \<Longrightarrow> n < 64 \<Longrightarrow> b64 m = b64 n \<longleftrightarrow> m = n"
  by (simp add: b64_def nth_eq_iff_index_eq b64_alphabet_distinct b64_alphabet_length)

lemma b64_in: "n < 64 \<Longrightarrow> b64 n \<in> set b64_alphabet"
  by (simp add: b64_def b64_alphabet_length)

lemma b64_not_pad: "n < 64 \<Longrightarrow> b64 n \<noteq> CHR ''=''"
  using b64_in [of n] by (auto simp: b64_alphabet_def)

lemma b64_ascii: "n < 64 \<Longrightarrow> of_char (b64 n) < (128 :: nat)"
proof -
  assume "n < 64"
  then have "b64 n \<in> set b64_alphabet" by (rule b64_in)
  moreover have "\<forall>c \<in> set b64_alphabet. of_char c < (128 :: nat)"
    by (simp add: b64_alphabet_def)
  ultimately show ?thesis by blast
qed

lemma byte_bound: "unat (a :: byte) < 256"
  using unsigned_less [of a, where 'a = nat] by simp

lemma sextets_bound:
  fixes a b c :: byte
  shows "unat a div 4 < 64" "unat a mod 4 * 16 + unat b div 16 < 64"
    "unat b mod 16 * 4 + unat c div 64 < 64" "unat c mod 64 < 64" "unat a mod 4 * 16 < 64"
    "unat b mod 16 * 4 < 64"
  using byte_bound [of a] byte_bound [of b] byte_bound [of c] by linarith+

lemma byte_parts:
  fixes a b :: byte
  shows "unat a div 4 = unat b div 4 \<Longrightarrow> unat a mod 4 = unat b mod 4 \<Longrightarrow> a = b"
    "unat a div 16 = unat b div 16 \<Longrightarrow> unat a mod 16 = unat b mod 16 \<Longrightarrow> a = b"
    "unat a div 64 = unat b div 64 \<Longrightarrow> unat a mod 64 = unat b mod 64 \<Longrightarrow> a = b"
  by (metis div_mod_decomp word_unat_eq_iff)+

lemma mixed_inj:
  fixes a b c d k :: nat
  shows "b < k \<Longrightarrow> d < k \<Longrightarrow> a * k + b = c * k + d \<longleftrightarrow> a = c \<and> b = d"
  by (metis add.commute div_mult_self1 div_less less_nat_zero_code add_cancel_right_left
      mod_less mod_mult_self1 mult.commute)

lemma high_bits:
  fixes a b :: byte
  shows "unat a div 16 < 16" "unat b div 64 < 4"
  using byte_bound [of a] byte_bound [of b] by linarith+

lemma sextet2_inj:
  fixes a a' b b' :: byte
  shows "unat a mod 4 * 16 + unat b div 16 = unat a' mod 4 * 16 + unat b' div 16 \<longleftrightarrow>
    unat a mod 4 = unat a' mod 4 \<and> unat b div 16 = unat b' div 16"
  by (intro mixed_inj high_bits)

lemma sextet3_inj:
  fixes b b' c c' :: byte
  shows "unat b mod 16 * 4 + unat c div 64 = unat b' mod 16 * 4 + unat c' div 64 \<longleftrightarrow>
    unat b mod 16 = unat b' mod 16 \<and> unat c div 64 = unat c' div 64"
  by (intro mixed_inj high_bits)

lemmas b64_simps = b64_inj sextets_bound b64_not_pad b64_not_pad [symmetric] sextet2_inj sextet3_inj

lemma base64_inj: "base64 x = base64 y \<Longrightarrow> x = y"
proof (induction x arbitrary: y rule: base64.induct)
  case (1 a b c rest)
  then show ?case
    by (cases y rule: base64.cases) (auto simp: b64_simps intro: byte_parts)
next
  case (2 a b)
  then show ?case
    by (cases y rule: base64.cases) (auto simp: b64_simps intro: byte_parts)
next
  case (3 a)
  then show ?case
    by (cases y rule: base64.cases) (auto simp: b64_simps intro: byte_parts)
next
  case 4
  then show ?case by (cases y rule: base64.cases) auto
qed

lemma base64_ascii: "list_all (\<lambda>c. of_char c < (128 :: nat)) (base64 x)"
  by (induction x rule: base64.induct) (simp_all add: b64_ascii sextets_bound)

section \<open>Instants\<close>

text \<open>
  \<open>time.Time.MarshalJSON\<close> of an instant in UTC: RFC 3339 with nanoseconds, trailing zeros of the
  fraction dropped, and an error for a year outside 0 to 9999. Days count from the first of
  January of year 0 of the proleptic Gregorian calendar.
\<close>

definition days_before_year :: "nat \<Rightarrow> nat" where
  "days_before_year y = 365 * y + (y + 3) div 4 + (y + 399) div 400 - (y + 99) div 100"

definition is_leap :: "nat \<Rightarrow> bool" where
  "is_leap y \<longleftrightarrow> y mod 4 = 0 \<and> (y mod 100 \<noteq> 0 \<or> y mod 400 = 0)"

definition month_days :: "bool \<Rightarrow> nat list" where
  "month_days leap = [31, if leap then 29 else 28, 31, 30, 31, 30, 31, 31, 30, 31, 30, 31]"

definition days_before_month :: "bool \<Rightarrow> nat \<Rightarrow> nat" where
  "days_before_month leap m = sum_list (take m (month_days leap))"

definition count_while :: "(nat \<Rightarrow> nat) \<Rightarrow> nat \<Rightarrow> nat \<Rightarrow> nat" where
  "count_while f n d = length (takeWhile (\<lambda>i. f (Suc i) \<le> d) [0..<n])"

definition civil_year :: "nat \<Rightarrow> nat" where
  "civil_year d = count_while days_before_year 10000 d"

definition civil_month :: "bool \<Rightarrow> nat \<Rightarrow> nat" where
  "civil_month leap yday = count_while (days_before_month leap) 12 yday"

fun dec :: "nat \<Rightarrow> nat \<Rightarrow> string" where
  "dec 0 n = []"
| "dec (Suc w) n = dec w (n div 10) @ [char_of (48 + n mod 10)]"

definition strip_zeros :: "string \<Rightarrow> string" where
  "strip_zeros s = rev (dropWhile (\<lambda>c. c = CHR ''0'') (rev s))"

definition fraction :: "nat \<Rightarrow> string" where
  "fraction ns = (if ns = 0 then [] else CHR ''.'' # strip_zeros (dec 9 ns))"

definition epoch_days :: int where
  "epoch_days = 719528"

definition rfc3339 :: "nat \<Rightarrow> nat \<Rightarrow> nat \<Rightarrow> string" where
  "rfc3339 d sec ns =
     (let y = civil_year d; yday = d - days_before_year y; leap = is_leap y;
          m = civil_month leap yday; day = yday - days_before_month leap m
      in dec 4 y @ ''-'' @ dec 2 (m + 1) @ ''-'' @ dec 2 (day + 1) @ ''T'' @
         dec 2 (sec div 3600) @ '':'' @ dec 2 (sec div 60 mod 60) @ '':'' @ dec 2 (sec mod 60) @
         fraction ns @ ''Z'')"

text \<open>The day, the second of the day and the nanosecond of an instant.\<close>

definition day_of :: "gotime \<Rightarrow> int" where
  "day_of t = t div 86400000000000 + epoch_days"

definition sec_of :: "gotime \<Rightarrow> nat" where
  "sec_of t = nat (t mod 86400000000000 div 1000000000)"

definition nano_of :: "gotime \<Rightarrow> nat" where
  "nano_of t = nat (t mod 1000000000)"

definition marshal_time :: "gotime \<Rightarrow> string option" where
  "marshal_time t =
     (if day_of t < 0 \<or> day_of t \<ge> int (days_before_year 10000) then None
      else Some (rfc3339 (nat (day_of t)) (sec_of t) (nano_of t)))"

lemma count_while_le: "f 0 = 0 \<Longrightarrow> f (count_while f n d) \<le> d"
proof (cases "count_while f n d")
  case (Suc k)
  then have "k < length (takeWhile (\<lambda>i. f (Suc i) \<le> d) [0..<n])"
    by (simp add: count_while_def)
  then have "f (Suc (takeWhile (\<lambda>i. f (Suc i) \<le> d) [0..<n] ! k)) \<le> d"
    using nth_mem set_takeWhileD by metis
  moreover have "takeWhile (\<lambda>i. f (Suc i) \<le> d) [0..<n] ! k = k"
    using \<open>k < length _\<close> length_takeWhile_le [of "\<lambda>i. f (Suc i) \<le> d" "[0..<n]"]
    by (simp add: takeWhile_nth)
  ultimately show ?thesis using Suc by simp
qed simp

lemma count_while_stop: "d < f n \<Longrightarrow> 0 < n \<Longrightarrow> count_while f n d < n \<and> d < f (Suc (count_while f n d))"
proof -
  assume lt: "d < f n" and n: "0 < n"
  let ?P = "\<lambda>i. f (Suc i) \<le> d"
  have ne: "takeWhile ?P [0..<n] \<noteq> [0..<n]"
  proof
    assume "takeWhile ?P [0..<n] = [0..<n]"
    moreover have "n - 1 \<in> set [0..<n]" using n by simp
    ultimately have "?P (n - 1)" using set_takeWhileD by metis
    with lt n show False by simp
  qed
  then have len: "length (takeWhile ?P [0..<n]) < length [0..<n]"
    by (metis le_neq_implies_less length_takeWhile_le takeWhile_eq_take take_all_iff)
  then have "\<not> ?P ([0..<n] ! length (takeWhile ?P [0..<n]))"
    by (rule nth_length_takeWhile)
  with len show ?thesis by (simp add: count_while_def)
qed

lemma length_dec [simp]: "length (dec w n) = w"
  by (induction w arbitrary: n) auto

lemma digit_inj: "m < 10 \<Longrightarrow> n < 10 \<Longrightarrow> (char_of (48 + m :: nat) :: char) = char_of (48 + n) \<longleftrightarrow> m = n"
  by (simp add: char_eq_of_char of_char_of)

lemma dec_inj: "m < 10 ^ w \<Longrightarrow> n < 10 ^ w \<Longrightarrow> dec w m = dec w n \<longleftrightarrow> m = n"
proof (induction w arbitrary: m n)
  case (Suc w)
  have "m div 10 < 10 ^ w" "n div 10 < 10 ^ w" using Suc.prems by (simp_all add: less_mult_imp_div_less mult.commute)
  with Suc.IH [of "m div 10" "n div 10"] show ?case
    by (auto simp: digit_inj) (metis div_mod_decomp)
qed simp

lemma strip_zeros_inj:
  assumes "length s = length t" "strip_zeros s = strip_zeros t"
  shows "s = t"
proof -
  let ?z = "\<lambda>c. c = CHR ''0''"
  have pad: "rev s = replicate (length s - length (strip_zeros s)) (CHR ''0'') @ rev (strip_zeros s)" for s
  proof -
    have "takeWhile ?z (rev s) = replicate (length (takeWhile ?z (rev s))) (CHR ''0'')"
      by (rule replicate_length_same [symmetric]) (auto dest: set_takeWhileD)
    moreover have "length (takeWhile ?z (rev s)) = length s - length (strip_zeros s)"
    proof -
      have "length (takeWhile ?z (rev s)) + length (dropWhile ?z (rev s)) = length s"
        by (metis length_append length_rev takeWhile_dropWhile_id)
      then show ?thesis by (simp add: strip_zeros_def)
    qed
    ultimately show ?thesis
      using takeWhile_dropWhile_id [of ?z "rev s"] by (simp add: strip_zeros_def)
  qed
  have "rev s = rev t"
    using pad [of s] pad [of t] assms by simp
  then show ?thesis by simp
qed

lemma fraction_inj: "m < 10 ^ 9 \<Longrightarrow> n < 10 ^ 9 \<Longrightarrow> fraction m = fraction n \<Longrightarrow> m = n"
  using strip_zeros_inj [of "dec 9 m" "dec 9 n"] dec_inj [of m 9 n]
  by (auto simp: fraction_def split: if_splits)

text \<open>The calendar fields determine the day.\<close>

lemma days_before_0 [simp]: "days_before_year 0 = 0" "days_before_month leap 0 = 0"
  by (simp_all add: days_before_year_def days_before_month_def)

lemma ceil_div_Suc:
  assumes "0 < k"
  shows "(Suc y + (k - 1)) div k = (y + (k - 1)) div k + (if y mod k = 0 then 1 else 0)"
proof -
  define q r where qr: "q = y div k" "r = y mod k"
  have r: "r < k" and y: "y = r + q * k" using assms by (simp_all add: qr)
  have "(Suc y + (k - 1)) div k = (r + k + q * k) div k" using assms y by (simp add: algebra_simps)
  also have "\<dots> = (r + k) div k + q" using assms by simp
  also have "(r + k) div k = 1" using assms r by (simp add: div_add_self2)
  also have "1 + q = Suc q" by simp
  finally have l: "(Suc y + (k - 1)) div k = Suc q" .
  have shift: "(r + p + q * k) div k = (r + p) div k + q" for p using assms by simp
  have "(y + (k - 1)) div k = (r + (k - 1) + q * k) div k" using y by (simp add: algebra_simps)
  also have "\<dots> = (r + (k - 1)) div k + q" by (rule shift)
  also have "(r + (k - 1)) div k = (if r = 0 then 0 else 1)"
  proof (cases r)
    case (Suc r')
    then have "r + (k - 1) = r' + k" "r' < k" using assms r by auto
    then show ?thesis using Suc assms by (simp add: div_add_self2)
  qed (use assms in simp)
  finally show ?thesis using l by (simp add: qr)
qed

lemma year_sum:
  fixes a b e i j k l w :: nat
  assumes "b \<le> 365 * w" "l + j = 365 + i + k"
  shows "365 * Suc w + (a + i) + (e + k) - (b + j) = 365 * w + a + e - b + l"
proof -
  obtain z where z: "365 * w = b + z" using assms(1) le_Suc_ex by blast
  have "365 * Suc w + (a + i) + (e + k) = (b + z) + a + e + (365 + i + k)"
    unfolding mult_Suc_right z by (simp only: ac_simps)
  also have "\<dots> = (b + j) + (z + a + e + l)"
    unfolding assms(2) [symmetric] by (simp only: ac_simps)
  finally show ?thesis
    unfolding z by (simp only: diff_add_inverse add.assoc)
qed

lemma year_length:
  "days_before_year (Suc y) = days_before_year y + days_before_month (is_leap y) 12"
proof -
  have c: "(Suc y + 3) div 4 = (y + 3) div 4 + (if y mod 4 = 0 then 1 else 0)"
      "(Suc y + 99) div 100 = (y + 99) div 100 + (if y mod 100 = 0 then 1 else 0)"
      "(Suc y + 399) div 400 = (y + 399) div 400 + (if y mod 400 = 0 then 1 else 0)"
    using ceil_div_Suc [of 4 y] ceil_div_Suc [of 100 y] ceil_div_Suc [of 400 y] by simp_all
  have d: "y mod 100 = 0 \<Longrightarrow> y mod 4 = 0" "y mod 400 = 0 \<Longrightarrow> y mod 100 = 0"
    using mod_mod_cancel [of 4 100 y] mod_mod_cancel [of 100 400 y] by simp_all
  have le: "(y + 99) div 100 \<le> 365 * y"
    using div_le_mono [of "y + 99" "100 * y" 100] by (cases y) auto
  have "days_before_month (is_leap y) 12 = (if is_leap y then 366 else 365)"
    by (simp add: days_before_month_def month_days_def)
  also have "\<dots> + (if y mod 100 = 0 then 1 else 0) =
      365 + (if y mod 4 = 0 then 1 else 0) + (if y mod 400 = 0 then 1 else 0)"
    using d by (auto simp: is_leap_def)
  finally have L: "days_before_month (is_leap y) 12 + (if y mod 100 = 0 then 1 else 0) =
      365 + (if y mod 4 = 0 then 1 else 0) + (if y mod 400 = 0 then 1 else 0)" .
  show ?thesis
    unfolding days_before_year_def c by (rule year_sum [OF le L])
qed

lemma length_month_days: "length (month_days leap) = 12"
  by (simp add: month_days_def)

lemma civil_facts:
  assumes "d < days_before_year 10000"
  defines "y \<equiv> civil_year d"
  defines "yday \<equiv> d - days_before_year y"
  defines "m \<equiv> civil_month (is_leap y) yday"
  shows "y < 10000" "m < 12" "yday - days_before_month (is_leap y) m < 31"
    "d = days_before_year y + (days_before_month (is_leap y) m + (yday - days_before_month (is_leap y) m))"
proof -
  have y: "days_before_year y \<le> d" "y < 10000" "d < days_before_year (Suc y)"
    using count_while_le [of days_before_year 10000 d] count_while_stop [of d days_before_year 10000] assms(1)
    by (simp_all add: y_def civil_year_def)
  then have yd: "yday < days_before_month (is_leap y) 12"
    by (simp add: yday_def year_length)
  have m: "days_before_month (is_leap y) m \<le> yday" "m < 12" "yday < days_before_month (is_leap y) (Suc m)"
    using count_while_le [of "days_before_month (is_leap y)" 12 yday] count_while_stop [of yday "days_before_month (is_leap y)" 12] yd
    by (simp_all add: m_def civil_month_def)
  show "y < 10000" "m < 12" by (fact y m)+
  have "days_before_month (is_leap y) (Suc m) = days_before_month (is_leap y) m + month_days (is_leap y) ! m"
    using m(2) by (simp add: days_before_month_def take_Suc_conv_app_nth length_month_days)
  moreover have "\<forall>x \<in> set (month_days (is_leap y)). x \<le> 31" by (simp add: month_days_def)
  then have "month_days (is_leap y) ! m \<le> 31" using m(2) by (metis length_month_days nth_mem)
  ultimately show "yday - days_before_month (is_leap y) m < 31" using m by linarith
  show "d = days_before_year y + (days_before_month (is_leap y) m + (yday - days_before_month (is_leap y) m))"
    using y m by (simp add: yday_def)
qed

lemma date_fields_inj:
  assumes "y < 10000" "y' < 10000" "m < 100" "m' < 100" "e < 100" "e' < 100"
    and "a < 100" "a' < 100" "b < 100" "b' < 100" "c < 100" "c' < 100"
    and "dec 4 y @ ''-'' @ dec 2 m @ ''-'' @ dec 2 e @ ''T'' @ dec 2 a @ '':'' @ dec 2 b @ '':'' @
      dec 2 c @ f @ ''Z'' =
      dec 4 y' @ ''-'' @ dec 2 m' @ ''-'' @ dec 2 e' @ ''T'' @ dec 2 a' @ '':'' @ dec 2 b' @ '':'' @
      dec 2 c' @ f' @ ''Z''"
  shows "y = y' \<and> m = m' \<and> e = e' \<and> a = a' \<and> b = b' \<and> c = c' \<and> f = f'"
  using assms dec_inj [of y 4 y'] dec_inj [of m 2 m'] dec_inj [of e 2 e'] dec_inj [of a 2 a']
    dec_inj [of b 2 b'] dec_inj [of c 2 c'] by simp

lemma sec_fields_inj:
  fixes s t :: nat
  assumes "s div 3600 = t div 3600" "s div 60 mod 60 = t div 60 mod 60" "s mod 60 = t mod 60"
  shows "s = t"
proof -
  have "s div 60 = t div 60"
    using assms(1,2) div_mod_decomp [of "s div 60" 60] div_mod_decomp [of "t div 60" 60]
    by (simp add: div_mult2_eq [symmetric])
  then show ?thesis using assms(3) by (metis div_mod_decomp)
qed

lemma rfc3339_inj:
  assumes "d < days_before_year 10000" "d' < days_before_year 10000" "sec < 86400" "sec' < 86400"
    and "ns < 10 ^ 9" "ns' < 10 ^ 9" and eq: "rfc3339 d sec ns = rfc3339 d' sec' ns'"
  shows "d = d' \<and> sec = sec' \<and> ns = ns'"
proof -
  define y y' where yy: "y = civil_year d" "y' = civil_year d'"
  define m m' where mm: "m = civil_month (is_leap y) (d - days_before_year y)"
      "m' = civil_month (is_leap y') (d' - days_before_year y')"
  define e e' where ee: "e = d - days_before_year y - days_before_month (is_leap y) m"
      "e' = d' - days_before_year y' - days_before_month (is_leap y') m'"
  note c = civil_facts [OF assms(1), folded yy, folded mm, folded ee]
    and c' = civil_facts [OF assms(2), folded yy, folded mm, folded ee]
  have "y = y' \<and> m + 1 = m' + 1 \<and> e + 1 = e' + 1 \<and> sec div 3600 = sec' div 3600 \<and>
      sec div 60 mod 60 = sec' div 60 mod 60 \<and> sec mod 60 = sec' mod 60 \<and> fraction ns = fraction ns'"
    by (rule date_fields_inj [OF _ _ _ _ _ _ _ _ _ _ _ _
          eq [unfolded rfc3339_def Let_def, folded yy, folded mm, folded ee]])
      (use c(1-3) c'(1-3) assms(3,4) in simp_all)
  then show ?thesis
    using c(4) c'(4) sec_fields_inj [of sec sec'] fraction_inj [OF assms(5,6)] by simp
qed

text \<open>Every instant of the years 0 to 9999 is marshalled, and no two alike.\<close>

lemma marshal_time_inj:
  assumes "marshal_time t = Some w" "marshal_time t' = Some w"
  shows "t = t'"
proof -
  have b: "sec_of t < 86400" "nano_of t < 10 ^ 9" for t
    by (simp_all add: sec_of_def nano_of_def nat_less_iff)
  have d: "0 \<le> day_of t" "0 \<le> day_of t'" "nat (day_of t) < days_before_year 10000"
      "nat (day_of t') < days_before_year 10000"
      "rfc3339 (nat (day_of t)) (sec_of t) (nano_of t) = rfc3339 (nat (day_of t')) (sec_of t') (nano_of t')"
    using assms by (auto simp: marshal_time_def nat_less_iff split: if_splits)
  have "nat (day_of t) = nat (day_of t') \<and> sec_of t = sec_of t' \<and> nano_of t = nano_of t'"
    by (rule rfc3339_inj) (use d b in auto)
  then have eq: "t div 86400000000000 = t' div 86400000000000"
      "t mod 86400000000000 div 1000000000 = t' mod 86400000000000 div 1000000000"
      "t mod 1000000000 = t' mod 1000000000"
    using d by (auto simp: day_of_def sec_of_def nano_of_def eq_nat_nat_iff pos_imp_zdiv_nonneg_iff)
  have "t mod 86400000000000 mod 1000000000 = t mod 1000000000" for t :: int
    by (rule mod_mod_cancel) simp
  then have "t mod 86400000000000 = t' mod 86400000000000"
    using eq(2,3) by (metis div_mod_decomp_int)
  with eq(1) show ?thesis by (metis div_mod_decomp_int)
qed

end
