(* ===== verification/Canonical.thy ===== *)
theory Canonical
  imports JsonScalars Errors "HOL-Library.List_Lexorder" "HOL-Library.Char_ord"
begin

text \<open>
  \<open>crypto.CanonicalJSON\<close> (src/internal/shared/crypto/canonical.go), the deterministic byte form under
  every contract's signature and every audit event's hash. A value is marshalled and decoded again
  by \<open>encoding/json\<close> into a tree \<open>jval\<close> (numbers kept as their text), and the tree is written with
  sorted keys. A string field reaches the tree through \<open>sanitize\<close>: the decoder replaces ill-formed
  UTF-8. \<open>F\<close> stands for \<open>strconv\<close>'s float parsing and formatting of a number that is no 64-bit
  integer: the parse error, nothing for a NaN or an infinity, or the shortest \<open>'g'\<close> form.

  The lemmas show that the form is unambiguous: two trees of integers and well-formed strings with
  one form are one tree.
\<close>

datatype jval =
    JNull
  | JBool bool
  | JNum string
  | JStr string
  | JArr "jval list"
  | JObj "(string \<times> jval) list"

type_synonym floats = "string \<Rightarrow> go_error + string option"

function sanitize :: "string \<Rightarrow> string" where
  "sanitize s =
     (case s of
        [] \<Rightarrow> []
      | c # cs \<Rightarrow>
          if of_char c < (128 :: nat) then c # sanitize cs
          else if rune_len s = 0 then [CHR 0xEF, CHR 0xBF, CHR 0xBD] @ sanitize cs
          else take (rune_len s) s @ sanitize (drop (rune_len s) s))"
  by pat_completeness auto
termination by (relation "measure length") auto

declare sanitize.simps [simp del]

text \<open>\<open>json.Number.Int64\<close>: an optional sign, digits, and a value in range.\<close>

definition is_digit :: "char \<Rightarrow> bool" where
  "is_digit c \<longleftrightarrow> 48 \<le> (of_char c :: nat) \<and> of_char c \<le> (57 :: nat)"

definition digits_value :: "string \<Rightarrow> nat" where
  "digits_value ds = foldl (\<lambda>a c. 10 * a + (of_char c - 48)) 0 ds"

definition is_int64 :: "string \<Rightarrow> bool" where
  "is_int64 n =
     (let neg = (n \<noteq> [] \<and> hd n = CHR ''-'');
          ds = (if n \<noteq> [] \<and> (hd n = CHR ''-'' \<or> hd n = CHR ''+'') then tl n else n)
      in ds \<noteq> [] \<and> list_all is_digit ds \<and>
         (if neg then digits_value ds \<le> 2 ^ 63 else digits_value ds < 2 ^ 63))"

fun seqR :: "('e + 'a) list \<Rightarrow> 'e + 'a list" where
  "seqR [] = Inr []"
| "seqR (r # rs) = bindR r (\<lambda>x. bindR (seqR rs) (\<lambda>xs. Inr (x # xs)))"

definition comma_sep :: "string list \<Rightarrow> string" where
  "comma_sep es = (case es of [] \<Rightarrow> [] | e # r \<Rightarrow> e @ concat (map (\<lambda>x. CHR '','' # x) r))"

definition encode_number :: "floats \<Rightarrow> string \<Rightarrow> go_error + string" where
  "encode_number F n =
     (if is_int64 n then Inr n
      else (case F n of
              Inl err \<Rightarrow> Inl (Structural CodeFieldValueInvalid ''crypto: canonical: unparseable number'' (Some err))
            | Inr None \<Rightarrow> Inl (Structural CodeFieldValueInvalid ''crypto: canonical: NaN/Inf disallowed'' None)
            | Inr (Some s) \<Rightarrow> Inr s))"

fun canonicalEncode :: "floats \<Rightarrow> jval \<Rightarrow> go_error + string" where
  "canonicalEncode F JNull = Inr ''null''"
| "canonicalEncode F (JBool b) = Inr (if b then ''true'' else ''false'')"
| "canonicalEncode F (JStr s) = Inr (marshal_string s)"
| "canonicalEncode F (JNum n) = encode_number F n"
| "canonicalEncode F (JArr xs) =
     bindR (seqR (map (canonicalEncode F) xs)) (\<lambda>es. Inr (''['' @ comma_sep es @ '']''))"
| "canonicalEncode F (JObj kvs) =
     bindR (seqR (map (\<lambda>(k, r). bindR r (\<lambda>e. Inr (marshal_string k @ '':'' @ e)))
                   (sort_key fst (map (\<lambda>(k, v). (k, canonicalEncode F v)) kvs))))
       (\<lambda>es. Inr (CHR 0x7B # comma_sep es @ [CHR 0x7D]))"

definition CanonicalJSON :: "floats \<Rightarrow> go_error + jval \<Rightarrow> go_error + bytes" where
  "CanonicalJSON F marshalled =
     (case marshalled of
        Inl err \<Rightarrow> Inl (Structural CodeFieldValueInvalid
          ''crypto: canonical: intermediate marshal failed'' (Some err))
      | Inr tree \<Rightarrow> bindR (canonicalEncode F tree) (\<lambda>s. Inr (string_bytes s)))"

section \<open>The trees with an unambiguous form\<close>

text \<open>Integers, well-formed strings, and objects with strictly increasing keys.\<close>

fun canon_tree :: "jval \<Rightarrow> bool" where
  "canon_tree JNull = True"
| "canon_tree (JBool b) = True"
| "canon_tree (JStr s) = valid_utf8 s"
| "canon_tree (JNum n) = is_int64 n"
| "canon_tree (JArr xs) = list_all canon_tree xs"
| "canon_tree (JObj kvs) =
     (sorted (map fst kvs) \<and> distinct (map fst kvs) \<and>
      list_all (\<lambda>(k, v). valid_utf8 k \<and> canon_tree v) kvs)"

text \<open>What the encoder writes for such a tree.\<close>

fun enc :: "jval \<Rightarrow> string" where
  "enc JNull = ''null''"
| "enc (JBool b) = (if b then ''true'' else ''false'')"
| "enc (JStr s) = marshal_string s"
| "enc (JNum n) = n"
| "enc (JArr xs) = ''['' @ comma_sep (map enc xs) @ '']''"
| "enc (JObj kvs) =
     CHR 0x7B # comma_sep (map (\<lambda>(k, v). marshal_string k @ '':'' @ enc v) kvs) @ [CHR 0x7D]"

lemma sanitize_valid: "valid_utf8 s \<Longrightarrow> sanitize s = s"
proof (induction s rule: valid_utf8.induct)
  case (1 s)
  show ?case
  proof (cases s)
    case (Cons c cs)
    then show ?thesis
      using 1 by (simp add: sanitize.simps [of "c # cs"] valid_utf8.simps [of "c # cs"] split: if_splits)
  qed (simp add: sanitize.simps)
qed

lemma seqR_Inr: "seqR (map Inr xs) = Inr xs"
  by (induction xs) auto

lemma sort_key_sorted_id: "sorted (map f xs) \<Longrightarrow> sort_key f xs = xs"
  by (induction xs) (auto simp: insort_is_Cons)

lemma canonicalEncode_enc: "canon_tree t \<Longrightarrow> canonicalEncode F t = Inr (enc t)"
proof (induction t)
  case (JNum n)
  then show ?case by (simp add: encode_number_def)
next
  case (JArr xs)
  then have "map (canonicalEncode F) xs = map Inr (map enc xs)"
    by (auto simp: list_all_iff)
  then show ?case by (simp add: seqR_Inr del: map_map)
next
  case (JObj kvs)
  let ?m = "map (\<lambda>(k, v). (k, canonicalEncode F v)) kvs"
  have eq: "?m = map (\<lambda>(k, v). (k, Inr (enc v))) kvs"
    using JObj by (fastforce simp: list_all_iff)
  have "map fst ?m = map fst kvs" by auto
  then have "sort_key fst ?m = ?m"
    using JObj.prems by (intro sort_key_sorted_id) (simp only: canon_tree.simps)
  then have "map (\<lambda>(k, r). bindR r (\<lambda>e. Inr (marshal_string k @ '':'' @ e))) (sort_key fst ?m) =
      map Inr (map (\<lambda>(k, v). marshal_string k @ '':'' @ enc v) kvs)"
    unfolding eq by auto
  then show ?case by (simp add: seqR_Inr del: map_map)
qed auto

section \<open>The form is unambiguous\<close>

definition delim :: "string \<Rightarrow> bool" where
  "delim x \<longleftrightarrow> x = [] \<or> hd x \<in> {CHR '','', CHR '']'', CHR 0x7D}"

definition number_char :: "char \<Rightarrow> bool" where
  "number_char c \<longleftrightarrow> is_digit c \<or> c = CHR ''-'' \<or> c = CHR ''+''"

lemma is_int64_chars: "is_int64 n \<Longrightarrow> n \<noteq> [] \<and> list_all number_char n"
  by (cases n) (auto simp: is_int64_def Let_def number_char_def list_all_iff split: if_splits)

lemma number_delim_inj:
  assumes "is_int64 m" "is_int64 n" "m @ x = n @ y" "delim x" "delim y"
  shows "m = n \<and> x = y"
proof -
  have stop: "takeWhile number_char x = []" if "delim x" for x
    using that by (cases x) (auto simp: delim_def number_char_def is_digit_def)
  have "takeWhile number_char (k @ z) = k" if "is_int64 k" "delim z" for k z
    using is_int64_chars [OF that(1)] stop [OF that(2)]
    by (simp add: takeWhile_append2 list_all_iff)
  then have "m = n" using assms by metis
  with assms(3) show ?thesis by simp
qed

text \<open>A number is told from every other value by its first character.\<close>

lemma number_not_other:
  assumes "is_int64 n" "c \<in> {CHR ''n'', CHR ''t'', CHR ''f'', CHR 0x22, CHR ''['', CHR 0x7B, CHR '']'', CHR 0x7D, CHR '',''}"
  shows "n @ x \<noteq> c # y" "c # y \<noteq> n @ x"
  using is_int64_chars [OF assms(1)] assms(2)
  by (cases n; auto simp: number_char_def is_digit_def)+

lemma enc_not_close:
  assumes "canon_tree t"
  shows "enc t @ x \<noteq> CHR '']'' # y" "CHR '']'' # y \<noteq> enc t @ x"
  using assms number_not_other [of _ "CHR '']''"]
  by (cases t; auto simp: marshal_string_def)+

text \<open>
  One list of comma-separated items against another, when the items themselves are unambiguous:
  both end at the closing bracket.
\<close>

lemma comma_tail_inj:
  assumes item: "\<And>t u x y. t \<in> set ts \<Longrightarrow> ok u \<Longrightarrow> delim x \<Longrightarrow> delim y \<Longrightarrow> f t @ x = f u @ y \<Longrightarrow> t = u \<and> x = y"
    and "list_all ok us" and c: "c = CHR '']'' \<or> c = CHR 0x7D"
    and "concat (map (\<lambda>t. CHR '','' # f t) ts) @ c # x = concat (map (\<lambda>t. CHR '','' # f t) us) @ c # y"
  shows "ts = us \<and> x = y"
  using assms(1,2,4)
proof (induction ts arbitrary: us)
  case Nil
  then show ?case using c by (cases us) auto
next
  case (Cons t ts)
  let ?more = "\<lambda>ts x. concat (map (\<lambda>t. CHR '','' # f t) ts) @ c # x"
  have d: "delim (?more ts x)" for ts x
    using c by (cases ts) (auto simp: delim_def)
  obtain u us' where us: "us = u # us'" using Cons.prems(3) c by (cases us) auto
  have "t = u \<and> ?more ts x = ?more us' y"
    using Cons.prems us d by (intro Cons.prems(1)) auto
  with Cons.IH [of us'] Cons.prems us show ?case by auto
qed

lemma comma_sep_inj:
  assumes item: "\<And>t u x y. t \<in> set ts \<Longrightarrow> ok u \<Longrightarrow> delim x \<Longrightarrow> delim y \<Longrightarrow> f t @ x = f u @ y \<Longrightarrow> t = u \<and> x = y"
    and "list_all ok us" and c: "c = CHR '']'' \<or> c = CHR 0x7D"
    and start: "\<And>t x y. t \<in> set ts \<or> ok t \<Longrightarrow> f t @ x \<noteq> c # y"
    and eq: "comma_sep (map f ts) @ c # x = comma_sep (map f us) @ c # y"
  shows "ts = us \<and> x = y"
proof -
  let ?more = "\<lambda>ts x. concat (map (\<lambda>t. CHR '','' # f t) ts) @ c # x"
  have d: "delim (?more ts x)" for ts x
    using c by (cases ts) (auto simp: delim_def)
  have m: "concat (map (\<lambda>x. CHR '','' # x) (map f zs)) = concat (map (\<lambda>t. CHR '','' # f t) zs)" for zs
    by (simp add: comp_def)
  show ?thesis
  proof (cases ts)
    case Nil
    then show ?thesis
      using eq start assms(2) by (cases us) (auto simp: comma_sep_def dest: sym)
  next
    case (Cons t ts')
    then obtain u us' where us: "us = u # us'"
      using eq start by (cases us) (auto simp: comma_sep_def)
    have "f t @ ?more ts' x = f u @ ?more us' y"
      using eq Cons us unfolding comma_sep_def by (simp add: comp_def)
    then have tu: "t = u \<and> ?more ts' x = ?more us' y"
      using Cons us d assms(2) by (intro item) auto
    have "ts' = us' \<and> x = y"
      by (rule comma_tail_inj [where ok = ok, OF _ _ c conjunct2 [OF tu]]) (use Cons us item assms(2) in auto)
    with tu Cons us show ?thesis by simp
  qed
qed

lemma enc_inj:
  "canon_tree t \<Longrightarrow> canon_tree u \<Longrightarrow> delim x \<Longrightarrow> delim y \<Longrightarrow> enc t @ x = enc u @ y \<Longrightarrow> t = u \<and> x = y"
proof (induction t arbitrary: u x y)
  case JNull
  then show ?case using number_not_other by (cases u) (auto simp: marshal_string_def split: if_splits)
next
  case (JBool b)
  then show ?case using number_not_other by (cases u) (auto simp: marshal_string_def split: if_splits)
next
  case (JNum n)
  then obtain m where u: "u = JNum m"
    using number_not_other [of n] by (cases u) (auto simp: marshal_string_def split: if_splits)
  with JNum number_delim_inj [of n m x y] show ?case by simp
next
  case (JStr s)
  then obtain t where u: "u = JStr t"
    using number_not_other by (cases u) (auto simp: marshal_string_def split: if_splits)
  with JStr marshal_string_append_inj [of s t x y] show ?case by simp
next
  case (JArr xs)
  then obtain ys where u: "u = JArr ys"
    using number_not_other by (cases u) (auto simp: marshal_string_def split: if_splits)
  have "xs = ys \<and> x = y"
  proof (rule comma_sep_inj [where f = enc and ok = canon_tree and c = "CHR '']''"])
    show "comma_sep (map enc xs) @ CHR '']'' # x = comma_sep (map enc ys) @ CHR '']'' # y"
      using JArr.prems u by simp
    show "list_all canon_tree ys" using JArr.prems u by simp
  qed (use JArr enc_not_close in \<open>auto simp: list_all_iff\<close>)
  with u show ?case by simp
next
  case (JObj kvs)
  then obtain lvs where u: "u = JObj lvs"
    using number_not_other by (cases u) (auto simp: marshal_string_def split: if_splits)
  let ?f = "\<lambda>(k, v). marshal_string k @ '':'' @ enc v"
  let ?ok = "\<lambda>(k, v). valid_utf8 k \<and> canon_tree v"
  have "kvs = lvs \<and> x = y"
  proof (rule comma_sep_inj [where f = ?f and ok = ?ok and c = "CHR 0x7D"])
    show "comma_sep (map ?f kvs) @ CHR 0x7D # x = comma_sep (map ?f lvs) @ CHR 0x7D # y"
      using JObj.prems u by simp
    show "list_all ?ok lvs" using JObj.prems u by simp
    fix t u x y
    show "t \<in> set kvs \<or> ?ok t \<Longrightarrow> ?f t @ x \<noteq> CHR 0x7D # y"
      by (cases t) (auto simp: marshal_string_def)
    assume a: "t \<in> set kvs" "?ok u" "delim x" "delim y" "?f t @ x = ?f u @ y"
    obtain k v l w where tu: "t = (k, v)" "u = (l, w)" by fastforce
    have "?ok t" using a(1) JObj.prems(1) by (auto simp: list_all_iff)
    then have "k = l \<and> '':'' @ enc v @ x = '':'' @ enc w @ y"
      using a tu by (intro marshal_string_append_inj) auto
    with a tu JObj.IH [of t v w x y] \<open>?ok t\<close> show "t = u \<and> x = y" by auto
  qed simp
  with u show ?case by simp
qed

lemma canonicalEncode_inj:
  assumes "canon_tree t" "canon_tree u" "canonicalEncode F t = canonicalEncode F u"
  shows "t = u"
  using enc_inj [OF assms(1,2), of "[]" "[]"] assms(3)
  by (simp add: canonicalEncode_enc assms(1,2) delim_def)

text \<open>C37: The canonical form is total and unambiguous on trees of 64-bit signed integers, well-formed
  UTF-8 strings, booleans, nulls, arrays and objects with ordered keys: every such tree is encoded
  without an error, and two trees with one form are one tree. An integer outside that range goes
  through float formatting, where two of them can share a form.\<close>

theorem CanonicalJSON_unambiguous:
  assumes "canon_tree t" "canon_tree u"
  shows "\<exists>b. CanonicalJSON F (Inr t) = Inr b \<and> (CanonicalJSON F (Inr u) = Inr b \<longrightarrow> t = u)"
  using canonicalEncode_inj [OF assms, of F] assms
  by (auto simp: CanonicalJSON_def canonicalEncode_enc)

theorem CanonicalJSON_unambiguous_witness:
  "\<exists>b. CanonicalJSON (\<lambda>n. Inr None) (Inr (JObj [(''a'', JNum ''-7''), (''b'', JArr [JNull, JStr ''x''])])) = Inr b \<and>
     (CanonicalJSON (\<lambda>n. Inr None) (Inr (JArr [JBool True])) = Inr b \<longrightarrow>
      JObj [(''a'', JNum ''-7''), (''b'', JArr [JNull, JStr ''x''])] = JArr [JBool True])"
proof -
  have "valid_utf8 ''a''" "valid_utf8 ''b''" "valid_utf8 ''x''"
    by (intro valid_utf8_ascii; simp)+
  moreover have "is_int64 ''-7''"
    by (simp add: is_int64_def Let_def is_digit_def digits_value_def)
  ultimately show ?thesis
    by (intro CanonicalJSON_unambiguous) simp_all
qed

end
