(* ===== verification/Wire.thy ===== *)
theory Wire
  imports Canonical
begin

text \<open>
  How \<open>encoding/json\<close> writes the fields of a contract struct, before the canonical form sorts them:
  text, text under \<open>omitempty\<close>, byte slices in base64 (a nil slice is null; an empty one is taken to
  be nil), unsigned and signed integers, booleans, instants in UTC, lists of identifiers (an empty list is
  taken to be nil), and nested values that their owner encodes (absent under \<open>omitempty\<close>). A struct is the list of its wire fields by key.

  The lemmas show that the object fixes the struct: two lists of well-formed fields of one shape
  with the same object are one list.
\<close>

definition omitempty :: "string \<Rightarrow> string \<Rightarrow> (string \<times> jval) list" where
  "omitempty k s = (if s = [] then [] else [(k, JStr (sanitize s))])"

definition fmt_int :: "int \<Rightarrow> string" where
  "fmt_int i = (if i < 0 then CHR ''-'' # fmt_d (nat (- i)) else fmt_d (nat i))"

definition json_bytes :: "bytes \<Rightarrow> jval" where
  "json_bytes b = (if b = [] then JNull else JStr (base64 b))"

text \<open>A tree whose strings are still the program's: ill-formed UTF-8 is replaced on the way out.\<close>

fun sanitize_tree :: "jval \<Rightarrow> jval" where
  "sanitize_tree (JStr s) = JStr (sanitize s)"
| "sanitize_tree (JArr xs) = JArr (map sanitize_tree xs)"
| "sanitize_tree (JObj kvs) = JObj (map (\<lambda>(k, v). (sanitize k, sanitize_tree v)) kvs)"
| "sanitize_tree v = v"

datatype wire =
    WStr string
  | WOpt string
  | WBytes bytes
  | WNum nat
  | WInt int
  | WBool bool
  | WTime gotime
  | WStrs "string list"
  | WTree "go_error + jval option"

fun wire_val :: "wire \<Rightarrow> go_error + jval option" where
  "wire_val (WStr s) = Inr (Some (JStr (sanitize s)))"
| "wire_val (WOpt s) = Inr (if s = [] then None else Some (JStr (sanitize s)))"
| "wire_val (WBytes b) = Inr (Some (json_bytes b))"
| "wire_val (WNum n) = Inr (Some (JNum (fmt_d n)))"
| "wire_val (WInt i) = Inr (Some (JNum (fmt_int i)))"
| "wire_val (WBool b) = Inr (Some (JBool b))"
| "wire_val (WTime t) =
     (case marshal_time t of
        None \<Rightarrow> Inl (PlainError ''json: Time.MarshalJSON: year outside of range [0,9999]'' None)
      | Some w \<Rightarrow> Inr (Some (JStr w)))"
| "wire_val (WStrs xs) = Inr (Some (if xs = [] then JNull else JArr (map (\<lambda>s. JStr (sanitize s)) xs)))"
| "wire_val (WTree v) = bindR v (\<lambda>j. Inr (map_option sanitize_tree j))"

fun wire_fields :: "(string \<times> wire) list \<Rightarrow> go_error + (string \<times> jval) list" where
  "wire_fields [] = Inr []"
| "wire_fields ((k, w) # ws) =
     bindR (wire_val w) (\<lambda>v. bindR (wire_fields ws)
       (\<lambda>r. Inr (case v of None \<Rightarrow> r | Some j \<Rightarrow> (k, j) # r)))"

definition marshal_wire :: "(string \<times> wire) list \<Rightarrow> go_error + jval" where
  "marshal_wire ws = bindR (wire_fields ws) (\<lambda>kvs. Inr (JObj kvs))"

section \<open>Scalars\<close>

lemma digits_acc_append: "digits_acc n acc = digits_acc n [] @ acc"
proof (induction n arbitrary: acc rule: less_induct)
  case (less n)
  show ?case
  proof (cases "n < 10")
    case False
    then have step: "digits_acc n z = digits_acc (n div 10) [] @ char_of (48 + n mod 10) # z" for z
      using less.IH [of "n div 10" "char_of (48 + n mod 10) # z"]
      by (simp add: digits_acc.simps [of n z] Let_def)
    show ?thesis using step [of acc] step [of "[]"] by simp
  qed (simp add: digits_acc.simps [of n] Let_def)
qed

lemma fmt_d_snoc:
  "fmt_d n = (if n < 10 then [] else fmt_d (n div 10)) @ [char_of (48 + n mod 10)]"
proof (cases "n < 10")
  case False
  then have "fmt_d n = digits_acc (n div 10) [char_of (48 + n mod 10)]"
    by (simp add: fmt_d_def digits_acc.simps [of n "[]"] Let_def)
  also have "\<dots> = fmt_d (n div 10) @ [char_of (48 + n mod 10)]"
    unfolding fmt_d_def by (rule digits_acc_append)
  finally show ?thesis using False by simp
qed (simp add: fmt_d_def digits_acc.simps [of n "[]"] Let_def)

lemma digit_char: "n < 10 \<Longrightarrow> is_digit (char_of (48 + n :: nat))" "n < 10 \<Longrightarrow> of_char (char_of (48 + n :: nat) :: char) = 48 + n"
  by (simp_all add: is_digit_def of_char_of)

lemma fmt_d_digits: "list_all is_digit (fmt_d n) \<and> fmt_d n \<noteq> [] \<and> digits_value (fmt_d n) = n"
proof (induction n rule: less_induct)
  case (less n)
  then show ?case
    by (subst (1 2 3) fmt_d_snoc) (auto simp: digits_value_def digit_char)
qed

lemma fmt_d_inj: "fmt_d m = fmt_d n \<Longrightarrow> m = n"
  using fmt_d_digits by metis

lemma fmt_d_int64: "n < 2 ^ 63 \<Longrightarrow> is_int64 (fmt_d n)"
  using fmt_d_digits [of n]
  by (cases "fmt_d n") (auto simp: is_int64_def Let_def is_digit_def)

lemma fmt_d_no_sign: "fmt_d n \<noteq> CHR ''-'' # w"
  using fmt_d_digits [of n] by (auto simp: is_digit_def)

lemma fmt_int_inj: "fmt_int i = fmt_int j \<Longrightarrow> i = j"
  using fmt_d_no_sign fmt_d_no_sign [THEN not_sym]
  by (auto simp: fmt_int_def nat_eq_iff2 dest!: fmt_d_inj split: if_splits)

lemma fmt_int_int64: "- (2 ^ 63) \<le> i \<Longrightarrow> i < 2 ^ 63 \<Longrightarrow> is_int64 (fmt_int i)"
  using fmt_d_int64 [of "nat i"] fmt_d_digits [of "nat (- i)"]
  by (auto simp: fmt_int_def is_int64_def [of "CHR ''-'' # _"] Let_def nat_less_iff nat_le_iff)

lemma sanitize_Nil [simp]: "sanitize [] = []"
  by (simp add: sanitize.simps)

lemma sanitize_tree_canon: "canon_tree j \<Longrightarrow> sanitize_tree j = j"
proof (induction j)
  case (JObj kvs)
  then have "map (\<lambda>(k, v). (sanitize k, sanitize_tree v)) kvs = map id kvs"
    by (intro map_cong) (fastforce simp: list_all_iff sanitize_valid)+
  then show ?case by simp
qed (auto simp: sanitize_valid list_all_iff intro: map_idI)

lemma canon_json_bytes: "canon_tree (json_bytes b)"
  by (simp add: json_bytes_def valid_utf8_ascii base64_ascii)

lemma json_bytes_inj: "json_bytes a = json_bytes b \<longleftrightarrow> a = b"
proof -
  have "base64 a \<noteq> []" if "a \<noteq> []" for a using that by (cases a rule: base64.cases) auto
  then show ?thesis using base64_inj by (auto simp: json_bytes_def)
qed

lemma digit_ascii: "n < 10 \<Longrightarrow> of_char (char_of (48 + n :: nat) :: char) < (128 :: nat)"
  by (simp add: of_char_of)

lemma dec_ascii: "list_all (\<lambda>c. of_char c < (128 :: nat)) (dec w n)"
  by (induction w arbitrary: n) (auto simp: digit_ascii)

lemma fraction_ascii: "list_all (\<lambda>c. of_char c < (128 :: nat)) (fraction ns)"
  using dec_ascii [of 9 ns]
  by (auto simp: fraction_def strip_zeros_def list_all_iff dest!: set_dropWhileD)

lemma marshal_time_ascii:
  "marshal_time t = Some w \<Longrightarrow> list_all (\<lambda>c. of_char c < (128 :: nat)) w"
  by (auto simp: marshal_time_def rfc3339_def Let_def dec_ascii fraction_ascii split: if_splits)

section \<open>Objects\<close>

fun wire_ok :: "wire \<Rightarrow> bool" where
  "wire_ok (WStr s) = valid_utf8 s"
| "wire_ok (WOpt s) = valid_utf8 s"
| "wire_ok (WNum n) = (n < 2 ^ 63)"
| "wire_ok (WInt i) = (- (2 ^ 63) \<le> i \<and> i < 2 ^ 63)"
| "wire_ok (WStrs xs) = list_all valid_utf8 xs"
| "wire_ok (WTree v) = (case v of Inr (Some j) \<Rightarrow> canon_tree j | _ \<Rightarrow> True)"
| "wire_ok w = True"

fun wire_kind :: "wire \<Rightarrow> nat" where
  "wire_kind (WStr s) = 0"
| "wire_kind (WOpt s) = 1"
| "wire_kind (WBytes b) = 2"
| "wire_kind (WNum n) = 3"
| "wire_kind (WBool b) = 4"
| "wire_kind (WTime t) = 5"
| "wire_kind (WStrs xs) = 6"
| "wire_kind (WInt i) = 7"
| "wire_kind (WTree v) = 8"

definition shape :: "(string \<times> wire) list \<Rightarrow> (string \<times> nat) list" where
  "shape ws = map (\<lambda>(k, w). (k, wire_kind w)) ws"

definition fields_ok :: "(string \<times> wire) list \<Rightarrow> bool" where
  "fields_ok ws \<longleftrightarrow> list_all (\<lambda>(k, w). wire_ok w) ws"

text \<open>Every instant lies in the years JSON can write.\<close>

fun wire_in_years :: "wire \<Rightarrow> bool" where
  "wire_in_years (WTime t) = (marshal_time t \<noteq> None)"
| "wire_in_years (WTree v) = (case v of Inl err \<Rightarrow> False | Inr j \<Rightarrow> True)"
| "wire_in_years w = True"

definition in_years :: "(string \<times> wire) list \<Rightarrow> bool" where
  "in_years ws \<longleftrightarrow> list_all (\<lambda>(k, w). wire_in_years w) ws"

lemma sanitized_map: "list_all valid_utf8 xs \<Longrightarrow> map (\<lambda>s. JStr (sanitize s)) xs = map JStr xs"
  by (simp add: list_all_iff sanitize_valid)

lemma map_JStr_inj: "map JStr xs = map JStr ys \<Longrightarrow> xs = ys"
  by (rule map_injective) (auto simp: inj_def)

lemma wire_val_inj:
  assumes "wire_kind v = wire_kind w" "wire_ok v" "wire_ok w" "wire_val v = Inr x" "wire_val w = Inr x"
  shows "v = w"
  using assms
  by (cases v; cases w)
    (auto simp: sanitize_valid json_bytes_inj sanitized_map sanitize_tree_canon simp del: list.map
      dest: fmt_d_inj fmt_int_inj map_JStr_inj marshal_time_inj split: option.splits if_splits)

lemma wire_val_canon: "wire_ok w \<Longrightarrow> wire_val w = Inr (Some j) \<Longrightarrow> canon_tree j"
  by (cases w) (auto simp: sanitize_valid sanitize_tree_canon canon_json_bytes fmt_d_int64 fmt_int_int64 list_all_iff
      valid_utf8_ascii [OF marshal_time_ascii] split: option.splits if_splits)

lemma wire_fields_keys:
  "wire_fields ws = Inr kvs \<Longrightarrow> set (map fst kvs) \<subseteq> set (map fst ws)"
proof (induction ws arbitrary: kvs rule: wire_fields.induct)
  case (2 k w ws)
  then obtain v r where "wire_fields ws = Inr r" "kvs = (case v of None \<Rightarrow> r | Some j \<Rightarrow> (k, j) # r)"
      "set (map fst r) \<subseteq> set (map fst ws)"
    by (auto simp del: set_map)
  then show ?case by (cases v) auto
qed simp

lemma wire_fields_sorted:
  "wire_fields ws = Inr kvs \<Longrightarrow> sorted (map fst ws) \<Longrightarrow> distinct (map fst ws) \<Longrightarrow>
   sorted (map fst kvs) \<and> distinct (map fst kvs)"
proof (induction ws arbitrary: kvs rule: wire_fields.induct)
  case (2 k w ws)
  then obtain v r where r: "wire_fields ws = Inr r" "kvs = (case v of None \<Rightarrow> r | Some j \<Rightarrow> (k, j) # r)"
    by auto
  have "sorted (map fst r) \<and> distinct (map fst r)" using 2 r by auto
  moreover have "k \<le> x" "k \<noteq> x" if "x \<in> set (map fst r)" for x
    using subsetD [OF wire_fields_keys [OF r(1)] that] "2.prems"(2,3) by auto
  ultimately show ?case using r(2) by (cases v) auto
qed simp

lemma wire_fields_canon:
  "wire_fields ws = Inr kvs \<Longrightarrow> fields_ok ws \<Longrightarrow> list_all valid_utf8 (map fst ws) \<Longrightarrow>
   list_all (\<lambda>(k, v). valid_utf8 k \<and> canon_tree v) kvs"
  by (induction ws arbitrary: kvs rule: wire_fields.induct)
    (auto simp: fields_ok_def wire_val_canon split: option.splits)

lemma marshal_wire_canon:
  assumes "marshal_wire ws = Inr t" "fields_ok ws" "sorted (map fst ws)" "distinct (map fst ws)"
    "list_all valid_utf8 (map fst ws)"
  shows "canon_tree t"
  using assms wire_fields_sorted wire_fields_canon by (auto simp: marshal_wire_def)

lemma wire_fields_inj:
  assumes "shape vs = shape ws" "distinct (map fst vs)" "fields_ok vs" "fields_ok ws"
    "wire_fields vs = Inr kvs" "wire_fields ws = Inr kvs"
  shows "vs = ws"
proof -
  have "length vs = length ws" using assms(1) by (metis length_map shape_def)
  then show ?thesis using assms
  proof (induction vs ws arbitrary: kvs rule: list_induct2)
    case (Cons kv vs lw ws)
    obtain k v w where kw: "kv = (k, v)" "lw = (k, w)" "wire_kind v = wire_kind w"
      using Cons.prems(1) by (cases kv; cases lw) (auto simp: shape_def)
    obtain x y r r' where r: "wire_val v = Inr x" "wire_val w = Inr y" "wire_fields vs = Inr r"
        "wire_fields ws = Inr r'" "kvs = (case x of None \<Rightarrow> r | Some j \<Rightarrow> (k, j) # r)"
        "kvs = (case y of None \<Rightarrow> r' | Some j \<Rightarrow> (k, j) # r')"
      using Cons.prems(5,6) kw by auto
    have keys: "map fst ws = map fst vs"
      using Cons.prems(1) kw by (auto simp: shape_def dest!: arg_cong [where f = "map fst"] simp: comp_def case_prod_beta)
    have "k \<notin> fst ` set r" "k \<notin> fst ` set r'"
      using wire_fields_keys [OF r(3)] wire_fields_keys [OF r(4)] Cons.prems(2) kw keys by auto
    then have "x = y \<and> r = r'" using r(5,6) by (cases x; cases y) force+
    moreover from this have "v = w" using wire_val_inj [OF kw(3)] r Cons.prems(3,4) kw by (auto simp: fields_ok_def)
    ultimately show ?case using Cons r kw by (auto simp: shape_def fields_ok_def)
  qed simp
qed

lemma wire_val_total: "wire_in_years w \<Longrightarrow> \<exists>x. wire_val w = Inr x"
  by (cases w) (auto split: sum.splits)

lemma wire_fields_total: "in_years ws \<Longrightarrow> \<exists>kvs. wire_fields ws = Inr kvs"
proof (induction ws rule: wire_fields.induct)
  case (2 k w ws)
  from 2(2) have "in_years ws" "\<exists>x. wire_val w = Inr x"
    using wire_val_total [of w] by (auto simp: in_years_def)
  then obtain x kvs where x: "wire_val w = Inr x" "wire_fields ws = Inr kvs" using 2 by blast
  then show ?case by simp
qed simp

lemma wire_fields_in_years: "wire_fields ws = Inr kvs \<Longrightarrow> in_years ws"
proof (induction ws arbitrary: kvs rule: wire_fields.induct)
  case (2 k w ws)
  have "wire_in_years w" if "wire_val w = Inr x" for x
    using that by (cases w) (auto split: option.splits)
  with 2 show ?case by (auto simp: in_years_def)
qed (simp add: in_years_def)

end
