(* ===== verification/AuditEvent.thy ===== *)
theory AuditEvent
  imports Wire KeyStore Sha256
begin

text \<open>
  The audit event contract (src/internal/contracts/audit_event): the record, its static gate
  (validator.go), the bytes its hash is taken over (audit_event_json.go), and the two-stage sealing
  and checking (audit_event_sign.go): the hash covers the canonical form with hash and signature
  cleared, the signature covers the hash, under \<open>PurposeSigningAudit\<close>.

  An instant is marshalled in UTC. A nil slice is marshalled as null; a payload that is empty is
  taken to be nil, and the gate refuses it either way.
\<close>

record AuditEvent =
  AE_SchemaVersion :: u16
  AE_EventID :: string
  AE_Kind :: string
  AE_OccurredAt :: gotime
  AE_SessionID :: string
  AE_ManifestID :: string
  AE_RequestID :: string
  AE_Payload :: bytes
  AE_PrevHash :: bytes
  AE_Hash :: bytes
  AE_SigningKeyID :: KeyID
  AE_Alg :: SignatureSuite
  AE_Signature :: bytes

definition audit_SchemaVersionMin :: u16 where
  "audit_SchemaVersionMin = 1"

definition audit_SchemaVersionMax :: u16 where
  "audit_SchemaVersionMax = 9"

definition validKinds :: "string list" where
  "validKinds =
     [''REQUEST_RECEIVED'', ''TRUST_EVALUATED'', ''SESSION_ISSUED'', ''SESSION_INVALIDATED'',
      ''DISCLOSURE_AUTHORIZED'', ''MANIFEST_ISSUED'', ''CANDIDATE_RECEIVED'', ''VALIDATION_STARTED'',
      ''VALIDATION_DIMENSION_EVALUATED'', ''VALIDATION_FINDING'', ''VALIDATION_COMPLETED'',
      ''RELEASE_DECIDED'', ''INCIDENT_DETECTED'', ''INCIDENT_TERMINATED'',
      ''DISCLOSURE_RECEIVED'', ''RECONSTITUTION_DECIDED'',
      ''RECV_VALIDATION_STARTED'', ''RECV_VALIDATION_COMPLETED'',
      ''CROSS_CLOUD_HANDSHAKE_INITIATED'', ''CROSS_CLOUD_ATTESTATION_VERIFIED'',
      ''KEY_RELEASE_AUTHORIZED'', ''CROSS_CLOUD_RESTORE_COMPLETED'',
      ''KEY_RELEASE_DENIED'', ''FAILOVER_DECIDED'', ''AUDIT_SEGMENT_CLOSED'', ''CONSOLE_ACTION'']"

definition AuditEvent_Validate :: "AuditEvent \<Rightarrow> go_error option" where
  "AuditEvent_Validate e =
     first_err
       [chk (AE_SchemaVersion e < audit_SchemaVersionMin \<or> AE_SchemaVersion e > audit_SchemaVersionMax)
          (Structural CodeSchemaVersionUnsupported ''audit_event: schema_version out of supported range'' None),
        chk (AE_EventID e = [])
          (Structural CodeRequiredFieldMissing ''audit_event: event_id required'' None),
        chk (AE_Kind e \<notin> set validKinds)
          (Structural CodeFieldValueInvalid ''audit_event: unknown kind'' None),
        chk (AE_OccurredAt e = zero_time)
          (Structural CodeRequiredFieldMissing ''audit_event: occurred_at required'' None),
        chk (AE_Payload e = [])
          (Structural CodeRequiredFieldMissing ''audit_event: payload required'' None),
        chk (length (AE_PrevHash e) \<noteq> HashSize)
          (Structural CodeFieldValueInvalid ''audit_event: prev_hash must be exactly 32 bytes (SHA-256)'' None),
        chk (length (AE_Hash e) \<noteq> HashSize)
          (Structural CodeFieldValueInvalid ''audit_event: hash must be exactly 32 bytes (SHA-256)'' None),
        chk (AE_SigningKeyID e = [])
          (Structural CodeRequiredFieldMissing ''audit_event: signing_key_id required'' None),
        chk (AE_Signature e = [])
          (Structural CodeRequiredFieldMissing ''audit_event: signature required'' None)]"

text \<open>
  The JSON object of an event. A decoded Go map has no order; the fields are listed by key.
\<close>

definition event_fields :: "AuditEvent \<Rightarrow> string \<Rightarrow> (string \<times> jval) list" where
  "event_fields e occurred =
     omitempty ''alg'' (AE_Alg e) @
     [(''event_id'', JStr (sanitize (AE_EventID e))),
      (''hash'', json_bytes (AE_Hash e)),
      (''kind'', JStr (sanitize (AE_Kind e)))] @
     omitempty ''manifest_id'' (AE_ManifestID e) @
     [(''occurred_at'', JStr occurred),
      (''payload'', json_bytes (AE_Payload e)),
      (''prev_hash'', json_bytes (AE_PrevHash e))] @
     omitempty ''request_id'' (AE_RequestID e) @
     [(''schema_version'', JNum (fmt_d (unat (AE_SchemaVersion e))))] @
     omitempty ''session_id'' (AE_SessionID e) @
     [(''signature'', json_bytes (AE_Signature e)),
      (''signing_key_id'', JStr (sanitize (AE_SigningKeyID e)))]"

definition event_tree :: "AuditEvent \<Rightarrow> go_error + jval" where
  "event_tree e =
     (case marshal_time (AE_OccurredAt e) of
        None \<Rightarrow> Inl (PlainError ''json: Time.MarshalJSON: year outside of range [0,9999]'' None)
      | Some w \<Rightarrow> Inr (JObj (event_fields e w)))"

definition event_cover :: "floats \<Rightarrow> AuditEvent \<Rightarrow> go_error + bytes" where
  "event_cover F e =
     (case CanonicalJSON F (event_tree (e\<lparr>AE_Hash := [], AE_Signature := []\<rparr>)) of
        Inl err \<Rightarrow> Inl (Structural CodeFieldValueInvalid ''audit_event: canonical encode failed'' (Some err))
      | Inr cb \<Rightarrow> Inr cb)"

definition AuditEvent_CanonicalBytes :: "floats \<Rightarrow> AuditEvent \<Rightarrow> go_error + bytes" where
  "AuditEvent_CanonicalBytes F e = guardR (AuditEvent_Validate e) (event_cover F e)"

text \<open>The receiver is updated in place: the error, and the event as the call leaves it.\<close>

definition AuditEvent_SignWith ::
    "(bytes \<Rightarrow> bytes) \<Rightarrow> floats \<Rightarrow> AuditEvent \<Rightarrow> Signer \<Rightarrow> go_error option \<times> AuditEvent" where
  "AuditEvent_SignWith H F e signer =
     (if AE_SigningKeyID e = []
      then (Some (Structural CodeRequiredFieldMissing
              ''audit_event: signing_key_id required before sign'' None), e)
      else (case keys_RecordAlg signer (AE_SigningKeyID e) of
          Inl err \<Rightarrow> (Some err, e)
        | Inr alg \<Rightarrow>
            let e1 = e\<lparr>AE_Alg := alg\<rparr>
            in (case event_cover F e1 of
                  Inl err \<Rightarrow> (Some err, e1)
                | Inr cb \<Rightarrow>
                    let e2 = e1\<lparr>AE_Hash := H cb\<rparr>
                    in (case sg_Sign signer (AE_SigningKeyID e2) PurposeSigningAudit (AE_Hash e2) of
                          Inl err \<Rightarrow> (Some err, e2)
                        | Inr sig \<Rightarrow> (None, e2\<lparr>AE_Signature := sig\<rparr>)))))"

definition AuditEvent_VerifySignature ::
    "(bytes \<Rightarrow> bytes) \<Rightarrow> floats \<Rightarrow> prims \<Rightarrow> AuditEvent \<Rightarrow> Resolver option \<Rightarrow> go_error option" where
  "AuditEvent_VerifySignature H F P e resolver =
     (case resolver of
        None \<Rightarrow> Some (Structural CodeRequiredFieldMissing
          ''audit_event: key resolver required to verify the signature'' None)
      | Some res \<Rightarrow>
          (case AuditEvent_CanonicalBytes F e of
             Inl err \<Rightarrow> Some err
           | Inr cb \<Rightarrow>
               if H cb \<noteq> AE_Hash e
               then Some (Integrity CodeSignatureInvalid
                 ''audit_event: hash does not match canonical bytes'' None)
               else (case rs_Resolve res (AE_SigningKeyID e) PurposeSigningAudit of
                       Inl err \<Rightarrow> Some err
                     | Inr vk \<Rightarrow> VerifyingKey_VerifyRecord P vk (AE_Alg e) (AE_Hash e) (AE_Signature e))))"

section \<open>The gate, signing and checking\<close>

lemma audit_schema_gate:
  "\<not> (v < audit_SchemaVersionMin \<or> v > audit_SchemaVersionMax) \<longleftrightarrow> v \<noteq> 0 \<and> v \<le> 9"
  by (auto simp: audit_SchemaVersionMin_def audit_SchemaVersionMax_def not_less)

lemma AuditEvent_Validate_ok:
  "AuditEvent_Validate e = None \<longleftrightarrow>
     AE_SchemaVersion e \<noteq> 0 \<and> AE_SchemaVersion e \<le> 9 \<and> AE_EventID e \<noteq> [] \<and>
     AE_Kind e \<in> set validKinds \<and> AE_OccurredAt e \<noteq> zero_time \<and> AE_Payload e \<noteq> [] \<and>
     length (AE_PrevHash e) = HashSize \<and> length (AE_Hash e) = HashSize \<and>
     AE_SigningKeyID e \<noteq> [] \<and> AE_Signature e \<noteq> []"
  by (auto simp: AuditEvent_Validate_def audit_schema_gate simp del: de_Morgan_disj)

lemma event_cover_derived [simp]:
  "event_cover F (e\<lparr>AE_Hash := h\<rparr>) = event_cover F e"
  "event_cover F (e\<lparr>AE_Signature := s\<rparr>) = event_cover F e"
  by (simp_all add: event_cover_def)

lemma AuditEvent_VerifySignature_ok:
  "AuditEvent_VerifySignature H F P e (Some res) = None \<longleftrightarrow>
     AuditEvent_Validate e = None \<and>
     (\<exists>cb. event_cover F e = Inr cb \<and> H cb = AE_Hash e) \<and>
     (\<exists>vk. rs_Resolve res (AE_SigningKeyID e) PurposeSigningAudit = Inr vk \<and>
        VerifyingKey_VerifyRecord P vk (AE_Alg e) (AE_Hash e) (AE_Signature e) = None)"
  by (auto simp: AuditEvent_VerifySignature_def AuditEvent_CanonicalBytes_def guardR_def
      split: option.splits sum.splits)

lemma AuditEvent_SignWith_ok:
  assumes "AuditEvent_SignWith H F e signer = (None, e')"
  obtains alg cb sig where "keys_RecordAlg signer (AE_SigningKeyID e) = Inr alg"
    "event_cover F e' = Inr cb" "sg_Sign signer (AE_SigningKeyID e) PurposeSigningAudit (H cb) = Inr sig"
    "e' = e\<lparr>AE_Alg := alg, AE_Hash := H cb, AE_Signature := sig\<rparr>"
  using assms that
  by (fastforce simp: AuditEvent_SignWith_def Let_def split: if_splits sum.splits)

context keyring
begin

lemma audit_sign_verifies:
  assumes "ok r" "AuditEvent_SignWith H F e (signer r) = (None, e')" "AuditEvent_Validate e' = None"
  shows "AuditEvent_VerifySignature H F (lib r) e' (Some (resolver r)) = None"
  using assms(2)
proof (rule AuditEvent_SignWith_ok)
  fix alg cb sig
  assume a: "keys_RecordAlg (signer r) (AE_SigningKeyID e) = Inr alg" "event_cover F e' = Inr cb"
    and sig: "sg_Sign (signer r) (AE_SigningKeyID e) PurposeSigningAudit (H cb) = Inr sig"
    and e': "e' = e\<lparr>AE_Alg := alg, AE_Hash := H cb, AE_Signature := sig\<rparr>"
  from signed_record_verifies [OF assms(1) a(1) sig] assms(3) a(2) show ?thesis
    unfolding AuditEvent_VerifySignature_ok e' by simp
qed

end

section \<open>The hash commits to the event\<close>

text \<open>The fields under the hash: everything but the hash and the signature.\<close>

definition event_core :: "AuditEvent \<Rightarrow> AuditEvent" where
  "event_core e = e\<lparr>AE_Hash := [], AE_Signature := []\<rparr>"

definition utf8_event :: "AuditEvent \<Rightarrow> bool" where
  "utf8_event e \<longleftrightarrow>
     valid_utf8 (AE_EventID e) \<and> valid_utf8 (AE_Kind e) \<and> valid_utf8 (AE_SessionID e) \<and>
     valid_utf8 (AE_ManifestID e) \<and> valid_utf8 (AE_RequestID e) \<and>
     valid_utf8 (AE_SigningKeyID e) \<and> valid_utf8 (AE_Alg e)"

text \<open>
  The condition is needed: the gate looks at no session identifier, and two that are ill-formed are written as
  one replacement character, so two events that differ there have one cover.
\<close>

lemma ill_formed_ids_share_cover:
  "AuditEvent_Validate (e\<lparr>AE_SessionID := [CHR 0xFF]\<rparr>) = AuditEvent_Validate e"
  "AuditEvent_Validate (e\<lparr>AE_SessionID := [CHR 0xFE]\<rparr>) = AuditEvent_Validate e"
  "event_cover F (e\<lparr>AE_SessionID := [CHR 0xFF]\<rparr>) = event_cover F (e\<lparr>AE_SessionID := [CHR 0xFE]\<rparr>)"
proof -
  have "sanitize [CHR 0xFF] = sanitize [CHR 0xFE]" by code_simp
  then have "event_fields (e\<lparr>AE_SessionID := [CHR 0xFF], AE_Hash := [], AE_Signature := []\<rparr>) w =
      event_fields (e\<lparr>AE_SessionID := [CHR 0xFE], AE_Hash := [], AE_Signature := []\<rparr>) w" for w
    by (simp add: event_fields_def omitempty_def)
  then show "event_cover F (e\<lparr>AE_SessionID := [CHR 0xFF]\<rparr>) = event_cover F (e\<lparr>AE_SessionID := [CHR 0xFE]\<rparr>)"
    by (simp add: event_cover_def event_tree_def cong: option.case_cong)
qed (simp_all add: AuditEvent_Validate_def)

lemma event_keys_sorted:
  "sorted (map fst (event_fields e w)) \<and> distinct (map fst (event_fields e w))"
  by (simp add: event_fields_def omitempty_def)

lemma canon_event_tree:
  assumes "utf8_event e" "event_tree e = Inr t"
  shows "canon_tree t"
proof -
  obtain w where w: "marshal_time (AE_OccurredAt e) = Some w" "t = JObj (event_fields e w)"
    using assms(2) by (auto simp: event_tree_def split: option.splits)
  have b: "unat (AE_SchemaVersion e) < 2 ^ 63"
    using unsigned_less [of "AE_SchemaVersion e", where 'a = nat] by simp
  have keys: "valid_utf8 ''alg''" "valid_utf8 ''event_id''" "valid_utf8 ''hash''" "valid_utf8 ''kind''"
      "valid_utf8 ''manifest_id''" "valid_utf8 ''occurred_at''" "valid_utf8 ''payload''"
      "valid_utf8 ''prev_hash''" "valid_utf8 ''request_id''" "valid_utf8 ''schema_version''"
      "valid_utf8 ''session_id''" "valid_utf8 ''signature''" "valid_utf8 ''signing_key_id''"
    by (rule valid_utf8_ascii; simp)+
  show ?thesis
    using assms(1) event_keys_sorted [of e w] fmt_d_int64 [OF b] keys
      valid_utf8_ascii [OF marshal_time_ascii [OF w(1)]]
    by (auto simp: w(2) event_fields_def omitempty_def utf8_event_def sanitize_valid canon_json_bytes)
qed

text \<open>The object determines every field of the event.\<close>

lemma event_fields_inj:
  assumes u: "utf8_event a" "utf8_event b" and eq: "event_fields a w = event_fields b w'"
  shows "w = w'" "a = b\<lparr>AE_OccurredAt := AE_OccurredAt a\<rparr>"
proof -
  have look: "map_of (event_fields e v) ''occurred_at'' = Some (JStr v)"
      "map_of (event_fields e v) ''event_id'' = Some (JStr (AE_EventID e))"
      "map_of (event_fields e v) ''hash'' = Some (json_bytes (AE_Hash e))"
      "map_of (event_fields e v) ''kind'' = Some (JStr (AE_Kind e))"
      "map_of (event_fields e v) ''payload'' = Some (json_bytes (AE_Payload e))"
      "map_of (event_fields e v) ''prev_hash'' = Some (json_bytes (AE_PrevHash e))"
      "map_of (event_fields e v) ''schema_version'' = Some (JNum (fmt_d (unat (AE_SchemaVersion e))))"
      "map_of (event_fields e v) ''signature'' = Some (json_bytes (AE_Signature e))"
      "map_of (event_fields e v) ''signing_key_id'' = Some (JStr (AE_SigningKeyID e))"
      "map_of (event_fields e v) ''alg'' = (if AE_Alg e = [] then None else Some (JStr (AE_Alg e)))"
      "map_of (event_fields e v) ''manifest_id'' =
         (if AE_ManifestID e = [] then None else Some (JStr (AE_ManifestID e)))"
      "map_of (event_fields e v) ''request_id'' =
         (if AE_RequestID e = [] then None else Some (JStr (AE_RequestID e)))"
      "map_of (event_fields e v) ''session_id'' =
         (if AE_SessionID e = [] then None else Some (JStr (AE_SessionID e)))"
    if "utf8_event e" for e v
    using that by (simp_all add: event_fields_def omitempty_def utf8_event_def sanitize_valid)
  note l = look [OF u(1), of w, unfolded eq, unfolded look [OF u(2)]]
  show "w = w'" using l(1) by simp
  have "AE_SchemaVersion a = AE_SchemaVersion b" using l(7) fmt_d_inj by (auto simp: word_unat_eq_iff)
  moreover have "AE_Alg a = AE_Alg b" "AE_ManifestID a = AE_ManifestID b"
      "AE_RequestID a = AE_RequestID b" "AE_SessionID a = AE_SessionID b"
    using l(10-13) by (auto split: if_splits)
  ultimately show "a = b\<lparr>AE_OccurredAt := AE_OccurredAt a\<rparr>"
    using l(2-6,8,9) by (simp add: json_bytes_inj)
qed

lemma event_tree_inj:
  assumes "utf8_event a" "utf8_event b" "event_tree a = Inr t" "event_tree b = Inr t"
  shows "a = b"
proof -
  obtain w w' where w: "marshal_time (AE_OccurredAt a) = Some w" "marshal_time (AE_OccurredAt b) = Some w'"
      "event_fields a w = event_fields b w'"
    using assms(3,4) by (auto simp: event_tree_def split: option.splits)
  note i = event_fields_inj [OF assms(1,2) w(3)]
  have "AE_OccurredAt a = AE_OccurredAt b" using marshal_time_inj w(1,2) i(1) by simp
  with i(2) show ?thesis by simp
qed

lemma utf8_event_core [simp]: "utf8_event (event_core e) = utf8_event e"
  by (simp add: utf8_event_def event_core_def)

lemma event_cover_inj:
  assumes "utf8_event a" "utf8_event b" "event_cover F a = Inr cb" "event_cover F b = Inr cb"
  shows "event_core a = event_core b"
proof -
  have tree: "\<exists>t s. event_tree (event_core e) = Inr t \<and> canonicalEncode F t = Inr s \<and> cb = string_bytes s"
    if "event_cover F e = Inr cb" for e
    using that by (auto simp: event_cover_def CanonicalJSON_def event_core_def split: sum.splits)
  obtain t u s where t: "event_tree (event_core a) = Inr t" "event_tree (event_core b) = Inr u"
      "canonicalEncode F t = Inr s" "canonicalEncode F u = Inr s"
    using tree [OF assms(3)] tree [OF assms(4)] by auto
  have "t = u"
    using canon_event_tree [of "event_core a" t] canon_event_tree [of "event_core b" u] assms(1,2) t
    by (intro canonicalEncode_inj [of _ _ F]) simp_all
  with t event_tree_inj assms(1,2) show ?thesis by simp
qed

text \<open>
  Two events whose hashes check and agree are one event up to the signature, or their covers
  collide.
\<close>

definition events_collide :: "(bytes \<Rightarrow> bytes) \<Rightarrow> floats \<Rightarrow> AuditEvent \<Rightarrow> AuditEvent \<Rightarrow> bool" where
  "events_collide H F a b \<longleftrightarrow>
     (\<exists>x y. event_cover F a = Inr x \<and> event_cover F b = Inr y \<and> collides H x y)"

lemma event_hash_commits:
  assumes "utf8_event a" "utf8_event b" "event_cover F a = Inr x" "event_cover F b = Inr y"
    and "H x = AE_Hash a" "H y = AE_Hash b" "AE_Hash a = AE_Hash b"
  shows "event_core a = event_core b \<or> events_collide H F a b"
  using assms event_cover_inj [of a b F]
  by (cases "x = y") (auto simp: events_collide_def collides_def)

end
