(* ===== verification/AuditChain.thy ===== *)
theory AuditChain
  imports AuditEvent Prelude
begin

text \<open>
  The hash-linked audit chain in memory (src/internal/audit/chain/chain.go): sealing an event onto
  the tip, appending, the walk that verifies every link and signature, and the readers. \<open>H\<close> is
  \<open>crypto.SHA256\<close>, \<open>F\<close> the float formatting of the canonical form, \<open>P\<close> the signature library.

  The lemmas show that what was appended verifies, and that a chain that verifies is fixed by its
  tip: no event can be changed, dropped, added or reordered behind one.
\<close>

definition seal ::
    "(bytes \<Rightarrow> bytes) \<Rightarrow> floats \<Rightarrow> AuditEvent \<Rightarrow> bytes \<Rightarrow> Signer \<Rightarrow> go_error + AuditEvent" where
  "seal H F evt tip signer =
     (case AuditEvent_SignWith H F (evt\<lparr>AE_PrevHash := [] @ tip, AE_Hash := [], AE_Signature := []\<rparr>) signer of
        (Some err, e') \<Rightarrow> Inl err
      | (None, e') \<Rightarrow> guardR (AuditEvent_Validate e') (Inr e'))"

record InMemoryChain =
  IC_events :: "AuditEvent list"
  IC_tip :: bytes

definition NewInMemoryChain :: InMemoryChain where
  "NewInMemoryChain = \<lparr>IC_events = [], IC_tip = zeros HashSize\<rparr>"

definition Chain_Append ::
    "(bytes \<Rightarrow> bytes) \<Rightarrow> floats \<Rightarrow> InMemoryChain \<Rightarrow> AuditEvent \<Rightarrow> Signer option \<Rightarrow>
     (go_error + AuditEvent) \<times> InMemoryChain" where
  "Chain_Append H F c evt signer =
     (case signer of
        None \<Rightarrow> (Inl (Structural CodeRequiredFieldMissing ''audit/chain: signer required'' None), c)
      | Some sg \<Rightarrow>
          (case seal H F evt (IC_tip c) sg of
             Inl err \<Rightarrow> (Inl err, c)
           | Inr e \<Rightarrow> (Inr e, c\<lparr>IC_events := IC_events c @ [e], IC_tip := [] @ AE_Hash e\<rparr>)))"

definition verifyLink ::
    "(bytes \<Rightarrow> bytes) \<Rightarrow> floats \<Rightarrow> prims \<Rightarrow> nat \<Rightarrow> AuditEvent \<Rightarrow> bytes \<Rightarrow> Resolver \<Rightarrow> go_error option" where
  "verifyLink H F P i evt expectedPrev resolver =
     (if AE_PrevHash evt \<noteq> expectedPrev
      then Some (Integrity CodeSignatureInvalid
        (''audit/chain: event #'' @ fmt_d i @ '': prev_hash does not link to the previous event'') None)
      else (case AuditEvent_VerifySignature H F P evt (Some resolver) of
              Some err \<Rightarrow> Some (Integrity CodeSignatureInvalid
                (''audit/chain: event #'' @ fmt_d i @ '' does not verify'') (Some err))
            | None \<Rightarrow> None))"

text \<open>The loop of \<open>verifyEvents\<close> from index \<open>i\<close> and the hash expected before it.\<close>

fun verify_from ::
    "(bytes \<Rightarrow> bytes) \<Rightarrow> floats \<Rightarrow> prims \<Rightarrow> Resolver \<Rightarrow> nat \<Rightarrow> bytes \<Rightarrow> AuditEvent list \<Rightarrow> go_error option" where
  "verify_from H F P resolver i expectedPrev [] = None"
| "verify_from H F P resolver i expectedPrev (e # es) =
     (case verifyLink H F P i e expectedPrev resolver of
        Some err \<Rightarrow> Some err
      | None \<Rightarrow> verify_from H F P resolver (i + 1) (AE_Hash e) es)"

definition verifyEvents ::
    "(bytes \<Rightarrow> bytes) \<Rightarrow> floats \<Rightarrow> prims \<Rightarrow> AuditEvent list \<Rightarrow> Resolver \<Rightarrow> go_error option" where
  "verifyEvents H F P events resolver = verify_from H F P resolver 0 (zeros HashSize) events"

definition Chain_Verify ::
    "(bytes \<Rightarrow> bytes) \<Rightarrow> floats \<Rightarrow> prims \<Rightarrow> InMemoryChain \<Rightarrow> Resolver option \<Rightarrow> go_error option" where
  "Chain_Verify H F P c resolver =
     (case resolver of
        None \<Rightarrow> Some (Structural CodeRequiredFieldMissing ''audit/chain: resolver required'' None)
      | Some res \<Rightarrow> verifyEvents H F P (IC_events c) res)"

definition cloneEvent :: "AuditEvent \<Rightarrow> AuditEvent" where
  "cloneEvent e =
     e\<lparr>AE_PrevHash := [] @ AE_PrevHash e, AE_Hash := [] @ AE_Hash e,
       AE_Signature := [] @ AE_Signature e, AE_Payload := [] @ AE_Payload e\<rparr>"

definition Chain_Tip :: "InMemoryChain \<Rightarrow> bytes" where
  "Chain_Tip c = [] @ IC_tip c"

definition Chain_Len :: "InMemoryChain \<Rightarrow> nat" where
  "Chain_Len c = length (IC_events c)"

definition Chain_EventAt :: "InMemoryChain \<Rightarrow> int \<Rightarrow> AuditEvent option" where
  "Chain_EventAt c idx =
     (if idx < 0 \<or> idx \<ge> int (length (IC_events c)) then None
      else Some (cloneEvent (IC_events c ! nat idx)))"

definition Chain_Events :: "InMemoryChain \<Rightarrow> AuditEvent list" where
  "Chain_Events c = map cloneEvent (IC_events c)"

section \<open>Links\<close>

text \<open>
  The link structure on its own: every event follows the hash before it, passes the gate, and
  carries the hash of its cover. \<open>last_hash\<close> is the tip a list of events leaves.
\<close>

definition event_sealed :: "(bytes \<Rightarrow> bytes) \<Rightarrow> floats \<Rightarrow> AuditEvent \<Rightarrow> bool" where
  "event_sealed H F e \<longleftrightarrow>
     AuditEvent_Validate e = None \<and>
     (case event_cover F e of Inl err \<Rightarrow> False | Inr cb \<Rightarrow> H cb = AE_Hash e)"

fun linked :: "(bytes \<Rightarrow> bytes) \<Rightarrow> floats \<Rightarrow> bytes \<Rightarrow> AuditEvent list \<Rightarrow> bool" where
  "linked H F prev [] = True"
| "linked H F prev (e # es) = (AE_PrevHash e = prev \<and> event_sealed H F e \<and> linked H F (AE_Hash e) es)"

definition last_hash :: "bytes \<Rightarrow> AuditEvent list \<Rightarrow> bytes" where
  "last_hash prev es = (if es = [] then prev else AE_Hash (last es))"

lemma cloneEvent_id [simp]: "cloneEvent e = e"
  by (simp add: cloneEvent_def)

lemma event_sealed_iff:
  "event_sealed H F e \<longleftrightarrow> AuditEvent_Validate e = None \<and> (\<exists>cb. event_cover F e = Inr cb \<and> H cb = AE_Hash e)"
  by (auto simp: event_sealed_def split: sum.splits)

lemma linked_append:
  "linked H F prev (es @ fs) \<longleftrightarrow> linked H F prev es \<and> linked H F (last_hash prev es) fs"
  by (induction es arbitrary: prev) (auto simp: last_hash_def)

lemma last_hash_append: "last_hash prev (es @ fs) = last_hash (last_hash prev es) fs"
  by (auto simp: last_hash_def)

lemma last_hash_snoc [simp]: "last_hash prev (es @ [e]) = AE_Hash e"
  by (simp add: last_hash_def)

lemma last_hash_Nil [simp]: "last_hash prev [] = prev"
  by (simp add: last_hash_def)

lemma linked_snoc:
  "linked H F prev (es @ [e]) \<longleftrightarrow>
     linked H F prev es \<and> AE_PrevHash e = last_hash prev es \<and> event_sealed H F e"
  by (auto simp: linked_append)

lemma verify_from_append:
  "verify_from H F P res i prev (es @ fs) = None \<longleftrightarrow>
     verify_from H F P res i prev es = None \<and>
     verify_from H F P res (i + length es) (last_hash prev es) fs = None"
  by (induction es arbitrary: i prev) (auto simp: last_hash_def split: option.splits)

lemma verifyLink_ok:
  "verifyLink H F P i e prev res = None \<longleftrightarrow>
     AE_PrevHash e = prev \<and> AuditEvent_VerifySignature H F P e (Some res) = None"
  by (auto simp: verifyLink_def split: option.splits)

lemma verify_from_iff:
  "verify_from H F P res i prev es = None \<longleftrightarrow>
     linked H F prev es \<and> list_all (\<lambda>e. AuditEvent_VerifySignature H F P e (Some res) = None) es"
proof (induction es arbitrary: i prev)
  case (Cons e es)
  have "AuditEvent_VerifySignature H F P e (Some res) = None \<Longrightarrow> event_sealed H F e"
    by (auto simp: event_sealed_iff AuditEvent_VerifySignature_ok)
  with Cons verifyLink_ok [of H F P i e prev res] show ?case
    by (cases "verifyLink H F P i e prev res") auto
qed simp

lemma verifyLink_category:
  "verifyLink H F P i e prev res = Some err \<Longrightarrow>
   CategoryOf (Some err) = CategoryIntegrity \<and> CodeOf (Some err) = CodeSignatureInvalid"
  by (auto simp: verifyLink_def CodeOf_def Integrity_def CategoryOf_def split: option.splits if_splits)

lemma verify_from_category:
  "verify_from H F P res i prev es = Some err \<Longrightarrow>
   CategoryOf (Some err) = CategoryIntegrity \<and> CodeOf (Some err) = CodeSignatureInvalid"
  by (induction es arbitrary: i prev) (auto dest: verifyLink_category split: option.splits)

lemma seal_ok:
  assumes "seal H F evt tip signer = Inr e"
  shows "AE_PrevHash e = tip" "event_sealed H F e"
    "\<exists>evt'. AuditEvent_SignWith H F evt' signer = (None, e)" "AuditEvent_Validate e = None"
proof -
  let ?e0 = "evt\<lparr>AE_PrevHash := tip, AE_Hash := [], AE_Signature := []\<rparr>"
  from assms have s: "AuditEvent_SignWith H F ?e0 signer = (None, e)" and v: "AuditEvent_Validate e = None"
    by (auto simp: seal_def split: prod.splits option.splits)
  from s show "\<exists>evt'. AuditEvent_SignWith H F evt' signer = (None, e)" by blast
  show "AuditEvent_Validate e = None" by (rule v)
  show "AE_PrevHash e = tip" "event_sealed H F e"
    using s v by (auto elim!: AuditEvent_SignWith_ok simp: event_sealed_iff)
qed

section \<open>The chain\<close>

definition chain_inv :: "(bytes \<Rightarrow> bytes) \<Rightarrow> floats \<Rightarrow> InMemoryChain \<Rightarrow> bool" where
  "chain_inv H F c \<longleftrightarrow>
     linked H F (zeros HashSize) (IC_events c) \<and> IC_tip c = last_hash (zeros HashSize) (IC_events c)"

lemma NewInMemoryChain_inv: "chain_inv H F NewInMemoryChain"
  by (simp add: chain_inv_def NewInMemoryChain_def)

lemma Chain_Append_error: "Chain_Append H F c evt sg = (Inl err, c') \<Longrightarrow> c' = c"
  by (auto simp: Chain_Append_def split: option.splits sum.splits)

lemma Chain_Append_ok:
  assumes "Chain_Append H F c evt sg = (Inr e, c')"
  shows "c' = c\<lparr>IC_events := IC_events c @ [e], IC_tip := AE_Hash e\<rparr>"
    and "\<exists>s. sg = Some s \<and> seal H F evt (IC_tip c) s = Inr e"
  using assms by (auto simp: Chain_Append_def split: option.splits sum.splits)

lemma Chain_Append_inv:
  assumes "chain_inv H F c" "Chain_Append H F c evt sg = (r, c')"
  shows "chain_inv H F c'"
proof (cases r)
  case (Inl err)
  with assms Chain_Append_error show ?thesis by metis
next
  case (Inr e)
  with assms(2) have a: "Chain_Append H F c evt sg = (Inr e, c')" by simp
  obtain s where s: "seal H F evt (IC_tip c) s = Inr e" using Chain_Append_ok(2) [OF a] by blast
  show ?thesis
    using assms(1) seal_ok(1,2) [OF s] Chain_Append_ok(1) [OF a]
    by (simp add: chain_inv_def linked_snoc)
qed

text \<open>The chain as an append-only sequence of events, one call after another.\<close>

definition chain_step ::
    "(bytes \<Rightarrow> bytes) \<Rightarrow> floats \<Rightarrow> InMemoryChain \<Rightarrow> AuditEvent \<times> Signer option \<Rightarrow>
     (go_error + AuditEvent) \<times> InMemoryChain" where
  "chain_step H F c call = Chain_Append H F c (fst call) (snd call)"

interpretation audit_chain: append_only "chain_inv H F" IC_events "chain_step H F" "2 ^ 63"
proof
  fix c x e c'
  show "chain_step H F c x = (Inr e, c') \<Longrightarrow> IC_events c' = IC_events c @ [e]"
    unfolding chain_step_def by (drule Chain_Append_ok(1)) simp
next
  fix c x err c'
  show "chain_step H F c x = (Inl err, c') \<Longrightarrow> IC_events c' = IC_events c"
    unfolding chain_step_def by (drule Chain_Append_error) simp
next
  fix c x r c'
  show "chain_inv H F c \<Longrightarrow> chain_step H F c x = (r, c') \<Longrightarrow> chain_inv H F c'"
    unfolding chain_step_def by (rule Chain_Append_inv)
qed

context keyring
begin

lemma appended_chain_verifies:
  assumes ok: "ok r" and v: "Chain_Verify H F (lib r) c (Some (resolver r)) = None"
    and inv: "chain_inv H F c" and app: "Chain_Append H F c evt (Some (signer r)) = (Inr e, c')"
  shows "Chain_Verify H F (lib r) c' (Some (resolver r)) = None"
proof -
  have s: "seal H F evt (IC_tip c) (signer r) = Inr e" using Chain_Append_ok(2) [OF app] by simp
  have "AuditEvent_VerifySignature H F (lib r) e (Some (resolver r)) = None"
    using audit_sign_verifies [OF ok] seal_ok(3,4) [OF s] by blast
  moreover have "linked H F (zeros HashSize) (IC_events c')"
    using Chain_Append_inv [OF inv app] by (simp add: chain_inv_def)
  ultimately show ?thesis
    using v Chain_Append_ok(1) [OF app]
    by (auto simp: Chain_Verify_def verifyEvents_def verify_from_iff)
qed

lemma run_chain_verifies:
  assumes "ok r" "\<forall>call \<in> set calls. snd call = Some (signer r)" "chain_inv H F c"
    and "Chain_Verify H F (lib r) c (Some (resolver r)) = None"
  shows "Chain_Verify H F (lib r) (run_appends (chain_step H F) c calls) (Some (resolver r)) = None"
  using assms(2-4)
proof (induction calls arbitrary: c)
  case (Cons call calls)
  obtain res c' where a: "chain_step H F c call = (res, c')" by fastforce
  then have app: "Chain_Append H F c (fst call) (Some (signer r)) = (res, c')"
    using Cons.prems(1) by (simp add: chain_step_def)
  have "Chain_Verify H F (lib r) c' (Some (resolver r)) = None"
  proof (cases res)
    case (Inl err)
    with app Cons.prems(3) show ?thesis by (auto dest: Chain_Append_error)
  next
    case (Inr e)
    with app Cons.prems(2,3) show ?thesis using appended_chain_verifies [OF assms(1)] by blast
  qed
  with Cons a Chain_Append_inv [OF Cons.prems(2) app] show ?case by simp
qed simp

end

section \<open>The tip commits to the history\<close>

definition histories_collide :: "(bytes \<Rightarrow> bytes) \<Rightarrow> floats \<Rightarrow> AuditEvent list \<Rightarrow> AuditEvent list \<Rightarrow> bool" where
  "histories_collide H F es fs \<longleftrightarrow> (\<exists>e \<in> set es. \<exists>f \<in> set fs. events_collide H F e f)"

text \<open>An event whose hash is the all-zero hash a chain starts from.\<close>

definition zero_hash_event :: "AuditEvent list \<Rightarrow> bool" where
  "zero_hash_event es \<longleftrightarrow> (\<exists>e \<in> set es. AE_Hash e = zeros HashSize)"

lemma sealed_hash_commits:
  assumes "utf8_event a" "utf8_event b" "event_sealed H F a" "event_sealed H F b" "AE_Hash a = AE_Hash b"
  shows "event_core a = event_core b \<or> events_collide H F a b"
  using assms event_hash_commits [of a b F] by (auto simp: event_sealed_iff)

lemma event_core_prev: "event_core a = event_core b \<Longrightarrow> AE_PrevHash a = AE_PrevHash b"
  by (drule arg_cong [where f = AE_PrevHash]) (simp add: event_core_def)

lemma tip_commits:
  assumes "linked H F (zeros HashSize) es" "linked H F (zeros HashSize) fs"
    and "list_all utf8_event es" "list_all utf8_event fs"
    and "last_hash (zeros HashSize) es = last_hash (zeros HashSize) fs"
  shows "map event_core es = map event_core fs \<or> histories_collide H F es fs \<or>
    zero_hash_event (es @ fs)"
  using assms
proof (induction es arbitrary: fs rule: rev_induct)
  case Nil
  then show ?case by (cases fs rule: rev_cases) (auto simp: zero_hash_event_def)
next
  case (snoc e es)
  note prems = snoc.prems and IH = snoc.IH
  show ?case
  proof (cases fs rule: rev_cases)
    case Nil
    with prems(5) show ?thesis by (auto simp: zero_hash_event_def)
  next
    case (snoc gs f)
    have "event_core e = event_core f \<or> events_collide H F e f"
      using prems snoc by (intro sealed_hash_commits) (auto simp: linked_snoc)
    then show ?thesis
    proof
      assume ef: "event_core e = event_core f"
      have "last_hash (zeros HashSize) es = last_hash (zeros HashSize) gs"
        using event_core_prev [OF ef] prems(1,2) snoc by (simp add: linked_snoc)
      then have "map event_core es = map event_core gs \<or> histories_collide H F es gs \<or>
          zero_hash_event (es @ gs)"
        using prems snoc by (intro IH) (auto simp: linked_snoc)
      with ef snoc show ?thesis by (auto simp: histories_collide_def zero_hash_event_def)
    qed (use snoc in \<open>auto simp: histories_collide_def\<close>)
  qed
qed

text \<open>
  What the components that record in an audit chain share: the chain's \<open>Append\<close> as a function on a
  chain state of any type (\<open>appender\<close>), the fixed-width rendering of their event counters, and the
  contract they rely on, the locale \<open>audit_recorder\<close>: a successful append adds one event with the id,
  kind, session and payload it was given, a refused one adds nothing. The in-memory chain interprets it.
\<close>

unbundle bit_operations_syntax

type_synonym 'c appender = "'c \<Rightarrow> AuditEvent \<Rightarrow> Signer option \<Rightarrow> (go_error + AuditEvent) \<times> 'c"

fun counter_loop :: "nat \<Rightarrow> u64 \<Rightarrow> bytes \<Rightarrow> bytes" where
  "counter_loop 0 n b = b"
| "counter_loop (Suc i) n b = counter_loop i (drop_bit 8 n) (ucast (n AND 0xFF) # b)"

definition counterBytes :: "u64 \<Rightarrow> bytes" where
  "counterBytes n = counter_loop 8 n []"

lemma low_byte_mask: "(0xFF :: u64) = mask 8"
  by (simp add: mask_eq_exp_minus_1)

lemma counter_loop_be: "counter_loop k n b = be k (unat n) @ b"
proof (induction k arbitrary: n b)
  case (Suc k)
  have "unat (drop_bit 8 n) = unat n div 256"
    by (simp add: drop_bit_eq_div unat_div_distrib)
  moreover have "(ucast (n AND 0xFF) :: byte) = of_nat (unat n)"
    by (rule bit_word_eqI) (simp add: low_byte_mask bit_simps)
  ultimately show ?case by (simp add: Suc.IH)
qed simp

lemma counterBytes_be: "counterBytes n = PutUint64 n"
  by (simp add: counterBytes_def counter_loop_be PutUint64_def)

definition has_event :: "AuditEvent list \<Rightarrow> string \<Rightarrow> string \<Rightarrow> bool" where
  "has_event es eid kind \<longleftrightarrow> (\<exists>e \<in> set es. AE_EventID e = eid \<and> AE_Kind e = kind)"

lemma has_event_append [simp]: "has_event (es @ fs) eid kind \<longleftrightarrow> has_event es eid kind \<or> has_event fs eid kind"
  by (auto simp: has_event_def)

lemma has_event_Nil [simp]: "\<not> has_event [] eid kind"
  by (simp add: has_event_def)

lemma has_event_Cons [simp]:
  "has_event (e # es) eid kind \<longleftrightarrow> AE_EventID e = eid \<and> AE_Kind e = kind \<or> has_event es eid kind"
  by (auto simp: has_event_def)

locale audit_recorder =
  fixes app :: "'c appender"
    and events :: "'c \<Rightarrow> AuditEvent list"
  assumes recorded: "app c e sg = (Inr e', c') \<Longrightarrow>
      events c' = events c @ [e'] \<and> AE_EventID e' = AE_EventID e \<and> AE_Kind e' = AE_Kind e \<and>
      AE_SessionID e' = AE_SessionID e \<and> AE_Payload e' = AE_Payload e"
    and not_recorded: "app c e sg = (Inl err, c') \<Longrightarrow> events c' = events c"
begin

lemma grows: "app c e sg = (r, c') \<Longrightarrow> \<exists>zs. events c' = events c @ zs"
  using recorded not_recorded by (cases r) fastforce+

end

lemma seal_keeps:
  assumes "seal H F evt tip signer = Inr e"
  shows "AE_EventID e = AE_EventID evt" "AE_Kind e = AE_Kind evt"
    "AE_SessionID e = AE_SessionID evt" "AE_Payload e = AE_Payload evt"
  using assms by (auto simp: seal_def split: prod.splits option.splits elim!: AuditEvent_SignWith_ok)

interpretation in_memory_recorder: audit_recorder "Chain_Append H F" IC_events for H F
proof
  fix c e sg e' c'
  assume "Chain_Append H F c e sg = (Inr e', c')"
  from Chain_Append_ok [OF this] show "IC_events c' = IC_events c @ [e'] \<and> AE_EventID e' = AE_EventID e \<and> AE_Kind e' = AE_Kind e \<and>
      AE_SessionID e' = AE_SessionID e \<and> AE_Payload e' = AE_Payload e"
    using seal_keeps by auto
qed (auto dest: Chain_Append_error)

end
