(* ===== verification/ChainProperties.thy ===== *)
theory ChainProperties
  imports AuditChain
begin

text \<open>
  The properties of audit events and of the in-memory audit chain, stated for \<open>SHA256\<close> and the
  vault's key store, each with a concrete instance.
\<close>

section \<open>A concrete recorder\<close>

definition audit_key :: SigningKey where
  "audit_key = \<lparr>SK_suite = SuiteEd25519, SK_priv = Some (zeros 32)\<rparr>"

definition audit_ring :: ring where
  "audit_ring = (plain_prims, snd (RegisterSigningKey plain_prims NewInMemoryStore 0 ''a''
     PurposeSigningAudit (Some audit_key)))"

definition no_floats :: floats where
  "no_floats n = Inr None"

definition demo_event :: AuditEvent where
  "demo_event =
     \<lparr>AE_SchemaVersion = 9, AE_EventID = ''e1'', AE_Kind = ''RELEASE_DECIDED'', AE_OccurredAt = 7,
      AE_SessionID = ''s'', AE_ManifestID = [], AE_RequestID = [], AE_Payload = [1, 2],
      AE_PrevHash = [], AE_Hash = [], AE_SigningKeyID = ''a'', AE_Alg = [], AE_Signature = []\<rparr>"

definition demo_chain :: InMemoryChain where
  "demo_chain = snd (Chain_Append SHA256 no_floats NewInMemoryChain demo_event (Some (ring_signer audit_ring)))"

lemma audit_ring_ok: "ring_ok audit_ring"
proof -
  have "store_wf plain_prims NewInMemoryStore"
    by (simp add: NewInMemoryStore_def store_wf_def)
  then show ?thesis
    by (simp add: ring_ok_def audit_ring_def plain_prims_ok RegisterSigningKey_wf)
qed

lemma audit_ring_key:
  "st_signing (snd audit_ring) ''a'' = Some
     \<lparr>sk_Verifying = \<lparr>VK_KeyID = ''a'', VK_Purpose = PurposeSigningAudit, VK_Suite = SuiteEd25519,
        VK_PublicKey = PublicKeyBytes plain_prims audit_key, VK_CreatedAt = 0\<rparr>,
      sk_Priv = audit_key\<rparr>"
  by (simp add: audit_ring_def RegisterSigningKey_def is_signing_purpose_def Suite_Valid_iff
      Suite_Available_def audit_key_def PublicKeyBytes_def plain_prims_def PublicKeySize_def Let_def
      NewInMemoryStore_def UnixNano_def)

lemma audit_ring_signs:
  "keys_RecordAlg (ring_signer audit_ring) ''a'' = Inr []"
  "sg_Sign (ring_signer audit_ring) ''a'' PurposeSigningAudit m = Inr (pr_ed_sign plain_prims (zeros 32) m)"
  by (simp_all add: ring_defs audit_ring_key keys_RecordAlg_def Store_Suite_def Store_Sign_def
      RecordAlg_def SigningKey_Sign_def audit_key_def) (simp add: audit_ring_def)

text \<open>A well-formed event in the years JSON can write always has a cover.\<close>

lemma event_cover_total:
  assumes "utf8_event e" "marshal_time (AE_OccurredAt e) = Some w"
  shows "\<exists>cb. event_cover F e = Inr cb"
proof -
  let ?c = "event_core e"
  have t: "event_tree ?c = Inr (JObj (event_fields ?c w))"
    using assms(2) by (simp add: event_tree_def event_core_def)
  have "canon_tree (JObj (event_fields ?c w))"
    using canon_event_tree [OF _ t] assms(1) by simp
  from canonicalEncode_enc [OF this, of F] t show ?thesis
    by (simp add: event_cover_def event_core_def [symmetric] CanonicalJSON_def
        del: canonicalEncode.simps enc.simps)
qed

lemma demo_event_wf: "utf8_event (demo_event\<lparr>AE_PrevHash := p\<rparr>)" "\<exists>w. marshal_time 7 = Some w"
proof -
  have v: "valid_utf8 ''e1''" "valid_utf8 ''RELEASE_DECIDED''" "valid_utf8 ''s''" "valid_utf8 ''a''" "valid_utf8 []"
    by (rule valid_utf8_ascii; simp)+
  show "utf8_event (demo_event\<lparr>AE_PrevHash := p\<rparr>)"
    using v by (simp add: utf8_event_def demo_event_def)
  show "\<exists>w. marshal_time 7 = Some w"
    by (simp add: marshal_time_def day_of_def epoch_days_def days_before_year_def)
qed

lemma demo_chain_append:
  "\<exists>e. Chain_Append SHA256 no_floats NewInMemoryChain demo_event (Some (ring_signer audit_ring)) =
     (Inr e, demo_chain) \<and> IC_events demo_chain = [e] \<and> utf8_event e"
proof -
  define e0 where "e0 = demo_event\<lparr>AE_PrevHash := zeros HashSize\<rparr>"
  have e0: "AE_SigningKeyID e0 = ''a''" "e0\<lparr>AE_Alg := []\<rparr> = e0" "AE_OccurredAt e0 = 7" "utf8_event e0"
      "demo_event\<lparr>AE_PrevHash := zeros HashSize, AE_Hash := [], AE_Signature := []\<rparr> = e0"
    using demo_event_wf(1) by (simp_all add: e0_def demo_event_def)
  obtain w where "marshal_time (AE_OccurredAt e0) = Some w" using demo_event_wf(2) e0(3) by auto
  then obtain cb where cb: "event_cover no_floats e0 = Inr cb"
    using event_cover_total [OF e0(4)] by blast
  define e where "e = e0\<lparr>AE_Hash := SHA256 cb, AE_Signature := pr_ed_sign plain_prims (zeros 32) (SHA256 cb)\<rparr>"
  have s: "AuditEvent_SignWith SHA256 no_floats e0 (ring_signer audit_ring) = (None, e)"
    using cb by (simp add: AuditEvent_SignWith_def audit_ring_signs e0 Let_def e_def)
  have "length (pr_ed_sign plain_prims (zeros 32) m) = 64" for m
    by (simp add: plain_prims_def)
  then have "pr_ed_sign plain_prims (zeros 32) m \<noteq> []" for m
    by (metis list.size(3) zero_neq_numeral)
  then have v: "AuditEvent_Validate e = None"
    by (simp add: AuditEvent_Validate_ok e_def e0_def demo_event_def validKinds_def zero_time_def)
  have "seal SHA256 no_floats demo_event (zeros HashSize) (ring_signer audit_ring) = Inr e"
    using s v by (simp add: seal_def e0)
  then have "Chain_Append SHA256 no_floats NewInMemoryChain demo_event (Some (ring_signer audit_ring)) =
      (Inr e, \<lparr>IC_events = [e], IC_tip = AE_Hash e\<rparr>)"
    by (simp add: Chain_Append_def NewInMemoryChain_def)
  moreover have "utf8_event e"
    using e0(4) by (simp add: utf8_event_def e_def)
  ultimately show ?thesis by (simp add: demo_chain_def)
qed

section \<open>Audit events\<close>

text \<open>An audit event's hash commits to every field but the signature: two events that pass
  \<open>VerifySignature\<close> with one hash agree on all the rest, unless their canonical forms are a
  collision of \<open>SHA256\<close>. The text fields are well-formed UTF-8.\<close>

theorem audit_hash_commits_to_event:
  assumes "AuditEvent_VerifySignature SHA256 F P a (Some res) = None"
    and "AuditEvent_VerifySignature SHA256 F P b (Some res) = None"
    and "utf8_event a" "utf8_event b" "AE_Hash a = AE_Hash b"
  shows "event_core a = event_core b \<or> events_collide SHA256 F a b"
  using assms by (intro sealed_hash_commits) (auto simp: event_sealed_iff AuditEvent_VerifySignature_ok)

theorem audit_hash_commits_to_event_witness:
  "\<exists>e. AuditEvent_VerifySignature SHA256 no_floats plain_prims e (Some (ring_resolver audit_ring)) = None \<and>
     (event_core e = event_core e \<or> events_collide SHA256 no_floats e e)"
proof -
  obtain e where e: "Chain_Append SHA256 no_floats NewInMemoryChain demo_event (Some (ring_signer audit_ring)) =
      (Inr e, demo_chain)" "utf8_event e"
    using demo_chain_append by blast
  have "seal SHA256 no_floats demo_event (IC_tip NewInMemoryChain) (ring_signer audit_ring) = Inr e"
    using Chain_Append_ok(2) [OF e(1)] by simp
  note s = seal_ok(3,4) [OF this]
  have v: "AuditEvent_VerifySignature SHA256 no_floats plain_prims e (Some (ring_resolver audit_ring)) = None"
    using s vault_ring.audit_sign_verifies [OF audit_ring_ok] by (auto simp: audit_ring_def)
  from audit_hash_commits_to_event [OF v v e(2,2)] v show ?thesis by blast
qed

section \<open>The chain\<close>

text \<open>Whatever a recorder appends, accepted or refused, the chain verifies: every event links to
  the one before it, its hash is its own, and its signature checks under the vault's audit key.\<close>

theorem recorded_chain_verifies:
  assumes "ring_ok r" "\<forall>call \<in> set calls. snd call = Some (ring_signer r)"
  shows "Chain_Verify SHA256 F (fst r) (run_appends (chain_step SHA256 F) NewInMemoryChain calls)
    (Some (ring_resolver r)) = None"
  using assms
  by (intro vault_ring.run_chain_verifies NewInMemoryChain_inv)
    (simp_all add: Chain_Verify_def verifyEvents_def NewInMemoryChain_def)

theorem recorded_chain_verifies_witness:
  "Chain_Verify SHA256 no_floats plain_prims demo_chain (Some (ring_resolver audit_ring)) = None \<and>
   length (IC_events demo_chain) = 1"
proof -
  have "run_appends (chain_step SHA256 no_floats) NewInMemoryChain
      [(demo_event, Some (ring_signer audit_ring))] = demo_chain"
    by (simp add: chain_step_def demo_chain_def)
  then show ?thesis
    using recorded_chain_verifies [OF audit_ring_ok, of "[(demo_event, Some (ring_signer audit_ring))]" no_floats]
      demo_chain_append by (auto simp: audit_ring_def)
qed

text \<open>C5: The tip of a chain that verifies commits to its whole history: two lists of events whose
  identifiers are well-formed UTF-8 (the gate does not check this, and the encoder writes every ill-formed
  byte as the one replacement character), that verify and end in one tip, hold the same events in the same
  order, whatever the signatures, unless two events collide or one hashes to the all-zero genesis.\<close>

theorem chain_tip_commits_to_history:
  assumes "verifyEvents SHA256 F P es res = None" "verifyEvents SHA256 F P' fs res' = None"
    and "list_all utf8_event es" "list_all utf8_event fs"
    and "last_hash (zeros HashSize) es = last_hash (zeros HashSize) fs"
  shows "map event_core es = map event_core fs \<or> histories_collide SHA256 F es fs \<or>
    zero_hash_event (es @ fs)"
  using assms by (intro tip_commits) (auto simp: verifyEvents_def verify_from_iff)

theorem chain_tip_commits_to_history_witness:
  "\<exists>es. length es = 1 \<and>
    verifyEvents SHA256 no_floats plain_prims es (ring_resolver audit_ring) = None \<and>
    (map event_core es = map event_core es \<or> histories_collide SHA256 no_floats es es \<or>
     zero_hash_event (es @ es))"
proof -
  obtain e where e: "Chain_Append SHA256 no_floats NewInMemoryChain demo_event (Some (ring_signer audit_ring)) =
      (Inr e, demo_chain)" "IC_events demo_chain = [e]" "utf8_event e"
    using demo_chain_append by blast
  have "Chain_Verify SHA256 no_floats plain_prims demo_chain (Some (ring_resolver audit_ring)) = None"
    using vault_ring.appended_chain_verifies [OF audit_ring_ok _ NewInMemoryChain_inv e(1)]
    by (simp add: Chain_Verify_def verifyEvents_def NewInMemoryChain_def audit_ring_def)
  then have v: "verifyEvents SHA256 no_floats plain_prims [e] (ring_resolver audit_ring) = None"
    using e(2) by (simp add: Chain_Verify_def)
  from chain_tip_commits_to_history [OF v v] v e(3) show ?thesis
    by (intro exI [of _ "[e]"]) simp
qed

text \<open>The chain is append-only and its tip is always the hash of its last event: over any history
  of calls the earlier events stay as they were, and every refused call leaves them unchanged.\<close>

theorem chain_is_append_only:
  assumes "chain_inv SHA256 F c" "length (IC_events c) + length calls < 2 ^ 63"
  shows "chain_inv SHA256 F (run_appends (chain_step SHA256 F) c calls) \<and>
    (\<exists>zs. IC_events (run_appends (chain_step SHA256 F) c calls) = IC_events c @ zs \<and>
      length zs \<le> length calls)"
  using audit_chain.run_history [OF assms] .

theorem chain_is_append_only_witness:
  "chain_inv SHA256 no_floats (run_appends (chain_step SHA256 no_floats) NewInMemoryChain [(demo_event, None)])"
  using chain_is_append_only [OF NewInMemoryChain_inv, of "[(demo_event, None)]" no_floats]
  by (simp add: NewInMemoryChain_def)

text \<open>A chain that does not verify is reported as an integrity error with the signature code,
  whatever the reason: a broken link, a changed field, an unknown key or a bad signature.\<close>

theorem broken_chain_is_integrity_error:
  assumes "verifyEvents H F P es res = Some err"
  shows "CategoryOf (Some err) = CategoryIntegrity \<and> CodeOf (Some err) = CodeSignatureInvalid"
  using assms unfolding verifyEvents_def by (rule verify_from_category)

theorem broken_chain_is_integrity_error_witness:
  "\<exists>err. verifyEvents SHA256 no_floats plain_prims [demo_event] (ring_resolver audit_ring) = Some err \<and>
     CategoryOf (Some err) = CategoryIntegrity \<and> CodeOf (Some err) = CodeSignatureInvalid"
proof -
  have "zeros HashSize \<noteq> []" by (simp add: zeros_def HashSize_def)
  then have "\<exists>err. verifyEvents SHA256 no_floats plain_prims [demo_event] (ring_resolver audit_ring) = Some err"
    by (auto simp: verifyEvents_def verifyLink_def demo_event_def)
  then show ?thesis using broken_chain_is_integrity_error by blast
qed

end
