(* ===== verification/Transitions.thy ===== *)
theory Transitions
  imports Errors
begin

text \<open>
  Transition tables, as the orchestration flow (src/internal/vault/orchestration/state.go) and the
  receive-side bootstrap (src/internal/bootstrap/state.go) both keep them: a list of
  \<open>{From, To, Trigger}\<close> rows, a scan that answers whether a row is there, and the rows out of a
  state. The contract of such a table is the locale \<open>transition_machine\<close>: rows are
  deterministic, none leaves a terminal state, every other state has one, and every row lowers a
  rank. What follows for any run along the table is proved once: runs are bounded, end only in
  terminal states, can always be completed, and are fixed by their triggers.
\<close>

record 's Transition =
  tr_From :: 's
  tr_To :: 's
  tr_Trigger :: string

fun can_transition :: "'s Transition list \<Rightarrow> 's \<Rightarrow> 's \<Rightarrow> string \<Rightarrow> bool" where
  "can_transition [] from to trigger = False"
| "can_transition (tr # trs) from to trigger =
     (if tr_From tr = from \<and> tr_To tr = to \<and> (trigger = [] \<or> tr_Trigger tr = trigger) then True
      else can_transition trs from to trigger)"

fun legal_transitions :: "'s Transition list \<Rightarrow> 's \<Rightarrow> 's Transition list" where
  "legal_transitions [] from = []"
| "legal_transitions (tr # trs) from =
     (if tr_From tr = from then tr # legal_transitions trs from else legal_transitions trs from)"

text \<open>The first row that leaves a state under a trigger.\<close>

fun find_transition :: "'s Transition list \<Rightarrow> 's \<Rightarrow> string \<Rightarrow> 's Transition option" where
  "find_transition [] from trigger = None"
| "find_transition (tr # trs) from trigger =
     (if tr_From tr = from \<and> tr_Trigger tr = trigger then Some tr else find_transition trs from trigger)"

text \<open>Runs along a table: the states a list of triggers leads between.\<close>

inductive path :: "'s Transition list \<Rightarrow> 's \<Rightarrow> string list \<Rightarrow> 's \<Rightarrow> bool" for table where
  path_nil: "path table s [] s"
| path_step: "tr \<in> set table \<Longrightarrow> path table (tr_To tr) ts s' \<Longrightarrow>
    path table (tr_From tr) (tr_Trigger tr # ts) s'"

inductive_cases path_nilE [elim!]: "path table s [] s'"
inductive_cases path_consE: "path table s (t # ts) s'"

text \<open>\<open>fmt\<close>'s \<open>%q\<close>: the text in double quotes, with the escapes of \<open>strconv.Quote\<close>; bytes from 0x80
  on are copied, as it does for printable text.\<close>

definition quote_char :: "char \<Rightarrow> string" where
  "quote_char c =
     (let n = (of_char c :: nat) in
      if n = 0x22 \<or> n = 0x5C then [CHR 0x5C, c]
      else if n = 7 then [CHR 0x5C, CHR ''a''] else if n = 8 then [CHR 0x5C, CHR ''b'']
      else if n = 12 then [CHR 0x5C, CHR ''f''] else if n = 10 then [CHR 0x5C, CHR ''n'']
      else if n = 13 then [CHR 0x5C, CHR ''r''] else if n = 9 then [CHR 0x5C, CHR ''t'']
      else if n = 11 then [CHR 0x5C, CHR ''v'']
      else if n < 32 \<or> n = 127 then [CHR 0x5C, CHR ''x'', hex_digit (n div 16), hex_digit (n mod 16)]
      else [c])"

definition fmt_q :: "string \<Rightarrow> string" where
  "fmt_q s = [CHR 0x22] @ concat (map quote_char s) @ [CHR 0x22]"

section \<open>Scans and runs\<close>

lemma can_transition_iff:
  "can_transition trs from to trigger \<longleftrightarrow>
     (\<exists>tr \<in> set trs. tr_From tr = from \<and> tr_To tr = to \<and> (trigger = [] \<or> tr_Trigger tr = trigger))"
  by (induction trs) auto

lemma legal_transitions_filter: "legal_transitions trs from = filter (\<lambda>tr. tr_From tr = from) trs"
  by (induction trs) auto

lemma find_transition_SomeD:
  "find_transition trs from trigger = Some tr \<Longrightarrow>
   tr \<in> set trs \<and> tr_From tr = from \<and> tr_Trigger tr = trigger"
  by (induction trs) (auto split: if_splits)

lemma find_transition_None:
  "find_transition trs from trigger = None \<longleftrightarrow>
     (\<forall>tr \<in> set trs. tr_From tr = from \<longrightarrow> tr_Trigger tr \<noteq> trigger)"
  by (induction trs) auto

lemma path_one: "tr \<in> set table \<Longrightarrow> path table (tr_From tr) [tr_Trigger tr] (tr_To tr)"
  by (intro path_step path_nil)

lemma path_append:
  "path table a ts b \<Longrightarrow> path table b us c \<Longrightarrow> path table a (ts @ us) c"
  by (induction rule: path.induct) (auto intro: path_step)

lemma path_snoc:
  "path table a ts (tr_From tr) \<Longrightarrow> tr \<in> set table \<Longrightarrow> path table a (ts @ [tr_Trigger tr]) (tr_To tr)"
  by (blast intro: path_append path_one)

lemma path_last_row:
  "path table a ts b \<Longrightarrow> ts \<noteq> [] \<Longrightarrow> \<exists>tr \<in> set table. tr_To tr = b \<and> tr_Trigger tr = last ts"
  by (induction rule: path.induct) (auto elim: path.cases)

locale transition_machine =
  fixes table :: "'s Transition list"
    and terminal :: "'s \<Rightarrow> bool"
    and rank :: "'s \<Rightarrow> nat"
  assumes deterministic: "tr \<in> set table \<Longrightarrow> tr' \<in> set table \<Longrightarrow> tr_From tr = tr_From tr' \<Longrightarrow>
      tr_Trigger tr = tr_Trigger tr' \<Longrightarrow> tr_To tr = tr_To tr'"
    and terminal_final: "tr \<in> set table \<Longrightarrow> \<not> terminal (tr_From tr)"
    and onward: "\<not> terminal s \<Longrightarrow> \<exists>tr \<in> set table. tr_From tr = s"
    and ranked: "tr \<in> set table \<Longrightarrow> rank (tr_To tr) < rank (tr_From tr)"
begin

lemma path_bound: "path table s ts s' \<Longrightarrow> length ts + rank s' \<le> rank s"
proof (induction rule: path.induct)
  case (path_step tr ts s')
  with ranked [OF path_step(1)] show ?case by simp
qed simp

lemma terminal_absorbing: "path table s ts s' \<Longrightarrow> terminal s \<Longrightarrow> ts = [] \<and> s' = s"
  by (induction rule: path.induct) (auto dest: terminal_final)

lemma terminal_no_transition: "terminal s \<Longrightarrow> find_transition table s trigger = None"
  by (auto simp: find_transition_None dest: terminal_final)

lemma path_deterministic: "path table s ts a \<Longrightarrow> path table s ts b \<Longrightarrow> a = b"
proof (induction arbitrary: b rule: path.induct)
  case (path_step tr ts s')
  from path_step.prems obtain tr' where "tr' \<in> set table" "tr_From tr' = tr_From tr"
      "tr_Trigger tr' = tr_Trigger tr" "path table (tr_To tr') ts b"
    by (auto elim: path_consE)
  with path_step deterministic [of tr' tr] show ?case by simp
qed auto

lemma can_finish: "\<exists>ts s'. path table s ts s' \<and> terminal s'"
proof (induction "rank s" arbitrary: s rule: less_induct)
  case less
  show ?case
  proof (cases "terminal s")
    case False
    then obtain tr where tr: "tr \<in> set table" "tr_From tr = s" using onward by blast
    then obtain ts s' where "path table (tr_To tr) ts s'" "terminal s'"
      using less ranked by blast
    with tr path_step [OF tr(1)] show ?thesis by blast
  qed (blast intro: path_nil)
qed

lemma find_transition_row:
  "tr \<in> set table \<Longrightarrow> \<exists>tr'. find_transition table (tr_From tr) (tr_Trigger tr) = Some tr' \<and> tr_To tr' = tr_To tr"
  by (cases "find_transition table (tr_From tr) (tr_Trigger tr)")
    (auto simp: find_transition_None dest!: find_transition_SomeD intro: deterministic)

end

end
