(* ===== verification/BootstrapStates.thy ===== *)
theory BootstrapStates
  imports Transitions
begin

text \<open>
  The receive-side states and their transition table (src/internal/bootstrap/state.go). The names
  carry a \<open>B\<close> where the orchestration package has the same ones. The interpretation \<open>bootstrap\<close>
  discharges the contract of a transition table.
\<close>

datatype BState =
    BStateUnstarted
  | BStateIngress
  | BStateReassemble
  | BStateValidate
  | BStateReady
  | BStateReconstituted
  | BStateRejected

fun BState_String :: "BState \<Rightarrow> string" where
  "BState_String BStateUnstarted = ''unstarted''"
| "BState_String BStateIngress = ''ingress''"
| "BState_String BStateReassemble = ''reassemble''"
| "BState_String BStateValidate = ''validate''"
| "BState_String BStateReady = ''ready''"
| "BState_String BStateReconstituted = ''reconstituted''"
| "BState_String BStateRejected = ''rejected''"

definition BIsTerminal :: "BState \<Rightarrow> bool" where
  "BIsTerminal s \<longleftrightarrow> s = BStateReconstituted \<or> s = BStateRejected"

definition BIsOperational :: "BState \<Rightarrow> bool" where
  "BIsOperational s \<longleftrightarrow>
     s = BStateIngress \<or> s = BStateReassemble \<or> s = BStateValidate \<or> s = BStateReady"

definition RejectionCapableStates :: "BState list" where
  "RejectionCapableStates = [BStateIngress, BStateReassemble, BStateValidate, BStateReady]"

definition BhappyPathTransitions :: "BState Transition list" where
  "BhappyPathTransitions =
     [\<lparr>tr_From = BStateUnstarted, tr_To = BStateIngress, tr_Trigger = ''bootstrap.accepted''\<rparr>,
      \<lparr>tr_From = BStateIngress, tr_To = BStateReassemble, tr_Trigger = ''disclosure.received.all''\<rparr>,
      \<lparr>tr_From = BStateReassemble, tr_To = BStateValidate, tr_Trigger = ''reassembly.ok''\<rparr>,
      \<lparr>tr_From = BStateValidate, tr_To = BStateReady, tr_Trigger = ''validation.pass''\<rparr>,
      \<lparr>tr_From = BStateReady, tr_To = BStateReconstituted, tr_Trigger = ''decision.signed''\<rparr>]"

definition BTransitionTable :: "BState Transition list" where
  "BTransitionTable =
     BhappyPathTransitions @
     map (\<lambda>s. \<lparr>tr_From = s, tr_To = BStateRejected, tr_Trigger = ''bootstrap.rejected''\<rparr>) RejectionCapableStates"

definition BCanTransition :: "BState \<Rightarrow> BState \<Rightarrow> string \<Rightarrow> bool" where
  "BCanTransition from to trigger = can_transition BTransitionTable from to trigger"

definition BLegalTransitions :: "BState \<Rightarrow> BState Transition list" where
  "BLegalTransitions from = legal_transitions BTransitionTable from"

section \<open>The table's contract\<close>

fun bootstrap_rank :: "BState \<Rightarrow> nat" where
  "bootstrap_rank BStateUnstarted = 5"
| "bootstrap_rank BStateIngress = 4"
| "bootstrap_rank BStateReassemble = 3"
| "bootstrap_rank BStateValidate = 2"
| "bootstrap_rank BStateReady = 1"
| "bootstrap_rank BStateReconstituted = 0"
| "bootstrap_rank BStateRejected = 0"

lemmas bootstrap_table_defs = BTransitionTable_def BhappyPathTransitions_def RejectionCapableStates_def

lemma bootstrap_rows_deterministic:
  "\<forall>tr \<in> set BTransitionTable. \<forall>tr' \<in> set BTransitionTable.
     tr_From tr = tr_From tr' \<longrightarrow> tr_Trigger tr = tr_Trigger tr' \<longrightarrow> tr_To tr = tr_To tr'"
  by (simp add: bootstrap_table_defs)

interpretation bootstrap: transition_machine BTransitionTable BIsTerminal bootstrap_rank
proof unfold_locales
  fix tr tr' :: "BState Transition"
  assume "tr \<in> set BTransitionTable" "tr' \<in> set BTransitionTable" "tr_From tr = tr_From tr'"
    "tr_Trigger tr = tr_Trigger tr'"
  then show "tr_To tr = tr_To tr'" using bootstrap_rows_deterministic by blast
next
  fix tr :: "BState Transition"
  assume "tr \<in> set BTransitionTable"
  then show "\<not> BIsTerminal (tr_From tr)" "bootstrap_rank (tr_To tr) < bootstrap_rank (tr_From tr)"
    by (auto simp: bootstrap_table_defs BIsTerminal_def)
next
  fix s :: BState
  assume "\<not> BIsTerminal s"
  then show "\<exists>tr \<in> set BTransitionTable. tr_From tr = s"
    by (cases s) (simp_all add: bootstrap_table_defs BIsTerminal_def)
qed

lemma BIsOperational_iff: "BIsOperational s \<longleftrightarrow> s \<noteq> BStateUnstarted \<and> \<not> BIsTerminal s"
  by (cases s) (simp_all add: BIsOperational_def BIsTerminal_def)

lemma BCanTransition_rows:
  "BCanTransition BStateUnstarted BStateIngress ''bootstrap.accepted''"
  "BCanTransition BStateIngress BStateReassemble ''disclosure.received.all''"
  "BCanTransition BStateReassemble BStateValidate ''reassembly.ok''"
  "BCanTransition BStateValidate BStateReady ''validation.pass''"
  "BCanTransition BStateReady BStateReconstituted ''decision.signed''"
  "BIsOperational s \<Longrightarrow> BCanTransition s BStateRejected ''bootstrap.rejected''"
  by (auto simp: BCanTransition_def bootstrap_table_defs BIsOperational_def)

end
