(* ===== verification/SignedContract.thy ===== *)
theory SignedContract
  imports Wire KeyStore
begin

text \<open>
  The contract packages under src/internal/contracts share one shape: a struct with a signing key
  id, a suite and a signature; \<open>Validate\<close>; \<open>CanonicalBytes\<close>, the canonical JSON with the signature
  cleared, behind \<open>Validate\<close>; \<open>SignWith\<close> and \<open>VerifySignature\<close> over those bytes under one key purpose.
  The three operations are written once over a record \<open>contract\<close> that names the parts, and each
  package's own operations are instances. \<open>F\<close> is the float formatting of the canonical form, \<open>P\<close> the
  signature library. A receiver is a value, so the nil-receiver guards of \<open>SignWith\<close> do not arise.

  The locale \<open>signed_contract\<close> holds what a package promises: the accessors are fields, and the wire
  fields have one shape, ordered keys, and fix the struct. Inside it: the covered bytes fix every
  field but the signature, and (\<open>contract_ring\<close>) what a key ring signed and the gate accepts
  verifies under that ring.
\<close>

record 'r contract =
  ct_Name :: string
  ct_Purpose :: Purpose
  ct_Validate :: "'r \<Rightarrow> go_error option"
  ct_Wire :: "'r \<Rightarrow> (string \<times> wire) list"
  ct_KeyID :: "'r \<Rightarrow> KeyID"
  ct_Alg :: "'r \<Rightarrow> SignatureSuite"
  ct_Sig :: "'r \<Rightarrow> bytes"
  ct_SetAlg :: "SignatureSuite \<Rightarrow> 'r \<Rightarrow> 'r"
  ct_SetSig :: "bytes \<Rightarrow> 'r \<Rightarrow> 'r"

definition contract_cover :: "'r contract \<Rightarrow> floats \<Rightarrow> 'r \<Rightarrow> go_error + bytes" where
  "contract_cover ct F r =
     (case CanonicalJSON F (marshal_wire (ct_Wire ct (ct_SetSig ct [] r))) of
        Inl err \<Rightarrow> Inl (Structural CodeFieldValueInvalid (ct_Name ct @ '': canonical encode failed'') (Some err))
      | Inr cb \<Rightarrow> Inr cb)"

definition contract_CanonicalBytes :: "'r contract \<Rightarrow> floats \<Rightarrow> 'r \<Rightarrow> go_error + bytes" where
  "contract_CanonicalBytes ct F r = guardR (ct_Validate ct r) (contract_cover ct F r)"

text \<open>The receiver is updated in place: the error, and the struct as the call leaves it.\<close>

definition contract_SignWith ::
    "'r contract \<Rightarrow> floats \<Rightarrow> 'r \<Rightarrow> Signer \<Rightarrow> go_error option \<times> 'r" where
  "contract_SignWith ct F r signer =
     (if ct_KeyID ct r = []
      then (Some (Structural CodeRequiredFieldMissing
              (ct_Name ct @ '': signing_key_id required before sign'') None), r)
      else (case keys_RecordAlg signer (ct_KeyID ct r) of
          Inl err \<Rightarrow> (Some err, r)
        | Inr alg \<Rightarrow>
            let r1 = ct_SetAlg ct alg r
            in (case contract_cover ct F r1 of
                  Inl err \<Rightarrow> (Some err, r1)
                | Inr cb \<Rightarrow>
                    (case sg_Sign signer (ct_KeyID ct r1) (ct_Purpose ct) cb of
                       Inl err \<Rightarrow> (Some err, r1)
                     | Inr sig \<Rightarrow> (None, ct_SetSig ct sig r1)))))"

definition contract_VerifySignature ::
    "'r contract \<Rightarrow> floats \<Rightarrow> prims \<Rightarrow> 'r \<Rightarrow> Resolver option \<Rightarrow> go_error option" where
  "contract_VerifySignature ct F P r resolver =
     (case resolver of
        None \<Rightarrow> Some (Structural CodeRequiredFieldMissing
          (ct_Name ct @ '': key resolver required to verify the signature'') None)
      | Some res \<Rightarrow>
          (case contract_CanonicalBytes ct F r of
             Inl err \<Rightarrow> Some err
           | Inr cb \<Rightarrow>
               (case rs_Resolve res (ct_KeyID ct r) (ct_Purpose ct) of
                  Inl err \<Rightarrow> Some err
                | Inr vk \<Rightarrow> VerifyingKey_VerifyRecord P vk (ct_Alg ct r) cb (ct_Sig ct r))))"

text \<open>The fields of a struct are well-formed UTF-8 and 63-bit numbers.\<close>

definition contract_clean :: "'r contract \<Rightarrow> 'r \<Rightarrow> bool" where
  "contract_clean ct r \<longleftrightarrow> fields_ok (ct_Wire ct r)"

text \<open>Loops that the gates share: a list of identifiers with no empty and no repeated entry.\<close>

fun scan_ids :: "go_error \<Rightarrow> go_error \<Rightarrow> string set \<Rightarrow> string list \<Rightarrow> go_error option" where
  "scan_ids e_empty e_dup seen [] = None"
| "scan_ids e_empty e_dup seen (x # xs) =
     (if x = [] then Some e_empty else if x \<in> seen then Some e_dup else scan_ids e_empty e_dup (insert x seen) xs)"

section \<open>Checks\<close>

lemma scan_ids_None:
  "scan_ids e_empty e_dup seen xs = None \<longleftrightarrow> [] \<notin> set xs \<and> distinct xs \<and> set xs \<inter> seen = {}"
  by (induction xs arbitrary: seen) auto

lemma contract_VerifySignature_ok:
  "contract_VerifySignature ct F P r (Some res) = None \<longleftrightarrow>
     ct_Validate ct r = None \<and>
     (\<exists>cb vk. contract_cover ct F r = Inr cb \<and> rs_Resolve res (ct_KeyID ct r) (ct_Purpose ct) = Inr vk \<and>
        VerifyingKey_VerifyRecord P vk (ct_Alg ct r) cb (ct_Sig ct r) = None)"
  by (auto simp: contract_VerifySignature_def contract_CanonicalBytes_def guardR_def
      split: option.splits sum.splits)

lemma contract_SignWith_ok:
  assumes "contract_SignWith ct F r signer = (None, r')"
  obtains alg cb sig where "ct_KeyID ct r \<noteq> []" "keys_RecordAlg signer (ct_KeyID ct r) = Inr alg"
    "contract_cover ct F (ct_SetAlg ct alg r) = Inr cb"
    "sg_Sign signer (ct_KeyID ct (ct_SetAlg ct alg r)) (ct_Purpose ct) cb = Inr sig"
    "r' = ct_SetSig ct sig (ct_SetAlg ct alg r)"
  using assms that
  by (fastforce simp: contract_SignWith_def Let_def split: if_splits sum.splits)

locale signed_contract =
  fixes ct :: "'r contract"
  assumes key_kept: "ct_KeyID ct (ct_SetAlg ct a r) = ct_KeyID ct r" "ct_KeyID ct (ct_SetSig ct s r) = ct_KeyID ct r"
    and alg_set: "ct_Alg ct (ct_SetAlg ct a r) = a" "ct_Alg ct (ct_SetSig ct s r) = ct_Alg ct r"
    and sig_set: "ct_Sig ct (ct_SetSig ct s r) = s" "ct_SetSig ct s (ct_SetSig ct s' r) = ct_SetSig ct s r"
    and wire_shape: "shape (ct_Wire ct r) = shape (ct_Wire ct r')"
    and wire_keys: "sorted (map fst (ct_Wire ct r))" "distinct (map fst (ct_Wire ct r))"
      "list_all (list_all (\<lambda>c. of_char c < (128 :: nat))) (map fst (ct_Wire ct r))"
    and wire_fixes: "in_years (ct_Wire ct r) \<Longrightarrow> ct_Wire ct r = ct_Wire ct r' \<Longrightarrow> r = r'"
    and clean_unsigned: "contract_clean ct r \<Longrightarrow> contract_clean ct (ct_SetSig ct [] r)"
begin

lemma cover_sig [simp]: "contract_cover ct F (ct_SetSig ct s r) = contract_cover ct F r"
  by (simp add: contract_cover_def sig_set)

lemma keys_utf8: "list_all valid_utf8 (map fst (ct_Wire ct r))"
proof -
  have "valid_utf8 k" if "k \<in> set (map fst (ct_Wire ct r))" for k
    using wire_keys(3) [of r] that by (auto simp: list_all_iff intro!: valid_utf8_ascii)
  then show ?thesis by (simp add: list_all_iff)
qed

lemma clean_tree:
  assumes "contract_clean ct r" "marshal_wire (ct_Wire ct (ct_SetSig ct [] r)) = Inr t"
  shows "canon_tree t"
  using marshal_wire_canon [OF assms(2)] clean_unsigned [OF assms(1)] wire_keys(1,2) keys_utf8
  by (simp add: contract_clean_def)

text \<open>The covered bytes fix every field but the signature.\<close>

lemma cover_fixes:
  assumes "contract_clean ct a" "contract_clean ct b" "contract_cover ct F a = Inr cb" "contract_cover ct F b = Inr cb"
  shows "ct_SetSig ct [] a = ct_SetSig ct [] b"
proof -
  let ?w = "\<lambda>r. ct_Wire ct (ct_SetSig ct [] r)"
  have tree: "\<exists>kvs s. wire_fields (?w r) = Inr kvs \<and> marshal_wire (?w r) = Inr (JObj kvs) \<and>
      canonicalEncode F (JObj kvs) = Inr s \<and> cb = string_bytes s"
    if "contract_cover ct F r = Inr cb" for r
    using that by (auto simp: contract_cover_def CanonicalJSON_def marshal_wire_def
        simp del: canonicalEncode.simps split: sum.splits)
  obtain ka kb s where k: "wire_fields (?w a) = Inr ka" "wire_fields (?w b) = Inr kb"
      "marshal_wire (?w a) = Inr (JObj ka)" "marshal_wire (?w b) = Inr (JObj kb)"
      "canonicalEncode F (JObj ka) = Inr s" "canonicalEncode F (JObj kb) = Inr s"
    using tree [OF assms(3)] tree [OF assms(4)] by (auto simp del: canonicalEncode.simps)
  have "JObj ka = JObj kb"
    by (rule canonicalEncode_inj [OF clean_tree [OF assms(1) k(3)] clean_tree [OF assms(2) k(4)], of F])
      (simp only: k(5,6))
  then have "?w a = ?w b"
    using k wire_keys(2) clean_unsigned assms(1,2) wire_shape
    by (intro wire_fields_inj [of _ _ ka]) (auto simp: contract_clean_def)
  with wire_fields_in_years [OF k(1)] show ?thesis by (rule wire_fixes)
qed

text \<open>A clean struct in the years JSON can write always has a cover.\<close>

lemma cover_total:
  assumes "contract_clean ct r" "in_years (ct_Wire ct (ct_SetSig ct [] r))"
  shows "\<exists>cb. contract_cover ct F r = Inr cb"
proof -
  obtain kvs where "wire_fields (ct_Wire ct (ct_SetSig ct [] r)) = Inr kvs"
    using wire_fields_total [OF assms(2)] by blast
  then have t: "marshal_wire (ct_Wire ct (ct_SetSig ct [] r)) = Inr (JObj kvs)"
    by (simp add: marshal_wire_def)
  from canonicalEncode_enc [OF clean_tree [OF assms(1) t], of F] t show ?thesis
    by (simp add: contract_cover_def CanonicalJSON_def del: canonicalEncode.simps enc.simps)
qed

lemma SignWith_live:
  assumes "ct_KeyID ct r \<noteq> []" "keys_RecordAlg sg (ct_KeyID ct r) = Inr alg"
    "\<And>m. \<exists>sig. sg_Sign sg (ct_KeyID ct r) (ct_Purpose ct) m = Inr sig \<and> sig \<noteq> []"
    "contract_clean ct (ct_SetAlg ct alg r)" "in_years (ct_Wire ct (ct_SetSig ct [] (ct_SetAlg ct alg r)))"
  shows "\<exists>sig. contract_SignWith ct F r sg = (None, ct_SetSig ct sig (ct_SetAlg ct alg r)) \<and> sig \<noteq> []"
proof -
  obtain cb where cb: "contract_cover ct F (ct_SetAlg ct alg r) = Inr cb"
    using cover_total [OF assms(4,5)] by blast
  obtain sig where "sg_Sign sg (ct_KeyID ct r) (ct_Purpose ct) cb = Inr sig" "sig \<noteq> []"
    using assms(3) by blast
  with assms(1,2) cb show ?thesis by (intro exI [of _ sig]) (simp add: contract_SignWith_def Let_def key_kept)
qed

lemma SignWith_keeps_key: "contract_SignWith ct F r signer = (None, r') \<Longrightarrow> ct_KeyID ct r' = ct_KeyID ct r"
  by (erule contract_SignWith_ok) (simp add: key_kept)

lemma SignWith_ok_shape:
  assumes "contract_SignWith ct F r signer = (None, r')"
  shows "\<exists>alg sig. r' = ct_SetSig ct sig (ct_SetAlg ct alg r)"
  using assms by (blast elim: contract_SignWith_ok)

end

locale contract_ring = keyring ok lib signer resolver + signed_contract ct
  for ok :: "'s \<Rightarrow> bool" and lib :: "'s \<Rightarrow> prims" and signer :: "'s \<Rightarrow> Signer"
    and resolver :: "'s \<Rightarrow> Resolver" and ct :: "'r contract"
begin

lemma signed_verifies:
  assumes "ok s" "contract_SignWith ct F r (signer s) = (None, r')" "ct_Validate ct r' = None"
  shows "contract_VerifySignature ct F (lib s) r' (Some (resolver s)) = None"
  using assms(2)
proof (rule contract_SignWith_ok)
  fix alg cb sig
  assume a: "keys_RecordAlg (signer s) (ct_KeyID ct r) = Inr alg" "contract_cover ct F (ct_SetAlg ct alg r) = Inr cb"
    and sig: "sg_Sign (signer s) (ct_KeyID ct (ct_SetAlg ct alg r)) (ct_Purpose ct) cb = Inr sig"
    and r': "r' = ct_SetSig ct sig (ct_SetAlg ct alg r)"
  from sig have "sg_Sign (signer s) (ct_KeyID ct r) (ct_Purpose ct) cb = Inr sig" by (simp add: key_kept)
  from signed_record_verifies [OF assms(1) a(1) this] assms(3) a(2) show ?thesis
    unfolding contract_VerifySignature_ok r' by (simp add: key_kept alg_set sig_set)
qed

lemma verified_key_purpose:
  assumes "ok s" "contract_VerifySignature ct F (lib s) r (Some (resolver s)) = None"
  shows "\<exists>vk. rs_Resolve (resolver s) (ct_KeyID ct r) (ct_Purpose ct) = Inr vk \<and> VK_Purpose vk = ct_Purpose ct"
  using assms resolve_purpose [OF assms(1)] by (auto simp: contract_VerifySignature_ok)

end

end
