(* ===== verification/BootstrapContracts.thy ===== *)
theory BootstrapContracts
  imports SignedContract
begin

text \<open>
  The five contracts the receive side works with (src/internal/contracts/bootstrap_manifest,
  reconstruction_job_manifest, disclosure_message, received_disclosure, reconstitution_decision):
  each struct, its static gate (validator.go), its JSON fields by key, and its canonical bytes,
  signing and checking as instances of the shared operations. Every package interprets
  \<open>contract_ring\<close> over the vault's key store.
\<close>

definition schema_gate :: "u16 \<Rightarrow> string \<Rightarrow> go_error option" where
  "schema_gate v name =
     chk (v < 1 \<or> v > 1)
       (Structural CodeSchemaVersionUnsupported (name @ '': schema_version out of supported range'') None)"

section \<open>Bootstrap manifest\<close>

record BootstrapManifest =
  BM_SchemaVersion :: u16
  BM_BootstrapID :: string
  BM_SessionID :: string
  BM_ManifestID :: string
  BM_GenomeID :: string
  BM_PolicyVersion :: string
  BM_ExpectedDisclosureIDs :: "string list"
  BM_ExpectedComponentIDs :: "string list"
  BM_Deadline :: gotime
  BM_IssuedAt :: gotime
  BM_SigningKeyID :: KeyID
  BM_Alg :: SignatureSuite
  BM_Signature :: bytes

fun scan_slots :: "string set \<Rightarrow> (string \<times> string) list \<Rightarrow> go_error option" where
  "scan_slots seen [] = None"
| "scan_slots seen ((did, cid) # slots) =
     (if did = [] then Some (Structural CodeFieldValueInvalid ''bootstrap_manifest: expected_disclosure_ids contains empty slot'' None)
      else if did \<in> seen then Some (Structural CodeFieldValueInvalid ''bootstrap_manifest: expected_disclosure_ids contains duplicate'' None)
      else if cid = [] then Some (Structural CodeFieldValueInvalid ''bootstrap_manifest: expected_component_ids contains empty slot'' None)
      else scan_slots (insert did seen) slots)"

definition BootstrapManifest_Validate :: "BootstrapManifest \<Rightarrow> go_error option" where
  "BootstrapManifest_Validate r =
     first_err
       [schema_gate (BM_SchemaVersion r) ''bootstrap_manifest'',
        chk (BM_BootstrapID r = [])
          (Structural CodeRequiredFieldMissing ''bootstrap_manifest: bootstrap_id required'' None),
        chk (BM_SessionID r = [])
          (Structural CodeRequiredFieldMissing ''bootstrap_manifest: session_id required'' None),
        chk (BM_ManifestID r = [])
          (Structural CodeRequiredFieldMissing ''bootstrap_manifest: manifest_id required'' None),
        chk (BM_GenomeID r = [])
          (Structural CodeRequiredFieldMissing ''bootstrap_manifest: genome_id required'' None),
        chk (BM_PolicyVersion r = [])
          (Structural CodeRequiredFieldMissing ''bootstrap_manifest: policy_version required'' None),
        chk (BM_ExpectedDisclosureIDs r = [])
          (Structural CodeFieldValueInvalid ''bootstrap_manifest: expected_disclosure_ids must be non-empty'' None),
        chk (length (BM_ExpectedComponentIDs r) \<noteq> length (BM_ExpectedDisclosureIDs r))
          (Structural CodeCrossFieldInconsistent ''bootstrap_manifest: expected_component_ids length must equal expected_disclosure_ids length'' None),
        scan_slots {} (zip (BM_ExpectedDisclosureIDs r) (BM_ExpectedComponentIDs r)),
        chk (BM_IssuedAt r = zero_time)
          (Structural CodeRequiredFieldMissing ''bootstrap_manifest: issued_at required'' None),
        chk (BM_Deadline r = zero_time)
          (Structural CodeRequiredFieldMissing ''bootstrap_manifest: deadline required'' None),
        chk (\<not> BM_Deadline r > BM_IssuedAt r)
          (Structural CodeCrossFieldInconsistent ''bootstrap_manifest: deadline must be strictly after issued_at'' None),
        chk (BM_SigningKeyID r = [])
          (Structural CodeRequiredFieldMissing ''bootstrap_manifest: signing_key_id required'' None),
        chk (BM_Signature r = [])
          (Structural CodeRequiredFieldMissing ''bootstrap_manifest: signature required'' None)]"

definition BootstrapManifest_fields :: "BootstrapManifest \<Rightarrow> (string \<times> wire) list" where
  "BootstrapManifest_fields r =
     [(''alg'', WOpt (BM_Alg r)),
      (''bootstrap_id'', WStr (BM_BootstrapID r)),
      (''deadline'', WTime (BM_Deadline r)),
      (''expected_component_ids'', WStrs (BM_ExpectedComponentIDs r)),
      (''expected_disclosure_ids'', WStrs (BM_ExpectedDisclosureIDs r)),
      (''genome_id'', WStr (BM_GenomeID r)),
      (''issued_at'', WTime (BM_IssuedAt r)),
      (''manifest_id'', WStr (BM_ManifestID r)),
      (''policy_version'', WStr (BM_PolicyVersion r)),
      (''schema_version'', WNum (unat (BM_SchemaVersion r))),
      (''session_id'', WStr (BM_SessionID r)),
      (''signature'', WBytes (BM_Signature r)),
      (''signing_key_id'', WStr (BM_SigningKeyID r))]"

definition BootstrapManifest_contract :: "BootstrapManifest contract" where
  "BootstrapManifest_contract =
     \<lparr>ct_Name = ''bootstrap_manifest'', ct_Purpose = PurposeSigningAuthority,
      ct_Validate = BootstrapManifest_Validate, ct_Wire = BootstrapManifest_fields,
      ct_KeyID = BM_SigningKeyID, ct_Alg = BM_Alg, ct_Sig = BM_Signature,
      ct_SetAlg = (\<lambda>a r. r\<lparr>BM_Alg := a\<rparr>), ct_SetSig = (\<lambda>s r. r\<lparr>BM_Signature := s\<rparr>)\<rparr>"

definition BootstrapManifest_CanonicalBytes :: "floats \<Rightarrow> BootstrapManifest \<Rightarrow> go_error + bytes" where
  "BootstrapManifest_CanonicalBytes = contract_CanonicalBytes BootstrapManifest_contract"

definition BootstrapManifest_SignWith :: "floats \<Rightarrow> BootstrapManifest \<Rightarrow> Signer \<Rightarrow> go_error option \<times> BootstrapManifest" where
  "BootstrapManifest_SignWith = contract_SignWith BootstrapManifest_contract"

definition BootstrapManifest_VerifySignature ::
    "floats \<Rightarrow> prims \<Rightarrow> BootstrapManifest \<Rightarrow> Resolver option \<Rightarrow> go_error option" where
  "BootstrapManifest_VerifySignature = contract_VerifySignature BootstrapManifest_contract"

interpretation bootstrap_manifest: contract_ring ring_ok fst ring_signer ring_resolver BootstrapManifest_contract
  by unfold_locales
    (auto simp: BootstrapManifest_contract_def BootstrapManifest_fields_def shape_def contract_clean_def fields_ok_def word_unat_eq_iff
      intro: BootstrapManifest.equality)

section \<open>Reconstruction job manifest\<close>

record ReconstructionJobManifest =
  RJ_SchemaVersion :: u16
  RJ_ManifestID :: string
  RJ_SessionID :: string
  RJ_GenomeID :: string
  RJ_PolicyVersion :: string
  RJ_DisclosureIDs :: "string list"
  RJ_ExpectedOutputKind :: string
  RJ_ExpectedOutputMaxBytes :: u64
  RJ_RecipientKeyID :: KeyID
  RJ_Deadline :: gotime
  RJ_IssuedAt :: gotime
  RJ_SigningKeyID :: KeyID
  RJ_Alg :: SignatureSuite
  RJ_Signature :: bytes

definition validOutputKinds :: "string list" where
  "validOutputKinds = [''bytes/fixed-length'', ''tokens/stream'']"

definition ReconstructionJobManifest_Validate :: "ReconstructionJobManifest \<Rightarrow> go_error option" where
  "ReconstructionJobManifest_Validate r =
     first_err
       [schema_gate (RJ_SchemaVersion r) ''reconstruction_job_manifest'',
        chk (RJ_ManifestID r = [])
          (Structural CodeRequiredFieldMissing ''reconstruction_job_manifest: manifest_id required'' None),
        chk (RJ_SessionID r = [])
          (Structural CodeRequiredFieldMissing ''reconstruction_job_manifest: session_id required'' None),
        chk (RJ_GenomeID r = [])
          (Structural CodeRequiredFieldMissing ''reconstruction_job_manifest: genome_id required'' None),
        chk (RJ_PolicyVersion r = [])
          (Structural CodeRequiredFieldMissing ''reconstruction_job_manifest: policy_version required'' None),
        chk (RJ_DisclosureIDs r = [])
          (Structural CodeFieldValueInvalid ''reconstruction_job_manifest: disclosure_ids must be non-empty'' None),
        scan_ids (Structural CodeFieldValueInvalid ''reconstruction_job_manifest: disclosure_ids contains zero value'' None)
          (Structural CodeFieldValueInvalid ''reconstruction_job_manifest: disclosure_ids contains duplicate'' None) {} (RJ_DisclosureIDs r),
        chk (RJ_ExpectedOutputKind r \<notin> set validOutputKinds)
          (Structural CodeFieldValueInvalid ''reconstruction_job_manifest: unknown expected_output_kind'' None),
        chk (RJ_ExpectedOutputMaxBytes r = 0)
          (Structural CodeFieldValueInvalid ''reconstruction_job_manifest: expected_output_max_bytes must be > 0'' None),
        chk (RJ_RecipientKeyID r = [])
          (Structural CodeRequiredFieldMissing ''reconstruction_job_manifest: recipient_key_id required'' None),
        chk (RJ_IssuedAt r = zero_time)
          (Structural CodeRequiredFieldMissing ''reconstruction_job_manifest: issued_at required'' None),
        chk (RJ_Deadline r = zero_time)
          (Structural CodeRequiredFieldMissing ''reconstruction_job_manifest: deadline required'' None),
        chk (\<not> RJ_Deadline r > RJ_IssuedAt r)
          (Structural CodeCrossFieldInconsistent ''reconstruction_job_manifest: deadline must be strictly after issued_at'' None),
        chk (RJ_SigningKeyID r = [])
          (Structural CodeRequiredFieldMissing ''reconstruction_job_manifest: signing_key_id required'' None),
        chk (RJ_Signature r = [])
          (Structural CodeRequiredFieldMissing ''reconstruction_job_manifest: signature required'' None)]"

definition ReconstructionJobManifest_fields :: "ReconstructionJobManifest \<Rightarrow> (string \<times> wire) list" where
  "ReconstructionJobManifest_fields r =
     [(''alg'', WOpt (RJ_Alg r)),
      (''deadline'', WTime (RJ_Deadline r)),
      (''disclosure_ids'', WStrs (RJ_DisclosureIDs r)),
      (''expected_output_kind'', WStr (RJ_ExpectedOutputKind r)),
      (''expected_output_max_bytes'', WNum (unat (RJ_ExpectedOutputMaxBytes r))),
      (''genome_id'', WStr (RJ_GenomeID r)),
      (''issued_at'', WTime (RJ_IssuedAt r)),
      (''manifest_id'', WStr (RJ_ManifestID r)),
      (''policy_version'', WStr (RJ_PolicyVersion r)),
      (''recipient_key_id'', WStr (RJ_RecipientKeyID r)),
      (''schema_version'', WNum (unat (RJ_SchemaVersion r))),
      (''session_id'', WStr (RJ_SessionID r)),
      (''signature'', WBytes (RJ_Signature r)),
      (''signing_key_id'', WStr (RJ_SigningKeyID r))]"

definition ReconstructionJobManifest_contract :: "ReconstructionJobManifest contract" where
  "ReconstructionJobManifest_contract =
     \<lparr>ct_Name = ''reconstruction_job_manifest'', ct_Purpose = PurposeSigningAuthority,
      ct_Validate = ReconstructionJobManifest_Validate, ct_Wire = ReconstructionJobManifest_fields,
      ct_KeyID = RJ_SigningKeyID, ct_Alg = RJ_Alg, ct_Sig = RJ_Signature,
      ct_SetAlg = (\<lambda>a r. r\<lparr>RJ_Alg := a\<rparr>), ct_SetSig = (\<lambda>s r. r\<lparr>RJ_Signature := s\<rparr>)\<rparr>"

definition ReconstructionJobManifest_CanonicalBytes :: "floats \<Rightarrow> ReconstructionJobManifest \<Rightarrow> go_error + bytes" where
  "ReconstructionJobManifest_CanonicalBytes = contract_CanonicalBytes ReconstructionJobManifest_contract"

definition ReconstructionJobManifest_SignWith :: "floats \<Rightarrow> ReconstructionJobManifest \<Rightarrow> Signer \<Rightarrow> go_error option \<times> ReconstructionJobManifest" where
  "ReconstructionJobManifest_SignWith = contract_SignWith ReconstructionJobManifest_contract"

definition ReconstructionJobManifest_VerifySignature ::
    "floats \<Rightarrow> prims \<Rightarrow> ReconstructionJobManifest \<Rightarrow> Resolver option \<Rightarrow> go_error option" where
  "ReconstructionJobManifest_VerifySignature = contract_VerifySignature ReconstructionJobManifest_contract"

interpretation reconstruction_job_manifest: contract_ring ring_ok fst ring_signer ring_resolver ReconstructionJobManifest_contract
  by unfold_locales
    (auto simp: ReconstructionJobManifest_contract_def ReconstructionJobManifest_fields_def shape_def contract_clean_def fields_ok_def word_unat_eq_iff
      intro: ReconstructionJobManifest.equality)

section \<open>Disclosure message\<close>

record DisclosureMessage =
  DM_SchemaVersion :: u16
  DM_DisclosureID :: string
  DM_SessionID :: string
  DM_ComponentID :: string
  DM_PolicyVersion :: string
  DM_SequenceIndex :: u32
  DM_SealedPayload :: bytes
  DM_Nonce :: bytes
  DM_RecipientKeyID :: KeyID
  DM_AuthorizedAt :: gotime
  DM_SigningKeyID :: KeyID
  DM_Alg :: SignatureSuite
  DM_Signature :: bytes

definition DisclosureMessage_Validate :: "DisclosureMessage \<Rightarrow> go_error option" where
  "DisclosureMessage_Validate r =
     first_err
       [schema_gate (DM_SchemaVersion r) ''disclosure_message'',
        chk (DM_DisclosureID r = [])
          (Structural CodeRequiredFieldMissing ''disclosure_message: disclosure_id required'' None),
        chk (DM_SessionID r = [])
          (Structural CodeRequiredFieldMissing ''disclosure_message: session_id required'' None),
        chk (DM_ComponentID r = [])
          (Structural CodeRequiredFieldMissing ''disclosure_message: component_id required'' None),
        chk (DM_PolicyVersion r = [])
          (Structural CodeRequiredFieldMissing ''disclosure_message: policy_version required'' None),
        chk (DM_SealedPayload r = [])
          (Structural CodeFieldValueInvalid ''disclosure_message: sealed_payload must be non-empty'' None),
        chk (length (DM_Nonce r) \<noteq> 12)
          (Structural CodeFieldValueInvalid ''disclosure_message: nonce must be exactly 12 bytes (AES-256-GCM)'' None),
        chk (DM_RecipientKeyID r = [])
          (Structural CodeRequiredFieldMissing ''disclosure_message: recipient_key_id required'' None),
        chk (DM_AuthorizedAt r = zero_time)
          (Structural CodeRequiredFieldMissing ''disclosure_message: authorized_at required'' None),
        chk (DM_SigningKeyID r = [])
          (Structural CodeRequiredFieldMissing ''disclosure_message: signing_key_id required'' None),
        chk (DM_Signature r = [])
          (Structural CodeRequiredFieldMissing ''disclosure_message: signature required'' None)]"

definition DisclosureMessage_fields :: "DisclosureMessage \<Rightarrow> (string \<times> wire) list" where
  "DisclosureMessage_fields r =
     [(''alg'', WOpt (DM_Alg r)),
      (''authorized_at'', WTime (DM_AuthorizedAt r)),
      (''component_id'', WStr (DM_ComponentID r)),
      (''disclosure_id'', WStr (DM_DisclosureID r)),
      (''nonce'', WBytes (DM_Nonce r)),
      (''policy_version'', WStr (DM_PolicyVersion r)),
      (''recipient_key_id'', WStr (DM_RecipientKeyID r)),
      (''schema_version'', WNum (unat (DM_SchemaVersion r))),
      (''sealed_payload'', WBytes (DM_SealedPayload r)),
      (''sequence_index'', WNum (unat (DM_SequenceIndex r))),
      (''session_id'', WStr (DM_SessionID r)),
      (''signature'', WBytes (DM_Signature r)),
      (''signing_key_id'', WStr (DM_SigningKeyID r))]"

definition DisclosureMessage_contract :: "DisclosureMessage contract" where
  "DisclosureMessage_contract =
     \<lparr>ct_Name = ''disclosure_message'', ct_Purpose = PurposeSigningAuthority,
      ct_Validate = DisclosureMessage_Validate, ct_Wire = DisclosureMessage_fields,
      ct_KeyID = DM_SigningKeyID, ct_Alg = DM_Alg, ct_Sig = DM_Signature,
      ct_SetAlg = (\<lambda>a r. r\<lparr>DM_Alg := a\<rparr>), ct_SetSig = (\<lambda>s r. r\<lparr>DM_Signature := s\<rparr>)\<rparr>"

definition DisclosureMessage_CanonicalBytes :: "floats \<Rightarrow> DisclosureMessage \<Rightarrow> go_error + bytes" where
  "DisclosureMessage_CanonicalBytes = contract_CanonicalBytes DisclosureMessage_contract"

definition DisclosureMessage_SignWith :: "floats \<Rightarrow> DisclosureMessage \<Rightarrow> Signer \<Rightarrow> go_error option \<times> DisclosureMessage" where
  "DisclosureMessage_SignWith = contract_SignWith DisclosureMessage_contract"

definition DisclosureMessage_VerifySignature ::
    "floats \<Rightarrow> prims \<Rightarrow> DisclosureMessage \<Rightarrow> Resolver option \<Rightarrow> go_error option" where
  "DisclosureMessage_VerifySignature = contract_VerifySignature DisclosureMessage_contract"

interpretation disclosure_message: contract_ring ring_ok fst ring_signer ring_resolver DisclosureMessage_contract
  by unfold_locales
    (auto simp: DisclosureMessage_contract_def DisclosureMessage_fields_def shape_def contract_clean_def fields_ok_def word_unat_eq_iff
      intro: DisclosureMessage.equality)

section \<open>Received disclosure\<close>

record ReceivedDisclosure =
  RD_SchemaVersion :: u16
  RD_ReceivedID :: string
  RD_BootstrapID :: string
  RD_SessionID :: string
  RD_DisclosureID :: string
  RD_ComponentID :: string
  RD_SequenceIndex :: u32
  RD_WireHash :: bytes
  RD_ReceivedAt :: gotime
  RD_AuditEventID :: string
  RD_SigningKeyID :: KeyID
  RD_Alg :: SignatureSuite
  RD_Signature :: bytes

definition ReceivedDisclosure_Validate :: "ReceivedDisclosure \<Rightarrow> go_error option" where
  "ReceivedDisclosure_Validate r =
     first_err
       [schema_gate (RD_SchemaVersion r) ''received_disclosure'',
        chk (RD_ReceivedID r = [])
          (Structural CodeRequiredFieldMissing ''received_disclosure: received_id required'' None),
        chk (RD_BootstrapID r = [])
          (Structural CodeRequiredFieldMissing ''received_disclosure: bootstrap_id required'' None),
        chk (RD_SessionID r = [])
          (Structural CodeRequiredFieldMissing ''received_disclosure: session_id required'' None),
        chk (RD_DisclosureID r = [])
          (Structural CodeRequiredFieldMissing ''received_disclosure: disclosure_id required'' None),
        chk (RD_ComponentID r = [])
          (Structural CodeRequiredFieldMissing ''received_disclosure: component_id required'' None),
        chk (length (RD_WireHash r) \<noteq> 32)
          (Structural CodeFieldValueInvalid ''received_disclosure: wire_hash must be exactly 32 bytes (SHA-256)'' None),
        chk (RD_ReceivedAt r = zero_time)
          (Structural CodeRequiredFieldMissing ''received_disclosure: received_at required'' None),
        chk (RD_AuditEventID r = [])
          (Structural CodeRequiredFieldMissing ''received_disclosure: audit_event_id required (un-evidenced acceptance is invalid)'' None),
        chk (RD_SigningKeyID r = [])
          (Structural CodeRequiredFieldMissing ''received_disclosure: signing_key_id required'' None),
        chk (RD_Signature r = [])
          (Structural CodeRequiredFieldMissing ''received_disclosure: signature required'' None)]"

definition ReceivedDisclosure_fields :: "ReceivedDisclosure \<Rightarrow> (string \<times> wire) list" where
  "ReceivedDisclosure_fields r =
     [(''alg'', WOpt (RD_Alg r)),
      (''audit_event_id'', WStr (RD_AuditEventID r)),
      (''bootstrap_id'', WStr (RD_BootstrapID r)),
      (''component_id'', WStr (RD_ComponentID r)),
      (''disclosure_id'', WStr (RD_DisclosureID r)),
      (''received_at'', WTime (RD_ReceivedAt r)),
      (''received_id'', WStr (RD_ReceivedID r)),
      (''schema_version'', WNum (unat (RD_SchemaVersion r))),
      (''sequence_index'', WNum (unat (RD_SequenceIndex r))),
      (''session_id'', WStr (RD_SessionID r)),
      (''signature'', WBytes (RD_Signature r)),
      (''signing_key_id'', WStr (RD_SigningKeyID r)),
      (''wire_hash'', WBytes (RD_WireHash r))]"

definition ReceivedDisclosure_contract :: "ReceivedDisclosure contract" where
  "ReceivedDisclosure_contract =
     \<lparr>ct_Name = ''received_disclosure'', ct_Purpose = PurposeSigningAuthority,
      ct_Validate = ReceivedDisclosure_Validate, ct_Wire = ReceivedDisclosure_fields,
      ct_KeyID = RD_SigningKeyID, ct_Alg = RD_Alg, ct_Sig = RD_Signature,
      ct_SetAlg = (\<lambda>a r. r\<lparr>RD_Alg := a\<rparr>), ct_SetSig = (\<lambda>s r. r\<lparr>RD_Signature := s\<rparr>)\<rparr>"

definition ReceivedDisclosure_CanonicalBytes :: "floats \<Rightarrow> ReceivedDisclosure \<Rightarrow> go_error + bytes" where
  "ReceivedDisclosure_CanonicalBytes = contract_CanonicalBytes ReceivedDisclosure_contract"

definition ReceivedDisclosure_SignWith :: "floats \<Rightarrow> ReceivedDisclosure \<Rightarrow> Signer \<Rightarrow> go_error option \<times> ReceivedDisclosure" where
  "ReceivedDisclosure_SignWith = contract_SignWith ReceivedDisclosure_contract"

definition ReceivedDisclosure_VerifySignature ::
    "floats \<Rightarrow> prims \<Rightarrow> ReceivedDisclosure \<Rightarrow> Resolver option \<Rightarrow> go_error option" where
  "ReceivedDisclosure_VerifySignature = contract_VerifySignature ReceivedDisclosure_contract"

interpretation received_disclosure: contract_ring ring_ok fst ring_signer ring_resolver ReceivedDisclosure_contract
  by unfold_locales
    (auto simp: ReceivedDisclosure_contract_def ReceivedDisclosure_fields_def shape_def contract_clean_def fields_ok_def word_unat_eq_iff
      intro: ReceivedDisclosure.equality)

section \<open>Reconstitution decision\<close>

record ReconstitutionDecision =
  RX_SchemaVersion :: u16
  RX_DecisionID :: string
  RX_BootstrapID :: string
  RX_SessionID :: string
  RX_GenomeID :: string
  RX_ValidationResultID :: string
  RX_Accepted :: bool
  RX_Reason :: string
  RX_DecidedAt :: gotime
  RX_SigningKeyID :: KeyID
  RX_Alg :: SignatureSuite
  RX_Signature :: bytes
  RX_AuditEventID :: string

abbreviation ReasonReconstructedOK :: string where
  "ReasonReconstructedOK \<equiv> ''reconstructed_ok''"
abbreviation ReasonReassemblyFailed :: string where
  "ReasonReassemblyFailed \<equiv> ''reassembly_failed''"
abbreviation ReasonValidationFailed :: string where
  "ReasonValidationFailed \<equiv> ''validation_failed''"

definition validReasons :: "string list" where
  "validReasons = [ReasonReconstructedOK, ReasonReassemblyFailed, ReasonValidationFailed]"

definition ReconstitutionDecision_Validate :: "ReconstitutionDecision \<Rightarrow> go_error option" where
  "ReconstitutionDecision_Validate r =
     first_err
       [schema_gate (RX_SchemaVersion r) ''reconstitution_decision'',
        chk (RX_DecisionID r = [])
          (Structural CodeRequiredFieldMissing ''reconstitution_decision: decision_id required'' None),
        chk (RX_BootstrapID r = [])
          (Structural CodeRequiredFieldMissing ''reconstitution_decision: bootstrap_id required'' None),
        chk (RX_SessionID r = [])
          (Structural CodeRequiredFieldMissing ''reconstitution_decision: session_id required'' None),
        chk (RX_GenomeID r = [])
          (Structural CodeRequiredFieldMissing ''reconstitution_decision: genome_id required'' None),
        chk (RX_ValidationResultID r = [])
          (Structural CodeRequiredFieldMissing ''reconstitution_decision: validation_result_id required (validation precedes reconstitution)'' None),
        chk (RX_Reason r \<notin> set validReasons)
          (Structural CodeFieldValueInvalid ''reconstitution_decision: unknown reason'' None),
        chk (RX_Reason r = ReasonReconstructedOK \<and> \<not> RX_Accepted r)
          (Structural CodeCrossFieldInconsistent ''reconstitution_decision: reason=reconstructed_ok requires accepted=true'' None),
        chk (RX_Reason r = ReasonReassemblyFailed \<and> RX_Accepted r)
          (Structural CodeCrossFieldInconsistent ''reconstitution_decision: reason=reassembly_failed requires accepted=false'' None),
        chk (RX_Reason r = ReasonValidationFailed \<and> RX_Accepted r)
          (Structural CodeCrossFieldInconsistent ''reconstitution_decision: reason=validation_failed requires accepted=false'' None),
        chk (RX_DecidedAt r = zero_time)
          (Structural CodeRequiredFieldMissing ''reconstitution_decision: decided_at required'' None),
        chk (RX_SigningKeyID r = [])
          (Structural CodeRequiredFieldMissing ''reconstitution_decision: signing_key_id required'' None),
        chk (RX_Signature r = [])
          (Structural CodeRequiredFieldMissing ''reconstitution_decision: signature required'' None),
        chk (RX_AuditEventID r = [])
          (Structural CodeRequiredFieldMissing ''reconstitution_decision: audit_event_id required (un-evidenced decisions are invalid)'' None)]"

definition ReconstitutionDecision_fields :: "ReconstitutionDecision \<Rightarrow> (string \<times> wire) list" where
  "ReconstitutionDecision_fields r =
     [(''accepted'', WBool (RX_Accepted r)),
      (''alg'', WOpt (RX_Alg r)),
      (''audit_event_id'', WStr (RX_AuditEventID r)),
      (''bootstrap_id'', WStr (RX_BootstrapID r)),
      (''decided_at'', WTime (RX_DecidedAt r)),
      (''decision_id'', WStr (RX_DecisionID r)),
      (''genome_id'', WStr (RX_GenomeID r)),
      (''reason'', WStr (RX_Reason r)),
      (''schema_version'', WNum (unat (RX_SchemaVersion r))),
      (''session_id'', WStr (RX_SessionID r)),
      (''signature'', WBytes (RX_Signature r)),
      (''signing_key_id'', WStr (RX_SigningKeyID r)),
      (''validation_result_id'', WStr (RX_ValidationResultID r))]"

definition ReconstitutionDecision_contract :: "ReconstitutionDecision contract" where
  "ReconstitutionDecision_contract =
     \<lparr>ct_Name = ''reconstitution_decision'', ct_Purpose = PurposeSigningAuthority,
      ct_Validate = ReconstitutionDecision_Validate, ct_Wire = ReconstitutionDecision_fields,
      ct_KeyID = RX_SigningKeyID, ct_Alg = RX_Alg, ct_Sig = RX_Signature,
      ct_SetAlg = (\<lambda>a r. r\<lparr>RX_Alg := a\<rparr>), ct_SetSig = (\<lambda>s r. r\<lparr>RX_Signature := s\<rparr>)\<rparr>"

definition ReconstitutionDecision_CanonicalBytes :: "floats \<Rightarrow> ReconstitutionDecision \<Rightarrow> go_error + bytes" where
  "ReconstitutionDecision_CanonicalBytes = contract_CanonicalBytes ReconstitutionDecision_contract"

definition ReconstitutionDecision_SignWith :: "floats \<Rightarrow> ReconstitutionDecision \<Rightarrow> Signer \<Rightarrow> go_error option \<times> ReconstitutionDecision" where
  "ReconstitutionDecision_SignWith = contract_SignWith ReconstitutionDecision_contract"

definition ReconstitutionDecision_VerifySignature ::
    "floats \<Rightarrow> prims \<Rightarrow> ReconstitutionDecision \<Rightarrow> Resolver option \<Rightarrow> go_error option" where
  "ReconstitutionDecision_VerifySignature = contract_VerifySignature ReconstitutionDecision_contract"

interpretation reconstitution_decision: contract_ring ring_ok fst ring_signer ring_resolver ReconstitutionDecision_contract
  by unfold_locales
    (auto simp: ReconstitutionDecision_contract_def ReconstitutionDecision_fields_def shape_def contract_clean_def fields_ok_def word_unat_eq_iff
      intro: ReconstitutionDecision.equality)

end
