(* ===== verification/Bootstrap.thy ===== *)
theory Bootstrap
  imports BootstrapStates BootstrapContracts AuditChain
begin

text \<open>
  The receive-side orchestrator (src/internal/bootstrap/orchestrator.go, agreement.go): it admits a
  manifest, accepts the disclosures one by one in the committed order, records each in the audit
  chain and in a signed receipt, and takes one signed decision. \<open>H\<close> is \<open>crypto.SHA256\<close>, \<open>F\<close> the float
  formatting of the canonical form, \<open>P\<close> the signature library, \<open>app\<close> the audit chain's \<open>Append\<close> on a
  chain state of any type, \<open>now\<close> the clock reading in UTC. The mutex makes each method one step: it
  maps the orchestrator to a result and the orchestrator as the call leaves it.
\<close>

unbundle bit_operations_syntax

section \<open>Agreement of the two manifests\<close>

fun position_digits :: "nat \<Rightarrow> string \<Rightarrow> string" where
  "position_digits n acc =
     (if n > 0 then position_digits (n div 10) (char_of (48 + n mod 10) # acc) else acc)"

declare position_digits.simps [simp del]

definition positionLabel :: "nat \<Rightarrow> string" where
  "positionLabel i = (if i = 0 then ''0'' else position_digits i [])"

fun agree_ids :: "nat \<Rightarrow> string list \<Rightarrow> string list \<Rightarrow> go_error option" where
  "agree_ids i (x # xs) (y # ys) =
     (if x \<noteq> y
      then Some (Structural ''bootstrap.agreement.disclosure_order_mismatch''
        (''bootstrap.agreement: expected_disclosure_ids differs from reconstruction_job_manifest.disclosure_ids at position '' @
         positionLabel i @ '' '' @ [CHR 0xE2, CHR 0x80, CHR 0x94] @ '' order is semantically significant'') None)
      else agree_ids (i + 1) xs ys)"
| "agree_ids i _ _ = None"

definition CheckAgreement ::
    "BootstrapManifest option \<Rightarrow> ReconstructionJobManifest option \<Rightarrow> go_error option" where
  "CheckAgreement bm rjm =
     (case (bm, rjm) of
        (None, _) \<Rightarrow> Some (Structural CodeRequiredFieldMissing ''bootstrap.agreement: bootstrap_manifest is nil'' None)
      | (_, None) \<Rightarrow> Some (Structural CodeRequiredFieldMissing
          ''bootstrap.agreement: reconstruction_job_manifest is nil'' None)
      | (Some b, Some r) \<Rightarrow>
          first_err
            [chk (BM_SessionID b \<noteq> RJ_SessionID r)
               (Structural ''bootstrap.agreement.session_mismatch''
                 ''bootstrap.agreement: session_id mismatch between bootstrap and reconstruction manifests'' None),
             chk (BM_ManifestID b \<noteq> RJ_ManifestID r)
               (Structural ''bootstrap.agreement.manifest_mismatch''
                 (''bootstrap.agreement: manifest_id mismatch '' @ [CHR 0xE2, CHR 0x80, CHR 0x94] @
                  '' bootstrap does not pin this reconstruction manifest'') None),
             chk (BM_PolicyVersion b \<noteq> RJ_PolicyVersion r)
               (Structural ''bootstrap.agreement.policy_mismatch''
                 ''bootstrap.agreement: policy_version mismatch between bootstrap and reconstruction manifests'' None),
             chk (BM_GenomeID b \<noteq> RJ_GenomeID r)
               (Structural ''bootstrap.agreement.genome_mismatch''
                 (''bootstrap.agreement: genome_id mismatch '' @ [CHR 0xE2, CHR 0x80, CHR 0x94] @
                  '' bootstrap does not reconstitute this release's genome'') None),
             chk (length (BM_ExpectedDisclosureIDs b) \<noteq> length (RJ_DisclosureIDs r))
               (Structural ''bootstrap.agreement.disclosure_len_mismatch''
                 ''bootstrap.agreement: expected_disclosure_ids length does not match reconstruction_job_manifest.disclosure_ids length'' None),
             agree_ids 0 (BM_ExpectedDisclosureIDs b) (RJ_DisclosureIDs r)])"

section \<open>The orchestrator\<close>

record 'c OrchestratorOptions =
  oo_Manifest :: "BootstrapManifest option"
  oo_JobManifest :: "ReconstructionJobManifest option"
  oo_ExpectedWireHashes :: "bytes list"
  oo_AuditChain :: "'c option"
  oo_AuditSigner :: "Signer option"
  oo_AuditKeyID :: KeyID
  oo_RecvAuthoritySigner :: "(Signer \<times> Resolver option) option"
  oo_RecvAuthorityKeyID :: KeyID
  oo_Clock :: "unit option"
  oo_AuditIDPrefix :: string
  oo_DisclosureIDPrefix :: string
  oo_DecisionIDPrefix :: string

text \<open>
  A signer that is also a \<open>keys.Resolver\<close>, which \<open>Start\<close> asks by a type assertion, carries its
  resolver beside it.
\<close>

record 'c Orchestrator =
  o_bm :: BootstrapManifest
  o_rjm :: ReconstructionJobManifest
  o_wireH :: "bytes list"
  o_chain :: 'c
  o_auditSigner :: Signer
  o_auditKID :: KeyID
  o_recvSigner :: Signer
  o_recvResolver :: "Resolver option"
  o_recvSigKID :: KeyID
  o_auditPrefix :: string
  o_discPrefix :: string
  o_decisionPrefix :: string
  o_state :: BState
  o_received :: "ReceivedDisclosure list"
  o_latchedReason :: "string option"
  o_latchedVRID :: string
  o_validatedVRID :: string
  o_decision :: "ReconstitutionDecision option"
  o_auditCtr :: u64
  o_discCtr :: u64

fun check_hash_sizes :: "nat \<Rightarrow> bytes list \<Rightarrow> go_error option" where
  "check_hash_sizes i [] = None"
| "check_hash_sizes i (h # hs) =
     (if length h \<noteq> HashSize
      then Some (Structural CodeFieldValueInvalid
        (''bootstrap.orchestrator: expected_wire_hashes['' @ positionLabel i @ ''] must be exactly 32 bytes (SHA-256)'') None)
      else check_hash_sizes (i + 1) hs)"

definition options_missing :: "'c OrchestratorOptions \<Rightarrow> go_error option" where
  "options_missing opts =
     first_err
       [chk (oo_Manifest opts = None) (Structural CodeRequiredFieldMissing ''bootstrap.orchestrator: manifest is required'' None),
        chk (oo_JobManifest opts = None) (Structural CodeRequiredFieldMissing ''bootstrap.orchestrator: job_manifest is required'' None),
        chk (case oo_AuditChain opts of None \<Rightarrow> True | Some c \<Rightarrow> False)
          (Structural CodeRequiredFieldMissing ''bootstrap.orchestrator: audit_chain is required'' None),
        chk (case oo_AuditSigner opts of None \<Rightarrow> True | Some sg \<Rightarrow> False)
          (Structural CodeRequiredFieldMissing ''bootstrap.orchestrator: audit_signer is required'' None),
        chk (oo_AuditKeyID opts = []) (Structural CodeRequiredFieldMissing ''bootstrap.orchestrator: audit_key_id is required'' None),
        chk (case oo_RecvAuthoritySigner opts of None \<Rightarrow> True | Some sg \<Rightarrow> False)
          (Structural CodeRequiredFieldMissing ''bootstrap.orchestrator: recv_authority_signer is required'' None),
        chk (oo_RecvAuthorityKeyID opts = [])
          (Structural CodeRequiredFieldMissing ''bootstrap.orchestrator: recv_authority_key_id is required'' None),
        chk (oo_Clock opts = None) (Structural CodeRequiredFieldMissing ''bootstrap.orchestrator: clock is required'' None)]"

definition or_default :: "string \<Rightarrow> string \<Rightarrow> string" where
  "or_default s d = (if s = [] then d else s)"

definition NewOrchestrator :: "'c OrchestratorOptions \<Rightarrow> go_error + 'c Orchestrator" where
  "NewOrchestrator opts =
     guardR (options_missing opts)
       (let bm = the (oo_Manifest opts)
        in guardR
             (first_err
               [chk (length (oo_ExpectedWireHashes opts) \<noteq> length (BM_ExpectedDisclosureIDs bm))
                  (Structural CodeCrossFieldInconsistent
                    ''bootstrap.orchestrator: expected_wire_hashes length must equal manifest.expected_disclosure_ids length'' None),
                check_hash_sizes 0 (oo_ExpectedWireHashes opts)])
             (Inr
               \<lparr>o_bm = bm, o_rjm = the (oo_JobManifest opts), o_wireH = oo_ExpectedWireHashes opts,
                o_chain = the (oo_AuditChain opts), o_auditSigner = the (oo_AuditSigner opts),
                o_auditKID = oo_AuditKeyID opts, o_recvSigner = fst (the (oo_RecvAuthoritySigner opts)),
                o_recvResolver = snd (the (oo_RecvAuthoritySigner opts)),
                o_recvSigKID = oo_RecvAuthorityKeyID opts,
                o_auditPrefix = or_default (oo_AuditIDPrefix opts) ''audit-recv-'',
                o_discPrefix = or_default (oo_DisclosureIDPrefix opts) ''recv-disclosure-'',
                o_decisionPrefix = or_default (oo_DecisionIDPrefix opts) ''recv-decision-'',
                o_state = BStateUnstarted, o_received = [], o_latchedReason = None, o_latchedVRID = [],
                o_validatedVRID = [], o_decision = None, o_auditCtr = 0, o_discCtr = 0\<rparr>))"

definition Orchestrator_State :: "'c Orchestrator \<Rightarrow> BState" where
  "Orchestrator_State orc = o_state orc"

definition ReceivedCount :: "'c Orchestrator \<Rightarrow> nat" where
  "ReceivedCount orc = length (o_received orc)"

definition Received :: "'c Orchestrator \<Rightarrow> ReceivedDisclosure list" where
  "Received orc = o_received orc"

definition Decision :: "'c Orchestrator \<Rightarrow> ReconstitutionDecision option" where
  "Decision orc = o_decision orc"

definition latchRejection :: "string \<Rightarrow> string \<Rightarrow> 'c Orchestrator \<Rightarrow> 'c Orchestrator" where
  "latchRejection reason vrid orc =
     (let orc1 = (if o_latchedReason orc = None
                then orc\<lparr>o_latchedReason := Some reason, o_latchedVRID := vrid\<rparr> else orc)
      in orc1\<lparr>o_state := BStateRejected\<rparr>)"

fun manifest_contains :: "string list \<Rightarrow> string \<Rightarrow> bool" where
  "manifest_contains [] did = False"
| "manifest_contains (x # xs) did = (if x = did then True else manifest_contains xs did)"

definition manifestContainsDisclosure :: "'c Orchestrator \<Rightarrow> string \<Rightarrow> bool" where
  "manifestContainsDisclosure orc did = manifest_contains (BM_ExpectedDisclosureIDs (o_bm orc)) did"

section \<open>Audit payloads\<close>

definition encode_payload :: "floats \<Rightarrow> (string \<times> wire) list \<Rightarrow> go_error + bytes" where
  "encode_payload F ws =
     (case CanonicalJSON F (marshal_wire ws) of
        Inl err \<Rightarrow> Inl (Structural CodeFieldValueInvalid
          ''bootstrap.orchestrator: audit payload encode failed'' (Some err))
      | Inr b \<Rightarrow> Inr b)"

definition buildDisclosureReceivedPayload ::
    "floats \<Rightarrow> BootstrapManifest \<Rightarrow> DisclosureMessage \<Rightarrow> bytes \<Rightarrow> u32 \<Rightarrow> go_error + bytes" where
  "buildDisclosureReceivedPayload F bm msg wireHash slot =
     encode_payload F
       [(''bootstrap_id'', WStr (BM_BootstrapID bm)),
        (''component_id'', WStr (DM_ComponentID msg)),
        (''disclosure_id'', WStr (DM_DisclosureID msg)),
        (''manifest_id'', WStr (BM_ManifestID bm)),
        (''policy_version'', WStr (DM_PolicyVersion msg)),
        (''sequence_index'', WNum (unat slot)),
        (''session_id'', WStr (DM_SessionID msg)),
        (''wire_hash'', WStr (hex_encode wireHash))]"

definition buildReconstitutionDecidedPayload ::
    "floats \<Rightarrow> BootstrapManifest \<Rightarrow> ReconstitutionDecision \<Rightarrow> go_error + bytes" where
  "buildReconstitutionDecidedPayload F bm rd =
     encode_payload F
       [(''accepted'', WBool (RX_Accepted rd)),
        (''bootstrap_id'', WStr (RX_BootstrapID rd)),
        (''decision_id'', WStr (RX_DecisionID rd)),
        (''genome_id'', WStr (RX_GenomeID rd)),
        (''manifest_id'', WStr (BM_ManifestID bm)),
        (''reason'', WStr (RX_Reason rd)),
        (''session_id'', WStr (RX_SessionID rd)),
        (''validation_result_id'', WStr (RX_ValidationResultID rd))]"

definition audit_skeleton ::
    "'c Orchestrator \<Rightarrow> string \<Rightarrow> string \<Rightarrow> gotime \<Rightarrow> string \<Rightarrow> bytes \<Rightarrow> AuditEvent" where
  "audit_skeleton orc tag kind now session payload =
     \<lparr>AE_SchemaVersion = 9,
      AE_EventID = o_auditPrefix orc @ tag @ hex_encode (counterBytes (o_auditCtr orc)),
      AE_Kind = kind, AE_OccurredAt = now, AE_SessionID = session,
      AE_ManifestID = BM_ManifestID (o_bm orc), AE_RequestID = [], AE_Payload = payload,
      AE_PrevHash = [], AE_Hash = [], AE_SigningKeyID = o_auditKID orc, AE_Alg = [], AE_Signature = []\<rparr>"

section \<open>The methods\<close>

definition Start :: "floats \<Rightarrow> prims \<Rightarrow> 'c Orchestrator \<Rightarrow> go_error option \<times> 'c Orchestrator" where
  "Start F P orc =
     (if o_state orc \<noteq> BStateUnstarted
      then (Some (Structural ''bootstrap.already_started'' ''bootstrap.orchestrator: Start called twice'' None), orc)
      else (case first_err
                  [BootstrapManifest_Validate (o_bm orc),
                   (case o_recvResolver orc of
                      None \<Rightarrow> None
                    | Some res \<Rightarrow> BootstrapManifest_VerifySignature F P (o_bm orc) (Some res)),
                   CheckAgreement (Some (o_bm orc)) (Some (o_rjm orc))] of
              Some err \<Rightarrow> (Some err, orc)
            | None \<Rightarrow> (None, orc\<lparr>o_state := BStateIngress\<rparr>)))"

text \<open>The checks of \<open>Accept\<close> on a message for a slot that exists, in order.\<close>

definition accept_checks :: "'c Orchestrator \<Rightarrow> DisclosureMessage \<Rightarrow> nat \<Rightarrow> go_error option" where
  "accept_checks orc msg slot =
     first_err
       [chk (DM_SessionID msg \<noteq> BM_SessionID (o_bm orc))
          (Structural ''bootstrap.accept.session_mismatch''
            ''bootstrap.orchestrator: disclosure session_id does not match bootstrap manifest'' None),
        chk (DM_PolicyVersion msg \<noteq> BM_PolicyVersion (o_bm orc))
          (Structural ''bootstrap.accept.policy_mismatch''
            ''bootstrap.orchestrator: disclosure policy_version does not match bootstrap manifest'' None),
        chk (DM_DisclosureID msg \<noteq> BM_ExpectedDisclosureIDs (o_bm orc) ! slot)
          (if manifestContainsDisclosure orc (DM_DisclosureID msg)
           then Structural ''bootstrap.accept.out_of_order''
             (''bootstrap.orchestrator: disclosure '' @ DM_DisclosureID msg @
              '' is expected but not at slot '' @ positionLabel slot) None
           else Structural ''bootstrap.accept.disclosure_not_expected''
             (''bootstrap.orchestrator: disclosure '' @ DM_DisclosureID msg @
              '' is not in ExpectedDisclosureIDs'') None),
        chk (DM_ComponentID msg \<noteq> BM_ExpectedComponentIDs (o_bm orc) ! slot)
          (Structural ''bootstrap.accept.component_mismatch''
            ''bootstrap.orchestrator: disclosure component_id does not match manifest slot'' None),
        chk (of_nat slot \<noteq> DM_SequenceIndex msg)
          (Structural ''bootstrap.accept.sequence_mismatch''
            ''bootstrap.orchestrator: disclosure sequence_index does not match arrival slot'' None)]"

text \<open>What an accepted message leaves: the audit event and the signed receipt for its slot.\<close>

definition accept_record ::
    "'c appender \<Rightarrow> floats \<Rightarrow> 'c Orchestrator \<Rightarrow> DisclosureMessage \<Rightarrow> nat \<Rightarrow> bytes \<Rightarrow> gotime \<Rightarrow>
     (go_error + ReceivedDisclosure) \<times> 'c Orchestrator" where
  "accept_record app F orc msg slot actualHash now =
     (case buildDisclosureReceivedPayload F (o_bm orc) msg actualHash (of_nat slot) of
        Inl err \<Rightarrow> (Inl err, orc)
      | Inr payload \<Rightarrow>
          let orc1 = orc\<lparr>o_auditCtr := o_auditCtr orc + 1\<rparr>
          in (case app (o_chain orc1)
                    (audit_skeleton orc1 ''disc-'' ''DISCLOSURE_RECEIVED'' now (DM_SessionID msg) payload)
                    (Some (o_auditSigner orc1)) of
                (Inl err, c) \<Rightarrow> (Inl err, orc1\<lparr>o_chain := c\<rparr>)
              | (Inr sealed, c) \<Rightarrow>
                  let orc2 = orc1\<lparr>o_chain := c, o_discCtr := o_discCtr orc1 + 1\<rparr>;
                      rd = \<lparr>RD_SchemaVersion = 1,
                            RD_ReceivedID = o_discPrefix orc2 @ hex_encode (counterBytes (o_discCtr orc2)),
                            RD_BootstrapID = BM_BootstrapID (o_bm orc2), RD_SessionID = DM_SessionID msg,
                            RD_DisclosureID = DM_DisclosureID msg, RD_ComponentID = DM_ComponentID msg,
                            RD_SequenceIndex = of_nat slot, RD_WireHash = actualHash, RD_ReceivedAt = now,
                            RD_AuditEventID = AE_EventID sealed, RD_SigningKeyID = o_recvSigKID orc2,
                            RD_Alg = [], RD_Signature = []\<rparr>
                  in (case ReceivedDisclosure_SignWith F rd (o_recvSigner orc2) of
                        (Some err, rd') \<Rightarrow> (Inl err, orc2)
                      | (None, rd') \<Rightarrow>
                          (case ReceivedDisclosure_Validate rd' of
                             Some err \<Rightarrow> (Inl err, orc2)
                           | None \<Rightarrow>
                               let orc3 = orc2\<lparr>o_received := o_received orc2 @ [rd']\<rparr>
                               in (Inr rd',
                                   if length (o_received orc3) = length (BM_ExpectedDisclosureIDs (o_bm orc3))
                                   then orc3\<lparr>o_state := BStateReassemble\<rparr> else orc3)))))"

text \<open>A message accepted or refused: every refusal of a message latches the rejection.\<close>

definition accept_message ::
    "'c appender \<Rightarrow> (bytes \<Rightarrow> bytes) \<Rightarrow> floats \<Rightarrow> 'c Orchestrator \<Rightarrow> DisclosureMessage \<Rightarrow> gotime \<Rightarrow>
     (go_error + ReceivedDisclosure) \<times> 'c Orchestrator" where
  "accept_message app H F orc msg now =
     (case DisclosureMessage_Validate msg of
        Some err \<Rightarrow> (Inl err, orc)
      | None \<Rightarrow>
          let slot = length (o_received orc)
          in if slot \<ge> length (BM_ExpectedDisclosureIDs (o_bm orc))
             then (Inl (Structural ''bootstrap.accept.out_of_order''
                     ''bootstrap.orchestrator: accepted more disclosures than expected'' None), orc)
             else (case accept_checks orc msg slot of
                     Some err \<Rightarrow> (Inl err, orc)
                   | None \<Rightarrow>
                       (case DisclosureMessage_CanonicalBytes F msg of
                          Inl err \<Rightarrow> (Inl err, orc)
                        | Inr cb \<Rightarrow>
                            if H cb \<noteq> o_wireH orc ! slot
                            then (Inl (Integrity ''bootstrap.accept.wire_hash_mismatch''
                                    (''bootstrap.orchestrator: disclosure wire-hash does not match committed hash for slot '' @
                                     positionLabel slot) None), orc)
                            else accept_record app F orc msg slot (H cb) now)))"

definition Accept ::
    "'c appender \<Rightarrow> (bytes \<Rightarrow> bytes) \<Rightarrow> floats \<Rightarrow> 'c Orchestrator \<Rightarrow> DisclosureMessage option \<Rightarrow> gotime \<Rightarrow>
     (go_error + ReceivedDisclosure) \<times> 'c Orchestrator" where
  "Accept app H F orc msg now =
     (if o_state orc \<noteq> BStateIngress
      then (Inl (Structural ''bootstrap.accept_wrong_state''
              (''bootstrap.orchestrator: Accept is only legal in StateIngress; current state is '' @
               BState_String (o_state orc)) None), orc)
      else (case msg of
              None \<Rightarrow> (Inl (Structural CodeRequiredFieldMissing
                ''bootstrap.orchestrator: disclosure message is nil'' None), orc)
            | Some m \<Rightarrow>
                (case accept_message app H F orc m now of
                   (Inl err, orc') \<Rightarrow> (Inl err, latchRejection ReasonReassemblyFailed [] orc')
                 | (Inr rd, orc') \<Rightarrow> (Inr rd, orc'))))"

definition wrong_state :: "string \<Rightarrow> string \<Rightarrow> BState \<Rightarrow> go_error" where
  "wrong_state method legal s =
     Structural ''bootstrap.illegal_transition''
       (''bootstrap.orchestrator: '' @ method @ '' legal only in '' @ legal @ ''; current state is '' @ BState_String s) None"

definition MarkReassembled :: "'c Orchestrator \<Rightarrow> go_error option \<times> 'c Orchestrator" where
  "MarkReassembled orc =
     (if o_state orc \<noteq> BStateReassemble
      then (Some (wrong_state ''MarkReassembled'' ''StateReassemble'' (o_state orc)), orc)
      else (None, orc\<lparr>o_state := BStateValidate\<rparr>))"

definition MarkReassemblyFailed :: "'c Orchestrator \<Rightarrow> go_error option \<times> 'c Orchestrator" where
  "MarkReassemblyFailed orc =
     (if o_state orc \<noteq> BStateReassemble
      then (Some (wrong_state ''MarkReassemblyFailed'' ''StateReassemble'' (o_state orc)), orc)
      else (None, latchRejection ReasonReassemblyFailed [] orc))"

definition MarkValidated :: "'c Orchestrator \<Rightarrow> string \<Rightarrow> go_error option \<times> 'c Orchestrator" where
  "MarkValidated orc vrid =
     (if o_state orc \<noteq> BStateValidate
      then (Some (wrong_state ''MarkValidated'' ''StateValidate'' (o_state orc)), orc)
      else if vrid = []
      then (Some (Structural CodeRequiredFieldMissing
              ''bootstrap.orchestrator: validation_result_id required on MarkValidated'' None), orc)
      else (None, orc\<lparr>o_validatedVRID := vrid, o_state := BStateReady\<rparr>))"

definition MarkValidationFailed :: "'c Orchestrator \<Rightarrow> string \<Rightarrow> go_error option \<times> 'c Orchestrator" where
  "MarkValidationFailed orc vrid =
     (if o_state orc \<noteq> BStateValidate
      then (Some (wrong_state ''MarkValidationFailed'' ''StateValidate'' (o_state orc)), orc)
      else if vrid = []
      then (Some (Structural CodeRequiredFieldMissing
              ''bootstrap.orchestrator: validation_result_id required on MarkValidationFailed'' None), orc)
      else (None, latchRejection ReasonValidationFailed vrid orc))"

text \<open>The verdict a state stands for: accepted, reason and validation result.\<close>

definition verdict :: "'c Orchestrator \<Rightarrow> go_error + bool \<times> string \<times> string" where
  "verdict orc =
     (case o_state orc of
        BStateReady \<Rightarrow>
          if o_validatedVRID orc = []
          then Inl (Structural CodeCrossFieldInconsistent
            ''bootstrap.orchestrator: StateReady reached without validated ValidationResultID'' None)
          else Inr (True, ReasonReconstructedOK, o_validatedVRID orc)
      | BStateRejected \<Rightarrow>
          (case o_latchedReason orc of
             None \<Rightarrow> Inl (Structural CodeCrossFieldInconsistent
               ''bootstrap.orchestrator: StateRejected without latched reason'' None)
           | Some reason \<Rightarrow>
               Inr (False, reason,
                 if o_latchedVRID orc = [] then ''vr-recv-noop-'' @ BM_BootstrapID (o_bm orc)
                 else o_latchedVRID orc))
      | _ \<Rightarrow> Inl (wrong_state ''Decide'' ''StateReady or StateRejected'' (o_state orc)))"

text \<open>The unsigned decision.\<close>

definition decision_draft ::
    "'c Orchestrator \<Rightarrow> bool \<Rightarrow> string \<Rightarrow> string \<Rightarrow> gotime \<Rightarrow> ReconstitutionDecision" where
  "decision_draft orc accepted reason vrid now =
     \<lparr>RX_SchemaVersion = 1,
      RX_DecisionID = o_decisionPrefix orc @ hex_encode (counterBytes 1) @ ''-'' @ BM_BootstrapID (o_bm orc),
      RX_BootstrapID = BM_BootstrapID (o_bm orc), RX_SessionID = BM_SessionID (o_bm orc),
      RX_GenomeID = BM_GenomeID (o_bm orc), RX_ValidationResultID = vrid,
      RX_Accepted = accepted, RX_Reason = reason, RX_DecidedAt = now,
      RX_SigningKeyID = o_recvSigKID orc, RX_Alg = [], RX_Signature = [], RX_AuditEventID = []\<rparr>"

definition Decide ::
    "'c appender \<Rightarrow> floats \<Rightarrow> 'c Orchestrator \<Rightarrow> gotime \<Rightarrow>
     (go_error + ReconstitutionDecision) \<times> 'c Orchestrator" where
  "Decide app F orc now =
     (if o_decision orc \<noteq> None
      then (Inl (Structural ''bootstrap.already_decided''
              ''bootstrap.orchestrator: Decide called after terminal decision'' None), orc)
      else (case verdict orc of
        Inl err \<Rightarrow> (Inl err, orc)
      | Inr (accepted, reason, vrid) \<Rightarrow>
          let rd = decision_draft orc accepted reason vrid now
          in (case buildReconstitutionDecidedPayload F (o_bm orc) rd of
                Inl err \<Rightarrow> (Inl err, orc)
              | Inr payload \<Rightarrow>
                  let orc1 = orc\<lparr>o_auditCtr := o_auditCtr orc + 1\<rparr>
                  in (case app (o_chain orc1)
                            (audit_skeleton orc1 ''dec-'' ''RECONSTITUTION_DECIDED'' now (BM_SessionID (o_bm orc1)) payload)
                            (Some (o_auditSigner orc1)) of
                        (Inl err, c) \<Rightarrow> (Inl err, orc1\<lparr>o_chain := c\<rparr>)
                      | (Inr sealed, c) \<Rightarrow>
                          let orc2 = orc1\<lparr>o_chain := c\<rparr>
                          in (case ReconstitutionDecision_SignWith F (rd\<lparr>RX_AuditEventID := AE_EventID sealed\<rparr>)
                                     (o_recvSigner orc2) of
                                (Some err, rd') \<Rightarrow> (Inl err, orc2)
                              | (None, rd') \<Rightarrow>
                                  (case ReconstitutionDecision_Validate rd' of
                                     Some err \<Rightarrow> (Inl err, orc2)
                                   | None \<Rightarrow>
                                       let orc3 = orc2\<lparr>o_decision := Some rd'\<rparr>
                                       in (Inr rd', if accepted then orc3\<lparr>o_state := BStateReconstituted\<rparr> else orc3)))))))"

end
