(* ===== verification/BootstrapProofs.thy ===== *)
theory BootstrapProofs
  imports Bootstrap
begin

text \<open>
  The behaviour of the receive-side orchestrator over any sequence of calls: what every reachable
  orchestrator looks like (\<open>orch_inv\<close>), that its state moves along the transition table, that a
  decision is final, and that everything it accepted or decided is in the audit chain (the locale
  \<open>audit_recorder\<close>, which a chain's \<open>Append\<close> interprets).
\<close>

datatype call =
    CallStart
  | CallAccept "DisclosureMessage option" gotime
  | CallMarkReassembled
  | CallMarkReassemblyFailed
  | CallMarkValidated string
  | CallMarkValidationFailed string
  | CallDecide gotime

fun orch_call ::
    "'c appender \<Rightarrow> (bytes \<Rightarrow> bytes) \<Rightarrow> floats \<Rightarrow> prims \<Rightarrow> 'c Orchestrator \<Rightarrow> call \<Rightarrow> 'c Orchestrator" where
  "orch_call app H F P orc CallStart = snd (Start F P orc)"
| "orch_call app H F P orc (CallAccept msg now) = snd (Accept app H F orc msg now)"
| "orch_call app H F P orc CallMarkReassembled = snd (MarkReassembled orc)"
| "orch_call app H F P orc CallMarkReassemblyFailed = snd (MarkReassemblyFailed orc)"
| "orch_call app H F P orc (CallMarkValidated vrid) = snd (MarkValidated orc vrid)"
| "orch_call app H F P orc (CallMarkValidationFailed vrid) = snd (MarkValidationFailed orc vrid)"
| "orch_call app H F P orc (CallDecide now) = snd (Decide app F orc now)"

definition orch_run ::
    "'c appender \<Rightarrow> (bytes \<Rightarrow> bytes) \<Rightarrow> floats \<Rightarrow> prims \<Rightarrow> 'c Orchestrator \<Rightarrow> call list \<Rightarrow> 'c Orchestrator" where
  "orch_run app H F P orc calls = foldl (orch_call app H F P) orc calls"

lemma orch_run_simps [simp]:
  "orch_run app H F P orc [] = orc"
  "orch_run app H F P orc (c # cs) = orch_run app H F P (orch_call app H F P orc c) cs"
  by (simp_all add: orch_run_def)

lemma orch_run_append:
  "orch_run app H F P orc (cs @ ds) = orch_run app H F P (orch_run app H F P orc cs) ds"
  by (simp add: orch_run_def)

text \<open>An invariant of every call holds after every run.\<close>

lemma orch_run_induct:
  assumes "I orc" "\<And>o1 c. I o1 \<Longrightarrow> I (orch_call app H F P o1 c)"
  shows "I (orch_run app H F P orc calls)"
  using assms(1) by (induction calls arbitrary: orc) (auto intro: assms(2))

section \<open>Small loops\<close>

lemma manifest_contains_iff: "manifest_contains xs x \<longleftrightarrow> x \<in> set xs"
  by (induction xs) auto

lemma position_digits_pos: "n > 0 \<Longrightarrow> position_digits n acc = digits_acc n acc"
proof (induction n arbitrary: acc rule: less_induct)
  case (less n)
  show ?case
  proof (cases "n < 10")
    case True
    with less.prems show ?thesis
      by (simp add: position_digits.simps [of n] position_digits.simps [of 0] digits_acc.simps [of n] Let_def)
  next
    case False
    with less.IH [of "n div 10"] less.prems show ?thesis
      by (simp add: position_digits.simps [of n] digits_acc.simps [of n] Let_def)
  qed
qed

lemma positionLabel_decimal: "positionLabel i = fmt_d i"
proof (cases "i = 0")
  case True
  have "fmt_d 0 = ''0''" by code_simp
  with True show ?thesis by (simp add: positionLabel_def)
qed (simp add: positionLabel_def fmt_d_def position_digits_pos)

lemma agree_ids_None:
  "length xs = length ys \<Longrightarrow> agree_ids i xs ys = None \<longleftrightarrow> xs = ys"
  by (induction xs ys arbitrary: i rule: list_induct2) auto

lemma CheckAgreement_None:
  "CheckAgreement (Some b) (Some r) = None \<longleftrightarrow>
     BM_SessionID b = RJ_SessionID r \<and> BM_ManifestID b = RJ_ManifestID r \<and>
     BM_PolicyVersion b = RJ_PolicyVersion r \<and> BM_GenomeID b = RJ_GenomeID r \<and>
     BM_ExpectedDisclosureIDs b = RJ_DisclosureIDs r"
  by (auto simp: CheckAgreement_def agree_ids_None)

lemma check_hash_sizes_None: "check_hash_sizes i hs = None \<longleftrightarrow> (\<forall>h \<in> set hs. length h = HashSize)"
  by (induction hs arbitrary: i) auto

lemma scan_slots_None:
  "scan_slots seen slots = None \<Longrightarrow>
   distinct (map fst slots) \<and> fst ` set slots \<inter> seen = {} \<and> (\<forall>(d, c) \<in> set slots. d \<noteq> [] \<and> c \<noteq> [])"
  by (induction seen slots rule: scan_slots.induct) (auto split: if_splits)

lemma BootstrapManifest_Validate_ok:
  assumes "BootstrapManifest_Validate b = None"
  shows "BM_ExpectedDisclosureIDs b \<noteq> []" "length (BM_ExpectedComponentIDs b) = length (BM_ExpectedDisclosureIDs b)"
    "distinct (BM_ExpectedDisclosureIDs b)" "BM_BootstrapID b \<noteq> []" "BM_SessionID b \<noteq> []" "BM_GenomeID b \<noteq> []"
proof -
  from assms have a: "length (BM_ExpectedComponentIDs b) = length (BM_ExpectedDisclosureIDs b)"
      "scan_slots {} (zip (BM_ExpectedDisclosureIDs b) (BM_ExpectedComponentIDs b)) = None"
      "BM_ExpectedDisclosureIDs b \<noteq> []" "BM_BootstrapID b \<noteq> []" "BM_SessionID b \<noteq> []" "BM_GenomeID b \<noteq> []"
    by (auto simp: BootstrapManifest_Validate_def)
  from scan_slots_None [OF a(2)] a show "BM_ExpectedDisclosureIDs b \<noteq> []"
      "length (BM_ExpectedComponentIDs b) = length (BM_ExpectedDisclosureIDs b)"
      "distinct (BM_ExpectedDisclosureIDs b)" "BM_BootstrapID b \<noteq> []" "BM_SessionID b \<noteq> []" "BM_GenomeID b \<noteq> []"
    by simp_all
qed

section \<open>What Accept leaves\<close>

text \<open>The parts of an orchestrator that only bookkeeping changes.\<close>

definition settled :: "'c Orchestrator \<Rightarrow> 'c Orchestrator \<Rightarrow> bool" where
  "settled orc orc' \<longleftrightarrow>
     orc' = orc\<lparr>o_chain := o_chain orc', o_auditCtr := o_auditCtr orc', o_discCtr := o_discCtr orc'\<rparr>"

text \<open>A receipt for one slot of the manifest: right disclosure, component, position and wire hash.\<close>

definition receipt_for :: "'c Orchestrator \<Rightarrow> nat \<Rightarrow> ReceivedDisclosure \<Rightarrow> bool" where
  "receipt_for orc k rd \<longleftrightarrow>
     RD_DisclosureID rd = BM_ExpectedDisclosureIDs (o_bm orc) ! k \<and>
     RD_ComponentID rd = BM_ExpectedComponentIDs (o_bm orc) ! k \<and>
     RD_WireHash rd = o_wireH orc ! k \<and> RD_SequenceIndex rd = of_nat k \<and>
     RD_SessionID rd = BM_SessionID (o_bm orc) \<and> RD_BootstrapID rd = BM_BootstrapID (o_bm orc) \<and>
     RD_SigningKeyID rd = o_recvSigKID orc \<and> ReceivedDisclosure_Validate rd = None"

lemma ReceivedDisclosure_SignWith_fields:
  assumes "ReceivedDisclosure_SignWith F rd sg = (None, rd')"
  shows "\<exists>alg sig. rd' = rd\<lparr>RD_Alg := alg, RD_Signature := sig\<rparr>"
  using received_disclosure.SignWith_ok_shape [of F rd sg rd'] assms
  by (auto simp: ReceivedDisclosure_SignWith_def ReceivedDisclosure_contract_def)

lemma ReconstitutionDecision_SignWith_fields:
  assumes "ReconstitutionDecision_SignWith F rd sg = (None, rd')"
  shows "\<exists>alg sig. rd' = rd\<lparr>RX_Alg := alg, RX_Signature := sig\<rparr>"
  using reconstitution_decision.SignWith_ok_shape [of F rd sg rd'] assms
  by (auto simp: ReconstitutionDecision_SignWith_def ReconstitutionDecision_contract_def)

lemma accept_record_error:
  "accept_record app F orc msg slot h now = (Inl err, orc') \<Longrightarrow> settled orc orc'"
  by (auto simp: accept_record_def settled_def Let_def split: sum.splits prod.splits option.splits if_splits)

lemma accept_record_ok:
  assumes "accept_record app F orc msg slot h now = (Inr rd, orc')"
  obtains payload sealed c skel rd0 where
    "skel = audit_skeleton (orc\<lparr>o_auditCtr := o_auditCtr orc + 1\<rparr>) ''disc-'' ''DISCLOSURE_RECEIVED'' now
       (DM_SessionID msg) payload"
    "app (o_chain orc) skel (Some (o_auditSigner orc)) = (Inr sealed, c)"
    "ReceivedDisclosure_SignWith F rd0 (o_recvSigner orc) = (None, rd)"
    "ReceivedDisclosure_Validate rd = None"
    "RD_BootstrapID rd = BM_BootstrapID (o_bm orc)" "RD_SessionID rd = DM_SessionID msg"
    "RD_DisclosureID rd = DM_DisclosureID msg" "RD_ComponentID rd = DM_ComponentID msg"
    "RD_SequenceIndex rd = of_nat slot" "RD_WireHash rd = h" "RD_AuditEventID rd = AE_EventID sealed"
    "RD_SigningKeyID rd = o_recvSigKID orc"
    "orc' = orc\<lparr>o_chain := c, o_auditCtr := o_auditCtr orc + 1, o_discCtr := o_discCtr orc + 1,
       o_received := o_received orc @ [rd],
       o_state := (if length (o_received orc) + 1 = length (BM_ExpectedDisclosureIDs (o_bm orc))
                   then BStateReassemble else o_state orc)\<rparr>"
proof -
  obtain payload where p: "buildDisclosureReceivedPayload F (o_bm orc) msg h (of_nat slot) = Inr payload"
    using assms by (auto simp: accept_record_def Let_def split: sum.splits)
  obtain sealed c where a: "app (o_chain orc)
      (audit_skeleton (orc\<lparr>o_auditCtr := o_auditCtr orc + 1\<rparr>) ''disc-'' ''DISCLOSURE_RECEIVED'' now
        (DM_SessionID msg) payload) (Some (o_auditSigner orc)) = (Inr sealed, c)"
    using assms p by (auto simp: accept_record_def Let_def split: sum.splits prod.splits)
  define rd0 where "rd0 = \<lparr>RD_SchemaVersion = 1,
      RD_ReceivedID = o_discPrefix orc @ hex_encode (counterBytes (o_discCtr orc + 1)),
      RD_BootstrapID = BM_BootstrapID (o_bm orc), RD_SessionID = DM_SessionID msg,
      RD_DisclosureID = DM_DisclosureID msg, RD_ComponentID = DM_ComponentID msg,
      RD_SequenceIndex = of_nat slot, RD_WireHash = h, RD_ReceivedAt = now,
      RD_AuditEventID = AE_EventID sealed, RD_SigningKeyID = o_recvSigKID orc,
      RD_Alg = [], RD_Signature = []\<rparr>"
  have s: "ReceivedDisclosure_SignWith F rd0 (o_recvSigner orc) = (None, rd)" "ReceivedDisclosure_Validate rd = None"
    and o': "orc' = orc\<lparr>o_chain := c, o_auditCtr := o_auditCtr orc + 1, o_discCtr := o_discCtr orc + 1,
       o_received := o_received orc @ [rd],
       o_state := (if length (o_received orc) + 1 = length (BM_ExpectedDisclosureIDs (o_bm orc))
                   then BStateReassemble else o_state orc)\<rparr>"
    using assms p a
    by (auto simp: accept_record_def Let_def rd0_def [symmetric] split: prod.splits option.splits)
  obtain alg sig where rd: "rd = rd0\<lparr>RD_Alg := alg, RD_Signature := sig\<rparr>"
    using ReceivedDisclosure_SignWith_fields [OF s(1)] by blast
  show ?thesis
    by (rule that [OF refl a s _ _ _ _ _ _ _ _ o']) (simp_all add: rd rd0_def)
qed

lemma accept_message_error:
  assumes "accept_message app H F orc m now = (Inl err, orc')"
  shows "settled orc orc'"
proof -
  have "settled orc orc" by (simp add: settled_def)
  with assms show ?thesis
    by (auto simp: accept_message_def Let_def dest: accept_record_error
        split: sum.splits option.splits if_splits)
qed

lemma accept_message_ok:
  assumes "accept_message app H F orc m now = (Inr rd, orc')"
  shows "DisclosureMessage_Validate m = None" "length (o_received orc) < length (BM_ExpectedDisclosureIDs (o_bm orc))"
    "accept_checks orc m (length (o_received orc)) = None"
    "\<exists>cb. DisclosureMessage_CanonicalBytes F m = Inr cb \<and> H cb = o_wireH orc ! length (o_received orc) \<and>
       accept_record app F orc m (length (o_received orc)) (H cb) now = (Inr rd, orc')"
  using assms by (auto simp: accept_message_def Let_def split: sum.splits option.splits if_splits)

lemma Accept_cases:
  assumes "Accept app H F orc msg now = (r, orc')"
  obtains (unchanged) "orc' = orc" "\<exists>err. r = Inl err"
  | (refused) err orc1 where "o_state orc = BStateIngress" "r = Inl err" "settled orc orc1"
      "orc' = latchRejection ReasonReassemblyFailed [] orc1"
  | (accepted) m rd where "o_state orc = BStateIngress" "msg = Some m" "r = Inr rd"
      "accept_message app H F orc m now = (Inr rd, orc')"
  using assms
  by (auto simp: Accept_def intro: accept_message_error split: if_splits option.splits sum.splits prod.splits)

section \<open>The invariant\<close>

text \<open>
  How far the receipts are in each state; when a rejection is latched; what a decision says; and
  what was checked before the first message.
\<close>

definition stage_ok :: "BState \<Rightarrow> nat \<Rightarrow> nat \<Rightarrow> bool" where
  "stage_ok s r n \<longleftrightarrow>
     r \<le> n \<and> (s = BStateUnstarted \<longrightarrow> r = 0) \<and> (s = BStateIngress \<longrightarrow> r < n) \<and>
     (s \<in> {BStateReassemble, BStateValidate, BStateReady, BStateReconstituted} \<longrightarrow> r = n)"

definition latch_ok :: "BState \<Rightarrow> string option \<Rightarrow> bool" where
  "latch_ok s reason \<longleftrightarrow>
     (s = BStateRejected \<longleftrightarrow> reason \<noteq> None) \<and>
     reason \<in> {None, Some ReasonReassemblyFailed, Some ReasonValidationFailed}"

definition vrid_ok :: "BState \<Rightarrow> string \<Rightarrow> bool" where
  "vrid_ok s vrid \<longleftrightarrow> (s \<in> {BStateReady, BStateReconstituted} \<longrightarrow> vrid \<noteq> [])"

definition decision_ok ::
    "BootstrapManifest \<Rightarrow> BState \<Rightarrow> string option \<Rightarrow> string \<Rightarrow> ReconstitutionDecision option \<Rightarrow> bool" where
  "decision_ok bm s reason vrid d \<longleftrightarrow>
     (case d of
        None \<Rightarrow> s \<noteq> BStateReconstituted
      | Some d \<Rightarrow>
          ReconstitutionDecision_Validate d = None \<and> RX_BootstrapID d = BM_BootstrapID bm \<and>
          RX_SessionID d = BM_SessionID bm \<and> RX_GenomeID d = BM_GenomeID bm \<and>
          (if RX_Accepted d then s = BStateReconstituted \<and> RX_ValidationResultID d = vrid
           else s = BStateRejected \<and> reason = Some (RX_Reason d)))"

definition admitted :: "BootstrapManifest \<Rightarrow> ReconstructionJobManifest \<Rightarrow> bool" where
  "admitted bm rjm \<longleftrightarrow>
     BootstrapManifest_Validate bm = None \<and> CheckAgreement (Some bm) (Some rjm) = None"

definition orch_inv :: "'c Orchestrator \<Rightarrow> bool" where
  "orch_inv orc \<longleftrightarrow>
     length (o_wireH orc) = length (BM_ExpectedDisclosureIDs (o_bm orc)) \<and>
     (\<forall>k < length (o_received orc). receipt_for orc k (o_received orc ! k)) \<and>
     stage_ok (o_state orc) (length (o_received orc)) (length (BM_ExpectedDisclosureIDs (o_bm orc))) \<and>
     (o_state orc \<noteq> BStateUnstarted \<longrightarrow> admitted (o_bm orc) (o_rjm orc)) \<and>
     latch_ok (o_state orc) (o_latchedReason orc) \<and> vrid_ok (o_state orc) (o_validatedVRID orc) \<and>
     decision_ok (o_bm orc) (o_state orc) (o_latchedReason orc) (o_validatedVRID orc) (o_decision orc)"

lemmas stage_defs = stage_ok_def latch_ok_def vrid_ok_def

lemma decision_ok_open:
  "decision_ok bm s lr vrid d \<Longrightarrow> s \<noteq> BStateReconstituted \<Longrightarrow> s \<noteq> BStateRejected \<Longrightarrow> d = None"
  "decision_ok bm s lr vrid None \<longleftrightarrow> s \<noteq> BStateReconstituted"
  by (auto simp: decision_ok_def split: option.splits if_splits)

lemma receipt_for_settled [simp]:
  "receipt_for (orc\<lparr>o_chain := c\<rparr>) k rd = receipt_for orc k rd"
  "receipt_for (orc\<lparr>o_auditCtr := a\<rparr>) k rd = receipt_for orc k rd"
  "receipt_for (orc\<lparr>o_discCtr := a\<rparr>) k rd = receipt_for orc k rd"
  "receipt_for (orc\<lparr>o_state := s\<rparr>) k rd = receipt_for orc k rd"
  "receipt_for (orc\<lparr>o_received := rs\<rparr>) k rd = receipt_for orc k rd"
  "receipt_for (orc\<lparr>o_latchedReason := lr\<rparr>) k rd = receipt_for orc k rd"
  "receipt_for (orc\<lparr>o_latchedVRID := v\<rparr>) k rd = receipt_for orc k rd"
  "receipt_for (orc\<lparr>o_validatedVRID := v\<rparr>) k rd = receipt_for orc k rd"
  "receipt_for (orc\<lparr>o_decision := d\<rparr>) k rd = receipt_for orc k rd"
  by (simp_all add: receipt_for_def)

lemma orch_inv_settled: "orch_inv orc \<Longrightarrow> settled orc orc' \<Longrightarrow> orch_inv orc'"
  unfolding settled_def by (erule ssubst) (simp add: orch_inv_def)

lemma latchRejection_inv:
  assumes "orch_inv orc" "BIsOperational (o_state orc)" "reason \<in> {ReasonReassemblyFailed, ReasonValidationFailed}"
  shows "orch_inv (latchRejection reason vrid orc)"
proof -
  have s: "o_state orc \<noteq> BStateUnstarted" "o_state orc \<noteq> BStateReconstituted" "o_state orc \<noteq> BStateRejected"
    using assms(2) by (auto simp: BIsOperational_def)
  have "o_latchedReason orc = None" using assms(1) s by (simp add: orch_inv_def latch_ok_def)
  moreover have "o_decision orc = None"
    using assms(1) s decision_ok_open(1) by (auto simp: orch_inv_def)
  moreover have "latch_ok BStateRejected (Some reason)" "vrid_ok BStateRejected v"
      "stage_ok t r n \<Longrightarrow> stage_ok BStateRejected r n" for v t r n
    using assms(3) by (auto simp: stage_defs)
  ultimately show ?thesis
    using assms(1) s by (auto simp: orch_inv_def latchRejection_def decision_ok_open(2))
qed

lemma accepted_receipt:
  assumes "accept_message app H F orc m now = (Inr rd, orc')"
  shows "receipt_for orc (length (o_received orc)) rd"
proof -
  note a = accept_message_ok [OF assms]
  obtain cb where cb: "H cb = o_wireH orc ! length (o_received orc)"
      "accept_record app F orc m (length (o_received orc)) (H cb) now = (Inr rd, orc')"
    using a(4) by blast
  from cb(2) show ?thesis
    by (rule accept_record_ok) (use a(3) cb(1) in \<open>auto simp: receipt_for_def accept_checks_def\<close>)
qed

lemma accept_message_inv:
  assumes "orch_inv orc" "o_state orc = BStateIngress" "accept_message app H F orc m now = (Inr rd, orc')"
  shows "orch_inv orc'"
proof -
  note a = accept_message_ok [OF assms(3)]
  note rd = accepted_receipt [OF assms(3)]
  obtain cb where "accept_record app F orc m (length (o_received orc)) (H cb) now = (Inr rd, orc')"
    using a(4) by blast
  then show ?thesis
  proof (rule accept_record_ok)
    fix c
    assume o': "orc' = orc\<lparr>o_chain := c, o_auditCtr := o_auditCtr orc + 1, o_discCtr := o_discCtr orc + 1,
       o_received := o_received orc @ [rd],
       o_state := (if length (o_received orc) + 1 = length (BM_ExpectedDisclosureIDs (o_bm orc))
                   then BStateReassemble else o_state orc)\<rparr>"
    have k: "receipt_for orc k ((o_received orc @ [rd]) ! k)" if "k < Suc (length (o_received orc))" for k
      using that rd assms(1) by (auto simp: orch_inv_def nth_append less_Suc_eq)
    have "o_decision orc = None" using assms(1,2) decision_ok_open(1) by (auto simp: orch_inv_def)
    with assms(1,2) a(2) k show ?thesis
      unfolding o' by (auto simp: orch_inv_def stage_defs decision_ok_open(2))
  qed
qed

lemma settled_state:
  "settled orc orc' \<Longrightarrow> o_state orc' = o_state orc"
  "settled orc orc' \<Longrightarrow> o_latchedReason orc' = o_latchedReason orc"
  "settled orc orc' \<Longrightarrow> o_received orc' = o_received orc"
  "settled orc orc' \<Longrightarrow> o_decision orc' = o_decision orc"
  unfolding settled_def by (erule ssubst, simp)+

lemma Accept_inv:
  assumes "orch_inv orc" "Accept app H F orc msg now = (r, orc')"
  shows "orch_inv orc'"
  using assms(2)
proof (cases rule: Accept_cases)
  case (refused err orc1)
  then have "BIsOperational (o_state orc1)"
    by (simp add: settled_state BIsOperational_def)
  with refused orch_inv_settled [OF assms(1)] show ?thesis by (simp add: latchRejection_inv)
next
  case (accepted m rd)
  then show ?thesis using accept_message_inv [OF assms(1)] by blast
qed (use assms(1) in simp)

lemma Start_ok:
  assumes "Start F P orc = (None, orc')"
  shows "o_state orc = BStateUnstarted" "admitted (o_bm orc) (o_rjm orc)" "orc' = orc\<lparr>o_state := BStateIngress\<rparr>"
    "o_recvResolver orc = Some res \<Longrightarrow> BootstrapManifest_VerifySignature F P (o_bm orc) (Some res) = None"
  using assms by (auto simp: Start_def admitted_def split: if_splits option.splits)

lemma Start_error: "Start F P orc = (Some err, orc') \<Longrightarrow> orc' = orc"
  by (auto simp: Start_def split: if_splits option.splits)

lemma Start_inv:
  assumes "orch_inv orc" "Start F P orc = (r, orc')"
  shows "orch_inv orc'"
proof (cases r)
  case None
  note s = Start_ok [OF assms(2) [unfolded None]]
  have "BM_ExpectedDisclosureIDs (o_bm orc) \<noteq> []"
    using s(2) BootstrapManifest_Validate_ok(1) by (simp add: admitted_def)
  moreover have "o_received orc = []" "o_latchedReason orc = None" "o_decision orc = None"
    using assms(1) s(1) decision_ok_open(1) by (auto simp: orch_inv_def stage_defs)
  ultimately show ?thesis
    using assms(1) s by (simp add: orch_inv_def stage_defs decision_ok_open(2))
next
  case (Some err)
  then show ?thesis using assms Start_error by blast
qed

lemma Mark_inv:
  assumes "orch_inv orc"
  shows "orch_inv (snd (MarkReassembled orc))" "orch_inv (snd (MarkReassemblyFailed orc))"
    "orch_inv (snd (MarkValidated orc vrid))" "orch_inv (snd (MarkValidationFailed orc vrid))"
proof -
  have d: "o_decision orc = None" "o_latchedReason orc = None"
    if "o_state orc = BStateReassemble \<or> o_state orc = BStateValidate"
    using assms that decision_ok_open(1) by (auto simp: orch_inv_def latch_ok_def)
  show "orch_inv (snd (MarkReassembled orc))" "orch_inv (snd (MarkValidated orc vrid))"
    using assms d by (auto simp: MarkReassembled_def MarkValidated_def orch_inv_def stage_defs decision_ok_open(2))
  show "orch_inv (snd (MarkReassemblyFailed orc))" "orch_inv (snd (MarkValidationFailed orc vrid))"
    using assms latchRejection_inv
    by (auto simp: MarkReassemblyFailed_def MarkValidationFailed_def BIsOperational_def)
qed

section \<open>Deciding\<close>

lemma verdict_ok:
  assumes "orch_inv orc" "verdict orc = Inr (accepted, reason, vrid)"
  shows "accepted \<Longrightarrow> o_state orc = BStateReady \<and> reason = ReasonReconstructedOK \<and> vrid = o_validatedVRID orc"
    and "\<not> accepted \<Longrightarrow> o_state orc = BStateRejected \<and> o_latchedReason orc = Some reason"
  using assms(2) by (auto simp: verdict_def split: BState.splits if_splits option.splits)

lemma Decide_error: "Decide app F orc now = (Inl err, orc') \<Longrightarrow> settled orc orc'"
  by (auto simp: Decide_def settled_def Let_def split: if_splits sum.splits prod.splits option.splits)

lemma Decide_ok:
  assumes "Decide app F orc now = (Inr rd, orc')"
  obtains accepted reason vrid payload sealed c skel rd0 where
    "o_decision orc = None" "verdict orc = Inr (accepted, reason, vrid)"
    "skel = audit_skeleton (orc\<lparr>o_auditCtr := o_auditCtr orc + 1\<rparr>) ''dec-'' ''RECONSTITUTION_DECIDED'' now
       (BM_SessionID (o_bm orc)) payload"
    "app (o_chain orc) skel (Some (o_auditSigner orc)) = (Inr sealed, c)"
    "ReconstitutionDecision_SignWith F rd0 (o_recvSigner orc) = (None, rd)"
    "ReconstitutionDecision_Validate rd = None"
    "RX_BootstrapID rd = BM_BootstrapID (o_bm orc)" "RX_SessionID rd = BM_SessionID (o_bm orc)"
    "RX_GenomeID rd = BM_GenomeID (o_bm orc)" "RX_ValidationResultID rd = vrid"
    "RX_Accepted rd = accepted" "RX_Reason rd = reason" "RX_AuditEventID rd = AE_EventID sealed"
    "orc' = orc\<lparr>o_chain := c, o_auditCtr := o_auditCtr orc + 1, o_decision := Some rd,
       o_state := (if accepted then BStateReconstituted else o_state orc)\<rparr>"
proof -
  obtain accepted reason vrid where v: "o_decision orc = None" "verdict orc = Inr (accepted, reason, vrid)"
    using assms by (auto simp: Decide_def split: if_splits sum.splits)
  define rd1 where "rd1 = decision_draft orc accepted reason vrid now"
  obtain payload where p: "buildReconstitutionDecidedPayload F (o_bm orc) rd1 = Inr payload"
    using assms v by (auto simp: Decide_def Let_def rd1_def [symmetric] split: sum.splits)
  obtain sealed c where a: "app (o_chain orc)
      (audit_skeleton (orc\<lparr>o_auditCtr := o_auditCtr orc + 1\<rparr>) ''dec-'' ''RECONSTITUTION_DECIDED'' now
        (BM_SessionID (o_bm orc)) payload) (Some (o_auditSigner orc)) = (Inr sealed, c)"
    using assms v p by (auto simp: Decide_def Let_def rd1_def [symmetric] split: sum.splits prod.splits)
  define rd0 where "rd0 = rd1\<lparr>RX_AuditEventID := AE_EventID sealed\<rparr>"
  have s: "ReconstitutionDecision_SignWith F rd0 (o_recvSigner orc) = (None, rd)"
      "ReconstitutionDecision_Validate rd = None"
    and o': "orc' = orc\<lparr>o_chain := c, o_auditCtr := o_auditCtr orc + 1, o_decision := Some rd,
       o_state := (if accepted then BStateReconstituted else o_state orc)\<rparr>"
    using assms v p a
    by (auto simp: Decide_def Let_def rd1_def [symmetric] rd0_def [symmetric] split: prod.splits option.splits)
  obtain alg sig where rd: "rd = rd0\<lparr>RX_Alg := alg, RX_Signature := sig\<rparr>"
    using ReconstitutionDecision_SignWith_fields [OF s(1)] by blast
  show ?thesis
    by (rule that [OF v refl a s _ _ _ _ _ _ _ o']) (simp_all add: rd rd0_def rd1_def decision_draft_def)
qed

lemma Decide_inv:
  assumes "orch_inv orc" "Decide app F orc now = (r, orc')"
  shows "orch_inv orc'"
proof (cases r)
  case (Inl err)
  then show ?thesis using assms Decide_error orch_inv_settled by blast
next
  case (Inr rd)
  show ?thesis
  proof (rule Decide_ok [OF assms(2) [unfolded Inr]])
    fix accepted reason vrid c
    assume v: "verdict orc = Inr (accepted, reason, vrid)"
      and rd: "ReconstitutionDecision_Validate rd = None"
        "RX_BootstrapID rd = BM_BootstrapID (o_bm orc)" "RX_SessionID rd = BM_SessionID (o_bm orc)"
        "RX_GenomeID rd = BM_GenomeID (o_bm orc)" "RX_ValidationResultID rd = vrid"
        "RX_Accepted rd = accepted" "RX_Reason rd = reason"
      and o': "orc' = orc\<lparr>o_chain := c, o_auditCtr := o_auditCtr orc + 1, o_decision := Some rd,
       o_state := (if accepted then BStateReconstituted else o_state orc)\<rparr>"
    note s = verdict_ok [OF assms(1) v]
    show "orch_inv orc'"
      using assms(1) s rd unfolding o'
      by (cases accepted) (auto simp: orch_inv_def stage_defs decision_ok_def)
  qed
qed

section \<open>Every reachable orchestrator\<close>

lemma NewOrchestrator_ok:
  assumes "NewOrchestrator opts = Inr orc"
  shows "o_state orc = BStateUnstarted" "o_received orc = []" "o_decision orc = None"
    "o_latchedReason orc = None" "length (o_wireH orc) = length (BM_ExpectedDisclosureIDs (o_bm orc))"
    "\<forall>h \<in> set (o_wireH orc). length h = HashSize" "oo_AuditChain opts = Some (o_chain orc)"
    "oo_RecvAuthoritySigner opts = Some (o_recvSigner orc, o_recvResolver orc)"
  using assms
  by (auto simp: NewOrchestrator_def options_missing_def Let_def check_hash_sizes_None split: option.splits)

lemma NewOrchestrator_inv: "NewOrchestrator opts = Inr orc \<Longrightarrow> orch_inv orc"
  using NewOrchestrator_ok [of opts orc]
  by (simp add: orch_inv_def stage_defs decision_ok_open(2))

lemma orch_call_inv: "orch_inv orc \<Longrightarrow> orch_inv (orch_call app H F P orc c)"
  by (cases c) (auto intro: Mark_inv Start_inv [OF _ prod.collapse [symmetric]]
      Accept_inv [OF _ prod.collapse [symmetric]] Decide_inv [OF _ prod.collapse [symmetric]])

lemma reachable_inv:
  "NewOrchestrator opts = Inr orc \<Longrightarrow> orch_inv (orch_run app H F P orc calls)"
  by (rule orch_run_induct) (auto intro: NewOrchestrator_inv orch_call_inv)

section \<open>Moves along the table\<close>

text \<open>One call leaves the state, or takes one row of the table under a trigger of its own.\<close>

fun call_triggers :: "call \<Rightarrow> string list" where
  "call_triggers CallStart = [''bootstrap.accepted'']"
| "call_triggers (CallAccept msg now) = [''disclosure.received.all'', ''bootstrap.rejected'']"
| "call_triggers CallMarkReassembled = [''reassembly.ok'']"
| "call_triggers CallMarkReassemblyFailed = [''bootstrap.rejected'']"
| "call_triggers (CallMarkValidated vrid) = [''validation.pass'']"
| "call_triggers (CallMarkValidationFailed vrid) = [''bootstrap.rejected'']"
| "call_triggers (CallDecide now) = [''decision.signed'']"

definition table_step :: "string list \<Rightarrow> BState \<Rightarrow> BState \<Rightarrow> bool" where
  "table_step ts s s' \<longleftrightarrow> s' = s \<or> (\<exists>tr \<in> set BTransitionTable. tr_From tr = s \<and> tr_To tr = s' \<and> tr_Trigger tr \<in> set ts)"

lemma table_step_row: "BCanTransition s s' t \<Longrightarrow> t \<in> set ts \<Longrightarrow> [] \<notin> set ts \<Longrightarrow> table_step ts s s'"
  by (auto simp: BCanTransition_def can_transition_iff table_step_def)

lemmas table_steps = table_step_row [OF BCanTransition_rows(1)] table_step_row [OF BCanTransition_rows(2)]
  table_step_row [OF BCanTransition_rows(3)] table_step_row [OF BCanTransition_rows(4)]
  table_step_row [OF BCanTransition_rows(5)] table_step_row [OF BCanTransition_rows(6)]

lemma latchRejection_state [simp]: "o_state (latchRejection reason vrid orc) = BStateRejected"
  by (simp add: latchRejection_def Let_def)

lemma table_step_refl [simp]: "table_step ts s s"
  by (simp add: table_step_def)

lemma Accept_steps:
  assumes "Accept app H F orc msg now = (r, orc')"
  shows "table_step (call_triggers (CallAccept msg now)) (o_state orc) (o_state orc')"
  using assms
proof (cases rule: Accept_cases)
  case (refused err orc1)
  then show ?thesis using table_steps(6) [of BStateIngress] by (simp add: BIsOperational_def)
next
  case (accepted m rd)
  obtain cb where "accept_record app F orc m (length (o_received orc)) (H cb) now = (Inr rd, orc')"
    using accept_message_ok(4) [OF accepted(4)] by blast
  then show ?thesis
    by (rule accept_record_ok) (use accepted(1) table_steps(2) in \<open>auto\<close>)
qed simp

lemma Decide_steps:
  assumes "orch_inv orc"
  shows "table_step (call_triggers (CallDecide now)) (o_state orc) (o_state (snd (Decide app F orc now)))"
proof (cases "fst (Decide app F orc now)")
  case (Inl err)
  then show ?thesis using Decide_error [of app F orc now] settled_state by (metis prod.collapse table_step_refl)
next
  case (Inr rd)
  then have "Decide app F orc now = (Inr rd, snd (Decide app F orc now))" by (metis prod.collapse)
  then show ?thesis
    by (rule Decide_ok) (use verdict_ok [OF assms] table_steps(5) in \<open>auto\<close>)
qed

lemma orch_call_steps:
  assumes "orch_inv orc"
  shows "table_step (call_triggers c) (o_state orc) (o_state (orch_call app H F P orc c))"
proof (cases c)
  case (CallAccept msg now)
  then show ?thesis using Accept_steps [OF prod.collapse [symmetric]] by simp
next
  case (CallDecide now)
  then show ?thesis using Decide_steps [OF assms] by simp
qed (auto simp: Start_def MarkReassembled_def MarkReassemblyFailed_def MarkValidated_def MarkValidationFailed_def
    BIsOperational_def split: option.splits intro: table_steps)

text \<open>A sequence of states that follows the table moves at most as often as its rank falls.\<close>

lemma moves_bounded:
  assumes "\<And>i. i < n \<Longrightarrow> \<exists>ts. table_step ts (f i) (f (Suc i))"
  shows "card {i. i < n \<and> f (Suc i) \<noteq> f i} + bootstrap_rank (f n) \<le> bootstrap_rank (f 0)"
  using assms
proof (induction n)
  case (Suc n)
  have IH: "card {i. i < n \<and> f (Suc i) \<noteq> f i} + bootstrap_rank (f n) \<le> bootstrap_rank (f 0)" using Suc by simp
  let ?M = "{i. i < n \<and> f (Suc i) \<noteq> f i}"
  show ?case
  proof (cases "f (Suc n) = f n")
    case True
    then have "{i. i < Suc n \<and> f (Suc i) \<noteq> f i} = ?M" by (auto simp: less_Suc_eq)
    with IH True show ?thesis by simp
  next
    case False
    then have e: "{i. i < Suc n \<and> f (Suc i) \<noteq> f i} = insert n ?M" by (auto simp: less_Suc_eq)
    obtain tr where "tr \<in> set BTransitionTable" "tr_From tr = f n" "tr_To tr = f (Suc n)"
      using Suc.prems [of n] False by (auto simp: table_step_def)
    with bootstrap.ranked have "bootstrap_rank (f (Suc n)) < bootstrap_rank (f n)" by metis
    with IH show ?thesis unfolding e by simp
  qed
qed simp

section \<open>Finality\<close>

lemma decided_fixed:
  assumes "orch_inv orc" "o_decision orc = Some d"
  shows "orch_call app H F P orc c = orc"
proof -
  have "o_state orc = BStateReconstituted \<or> o_state orc = BStateRejected"
    using assms by (auto simp: orch_inv_def decision_ok_def split: if_splits)
  with assms(2) show ?thesis
    by (cases c) (auto simp: Start_def Accept_def MarkReassembled_def MarkReassemblyFailed_def
        MarkValidated_def MarkValidationFailed_def Decide_def)
qed

lemma run_decided_fixed:
  "orch_inv orc \<Longrightarrow> o_decision orc = Some d \<Longrightarrow> orch_run app H F P orc calls = orc"
  by (induction calls) (simp_all add: decided_fixed)

lemma rejected_call:
  assumes "orch_inv orc" "o_state orc = BStateRejected"
  shows "o_state (orch_call app H F P orc c) = BStateRejected \<and>
    o_latchedReason (orch_call app H F P orc c) = o_latchedReason orc"
proof (cases c)
  case (CallDecide now)
  show ?thesis
  proof (cases "fst (Decide app F orc now)")
    case (Inl err)
    then have "settled orc (snd (Decide app F orc now))" using Decide_error by (metis prod.collapse)
    then show ?thesis using assms(2) CallDecide by (simp add: settled_state)
  next
    case (Inr rd)
    then have "Decide app F orc now = (Inr rd, snd (Decide app F orc now))" by (metis prod.collapse)
    then show ?thesis
      by (rule Decide_ok) (use assms verdict_ok(1) [OF assms(1)] CallDecide in \<open>auto\<close>)
  qed
qed (use assms(2) in \<open>auto simp: Start_def Accept_def MarkReassembled_def MarkReassemblyFailed_def
    MarkValidated_def MarkValidationFailed_def\<close>)

lemma run_rejected:
  assumes "orch_inv orc" "o_state orc = BStateRejected"
  shows "o_state (orch_run app H F P orc calls) = BStateRejected \<and>
    o_latchedReason (orch_run app H F P orc calls) = o_latchedReason orc"
  using assms
proof (induction calls arbitrary: orc)
  case (Cons c calls)
  note r = rejected_call [OF Cons.prems, of app H F P c]
  from Cons.IH [OF orch_call_inv [OF Cons.prems(1)] conjunct1 [OF r]] r show ?case by simp
qed simp

section \<open>What a call adds\<close>

text \<open>The parts that no call changes.\<close>

definition config :: "'c Orchestrator \<Rightarrow> BootstrapManifest \<times> ReconstructionJobManifest \<times> bytes list \<times> Signer" where
  "config orc = (o_bm orc, o_rjm orc, o_wireH orc, o_recvSigner orc)"

lemma settled_config: "settled orc orc' \<Longrightarrow> config orc' = config orc"
  unfolding settled_def by (erule ssubst) (simp add: config_def)

lemma latchRejection_keeps [simp]:
  "config (latchRejection reason vrid orc) = config orc"
  "o_received (latchRejection reason vrid orc) = o_received orc"
  "o_decision (latchRejection reason vrid orc) = o_decision orc"
  "o_chain (latchRejection reason vrid orc) = o_chain orc"
  by (simp_all add: latchRejection_def Let_def config_def)

lemma Accept_adds:
  assumes "Accept app H F orc msg now = (r, orc')"
  obtains (none) "config orc' = config orc" "o_received orc' = o_received orc" "o_decision orc' = o_decision orc"
  | (receipt) rd rd0 where "config orc' = config orc" "o_received orc' = o_received orc @ [rd]"
      "o_decision orc' = o_decision orc" "ReceivedDisclosure_SignWith F rd0 (o_recvSigner orc) = (None, rd)"
      "ReceivedDisclosure_Validate rd = None"
  using assms
proof (cases rule: Accept_cases)
  case (refused err orc1)
  then show ?thesis using none by (auto simp: settled_state settled_config)
next
  case (accepted m rd)
  obtain cb where "accept_record app F orc m (length (o_received orc)) (H cb) now = (Inr rd, orc')"
    using accept_message_ok(4) [OF accepted(4)] by blast
  then show ?thesis by (rule accept_record_ok) (rule receipt, auto simp: config_def)
qed (use none in simp)

lemma Decide_adds:
  assumes "Decide app F orc now = (r, orc')"
  obtains (none) "config orc' = config orc" "o_received orc' = o_received orc" "o_decision orc' = o_decision orc"
  | (decision) d d0 where "config orc' = config orc" "o_received orc' = o_received orc" "o_decision orc' = Some d"
      "ReconstitutionDecision_SignWith F d0 (o_recvSigner orc) = (None, d)"
      "ReconstitutionDecision_Validate d = None"
proof (cases r)
  case (Inl err)
  then show ?thesis using none assms Decide_error settled_state settled_config by blast
next
  case (Inr rd)
  then have "Decide app F orc now = (Inr rd, orc')" using assms by simp
  then show ?thesis by (rule Decide_ok) (rule decision, auto simp: config_def)
qed

lemma Mark_keeps:
  "config (snd (Start F P orc)) = config orc" "config (snd (MarkReassembled orc)) = config orc"
  "config (snd (MarkReassemblyFailed orc)) = config orc" "config (snd (MarkValidated orc vrid)) = config orc"
  "config (snd (MarkValidationFailed orc vrid)) = config orc"
  "o_received (snd (Start F P orc)) = o_received orc" "o_received (snd (MarkReassembled orc)) = o_received orc"
  "o_received (snd (MarkReassemblyFailed orc)) = o_received orc"
  "o_received (snd (MarkValidated orc vrid)) = o_received orc"
  "o_received (snd (MarkValidationFailed orc vrid)) = o_received orc"
  "o_decision (snd (Start F P orc)) = o_decision orc" "o_decision (snd (MarkReassembled orc)) = o_decision orc"
  "o_decision (snd (MarkReassemblyFailed orc)) = o_decision orc"
  "o_decision (snd (MarkValidated orc vrid)) = o_decision orc"
  "o_decision (snd (MarkValidationFailed orc vrid)) = o_decision orc"
  "o_chain (snd (Start F P orc)) = o_chain orc" "o_chain (snd (MarkReassembled orc)) = o_chain orc"
  "o_chain (snd (MarkReassemblyFailed orc)) = o_chain orc"
  "o_chain (snd (MarkValidated orc vrid)) = o_chain orc"
  "o_chain (snd (MarkValidationFailed orc vrid)) = o_chain orc"
  by (auto simp: Start_def MarkReassembled_def MarkReassemblyFailed_def MarkValidated_def
      MarkValidationFailed_def config_def latchRejection_def Let_def split: option.splits)

section \<open>Signatures of what was accepted and decided\<close>

definition all_verified :: "floats \<Rightarrow> ring \<Rightarrow> 'c Orchestrator \<Rightarrow> bool" where
  "all_verified F r orc \<longleftrightarrow>
     o_recvSigner orc = ring_signer r \<and>
     (\<forall>rd \<in> set (o_received orc). ReceivedDisclosure_VerifySignature F (fst r) rd (Some (ring_resolver r)) = None) \<and>
     (\<forall>d. o_decision orc = Some d \<longrightarrow>
        ReconstitutionDecision_VerifySignature F (fst r) d (Some (ring_resolver r)) = None)"

lemma disclosure_receipt_verifies:
  assumes "ring_ok r" "ReceivedDisclosure_SignWith F rd0 (ring_signer r) = (None, rd)"
    "ReceivedDisclosure_Validate rd = None"
  shows "ReceivedDisclosure_VerifySignature F (fst r) rd (Some (ring_resolver r)) = None"
  using received_disclosure.signed_verifies [OF assms(1), of F rd0 rd] assms(2,3)
  by (simp add: ReceivedDisclosure_SignWith_def ReceivedDisclosure_VerifySignature_def ReceivedDisclosure_contract_def)

lemma decision_verifies:
  assumes "ring_ok r" "ReconstitutionDecision_SignWith F d0 (ring_signer r) = (None, d)"
    "ReconstitutionDecision_Validate d = None"
  shows "ReconstitutionDecision_VerifySignature F (fst r) d (Some (ring_resolver r)) = None"
  using reconstitution_decision.signed_verifies [OF assms(1), of F d0 d] assms(2,3)
  by (simp add: ReconstitutionDecision_SignWith_def ReconstitutionDecision_VerifySignature_def
      ReconstitutionDecision_contract_def)

lemma orch_call_verified:
  assumes "ring_ok r" "all_verified F r orc"
  shows "all_verified F r (orch_call app H F P orc c)"
proof (cases c)
  case (CallAccept msg now)
  show ?thesis
    by (rule Accept_adds [OF prod.collapse [symmetric], of app H F orc msg now])
      (use assms disclosure_receipt_verifies CallAccept in \<open>auto simp: all_verified_def config_def\<close>)
next
  case (CallDecide now)
  show ?thesis
    by (rule Decide_adds [OF prod.collapse [symmetric], of app F orc now])
      (use assms decision_verifies CallDecide in \<open>auto simp: all_verified_def config_def\<close>)
qed (use assms(2) in \<open>simp_all add: all_verified_def Mark_keeps
      Mark_keeps(1-5) [unfolded config_def, simplified]\<close>)

section \<open>Evidence\<close>

text \<open>Every receipt and the decision name an event of the chain of their kind.\<close>

definition evidenced :: "('c \<Rightarrow> AuditEvent list) \<Rightarrow> 'c Orchestrator \<Rightarrow> bool" where
  "evidenced events orc \<longleftrightarrow>
     (\<forall>rd \<in> set (o_received orc). has_event (events (o_chain orc)) (RD_AuditEventID rd) ''DISCLOSURE_RECEIVED'') \<and>
     (\<forall>d. o_decision orc = Some d \<longrightarrow>
        has_event (events (o_chain orc)) (RX_AuditEventID d) ''RECONSTITUTION_DECIDED'')"

lemma audit_skeleton_fields [simp]:
  "AE_EventID (audit_skeleton orc tag kind now session payload) =
     o_auditPrefix orc @ tag @ hex_encode (counterBytes (o_auditCtr orc))"
  "AE_Kind (audit_skeleton orc tag kind now session payload) = kind"
  by (simp_all add: audit_skeleton_def)

context audit_recorder begin

lemma accept_record_grows:
  assumes "accept_record app F orc msg slot h now = (r, orc')"
  shows "\<exists>zs. events (o_chain orc') = events (o_chain orc) @ zs"
  using assms recorded not_recorded
  by (fastforce simp: accept_record_def Let_def split: sum.splits prod.splits option.splits if_splits)

lemma accept_message_grows:
  assumes "accept_message app H F orc m now = (r, orc')"
  shows "\<exists>zs. events (o_chain orc') = events (o_chain orc) @ zs"
  using assms accept_record_grows
  by (fastforce simp: accept_message_def Let_def split: sum.splits option.splits if_splits)

lemma Accept_evidenced:
  assumes "evidenced events orc" "Accept app H F orc msg now = (r, orc')"
  shows "evidenced events orc'"
proof -
  have cases: "orc' = orc \<or>
      (\<exists>m r1 orc1. accept_message app H F orc m now = (r1, orc1) \<and>
        (case r1 of Inl err \<Rightarrow> orc' = latchRejection ReasonReassemblyFailed [] orc1 | Inr rd \<Rightarrow> orc' = orc1))"
    using assms(2) by (fastforce simp: Accept_def split: if_splits option.splits sum.splits prod.splits)
  then show ?thesis
  proof (elim disjE exE conjE)
    fix m r1 orc1
    assume a: "accept_message app H F orc m now = (r1, orc1)"
      and o': "case r1 of Inl err \<Rightarrow> orc' = latchRejection ReasonReassemblyFailed [] orc1 | Inr rd \<Rightarrow> orc' = orc1"
    obtain zs where zs: "events (o_chain orc1) = events (o_chain orc) @ zs"
      using accept_message_grows [OF a] by blast
    show ?thesis
    proof (cases r1)
      case (Inl err)
      then have "settled orc orc1" using a accept_message_error by blast
      with Inl o' zs assms(1) show ?thesis by (auto simp: evidenced_def settled_state)
    next
      case (Inr rd)
      obtain cb where "accept_record app F orc m (length (o_received orc)) (H cb) now = (Inr rd, orc1)"
        using accept_message_ok(4) a Inr by blast
      then show ?thesis
      proof (rule accept_record_ok)
        fix payload sealed c skel
        assume sk: "skel = audit_skeleton (orc\<lparr>o_auditCtr := o_auditCtr orc + 1\<rparr>) ''disc-''
            ''DISCLOSURE_RECEIVED'' now (DM_SessionID m) payload"
          and ap: "app (o_chain orc) skel (Some (o_auditSigner orc)) = (Inr sealed, c)"
          and id: "RD_AuditEventID rd = AE_EventID sealed"
          and o1: "orc1 = orc\<lparr>o_chain := c, o_auditCtr := o_auditCtr orc + 1, o_discCtr := o_discCtr orc + 1,
            o_received := o_received orc @ [rd],
            o_state := (if length (o_received orc) + 1 = length (BM_ExpectedDisclosureIDs (o_bm orc))
                        then BStateReassemble else o_state orc)\<rparr>"
        from recorded [OF ap] sk id o1 o' Inr assms(1) show ?thesis by (auto simp: evidenced_def)
      qed
    qed
  qed (use assms(1) in simp)
qed

lemma Decide_evidenced:
  assumes "evidenced events orc" "Decide app F orc now = (r, orc')"
  shows "evidenced events orc'"
proof (cases r)
  case (Inl err)
  have "\<exists>zs. events (o_chain orc') = events (o_chain orc) @ zs"
    using assms(2) Inl recorded not_recorded
    by (fastforce simp: Decide_def Let_def split: if_splits sum.splits prod.splits option.splits)
  moreover have "settled orc orc'" using assms(2) Inl Decide_error by blast
  ultimately show ?thesis using assms(1) by (auto simp: evidenced_def settled_state)
next
  case (Inr rd)
  show ?thesis
  proof (rule Decide_ok [OF assms(2) [unfolded Inr]])
    fix accepted payload sealed c skel
    assume sk: "skel = audit_skeleton (orc\<lparr>o_auditCtr := o_auditCtr orc + 1\<rparr>) ''dec-''
        ''RECONSTITUTION_DECIDED'' now (BM_SessionID (o_bm orc)) payload"
      and ap: "app (o_chain orc) skel (Some (o_auditSigner orc)) = (Inr sealed, c)"
      and id: "RX_AuditEventID rd = AE_EventID sealed"
      and o': "orc' = orc\<lparr>o_chain := c, o_auditCtr := o_auditCtr orc + 1, o_decision := Some rd,
       o_state := (if accepted then BStateReconstituted else o_state orc)\<rparr>"
    from recorded [OF ap] sk id o' assms(1) show ?thesis by (auto simp: evidenced_def)
  qed
qed

lemma orch_call_evidenced:
  assumes "evidenced events orc"
  shows "evidenced events (orch_call app H F P orc c)"
proof (cases c)
  case (CallAccept msg now)
  then show ?thesis using Accept_evidenced [OF assms prod.collapse [symmetric]] by simp
next
  case (CallDecide now)
  then show ?thesis using Decide_evidenced [OF assms prod.collapse [symmetric]] by simp
qed (use assms in \<open>simp_all add: evidenced_def Mark_keeps\<close>)

lemma run_evidenced: "evidenced events orc \<Longrightarrow> evidenced events (orch_run app H F P orc calls)"
  by (rule orch_run_induct) (auto intro: orch_call_evidenced)

end

end
