(* ===== verification/LiveSigners.thy ===== *)
theory LiveSigners
  imports ChainProperties
begin

text \<open>
  Signers that sign: the audit chain records whatever well-formed event such a signer seals. The
  identifiers are ASCII. A concrete key ring with one audit key and one authority key is the
  instance the witnesses of the development share.
\<close>

definition ascii :: "string \<Rightarrow> bool" where
  "ascii s \<longleftrightarrow> list_all (\<lambda>c. of_char c < (128 :: nat)) s"

definition live_signer :: "Signer \<Rightarrow> KeyID \<Rightarrow> Purpose \<Rightarrow> bool" where
  "live_signer sg kid p \<longleftrightarrow>
     kid \<noteq> [] \<and> ascii kid \<and> (\<exists>alg. keys_RecordAlg sg kid = Inr alg \<and> ascii alg) \<and>
     (\<forall>m. \<exists>sig. sg_Sign sg kid p m = Inr sig \<and> sig \<noteq> [])"

lemma ascii_simps [simp]:
  "ascii []" "ascii (c # s) \<longleftrightarrow> of_char c < (128 :: nat) \<and> ascii s" "ascii (s @ t) \<longleftrightarrow> ascii s \<and> ascii t"
  by (simp_all add: ascii_def)

lemma ascii_utf8 [simp]: "ascii s \<Longrightarrow> valid_utf8 s"
  by (simp add: ascii_def valid_utf8_ascii)

lemma hex_digit_ascii: "n < 16 \<Longrightarrow> of_char (hex_digit n) < (128 :: nat)"
  by (simp add: hex_digit_def of_char_of)

lemma hex_encode_ascii [simp]: "ascii (hex_encode b)"
proof (induction b rule: hex_encode.induct)
  case (2 x xs)
  have "unat x < 256" using unsigned_less [of x, where 'a = nat] by simp
  then have "unat x div 16 < 16" by simp
  with 2 show ?case by (simp add: hex_digit_ascii)
qed simp

section \<open>The audit chain records\<close>

lemma Chain_Append_live:
  assumes sg: "live_signer sg (AE_SigningKeyID e) PurposeSigningAudit"
    and utf8: "utf8_event e" and year: "marshal_time (AE_OccurredAt e) = Some w"
    and shape: "AE_SchemaVersion e = 9" "AE_EventID e \<noteq> []" "AE_Kind e \<in> set validKinds"
      "AE_OccurredAt e \<noteq> zero_time" "AE_Payload e \<noteq> []" "length (IC_tip c) = HashSize"
    and H: "\<And>x. length (H x) = HashSize"
  shows "\<exists>e' c'. Chain_Append H F c e (Some sg) = (Inr e', c') \<and> length (IC_tip c') = HashSize"
proof -
  obtain alg where alg: "keys_RecordAlg sg (AE_SigningKeyID e) = Inr alg" "ascii alg"
    using sg by (auto simp: live_signer_def)
  define e1 where "e1 = e\<lparr>AE_PrevHash := IC_tip c, AE_Hash := [], AE_Signature := [], AE_Alg := alg\<rparr>"
  have "utf8_event e1" "marshal_time (AE_OccurredAt e1) = Some w"
    using utf8 year alg(2) by (simp_all add: utf8_event_def e1_def)
  then obtain cb where cb: "event_cover F e1 = Inr cb" using event_cover_total by blast
  obtain sig where sig: "sg_Sign sg (AE_SigningKeyID e) PurposeSigningAudit (H cb) = Inr sig" "sig \<noteq> []"
    using sg by (auto simp: live_signer_def)
  have k: "AE_SigningKeyID e \<noteq> []" using sg by (simp add: live_signer_def)
  define e2 where "e2 = e1\<lparr>AE_Hash := H cb, AE_Signature := sig\<rparr>"
  have "AuditEvent_SignWith H F (e\<lparr>AE_PrevHash := IC_tip c, AE_Hash := [], AE_Signature := []\<rparr>) sg = (None, e2)"
    using k alg(1) cb sig(1) by (simp add: AuditEvent_SignWith_def Let_def e1_def e2_def)
  moreover have "AuditEvent_Validate e2 = None"
    using shape k sig(2) H by (simp add: AuditEvent_Validate_ok e2_def e1_def)
  ultimately have "seal H F e (IC_tip c) sg = Inr e2" by (simp add: seal_def)
  then show ?thesis using H by (simp add: Chain_Append_def e2_def)
qed

text \<open>Clean fields in the years JSON can write always encode.\<close>

lemma CanonicalJSON_wire_total:
  assumes "fields_ok ws" "in_years ws" "sorted (map fst ws)" "distinct (map fst ws)" "list_all ascii (map fst ws)"
  shows "\<exists>p. CanonicalJSON F (marshal_wire ws) = Inr p \<and> p \<noteq> []"
proof -
  obtain kvs where "wire_fields ws = Inr kvs" using wire_fields_total [OF assms(2)] by blast
  then have m: "marshal_wire ws = Inr (JObj kvs)" by (simp add: marshal_wire_def)
  have "list_all valid_utf8 (map fst ws)" using assms(5) by (auto simp: list_all_iff)
  then have "canon_tree (JObj kvs)" using marshal_wire_canon [OF m assms(1,3,4)] by simp
  then have "canonicalEncode F (JObj kvs) = Inr (enc (JObj kvs))" by (rule canonicalEncode_enc)
  then show ?thesis
    using m by (simp add: CanonicalJSON_def string_bytes_def del: canonicalEncode.simps)
qed

section \<open>A concrete key ring\<close>

definition demo_keys :: ring where
  "demo_keys = (plain_prims, snd (RegisterSigningKey plain_prims (snd audit_ring) 0 ''k''
     PurposeSigningAuthority (Some audit_key)))"

lemma demo_keys_ok: "ring_ok demo_keys"
  using audit_ring_ok
  by (simp add: ring_ok_def demo_keys_def audit_ring_def plain_prims_ok RegisterSigningKey_wf)

lemma demo_keys_key:
  "st_signing (snd demo_keys) ''k'' = Some
     \<lparr>sk_Verifying = \<lparr>VK_KeyID = ''k'', VK_Purpose = PurposeSigningAuthority, VK_Suite = SuiteEd25519,
        VK_PublicKey = PublicKeyBytes plain_prims audit_key, VK_CreatedAt = 0\<rparr>,
      sk_Priv = audit_key\<rparr>"
  by (simp add: demo_keys_def audit_ring_def RegisterSigningKey_def is_signing_purpose_def Suite_Valid_iff
      Suite_Available_def audit_key_def PublicKeyBytes_def plain_prims_def PublicKeySize_def Let_def
      NewInMemoryStore_def UnixNano_def)

lemma plain_sign_not_Nil: "pr_ed_sign plain_prims k m \<noteq> []"
proof -
  have "length (pr_ed_sign plain_prims k m) = 64" by (simp add: plain_prims_def)
  then show ?thesis by (metis list.size(3) zero_neq_numeral)
qed

lemma demo_signers_live:
  "live_signer (ring_signer audit_ring) ''a'' PurposeSigningAudit"
  "live_signer (ring_signer demo_keys) ''k'' PurposeSigningAuthority"
proof -
  show "live_signer (ring_signer audit_ring) ''a'' PurposeSigningAudit"
    by (simp add: live_signer_def audit_ring_signs plain_sign_not_Nil)
  have "keys_RecordAlg (ring_signer demo_keys) ''k'' = Inr []"
      "sg_Sign (ring_signer demo_keys) ''k'' PurposeSigningAuthority m = Inr (pr_ed_sign plain_prims (zeros 32) m)" for m
    by (simp_all add: ring_defs demo_keys_key keys_RecordAlg_def Store_Suite_def Store_Sign_def
        RecordAlg_def SigningKey_Sign_def audit_key_def) (simp add: demo_keys_def)
  then show "live_signer (ring_signer demo_keys) ''k'' PurposeSigningAuthority"
    by (simp add: live_signer_def plain_sign_not_Nil)
qed

lemma fmt_d_ascii [simp]: "ascii (fmt_d n)"
  using fmt_d_digits [of n] by (auto simp: ascii_def list_all_iff is_digit_def)

end
