(* ===== verification/BootstrapLive.thy ===== *)
theory BootstrapLive
  imports BootstrapProofs LiveSigners
begin

text \<open>
  Progress of the receive side: with signers that sign and identifiers in ASCII, the audit chain
  records, a message that fits its slot is accepted, and a ready or rejected orchestrator decides.
\<close>

lemma encode_payload_total:
  assumes "fields_ok ws" "in_years ws" "sorted (map fst ws)" "distinct (map fst ws)" "list_all ascii (map fst ws)"
  shows "\<exists>p. encode_payload F ws = Inr p \<and> p \<noteq> []"
  using CanonicalJSON_wire_total [OF assms, of F] by (auto simp: encode_payload_def)
section \<open>An orchestrator ready to work\<close>

text \<open>Its identifiers are ASCII, its signers sign, and the clock reads a year JSON can write.\<close>

definition orch_live :: "InMemoryChain Orchestrator \<Rightarrow> gotime \<Rightarrow> bool" where
  "orch_live orc now \<longleftrightarrow>
     ascii (o_auditPrefix orc) \<and> ascii (o_discPrefix orc) \<and> ascii (o_decisionPrefix orc) \<and>
     o_auditPrefix orc \<noteq> [] \<and> o_discPrefix orc \<noteq> [] \<and>
     ascii (BM_BootstrapID (o_bm orc)) \<and> ascii (BM_SessionID (o_bm orc)) \<and> ascii (BM_ManifestID (o_bm orc)) \<and>
     ascii (BM_GenomeID (o_bm orc)) \<and> ascii (BM_PolicyVersion (o_bm orc)) \<and>
     live_signer (o_auditSigner orc) (o_auditKID orc) PurposeSigningAudit \<and>
     live_signer (o_recvSigner orc) (o_recvSigKID orc) PurposeSigningAuthority \<and>
     length (IC_tip (o_chain orc)) = HashSize \<and> now \<noteq> zero_time \<and> marshal_time now \<noteq> None"

lemma u32_word_bound: "unat (w :: u32) < 2 ^ 63"
  using unsigned_less [of w, where 'a = nat] by simp

lemma audit_append_live:
  assumes "orch_live orc now" "payload \<noteq> []" "kind \<in> set validKinds" "ascii kind" "ascii tag" "ascii session"
    and "\<And>x. length (H x) = HashSize"
  shows "\<exists>e c. Chain_Append H F (o_chain orc)
      (audit_skeleton (orc\<lparr>o_auditCtr := a\<rparr>) tag kind now session payload) (Some (o_auditSigner orc)) = (Inr e, c) \<and>
    length (IC_tip c) = HashSize"
proof -
  obtain w where w: "marshal_time now = Some w" using assms(1) by (auto simp: orch_live_def)
  show ?thesis
    by (rule Chain_Append_live [where w = w])
      (use assms w in \<open>simp_all add: orch_live_def audit_skeleton_def utf8_event_def live_signer_def\<close>)
qed

lemma accept_record_live:
  assumes live: "orch_live orc now" and H: "\<And>x. length (H x) = HashSize" and h: "length h = HashSize"
    and msg: "DM_SessionID msg = BM_SessionID (o_bm orc)" "ascii (DM_PolicyVersion msg)"
      "ascii (DM_DisclosureID msg)" "ascii (DM_ComponentID msg)"
      "DM_DisclosureID msg \<noteq> []" "DM_ComponentID msg \<noteq> []" "DM_SessionID msg \<noteq> []" "BM_BootstrapID (o_bm orc) \<noteq> []"
  shows "\<exists>rd orc'. accept_record (Chain_Append H F) F orc msg slot h now = (Inr rd, orc')"
proof -
  obtain w where w: "marshal_time now = Some w" using live by (auto simp: orch_live_def)
  have "\<exists>p. buildDisclosureReceivedPayload F (o_bm orc) msg h (of_nat slot) = Inr p \<and> p \<noteq> []"
    unfolding buildDisclosureReceivedPayload_def
    by (rule encode_payload_total)
      (use live msg u32_word_bound [of "of_nat slot"] in \<open>simp_all add: orch_live_def fields_ok_def in_years_def\<close>)
  then obtain p where p: "buildDisclosureReceivedPayload F (o_bm orc) msg h (of_nat slot) = Inr p" "p \<noteq> []" by blast
  let ?skel = "audit_skeleton (orc\<lparr>o_auditCtr := o_auditCtr orc + 1\<rparr>) ''disc-'' ''DISCLOSURE_RECEIVED'' now (DM_SessionID msg) p"
  have "\<exists>e c. Chain_Append H F (o_chain orc) ?skel (Some (o_auditSigner orc)) = (Inr e, c) \<and> length (IC_tip c) = HashSize"
    by (rule audit_append_live [OF live p(2)]) (use live msg H in \<open>simp_all add: orch_live_def validKinds_def\<close>)
  then obtain e c where e: "Chain_Append H F (o_chain orc) ?skel (Some (o_auditSigner orc)) = (Inr e, c)" by blast
  have eid: "AE_EventID e = o_auditPrefix orc @ ''disc-'' @ hex_encode (counterBytes (o_auditCtr orc + 1))"
    using in_memory_recorder.recorded [OF e] by simp
  define rd where "rd = \<lparr>RD_SchemaVersion = 1,
      RD_ReceivedID = o_discPrefix orc @ hex_encode (counterBytes (o_discCtr orc + 1)),
      RD_BootstrapID = BM_BootstrapID (o_bm orc), RD_SessionID = DM_SessionID msg,
      RD_DisclosureID = DM_DisclosureID msg, RD_ComponentID = DM_ComponentID msg,
      RD_SequenceIndex = of_nat slot, RD_WireHash = h, RD_ReceivedAt = now,
      RD_AuditEventID = AE_EventID e, RD_SigningKeyID = o_recvSigKID orc,
      RD_Alg = [], RD_Signature = []\<rparr>"
  obtain alg where alg: "keys_RecordAlg (o_recvSigner orc) (o_recvSigKID orc) = Inr alg" "ascii alg"
    using live by (auto simp: orch_live_def live_signer_def)
  have "\<exists>sig. contract_SignWith ReceivedDisclosure_contract F rd (o_recvSigner orc) =
      (None, rd\<lparr>RD_Alg := alg, RD_Signature := sig\<rparr>) \<and> sig \<noteq> []"
    using received_disclosure.SignWith_live [of rd "o_recvSigner orc" alg F] alg live msg u32_word_bound [of "of_nat slot"] w eid
    by (simp add: ReceivedDisclosure_contract_def rd_def orch_live_def live_signer_def contract_clean_def
        ReceivedDisclosure_fields_def fields_ok_def in_years_def)
  then obtain sig where sig: "ReceivedDisclosure_SignWith F rd (o_recvSigner orc) =
      (None, rd\<lparr>RD_Alg := alg, RD_Signature := sig\<rparr>)" "sig \<noteq> []"
    by (auto simp: ReceivedDisclosure_SignWith_def)
  have "ReceivedDisclosure_Validate (rd\<lparr>RD_Alg := alg, RD_Signature := sig\<rparr>) = None"
    using live msg h sig(2) eid
    by (simp add: ReceivedDisclosure_Validate_def rd_def schema_gate_def orch_live_def live_signer_def HashSize_def)
  with p(1) e sig(1) show ?thesis
    by (simp add: accept_record_def Let_def rd_def)
qed

lemma DisclosureMessage_Validate_ids:
  "DisclosureMessage_Validate m = None \<Longrightarrow>
   DM_DisclosureID m \<noteq> [] \<and> DM_SessionID m \<noteq> [] \<and> DM_ComponentID m \<noteq> []"
  by (auto simp: DisclosureMessage_Validate_def)

lemma Accept_live:
  assumes inv: "orch_inv orc" "o_state orc = BStateIngress" and live: "orch_live orc now"
    and H: "\<And>x. length (H x) = HashSize"
    and m: "DisclosureMessage_Validate m = None" "accept_checks orc m (length (o_received orc)) = None"
      "ascii (DM_DisclosureID m)" "ascii (DM_ComponentID m)"
    and cb: "DisclosureMessage_CanonicalBytes F m = Inr cb" "H cb = o_wireH orc ! length (o_received orc)"
  shows "\<exists>rd orc'. Accept (Chain_Append H F) H F orc (Some m) now = (Inr rd, orc')"
proof -
  have n: "length (o_received orc) < length (BM_ExpectedDisclosureIDs (o_bm orc))" "BM_BootstrapID (o_bm orc) \<noteq> []"
    using inv BootstrapManifest_Validate_ok(4) by (auto simp: orch_inv_def stage_ok_def admitted_def)
  have e: "DM_SessionID m = BM_SessionID (o_bm orc)" "DM_PolicyVersion m = BM_PolicyVersion (o_bm orc)"
    using m(2) by (auto simp: accept_checks_def)
  have "\<exists>rd orc'. accept_record (Chain_Append H F) F orc m (length (o_received orc)) (H cb) now = (Inr rd, orc')"
    by (rule accept_record_live [OF live])
      (use DisclosureMessage_Validate_ids [OF m(1)] e m n H live in \<open>simp_all add: orch_live_def\<close>)
  then show ?thesis
    using inv(2) m n cb by (auto simp: Accept_def accept_message_def)
qed

lemma verdict_live:
  assumes "orch_inv orc" "o_state orc \<in> {BStateReady, BStateRejected}"
    and "ascii (o_validatedVRID orc)" "ascii (o_latchedVRID orc)" "ascii (BM_BootstrapID (o_bm orc))"
  shows "\<exists>accepted reason vrid. verdict orc = Inr (accepted, reason, vrid) \<and>
    (accepted \<longleftrightarrow> o_state orc = BStateReady) \<and> ascii vrid \<and> vrid \<noteq> [] \<and> ascii reason \<and>
    reason \<in> set validReasons \<and> (accepted \<longleftrightarrow> reason = ReasonReconstructedOK)"
  using assms by (auto simp: verdict_def orch_inv_def latch_ok_def vrid_ok_def validReasons_def)

lemma Decide_live:
  assumes inv: "orch_inv orc" "o_state orc \<in> {BStateReady, BStateRejected}" "o_decision orc = None"
    and live: "orch_live orc now" and H: "\<And>x. length (H x) = HashSize"
    and v: "ascii (o_validatedVRID orc)" "ascii (o_latchedVRID orc)"
  shows "\<exists>d orc'. Decide (Chain_Append H F) F orc now = (Inr d, orc') \<and>
    (RX_Accepted d \<longleftrightarrow> o_state orc = BStateReady)"
proof -
  obtain w where w: "marshal_time now = Some w" using live by (auto simp: orch_live_def)
  obtain accepted reason vrid where ver: "verdict orc = Inr (accepted, reason, vrid)"
      "accepted \<longleftrightarrow> o_state orc = BStateReady" "ascii vrid" "vrid \<noteq> []" "ascii reason"
      "reason \<in> set validReasons" "accepted \<longleftrightarrow> reason = ReasonReconstructedOK"
    using verdict_live [OF inv(1,2) v] live by (auto simp: orch_live_def)
  have bm: "BM_BootstrapID (o_bm orc) \<noteq> []" "BM_SessionID (o_bm orc) \<noteq> []" "BM_GenomeID (o_bm orc) \<noteq> []"
    using inv(1,2) BootstrapManifest_Validate_ok(4-6) by (auto simp: orch_inv_def admitted_def)
  define rd1 where "rd1 = decision_draft orc accepted reason vrid now"
  have "\<exists>p. buildReconstitutionDecidedPayload F (o_bm orc) rd1 = Inr p \<and> p \<noteq> []"
    unfolding buildReconstitutionDecidedPayload_def
    by (rule encode_payload_total)
      (use live ver in \<open>simp_all add: orch_live_def fields_ok_def in_years_def rd1_def decision_draft_def\<close>)
  then obtain p where p: "buildReconstitutionDecidedPayload F (o_bm orc) rd1 = Inr p" "p \<noteq> []" by blast
  let ?skel = "audit_skeleton (orc\<lparr>o_auditCtr := o_auditCtr orc + 1\<rparr>) ''dec-'' ''RECONSTITUTION_DECIDED'' now
      (BM_SessionID (o_bm orc)) p"
  have "\<exists>e c. Chain_Append H F (o_chain orc) ?skel (Some (o_auditSigner orc)) = (Inr e, c) \<and> length (IC_tip c) = HashSize"
    by (rule audit_append_live [OF live p(2)]) (use live H in \<open>simp_all add: orch_live_def validKinds_def\<close>)
  then obtain e c where e: "Chain_Append H F (o_chain orc) ?skel (Some (o_auditSigner orc)) = (Inr e, c)" by blast
  have eid: "AE_EventID e = o_auditPrefix orc @ ''dec-'' @ hex_encode (counterBytes (o_auditCtr orc + 1))"
    using in_memory_recorder.recorded [OF e] by simp
  define rd where "rd = rd1\<lparr>RX_AuditEventID := AE_EventID e\<rparr>"
  obtain alg where alg: "keys_RecordAlg (o_recvSigner orc) (o_recvSigKID orc) = Inr alg" "ascii alg"
    using live by (auto simp: orch_live_def live_signer_def)
  have "\<exists>sig. contract_SignWith ReconstitutionDecision_contract F rd (o_recvSigner orc) =
      (None, rd\<lparr>RX_Alg := alg, RX_Signature := sig\<rparr>) \<and> sig \<noteq> []"
    using reconstitution_decision.SignWith_live [of rd "o_recvSigner orc" alg F] alg live ver w eid
    by (simp add: ReconstitutionDecision_contract_def rd_def rd1_def decision_draft_def orch_live_def live_signer_def
        contract_clean_def ReconstitutionDecision_fields_def fields_ok_def in_years_def)
  then obtain sig where sig: "ReconstitutionDecision_SignWith F rd (o_recvSigner orc) =
      (None, rd\<lparr>RX_Alg := alg, RX_Signature := sig\<rparr>)" "sig \<noteq> []"
    by (auto simp: ReconstitutionDecision_SignWith_def)
  have "reason = ReasonReassemblyFailed \<or> reason = ReasonValidationFailed \<Longrightarrow> \<not> accepted"
    using ver(7) by auto
  then have "ReconstitutionDecision_Validate (rd\<lparr>RX_Alg := alg, RX_Signature := sig\<rparr>) = None"
    using live bm ver(3-7) sig(2) eid
    by (simp add: ReconstitutionDecision_Validate_def rd_def rd1_def decision_draft_def schema_gate_def
        orch_live_def live_signer_def)
  then have "\<exists>orc'. Decide (Chain_Append H F) F orc now = (Inr (rd\<lparr>RX_Alg := alg, RX_Signature := sig\<rparr>), orc')"
    using p(1) e sig(1) ver(1) inv(3)
    by (simp add: Decide_def Let_def rd1_def [symmetric] rd_def [symmetric])
  moreover have "RX_Accepted (rd\<lparr>RX_Alg := alg, RX_Signature := sig\<rparr>) \<longleftrightarrow> o_state orc = BStateReady"
    using ver(2) by (simp add: rd_def rd1_def decision_draft_def)
  ultimately show ?thesis by blast
qed

section \<open>The whole way\<close>

text \<open>A message the manifest and the committed hash of a slot ask for.\<close>

definition fits_slot ::
    "(bytes \<Rightarrow> bytes) \<Rightarrow> floats \<Rightarrow> 'c Orchestrator \<Rightarrow> nat \<Rightarrow> DisclosureMessage \<Rightarrow> bool" where
  "fits_slot H F orc k m \<longleftrightarrow>
     DisclosureMessage_Validate m = None \<and> accept_checks orc m k = None \<and>
     ascii (DM_DisclosureID m) \<and> ascii (DM_ComponentID m) \<and>
     (case DisclosureMessage_CanonicalBytes F m of Inl err \<Rightarrow> False | Inr cb \<Rightarrow> H cb = o_wireH orc ! k)"

lemma Chain_Append_tip:
  "Chain_Append H F c e sg = (Inr e', c') \<Longrightarrow> length (IC_tip c') = HashSize"
  using Chain_Append_ok [of H F c e sg e' c'] seal_ok(4) by (fastforce simp: AuditEvent_Validate_ok)

text \<open>What one accepted message changes.\<close>

definition after_accept :: "'c Orchestrator \<Rightarrow> ReceivedDisclosure \<Rightarrow> 'c \<Rightarrow> 'c Orchestrator" where
  "after_accept orc rd c =
     orc\<lparr>o_chain := c, o_auditCtr := o_auditCtr orc + 1, o_discCtr := o_discCtr orc + 1,
       o_received := o_received orc @ [rd],
       o_state := (if length (o_received orc) + 1 = length (BM_ExpectedDisclosureIDs (o_bm orc))
                   then BStateReassemble else o_state orc)\<rparr>"

lemma Accept_after:
  assumes "Accept (Chain_Append H F) H F orc (Some m) now = (Inr rd, orc')"
  shows "\<exists>c. orc' = after_accept orc rd c \<and> length (IC_tip c) = HashSize"
  using assms
proof (cases rule: Accept_cases)
  case (accepted m' rd')
  obtain cb where "accept_record (Chain_Append H F) F orc m' (length (o_received orc)) (H cb) now = (Inr rd', orc')"
    using accept_message_ok(4) [OF accepted(4)] by blast
  then show ?thesis
    by (rule accept_record_ok) (use accepted(3) Chain_Append_tip in \<open>auto simp: after_accept_def\<close>)
qed simp_all

lemma after_accept_keeps [simp]:
  "fits_slot H F (after_accept orc rd c) k m = fits_slot H F orc k m"
  "o_bm (after_accept orc rd c) = o_bm orc" "o_wireH (after_accept orc rd c) = o_wireH orc"
  "length (o_received (after_accept orc rd c)) = length (o_received orc) + 1"
  "o_state (after_accept orc rd c) =
     (if length (o_received orc) + 1 = length (BM_ExpectedDisclosureIDs (o_bm orc)) then BStateReassemble else o_state orc)"
  "o_latchedVRID (after_accept orc rd c) = o_latchedVRID orc"
  "o_decision (after_accept orc rd c) = o_decision orc"
  by (simp_all add: after_accept_def fits_slot_def accept_checks_def manifestContainsDisclosure_def
      split: sum.splits)

lemma after_accept_live: "orch_live orc now \<Longrightarrow> length (IC_tip c) = HashSize \<Longrightarrow> orch_live (after_accept orc rd c) now"
  by (simp add: orch_live_def after_accept_def)

abbreviation accept_calls :: "gotime \<Rightarrow> DisclosureMessage list \<Rightarrow> call list" where
  "accept_calls now ms \<equiv> map (\<lambda>m. CallAccept (Some m) now) ms"

lemma accept_all_live:
  assumes "orch_inv orc" "orch_live orc now" "\<And>x. length (H x) = HashSize"
    and "o_state orc = BStateIngress" "ms \<noteq> []"
    and "length (o_received orc) + length ms = length (BM_ExpectedDisclosureIDs (o_bm orc))"
    and "\<forall>i < length ms. fits_slot H F orc (length (o_received orc) + i) (ms ! i)"
  shows "\<exists>orc'. orch_run (Chain_Append H F) H F P orc (accept_calls now ms) = orc' \<and> orch_inv orc' \<and>
    orch_live orc' now \<and> o_state orc' = BStateReassemble \<and> o_decision orc' = o_decision orc \<and>
    o_latchedVRID orc' = o_latchedVRID orc"
  using assms
proof (induction ms arbitrary: orc)
  case (Cons m ms)
  have fit: "fits_slot H F orc (length (o_received orc)) m" using Cons.prems(7) by force
  then obtain cb where cb: "DisclosureMessage_CanonicalBytes F m = Inr cb" "H cb = o_wireH orc ! length (o_received orc)"
    by (auto simp: fits_slot_def split: sum.splits)
  obtain rd orc1 where a: "Accept (Chain_Append H F) H F orc (Some m) now = (Inr rd, orc1)"
    using Accept_live [where H = H and F = F and cb = cb and m = m, OF Cons.prems(1,4,2,3)] cb fit
    by (auto simp: fits_slot_def)
  obtain c where c: "orc1 = after_accept orc rd c" "length (IC_tip c) = HashSize"
    using Accept_after [OF a] by blast
  have inv: "orch_inv orc1" using Accept_inv [OF Cons.prems(1) a] .
  have live: "orch_live orc1 now" using after_accept_live Cons.prems(2) c by simp
  show ?case
  proof (cases "ms = []")
    case True
    with a inv live c Cons.prems(6) show ?thesis by simp
  next
    case False
    then have more: "Suc (length (o_received orc)) \<noteq> length (BM_ExpectedDisclosureIDs (o_bm orc))"
      using Cons.prems(6) by (cases ms) auto
    have fits: "\<forall>i < length ms. fits_slot H F orc1 (length (o_received orc1) + i) (ms ! i)"
      using Cons.prems(7) c by (auto simp: less_Suc_eq_0_disj)
    have "\<exists>orc'. orch_run (Chain_Append H F) H F P orc1 (accept_calls now ms) = orc' \<and> orch_inv orc' \<and>
        orch_live orc' now \<and> o_state orc' = BStateReassemble \<and> o_decision orc' = o_decision orc1 \<and>
        o_latchedVRID orc' = o_latchedVRID orc1"
      using False more Cons.prems c by (intro Cons.IH inv live fits) auto
    with a c show ?thesis by simp
  qed
qed simp

lemma reconstitution_live:
  assumes inv: "orch_inv orc" and live: "orch_live orc now" and H: "\<And>x. length (H x) = HashSize"
    and start: "Start F P orc = (None, orc1)"
    and ms: "length ms = length (BM_ExpectedDisclosureIDs (o_bm orc))" "\<forall>k < length ms. fits_slot H F orc k (ms ! k)"
    and v: "vrid \<noteq> []" "ascii vrid" "ascii (o_latchedVRID orc)"
  shows "\<exists>d. o_decision (orch_run (Chain_Append H F) H F P orc
      (CallStart # accept_calls now ms @ [CallMarkReassembled, CallMarkValidated vrid, CallDecide now])) = Some d \<and>
    RX_Accepted d \<and> RX_ValidationResultID d = vrid"
proof -
  note s = Start_ok [OF start]
  have inv1: "orch_inv orc1" using Start_inv [OF inv start] .
  have r: "o_received orc = []" "o_decision orc = None"
    using inv s(1) decision_ok_open(1) by (auto simp: orch_inv_def stage_ok_def)
  have "BM_ExpectedDisclosureIDs (o_bm orc) \<noteq> []"
    using s(2) BootstrapManifest_Validate_ok(1) by (simp add: admitted_def)
  then have ne: "ms \<noteq> []" using ms(1) by auto
  have keeps: "orch_live orc1 now" "fits_slot H F orc1 k m = fits_slot H F orc k m" for k m
    using live s(3)
    by (simp_all add: orch_live_def fits_slot_def accept_checks_def manifestContainsDisclosure_def split: sum.splits)
  obtain orc2 where o2: "orch_run (Chain_Append H F) H F P orc1 (accept_calls now ms) = orc2" "orch_inv orc2"
      "orch_live orc2 now" "o_state orc2 = BStateReassemble" "o_decision orc2 = o_decision orc1"
      "o_latchedVRID orc2 = o_latchedVRID orc1"
    using accept_all_live [where H = H and F = F and P = P, OF inv1 keeps(1) H _ ne] ms s(3) r keeps(2) by auto
  define orc3 where "orc3 = orc2\<lparr>o_state := BStateReady, o_validatedVRID := vrid\<rparr>"
  have m: "orch_run (Chain_Append H F) H F P orc2 [CallMarkReassembled, CallMarkValidated vrid] = orc3"
    using o2(4) v(1) by (simp add: MarkReassembled_def MarkValidated_def orc3_def)
  have inv3: "orch_inv orc3"
    using orch_run_induct [where I = orch_inv, OF o2(2) orch_call_inv] m by metis
  have "orch_live orc3 now" "o_decision orc3 = None" "o_state orc3 = BStateReady" "ascii (o_validatedVRID orc3)"
      "ascii (o_latchedVRID orc3)"
    using o2 s(3) r v by (simp_all add: orc3_def orch_live_def)
  then obtain d orc4 where d: "Decide (Chain_Append H F) F orc3 now = (Inr d, orc4)" "RX_Accepted d"
    using Decide_live [where H = H and F = F, OF inv3 _ _ _ H] by fastforce
  have "orch_run (Chain_Append H F) H F P orc
      (CallStart # accept_calls now ms @ [CallMarkReassembled, CallMarkValidated vrid, CallDecide now]) = orc4"
    using o2(1) m d(1) start by (simp add: orch_run_append)
  moreover have "o_decision orc4 = Some d \<and> RX_ValidationResultID d = vrid"
  proof (rule Decide_ok [OF d(1)])
    fix accepted reason vrid' c
    assume "verdict orc3 = Inr (accepted, reason, vrid')" "RX_ValidationResultID d = vrid'" "RX_Accepted d = accepted"
      and o4: "orc4 = orc3\<lparr>o_chain := c, o_auditCtr := o_auditCtr orc3 + 1, o_decision := Some d,
       o_state := (if accepted then BStateReconstituted else o_state orc3)\<rparr>"
    with d(2) verdict_ok(1) [OF inv3] have "vrid' = o_validatedVRID orc3" by blast
    then show ?thesis using o4 \<open>RX_ValidationResultID d = vrid'\<close> by (simp add: orc3_def)
  qed
  ultimately show ?thesis using d(2) by auto
qed

section \<open>The wire hash\<close>

lemma accepted_wire_hash:
  assumes "Accept app H F orc (Some m) now = (Inr rd, orc')"
  shows "\<exists>cb. DisclosureMessage_CanonicalBytes F m = Inr cb \<and> H cb = RD_WireHash rd"
  using assms
proof (cases rule: Accept_cases)
  case (accepted m' rd')
  with accepted_receipt [OF accepted(4)] accept_message_ok(4) [OF accepted(4)] show ?thesis
    by (auto simp: receipt_for_def)
qed simp_all

lemma DisclosureMessage_cover:
  "DisclosureMessage_CanonicalBytes F m = Inr cb \<Longrightarrow> contract_cover DisclosureMessage_contract F m = Inr cb"
  by (simp add: DisclosureMessage_CanonicalBytes_def contract_CanonicalBytes_def)

end
