(* ===== verification/BootstrapProperties.thy ===== *)
theory BootstrapProperties
  imports BootstrapLive
begin

text \<open>
  The properties of the receive-side orchestrator over any sequence of calls, with a concrete
  orchestrator that is driven from a manifest of one disclosure to an accepted decision.
\<close>

section \<open>A concrete receive side\<close>

definition demo_bm :: BootstrapManifest where
  "demo_bm =
     \<lparr>BM_SchemaVersion = 1, BM_BootstrapID = ''b'', BM_SessionID = ''s'', BM_ManifestID = ''m'', BM_GenomeID = ''g'',
      BM_PolicyVersion = ''p'', BM_ExpectedDisclosureIDs = [''d''], BM_ExpectedComponentIDs = [''c''],
      BM_Deadline = 8, BM_IssuedAt = 7, BM_SigningKeyID = ''k'', BM_Alg = [], BM_Signature = [1]\<rparr>"

definition demo_rjm :: ReconstructionJobManifest where
  "demo_rjm =
     \<lparr>RJ_SchemaVersion = 1, RJ_ManifestID = ''m'', RJ_SessionID = ''s'', RJ_GenomeID = ''g'', RJ_PolicyVersion = ''p'',
      RJ_DisclosureIDs = [''d''], RJ_ExpectedOutputKind = ''tokens/stream'', RJ_ExpectedOutputMaxBytes = 1,
      RJ_RecipientKeyID = ''r'', RJ_Deadline = 8, RJ_IssuedAt = 7, RJ_SigningKeyID = ''k'', RJ_Alg = [], RJ_Signature = [1]\<rparr>"

definition demo_msg :: DisclosureMessage where
  "demo_msg =
     \<lparr>DM_SchemaVersion = 1, DM_DisclosureID = ''d'', DM_SessionID = ''s'', DM_ComponentID = ''c'', DM_PolicyVersion = ''p'',
      DM_SequenceIndex = 0, DM_SealedPayload = [1], DM_Nonce = zeros 12, DM_RecipientKeyID = ''r'',
      DM_AuthorizedAt = 7, DM_SigningKeyID = ''k'', DM_Alg = [], DM_Signature = [1]\<rparr>"

definition demo_hash :: bytes where
  "demo_hash = (case DisclosureMessage_CanonicalBytes no_floats demo_msg of Inl err \<Rightarrow> zeros 32 | Inr cb \<Rightarrow> SHA256 cb)"

definition demo_opts :: "InMemoryChain OrchestratorOptions" where
  "demo_opts =
     \<lparr>oo_Manifest = Some demo_bm, oo_JobManifest = Some demo_rjm, oo_ExpectedWireHashes = [demo_hash],
      oo_AuditChain = Some NewInMemoryChain, oo_AuditSigner = Some (ring_signer audit_ring), oo_AuditKeyID = ''a'',
      oo_RecvAuthoritySigner = Some (ring_signer demo_keys, None), oo_RecvAuthorityKeyID = ''k'',
      oo_Clock = Some (), oo_AuditIDPrefix = [], oo_DisclosureIDPrefix = [], oo_DecisionIDPrefix = []\<rparr>"

definition demo_orc :: "InMemoryChain Orchestrator" where
  "demo_orc = projr (NewOrchestrator demo_opts)"

definition demo_calls :: "call list" where
  "demo_calls = CallStart # accept_calls 7 [demo_msg] @ [CallMarkReassembled, CallMarkValidated ''v'', CallDecide 7]"

lemma demo_hash_length: "length demo_hash = 32"
  using SHA256_length by (simp add: demo_hash_def HashSize_def split: sum.splits)

lemma demo_orc_new: "NewOrchestrator demo_opts = Inr demo_orc"
  by (simp add: demo_orc_def NewOrchestrator_def demo_opts_def options_missing_def demo_bm_def demo_hash_length
      HashSize_def)

lemma demo_orc_fields:
  "o_bm demo_orc = demo_bm" "o_rjm demo_orc = demo_rjm" "o_wireH demo_orc = [demo_hash]"
  "o_chain demo_orc = NewInMemoryChain" "o_auditSigner demo_orc = ring_signer audit_ring" "o_auditKID demo_orc = ''a''"
  "o_recvSigner demo_orc = ring_signer demo_keys" "o_recvResolver demo_orc = None" "o_recvSigKID demo_orc = ''k''"
  "o_auditPrefix demo_orc = ''audit-recv-''" "o_discPrefix demo_orc = ''recv-disclosure-''"
  "o_decisionPrefix demo_orc = ''recv-decision-''" "o_state demo_orc = BStateUnstarted" "o_latchedVRID demo_orc = []"
  by (simp_all add: demo_orc_def NewOrchestrator_def demo_opts_def options_missing_def demo_hash_length HashSize_def
      or_default_def) (simp_all add: demo_bm_def demo_hash_length HashSize_def)

lemma demo_orc_live: "orch_live demo_orc 7"
  using demo_event_wf(2) demo_signers_live
  by (simp add: orch_live_def demo_orc_fields demo_bm_def NewInMemoryChain_def zero_time_def)

lemma demo_msg_valid: "DisclosureMessage_Validate demo_msg = None"
  by (simp add: DisclosureMessage_Validate_def schema_gate_def demo_msg_def zero_time_def)

lemma demo_msg_clean: "contract_clean DisclosureMessage_contract demo_msg"
  by (simp add: contract_clean_def DisclosureMessage_contract_def DisclosureMessage_fields_def fields_ok_def demo_msg_def)

lemma demo_msg_covered: "\<exists>cb. DisclosureMessage_CanonicalBytes no_floats demo_msg = Inr cb \<and> SHA256 cb = demo_hash"
proof -
  have "in_years (ct_Wire DisclosureMessage_contract (ct_SetSig DisclosureMessage_contract [] demo_msg))"
    using demo_event_wf(2)
    by (simp add: in_years_def DisclosureMessage_contract_def DisclosureMessage_fields_def demo_msg_def)
  then obtain cb where "contract_cover DisclosureMessage_contract no_floats demo_msg = Inr cb"
    using disclosure_message.cover_total [OF demo_msg_clean] by blast
  then have "DisclosureMessage_CanonicalBytes no_floats demo_msg = Inr cb"
    using demo_msg_valid
    by (simp add: DisclosureMessage_CanonicalBytes_def contract_CanonicalBytes_def DisclosureMessage_contract_def)
  then show ?thesis by (simp add: demo_hash_def)
qed

lemma demo_msg_fits: "fits_slot SHA256 no_floats demo_orc 0 demo_msg"
  using demo_msg_covered demo_msg_valid
  by (auto simp: fits_slot_def demo_orc_fields accept_checks_def) (simp_all add: demo_msg_def demo_bm_def)

lemma demo_admitted: "admitted demo_bm demo_rjm"
  by (simp add: admitted_def CheckAgreement_None)
    (simp add: demo_bm_def demo_rjm_def BootstrapManifest_Validate_def schema_gate_def zero_time_def)

lemma demo_start: "Start no_floats plain_prims demo_orc = (None, demo_orc\<lparr>o_state := BStateIngress\<rparr>)"
  using demo_admitted by (simp add: Start_def demo_orc_fields admitted_def)

abbreviation run_demo :: "call list \<Rightarrow> InMemoryChain Orchestrator" where
  "run_demo calls \<equiv> orch_run (Chain_Append SHA256 no_floats) SHA256 no_floats plain_prims demo_orc calls"

lemma demo_run: "\<exists>d. o_decision (run_demo demo_calls) = Some d \<and> RX_Accepted d"
  using reconstitution_live [where H = SHA256 and ms = "[demo_msg]" and vrid = "''v''",
      OF NewOrchestrator_inv [OF demo_orc_new] demo_orc_live SHA256_length demo_start] demo_msg_fits
  by (auto simp: demo_calls_def demo_orc_fields demo_bm_def)

lemma demo_accepts:
  "\<exists>rd orc1. Accept (Chain_Append SHA256 no_floats) SHA256 no_floats (demo_orc\<lparr>o_state := BStateIngress\<rparr>)
     (Some demo_msg) 7 = (Inr rd, orc1)"
proof -
  let ?o = "demo_orc\<lparr>o_state := BStateIngress\<rparr>"
  obtain cb where cb: "DisclosureMessage_CanonicalBytes no_floats demo_msg = Inr cb" "SHA256 cb = demo_hash"
    using demo_msg_covered by blast
  have f: "accept_checks ?o demo_msg 0 = None"
    by (simp add: accept_checks_def demo_orc_fields) (simp add: demo_msg_def demo_bm_def)
  have "orch_inv ?o" using Start_inv [OF NewOrchestrator_inv [OF demo_orc_new] demo_start] .
  moreover have "orch_live ?o 7" using demo_orc_live by (simp add: orch_live_def)
  moreover have r: "o_received ?o = []" using NewOrchestrator_ok(2) [OF demo_orc_new] by simp
  ultimately show ?thesis
    using cb f demo_msg_valid
    by (intro Accept_live [where cb = cb] SHA256_length)
      (simp_all add: demo_orc_fields, simp_all add: demo_msg_def)
qed

text \<open>A malformed message, and the rejected orchestrator it leaves.\<close>

definition bad_msg :: DisclosureMessage where
  "bad_msg = demo_msg\<lparr>DM_Nonce := []\<rparr>"

lemma demo_rejected:
  "o_state (run_demo [CallStart, CallAccept (Some bad_msg) 7]) = BStateRejected"
  "\<exists>d. o_decision (run_demo ([CallStart, CallAccept (Some bad_msg) 7] @ [CallDecide 7])) = Some d"
proof -
  let ?c = "[CallStart, CallAccept (Some bad_msg) 7]"
  have bad: "DisclosureMessage_Validate bad_msg \<noteq> None"
    by (simp add: DisclosureMessage_Validate_def schema_gate_def bad_msg_def demo_msg_def)
  have run: "run_demo ?c = latchRejection ReasonReassemblyFailed [] (demo_orc\<lparr>o_state := BStateIngress\<rparr>)"
    using bad by (auto simp: demo_start Accept_def accept_message_def)
  then show rej: "o_state (run_demo ?c) = BStateRejected" by simp
  note n = NewOrchestrator_ok [OF demo_orc_new]
  have live: "orch_live (run_demo ?c) 7" "o_decision (run_demo ?c) = None"
      "ascii (o_validatedVRID (run_demo ?c))" "ascii (o_latchedVRID (run_demo ?c))"
    unfolding run using demo_orc_live n(3,4)
    by (simp_all add: latchRejection_def orch_live_def)
      (simp add: demo_orc_def NewOrchestrator_def demo_opts_def options_missing_def demo_bm_def demo_hash_length HashSize_def)
  obtain d orc' where "Decide (Chain_Append SHA256 no_floats) no_floats (run_demo ?c) 7 = (Inr d, orc')"
    using Decide_live [where H = SHA256 and F = no_floats, OF reachable_inv [OF demo_orc_new] _ live(2,1) SHA256_length live(3,4)]
      rej by blast
  then have "run_demo (?c @ [CallDecide 7]) = orc'" "o_decision orc' = Some d"
    by (simp_all add: orch_run_append del: append.simps) (erule Decide_ok, simp)
  then show "\<exists>d. o_decision (run_demo (?c @ [CallDecide 7])) = Some d" by blast
qed

section \<open>Properties\<close>

text \<open>C6: The receive side never reconstitutes a genome that was not fully and exactly disclosed: when
  any sequence of calls has led to an accepting decision, every slot of the manifest has a receipt
  for the expected disclosure and component, in order, with the committed wire hash, a validation
  result was named, and the two manifests agree.\<close>

theorem reconstitution_needs_every_disclosure:
  assumes "NewOrchestrator opts = Inr orc" "orc' = orch_run app SHA256 F P orc calls"
    and "o_decision orc' = Some d" "RX_Accepted d"
  shows "o_state orc' = BStateReconstituted \<and>
    length (o_received orc') = length (BM_ExpectedDisclosureIDs (o_bm orc')) \<and>
    (\<forall>k < length (BM_ExpectedDisclosureIDs (o_bm orc')). receipt_for orc' k (o_received orc' ! k)) \<and>
    RX_ValidationResultID d = o_validatedVRID orc' \<and> o_validatedVRID orc' \<noteq> [] \<and>
    RX_Reason d = ReasonReconstructedOK \<and> CheckAgreement (Some (o_bm orc')) (Some (o_rjm orc')) = None"
proof -
  have inv: "orch_inv orc'" using reachable_inv [OF assms(1)] assms(2) by simp
  then have d: "decision_ok (o_bm orc') (o_state orc') (o_latchedReason orc') (o_validatedVRID orc') (Some d)"
    using assms(3) by (simp add: orch_inv_def)
  then have v: "ReconstitutionDecision_Validate d = None" and s: "o_state orc' = BStateReconstituted"
      "RX_ValidationResultID d = o_validatedVRID orc'"
    using assms(4) by (auto simp: decision_ok_def)
  have "RX_Reason d = ReasonReconstructedOK"
    using v assms(4) by (auto simp: ReconstitutionDecision_Validate_def validReasons_def)
  with inv s show ?thesis by (auto simp: orch_inv_def stage_defs admitted_def)
qed

theorem reconstitution_needs_every_disclosure_witness:
  "\<exists>d. o_decision (run_demo demo_calls) = Some d \<and> RX_Accepted d \<and>
     o_state (run_demo demo_calls) = BStateReconstituted \<and> RX_Reason d = ReasonReconstructedOK"
proof -
  obtain d where d: "o_decision (run_demo demo_calls) = Some d" "RX_Accepted d" using demo_run by blast
  from reconstitution_needs_every_disclosure [OF demo_orc_new refl d] d show ?thesis by blast
qed

text \<open>C7: The receive side completes: an orchestrator whose signers work, given the committed messages
  in order and a validation result, takes the accepting decision.\<close>

theorem committed_disclosures_reconstitute:
  assumes "NewOrchestrator opts = Inr orc" "Start F P orc = (None, orc1)" "orch_live orc now"
    and "length ms = length (BM_ExpectedDisclosureIDs (o_bm orc))"
    and "\<forall>k < length ms. fits_slot SHA256 F orc k (ms ! k)" "vrid \<noteq> []" "ascii vrid"
  shows "\<exists>d. o_decision (orch_run (Chain_Append SHA256 F) SHA256 F P orc
      (CallStart # accept_calls now ms @ [CallMarkReassembled, CallMarkValidated vrid, CallDecide now])) = Some d \<and>
    RX_Accepted d \<and> RX_ValidationResultID d = vrid"
proof -
  have "o_latchedVRID orc = []"
    using assms(1) by (auto simp: NewOrchestrator_def Let_def guardR_def split: option.splits)
  then show ?thesis
    by (intro reconstitution_live [OF NewOrchestrator_inv [OF assms(1)] assms(3) SHA256_length assms(2,4,5,6,7)]) simp
qed

theorem committed_disclosures_reconstitute_witness:
  "\<exists>d. o_decision (run_demo (CallStart # accept_calls 7 [demo_msg] @
      [CallMarkReassembled, CallMarkValidated ''v'', CallDecide 7])) = Some d \<and>
    RX_Accepted d \<and> RX_ValidationResultID d = ''v''"
  using committed_disclosures_reconstitute [OF demo_orc_new demo_start demo_orc_live, where ms = "[demo_msg]"]
    demo_msg_fits by (simp add: demo_orc_fields demo_bm_def)

text \<open>C38: The orchestrator implements the published transition table, call by call: it starts unstarted, and
  whatever was called before, refused calls included, each call leaves the state or takes one row of the
  table from that state under one of that call's own triggers (Start: bootstrap.accepted; Accept:
  disclosure.received.all or bootstrap.rejected; MarkReassembled: reassembly.ok; MarkValidated:
  validation.pass; the two failures: bootstrap.rejected; Decide: decision.signed); at most five calls of
  a history move.\<close>

theorem orchestrator_refines_table:
  assumes "NewOrchestrator opts = Inr orc"
  shows "o_state (orch_run app H F P orc []) = BStateUnstarted \<and>
    (\<forall>calls c. table_step (call_triggers c) (o_state (orch_run app H F P orc calls)) (o_state (orch_run app H F P orc (calls @ [c])))) \<and>
    (\<forall>calls. card {i. i < length calls \<and> o_state (orch_run app H F P orc (take (Suc i) calls)) \<noteq> o_state (orch_run app H F P orc (take i calls))} \<le> 5)"
proof (intro conjI allI)
  show start: "o_state (orch_run app H F P orc []) = BStateUnstarted" using NewOrchestrator_ok(1) [OF assms] by simp
  show step: "table_step (call_triggers c) (o_state (orch_run app H F P orc calls)) (o_state (orch_run app H F P orc (calls @ [c])))" for calls c
    using orch_call_steps [OF reachable_inv [OF assms]] by (simp add: orch_run_append)
  fix calls
  let ?f = "\<lambda>i. o_state (orch_run app H F P orc (take i calls))"
  have "\<exists>ts. table_step ts (?f i) (?f (Suc i))" if "i < length calls" for i
    using step [of "calls ! i" "take i calls"] that by (auto simp: take_Suc_conv_app_nth)
  from moves_bounded [of "length calls" ?f, OF this] start
  show "card {i. i < length calls \<and> ?f (Suc i) \<noteq> ?f i} \<le> 5" by simp
qed

theorem orchestrator_refines_table_witness:
  "table_step [''bootstrap.accepted''] BStateUnstarted (o_state (run_demo [CallStart])) \<and>
   card {i. i < length demo_calls \<and> o_state (run_demo (take (Suc i) demo_calls)) \<noteq> o_state (run_demo (take i demo_calls))} \<le> 5"
proof -
  note r = orchestrator_refines_table [OF demo_orc_new, of "Chain_Append SHA256 no_floats" SHA256 no_floats plain_prims]
  from r have "table_step (call_triggers CallStart) (o_state (run_demo [])) (o_state (run_demo ([] @ [CallStart])))" by blast
  then have "table_step [''bootstrap.accepted''] BStateUnstarted (o_state (run_demo [CallStart]))" using r by simp
  with r show ?thesis by blast
qed

text \<open>A decision is final: after it no call changes anything.\<close>

theorem decision_is_final:
  assumes "NewOrchestrator opts = Inr orc" "o_decision (orch_run app H F P orc calls) = Some d"
  shows "orch_run app H F P orc (calls @ rest) = orch_run app H F P orc calls"
  using run_decided_fixed [OF reachable_inv [OF assms(1)] assms(2)] by (simp add: orch_run_append)

theorem decision_is_final_witness:
  "run_demo (demo_calls @ [CallAccept (Some demo_msg) 7]) = run_demo demo_calls"
proof -
  obtain d where "o_decision (run_demo demo_calls) = Some d" using demo_run by blast
  from decision_is_final [OF demo_orc_new this] show ?thesis .
qed

text \<open>A rejection is final and keeps its first reason: once an orchestrator is rejected, no calls
  lead to an accepting decision, and any decision states that reason.\<close>

theorem rejection_is_final:
  assumes "NewOrchestrator opts = Inr orc" "o_state (orch_run app H F P orc calls) = BStateRejected"
    and "o_decision (orch_run app H F P orc (calls @ rest)) = Some d"
  shows "\<not> RX_Accepted d \<and> o_latchedReason (orch_run app H F P orc calls) = Some (RX_Reason d)"
proof -
  let ?o = "orch_run app H F P orc calls" and ?o' = "orch_run app H F P orc (calls @ rest)"
  have "o_state ?o' = BStateRejected \<and> o_latchedReason ?o' = o_latchedReason ?o"
    using run_rejected [OF reachable_inv [OF assms(1)] assms(2)] by (simp add: orch_run_append)
  moreover have "orch_inv ?o'" using reachable_inv [OF assms(1)] .
  ultimately show ?thesis using assms(3) by (auto simp: orch_inv_def decision_ok_def split: if_splits)
qed

theorem rejection_is_final_witness:
  "\<exists>d. o_decision (run_demo ([CallStart, CallAccept (Some bad_msg) 7] @ [CallDecide 7])) = Some d \<and> \<not> RX_Accepted d"
proof -
  obtain d where d: "o_decision (run_demo ([CallStart, CallAccept (Some bad_msg) 7] @ [CallDecide 7])) = Some d"
    using demo_rejected(2) by blast
  from rejection_is_final [OF demo_orc_new demo_rejected(1) d] d show ?thesis by blast
qed

text \<open>Nothing is accepted or decided without evidence: every receipt and the decision name an event
  of the audit chain of their kind, and their signatures check under the receive-side key store.\<close>

theorem receipts_are_evidenced:
  assumes "NewOrchestrator opts = Inr orc" "ring_ok r" "o_recvSigner orc = ring_signer r"
    and "orc' = orch_run (Chain_Append SHA256 F) SHA256 F P orc calls"
  shows "evidenced IC_events orc' \<and> all_verified F r orc'"
proof
  note n = NewOrchestrator_ok [OF assms(1)]
  show "evidenced IC_events orc'"
    unfolding assms(4) by (rule in_memory_recorder.run_evidenced) (simp add: evidenced_def n)
  show "all_verified F r orc'"
    unfolding assms(4)
    by (rule orch_run_induct) (simp_all add: orch_call_verified assms(2), simp add: all_verified_def n assms(3))
qed

theorem receipts_are_evidenced_witness:
  "evidenced IC_events (run_demo demo_calls) \<and> all_verified no_floats demo_keys (run_demo demo_calls)"
  using receipts_are_evidenced [OF demo_orc_new demo_keys_ok _ refl] demo_orc_fields(7) by simp

text \<open>The committed wire hash fixes the message: two messages accepted with the same wire hash
  agree on every field but the signature, unless their signed bytes are a collision of \<open>SHA256\<close>.\<close>

theorem wire_hash_commits_to_message:
  assumes "Accept app SHA256 F orc (Some m) now = (Inr rd, orc1)"
    and "Accept app' SHA256 F orc' (Some m') now' = (Inr rd', orc1')"
    and "contract_clean DisclosureMessage_contract m" "contract_clean DisclosureMessage_contract m'"
    and "RD_WireHash rd = RD_WireHash rd'"
  shows "m\<lparr>DM_Signature := []\<rparr> = m'\<lparr>DM_Signature := []\<rparr> \<or>
    (\<exists>x y. DisclosureMessage_CanonicalBytes F m = Inr x \<and> DisclosureMessage_CanonicalBytes F m' = Inr y \<and>
       collides SHA256 x y)"
proof -
  obtain x y where x: "DisclosureMessage_CanonicalBytes F m = Inr x" "SHA256 x = RD_WireHash rd"
      and y: "DisclosureMessage_CanonicalBytes F m' = Inr y" "SHA256 y = RD_WireHash rd'"
    using accepted_wire_hash [OF assms(1)] accepted_wire_hash [OF assms(2)] by blast
  show ?thesis
  proof (cases "x = y")
    case True
    with disclosure_message.cover_fixes [OF assms(3,4) DisclosureMessage_cover [OF x(1)]] DisclosureMessage_cover [OF y(1)]
    show ?thesis by (simp add: DisclosureMessage_contract_def)
  qed (use x y assms(5) in \<open>auto simp: collides_def\<close>)
qed

theorem wire_hash_commits_to_message_witness:
  "\<exists>rd orc1. Accept (Chain_Append SHA256 no_floats) SHA256 no_floats (demo_orc\<lparr>o_state := BStateIngress\<rparr>)
      (Some demo_msg) 7 = (Inr rd, orc1) \<and>
    (demo_msg\<lparr>DM_Signature := []\<rparr> = demo_msg\<lparr>DM_Signature := []\<rparr> \<or>
     (\<exists>x y. DisclosureMessage_CanonicalBytes no_floats demo_msg = Inr x \<and>
        DisclosureMessage_CanonicalBytes no_floats demo_msg = Inr y \<and> collides SHA256 x y))"
proof -
  obtain rd orc1 where a: "Accept (Chain_Append SHA256 no_floats) SHA256 no_floats (demo_orc\<lparr>o_state := BStateIngress\<rparr>)
      (Some demo_msg) 7 = (Inr rd, orc1)"
    using demo_accepts by blast
  from wire_hash_commits_to_message [OF a a demo_msg_clean demo_msg_clean refl] a show ?thesis by blast
qed

end
