(* ===== verification/FlowMachine.thy ===== *)
theory FlowMachine
  imports Transitions
begin

text \<open>
  The nine-stage flow machine (src/internal/vault/orchestration/state.go and machine.go): the
  states in the order of their \<open>iota\<close> values, the table of legal transitions with the generated
  incident arcs, and the \<open>Machine\<close> that moves only along it and keeps every move. The interpretation
  \<open>flow\<close> discharges the table's contract, so the machine's runs inherit its lemmas.
\<close>

datatype State =
    StateUnstarted
  | StateRequest
  | StateTrust
  | StateSession
  | StateDisclosure
  | StateExternalCompute
  | StateReturn
  | StateValidation
  | StateRelease
  | StateAudit
  | StateReleaseAuthorized
  | StateIncidentTerminated
  | StateCrossCloudHandshake

primrec State_iota :: "State \<Rightarrow> nat" where
  "State_iota StateUnstarted = 0"
| "State_iota StateRequest = 1"
| "State_iota StateTrust = 2"
| "State_iota StateSession = 3"
| "State_iota StateDisclosure = 4"
| "State_iota StateExternalCompute = 5"
| "State_iota StateReturn = 6"
| "State_iota StateValidation = 7"
| "State_iota StateRelease = 8"
| "State_iota StateAudit = 9"
| "State_iota StateReleaseAuthorized = 10"
| "State_iota StateIncidentTerminated = 11"
| "State_iota StateCrossCloudHandshake = 12"

lemma State_iota_inj: "State_iota s = State_iota t \<Longrightarrow> s = t"
  by (cases s; cases t) simp_all

instantiation State :: linorder
begin

definition less_eq_State :: "State \<Rightarrow> State \<Rightarrow> bool" where
  "less_eq_State s t \<longleftrightarrow> State_iota s \<le> State_iota t"

definition less_State :: "State \<Rightarrow> State \<Rightarrow> bool" where
  "less_State s t \<longleftrightarrow> State_iota s < State_iota t"

instance
  by standard (auto simp: less_eq_State_def less_State_def intro: State_iota_inj)

end

fun State_String :: "State \<Rightarrow> string" where
  "State_String StateUnstarted = ''unstarted''"
| "State_String StateRequest = ''request''"
| "State_String StateTrust = ''trust''"
| "State_String StateSession = ''session''"
| "State_String StateDisclosure = ''disclosure''"
| "State_String StateExternalCompute = ''external_compute''"
| "State_String StateReturn = ''return''"
| "State_String StateValidation = ''validation''"
| "State_String StateRelease = ''release''"
| "State_String StateAudit = ''audit''"
| "State_String StateReleaseAuthorized = ''release_authorized''"
| "State_String StateIncidentTerminated = ''incident_terminated''"
| "State_String StateCrossCloudHandshake = ''cross_cloud_handshake''"

definition IsTerminal :: "State \<Rightarrow> bool" where
  "IsTerminal s \<longleftrightarrow> s = StateReleaseAuthorized \<or> s = StateIncidentTerminated"

definition IsOperational :: "State \<Rightarrow> bool" where
  "IsOperational s \<longleftrightarrow> s \<ge> StateRequest \<and> s \<le> StateAudit \<or> s = StateCrossCloudHandshake"

definition IncidentCapableStates :: "State list" where
  "IncidentCapableStates =
     [StateRequest, StateTrust, StateSession, StateDisclosure, StateExternalCompute, StateReturn,
      StateValidation, StateRelease, StateAudit, StateCrossCloudHandshake]"

abbreviation row :: "'s \<Rightarrow> 's \<Rightarrow> string \<Rightarrow> 's Transition" where
  "row from to trigger \<equiv> \<lparr>tr_From = from, tr_To = to, tr_Trigger = trigger\<rparr>"

definition happyPathTransitions :: "State Transition list" where
  "happyPathTransitions =
     [row StateUnstarted StateRequest ''request.received'',
      row StateRequest StateTrust ''request.validated'',
      row StateTrust StateSession ''attestation.allow'',
      row StateTrust StateRelease ''attestation.deny'',
      row StateTrust StateRelease ''attestation.restrict'',
      row StateSession StateDisclosure ''session.issued'',
      row StateDisclosure StateExternalCompute ''manifest.dispatched'',
      row StateExternalCompute StateReturn ''candidate.received'',
      row StateReturn StateValidation ''return.accepted'',
      row StateValidation StateRelease ''validation.completed'',
      row StateRelease StateAudit ''decision.signed'',
      row StateRelease StateCrossCloudHandshake ''cross_cloud.initiated'',
      row StateCrossCloudHandshake StateAudit ''cross_cloud.token_dispatched'',
      row StateAudit StateReleaseAuthorized ''audit.sealed.release_true'',
      row StateAudit StateIncidentTerminated ''audit.sealed.release_false'']"

definition buildTransitionTable :: "State Transition list" where
  "buildTransitionTable =
     happyPathTransitions @
     map (\<lambda>s. row s StateIncidentTerminated ''incident.detected'') IncidentCapableStates"

definition TransitionTable :: "State Transition list" where
  "TransitionTable = buildTransitionTable"

definition CanTransition :: "State \<Rightarrow> State \<Rightarrow> string \<Rightarrow> bool" where
  "CanTransition from to trigger = can_transition TransitionTable from to trigger"

definition LegalTransitions :: "State \<Rightarrow> State Transition list" where
  "LegalTransitions from = legal_transitions TransitionTable from"

section \<open>The machine\<close>

record Step =
  st_From :: State
  st_To :: State
  st_Trigger :: string
  st_At :: gotime

record Machine =
  m_state :: State
  m_steps :: "Step list"

definition NewMachine :: Machine where
  "NewMachine = \<lparr>m_state = StateUnstarted, m_steps = []\<rparr>"

definition Machine_State :: "Machine \<Rightarrow> State" where
  "Machine_State m = m_state m"

abbreviation flow_CodeIllegalTransition :: string where
  "flow_CodeIllegalTransition \<equiv> ''orchestration.illegal_transition''"

definition Advance :: "Machine \<Rightarrow> string \<Rightarrow> gotime \<Rightarrow> (State \<times> go_error option) \<times> Machine" where
  "Advance m trigger at =
     (case find_transition TransitionTable (m_state m) trigger of
        Some tr \<Rightarrow>
          ((tr_To tr, None),
           m\<lparr>m_steps := m_steps m @
               [\<lparr>st_From = m_state m, st_To = tr_To tr, st_Trigger = trigger, st_At = at\<rparr>],
             m_state := tr_To tr\<rparr>)
      | None \<Rightarrow>
          ((m_state m, Some (Structural flow_CodeIllegalTransition
              (''orchestration: no transition '' @ fmt_q trigger @ '' from state '' @ State_String (m_state m))
              None)), m))"

definition Machine_Steps :: "Machine \<Rightarrow> Step list" where
  "Machine_Steps m = [] @ m_steps m"

text \<open>A driver: any triggers, at any times, refused or not.\<close>

fun drive :: "Machine \<Rightarrow> (string \<times> gotime) list \<Rightarrow> Machine" where
  "drive m [] = m"
| "drive m ((t, at) # ts) = drive (snd (Advance m t at)) ts"

section \<open>The table's contract\<close>

text \<open>The longest way to the end from each state.\<close>

fun flow_rank :: "State \<Rightarrow> nat" where
  "flow_rank StateUnstarted = 11"
| "flow_rank StateRequest = 10"
| "flow_rank StateTrust = 9"
| "flow_rank StateSession = 8"
| "flow_rank StateDisclosure = 7"
| "flow_rank StateExternalCompute = 6"
| "flow_rank StateReturn = 5"
| "flow_rank StateValidation = 4"
| "flow_rank StateRelease = 3"
| "flow_rank StateCrossCloudHandshake = 2"
| "flow_rank StateAudit = 1"
| "flow_rank StateReleaseAuthorized = 0"
| "flow_rank StateIncidentTerminated = 0"

lemmas flow_table_defs =
  TransitionTable_def buildTransitionTable_def happyPathTransitions_def IncidentCapableStates_def

lemma flow_rows_deterministic:
  "\<forall>tr \<in> set TransitionTable. \<forall>tr' \<in> set TransitionTable.
     tr_From tr = tr_From tr' \<longrightarrow> tr_Trigger tr = tr_Trigger tr' \<longrightarrow> tr_To tr = tr_To tr'"
  by (simp add: flow_table_defs)

interpretation flow: transition_machine TransitionTable IsTerminal flow_rank
proof unfold_locales
  fix tr tr' :: "State Transition"
  assume "tr \<in> set TransitionTable" "tr' \<in> set TransitionTable" "tr_From tr = tr_From tr'"
    "tr_Trigger tr = tr_Trigger tr'"
  then show "tr_To tr = tr_To tr'" using flow_rows_deterministic by blast
next
  fix tr :: "State Transition"
  assume "tr \<in> set TransitionTable"
  then show "\<not> IsTerminal (tr_From tr)" "flow_rank (tr_To tr) < flow_rank (tr_From tr)"
    by (auto simp: flow_table_defs IsTerminal_def)
next
  fix s :: State
  assume "\<not> IsTerminal s"
  then show "\<exists>tr \<in> set TransitionTable. tr_From tr = s"
    by (cases s) (simp_all add: flow_table_defs IsTerminal_def)
qed

lemma IsOperational_iff: "IsOperational s \<longleftrightarrow> s \<noteq> StateUnstarted \<and> \<not> IsTerminal s"
  by (cases s) (simp_all add: IsOperational_def IsTerminal_def less_eq_State_def)

lemma IsOperational_incident:
  "IsOperational s \<longleftrightarrow> s \<in> set IncidentCapableStates"
  by (cases s) (simp_all add: IsOperational_def IncidentCapableStates_def less_eq_State_def)

section \<open>Runs of the machine\<close>

text \<open>The history of a machine: each step starts where the one before it ended.\<close>

fun steps_from :: "State \<Rightarrow> Step list \<Rightarrow> State \<Rightarrow> bool" where
  "steps_from s [] s' \<longleftrightarrow> s = s'"
| "steps_from s (x # xs) s' \<longleftrightarrow>
     st_From x = s \<and> CanTransition s (st_To x) (st_Trigger x) \<and> st_Trigger x \<noteq> [] \<and> steps_from (st_To x) xs s'"

definition machine_ok :: "Machine \<Rightarrow> bool" where
  "machine_ok m \<longleftrightarrow> steps_from StateUnstarted (m_steps m) (m_state m)"

lemma TransitionTable_triggers: "tr \<in> set TransitionTable \<Longrightarrow> tr_Trigger tr \<noteq> []"
  by (auto simp: flow_table_defs)

lemma steps_from_snoc:
  "steps_from s (xs @ [x]) s' \<longleftrightarrow>
     steps_from s xs (st_From x) \<and> CanTransition (st_From x) (st_To x) (st_Trigger x) \<and>
     st_Trigger x \<noteq> [] \<and> st_To x = s'"
  by (induction xs arbitrary: s) auto

lemma steps_from_path: "steps_from s xs s' \<Longrightarrow> path TransitionTable s (map st_Trigger xs) s'"
proof (induction xs arbitrary: s)
  case (Cons x xs)
  then obtain tr where "tr \<in> set TransitionTable" "tr_From tr = s" "tr_To tr = st_To x"
      "tr_Trigger tr = st_Trigger x"
    by (auto simp: CanTransition_def can_transition_iff)
  with Cons path_step [of tr TransitionTable] show ?case by auto
qed (auto intro: path_nil)

lemma Advance_ok:
  assumes "machine_ok m"
  shows "machine_ok (snd (Advance m t at))"
proof (cases "find_transition TransitionTable (m_state m) t")
  case (Some tr)
  with assms find_transition_SomeD [OF Some] TransitionTable_triggers [of tr] show ?thesis
    by (auto simp: machine_ok_def Advance_def steps_from_snoc CanTransition_def can_transition_iff)
qed (simp add: assms Advance_def)

lemma drive_ok: "machine_ok m \<Longrightarrow> machine_ok (drive m ts)"
  by (induction m ts rule: drive.induct) (auto intro: Advance_ok)

lemma NewMachine_ok: "machine_ok NewMachine"
  by (simp add: machine_ok_def NewMachine_def)

lemma drive_NewMachine_path:
  "path TransitionTable StateUnstarted (map st_Trigger (m_steps (drive NewMachine ts)))
     (m_state (drive NewMachine ts))"
  using drive_ok [OF NewMachine_ok] by (auto simp: machine_ok_def intro: steps_from_path)

lemma Advance_row:
  assumes "tr \<in> set TransitionTable" "m_state m = tr_From tr"
  shows "m_state (snd (Advance m (tr_Trigger tr) at)) = tr_To tr"
  using flow.find_transition_row [OF assms(1)] assms(2) by (auto simp: Advance_def)

lemma incident_from:
  "m_state (snd (Advance m ''incident.detected'' at)) =
     (if IsOperational (m_state m) then StateIncidentTerminated else m_state m)"
proof (cases "IsOperational (m_state m)")
  case True
  let ?tr = "row (m_state m) StateIncidentTerminated ''incident.detected''"
  have "?tr \<in> set TransitionTable"
    using True by (auto simp: IsOperational_incident TransitionTable_def buildTransitionTable_def)
  from Advance_row [OF this, of m at] True show ?thesis by simp
next
  case False
  then have "find_transition TransitionTable (m_state m) ''incident.detected'' = None"
    by (cases "m_state m") (simp_all add: IsOperational_incident flow_table_defs)
  with False show ?thesis by (simp add: Advance_def)
qed

text \<open>Every run of the table is one the machine takes.\<close>

lemma drive_path:
  "path TransitionTable s ts s' \<Longrightarrow> m_state m = s \<Longrightarrow>
   m_state (drive m (map (\<lambda>t. (t, at)) ts)) = s'"
  by (induction arbitrary: m rule: path.induct) (auto intro: Advance_row)

text \<open>The way into the authorized terminal.\<close>

lemma path_backward:
  "path TransitionTable s ts s' \<Longrightarrow> s \<noteq> s' \<Longrightarrow>
   \<exists>tr us. tr \<in> set TransitionTable \<and> tr_To tr = s' \<and> ts = us @ [tr_Trigger tr] \<and>
     path TransitionTable s us (tr_From tr)"
proof (induction rule: path.induct)
  case (path_step tr ts s')
  show ?case
  proof (cases "tr_To tr = s'")
    case True
    then have "ts = []" using flow.path_bound [OF path_step(2)] by simp
    with path_step True show ?thesis by (intro exI [of _ tr] exI [of _ "[]"]) (auto intro: path_nil)
  next
    case False
    with path_step.IH obtain tr' us where "tr' \<in> set TransitionTable" "tr_To tr' = s'"
        "ts = us @ [tr_Trigger tr']" "path TransitionTable (tr_To tr) us (tr_From tr')" by blast
    with path_step(1) show ?thesis
      by (intro exI [of _ tr'] exI [of _ "tr_Trigger tr # us"]) (auto intro: path.path_step)
  qed
qed simp

lemma into_state:
  assumes "tr \<in> set TransitionTable"
  shows "tr_To tr = StateReleaseAuthorized \<Longrightarrow> tr_From tr = StateAudit \<and> tr_Trigger tr = ''audit.sealed.release_true''"
    and "tr_To tr = StateAudit \<Longrightarrow> tr_From tr = StateRelease \<and> tr_Trigger tr = ''decision.signed'' \<or>
      tr_From tr = StateCrossCloudHandshake \<and> tr_Trigger tr = ''cross_cloud.token_dispatched''"
    and "tr_To tr = StateCrossCloudHandshake \<Longrightarrow> tr_From tr = StateRelease \<and> tr_Trigger tr = ''cross_cloud.initiated''"
  using assms by (auto simp: flow_table_defs)

lemma path_to_authorized:
  assumes "path TransitionTable StateUnstarted ts StateReleaseAuthorized"
  shows "\<exists>us. path TransitionTable StateUnstarted us StateRelease \<and>
    (ts = us @ [''decision.signed'', ''audit.sealed.release_true''] \<or>
     ts = us @ [''cross_cloud.initiated'', ''cross_cloud.token_dispatched'', ''audit.sealed.release_true''])"
proof -
  obtain t1 u1 where 1: "t1 \<in> set TransitionTable" "tr_To t1 = StateReleaseAuthorized"
      "ts = u1 @ [tr_Trigger t1]" "path TransitionTable StateUnstarted u1 (tr_From t1)"
    using path_backward [OF assms] by auto
  then have p: "path TransitionTable StateUnstarted u1 StateAudit" using into_state(1) by auto
  then obtain t2 u2 where 2: "t2 \<in> set TransitionTable" "tr_To t2 = StateAudit"
      "u1 = u2 @ [tr_Trigger t2]" "path TransitionTable StateUnstarted u2 (tr_From t2)"
    using path_backward [OF p] by auto
  from into_state(2) [OF 2(1,2)] show ?thesis
  proof (elim disjE conjE)
    assume c: "tr_From t2 = StateCrossCloudHandshake" "tr_Trigger t2 = ''cross_cloud.token_dispatched''"
    then obtain t3 u3 where 3: "t3 \<in> set TransitionTable" "tr_To t3 = StateCrossCloudHandshake"
        "u2 = u3 @ [tr_Trigger t3]" "path TransitionTable StateUnstarted u3 (tr_From t3)"
      using path_backward [of StateUnstarted u2 StateCrossCloudHandshake] 2(4) by auto
    with 1 2 c into_state(1) [OF 1(1,2)] into_state(3) [OF 3(1,2)] show ?thesis
      by (intro exI [of _ u3]) simp
  qed (use 1 2 into_state(1) [OF 1(1,2)] in \<open>auto intro!: exI [of _ u2]\<close>)
qed

text \<open>The properties of the nine-stage flow machine, for any driver and any times.\<close>

definition stage_order :: "string list" where
  "stage_order = [''request.received'', ''request.validated'', ''attestation.allow'', ''session.issued'',
     ''manifest.dispatched'', ''candidate.received'', ''return.accepted'', ''validation.completed'',
     ''decision.signed'', ''audit.sealed.release_true'']"

lemma stage_order_run:
  "m_state (drive NewMachine (map (\<lambda>t. (t, 0)) stage_order)) = StateReleaseAuthorized"
  by (simp add: stage_order_def NewMachine_def Advance_def flow_table_defs)

text \<open>C39: Whatever a driver asks for, the machine's history is a chain of legal transitions that starts
  at \<open>StateUnstarted\<close> and ends in the current state, and it never takes more than eleven steps.\<close>

theorem flow_history_legal_and_bounded:
  "steps_from StateUnstarted (m_steps (drive NewMachine ts)) (m_state (drive NewMachine ts)) \<and>
   length (m_steps (drive NewMachine ts)) \<le> 11"
  using drive_ok [OF NewMachine_ok, of ts] flow.path_bound [OF drive_NewMachine_path [of ts]]
  by (simp add: machine_ok_def)

text \<open>A flow is never stuck: from every machine a driver can reach, some triggers lead to a terminal
  state; and the incident trigger alone does so from exactly the operational states.\<close>

theorem flow_can_always_finish:
  "(\<exists>us. IsTerminal (m_state (drive (drive NewMachine ts) us))) \<and>
   m_state (snd (Advance (drive NewMachine ts) ''incident.detected'' at)) =
     (if IsOperational (m_state (drive NewMachine ts)) then StateIncidentTerminated else m_state (drive NewMachine ts))"
proof
  obtain us s' where "path TransitionTable (m_state (drive NewMachine ts)) us s'" "IsTerminal s'"
    using flow.can_finish by blast
  then have "IsTerminal (m_state (drive (drive NewMachine ts) (map (\<lambda>t. (t, 0)) us)))"
    using drive_path [of _ us s' "drive NewMachine ts" 0] by simp
  then show "\<exists>us. IsTerminal (m_state (drive (drive NewMachine ts) us))" ..
  show "m_state (snd (Advance (drive NewMachine ts) ''incident.detected'' at)) =
      (if IsOperational (m_state (drive NewMachine ts)) then StateIncidentTerminated else m_state (drive NewMachine ts))"
    by (rule incident_from)
qed

text \<open>Release is authorized only through the release stage: a machine in \<open>StateReleaseAuthorized\<close>
  went through \<open>StateRelease\<close> and then signed the decision, or initiated and dispatched the
  cross-cloud token, and last sealed the audit with release; and no trigger moves it again.\<close>

theorem release_only_through_decision:
  assumes "m_state (drive NewMachine ts) = StateReleaseAuthorized"
  shows "(\<exists>us. path TransitionTable StateUnstarted us StateRelease \<and>
      (map st_Trigger (m_steps (drive NewMachine ts)) = us @ [''decision.signed'', ''audit.sealed.release_true''] \<or>
       map st_Trigger (m_steps (drive NewMachine ts)) =
         us @ [''cross_cloud.initiated'', ''cross_cloud.token_dispatched'', ''audit.sealed.release_true''])) \<and>
    (\<forall>t at. snd (Advance (drive NewMachine ts) t at) = drive NewMachine ts)"
proof
  show "\<exists>us. path TransitionTable StateUnstarted us StateRelease \<and>
      (map st_Trigger (m_steps (drive NewMachine ts)) = us @ [''decision.signed'', ''audit.sealed.release_true''] \<or>
       map st_Trigger (m_steps (drive NewMachine ts)) =
         us @ [''cross_cloud.initiated'', ''cross_cloud.token_dispatched'', ''audit.sealed.release_true''])"
    using path_to_authorized drive_NewMachine_path [of ts] assms by simp
  show "\<forall>t at. snd (Advance (drive NewMachine ts) t at) = drive NewMachine ts"
    using flow.terminal_no_transition [of StateReleaseAuthorized] assms by (simp add: Advance_def IsTerminal_def)
qed

theorem release_only_through_decision_witness:
  "\<exists>us. map st_Trigger (m_steps (drive NewMachine (map (\<lambda>t. (t, 0)) stage_order))) =
     us @ [''decision.signed'', ''audit.sealed.release_true''] \<or>
   map st_Trigger (m_steps (drive NewMachine (map (\<lambda>t. (t, 0)) stage_order))) =
     us @ [''cross_cloud.initiated'', ''cross_cloud.token_dispatched'', ''audit.sealed.release_true'']"
  using release_only_through_decision [OF stage_order_run] by blast

section \<open>What the table does not enforce\<close>

text \<open>The table itself lets a denied attestation end in \<open>StateReleaseAuthorized\<close>, without a session, a
  disclosure or a validation: it is the driver that must choose the refusal trigger.\<close>

theorem denied_attestation_can_reach_release:
  "m_state (drive NewMachine (map (\<lambda>t. (t, 0))
     [''request.received'', ''request.validated'', ''attestation.deny'', ''decision.signed'',
      ''audit.sealed.release_true''])) = StateReleaseAuthorized"
  by (simp add: NewMachine_def Advance_def flow_table_defs)

end
