(* ===== verification/Durations.thy ===== *)
theory Durations
  imports Prelude
begin

text \<open>
  Go's \<open>time.Duration\<close>: a signed 64-bit count of nanoseconds, as a word read with \<open>sint\<close>.
  \<open>Add\<close> on an instant is exact; \<open>Sub\<close> saturates at the ends of the range, as \<open>time.Time.Sub\<close>
  does; a conversion of seconds, \<open>time.Duration(n) * time.Second\<close>, is a 64-bit product and wraps.
\<close>

type_synonym i64 = "64 word"
type_synonym duration = i64

definition Second :: duration where
  "Second = 1000000000"

definition time_Add :: "gotime \<Rightarrow> duration \<Rightarrow> gotime" where
  "time_Add t d = t + sint d"

definition time_Sub :: "gotime \<Rightarrow> gotime \<Rightarrow> duration" where
  "time_Sub t u = word_of_int (max (- (2 ^ 63)) (min (2 ^ 63 - 1) (t - u)))"

definition seconds :: "i64 \<Rightarrow> duration" where
  "seconds n = n * Second"

lemma sint_range: "- (2 ^ 63) \<le> sint (d :: i64)" "sint (d :: i64) < 2 ^ 63"
  using sint_lt [of d] sint_ge [of d] by simp_all

lemma sint_inject: "sint a = sint b \<longleftrightarrow> a = (b :: i64)"
  using signed_word_eqI by auto

lemma sint_of_int: "- (2 ^ 63) \<le> i \<Longrightarrow> i < 2 ^ 63 \<Longrightarrow> sint (word_of_int i :: i64) = i"
  by (simp add: signed_take_bit_int_eq_self sint_sbintrunc')

lemma sint_time_Sub: "sint (time_Sub t u) = max (- (2 ^ 63)) (min (2 ^ 63 - 1) (t - u))"
  unfolding time_Sub_def by (rule sint_of_int) auto

text \<open>A saturated difference still orders against every positive bound below the largest.\<close>

lemma time_Sub_le_iff: "- (2 ^ 63) \<le> i \<Longrightarrow> i < 2 ^ 63 - 1 \<Longrightarrow> sint (time_Sub t u) \<le> i \<longleftrightarrow> t - u \<le> i"
  by (auto simp: sint_time_Sub min_def max_def)

lemma time_Sub_ge_iff: "- (2 ^ 63) < i \<Longrightarrow> i < 2 ^ 63 \<Longrightarrow> i \<le> sint (time_Sub t u) \<longleftrightarrow> i \<le> t - u"
  by (auto simp: sint_time_Sub)

lemma sint_seconds:
  assumes "- (2 ^ 63) \<le> sint n * 1000000000" "sint n * 1000000000 < 2 ^ 63"
  shows "sint (seconds n) = sint n * 1000000000"
proof -
  have "seconds n = word_of_int (sint n * 1000000000)"
    by (simp add: seconds_def Second_def)
  then show ?thesis using sint_of_int [OF assms] by simp
qed

end
