(* ===== verification/ReleaseContracts.thy ===== *)
theory ReleaseContracts
  imports BootstrapContracts Durations
begin

text \<open>
  The contracts of admission and session issuance (src/internal/contracts/recovery_request,
  attestation_result, session_object): the request and its gate, the signed trust decision, and the
  signed session, each with its gate, its JSON fields by key and the shared signing operations.
  A \<open>time.Duration\<close> is written as its signed count of nanoseconds.
\<close>

section \<open>Recovery request\<close>

record RecoveryRequest =
  RQ_SchemaVersion :: u16
  RQ_RequestID :: string
  RQ_GenomeID :: string
  RQ_PolicyProfile :: string
  RQ_RequesterIdentity :: string
  RQ_Contour :: "string \<rightharpoonup> string"
  RQ_CreatedAt :: gotime

definition RecoveryRequest_Validate :: "RecoveryRequest \<Rightarrow> go_error option" where
  "RecoveryRequest_Validate r =
     first_err
       [schema_gate (RQ_SchemaVersion r) ''recovery_request'',
        chk (RQ_RequestID r = [])
          (Structural CodeRequiredFieldMissing ''recovery_request: request_id required'' None),
        chk (RQ_GenomeID r = [])
          (Structural CodeRequiredFieldMissing ''recovery_request: genome_id required'' None),
        chk (RQ_PolicyProfile r = [])
          (Structural CodeRequiredFieldMissing ''recovery_request: policy_profile required'' None),
        chk (RQ_RequesterIdentity r = [])
          (Structural CodeRequiredFieldMissing ''recovery_request: requester_identity required'' None),
        chk (RQ_CreatedAt r = zero_time)
          (Structural CodeRequiredFieldMissing ''recovery_request: created_at required'' None)]"

section \<open>Attestation result\<close>

record AttestationResult =
  AR_SchemaVersion :: u16
  AR_AttestationID :: string
  AR_RequestID :: string
  AR_Outcome :: string
  AR_Reason :: string
  AR_IssuedAt :: gotime
  AR_TTL :: duration
  AR_SigningKeyID :: KeyID
  AR_Alg :: SignatureSuite
  AR_Signature :: bytes

definition OutcomeAllow :: string where
  "OutcomeAllow = ''allow''"

definition OutcomeDeny :: string where
  "OutcomeDeny = ''deny''"

definition OutcomeRestrict :: string where
  "OutcomeRestrict = ''restrict''"

definition validOutcomes :: "string list" where
  "validOutcomes = [OutcomeAllow, OutcomeDeny, OutcomeRestrict]"

definition Attestation_DefaultTTL :: duration where
  "Attestation_DefaultTTL = 5 * 60 * Second"

definition AttestationResult_Validate :: "AttestationResult \<Rightarrow> go_error option" where
  "AttestationResult_Validate r =
     first_err
       [schema_gate (AR_SchemaVersion r) ''attestation_result'',
        chk (AR_AttestationID r = [])
          (Structural CodeRequiredFieldMissing ''attestation_result: attestation_id required'' None),
        chk (AR_RequestID r = [])
          (Structural CodeRequiredFieldMissing ''attestation_result: request_id required'' None),
        chk (AR_Outcome r \<notin> set validOutcomes)
          (Structural CodeFieldValueInvalid ''attestation_result: unknown outcome'' None),
        chk (AR_IssuedAt r = zero_time)
          (Structural CodeRequiredFieldMissing ''attestation_result: issued_at required'' None),
        chk (sint (AR_TTL r) \<le> 0)
          (Structural CodeFieldValueInvalid ''attestation_result: ttl must be positive'' None),
        chk (AR_SigningKeyID r = [])
          (Structural CodeRequiredFieldMissing ''attestation_result: signing_key_id required'' None),
        chk (AR_Signature r = [])
          (Structural CodeRequiredFieldMissing ''attestation_result: signature required'' None),
        chk ((AR_Outcome r = OutcomeDeny \<or> AR_Outcome r = OutcomeRestrict) \<and> AR_Reason r = [])
          (Structural CodeCrossFieldInconsistent ''attestation_result: reason required for deny/restrict outcomes'' None)]"

definition AttestationResult_fields :: "AttestationResult \<Rightarrow> (string \<times> wire) list" where
  "AttestationResult_fields r =
     [(''alg'', WOpt (AR_Alg r)),
      (''attestation_id'', WStr (AR_AttestationID r)),
      (''issued_at'', WTime (AR_IssuedAt r)),
      (''outcome'', WStr (AR_Outcome r)),
      (''reason'', WOpt (AR_Reason r)),
      (''request_id'', WStr (AR_RequestID r)),
      (''schema_version'', WNum (unat (AR_SchemaVersion r))),
      (''signature'', WBytes (AR_Signature r)),
      (''signing_key_id'', WStr (AR_SigningKeyID r)),
      (''ttl'', WInt (sint (AR_TTL r)))]"

definition AttestationResult_contract :: "AttestationResult contract" where
  "AttestationResult_contract =
     \<lparr>ct_Name = ''attestation_result'', ct_Purpose = PurposeSigningAuthority,
      ct_Validate = AttestationResult_Validate, ct_Wire = AttestationResult_fields,
      ct_KeyID = AR_SigningKeyID, ct_Alg = AR_Alg, ct_Sig = AR_Signature,
      ct_SetAlg = (\<lambda>a r. r\<lparr>AR_Alg := a\<rparr>), ct_SetSig = (\<lambda>s r. r\<lparr>AR_Signature := s\<rparr>)\<rparr>"

definition AttestationResult_CanonicalBytes :: "floats \<Rightarrow> AttestationResult \<Rightarrow> go_error + bytes" where
  "AttestationResult_CanonicalBytes = contract_CanonicalBytes AttestationResult_contract"

definition AttestationResult_SignWith :: "floats \<Rightarrow> AttestationResult \<Rightarrow> Signer \<Rightarrow> go_error option \<times> AttestationResult" where
  "AttestationResult_SignWith = contract_SignWith AttestationResult_contract"

definition AttestationResult_VerifySignature ::
    "floats \<Rightarrow> prims \<Rightarrow> AttestationResult \<Rightarrow> Resolver option \<Rightarrow> go_error option" where
  "AttestationResult_VerifySignature = contract_VerifySignature AttestationResult_contract"

interpretation attestation_result: contract_ring ring_ok fst ring_signer ring_resolver AttestationResult_contract
  by unfold_locales
    (auto simp: AttestationResult_contract_def AttestationResult_fields_def shape_def contract_clean_def fields_ok_def word_unat_eq_iff [where 'a = 16] sint_range sint_inject
      intro: AttestationResult.equality)

section \<open>Session object\<close>

record SessionObject =
  SO_SchemaVersion :: u16
  SO_SessionID :: string
  SO_RequestID :: string
  SO_GenomeID :: string
  SO_PolicyVersion :: string
  SO_IssuedAt :: gotime
  SO_ExpiresAt :: gotime
  SO_State :: string
  SO_SigningKeyID :: KeyID
  SO_Alg :: SignatureSuite
  SO_Signature :: bytes

definition StateActive :: string where
  "StateActive = ''active''"

definition StateSuspended :: string where
  "StateSuspended = ''suspended''"

definition StateInvalidated :: string where
  "StateInvalidated = ''invalidated''"

definition StateExpired :: string where
  "StateExpired = ''expired''"

definition validStates :: "string list" where
  "validStates = [StateActive, StateSuspended, StateInvalidated, StateExpired]"

definition SessionObject_Validate :: "SessionObject \<Rightarrow> go_error option" where
  "SessionObject_Validate r =
     first_err
       [schema_gate (SO_SchemaVersion r) ''session_object'',
        chk (SO_SessionID r = [])
          (Structural CodeRequiredFieldMissing ''session_object: session_id required'' None),
        chk (SO_RequestID r = [])
          (Structural CodeRequiredFieldMissing ''session_object: request_id required'' None),
        chk (SO_GenomeID r = [])
          (Structural CodeRequiredFieldMissing ''session_object: genome_id required'' None),
        chk (SO_PolicyVersion r = [])
          (Structural CodeRequiredFieldMissing ''session_object: policy_version required'' None),
        chk (SO_IssuedAt r = zero_time)
          (Structural CodeRequiredFieldMissing ''session_object: issued_at required'' None),
        chk (SO_ExpiresAt r = zero_time)
          (Structural CodeRequiredFieldMissing ''session_object: expires_at required'' None),
        chk (\<not> SO_ExpiresAt r > SO_IssuedAt r)
          (Structural CodeCrossFieldInconsistent ''session_object: expires_at must be strictly after issued_at'' None),
        chk (SO_State r \<notin> set validStates)
          (Structural CodeFieldValueInvalid ''session_object: unknown state'' None),
        chk (SO_SigningKeyID r = [])
          (Structural CodeRequiredFieldMissing ''session_object: signing_key_id required'' None),
        chk (SO_Signature r = [])
          (Structural CodeRequiredFieldMissing ''session_object: signature required'' None)]"

definition SessionObject_fields :: "SessionObject \<Rightarrow> (string \<times> wire) list" where
  "SessionObject_fields r =
     [(''alg'', WOpt (SO_Alg r)),
      (''expires_at'', WTime (SO_ExpiresAt r)),
      (''genome_id'', WStr (SO_GenomeID r)),
      (''issued_at'', WTime (SO_IssuedAt r)),
      (''policy_version'', WStr (SO_PolicyVersion r)),
      (''request_id'', WStr (SO_RequestID r)),
      (''schema_version'', WNum (unat (SO_SchemaVersion r))),
      (''session_id'', WStr (SO_SessionID r)),
      (''signature'', WBytes (SO_Signature r)),
      (''signing_key_id'', WStr (SO_SigningKeyID r)),
      (''state'', WStr (SO_State r))]"

definition SessionObject_contract :: "SessionObject contract" where
  "SessionObject_contract =
     \<lparr>ct_Name = ''session_object'', ct_Purpose = PurposeSigningAuthority,
      ct_Validate = SessionObject_Validate, ct_Wire = SessionObject_fields,
      ct_KeyID = SO_SigningKeyID, ct_Alg = SO_Alg, ct_Sig = SO_Signature,
      ct_SetAlg = (\<lambda>a r. r\<lparr>SO_Alg := a\<rparr>), ct_SetSig = (\<lambda>s r. r\<lparr>SO_Signature := s\<rparr>)\<rparr>"

definition SessionObject_CanonicalBytes :: "floats \<Rightarrow> SessionObject \<Rightarrow> go_error + bytes" where
  "SessionObject_CanonicalBytes = contract_CanonicalBytes SessionObject_contract"

definition SessionObject_SignWith :: "floats \<Rightarrow> SessionObject \<Rightarrow> Signer \<Rightarrow> go_error option \<times> SessionObject" where
  "SessionObject_SignWith = contract_SignWith SessionObject_contract"

definition SessionObject_VerifySignature ::
    "floats \<Rightarrow> prims \<Rightarrow> SessionObject \<Rightarrow> Resolver option \<Rightarrow> go_error option" where
  "SessionObject_VerifySignature = contract_VerifySignature SessionObject_contract"

interpretation session_object: contract_ring ring_ok fst ring_signer ring_resolver SessionObject_contract
  by unfold_locales
    (auto simp: SessionObject_contract_def SessionObject_fields_def shape_def contract_clean_def fields_ok_def word_unat_eq_iff
      intro: SessionObject.equality)

end
