(* ===== verification/SessionIssuer.thy ===== *)
theory SessionIssuer
  imports ReleaseContracts
begin

text \<open>
  The authority that owns the life of a session (src/internal/vault/session/issuer.go): it issues
  signed sessions pinned to the active policy, holds them by id, forgets those expired for longer
  than they lived, invalidates on an incident, and verifies a session as presented. Each method runs
  under one mutex and is one step; \<open>now\<close> is the clock reading. \<open>F\<close> is the float formatting of the
  canonical form, \<open>P\<close> the signature library.
\<close>

record Session_Options =
  sopt_DefaultTTL :: duration
  sopt_IDPrefix :: string

record SessionIssuer =
  si_signer :: Signer
  si_resolver :: Resolver
  si_signingKID :: KeyID
  si_activePolicy :: string
  si_defaultTTL :: duration
  si_idPrefix :: string
  si_counter :: u64
  si_sessions :: "string \<rightharpoonup> SessionObject"

definition Session_DefaultTTL :: duration where
  "Session_DefaultTTL = 5 * 60 * Second"

definition NewSessionIssuer ::
    "unit option \<Rightarrow> Signer option \<Rightarrow> Resolver option \<Rightarrow> KeyID \<Rightarrow> string \<Rightarrow> Session_Options \<Rightarrow>
     go_error + SessionIssuer" where
  "NewSessionIssuer clock signer resolver signingKID activePolicy opts =
     (let ttl = (if sopt_DefaultTTL opts = 0 then Session_DefaultTTL else sopt_DefaultTTL opts);
          prefix = (if sopt_IDPrefix opts = [] then ''sess-'' else sopt_IDPrefix opts)
      in (case (clock, signer, resolver) of
            (None, _, _) \<Rightarrow> Inl (Structural CodeRequiredFieldMissing ''vault/session: clock is required'' None)
          | (_, None, _) \<Rightarrow> Inl (Structural CodeRequiredFieldMissing ''vault/session: signer is required'' None)
          | (_, _, None) \<Rightarrow> Inl (Structural CodeRequiredFieldMissing ''vault/session: resolver is required'' None)
          | (Some c, Some sg, Some res) \<Rightarrow>
              guardR
                (first_err
                  [chk (signingKID = [])
                     (Structural CodeRequiredFieldMissing ''vault/session: signing_key_id is required'' None),
                   chk (activePolicy = [])
                     (Structural CodeRequiredFieldMissing ''vault/session: active policy_version is required'' None),
                   chk (sint ttl \<le> 0)
                     (Structural CodeFieldValueInvalid ''vault/session: DefaultTTL must be positive'' None)])
                (Inr \<lparr>si_signer = sg, si_resolver = res, si_signingKID = signingKID,
                      si_activePolicy = activePolicy, si_defaultTTL = ttl, si_idPrefix = prefix,
                      si_counter = 0, si_sessions = Map.empty\<rparr>)))"

definition ActivePolicy :: "SessionIssuer \<Rightarrow> string" where
  "ActivePolicy iss = si_activePolicy iss"

definition RotatePolicy :: "SessionIssuer \<Rightarrow> string \<Rightarrow> go_error option \<times> SessionIssuer" where
  "RotatePolicy iss next_policy =
     (if next_policy = []
      then (Some (Structural CodeRequiredFieldMissing ''vault/session: next policy_version must be non-zero'' None), iss)
      else (None, iss\<lparr>si_activePolicy := next_policy\<rparr>))"

record IssueParams =
  ip_RequestID :: string
  ip_GenomeID :: string
  ip_TTL :: duration

text \<open>\<open>fmt\<close>'s \<open>%016d\<close> on an unsigned integer.\<close>

definition fmt_016d :: "u64 \<Rightarrow> string" where
  "fmt_016d n = replicate (16 - length (fmt_d (unat n))) CHR ''0'' @ fmt_d (unat n)"

definition sweep :: "gotime \<Rightarrow> (string \<rightharpoonup> SessionObject) \<Rightarrow> (string \<rightharpoonup> SessionObject)" where
  "sweep now m =
     (\<lambda>sid. case m sid of
        None \<Rightarrow> None
      | Some s \<Rightarrow>
          if now > time_Add (SO_ExpiresAt s) (time_Sub (SO_ExpiresAt s) (SO_IssuedAt s)) then None else Some s)"

text \<open>The unsigned session for the counter as it stands.\<close>

definition session_draft :: "SessionIssuer \<Rightarrow> IssueParams \<Rightarrow> gotime \<Rightarrow> SessionObject" where
  "session_draft iss p now =
     \<lparr>SO_SchemaVersion = 1, SO_SessionID = si_idPrefix iss @ fmt_016d (si_counter iss),
      SO_RequestID = ip_RequestID p, SO_GenomeID = ip_GenomeID p, SO_PolicyVersion = si_activePolicy iss,
      SO_IssuedAt = now,
      SO_ExpiresAt = time_Add now (if ip_TTL p = 0 then si_defaultTTL iss else ip_TTL p),
      SO_State = StateActive, SO_SigningKeyID = si_signingKID iss, SO_Alg = [], SO_Signature = []\<rparr>"

definition issue_refusal :: "IssueParams \<Rightarrow> go_error option" where
  "issue_refusal p =
     first_err
       [chk (ip_RequestID p = []) (Structural CodeRequiredFieldMissing ''vault/session: request_id required'' None),
        chk (ip_GenomeID p = []) (Structural CodeRequiredFieldMissing ''vault/session: genome_id required'' None),
        chk (sint (ip_TTL p) < 0) (Structural CodeFieldValueInvalid ''vault/session: TTL must not be negative'' None)]"

definition Session_Issue ::
    "floats \<Rightarrow> SessionIssuer \<Rightarrow> IssueParams \<Rightarrow> gotime \<Rightarrow> (go_error + SessionObject) \<times> SessionIssuer" where
  "Session_Issue F iss p now =
     (case issue_refusal p of
        Some err \<Rightarrow> (Inl err, iss)
      | None \<Rightarrow>
          let iss1 = iss\<lparr>si_counter := si_counter iss + 1\<rparr>;
              s = session_draft iss1 p now
          in (case SessionObject_SignWith F s (si_signer iss1) of
                (Some err, s') \<Rightarrow> (Inl err, iss1)
              | (None, s') \<Rightarrow>
                  (case SessionObject_Validate s' of
                     Some err \<Rightarrow> (Inl err, iss1)
                   | None \<Rightarrow>
                       (Inr s', iss1\<lparr>si_sessions := sweep now ((si_sessions iss1)(SO_SessionID s \<mapsto> s'))\<rparr>))))"

definition Session_Len :: "SessionIssuer \<Rightarrow> nat" where
  "Session_Len iss = card (dom (si_sessions iss))"

definition Session_Lookup :: "SessionIssuer \<Rightarrow> string \<Rightarrow> SessionObject option" where
  "Session_Lookup iss sid = si_sessions iss sid"

definition Session_Invalidate ::
    "floats \<Rightarrow> SessionIssuer \<Rightarrow> string \<Rightarrow> (go_error + SessionObject) \<times> SessionIssuer" where
  "Session_Invalidate F iss sid =
     (case si_sessions iss sid of
        None \<Rightarrow> (Inl (Authority CodeRequiredFieldMissing ''vault/session: unknown session_id'' None), iss)
      | Some s \<Rightarrow>
          if SO_State s = StateInvalidated then (Inr s, iss)
          else (case SessionObject_SignWith F (s\<lparr>SO_State := StateInvalidated, SO_Signature := []\<rparr>) (si_signer iss) of
                  (Some err, s') \<Rightarrow> (Inl err, iss)
                | (None, s') \<Rightarrow>
                    (case SessionObject_Validate s' of
                       Some err \<Rightarrow> (Inl err, iss)
                     | None \<Rightarrow> (Inr s', iss\<lparr>si_sessions := (si_sessions iss)(sid \<mapsto> s')\<rparr>))))"

text \<open>
  The message of the last refusal prints the expiry with nanoseconds; the signature check before it
  has encoded the same instant, so its year is one that can be written.
\<close>

definition Session_Verify ::
    "floats \<Rightarrow> prims \<Rightarrow> SessionIssuer \<Rightarrow> SessionObject \<Rightarrow> gotime \<Rightarrow> go_error option" where
  "Session_Verify F P iss s now =
     first_err
       [SessionObject_Validate s,
        SessionObject_VerifySignature F P s (Some (si_resolver iss)),
        chk (SO_State s \<noteq> StateActive)
          (Authority CodeSessionInvalidated (''vault/session: state is not 'active': '' @ SO_State s) None),
        chk (\<not> now < SO_ExpiresAt s)
          (Authority CodeSessionExpired
            (''vault/session: session expired at '' @ (case marshal_time (SO_ExpiresAt s) of None \<Rightarrow> [] | Some w \<Rightarrow> w)) None)]"

definition Session_Count :: "SessionIssuer \<Rightarrow> nat" where
  "Session_Count iss = card (dom (si_sessions iss))"

section \<open>Histories\<close>

datatype session_call =
    CallIssue IssueParams gotime
  | CallInvalidate string
  | CallRotatePolicy string

fun session_step :: "floats \<Rightarrow> SessionIssuer \<Rightarrow> session_call \<Rightarrow> SessionIssuer" where
  "session_step F iss (CallIssue p now) = snd (Session_Issue F iss p now)"
| "session_step F iss (CallInvalidate sid) = snd (Session_Invalidate F iss sid)"
| "session_step F iss (CallRotatePolicy pol) = snd (RotatePolicy iss pol)"

definition session_run :: "floats \<Rightarrow> SessionIssuer \<Rightarrow> session_call list \<Rightarrow> SessionIssuer" where
  "session_run F iss calls = foldl (session_step F) iss calls"

end
