(* ===== verification/SessionProofs.thy ===== *)
theory SessionProofs
  imports SessionIssuer
begin

text \<open>
  What every history of the session issuer keeps: the sessions held are filed under their own ids,
  pass the gate, verify under the vault's keys, and carry ids drawn from the counter, so that no id
  is handed out twice before the counter wraps.
\<close>

section \<open>Ids\<close>

lemma digits_value_zeros: "digits_value (replicate k CHR ''0'' @ ds) = digits_value ds"
proof -
  have "foldl (\<lambda>a c. 10 * a + (of_char c - 48)) 0 (replicate k CHR ''0'') = (0 :: nat)"
    by (induction k) auto
  then show ?thesis by (simp add: digits_value_def)
qed

lemma fmt_016d_inj: "fmt_016d a = fmt_016d b \<Longrightarrow> a = b"
  unfolding fmt_016d_def
  by (drule arg_cong [of _ _ digits_value]) (simp add: digits_value_zeros fmt_d_digits word_unat_eq_iff)

section \<open>The invariant\<close>

definition session_filed :: "ring \<Rightarrow> floats \<Rightarrow> string \<Rightarrow> u64 \<Rightarrow> string \<Rightarrow> SessionObject \<Rightarrow> bool" where
  "session_filed r F prefix ctr sid s \<longleftrightarrow>
     SO_SessionID s = sid \<and> SO_State s \<in> {StateActive, StateInvalidated} \<and>
     SessionObject_Validate s = None \<and>
     SessionObject_VerifySignature F (fst r) s (Some (ring_resolver r)) = None \<and>
     (\<exists>k. k \<le> ctr \<and> sid = prefix @ fmt_016d k)"

definition session_inv :: "ring \<Rightarrow> floats \<Rightarrow> nat \<Rightarrow> SessionIssuer \<Rightarrow> bool" where
  "session_inv r F n iss \<longleftrightarrow>
     ring_ok r \<and> si_signer iss = ring_signer r \<and> si_resolver iss = ring_resolver r \<and>
     si_signingKID iss \<noteq> [] \<and> si_activePolicy iss \<noteq> [] \<and> 0 < sint (si_defaultTTL iss) \<and>
     unat (si_counter iss) \<le> n \<and>
     (\<forall>sid s. si_sessions iss sid = Some s \<longrightarrow> session_filed r F (si_idPrefix iss) (si_counter iss) sid s)"

lemma session_inv_mono: "session_inv r F n iss \<Longrightarrow> n \<le> m \<Longrightarrow> session_inv r F m iss"
  by (auto simp: session_inv_def)

lemma NewSessionIssuer_inv:
  assumes "NewSessionIssuer clock (Some (ring_signer r)) (Some (ring_resolver r)) kid pol opts = Inr iss" "ring_ok r"
  shows "session_inv r F 0 iss"
  using assms
  by (auto simp: NewSessionIssuer_def session_inv_def guardR_def Let_def split: option.splits if_splits)

lemma session_filed_mono:
  "session_filed r F prefix c sid s \<Longrightarrow> c \<le> c' \<Longrightarrow> session_filed r F prefix c' sid s"
  by (auto simp: session_filed_def intro: order_trans)

lemma sweep_Some: "sweep now m sid = Some s \<longleftrightarrow>
   m sid = Some s \<and> now \<le> time_Add (SO_ExpiresAt s) (time_Sub (SO_ExpiresAt s) (SO_IssuedAt s))"
  by (auto simp: sweep_def split: option.splits)

lemma SessionObject_SignWith_ok:
  assumes "SessionObject_SignWith F s sg = (None, s')"
  shows "\<exists>alg sig. s' = s\<lparr>SO_Alg := alg, SO_Signature := sig\<rparr>"
  using session_object.SignWith_ok_shape [of F s sg s'] assms
  by (simp add: SessionObject_SignWith_def SessionObject_contract_def)

lemma SessionObject_signed_verifies:
  assumes "ring_ok r" "SessionObject_SignWith F s (ring_signer r) = (None, s')" "SessionObject_Validate s' = None"
  shows "SessionObject_VerifySignature F (fst r) s' (Some (ring_resolver r)) = None"
  using session_object.signed_verifies [of r F s s'] assms
  by (simp add: SessionObject_SignWith_def SessionObject_VerifySignature_def SessionObject_contract_def)

text \<open>What a successful issuance leaves.\<close>

lemma Session_Issue_ok:
  assumes "Session_Issue F iss p now = (Inr s, iss')"
  obtains alg sig where
    "s = (session_draft (iss\<lparr>si_counter := si_counter iss + 1\<rparr>) p now)\<lparr>SO_Alg := alg, SO_Signature := sig\<rparr>"
    "SessionObject_SignWith F (session_draft (iss\<lparr>si_counter := si_counter iss + 1\<rparr>) p now) (si_signer iss) = (None, s)"
    "SessionObject_Validate s = None" "issue_refusal p = None"
    "iss' = iss\<lparr>si_counter := si_counter iss + 1, si_sessions := sweep now ((si_sessions iss)(SO_SessionID s \<mapsto> s))\<rparr>"
proof -
  let ?d = "session_draft (iss\<lparr>si_counter := si_counter iss + 1\<rparr>) p now"
  have sign: "SessionObject_SignWith F ?d (si_signer iss) = (None, s)"
    and rest: "SessionObject_Validate s = None" "issue_refusal p = None"
      "iss' = iss\<lparr>si_counter := si_counter iss + 1, si_sessions := sweep now ((si_sessions iss)(SO_SessionID ?d \<mapsto> s))\<rparr>"
    using assms by (auto simp: Session_Issue_def Let_def split: option.splits prod.splits)
  from SessionObject_SignWith_ok [OF sign] obtain alg sig where s: "s = ?d\<lparr>SO_Alg := alg, SO_Signature := sig\<rparr>" by blast
  then have "SO_SessionID ?d = SO_SessionID s" by simp
  with that [OF s sign] rest show thesis by simp
qed

lemma Session_Issue_error:
  assumes "Session_Issue F iss p now = (Inl err, iss')"
  shows "iss' = iss \<or> iss' = iss\<lparr>si_counter := si_counter iss + 1\<rparr>"
  using assms by (auto simp: Session_Issue_def Let_def split: option.splits prod.splits)

lemma Session_Invalidate_ok:
  assumes "Session_Invalidate F iss sid = (Inr s', iss')"
  shows "(si_sessions iss sid = Some s' \<and> SO_State s' = StateInvalidated \<and> iss' = iss) \<or>
    (\<exists>s alg sig. si_sessions iss sid = Some s \<and> SO_State s \<noteq> StateInvalidated \<and>
       s' = s\<lparr>SO_State := StateInvalidated, SO_Alg := alg, SO_Signature := sig\<rparr> \<and>
       SessionObject_SignWith F (s\<lparr>SO_State := StateInvalidated, SO_Signature := []\<rparr>) (si_signer iss) = (None, s') \<and>
       SessionObject_Validate s' = None \<and> iss' = iss\<lparr>si_sessions := (si_sessions iss)(sid \<mapsto> s')\<rparr>)"
  using assms
  by (fastforce simp: Session_Invalidate_def split: option.splits if_splits prod.splits dest: SessionObject_SignWith_ok)

lemma Session_Invalidate_error: "Session_Invalidate F iss sid = (Inl err, iss') \<Longrightarrow> iss' = iss"
  by (auto simp: Session_Invalidate_def split: option.splits if_splits prod.splits)

lemma next_counter:
  "unat (c :: u64) \<le> n \<Longrightarrow> n + 1 < 2 ^ 64 \<Longrightarrow> c \<le> c + 1 \<and> unat (c + 1) \<le> n + 1 \<and> c \<noteq> c + 1 \<and> \<not> c + 1 \<le> c"
  by (auto simp: word_le_nat_alt unat_word_ariths)

lemma issued_filed:
  assumes "session_inv r F n iss" "Session_Issue F iss p now = (Inr s, iss')"
  shows "session_filed r F (si_idPrefix iss) (si_counter iss + 1) (SO_SessionID s) s \<and> SO_State s = StateActive"
  using assms(2)
proof (rule Session_Issue_ok)
  fix alg sig
  assume s: "s = (session_draft (iss\<lparr>si_counter := si_counter iss + 1\<rparr>) p now)\<lparr>SO_Alg := alg, SO_Signature := sig\<rparr>"
    and sign: "SessionObject_SignWith F (session_draft (iss\<lparr>si_counter := si_counter iss + 1\<rparr>) p now) (si_signer iss) = (None, s)"
    and v: "SessionObject_Validate s = None"
  have "SessionObject_VerifySignature F (fst r) s (Some (ring_resolver r)) = None"
    using SessionObject_signed_verifies [OF _ _ v] sign assms(1) by (auto simp: session_inv_def)
  then show ?thesis using v by (auto simp: session_filed_def s session_draft_def)
qed

lemma session_inv_tick:
  assumes "session_inv r F n iss" "n + 1 < 2 ^ 64"
  shows "session_inv r F (n + 1) (iss\<lparr>si_counter := si_counter iss + 1\<rparr>)"
proof -
  have c: "si_counter iss \<le> si_counter iss + 1" "unat (si_counter iss + 1) \<le> n + 1"
    using assms next_counter [of "si_counter iss" n] by (auto simp: session_inv_def)
  have "session_filed r F (si_idPrefix iss) (si_counter iss + 1) sid s" if "si_sessions iss sid = Some s" for sid s
    using session_filed_mono [OF _ c(1)] assms(1) that by (auto simp: session_inv_def)
  then show ?thesis using assms(1) c(2) by (simp add: session_inv_def)
qed

lemma Session_Issue_inv:
  assumes "session_inv r F n iss" "Session_Issue F iss p now = (res, iss')" "n + 1 < 2 ^ 64"
  shows "session_inv r F (n + 1) iss'"
proof (cases res)
  case (Inl err)
  then show ?thesis
    using Session_Issue_error [OF assms(2) [unfolded Inl]] session_inv_tick [OF assms(1,3)]
      session_inv_mono [OF assms(1), of "n + 1"] by auto
next
  case (Inr s)
  let ?iss1 = "iss\<lparr>si_counter := si_counter iss + 1\<rparr>"
  have iss': "iss' = iss\<lparr>si_counter := si_counter iss + 1, si_sessions := sweep now ((si_sessions iss)(SO_SessionID s \<mapsto> s))\<rparr>"
    using assms(2) Inr by (auto elim: Session_Issue_ok)
  have tick: "session_inv r F (n + 1) ?iss1" using session_inv_tick [OF assms(1,3)] .
  have "session_filed r F (si_idPrefix iss) (si_counter iss + 1) sid u" if "si_sessions iss' sid = Some u" for sid u
  proof (cases "sid = SO_SessionID s")
    case True
    then have "u = s" using that iss' by (auto simp: sweep_Some)
    then show ?thesis
      using issued_filed [of r F n iss p now s iss'] assms(1,2) Inr True by auto
  next
    case False
    then show ?thesis using that iss' tick by (auto simp: sweep_Some session_inv_def)
  qed
  then show ?thesis using tick iss' by (auto simp: session_inv_def)
qed

lemma Session_Invalidate_inv:
  assumes "session_inv r F n iss" "Session_Invalidate F iss sid = (res, iss')"
  shows "session_inv r F n iss'"
proof (cases res)
  case (Inl err)
  then show ?thesis using assms Session_Invalidate_error by blast
next
  case (Inr s')
  from Session_Invalidate_ok [OF assms(2) [unfolded Inr]] show ?thesis
  proof (elim disjE exE conjE)
    fix s alg sig
    assume s: "si_sessions iss sid = Some s" "s' = s\<lparr>SO_State := StateInvalidated, SO_Alg := alg, SO_Signature := sig\<rparr>"
      and sign: "SessionObject_SignWith F (s\<lparr>SO_State := StateInvalidated, SO_Signature := []\<rparr>) (si_signer iss) = (None, s')"
      and v: "SessionObject_Validate s' = None" and iss': "iss' = iss\<lparr>si_sessions := (si_sessions iss)(sid \<mapsto> s')\<rparr>"
    have "SessionObject_VerifySignature F (fst r) s' (Some (ring_resolver r)) = None"
      using SessionObject_signed_verifies [OF _ _ v] sign assms(1) by (auto simp: session_inv_def)
    moreover have "session_filed r F (si_idPrefix iss) (si_counter iss) sid s" using assms(1) s(1) by (auto simp: session_inv_def)
    ultimately have "session_filed r F (si_idPrefix iss) (si_counter iss) sid s'" using v by (auto simp: session_filed_def s(2))
    then show ?thesis using assms(1) by (auto simp: session_inv_def iss')
  qed (use assms(1) in simp)
qed

lemma session_step_inv:
  assumes "session_inv r F n iss" "n + 1 < 2 ^ 64"
  shows "session_inv r F (n + 1) (session_step F iss c)"
proof (cases c)
  case (CallIssue p now)
  then show ?thesis using Session_Issue_inv [OF assms(1) prod.collapse [symmetric] assms(2)] by simp
next
  case (CallInvalidate sid)
  then show ?thesis
    using session_inv_mono [OF Session_Invalidate_inv [OF assms(1) prod.collapse [symmetric]], of "n + 1"] by simp
next
  case (CallRotatePolicy pol)
  then show ?thesis using assms(1)
    by (auto simp: RotatePolicy_def session_inv_def)
qed

lemma session_run_inv:
  assumes "session_inv r F n iss" "n + length calls < 2 ^ 64"
  shows "session_inv r F (n + length calls) (session_run F iss calls)"
  using assms
proof (induction calls arbitrary: n iss)
  case (Cons c calls)
  have "session_inv r F (n + 1) (session_step F iss c)" using session_step_inv Cons.prems by simp
  from Cons.IH [OF this] Cons.prems show ?case by (simp add: session_run_def)
qed (simp add: session_run_def)

lemma session_run_append: "session_run F iss (xs @ ys) = session_run F (session_run F iss xs) ys"
  by (simp add: session_run_def)

lemma session_run_Cons: "session_run F iss (c # cs) = session_run F (session_step F iss c) cs"
  by (simp add: session_run_def)

section \<open>The record of one id\<close>

definition session_known :: "SessionIssuer \<Rightarrow> string \<Rightarrow> bool" where
  "session_known iss sid \<longleftrightarrow> (\<exists>k. k \<le> si_counter iss \<and> sid = si_idPrefix iss @ fmt_016d k)"

abbreviation kept_until :: "SessionObject \<Rightarrow> gotime" where
  "kept_until s \<equiv> time_Add (SO_ExpiresAt s) (time_Sub (SO_ExpiresAt s) (SO_IssuedAt s))"

lemma issued_fresh:
  assumes "session_inv r F n iss" "n + 1 < 2 ^ 64" "Session_Issue F iss p now = (Inr s, iss')"
  shows "\<not> session_known iss (SO_SessionID s)" "session_known iss' (SO_SessionID s)"
proof -
  have id: "SO_SessionID s = si_idPrefix iss @ fmt_016d (si_counter iss + 1)"
    and iss': "si_counter iss' = si_counter iss + 1" "si_idPrefix iss' = si_idPrefix iss"
    using assms(3) by (auto simp: session_draft_def elim!: Session_Issue_ok)
  have "\<not> si_counter iss + 1 \<le> si_counter iss"
    using assms next_counter [of "si_counter iss" n] by (auto simp: session_inv_def)
  then show "\<not> session_known iss (SO_SessionID s)"
    by (auto simp: session_known_def id dest: fmt_016d_inj)
  show "session_known iss' (SO_SessionID s)" by (auto simp: session_known_def id iss')
qed

lemma session_step_known:
  assumes "session_inv r F n iss" "n + 1 < 2 ^ 64" "session_known iss sid"
  shows "session_known (session_step F iss c) sid"
proof -
  have c: "si_counter iss \<le> si_counter iss + 1"
    using assms next_counter [of "si_counter iss" n] by (auto simp: session_inv_def)
  have "si_idPrefix (session_step F iss c) = si_idPrefix iss \<and>
      si_counter (session_step F iss c) \<in> {si_counter iss, si_counter iss + 1}"
    by (cases c) (auto simp: Session_Issue_def Session_Invalidate_def RotatePolicy_def Let_def
        split: option.splits prod.splits if_splits)
  moreover obtain k where "k \<le> si_counter iss" "sid = si_idPrefix iss @ fmt_016d k"
    using assms(3) by (auto simp: session_known_def)
  ultimately show ?thesis unfolding session_known_def using order_trans [OF _ c] by (intro exI [of _ k]) auto
qed

text \<open>One step leaves the record of a known id, forgets it after its time, or invalidates it.\<close>

lemma session_step_entry:
  assumes "session_inv r F n iss" "n + 1 < 2 ^ 64" "session_known iss sid"
  shows "si_sessions (session_step F iss c) sid = si_sessions iss sid \<or>
    (si_sessions (session_step F iss c) sid = None \<and>
      (\<exists>p now s. c = CallIssue p now \<and> si_sessions iss sid = Some s \<and> kept_until s < now)) \<or>
    (\<exists>s alg sig. si_sessions iss sid = Some s \<and> SO_State s \<noteq> StateInvalidated \<and>
      si_sessions (session_step F iss c) sid =
        Some (s\<lparr>SO_State := StateInvalidated, SO_Alg := alg, SO_Signature := sig\<rparr>))"
proof (cases c)
  case (CallIssue p now)
  obtain res iss' where i: "Session_Issue F iss p now = (res, iss')" by fastforce
  show ?thesis
  proof (cases res)
    case (Inl err)
    then show ?thesis using CallIssue i Session_Issue_error [of F iss p now err iss'] by auto
  next
    case (Inr s)
    have "SO_SessionID s \<noteq> sid"
      using issued_fresh(1) [OF assms(1,2)] i Inr assms(3) by auto
    moreover have "si_sessions iss' = sweep now ((si_sessions iss)(SO_SessionID s \<mapsto> s))"
      using i Inr by (auto elim: Session_Issue_ok)
    ultimately show ?thesis
      using CallIssue i by (cases "si_sessions iss sid") (auto simp: sweep_def)
  qed
next
  case (CallInvalidate sid')
  obtain res iss' where i: "Session_Invalidate F iss sid' = (res, iss')" by fastforce
  show ?thesis
  proof (cases res)
    case (Inl err)
    then show ?thesis using CallInvalidate i Session_Invalidate_error [of F iss sid' err iss'] by auto
  next
    case (Inr s')
    have step: "session_step F iss c = iss'" using CallInvalidate i by simp
    from Session_Invalidate_ok [OF i [unfolded Inr]] show ?thesis
      unfolding step by (cases "sid' = sid") (elim disjE; fastforce)+
  qed
qed (auto simp: RotatePolicy_def)

lemma session_run_known:
  assumes "session_inv r F n iss" "n + length calls < 2 ^ 64" "session_known iss sid"
  shows "session_known (session_run F iss calls) sid"
  using assms
proof (induction calls arbitrary: n iss)
  case (Cons c calls)
  have n: "n + 1 < 2 ^ 64" using Cons.prems(2) by simp
  show ?case
    unfolding session_run_Cons
    by (rule Cons.IH [OF session_step_inv [OF Cons.prems(1) n] _ session_step_known [OF Cons.prems(1) n Cons.prems(3)]])
      (use Cons.prems(2) in simp)
qed (simp add: session_run_def)

text \<open>A property of the record that each step keeps holds after any calls.\<close>

lemma session_run_entry:
  assumes "session_inv r F n iss" "n + length calls < 2 ^ 64" "session_known iss sid" "Q (si_sessions iss sid)"
    and step: "\<And>iss c m. c \<in> set calls \<Longrightarrow> session_inv r F m iss \<Longrightarrow> m + 1 < 2 ^ 64 \<Longrightarrow> session_known iss sid \<Longrightarrow>
      Q (si_sessions iss sid) \<Longrightarrow> Q (si_sessions (session_step F iss c) sid)"
  shows "Q (si_sessions (session_run F iss calls) sid)"
  using assms
proof (induction calls arbitrary: n iss)
  case (Cons c calls)
  have n: "n + 1 < 2 ^ 64" using Cons.prems(2) by simp
  show ?case
    unfolding session_run_Cons
  proof (rule Cons.IH [of "n + 1"])
    show "session_inv r F (n + 1) (session_step F iss c)" using session_step_inv [OF Cons.prems(1) n] .
    show "session_known (session_step F iss c) sid" using session_step_known [OF Cons.prems(1) n Cons.prems(3)] .
    show "Q (si_sessions (session_step F iss c) sid)" using Cons.prems(5) [OF _ Cons.prems(1) n Cons.prems(3,4)] by simp
  qed (use Cons.prems(2,5) in simp_all)
qed (simp add: session_run_def)

text \<open>The same session, but for its state and the signature over it.\<close>

definition same_session :: "SessionObject \<Rightarrow> SessionObject \<Rightarrow> bool" where
  "same_session s u \<longleftrightarrow>
     u\<lparr>SO_State := [], SO_Alg := [], SO_Signature := []\<rparr> = s\<lparr>SO_State := [], SO_Alg := [], SO_Signature := []\<rparr> \<and>
     SO_State u \<in> {SO_State s, StateInvalidated}"

lemma same_session_refl: "same_session s s"
  by (simp add: same_session_def)

lemma same_session_invalidated:
  "same_session s u \<Longrightarrow> same_session s (u\<lparr>SO_State := StateInvalidated, SO_Alg := a, SO_Signature := g\<rparr>)"
  by (simp add: same_session_def)

lemma same_session_times:
  assumes "same_session s u"
  shows "SO_ExpiresAt u = SO_ExpiresAt s" "SO_IssuedAt u = SO_IssuedAt s" "SO_PolicyVersion u = SO_PolicyVersion s"
  using arg_cong [OF conjunct1 [OF assms [unfolded same_session_def]], of SO_ExpiresAt]
    arg_cong [OF conjunct1 [OF assms [unfolded same_session_def]], of SO_IssuedAt]
    arg_cong [OF conjunct1 [OF assms [unfolded same_session_def]], of SO_PolicyVersion] by simp_all

end
