(* ===== verification/SessionProperties.thy ===== *)
theory SessionProperties
  imports SessionProofs LiveSigners
begin

text \<open>
  The properties of the session issuer over any history of calls, with a concrete issuer: an issued
  session is authoritative exactly until it expires, an invalidated one never again, and a session is
  held for its whole life.
\<close>

section \<open>An issuer that issues\<close>

abbreviation session_writable :: "SessionObject \<Rightarrow> bool" where
  "session_writable s \<equiv> contract_clean SessionObject_contract s \<and> in_years (ct_Wire SessionObject_contract s)"

definition live_issuer :: "SessionIssuer \<Rightarrow> bool" where
  "live_issuer iss \<longleftrightarrow>
     live_signer (si_signer iss) (si_signingKID iss) PurposeSigningAuthority \<and> ascii (si_idPrefix iss) \<and>
     ascii (si_activePolicy iss) \<and> si_activePolicy iss \<noteq> [] \<and> 0 < sint (si_defaultTTL iss)"

lemma fmt_016d_not_Nil [simp]: "fmt_016d n \<noteq> []"
  using fmt_d_digits [of "unat n"] by (auto simp: fmt_016d_def)

lemma fmt_016d_ascii [simp]: "ascii (fmt_016d n)"
proof -
  have "ascii (replicate k CHR ''0'')" for k by (induction k) auto
  then show ?thesis by (simp add: fmt_016d_def)
qed

lemma Session_Issue_live:
  assumes iss: "live_issuer iss" and p: "issue_refusal p = None" "ascii (ip_RequestID p)" "ascii (ip_GenomeID p)"
    and now: "now \<noteq> zero_time" "marshal_time now = Some w"
    and exp: "exp = time_Add now (if ip_TTL p = 0 then si_defaultTTL iss else ip_TTL p)" "exp \<noteq> zero_time" "marshal_time exp = Some w'"
  shows "\<exists>s iss'. Session_Issue F iss p now = (Inr s, iss') \<and> session_writable s \<and> SO_SigningKeyID s = si_signingKID iss"
proof -
  let ?d = "session_draft (iss\<lparr>si_counter := si_counter iss + 1\<rparr>) p now"
  let ?c = SessionObject_contract
  have ttl: "0 < sint (if ip_TTL p = 0 then si_defaultTTL iss else ip_TTL p)"
    using iss p(1) sint_inject [of "ip_TTL p" 0] by (auto simp: issue_refusal_def live_issuer_def)
  then have later: "now < exp" by (simp add: exp(1) time_Add_def)
  have d: "?d = \<lparr>SO_SchemaVersion = 1, SO_SessionID = si_idPrefix iss @ fmt_016d (si_counter iss + 1),
      SO_RequestID = ip_RequestID p, SO_GenomeID = ip_GenomeID p, SO_PolicyVersion = si_activePolicy iss,
      SO_IssuedAt = now, SO_ExpiresAt = exp, SO_State = StateActive, SO_SigningKeyID = si_signingKID iss,
      SO_Alg = [], SO_Signature = []\<rparr>"
    by (simp add: session_draft_def exp(1))
  obtain alg where alg: "keys_RecordAlg (si_signer iss) (si_signingKID iss) = Inr alg" "ascii alg"
    using iss by (auto simp: live_issuer_def live_signer_def)
  have "contract_clean ?c (ct_SetAlg ?c alg ?d)" "in_years (ct_Wire ?c (ct_SetSig ?c [] (ct_SetAlg ?c alg ?d)))"
    using iss p now exp(2,3) alg(2)
    by (simp_all add: d SessionObject_contract_def SessionObject_fields_def contract_clean_def fields_ok_def in_years_def
        live_issuer_def live_signer_def StateActive_def valid_utf8_ascii)
  then obtain sig where sig: "contract_SignWith ?c F ?d (si_signer iss) = (None, ct_SetSig ?c sig (ct_SetAlg ?c alg ?d))" "sig \<noteq> []"
    using session_object.SignWith_live [of ?d "si_signer iss" alg F] iss alg(1)
    by (auto simp: live_issuer_def live_signer_def session_draft_def SessionObject_contract_def)
  let ?s = "?d\<lparr>SO_Alg := alg, SO_Signature := sig\<rparr>"
  have "SessionObject_SignWith F ?d (si_signer iss) = (None, ?s)"
    using sig(1) by (simp add: SessionObject_SignWith_def SessionObject_contract_def)
  moreover have "SessionObject_Validate ?s = None"
    using sig(2) iss p now exp(2) later
    by (simp add: d SessionObject_Validate_def schema_gate_def validStates_def issue_refusal_def
        live_issuer_def live_signer_def)
  moreover have "session_writable ?s"
    using iss p now exp(2,3) alg(2)
    by (simp add: d SessionObject_contract_def SessionObject_fields_def contract_clean_def fields_ok_def in_years_def
        live_issuer_def live_signer_def StateActive_def valid_utf8_ascii)
  ultimately show ?thesis using p(1) d by (simp add: Session_Issue_def Let_def)
qed

lemma Session_Invalidate_live:
  assumes "live_signer (si_signer iss) (SO_SigningKeyID s) PurposeSigningAuthority"
    and s: "si_sessions iss sid = Some s" "SessionObject_Validate s = None" "session_writable s"
  shows "\<exists>s' iss'. Session_Invalidate F iss sid = (Inr s', iss')"
proof (cases "SO_State s = StateInvalidated")
  case True
  then show ?thesis using s(1) by (simp add: Session_Invalidate_def)
next
  case False
  let ?c = SessionObject_contract and ?d = "s\<lparr>SO_State := StateInvalidated, SO_Signature := []\<rparr>"
  obtain alg where alg: "keys_RecordAlg (si_signer iss) (SO_SigningKeyID s) = Inr alg" "ascii alg"
    using assms(1) by (auto simp: live_signer_def)
  have "contract_clean ?c (ct_SetAlg ?c alg ?d)" "in_years (ct_Wire ?c (ct_SetSig ?c [] (ct_SetAlg ?c alg ?d)))"
    using s(3) alg(2)
    by (simp_all add: SessionObject_contract_def SessionObject_fields_def contract_clean_def fields_ok_def in_years_def
        StateInvalidated_def valid_utf8_ascii)
  then obtain sig where sig: "contract_SignWith ?c F ?d (si_signer iss) = (None, ct_SetSig ?c sig (ct_SetAlg ?c alg ?d))" "sig \<noteq> []"
    using session_object.SignWith_live [of ?d "si_signer iss" alg F] assms(1) alg(1)
    by (auto simp: live_signer_def SessionObject_contract_def)
  let ?s = "?d\<lparr>SO_Alg := alg, SO_Signature := sig\<rparr>"
  have "SessionObject_SignWith F ?d (si_signer iss) = (None, ?s)"
    using sig(1) by (simp add: SessionObject_SignWith_def SessionObject_contract_def)
  moreover have "SessionObject_Validate ?s = None"
    using s(2) sig(2) by (simp add: SessionObject_Validate_def validStates_def)
  ultimately show ?thesis using s(1) False by (simp add: Session_Invalidate_def)
qed

section \<open>A concrete issuer\<close>

definition demo_issuer :: SessionIssuer where
  "demo_issuer = projr (NewSessionIssuer (Some ()) (Some (ring_signer demo_keys)) (Some (ring_resolver demo_keys)) ''k'' ''p''
     \<lparr>sopt_DefaultTTL = 0, sopt_IDPrefix = []\<rparr>)"

definition demo_params :: IssueParams where
  "demo_params = \<lparr>ip_RequestID = ''r'', ip_GenomeID = ''g'', ip_TTL = 5\<rparr>"

lemma demo_issuer_new:
  "NewSessionIssuer (Some ()) (Some (ring_signer demo_keys)) (Some (ring_resolver demo_keys)) ''k'' ''p''
     \<lparr>sopt_DefaultTTL = 0, sopt_IDPrefix = []\<rparr> = Inr demo_issuer"
  by (simp add: demo_issuer_def NewSessionIssuer_def Session_DefaultTTL_def Second_def guardR_def)

lemma demo_issues:
  "\<exists>s iss'. Session_Issue F demo_issuer demo_params 7 = (Inr s, iss') \<and> session_writable s \<and>
     SO_SigningKeyID s = si_signingKID demo_issuer"
proof (rule Session_Issue_live)
  show "live_issuer demo_issuer"
    using demo_signers_live(2)
    by (simp add: live_issuer_def demo_issuer_def NewSessionIssuer_def Session_DefaultTTL_def Second_def guardR_def)
  show "marshal_time 7 = Some (the (marshal_time 7))" "marshal_time 12 = Some (the (marshal_time 12))"
    by (simp_all add: marshal_time_def day_of_def epoch_days_def days_before_year_def)
qed (simp_all add: demo_params_def issue_refusal_def zero_time_def time_Add_def)

lemma demo_issuer_signer: "si_signer demo_issuer = ring_signer demo_keys" "si_signingKID demo_issuer = ''k''"
  by (simp_all add: demo_issuer_def NewSessionIssuer_def Session_DefaultTTL_def Second_def guardR_def)

section \<open>The properties\<close>

lemma run_from_new:
  assumes "NewSessionIssuer clock (Some (ring_signer r)) (Some (ring_resolver r)) kid pol opts = Inr iss0" "ring_ok r"
    "length calls < 2 ^ 64"
  shows "session_inv r F (length calls) (session_run F iss0 calls)"
  using session_run_inv [OF NewSessionIssuer_inv [OF assms(1,2)], of calls F] assms(3) by simp

lemma issued_kept: "SessionObject_Validate s = None \<Longrightarrow> SO_ExpiresAt s \<le> kept_until s"
  using time_Sub_ge_iff [of 0 "SO_ExpiresAt s" "SO_IssuedAt s"]
  by (simp add: SessionObject_Validate_def time_Add_def)

lemma issued_session_held:
  assumes "session_inv r F n iss" "Session_Issue F iss p now = (Inr s, iss')"
  shows "si_sessions iss' (SO_SessionID s) = Some s"
proof -
  have v: "SessionObject_Validate s = None" using issued_filed [OF assms] by (simp add: session_filed_def)
  have s: "SO_IssuedAt s = now" "si_sessions iss' = sweep now ((si_sessions iss)(SO_SessionID s \<mapsto> s))"
    using assms(2) by (auto simp: session_draft_def elim!: Session_Issue_ok)
  have "now < SO_ExpiresAt s" using v s(1) by (simp add: SessionObject_Validate_def)
  then show ?thesis using issued_kept [OF v] by (simp add: s(2) sweep_Some)
qed

text \<open>A session issued after any history is held under its id, is pinned to the policy active at that
  moment, and \<open>Verify\<close> accepts it at exactly the instants before its expiry, which is its lifetime after
  issuance; from the expiry on the refusal is an authority error that says it expired.\<close>

theorem issued_session_verifies_until_expiry:
  assumes "NewSessionIssuer clock (Some (ring_signer r)) (Some (ring_resolver r)) kid pol opts = Inr iss0" "ring_ok r"
    and "length calls + 1 < 2 ^ 64"
    and "Session_Issue F (session_run F iss0 calls) p now = (Inr s, iss')"
  shows "Session_Lookup iss' (SO_SessionID s) = Some s \<and>
    SO_PolicyVersion s = ActivePolicy (session_run F iss0 calls) \<and> now < SO_ExpiresAt s \<and>
    SO_ExpiresAt s = time_Add now (if ip_TTL p = 0 then si_defaultTTL (session_run F iss0 calls) else ip_TTL p) \<and>
    (\<forall>t. Session_Verify F (fst r) iss' s t = None \<longleftrightarrow> t < SO_ExpiresAt s) \<and>
    (\<forall>t. SO_ExpiresAt s \<le> t \<longrightarrow>
      (\<exists>m. Session_Verify F (fst r) iss' s t = Some (Authority CodeSessionExpired m None)))"
proof -
  let ?iss = "session_run F iss0 calls"
  have inv: "session_inv r F (length calls) ?iss" using run_from_new assms(1,2,3) by simp
  have inv': "session_inv r F (length calls + 1) iss'" using Session_Issue_inv [OF inv assms(4)] assms(3) by simp
  have f: "SessionObject_VerifySignature F (fst r) s (Some (ring_resolver r)) = None" "SO_State s = StateActive"
      "SessionObject_Validate s = None"
    using issued_filed [OF inv assms(4)] by (auto simp: session_filed_def)
  have res: "si_resolver iss' = ring_resolver r" using inv' by (simp add: session_inv_def)
  have s: "SO_PolicyVersion s = ActivePolicy ?iss" "SO_IssuedAt s = now"
      "SO_ExpiresAt s = time_Add now (if ip_TTL p = 0 then si_defaultTTL ?iss else ip_TTL p)"
    using assms(4) by (auto simp: session_draft_def ActivePolicy_def elim!: Session_Issue_ok)
  have "now < SO_ExpiresAt s" using f(3) s(2) by (simp add: SessionObject_Validate_def)
  moreover have "Session_Lookup iss' (SO_SessionID s) = Some s"
    using issued_session_held [OF inv assms(4)] by (simp add: Session_Lookup_def)
  moreover have "Session_Verify F (fst r) iss' s t =
      (if t < SO_ExpiresAt s then None
       else Some (Authority CodeSessionExpired (''vault/session: session expired at '' @
         (case marshal_time (SO_ExpiresAt s) of None \<Rightarrow> [] | Some w \<Rightarrow> w)) None))" for t
    by (simp add: Session_Verify_def f res)
  ultimately show ?thesis using s by auto
qed

theorem issued_session_verifies_until_expiry_witness:
  "\<exists>s iss'. Session_Issue no_floats demo_issuer demo_params 7 = (Inr s, iss') \<and>
     Session_Verify no_floats (fst demo_keys) iss' s 11 = None \<and> Session_Verify no_floats (fst demo_keys) iss' s 12 \<noteq> None"
proof -
  obtain s iss' where i: "Session_Issue no_floats demo_issuer demo_params 7 = (Inr s, iss')" using demo_issues by blast
  then have "Session_Issue no_floats (session_run no_floats demo_issuer []) demo_params 7 = (Inr s, iss')"
    by (simp add: session_run_def)
  from issued_session_verifies_until_expiry [OF demo_issuer_new demo_keys_ok _ this]
  have "SO_ExpiresAt s = 12" "\<forall>t. Session_Verify no_floats (fst demo_keys) iss' s t = None \<longleftrightarrow> t < SO_ExpiresAt s"
    by (simp_all add: demo_params_def time_Add_def)
  then show ?thesis using i by auto
qed

text \<open>Invalidation is final: once a session is invalidated, whatever is called afterwards, its id names
  that one record or nothing, and the record never verifies again: the refusal is an authority error that
  says it was invalidated.\<close>

theorem invalidated_session_stays_dead:
  assumes "NewSessionIssuer clock (Some (ring_signer r)) (Some (ring_resolver r)) kid pol opts = Inr iss0" "ring_ok r"
    and "length before + length after < 2 ^ 64"
    and "Session_Invalidate F (session_run F iss0 before) sid = (Inr s, iss1)"
  shows "Session_Lookup (session_run F iss1 after) sid \<in> {None, Some s} \<and> SO_SessionID s = sid \<and>
    (\<exists>m. Session_Verify F (fst r) (session_run F iss1 after) s t = Some (Authority CodeSessionInvalidated m None))"
proof -
  let ?iss = "session_run F iss0 before" and ?last = "session_run F iss1 after"
  have inv: "session_inv r F (length before) ?iss" using run_from_new assms(1,2,3) by simp
  have inv1: "session_inv r F (length before) iss1" using Session_Invalidate_inv [OF inv assms(4)] .
  have dead: "si_sessions iss1 sid = Some s" "SO_State s = StateInvalidated"
    using Session_Invalidate_ok [OF assms(4)] by auto
  then have filed: "session_filed r F (si_idPrefix iss1) (si_counter iss1) sid s"
    using inv1 by (auto simp: session_inv_def)
  have known: "session_known iss1 sid" using filed by (auto simp: session_filed_def session_known_def)
  have "si_sessions ?last sid \<in> {None, Some s}"
  proof (rule session_run_entry [OF inv1 assms(3) known])
    fix iss c m
    assume "session_inv r F m iss" "m + 1 < 2 ^ 64" "session_known iss sid" "si_sessions iss sid \<in> {None, Some s}"
    with session_step_entry [of r F m iss sid c] dead(2)
    show "si_sessions (session_step F iss c) sid \<in> {None, Some s}" by auto
  qed (use dead(1) in simp)
  moreover have "si_resolver ?last = ring_resolver r"
    using session_run_inv [OF inv1 assms(3)] by (simp add: session_inv_def)
  ultimately show ?thesis
    using filed dead(2)
    by (auto simp: Session_Lookup_def session_filed_def Session_Verify_def StateActive_def StateInvalidated_def)
qed

theorem invalidated_session_stays_dead_witness:
  "\<exists>s iss1. Session_Invalidate no_floats (session_run no_floats demo_issuer [CallIssue demo_params 7])
       (''sess-'' @ fmt_016d 1) = (Inr s, iss1) \<and>
     Session_Verify no_floats (fst demo_keys) (session_run no_floats iss1 [CallIssue demo_params 8]) s 8 \<noteq> None"
proof -
  obtain u iss where i: "Session_Issue no_floats demo_issuer demo_params 7 = (Inr u, iss)" "session_writable u"
      "SO_SigningKeyID u = ''k''"
    using demo_issues [of no_floats, unfolded demo_issuer_signer] by blast
  have run: "session_run no_floats demo_issuer [CallIssue demo_params 7] = iss" using i(1) by (simp add: session_run_def)
  have inv0: "session_inv demo_keys no_floats 0 demo_issuer"
    using NewSessionIssuer_inv [OF demo_issuer_new demo_keys_ok] .
  have id: "SO_SessionID u = ''sess-'' @ fmt_016d 1" "si_signer iss = ring_signer demo_keys"
    using i(1) demo_issuer_signer by (auto simp: session_draft_def demo_issuer_def NewSessionIssuer_def Session_DefaultTTL_def
        Second_def guardR_def elim!: Session_Issue_ok)
  obtain s iss1 where x: "Session_Invalidate no_floats iss (''sess-'' @ fmt_016d 1) = (Inr s, iss1)"
    using Session_Invalidate_live [of iss u "''sess-'' @ fmt_016d 1" no_floats] demo_signers_live(2) i(2,3) id
      issued_session_held [OF inv0 i(1)] issued_filed [OF inv0 i(1)] by (auto simp: session_filed_def)
  then show ?thesis
    using invalidated_session_stays_dead [OF demo_issuer_new demo_keys_ok, of "[CallIssue demo_params 7]"
        "[CallIssue demo_params 8]" no_floats "''sess-'' @ fmt_016d 1" s iss1 8] run by auto
qed

text \<open>A session is held for its whole life: as long as no session is issued later than its expiry plus
  the time it lived, its id names it, unchanged but for an invalidation, and its record verifies under the
  vault's keys, whatever else was called.\<close>

theorem session_held_for_its_life:
  assumes "NewSessionIssuer clock (Some (ring_signer r)) (Some (ring_resolver r)) kid pol opts = Inr iss0" "ring_ok r"
    and "length before + length after + 1 < 2 ^ 64"
    and "Session_Issue F (session_run F iss0 before) p now = (Inr s, iss1)"
    and "\<forall>q t. CallIssue q t \<in> set after \<longrightarrow> t \<le> kept_until s"
  shows "SO_ExpiresAt s \<le> kept_until s \<and>
    (\<exists>u. Session_Lookup (session_run F iss1 after) (SO_SessionID s) = Some u \<and> same_session s u \<and>
      SessionObject_VerifySignature F (fst r) u (Some (ring_resolver r)) = None)"
proof -
  let ?iss = "session_run F iss0 before" and ?last = "session_run F iss1 after" and ?sid = "SO_SessionID s"
  have inv: "session_inv r F (length before) ?iss" using run_from_new assms(1,2,3) by simp
  have inv1: "session_inv r F (length before + 1) iss1" using Session_Issue_inv [OF inv assms(4)] assms(3) by simp
  have valid: "SessionObject_Validate s = None" using issued_filed [OF inv assms(4)] by (simp add: session_filed_def)
  have known: "session_known iss1 ?sid" using issued_fresh(2) [OF inv _ assms(4)] assms(3) by simp
  have held: "si_sessions iss1 ?sid = Some s"
    using issued_session_held [OF inv assms(4)] .
  let ?Q = "\<lambda>e. \<exists>u. e = Some u \<and> same_session s u"
  have "?Q (si_sessions ?last ?sid)"
  proof (rule session_run_entry [OF inv1 _ known, where Q = ?Q])
    fix iss c m
    assume a: "c \<in> set after" "session_inv r F m iss" "m + 1 < 2 ^ 64" "session_known iss ?sid" "?Q (si_sessions iss ?sid)"
    then obtain u where u: "si_sessions iss ?sid = Some u" "same_session s u" by blast
    have "kept_until u = kept_until s" using same_session_times [OF u(2)] by simp
    then show "?Q (si_sessions (session_step F iss c) ?sid)"
      using session_step_entry [OF a(2-4), of c] u a(1) assms(5) same_session_invalidated [OF u(2)] by fastforce
  qed (use held assms(3) same_session_refl in auto)
  moreover have "session_inv r F (length before + 1 + length after) ?last"
    using session_run_inv [OF inv1] assms(3) by simp
  ultimately show ?thesis
    using issued_kept [OF valid] by (auto simp: Session_Lookup_def session_inv_def session_filed_def)
qed

theorem session_held_for_its_life_witness:
  "\<exists>s iss1 u. Session_Issue no_floats demo_issuer demo_params 7 = (Inr s, iss1) \<and>
     Session_Lookup (session_run no_floats iss1 [CallIssue demo_params 17, CallInvalidate ''x'']) (SO_SessionID s) = Some u \<and>
     same_session s u"
proof -
  obtain s iss1 where i: "Session_Issue no_floats demo_issuer demo_params 7 = (Inr s, iss1)" using demo_issues by blast
  then have r: "Session_Issue no_floats (session_run no_floats demo_issuer []) demo_params 7 = (Inr s, iss1)"
    by (simp add: session_run_def)
  have "SO_IssuedAt s = 7" "SO_ExpiresAt s = 12"
    using i by (auto simp: session_draft_def demo_params_def time_Add_def elim!: Session_Issue_ok)
  then have "kept_until s = 17" by (simp add: time_Add_def sint_time_Sub)
  then show ?thesis
    using session_held_for_its_life [OF demo_issuer_new demo_keys_ok _ r, of "[CallIssue demo_params 17, CallInvalidate ''x'']"] i
    by auto
qed

end
