(* ===== verification/StagedDisclosure.thy ===== *)
theory StagedDisclosure
  imports ReleaseContracts AuditChain
begin

text \<open>
  Staged disclosure (src/internal/vault/disclosure/staged.go, sequencer.go and
  src/internal/contracts/disclosure_message/aad.go): the issuer that seals and signs one component
  after another for one session under a running index, and the sequencer that drives it over a list
  of components, binding each emission to an audit event before the message is surfaced.

  Each method runs under one mutex and is one step. \<open>H\<close> is \<open>crypto.SHA256\<close>, \<open>F\<close> the float formatting
  of the canonical form, \<open>app\<close> the audit sink's \<open>Append\<close> on a chain state of any type, \<open>now\<close> a clock
  reading in UTC. A sealer is the pair of its operations; a plaintext is a buffer of the caller's, and
  \<open>Emit\<close> also returns what that buffer holds afterwards. The buffers of one run do not overlap.
\<close>

section \<open>The sealing capability\<close>

record Sealer =
  se_Seal :: "KeyID \<Rightarrow> bytes \<Rightarrow> bytes \<Rightarrow> go_error + bytes \<times> bytes"
  se_Open :: "KeyID \<Rightarrow> bytes \<Rightarrow> bytes \<Rightarrow> bytes \<Rightarrow> go_error + bytes"

definition ring_sealer :: "ring \<Rightarrow> Sealer" where
  "ring_sealer r = \<lparr>se_Seal = Store_Seal (fst r) (snd r), se_Open = Store_Open (fst r) (snd r)\<rparr>"

section \<open>The associated data\<close>

definition BuildRecipientAAD ::
    "floats \<Rightarrow> string \<Rightarrow> string \<Rightarrow> u32 \<Rightarrow> string \<Rightarrow> KeyID \<Rightarrow> go_error + bytes" where
  "BuildRecipientAAD F session component seqIndex policy recipient =
     (case CanonicalJSON F (marshal_wire
         [(''component_id'', WStr component),
          (''policy_version'', WStr policy),
          (''recipient_key_id'', WStr recipient),
          (''sequence_index'', WNum (unat seqIndex)),
          (''session_id'', WStr session)]) of
        Inl err \<Rightarrow> Inl (Structural CodeFieldValueInvalid ''disclosure_message: AAD encode failed'' (Some err))
      | Inr b \<Rightarrow> Inr b)"

definition BuildRecipientAADForMessage :: "floats \<Rightarrow> DisclosureMessage option \<Rightarrow> go_error + bytes" where
  "BuildRecipientAADForMessage F d =
     (case d of
        None \<Rightarrow> Inl (Structural CodeRequiredFieldMissing
          ''disclosure_message: nil receiver for AAD reconstruction'' None)
      | Some m \<Rightarrow> BuildRecipientAAD F (DM_SessionID m) (DM_ComponentID m) (DM_SequenceIndex m)
          (DM_PolicyVersion m) (DM_RecipientKeyID m))"

section \<open>The issuer\<close>

record StagedIssuer =
  sd_signer :: Signer
  sd_sealer :: Sealer
  sd_resolver :: Resolver
  sd_signingKID :: KeyID
  sd_sealingKID :: KeyID
  sd_session :: SessionObject
  sd_activePolicy :: string
  sd_idPrefix :: string
  sd_counter :: u32
  sd_finalized :: bool

definition NewStagedIssuer ::
    "unit option \<Rightarrow> Signer option \<Rightarrow> Sealer option \<Rightarrow> Resolver option \<Rightarrow> KeyID \<Rightarrow> KeyID \<Rightarrow>
     SessionObject \<Rightarrow> string \<Rightarrow> string \<Rightarrow> go_error + StagedIssuer" where
  "NewStagedIssuer clock signer sealer resolver signingKID sealingKID session activePolicy idPrefix =
     (case (clock, signer, sealer, resolver) of
        (None, _) \<Rightarrow> Inl (Structural CodeRequiredFieldMissing ''staged_disclosure: clock is required'' None)
      | (_, None, _) \<Rightarrow> Inl (Structural CodeRequiredFieldMissing ''staged_disclosure: signer is required'' None)
      | (_, _, None, _) \<Rightarrow> Inl (Structural CodeRequiredFieldMissing ''staged_disclosure: sealer is required'' None)
      | (_, _, _, None) \<Rightarrow> Inl (Structural CodeRequiredFieldMissing ''staged_disclosure: resolver is required'' None)
      | (Some c, Some sg, Some sl, Some res) \<Rightarrow>
          guardR
            (first_err
              [chk (signingKID = [])
                 (Structural CodeRequiredFieldMissing ''staged_disclosure: signing_key_id is required'' None),
               chk (sealingKID = [])
                 (Structural CodeRequiredFieldMissing ''staged_disclosure: sealing_key_id is required'' None),
               chk (activePolicy = [])
                 (Structural CodeRequiredFieldMissing ''staged_disclosure: active policy_version is required'' None),
               SessionObject_Validate session,
               chk (SO_State session \<noteq> StateActive)
                 (Authority CodeSessionInvalidated
                   (''staged_disclosure: session state is not 'active': '' @ SO_State session) None),
               chk (SO_PolicyVersion session \<noteq> activePolicy)
                 (Authority CodePolicyDrifted
                   ''staged_disclosure: active policy_version does not match session.policy_version'' None)])
            (Inr \<lparr>sd_signer = sg, sd_sealer = sl, sd_resolver = res, sd_signingKID = signingKID,
                  sd_sealingKID = sealingKID, sd_session = session, sd_activePolicy = activePolicy,
                  sd_idPrefix = (if idPrefix = [] then ''disc-'' else idPrefix),
                  sd_counter = 0, sd_finalized = False\<rparr>))"

record EmitParams =
  ep_ComponentID :: string
  ep_Plaintext :: bytes
  ep_RecipientKeyID :: KeyID

definition validateEmitParams :: "EmitParams \<Rightarrow> go_error option" where
  "validateEmitParams p =
     first_err
       [chk (ep_ComponentID p = [])
          (Structural CodeRequiredFieldMissing ''staged_disclosure: component_id required'' None),
        chk (ep_Plaintext p = [])
          (Structural CodeRequiredFieldMissing
            ''staged_disclosure: plaintext required (empty emissions are meaningless)'' None),
        chk (ep_RecipientKeyID p = [])
          (Structural CodeRequiredFieldMissing ''staged_disclosure: recipient_key_id required'' None)]"

fun zeroBytes :: "bytes \<Rightarrow> bytes" where
  "zeroBytes [] = []"
| "zeroBytes (b # bs) = 0 # zeroBytes bs"

definition seqIndexBytes :: "u32 \<Rightarrow> bytes" where
  "seqIndexBytes n = [ucast (drop_bit 24 n), ucast (drop_bit 16 n), ucast (drop_bit 8 n), ucast n]"

text \<open>The gates under the lock, in order.\<close>

definition emit_gates :: "StagedIssuer \<Rightarrow> gotime \<Rightarrow> go_error option" where
  "emit_gates iss now =
     first_err
       [chk (sd_finalized iss)
          (Operational CodeIssuerFinalized ''staged_disclosure: issuer is finalized; no further emissions'' None),
        chk (\<not> now < SO_ExpiresAt (sd_session iss))
          (Authority CodeSessionExpired ''staged_disclosure: session expired'' None),
        chk (SO_State (sd_session iss) \<noteq> StateActive)
          (Authority CodeSessionInvalidated
            (''staged_disclosure: session state no longer active: '' @ SO_State (sd_session iss)) None),
        chk (SO_PolicyVersion (sd_session iss) \<noteq> sd_activePolicy iss)
          (Authority CodePolicyDrifted
            ''staged_disclosure: session.policy_version no longer matches active policy'' None)]"

text \<open>The unsigned message for the next index.\<close>

definition emit_draft :: "StagedIssuer \<Rightarrow> EmitParams \<Rightarrow> bytes \<Rightarrow> bytes \<Rightarrow> gotime \<Rightarrow> DisclosureMessage" where
  "emit_draft iss p nonce ciphertext now =
     \<lparr>DM_SchemaVersion = 1,
      DM_DisclosureID = sd_idPrefix iss @ SO_SessionID (sd_session iss) @ ''-'' @ hex_encode (seqIndexBytes (sd_counter iss)),
      DM_SessionID = SO_SessionID (sd_session iss), DM_ComponentID = ep_ComponentID p,
      DM_PolicyVersion = sd_activePolicy iss, DM_SequenceIndex = sd_counter iss,
      DM_SealedPayload = ciphertext, DM_Nonce = nonce, DM_RecipientKeyID = ep_RecipientKeyID p,
      DM_AuthorizedAt = now, DM_SigningKeyID = sd_signingKID iss, DM_Alg = [], DM_Signature = []\<rparr>"

definition emit_message ::
    "floats \<Rightarrow> StagedIssuer \<Rightarrow> EmitParams \<Rightarrow> gotime \<Rightarrow> (go_error + DisclosureMessage) \<times> StagedIssuer" where
  "emit_message F iss p now =
     (case BuildRecipientAAD F (SO_SessionID (sd_session iss)) (ep_ComponentID p) (sd_counter iss)
             (sd_activePolicy iss) (ep_RecipientKeyID p) of
        Inl err \<Rightarrow> (Inl err, iss)
      | Inr aad \<Rightarrow>
          (case se_Seal (sd_sealer iss) (sd_sealingKID iss) (ep_Plaintext p) aad of
             Inl err \<Rightarrow> (Inl err, iss)
           | Inr (nonce, ciphertext) \<Rightarrow>
               (case DisclosureMessage_SignWith F (emit_draft iss p nonce ciphertext now) (sd_signer iss) of
                  (Some err, msg) \<Rightarrow> (Inl err, iss)
                | (None, msg) \<Rightarrow>
                    (case DisclosureMessage_Validate msg of
                       Some err \<Rightarrow> (Inl err, iss)
                     | None \<Rightarrow> (Inr msg, iss\<lparr>sd_counter := sd_counter iss + 1\<rparr>)))))"

text \<open>The result, the issuer as the call leaves it, and the plaintext buffer as the call leaves it.\<close>

definition Emit ::
    "floats \<Rightarrow> StagedIssuer \<Rightarrow> EmitParams \<Rightarrow> gotime \<Rightarrow>
     ((go_error + DisclosureMessage) \<times> StagedIssuer) \<times> bytes" where
  "Emit F iss p now =
     ((case validateEmitParams p of
         Some err \<Rightarrow> (Inl err, iss)
       | None \<Rightarrow>
           (case emit_gates iss now of
              Some err \<Rightarrow> (Inl err, iss)
            | None \<Rightarrow> emit_message F iss p now)),
      zeroBytes (ep_Plaintext p))"

definition Staged_Finalize :: "StagedIssuer \<Rightarrow> go_error option \<times> StagedIssuer" where
  "Staged_Finalize iss = (None, iss\<lparr>sd_finalized := True\<rparr>)"

definition Staged_SequenceIndex :: "StagedIssuer \<Rightarrow> u32" where
  "Staged_SequenceIndex iss = sd_counter iss"

definition Staged_IsFinalized :: "StagedIssuer \<Rightarrow> bool" where
  "Staged_IsFinalized iss = sd_finalized iss"

definition Staged_SessionID :: "StagedIssuer \<Rightarrow> string" where
  "Staged_SessionID iss = SO_SessionID (sd_session iss)"

section \<open>The sequencer\<close>

record Component =
  cm_ID :: string
  cm_Plaintext :: bytes
  cm_RecipientKeyID :: KeyID

record 'c SequencerOptions =
  sqo_AuditSink :: "'c option"
  sqo_AuditSigner :: "Signer option"
  sqo_AuditKeyID :: KeyID
  sqo_AuditIDPrefix :: string
  sqo_FinalizeOnError :: bool

record 'c StagedSequencer =
  sq_issuer :: StagedIssuer
  sq_auditSink :: "'c option"
  sq_auditSigner :: "Signer option"
  sq_auditKID :: KeyID
  sq_auditIDPrefix :: string
  sq_finalizeOnError :: bool
  sq_auditCounter :: u64

definition NewStagedSequencer ::
    "StagedIssuer option \<Rightarrow> unit option \<Rightarrow> 'c SequencerOptions \<Rightarrow> go_error + 'c StagedSequencer" where
  "NewStagedSequencer issuer clock opts =
     (case (issuer, clock) of
        (None, _) \<Rightarrow> Inl (Structural CodeRequiredFieldMissing ''staged_sequencer: issuer is required'' None)
      | (_, None) \<Rightarrow> Inl (Structural CodeRequiredFieldMissing ''staged_sequencer: clock is required'' None)
      | (Some iss, Some c) \<Rightarrow>
          guardR
            (case sqo_AuditSink opts of
               None \<Rightarrow> None
             | Some sink \<Rightarrow>
                 first_err
                   [chk (case sqo_AuditSigner opts of None \<Rightarrow> True | Some sg \<Rightarrow> False)
                      (Structural CodeRequiredFieldMissing
                        ''staged_sequencer: audit_signer is required when audit_sink is set'' None),
                    chk (sqo_AuditKeyID opts = [])
                      (Structural CodeRequiredFieldMissing
                        ''staged_sequencer: audit_key_id is required when audit_sink is set'' None)])
            (Inr \<lparr>sq_issuer = iss, sq_auditSink = sqo_AuditSink opts, sq_auditSigner = sqo_AuditSigner opts,
                  sq_auditKID = sqo_AuditKeyID opts,
                  sq_auditIDPrefix = (if sqo_AuditIDPrefix opts = [] then ''audit-disclosure-'' else sqo_AuditIDPrefix opts),
                  sq_finalizeOnError = sqo_FinalizeOnError opts, sq_auditCounter = 0\<rparr>))"

record SequenceResult =
  sr_Messages :: "DisclosureMessage list"
  sr_AuditEventIDs :: "string list"
  sr_Finalized :: bool
  sr_FailedIndex :: int
  sr_FailedComponentID :: string
  sr_FinalSequenceIndex :: u32

definition auditCounterBytes :: "u64 \<Rightarrow> bytes" where
  "auditCounterBytes n = counter_loop 8 n []"

definition buildDisclosureAuthorizedPayload ::
    "(bytes \<Rightarrow> bytes) \<Rightarrow> floats \<Rightarrow> DisclosureMessage \<Rightarrow> go_error + bytes" where
  "buildDisclosureAuthorizedPayload H F msg =
     (case CanonicalJSON F (marshal_wire
         [(''component_id'', WStr (DM_ComponentID msg)),
          (''disclosure_id'', WStr (DM_DisclosureID msg)),
          (''payload_hash'', WStr (hex_encode (H (DM_SealedPayload msg)))),
          (''policy_version'', WStr (DM_PolicyVersion msg)),
          (''recipient_key_id'', WStr (DM_RecipientKeyID msg)),
          (''sequence_index'', WNum (unat (DM_SequenceIndex msg))),
          (''session_id'', WStr (DM_SessionID msg))]) of
        Inl err \<Rightarrow> Inl (Structural CodeFieldValueInvalid ''staged_sequencer: audit payload encode failed'' (Some err))
      | Inr b \<Rightarrow> Inr b)"

text \<open>\<open>emitAuditEvent\<close>, called with a sink: the sealed event, and the sequencer as it is left.\<close>

definition emitAuditEvent ::
    "'c appender \<Rightarrow> (bytes \<Rightarrow> bytes) \<Rightarrow> floats \<Rightarrow> 'c StagedSequencer \<Rightarrow> 'c \<Rightarrow> DisclosureMessage \<Rightarrow> gotime \<Rightarrow>
     (go_error + AuditEvent) \<times> 'c StagedSequencer" where
  "emitAuditEvent app H F sq sink msg now =
     (let sq1 = sq\<lparr>sq_auditCounter := sq_auditCounter sq + 1\<rparr>
      in (case buildDisclosureAuthorizedPayload H F msg of
            Inl err \<Rightarrow> (Inl err, sq1)
          | Inr payload \<Rightarrow>
              (case app sink
                 \<lparr>AE_SchemaVersion = 9,
                  AE_EventID = sq_auditIDPrefix sq1 @ hex_encode (auditCounterBytes (sq_auditCounter sq1)),
                  AE_Kind = ''DISCLOSURE_AUTHORIZED'', AE_OccurredAt = now, AE_SessionID = DM_SessionID msg,
                  AE_ManifestID = [], AE_RequestID = [], AE_Payload = payload, AE_PrevHash = [], AE_Hash = [],
                  AE_SigningKeyID = sq_auditKID sq1, AE_Alg = [], AE_Signature = []\<rparr>
                 (sq_auditSigner sq1) of
               (r, sink') \<Rightarrow> (r, sq1\<lparr>sq_auditSink := Some sink'\<rparr>))))"

text \<open>
  The loop of \<open>Run\<close> from component \<open>i\<close>, with the partial result so far. \<open>clk i\<close> is what the issuer's
  clock and the sequencer's clock read while component \<open>i\<close> is emitted.
\<close>

definition run_failed ::
    "'c StagedSequencer \<Rightarrow> SequenceResult \<Rightarrow> nat \<Rightarrow> Component \<Rightarrow> bool \<Rightarrow> SequenceResult \<times> 'c StagedSequencer" where
  "run_failed sq res i c closing =
     (let res1 = res\<lparr>sr_FailedIndex := int i, sr_FailedComponentID := cm_ID c,
                     sr_FinalSequenceIndex := Staged_SequenceIndex (sq_issuer sq)\<rparr>
      in if closing
         then (res1\<lparr>sr_Finalized := True\<rparr>, sq\<lparr>sq_issuer := snd (Staged_Finalize (sq_issuer sq))\<rparr>)
         else (res1, sq))"

fun run_loop ::
    "'c appender \<Rightarrow> (bytes \<Rightarrow> bytes) \<Rightarrow> floats \<Rightarrow> (nat \<Rightarrow> gotime \<times> gotime) \<Rightarrow> nat \<Rightarrow> 'c StagedSequencer \<Rightarrow>
     SequenceResult \<Rightarrow> Component list \<Rightarrow> (SequenceResult \<times> go_error option) \<times> 'c StagedSequencer" where
  "run_loop app H F clk i sq res [] =
     (case Staged_Finalize (sq_issuer sq) of
        (Some err, iss) \<Rightarrow> ((res\<lparr>sr_FinalSequenceIndex := Staged_SequenceIndex iss\<rparr>, Some err), sq\<lparr>sq_issuer := iss\<rparr>)
      | (None, iss) \<Rightarrow>
          ((res\<lparr>sr_Finalized := True, sr_FinalSequenceIndex := Staged_SequenceIndex iss\<rparr>, None), sq\<lparr>sq_issuer := iss\<rparr>))"
| "run_loop app H F clk i sq res (c # cs) =
     (case fst (Emit F (sq_issuer sq)
             \<lparr>ep_ComponentID = cm_ID c, ep_Plaintext = cm_Plaintext c, ep_RecipientKeyID = cm_RecipientKeyID c\<rparr>
             (fst (clk i))) of
        (Inl err, iss) \<Rightarrow>
          (case run_failed (sq\<lparr>sq_issuer := iss\<rparr>) res i c (sq_finalizeOnError sq) of
             (res1, sq1) \<Rightarrow> ((res1, Some err), sq1))
      | (Inr msg, iss) \<Rightarrow>
          (let sq1 = sq\<lparr>sq_issuer := iss\<rparr>
           in (case sq_auditSink sq1 of
                 None \<Rightarrow>
                   run_loop app H F clk (i + 1) sq1 (res\<lparr>sr_Messages := sr_Messages res @ [msg]\<rparr>) cs
               | Some sink \<Rightarrow>
                   (case emitAuditEvent app H F sq1 sink msg (snd (clk i)) of
                      (Inl err, sq2) \<Rightarrow>
                        (case run_failed sq2 res i c True of (res1, sq3) \<Rightarrow> ((res1, Some err), sq3))
                    | (Inr sealed, sq2) \<Rightarrow>
                        run_loop app H F clk (i + 1) sq2
                          (res\<lparr>sr_Messages := sr_Messages res @ [msg],
                               sr_AuditEventIDs := sr_AuditEventIDs res @ [AE_EventID sealed]\<rparr>) cs))))"

definition zeroAllComponents :: "Component list \<Rightarrow> Component list" where
  "zeroAllComponents cs = map (\<lambda>c. c\<lparr>cm_Plaintext := zeroBytes (cm_Plaintext c)\<rparr>) cs"

text \<open>The result and error, the sequencer, and the caller's components as the call leaves them.\<close>

definition Run ::
    "'c appender \<Rightarrow> (bytes \<Rightarrow> bytes) \<Rightarrow> floats \<Rightarrow> (nat \<Rightarrow> gotime \<times> gotime) \<Rightarrow> 'c StagedSequencer \<Rightarrow> Component list \<Rightarrow>
     ((SequenceResult option \<times> go_error option) \<times> 'c StagedSequencer) \<times> Component list" where
  "Run app H F clk sq components =
     ((if components = []
       then ((None, Some (Structural CodeRequiredFieldMissing ''staged_sequencer: components slice is empty'' None)), sq)
       else (case run_loop app H F clk 0 sq
                    \<lparr>sr_Messages = [], sr_AuditEventIDs = [], sr_Finalized = False, sr_FailedIndex = -1,
                     sr_FailedComponentID = [], sr_FinalSequenceIndex = 0\<rparr> components of
               ((res, err), sq') \<Rightarrow> ((Some res, err), sq'))),
      zeroAllComponents components)"

end
