(* ===== verification/StagedProofs.thy ===== *)
theory StagedProofs
  imports StagedDisclosure
begin

text \<open>
  What a run of the staged sequencer does: the messages it surfaces are the emissions of a prefix of
  the components, in order and under consecutive indices, and each is bound to its own audit event.
  \<open>disclosed\<close> says that a message is the issuer's emission of a component, \<open>bound\<close> that an event records
  a message. The locale \<open>sealing_link\<close> is the contract between the side that seals and the side that
  opens; it is interpreted on two key stores that hold one sealing key.
\<close>

section \<open>Emissions\<close>

abbreviation emit_params :: "Component \<Rightarrow> EmitParams" where
  "emit_params c \<equiv> \<lparr>ep_ComponentID = cm_ID c, ep_Plaintext = cm_Plaintext c, ep_RecipientKeyID = cm_RecipientKeyID c\<rparr>"

definition disclosed :: "floats \<Rightarrow> StagedIssuer \<Rightarrow> gotime \<Rightarrow> Component \<Rightarrow> DisclosureMessage \<Rightarrow> bool" where
  "disclosed F iss now c m \<longleftrightarrow>
     validateEmitParams (emit_params c) = None \<and> emit_gates iss now = None \<and> DisclosureMessage_Validate m = None \<and>
     (\<exists>aad nonce ct alg sig.
        BuildRecipientAADForMessage F (Some m) = Inr aad \<and>
        se_Seal (sd_sealer iss) (sd_sealingKID iss) (cm_Plaintext c) aad = Inr (nonce, ct) \<and>
        DisclosureMessage_SignWith F (emit_draft iss (emit_params c) nonce ct now) (sd_signer iss) = (None, m) \<and>
        m = (emit_draft iss (emit_params c) nonce ct now)\<lparr>DM_Alg := alg, DM_Signature := sig\<rparr>)"

abbreviation advanced :: "StagedIssuer \<Rightarrow> nat \<Rightarrow> StagedIssuer" where
  "advanced iss n \<equiv> iss\<lparr>sd_counter := sd_counter iss + of_nat n\<rparr>"

context signed_contract begin

lemma SignWith_covered:
  assumes "contract_SignWith ct F r signer = (None, r')"
  shows "\<exists>cb. contract_cover ct F r' = Inr cb"
  using assms by (rule contract_SignWith_ok) auto

end

lemma DisclosureMessage_SignWith_ok:
  assumes "DisclosureMessage_SignWith F s sg = (None, s')"
  shows "\<exists>alg sig. s' = s\<lparr>DM_Alg := alg, DM_Signature := sig\<rparr>"
  using disclosure_message.SignWith_ok_shape [of F s sg s'] assms
  by (simp add: DisclosureMessage_SignWith_def DisclosureMessage_contract_def)

lemma Emit_ok:
  assumes "fst (Emit F iss (emit_params c) now) = (Inr m, iss')"
  shows "disclosed F iss now c m" "iss' = iss\<lparr>sd_counter := sd_counter iss + 1\<rparr>"
proof -
  obtain aad nonce ct where e: "validateEmitParams (emit_params c) = None" "emit_gates iss now = None"
      "BuildRecipientAAD F (SO_SessionID (sd_session iss)) (cm_ID c) (sd_counter iss) (sd_activePolicy iss)
         (cm_RecipientKeyID c) = Inr aad"
      "se_Seal (sd_sealer iss) (sd_sealingKID iss) (cm_Plaintext c) aad = Inr (nonce, ct)"
      "DisclosureMessage_SignWith F (emit_draft iss (emit_params c) nonce ct now) (sd_signer iss) = (None, m)"
      "DisclosureMessage_Validate m = None" "iss' = iss\<lparr>sd_counter := sd_counter iss + 1\<rparr>"
    using assms by (auto simp: Emit_def emit_message_def split: option.splits sum.splits prod.splits)
  then show "iss' = iss\<lparr>sd_counter := sd_counter iss + 1\<rparr>" by simp
  from DisclosureMessage_SignWith_ok [OF e(5)] obtain alg sig where
    "m = (emit_draft iss (emit_params c) nonce ct now)\<lparr>DM_Alg := alg, DM_Signature := sig\<rparr>" by blast
  with e show "disclosed F iss now c m"
    by (fastforce simp: disclosed_def BuildRecipientAADForMessage_def emit_draft_def)
qed

lemma Emit_error: "fst (Emit F iss p now) = (Inl err, iss') \<Longrightarrow> iss' = iss"
  by (auto simp: Emit_def emit_message_def split: option.splits sum.splits prod.splits)

lemma zeroBytes_zeros: "zeroBytes b = zeros (length b)"
  by (induction b rule: zeroBytes.induct) (auto simp: zeros_def)

lemma disclosed_fields:
  assumes "disclosed F iss now c m"
  shows "DM_SequenceIndex m = sd_counter iss" "DM_SessionID m = SO_SessionID (sd_session iss)"
    "DM_ComponentID m = cm_ID c" "DM_PolicyVersion m = SO_PolicyVersion (sd_session iss)"
    "DM_RecipientKeyID m = cm_RecipientKeyID c" "DM_SigningKeyID m = sd_signingKID iss" "DM_AuthorizedAt m = now"
    "DM_DisclosureID m = sd_idPrefix iss @ SO_SessionID (sd_session iss) @ ''-'' @ hex_encode (seqIndexBytes (sd_counter iss))"
    "now < SO_ExpiresAt (sd_session iss)" "DisclosureMessage_Validate m = None"
  using assms by (auto simp: disclosed_def emit_draft_def emit_gates_def)

lemma disclosed_verifies:
  assumes "ring_ok r" "sd_signer iss = ring_signer r" "disclosed F iss now c m"
  shows "DisclosureMessage_VerifySignature F (fst r) m (Some (ring_resolver r)) = None"
  using disclosure_message.signed_verifies [of r F _ m] assms
  by (auto simp: disclosed_def DisclosureMessage_SignWith_def DisclosureMessage_VerifySignature_def
      DisclosureMessage_contract_def)

lemma disclosed_covered:
  assumes "disclosed F iss now c m"
  shows "\<exists>cb. DisclosureMessage_CanonicalBytes F m = Inr cb"
proof -
  obtain d where "DisclosureMessage_SignWith F d (sd_signer iss) = (None, m)" "DisclosureMessage_Validate m = None"
    using assms by (auto simp: disclosed_def)
  moreover have "ct_Validate DisclosureMessage_contract = DisclosureMessage_Validate"
    by (simp add: DisclosureMessage_contract_def)
  ultimately show ?thesis
    using disclosure_message.SignWith_covered [of F d "sd_signer iss" m]
    by (auto simp: DisclosureMessage_SignWith_def DisclosureMessage_CanonicalBytes_def contract_CanonicalBytes_def guardR_def)
qed

text \<open>The messages of a prefix of the components, from component \<open>i\<close> on.\<close>

fun disclosures ::
    "floats \<Rightarrow> (nat \<Rightarrow> gotime \<times> gotime) \<Rightarrow> nat \<Rightarrow> StagedIssuer \<Rightarrow> Component list \<Rightarrow> DisclosureMessage list \<Rightarrow> bool" where
  "disclosures F clk i iss cs [] = True"
| "disclosures F clk i iss [] (m # ms) = False"
| "disclosures F clk i iss (c # cs) (m # ms) =
     (disclosed F iss (fst (clk i)) c m \<and> disclosures F clk (i + 1) (advanced iss 1) cs ms)"

lemma disclosures_length: "disclosures F clk i iss cs ms \<Longrightarrow> length ms \<le> length cs"
  by (induction F clk i iss cs ms rule: disclosures.induct) auto

lemma disclosures_nth:
  "disclosures F clk i iss cs ms \<Longrightarrow> k < length ms \<Longrightarrow>
   disclosed F (advanced iss k) (fst (clk (i + k))) (cs ! k) (ms ! k)"
proof (induction F clk i iss cs ms arbitrary: k rule: disclosures.induct)
  case (3 F clk i iss c cs m ms)
  show ?case
  proof (cases k)
    case (Suc j)
    then show ?thesis using "3.IH" [of j] "3.prems" by (simp add: add.assoc)
  qed (use "3.prems" in simp)
qed auto

section \<open>Events that record messages\<close>

definition bound :: "(bytes \<Rightarrow> bytes) \<Rightarrow> floats \<Rightarrow> DisclosureMessage \<Rightarrow> AuditEvent \<Rightarrow> bool" where
  "bound H F m e \<longleftrightarrow>
     AE_Kind e = ''DISCLOSURE_AUTHORIZED'' \<and> AE_SessionID e = DM_SessionID m \<and>
     buildDisclosureAuthorizedPayload H F m = Inr (AE_Payload e)"

lemma run_failed_keeps:
  assumes "run_failed sq res i c closing = (res', sq')"
  shows "sr_Messages res' = sr_Messages res" "sr_AuditEventIDs res' = sr_AuditEventIDs res"
    "sr_FailedIndex res' = int i" "sr_FailedComponentID res' = cm_ID c" "sq_auditSink sq' = sq_auditSink sq"
    "sq_issuer sq' = (sq_issuer sq)\<lparr>sd_finalized := sd_finalized (sq_issuer sq) \<or> closing\<rparr>"
  using assms by (auto simp: run_failed_def Staged_Finalize_def Let_def split: if_splits)

lemma emitAuditEvent_keeps:
  "emitAuditEvent app H F sq sink m now = (r, sq') \<Longrightarrow> sq_issuer sq' = sq_issuer sq \<and> sq_auditSink sq' \<noteq> None \<or>
   (sq' = sq\<lparr>sq_auditCounter := sq_auditCounter sq + 1\<rparr> \<and> (\<exists>err. r = Inl err))"
  by (auto simp: emitAuditEvent_def Let_def split: sum.splits prod.splits)

text \<open>How a run ends after \<open>n\<close> messages: with all components disclosed, or at the component it names.\<close>

definition run_stop ::
    "nat \<Rightarrow> Component list \<Rightarrow> nat \<Rightarrow> int \<Rightarrow> SequenceResult \<Rightarrow> go_error option \<Rightarrow> 'c StagedSequencer \<Rightarrow> bool" where
  "run_stop i cs n clear res err sq \<longleftrightarrow>
     (case err of
        None \<Rightarrow> n = length cs \<and> sd_finalized (sq_issuer sq) \<and> sr_Finalized res \<and> sr_FailedIndex res = clear
      | Some e \<Rightarrow> n < length cs \<and> sr_FailedIndex res = int (i + n) \<and> sr_FailedComponentID res = cm_ID (cs ! n))"

lemma run_stop_Suc: "run_stop (Suc i) cs n f res err sq \<Longrightarrow> run_stop i (c # cs) (Suc n) f res err sq"
  by (auto simp: run_stop_def split: option.splits)

definition run_outcome ::
    "(bytes \<Rightarrow> bytes) \<Rightarrow> ('c \<Rightarrow> AuditEvent list) \<Rightarrow> floats \<Rightarrow> (nat \<Rightarrow> gotime \<times> gotime) \<Rightarrow> nat \<Rightarrow> 'c StagedSequencer \<Rightarrow>
     SequenceResult \<Rightarrow> Component list \<Rightarrow> SequenceResult \<Rightarrow> go_error option \<Rightarrow> 'c StagedSequencer \<Rightarrow> bool" where
  "run_outcome H events F clk i sq res cs res' err sq' \<longleftrightarrow>
     (\<exists>ms. sr_Messages res' = sr_Messages res @ ms \<and> disclosures F clk i (sq_issuer sq) cs ms \<and>
        run_stop i cs (length ms) (sr_FailedIndex res) res' err sq' \<and>
        (case sq_auditSink sq of
           None \<Rightarrow> sq_auditSink sq' = None \<and> sr_AuditEventIDs res' = sr_AuditEventIDs res
         | Some sink \<Rightarrow> (\<exists>sink' es. sq_auditSink sq' = Some sink' \<and> events sink' = events sink @ es \<and>
             list_all2 (bound H F) ms es \<and> sr_AuditEventIDs res' = sr_AuditEventIDs res @ map AE_EventID es)))"

context audit_recorder begin

lemma emitAuditEvent_ok:
  assumes "emitAuditEvent app H F sq sink m now = (Inr e, sq')"
  shows "\<exists>sink'. sq' = sq\<lparr>sq_auditCounter := sq_auditCounter sq + 1, sq_auditSink := Some sink'\<rparr> \<and>
    events sink' = events sink @ [e] \<and> bound H F m e"
  using assms recorded
  by (fastforce simp: emitAuditEvent_def Let_def bound_def split: sum.splits prod.splits)

lemma emitAuditEvent_error:
  assumes "emitAuditEvent app H F sq sink m now = (Inl err, sq')" "sq_auditSink sq = Some sink"
  shows "sq_issuer sq' = sq_issuer sq" "\<exists>sink'. sq_auditSink sq' = Some sink' \<and> events sink' = events sink"
  using assms not_recorded by (fastforce simp: emitAuditEvent_def Let_def split: sum.splits prod.splits)+

lemma run_loop_outcome:
  assumes "run_loop app H F clk i sq res cs = ((res', err), sq')"
  shows "run_outcome H events F clk i sq res cs res' err sq'"
  using assms
proof (induction cs arbitrary: i sq res)
  case Nil
  then show ?case
    by (auto simp: run_outcome_def run_stop_def Staged_Finalize_def split: option.splits intro!: exI [of _ "[]"])
next
  case (Cons c cs)
  obtain r iss where e: "fst (Emit F (sq_issuer sq) (emit_params c) (fst (clk i))) = (r, iss)" by fastforce
  show ?case
  proof (cases r)
    case (Inl er)
    have "iss = sq_issuer sq" using e Inl Emit_error by blast
    then have "run_failed sq res i c (sq_finalizeOnError sq) = (res', sq')" "err = Some er"
      using Cons.prems e Inl by (auto split: prod.splits)
    then show ?thesis
      using run_failed_keeps [of sq res i c "sq_finalizeOnError sq" res' sq']
      by (auto simp: run_outcome_def run_stop_def split: option.splits intro!: exI [of _ "[]"])
  next
    case (Inr m)
    note em = Emit_ok [OF e [unfolded Inr]]
    let ?sq1 = "sq\<lparr>sq_issuer := iss\<rparr>"
    show ?thesis
    proof (cases "sq_auditSink sq")
      case None
      have "run_loop app H F clk (i + 1) ?sq1 (res\<lparr>sr_Messages := sr_Messages res @ [m]\<rparr>) cs = ((res', err), sq')"
        using Cons.prems e Inr None by simp
      from Cons.IH [OF this] obtain ms where "sr_Messages res' = sr_Messages res @ m # ms"
        "disclosures F clk (i + 1) iss cs ms"
        "run_stop (Suc i) cs (length ms) (sr_FailedIndex res) res' err sq'"
        "sq_auditSink sq' = None \<and> sr_AuditEventIDs res' = sr_AuditEventIDs res"
        using None by (auto simp: run_outcome_def)
      then show ?thesis unfolding run_outcome_def
        by (intro exI [of _ "m # ms"]) (use em None run_stop_Suc in auto)
    next
      case (Some sink)
      obtain ar sq2 where a: "emitAuditEvent app H F ?sq1 sink m (snd (clk i)) = (ar, sq2)" by fastforce
      show ?thesis
      proof (cases ar)
        case (Inl er)
        have "run_failed sq2 res i c True = (res', sq')" "err = Some er"
          using Cons.prems e Inr Some a Inl by (auto split: prod.splits)
        then show ?thesis
          using run_failed_keeps [of sq2 res i c True res' sq'] emitAuditEvent_error [OF a [unfolded Inl]] Some
          by (auto simp: run_outcome_def run_stop_def intro!: exI [of _ "[]"])
      next
        case (Inr sealed)
        obtain sink' where s: "sq2 = ?sq1\<lparr>sq_auditCounter := sq_auditCounter ?sq1 + 1, sq_auditSink := Some sink'\<rparr>"
            "events sink' = events sink @ [sealed]" "bound H F m sealed"
          using emitAuditEvent_ok [OF a [unfolded Inr]] by blast
        have "run_loop app H F clk (i + 1) sq2 (res\<lparr>sr_Messages := sr_Messages res @ [m],
            sr_AuditEventIDs := sr_AuditEventIDs res @ [AE_EventID sealed]\<rparr>) cs = ((res', err), sq')"
          using Cons.prems e \<open>r = Inr m\<close> Some a Inr by simp
        from Cons.IH [OF this] obtain ms sink2 es where "sr_Messages res' = sr_Messages res @ m # ms"
          "disclosures F clk (i + 1) iss cs ms"
          "run_stop (Suc i) cs (length ms) (sr_FailedIndex res) res' err sq'"
          "sq_auditSink sq' = Some sink2" "events sink2 = events sink @ sealed # es" "list_all2 (bound H F) ms es"
          "sr_AuditEventIDs res' = sr_AuditEventIDs res @ AE_EventID sealed # map AE_EventID es"
          using s by (auto simp: run_outcome_def)
        then show ?thesis unfolding run_outcome_def
          by (intro exI [of _ "m # ms"]) (use em Some s(3) run_stop_Suc in \<open>auto intro!: exI [of _ "sealed # es"]\<close>)
      qed
    qed
  qed
qed

end

section \<open>Opening what was sealed\<close>

text \<open>Two stores that hold one sealing key, each under an id of its own, over one library.\<close>

definition shares_key :: "ring \<Rightarrow> KeyID \<Rightarrow> ring \<Rightarrow> KeyID \<Rightarrow> bool" where
  "shares_key r kid r' kid' \<longleftrightarrow>
     prims_ok (fst r) \<and> fst r' = fst r \<and>
     (case (st_sealing (snd r) kid, st_sealing (snd r') kid') of
        (Some k, Some k') \<Rightarrow> sl_Material k = sl_Material k' | _ \<Rightarrow> False)"

locale sealing_link =
  fixes linked :: "'s \<Rightarrow> KeyID \<Rightarrow> 's \<Rightarrow> KeyID \<Rightarrow> bool"
    and sealer :: "'s \<Rightarrow> Sealer"
  assumes opens: "linked s kid s' kid' \<Longrightarrow> se_Seal (sealer s) kid p aad = Inr (nonce, ct) \<Longrightarrow>
      se_Open (sealer s') kid' nonce ct aad = Inr p"
begin

lemma disclosed_opens:
  assumes "disclosed F iss now c m" "sd_sealer iss = sealer s" "linked s (sd_sealingKID iss) s' (cm_RecipientKeyID c)"
  shows "\<exists>aad. BuildRecipientAADForMessage F (Some m) = Inr aad \<and>
    se_Open (sealer s') (DM_RecipientKeyID m) (DM_Nonce m) (DM_SealedPayload m) aad = Inr (cm_Plaintext c)"
  using assms opens [OF assms(3)] by (auto simp: disclosed_def emit_draft_def)

end

interpretation store_link: sealing_link shares_key ring_sealer
proof
  fix r r' :: ring and kid kid' p aad nonce ct
  assume a: "shares_key r kid r' kid'" "se_Seal (ring_sealer r) kid p aad = Inr (nonce, ct)"
  then obtain k k' where "st_sealing (snd r) kid = Some k" "st_sealing (snd r') kid' = Some k'"
      "sl_Material k = sl_Material k'" "GCM_Seal (fst r) (sl_Material k) p aad = Inr (nonce, ct)"
    by (auto simp: shares_key_def ring_sealer_def Store_Seal_def split: option.splits)
  with a(1) show "se_Open (ring_sealer r') kid' nonce ct aad = Inr p"
    by (auto simp: shares_key_def ring_sealer_def Store_Open_def intro: GCM_roundtrip)
qed

end
