(* ===== verification/StagedProperties.thy ===== *)
theory StagedProperties
  imports BootstrapProperties StagedProofs BootstrapLive
begin

text \<open>
  Progress of the release side: with signers that sign, a sealer that seals and identifiers in ASCII, a
  run over well-formed components before the session's expiry emits and records every one of them.
\<close>

text \<open>An issuer and its session that can emit, and a sequencer whose audit chain records.\<close>

definition issuer_live :: "StagedIssuer \<Rightarrow> bool" where
  "issuer_live iss \<longleftrightarrow>
     live_signer (sd_signer iss) (sd_signingKID iss) PurposeSigningAuthority \<and>
     (\<forall>p aad. \<exists>nonce ct. se_Seal (sd_sealer iss) (sd_sealingKID iss) p aad = Inr (nonce, ct) \<and> length nonce = 12 \<and> ct \<noteq> []) \<and>
     ascii (sd_idPrefix iss) \<and> ascii (SO_SessionID (sd_session iss)) \<and> SO_SessionID (sd_session iss) \<noteq> [] \<and>
     ascii (sd_activePolicy iss) \<and> sd_activePolicy iss \<noteq> []"

definition chain_live :: "InMemoryChain StagedSequencer \<Rightarrow> bool" where
  "chain_live sq \<longleftrightarrow>
     ascii (sq_auditIDPrefix sq) \<and> sq_auditIDPrefix sq \<noteq> [] \<and>
     (case (sq_auditSink sq, sq_auditSigner sq) of
        (Some c, Some sg) \<Rightarrow> length (IC_tip c) = HashSize \<and> live_signer sg (sq_auditKID sq) PurposeSigningAudit
      | _ \<Rightarrow> False)"

definition component_live :: "StagedIssuer \<Rightarrow> gotime \<times> gotime \<Rightarrow> Component \<Rightarrow> bool" where
  "component_live iss t c \<longleftrightarrow>
     validateEmitParams (emit_params c) = None \<and> emit_gates iss (fst t) = None \<and>
     ascii (cm_ID c) \<and> ascii (cm_RecipientKeyID c) \<and>
     fst t \<noteq> zero_time \<and> marshal_time (fst t) \<noteq> None \<and> snd t \<noteq> zero_time \<and> marshal_time (snd t) \<noteq> None"

lemma Emit_live:
  assumes iss: "issuer_live iss" and c: "component_live iss t c"
  shows "\<exists>m. fst (Emit F iss (emit_params c) (fst t)) = (Inr m, advanced iss 1)"
proof -
  let ?c = DisclosureMessage_contract
  obtain aad where aad: "BuildRecipientAAD F (SO_SessionID (sd_session iss)) (cm_ID c) (sd_counter iss)
      (sd_activePolicy iss) (cm_RecipientKeyID c) = Inr aad"
    using CanonicalJSON_wire_total [of "[(''component_id'', WStr (cm_ID c)), (''policy_version'', WStr (sd_activePolicy iss)),
        (''recipient_key_id'', WStr (cm_RecipientKeyID c)), (''sequence_index'', WNum (unat (sd_counter iss))),
        (''session_id'', WStr (SO_SessionID (sd_session iss)))]" F] iss c u32_word_bound
    by (auto simp: BuildRecipientAAD_def fields_ok_def in_years_def issuer_live_def component_live_def)
  obtain nonce ct where seal: "se_Seal (sd_sealer iss) (sd_sealingKID iss) (cm_Plaintext c) aad = Inr (nonce, ct)"
      "length nonce = 12" "ct \<noteq> []"
    using iss unfolding issuer_live_def by blast
  obtain alg where alg: "keys_RecordAlg (sd_signer iss) (sd_signingKID iss) = Inr alg" "ascii alg"
    using iss by (auto simp: issuer_live_def live_signer_def)
  let ?d = "emit_draft iss (emit_params c) nonce ct (fst t)"
  have "contract_clean ?c (ct_SetAlg ?c alg ?d)" "in_years (ct_Wire ?c (ct_SetSig ?c [] (ct_SetAlg ?c alg ?d)))"
    using iss c alg(2) u32_word_bound
    by (simp_all add: DisclosureMessage_contract_def DisclosureMessage_fields_def contract_clean_def fields_ok_def
        in_years_def emit_draft_def issuer_live_def component_live_def live_signer_def)
  then obtain sig where sig: "contract_SignWith ?c F ?d (sd_signer iss) = (None, ct_SetSig ?c sig (ct_SetAlg ?c alg ?d))" "sig \<noteq> []"
    using disclosure_message.SignWith_live [of ?d "sd_signer iss" alg F] iss alg(1)
    by (auto simp: issuer_live_def live_signer_def emit_draft_def DisclosureMessage_contract_def)
  let ?m = "?d\<lparr>DM_Alg := alg, DM_Signature := sig\<rparr>"
  have "DisclosureMessage_SignWith F ?d (sd_signer iss) = (None, ?m)"
    using sig(1) by (simp add: DisclosureMessage_SignWith_def DisclosureMessage_contract_def)
  moreover have "DisclosureMessage_Validate ?m = None"
    using sig(2) seal(2,3) iss c
    by (simp add: DisclosureMessage_Validate_def schema_gate_def emit_draft_def issuer_live_def component_live_def
        live_signer_def validateEmitParams_def)
  ultimately show ?thesis
    using aad seal(1) c by (simp add: Emit_def emit_message_def component_live_def)
qed

lemma buildDisclosureAuthorizedPayload_total:
  assumes "ascii (DM_ComponentID m)" "ascii (DM_DisclosureID m)" "ascii (DM_PolicyVersion m)" "ascii (DM_RecipientKeyID m)"
    "ascii (DM_SessionID m)"
  shows "\<exists>b. buildDisclosureAuthorizedPayload H F m = Inr b \<and> b \<noteq> []"
  using CanonicalJSON_wire_total [of "[(''component_id'', WStr (DM_ComponentID m)), (''disclosure_id'', WStr (DM_DisclosureID m)),
      (''payload_hash'', WStr (hex_encode (H (DM_SealedPayload m)))), (''policy_version'', WStr (DM_PolicyVersion m)),
      (''recipient_key_id'', WStr (DM_RecipientKeyID m)), (''sequence_index'', WNum (unat (DM_SequenceIndex m))),
      (''session_id'', WStr (DM_SessionID m))]" F] assms u32_word_bound
  by (auto simp: buildDisclosureAuthorizedPayload_def fields_ok_def in_years_def)

lemma emitAuditEvent_live:
  assumes sq: "chain_live sq" "sq_auditSink sq = Some sink" and H: "\<And>x. length (H x) = HashSize"
    and m: "ascii (DM_ComponentID m)" "ascii (DM_DisclosureID m)" "ascii (DM_PolicyVersion m)" "ascii (DM_RecipientKeyID m)"
      "ascii (DM_SessionID m)"
    and now: "now \<noteq> zero_time" "marshal_time now = Some w"
  shows "\<exists>e sink'. emitAuditEvent (Chain_Append H F) H F sq sink m now =
    (Inr e, sq\<lparr>sq_auditCounter := sq_auditCounter sq + 1, sq_auditSink := Some sink'\<rparr>) \<and> length (IC_tip sink') = HashSize"
proof -
  obtain sg where sg: "sq_auditSigner sq = Some sg" "live_signer sg (sq_auditKID sq) PurposeSigningAudit"
      "length (IC_tip sink) = HashSize"
    using sq by (auto simp: chain_live_def split: option.splits)
  obtain payload where p: "buildDisclosureAuthorizedPayload H F m = Inr payload" "payload \<noteq> []"
    using buildDisclosureAuthorizedPayload_total [OF m] by blast
  define e0 where "e0 = \<lparr>AE_SchemaVersion = 9,
      AE_EventID = sq_auditIDPrefix sq @ hex_encode (auditCounterBytes (sq_auditCounter sq + 1)),
      AE_Kind = ''DISCLOSURE_AUTHORIZED'', AE_OccurredAt = now, AE_SessionID = DM_SessionID m,
      AE_ManifestID = [], AE_RequestID = [], AE_Payload = payload, AE_PrevHash = [], AE_Hash = [],
      AE_SigningKeyID = sq_auditKID sq, AE_Alg = [], AE_Signature = []\<rparr>"
  have "\<exists>e' c'. Chain_Append H F sink e0 (Some sg) = (Inr e', c') \<and> length (IC_tip c') = HashSize"
    by (rule Chain_Append_live [where w = w])
      (use sq(1) sg p(2) H now m(5) in \<open>simp_all add: e0_def utf8_event_def chain_live_def live_signer_def validKinds_def\<close>)
  then obtain e sink' where "Chain_Append H F sink e0 (Some sg) = (Inr e, sink')" "length (IC_tip sink') = HashSize" by blast
  with p(1) sg(1) show ?thesis by (auto simp: emitAuditEvent_def Let_def e0_def)
qed

lemma run_loop_live:
  assumes "issuer_live (sq_issuer sq)" "chain_live sq" "\<And>x. length (H x) = HashSize"
    and "\<And>k. k < length cs \<Longrightarrow> component_live (sq_issuer sq) (clk (i + k)) (cs ! k)"
  shows "\<exists>res' sq'. run_loop (Chain_Append H F) H F clk i sq res cs = ((res', None), sq')"
  using assms
proof (induction cs arbitrary: i sq res)
  case (Cons c cs)
  let ?iss = "sq_issuer sq"
  have cl: "component_live ?iss (clk i) c" using Cons.prems(4) [of 0] by simp
  obtain m where m: "fst (Emit F ?iss (emit_params c) (fst (clk i))) = (Inr m, advanced ?iss 1)"
    using Emit_live [OF Cons.prems(1) cl] by blast
  note d = disclosed_fields [OF Emit_ok(1) [OF m]]
  obtain sink where sink: "sq_auditSink sq = Some sink"
    using Cons.prems(2) by (auto simp: chain_live_def split: option.splits)
  let ?sq1 = "sq\<lparr>sq_issuer := advanced ?iss 1\<rparr>"
  have pol: "SO_PolicyVersion (sd_session ?iss) = sd_activePolicy ?iss" using cl by (simp add: component_live_def emit_gates_def)
  obtain w where w: "marshal_time (snd (clk i)) = Some w" using cl by (auto simp: component_live_def)
  have cl1: "chain_live ?sq1" "sq_auditSink ?sq1 = Some sink" using Cons.prems(2) sink by (auto simp: chain_live_def split: option.splits)
  have asc: "ascii (DM_ComponentID m)" "ascii (DM_DisclosureID m)" "ascii (DM_PolicyVersion m)" "ascii (DM_RecipientKeyID m)"
      "ascii (DM_SessionID m)" "snd (clk i) \<noteq> zero_time"
    using d pol Cons.prems(1) cl by (simp_all add: issuer_live_def component_live_def)
  obtain e sink' where a: "emitAuditEvent (Chain_Append H F) H F ?sq1 sink m (snd (clk i)) =
      (Inr e, ?sq1\<lparr>sq_auditCounter := sq_auditCounter ?sq1 + 1, sq_auditSink := Some sink'\<rparr>)" "length (IC_tip sink') = HashSize"
    using emitAuditEvent_live [where H = H and F = F, OF cl1 Cons.prems(3) asc w] by blast
  let ?sq2 = "?sq1\<lparr>sq_auditCounter := sq_auditCounter ?sq1 + 1, sq_auditSink := Some sink'\<rparr>"
  have "chain_live ?sq2" "issuer_live (sq_issuer ?sq2)"
    using Cons.prems(1,2) a(2) by (auto simp: chain_live_def issuer_live_def split: option.splits)
  moreover have "component_live (sq_issuer ?sq2) (clk (i + 1 + k)) (cs ! k)" if "k < length cs" for k
    using Cons.prems(4) [of "Suc k"] that by (simp add: component_live_def emit_gates_def)
  ultimately obtain res' sq' where "run_loop (Chain_Append H F) H F clk (i + 1) ?sq2
      (res\<lparr>sr_Messages := sr_Messages res @ [m], sr_AuditEventIDs := sr_AuditEventIDs res @ [AE_EventID e]\<rparr>) cs = ((res', None), sq')"
    using Cons.IH [OF _ _ Cons.prems(3)] by blast
  then show ?case using m sink a(1) by simp
qed (simp add: Staged_Finalize_def)

text \<open>
  The properties of staged disclosure: what a run surfaces and records, that a receiver who shares the
  sealing key opens every message to the component it carries, and that the messages of a complete run,
  committed in a bootstrap manifest, lead the receive side to the accepting decision. The concrete run
  is of one component.
\<close>

section \<open>From a run to its messages\<close>

lemma Run_ok:
  assumes "fst (Run app H F clk sq cs) = ((Some res, err), sq')"
  shows "run_loop app H F clk 0 sq \<lparr>sr_Messages = [], sr_AuditEventIDs = [], sr_Finalized = False, sr_FailedIndex = -1,
     sr_FailedComponentID = [], sr_FinalSequenceIndex = 0\<rparr> cs = ((res, err), sq')" "cs \<noteq> []"
  using assms by (auto simp: Run_def split: if_splits prod.splits)

context audit_recorder begin

lemma Run_outcome:
  assumes "fst (Run app H F clk sq cs) = ((Some res, err), sq')"
  shows "disclosures F clk 0 (sq_issuer sq) cs (sr_Messages res)"
    "err = None \<longleftrightarrow> length (sr_Messages res) = length cs"
    "err = None \<Longrightarrow> sd_finalized (sq_issuer sq') \<and> sr_Finalized res \<and> sr_FailedIndex res = -1"
    "err \<noteq> None \<Longrightarrow> sr_FailedIndex res = int (length (sr_Messages res)) \<and>
       sr_FailedComponentID res = cm_ID (cs ! length (sr_Messages res))"
    "sq_auditSink sq = Some sink \<Longrightarrow> \<exists>sink' es. sq_auditSink sq' = Some sink' \<and> events sink' = events sink @ es \<and>
       list_all2 (bound H F) (sr_Messages res) es \<and> sr_AuditEventIDs res = map AE_EventID es"
  using run_loop_outcome [OF Run_ok(1) [OF assms]]
  by (auto simp: run_outcome_def run_stop_def split: option.splits)

end

section \<open>A concrete run\<close>

definition seal_ring :: ring where
  "seal_ring = (plain_prims, snd (RegisterSealing (snd demo_keys) 0 ''r'' (zeros 32)))"

definition demo_session :: SessionObject where
  "demo_session =
     \<lparr>SO_SchemaVersion = 1, SO_SessionID = ''s'', SO_RequestID = ''q'', SO_GenomeID = ''g'', SO_PolicyVersion = ''p'',
      SO_IssuedAt = 7, SO_ExpiresAt = 12, SO_State = StateActive, SO_SigningKeyID = ''k'', SO_Alg = [], SO_Signature = [1]\<rparr>"

definition demo_staged :: StagedIssuer where
  "demo_staged = projr (NewStagedIssuer (Some ()) (Some (ring_signer demo_keys)) (Some (ring_sealer seal_ring))
     (Some (ring_resolver demo_keys)) ''k'' ''r'' demo_session ''p'' [])"

definition demo_sequencer :: "InMemoryChain StagedSequencer" where
  "demo_sequencer = projr (NewStagedSequencer (Some demo_staged) (Some ())
     \<lparr>sqo_AuditSink = Some NewInMemoryChain, sqo_AuditSigner = Some (ring_signer audit_ring), sqo_AuditKeyID = ''a'',
      sqo_AuditIDPrefix = [], sqo_FinalizeOnError = False\<rparr>)"

definition demo_components :: "Component list" where
  "demo_components = [\<lparr>cm_ID = ''c'', cm_Plaintext = [1, 2], cm_RecipientKeyID = ''r''\<rparr>]"

abbreviation demo_clock :: "nat \<Rightarrow> gotime \<times> gotime" where
  "demo_clock k \<equiv> (7, 7)"

lemma demo_staged_fields:
  "sd_signer demo_staged = ring_signer demo_keys" "sd_sealer demo_staged = ring_sealer seal_ring"
  "sd_signingKID demo_staged = ''k''" "sd_sealingKID demo_staged = ''r''" "sd_session demo_staged = demo_session"
  "sd_activePolicy demo_staged = ''p''" "sd_idPrefix demo_staged = ''disc-''" "sd_counter demo_staged = 0"
  "\<not> sd_finalized demo_staged"
  by (simp_all add: demo_staged_def NewStagedIssuer_def guardR_def demo_session_def SessionObject_Validate_def
      schema_gate_def zero_time_def validStates_def)

lemma demo_sequencer_fields:
  "sq_issuer demo_sequencer = demo_staged" "sq_auditSink demo_sequencer = Some NewInMemoryChain"
  "sq_auditSigner demo_sequencer = Some (ring_signer audit_ring)" "sq_auditKID demo_sequencer = ''a''"
  "sq_auditIDPrefix demo_sequencer = ''audit-disclosure-''"
  by (simp_all add: demo_sequencer_def NewStagedSequencer_def guardR_def)

lemma seal_ring_key: "\<exists>t. st_sealing (snd seal_ring) ''r'' = Some \<lparr>sl_KeyID = ''r'', sl_Purpose = PurposeSealing, sl_Material = zeros 32, sl_CreatedAt = t\<rparr>"
  by (simp add: seal_ring_def RegisterSealing_def demo_keys_def audit_ring_def RegisterSigningKey_def NewInMemoryStore_def
      Let_def audit_key_def zeros_def split: option.splits)

lemma seal_ring_shares: "shares_key seal_ring ''r'' seal_ring ''r''"
  using seal_ring_key plain_prims_ok by (auto simp: shares_key_def seal_ring_def)

lemma demo_staged_live: "issuer_live demo_staged"
proof -
  have "\<exists>nonce ct. Store_Seal plain_prims (snd seal_ring) ''r'' p aad = Inr (nonce, ct) \<and> length nonce = 12 \<and> ct \<noteq> []" for p aad
    using seal_ring_key by (auto simp: Store_Seal_def GCM_Seal_def NewGCM_def Let_def plain_prims_def zeros_def)
  then show ?thesis
    using demo_signers_live(2)
    by (simp add: issuer_live_def demo_staged_fields demo_session_def ring_sealer_def seal_ring_def)
qed

lemma staged_demo_run:
  "\<exists>res sq'. fst (Run (Chain_Append SHA256 no_floats) SHA256 no_floats demo_clock demo_sequencer demo_components) =
     ((Some res, None), sq')"
proof -
  have "component_live demo_staged (demo_clock (0 + k)) (demo_components ! k)" if "k < length demo_components" for k
    using that demo_event_wf(2)
    by (simp add: component_live_def demo_components_def validateEmitParams_def emit_gates_def demo_staged_fields
        demo_session_def zero_time_def)
  moreover have "chain_live demo_sequencer"
    using demo_signers_live(1) by (simp add: chain_live_def demo_sequencer_fields NewInMemoryChain_def HashSize_def zeros_def)
  ultimately have "\<exists>res' sq'. run_loop (Chain_Append SHA256 no_floats) SHA256 no_floats demo_clock 0 demo_sequencer
      \<lparr>sr_Messages = [], sr_AuditEventIDs = [], sr_Finalized = False, sr_FailedIndex = -1,
       sr_FailedComponentID = [], sr_FinalSequenceIndex = 0\<rparr> demo_components = ((res', None), sq')"
    by (intro run_loop_live) (simp_all add: demo_staged_live SHA256_length demo_sequencer_fields)
  then obtain res sq' where "run_loop (Chain_Append SHA256 no_floats) SHA256 no_floats demo_clock 0 demo_sequencer
      \<lparr>sr_Messages = [], sr_AuditEventIDs = [], sr_Finalized = False, sr_FailedIndex = -1,
       sr_FailedComponentID = [], sr_FinalSequenceIndex = 0\<rparr> demo_components = ((res, None), sq')"
    by blast
  then show ?thesis by (simp add: Run_def) (simp add: demo_components_def)
qed

section \<open>The properties\<close>

text \<open>A run of the sequencer over the in-memory audit chain surfaces the messages of a prefix of the
  components, in order, under consecutive indices from the issuer's counter, each for the session and its
  pinned policy, before the session's expiry and verifying under the vault's keys; the error, if any, names
  the first component without a message; and every plaintext buffer is zeros when it returns.\<close>

theorem staged_run_discloses_in_order:
  assumes "ring_ok r" "sd_signer (sq_issuer sq) = ring_signer r"
    and "Run (Chain_Append SHA256 F) SHA256 F clk sq cs = (((Some res, err), sq'), cs')"
  shows "(err = None \<longleftrightarrow> length (sr_Messages res) = length cs) \<and> length (sr_Messages res) \<le> length cs \<and>
    (err \<noteq> None \<longrightarrow> sr_FailedIndex res = int (length (sr_Messages res)) \<and>
       sr_FailedComponentID res = cm_ID (cs ! length (sr_Messages res))) \<and>
    (\<forall>k < length (sr_Messages res).
       let m = sr_Messages res ! k; ses = sd_session (sq_issuer sq)
       in DM_SequenceIndex m = sd_counter (sq_issuer sq) + of_nat k \<and> DM_ComponentID m = cm_ID (cs ! k) \<and>
          DM_RecipientKeyID m = cm_RecipientKeyID (cs ! k) \<and> DM_SessionID m = SO_SessionID ses \<and>
          DM_PolicyVersion m = SO_PolicyVersion ses \<and> DM_AuthorizedAt m = fst (clk k) \<and> fst (clk k) < SO_ExpiresAt ses \<and>
          DisclosureMessage_VerifySignature F (fst r) m (Some (ring_resolver r)) = None) \<and>
    cs' = map (\<lambda>c. c\<lparr>cm_Plaintext := zeros (length (cm_Plaintext c))\<rparr>) cs"
proof -
  have run: "fst (Run (Chain_Append SHA256 F) SHA256 F clk sq cs) = ((Some res, err), sq')" using assms(3) by simp
  note o = in_memory_recorder.Run_outcome [OF run]
  have each: "disclosed F (advanced (sq_issuer sq) k) (fst (clk k)) (cs ! k) (sr_Messages res ! k)"
    if "k < length (sr_Messages res)" for k
    using disclosures_nth [OF o(1) that] by simp
  have cs': "cs' = map (\<lambda>c. c\<lparr>cm_Plaintext := zeros (length (cm_Plaintext c))\<rparr>) cs"
    using arg_cong [OF assms(3), of snd] by (simp add: Run_def zeroAllComponents_def zeroBytes_zeros)
  show ?thesis
    using o(2,4) disclosures_length [OF o(1)] disclosed_fields [OF each] disclosed_verifies [OF assms(1) _ each] assms(2) cs'
    by (simp add: Let_def)
qed

theorem staged_run_discloses_in_order_witness:
  "\<exists>res sq' cs'. Run (Chain_Append SHA256 no_floats) SHA256 no_floats demo_clock demo_sequencer demo_components =
     (((Some res, None), sq'), cs') \<and> length (sr_Messages res) = 1 \<and> DM_SequenceIndex (sr_Messages res ! 0) = 0 \<and>
     cm_Plaintext (cs' ! 0) = [0, 0]"
proof -
  obtain res sq' cs' where r: "Run (Chain_Append SHA256 no_floats) SHA256 no_floats demo_clock demo_sequencer demo_components =
      (((Some res, None), sq'), cs')"
    using staged_demo_run by (metis prod.collapse)
  from staged_run_discloses_in_order [OF demo_keys_ok _ r] have o: "length (sr_Messages res) = length demo_components"
      "\<forall>k < length (sr_Messages res). DM_SequenceIndex (sr_Messages res ! k) = of_nat k"
      "cs' = map (\<lambda>c. c\<lparr>cm_Plaintext := zeros (length (cm_Plaintext c))\<rparr>) demo_components"
    by (simp_all add: demo_sequencer_fields demo_staged_fields Let_def)
  then have "DM_SequenceIndex (sr_Messages res ! 0) = 0" "cm_Plaintext (cs' ! 0) = [0, 0]"
    by (simp_all add: demo_components_def zeros_def numeral_2_eq_2)
  with r o(1) show ?thesis by (simp add: demo_components_def)
qed

text \<open>C9: No emission without its record: with an audit chain as the sink, the run appends exactly one
  DISCLOSURE_AUTHORIZED event per message it surfaces, in the same order, each naming the session and
  carrying the message's ids, index and the hash of its ciphertext, and it returns their ids.\<close>

theorem every_surfaced_message_is_recorded:
  assumes "Run (Chain_Append SHA256 F) SHA256 F clk sq cs = (((Some res, err), sq'), cs')" "sq_auditSink sq = Some chain"
  shows "\<exists>chain' es. sq_auditSink sq' = Some chain' \<and> IC_events chain' = IC_events chain @ es \<and>
    list_all2 (bound SHA256 F) (sr_Messages res) es \<and> sr_AuditEventIDs res = map AE_EventID es"
  using in_memory_recorder.Run_outcome(5) [of SHA256 F SHA256 F clk sq cs res err sq' chain] assms by simp

theorem every_surfaced_message_is_recorded_witness:
  "\<exists>res sq' cs' chain' e. Run (Chain_Append SHA256 no_floats) SHA256 no_floats demo_clock demo_sequencer demo_components =
     (((Some res, None), sq'), cs') \<and> sq_auditSink sq' = Some chain' \<and> IC_events chain' = [e] \<and>
     AE_Kind e = ''DISCLOSURE_AUTHORIZED'' \<and> sr_AuditEventIDs res = [AE_EventID e]"
proof -
  obtain res sq' cs' where r: "Run (Chain_Append SHA256 no_floats) SHA256 no_floats demo_clock demo_sequencer demo_components =
      (((Some res, None), sq'), cs')"
    using staged_demo_run by (metis prod.collapse)
  have fr: "fst (Run (Chain_Append SHA256 no_floats) SHA256 no_floats demo_clock demo_sequencer demo_components) =
      ((Some res, None), sq')" using r by simp
  have n: "length (sr_Messages res) = 1"
    using in_memory_recorder.Run_outcome(2) [OF fr] by (simp add: demo_components_def)
  obtain chain' es where e: "sq_auditSink sq' = Some chain'" "IC_events chain' = IC_events NewInMemoryChain @ es"
      "list_all2 (bound SHA256 no_floats) (sr_Messages res) es" "sr_AuditEventIDs res = map AE_EventID es"
    using every_surfaced_message_is_recorded [OF r demo_sequencer_fields(2)] by blast
  obtain m where "sr_Messages res = [m]" using n by (auto simp: length_Suc_conv)
  with e(3) obtain x where "es = [x]" "bound SHA256 no_floats m x" by (auto simp: list_all2_Cons1)
  with e r show ?thesis by (auto simp: NewInMemoryChain_def bound_def)
qed

text \<open>C10: What was disclosed can be opened, and only what was sealed comes out: a receiver whose store
  holds the sealing key under the message's recipient key rebuilds the associated data from the message
  and opens the payload to the component's plaintext.\<close>

theorem disclosed_components_open:
  assumes "Run (Chain_Append SHA256 F) SHA256 F clk sq cs = (((Some res, err), sq'), cs')"
    and "sd_sealer (sq_issuer sq) = ring_sealer r" "k < length (sr_Messages res)"
    and "shares_key r (sd_sealingKID (sq_issuer sq)) r' (cm_RecipientKeyID (cs ! k))"
  shows "\<exists>aad. BuildRecipientAADForMessage F (Some (sr_Messages res ! k)) = Inr aad \<and>
    Store_Open (fst r') (snd r') (DM_RecipientKeyID (sr_Messages res ! k)) (DM_Nonce (sr_Messages res ! k))
      (DM_SealedPayload (sr_Messages res ! k)) aad = Inr (cm_Plaintext (cs ! k))"
proof -
  have "fst (Run (Chain_Append SHA256 F) SHA256 F clk sq cs) = ((Some res, err), sq')" using assms(1) by simp
  note o = in_memory_recorder.Run_outcome(1) [OF this]
  have "disclosed F (advanced (sq_issuer sq) k) (fst (clk k)) (cs ! k) (sr_Messages res ! k)"
    using disclosures_nth [OF o assms(3)] by simp
  from store_link.disclosed_opens [OF this, of r r'] assms(2,4) show ?thesis by (simp add: ring_sealer_def)
qed

theorem disclosed_components_open_witness:
  "\<exists>res sq' cs' aad. Run (Chain_Append SHA256 no_floats) SHA256 no_floats demo_clock demo_sequencer demo_components =
     (((Some res, None), sq'), cs') \<and>
     Store_Open (fst seal_ring) (snd seal_ring) (DM_RecipientKeyID (sr_Messages res ! 0)) (DM_Nonce (sr_Messages res ! 0))
       (DM_SealedPayload (sr_Messages res ! 0)) aad = Inr [1, 2]"
proof -
  obtain res sq' cs' where r: "Run (Chain_Append SHA256 no_floats) SHA256 no_floats demo_clock demo_sequencer demo_components =
      (((Some res, None), sq'), cs')"
    using staged_demo_run by (metis prod.collapse)
  then have fr: "fst (Run (Chain_Append SHA256 no_floats) SHA256 no_floats demo_clock demo_sequencer demo_components) =
      ((Some res, None), sq')" by simp
  have n: "0 < length (sr_Messages res)"
    using in_memory_recorder.Run_outcome(2) [OF fr] by (simp add: demo_components_def)
  have s: "shares_key seal_ring (sd_sealingKID (sq_issuer demo_sequencer)) seal_ring (cm_RecipientKeyID (demo_components ! 0))"
    using seal_ring_shares by (simp add: demo_sequencer_fields demo_staged_fields demo_components_def)
  have sl: "sd_sealer (sq_issuer demo_sequencer) = ring_sealer seal_ring"
    by (simp add: demo_sequencer_fields demo_staged_fields)
  from disclosed_components_open [OF r sl n s] have "\<exists>aad. Store_Open (fst seal_ring) (snd seal_ring)
      (DM_RecipientKeyID (sr_Messages res ! 0)) (DM_Nonce (sr_Messages res ! 0)) (DM_SealedPayload (sr_Messages res ! 0)) aad = Inr [1, 2]"
    by (auto simp: demo_components_def)
  with r show ?thesis by blast
qed

text \<open>The wire hash that the release side commits to for a message.\<close>

definition wire_hash :: "floats \<Rightarrow> DisclosureMessage \<Rightarrow> bytes" where
  "wire_hash F m = (case DisclosureMessage_CanonicalBytes F m of Inl err \<Rightarrow> [] | Inr cb \<Rightarrow> SHA256 cb)"

text \<open>The manifest and the hashes that commit a run's messages to the receive side.\<close>

definition commits_run :: "floats \<Rightarrow> SessionObject \<Rightarrow> DisclosureMessage list \<Rightarrow> 'c Orchestrator \<Rightarrow> bool" where
  "commits_run F ses ms orc \<longleftrightarrow>
     BM_SessionID (o_bm orc) = SO_SessionID ses \<and> BM_PolicyVersion (o_bm orc) = SO_PolicyVersion ses \<and>
     BM_ExpectedDisclosureIDs (o_bm orc) = map DM_DisclosureID ms \<and>
     BM_ExpectedComponentIDs (o_bm orc) = map DM_ComponentID ms \<and>
     o_wireH orc = map (wire_hash F) ms \<and> list_all (\<lambda>m. ascii (DM_DisclosureID m) \<and> ascii (DM_ComponentID m)) ms"

lemma committed_message_fits:
  assumes "disclosures F clk 0 iss cs ms" "sd_counter iss = 0" "commits_run F (sd_session iss) ms orc" "k < length ms"
  shows "fits_slot SHA256 F orc k (ms ! k)"
proof -
  have d: "disclosed F (advanced iss k) (fst (clk k)) (cs ! k) (ms ! k)"
    using disclosures_nth [OF assms(1,4)] by simp
  obtain cb where "DisclosureMessage_CanonicalBytes F (ms ! k) = Inr cb" using disclosed_covered [OF d] by blast
  moreover have "ascii (DM_DisclosureID (ms ! k))" "ascii (DM_ComponentID (ms ! k))"
    using assms(3,4) by (auto simp: commits_run_def list_all_length)
  ultimately show ?thesis
    using disclosed_fields(1,2,4,10) [OF d] assms(2-4)
    by (simp add: fits_slot_def commits_run_def accept_checks_def wire_hash_def)
qed

text \<open>C8: Release and receive fit together: when a complete run from index 0 is committed in a bootstrap
  manifest and its wire hashes, a receive-side orchestrator that started on it accepts every message in
  order and reaches the accepting decision.\<close>

theorem released_run_reconstitutes:
  assumes "Run (Chain_Append SHA256 F) SHA256 F clk sq cs = (((Some res, None), sq'), cs')"
    and "sd_counter (sq_issuer sq) = 0" "commits_run F (sd_session (sq_issuer sq)) (sr_Messages res) orc"
    and "NewOrchestrator opts = Inr orc" "Start F P orc = (None, orc1)" "orch_live orc now" "vrid \<noteq> []" "ascii vrid"
  shows "\<exists>d. o_decision (orch_run (Chain_Append SHA256 F) SHA256 F P orc
      (CallStart # accept_calls now (sr_Messages res) @ [CallMarkReassembled, CallMarkValidated vrid, CallDecide now])) = Some d \<and>
    RX_Accepted d \<and> RX_ValidationResultID d = vrid"
proof -
  have "fst (Run (Chain_Append SHA256 F) SHA256 F clk sq cs) = ((Some res, None), sq')" using assms(1) by simp
  note o = in_memory_recorder.Run_outcome(1) [OF this]
  have "o_latchedVRID orc = []"
    using assms(4) by (auto simp: NewOrchestrator_def Let_def guardR_def split: option.splits)
  moreover have "length (sr_Messages res) = length (BM_ExpectedDisclosureIDs (o_bm orc))"
    using assms(3) by (simp add: commits_run_def)
  ultimately show ?thesis
    using committed_message_fits [OF o assms(2,3)]
    by (intro reconstitution_live [OF NewOrchestrator_inv [OF assms(4)] assms(6) SHA256_length assms(5) _ _ assms(7,8)]) auto
qed

theorem released_run_reconstitutes_witness:
  "\<exists>res sq' cs' orc d. Run (Chain_Append SHA256 no_floats) SHA256 no_floats demo_clock demo_sequencer demo_components =
     (((Some res, None), sq'), cs') \<and>
     o_decision (orch_run (Chain_Append SHA256 no_floats) SHA256 no_floats plain_prims orc
       (CallStart # accept_calls 7 (sr_Messages res) @ [CallMarkReassembled, CallMarkValidated ''v'', CallDecide 7])) = Some d \<and>
     RX_Accepted d"
proof -
  obtain res sq' cs' where r: "Run (Chain_Append SHA256 no_floats) SHA256 no_floats demo_clock demo_sequencer demo_components =
      (((Some res, None), sq'), cs')"
    using staged_demo_run by (metis prod.collapse)
  then have fr: "fst (Run (Chain_Append SHA256 no_floats) SHA256 no_floats demo_clock demo_sequencer demo_components) =
      ((Some res, None), sq')" by simp
  note o = in_memory_recorder.Run_outcome(1,2) [OF fr]
  have "length (sr_Messages res) = 1" using o(2) by (simp add: demo_components_def)
  then obtain m where m: "sr_Messages res = [m]" by (auto simp: length_Suc_conv)
  have d: "disclosed no_floats demo_staged 7 (demo_components ! 0) m"
    using disclosures_nth [OF o(1), of 0] m by (simp add: demo_sequencer_fields)
  note f = disclosed_fields(3,8) [OF d]
  let ?did = "DM_DisclosureID m" and ?h = "wire_hash no_floats m"
  have did: "ascii ?did" "?did \<noteq> []" "DM_ComponentID m = ''c''"
    using f by (simp_all add: demo_staged_fields demo_session_def demo_components_def)
  have h: "length ?h = 32"
    using disclosed_covered [OF d] SHA256_length by (auto simp: wire_hash_def HashSize_def)
  define bm where "bm = demo_bm\<lparr>BM_ExpectedDisclosureIDs := [?did]\<rparr>"
  define rjm where "rjm = demo_rjm\<lparr>RJ_DisclosureIDs := [?did]\<rparr>"
  define opts where "opts = demo_opts\<lparr>oo_Manifest := Some bm, oo_JobManifest := Some rjm, oo_ExpectedWireHashes := [?h]\<rparr>"
  obtain orc where orc: "NewOrchestrator opts = Inr orc" "o_bm orc = bm" "o_rjm orc = rjm" "o_wireH orc = [?h]"
      "o_chain orc = NewInMemoryChain" "o_auditSigner orc = ring_signer audit_ring" "o_auditKID orc = ''a''"
      "o_recvSigner orc = ring_signer demo_keys" "o_recvResolver orc = None" "o_recvSigKID orc = ''k''"
      "o_auditPrefix orc = ''audit-recv-''" "o_discPrefix orc = ''recv-disclosure-''" "o_decisionPrefix orc = ''recv-decision-''"
      "o_state orc = BStateUnstarted"
    by (simp add: NewOrchestrator_def opts_def demo_opts_def options_missing_def bm_def demo_bm_def h HashSize_def or_default_def)
  have "admitted bm rjm"
    using did by (simp add: admitted_def CheckAgreement_def bm_def rjm_def demo_bm_def demo_rjm_def BootstrapManifest_Validate_def
        schema_gate_def zero_time_def)
  then have start: "Start no_floats plain_prims orc = (None, orc\<lparr>o_state := BStateIngress\<rparr>)"
    using orc by (simp add: Start_def admitted_def)
  have live: "orch_live orc 7"
    using demo_event_wf(2) demo_signers_live orc
    by (simp add: orch_live_def bm_def demo_bm_def NewInMemoryChain_def zero_time_def HashSize_def zeros_def)
  have commits: "commits_run no_floats (sd_session (sq_issuer demo_sequencer)) (sr_Messages res) orc"
    using did orc m
    by (simp add: commits_run_def demo_sequencer_fields demo_staged_fields demo_session_def bm_def demo_bm_def)
  have zero: "sd_counter (sq_issuer demo_sequencer) = 0" by (simp add: demo_sequencer_fields demo_staged_fields)
  from released_run_reconstitutes [OF r zero commits orc(1) start live, of "''v''"] r show ?thesis by auto
qed

text \<open>A run completes: with signers that sign, a sealer that seals, identifiers in ASCII and clock readings
  before the session's expiry, every component is emitted and recorded, and the issuer is finalized.\<close>

theorem staged_run_completes:
  assumes "issuer_live (sq_issuer sq)" "chain_live sq" "cs \<noteq> []"
    and "\<forall>k < length cs. component_live (sq_issuer sq) (clk k) (cs ! k)"
  shows "\<exists>res sq'. fst (Run (Chain_Append SHA256 F) SHA256 F clk sq cs) = ((Some res, None), sq') \<and>
    length (sr_Messages res) = length cs \<and> Staged_IsFinalized (sq_issuer sq')"
proof -
  obtain res sq' where "run_loop (Chain_Append SHA256 F) SHA256 F clk 0 sq
      \<lparr>sr_Messages = [], sr_AuditEventIDs = [], sr_Finalized = False, sr_FailedIndex = -1,
       sr_FailedComponentID = [], sr_FinalSequenceIndex = 0\<rparr> cs = ((res, None), sq')"
    using run_loop_live [where H = SHA256 and F = F and i = 0 and cs = cs and clk = clk, OF assms(1,2) SHA256_length] assms(4)
    by auto metis
  then have run: "fst (Run (Chain_Append SHA256 F) SHA256 F clk sq cs) = ((Some res, None), sq')"
    using assms(3) by (simp add: Run_def)
  from in_memory_recorder.Run_outcome(2,3) [OF run] run show ?thesis by (simp add: Staged_IsFinalized_def)
qed

theorem staged_run_completes_witness:
  "\<exists>res sq'. fst (Run (Chain_Append SHA256 no_floats) SHA256 no_floats demo_clock demo_sequencer demo_components) =
     ((Some res, None), sq') \<and> length (sr_Messages res) = 1 \<and> Staged_IsFinalized (sq_issuer sq')"
proof -
  have "issuer_live (sq_issuer demo_sequencer)" "chain_live demo_sequencer" "demo_components \<noteq> []"
    using demo_staged_live demo_signers_live(1)
    by (simp_all add: chain_live_def demo_sequencer_fields NewInMemoryChain_def HashSize_def zeros_def demo_components_def)
  moreover have "\<forall>k < length demo_components. component_live (sq_issuer demo_sequencer) (demo_clock k) (demo_components ! k)"
    using demo_event_wf(2)
    by (simp add: component_live_def demo_components_def validateEmitParams_def emit_gates_def demo_sequencer_fields
        demo_staged_fields demo_session_def zero_time_def)
  ultimately show ?thesis
    using staged_run_completes [of demo_sequencer demo_components demo_clock no_floats] by (simp add: demo_components_def)
qed

end
