(* ===== verification/GoText.thy ===== *)
theory GoText
  imports Transitions Wire Durations
begin

text \<open>
  The text functions of the standard library that the release and failover packages use: \<open>fmt\<close>'s
  verbs, \<open>encoding/hex.DecodeString\<close>, \<open>strings.ToLower\<close> and \<open>strings.TrimSpace\<close> as far as a comparison
  with an ASCII name can tell, decimal parsing, and wrapped errors (\<open>fmt.Errorf\<close> with \<open>%w\<close>).
\<close>

section \<open>Errors\<close>

text \<open>\<open>fmt.Errorf("...: %w", err)\<close> and \<open>errors.Is(err, target)\<close> for an unwrapped target.\<close>

definition wrapf :: "string \<Rightarrow> go_error \<Rightarrow> go_error" where
  "wrapf msg err = PlainError (msg @ '': '' @ Error_String err) (Some err)"

definition errorsNew :: "string \<Rightarrow> go_error" where
  "errorsNew msg = PlainError msg None"

fun errors_Is :: "go_error \<Rightarrow> go_error \<Rightarrow> bool" where
  "errors_Is (PlainError m c) target =
     (PlainError m c = target \<or> (case c of None \<Rightarrow> False | Some e \<Rightarrow> errors_Is e target))"
| "errors_Is (ClassifiedError k code m c) target =
     (ClassifiedError k code m c = target \<or> (case c of None \<Rightarrow> False | Some e \<Rightarrow> errors_Is e target))"

section \<open>Verbs\<close>

text \<open>\<open>%v\<close> of a list of strings, and a number padded with zeros (\<open>%06d\<close>, \<open>%016x\<close>).\<close>

definition fmt_list :: "string list \<Rightarrow> string" where
  "fmt_list xs = ''['' @ concat (case xs of [] \<Rightarrow> [] | x # r \<Rightarrow> x # map (\<lambda>y. CHR '' '' # y) r) @ '']''"

definition pad_zeros :: "nat \<Rightarrow> string \<Rightarrow> string" where
  "pad_zeros w s = replicate (w - length s) CHR ''0'' @ s"

definition fmt_016x :: "u64 \<Rightarrow> string" where
  "fmt_016x n = hex_encode (PutUint64 n)"

lemma length_hex_encode [simp]: "length (hex_encode b) = 2 * length b"
  by (induction b rule: hex_encode.induct) auto

section \<open>Hexadecimal\<close>

definition hex_nibble :: "char \<Rightarrow> nat option" where
  "hex_nibble c =
     (let n = (of_char c :: nat) in
      if 48 \<le> n \<and> n \<le> 57 then Some (n - 48)
      else if 97 \<le> n \<and> n \<le> 102 then Some (n - 87)
      else if 65 \<le> n \<and> n \<le> 70 then Some (n - 55)
      else None)"

fun hex_decode :: "string \<Rightarrow> bytes option" where
  "hex_decode [] = Some []"
| "hex_decode [c] = None"
| "hex_decode (c # d # s) =
     (case (hex_nibble c, hex_nibble d, hex_decode s) of
        (Some h, Some l, Some b) \<Rightarrow> Some (of_nat (16 * h + l) # b)
      | _ \<Rightarrow> None)"

lemma hex_nibble_digit: "n < 16 \<Longrightarrow> hex_nibble (hex_digit n) = Some n"
  by (auto simp: hex_nibble_def hex_digit_def of_char_of Let_def)

lemma hex_decode_encode [simp]: "hex_decode (hex_encode b) = Some b"
proof (induction b rule: hex_encode.induct)
  case (2 x xs)
  have "unat x < 256" using unsigned_less [of x, where 'a = nat] by simp
  then have "unat x div 16 < 16" "unat x mod 16 < 16" by simp_all
  moreover have "16 * (unat x div 16) + unat x mod 16 = unat x" by simp
  ultimately show ?case using 2 by (simp add: hex_nibble_digit del: of_nat_add of_nat_mult)
qed simp

lemma hex_encode_inj [simp]: "hex_encode a = hex_encode b \<longleftrightarrow> a = b"
  by (metis hex_decode_encode option.inject)

definition is_lower_hex :: "string \<Rightarrow> bool" where
  "is_lower_hex s \<longleftrightarrow>
     list_all (\<lambda>c. let n = (of_char c :: nat) in (48 \<le> n \<and> n \<le> 57) \<or> (97 \<le> n \<and> n \<le> 102)) s"

lemma hex_digit_lower: "n < 16 \<Longrightarrow> is_lower_hex [hex_digit n]"
  by (auto simp: is_lower_hex_def hex_digit_def of_char_of Let_def)

lemma is_lower_hex_append [simp]: "is_lower_hex (s @ t) \<longleftrightarrow> is_lower_hex s \<and> is_lower_hex t"
  by (simp add: is_lower_hex_def)

lemma hex_encode_lower [simp]: "is_lower_hex (hex_encode b)"
proof (induction b rule: hex_encode.induct)
  case (2 x xs)
  have "unat x < 256" using unsigned_less [of x, where 'a = nat] by simp
  then have "is_lower_hex [hex_digit (unat x div 16)]" "is_lower_hex [hex_digit (unat x mod 16)]"
    by (simp_all add: hex_digit_lower)
  with 2 show ?case by (simp add: is_lower_hex_def)
qed (simp add: is_lower_hex_def)

text \<open>Lower-case text that decodes is what encoding gives back.\<close>

lemma hex_digit_nibble: "hex_nibble c = Some n \<Longrightarrow> is_lower_hex [c] \<Longrightarrow> hex_digit n = c \<and> n < 16"
  by (auto simp: hex_nibble_def is_lower_hex_def hex_digit_def Let_def split: if_splits)

lemma hex_encode_decode: "hex_decode s = Some b \<Longrightarrow> is_lower_hex s \<Longrightarrow> hex_encode b = s"
proof (induction s arbitrary: b rule: hex_decode.induct)
  case (3 c d s)
  then obtain h l r where r: "hex_nibble c = Some h" "hex_nibble d = Some l" "hex_decode s = Some r" "b = of_nat (16 * h + l) # r"
    by (auto split: option.splits)
  have low: "is_lower_hex [c]" "is_lower_hex [d]" "is_lower_hex s" using "3.prems"(2) by (simp_all add: is_lower_hex_def)
  note c = hex_digit_nibble [OF r(1) low(1)] and d = hex_digit_nibble [OF r(2) low(2)]
  have "unat (of_nat (16 * h + l) :: byte) = 16 * h + l" using c d by (simp add: unat_of_nat del: of_nat_add of_nat_mult)
  moreover have "(16 * h + l) div 16 = h" "(16 * h + l) mod 16 = l" using d by auto
  ultimately show ?case using c d r(4) "3.IH" [OF r(3) low(3)] by (simp del: of_nat_add of_nat_mult)
qed auto

section \<open>Letter case and white space\<close>

text \<open>
  Lower case, byte by byte: the ASCII capitals, and the two non-ASCII runes whose lower case is an
  ASCII letter (U+0130 and U+212A). Every other rune stays outside ASCII, so against an ASCII name
  the result compares as Go's does.
\<close>

fun to_lower :: "string \<Rightarrow> string" where
  "to_lower [] = []"
| "to_lower (c # s) =
     (if c = CHR 0xC4 \<and> take 1 s = [CHR 0xB0] then CHR ''i'' # to_lower (drop 1 s)
      else if c = CHR 0xE2 \<and> take 2 s = [CHR 0x84, CHR 0xAA] then CHR ''k'' # to_lower (drop 2 s)
      else if 65 \<le> (of_char c :: nat) \<and> of_char c \<le> (90 :: nat) then char_of (of_char c + 32 :: nat) # to_lower s
      else c # to_lower s)"

text \<open>The runes of \<open>unicode.IsSpace\<close>, encoded.\<close>

definition space_runes :: "string list" where
  "space_runes =
     map (\<lambda>n. [char_of (n :: nat)]) [9, 10, 11, 12, 13, 32] @
     [[CHR 0xC2, CHR 0x85], [CHR 0xC2, CHR 0xA0], [CHR 0xE1, CHR 0x9A, CHR 0x80]] @
     map (\<lambda>n. [CHR 0xE2, CHR 0x80, char_of (n :: nat)]) ([128..<139] @ [168, 169, 175]) @
     [[CHR 0xE2, CHR 0x81, CHR 0x9F], [CHR 0xE3, CHR 0x80, CHR 0x80]]"

definition starts_with :: "string list \<Rightarrow> string \<Rightarrow> nat" where
  "starts_with rs s = (case List.find (\<lambda>r. take (length r) s = r) rs of None \<Rightarrow> 0 | Some r \<Rightarrow> length r)"

function trim_left :: "string list \<Rightarrow> string \<Rightarrow> string" where
  "trim_left rs s = (if starts_with rs s = 0 \<or> s = [] then s else trim_left rs (drop (starts_with rs s) s))"
  by pat_completeness auto
termination by (relation "measure (\<lambda>(rs, s). length s)") auto

declare trim_left.simps [simp del]

definition TrimSpace :: "string \<Rightarrow> string" where
  "TrimSpace s = rev (trim_left (map rev space_runes) (rev (trim_left space_runes s)))"

section \<open>Decimal numbers\<close>

text \<open>\<open>strconv.ParseUint(s, 10, 64)\<close> on a run of digits.\<close>

definition ParseUint :: "string \<Rightarrow> u64 option" where
  "ParseUint s = (if s \<noteq> [] \<and> list_all is_digit s \<and> digits_value s < 2 ^ 64 then Some (of_nat (digits_value s)) else None)"

lemma ParseUint_fmt_d: "ParseUint (fmt_d (unat n)) = Some n"
  using fmt_d_digits [of "unat n"] unsigned_less [of n, where 'a = nat] by (simp add: ParseUint_def)

section \<open>Members of a JSON object\<close>

text \<open>Raw members, before ill-formed UTF-8 is replaced: a list of strings, a byte slice that \<open>omitempty\<close>
  leaves out, and an instant.\<close>

definition json_strs :: "string list \<Rightarrow> jval" where
  "json_strs xs = (if xs = [] then JNull else JArr (map JStr xs))"

definition opt_bytes :: "bytes \<Rightarrow> jval option" where
  "opt_bytes b = (if b = [] then None else Some (json_bytes b))"

definition json_time :: "gotime \<Rightarrow> go_error + jval" where
  "json_time t = (case marshal_time t of
     None \<Rightarrow> Inl (PlainError ''json: Time.MarshalJSON: year outside of range [0,9999]'' None)
   | Some w \<Rightarrow> Inr (JStr w))"

lemma json_strs_inj: "json_strs xs = json_strs ys \<longleftrightarrow> xs = ys"
  by (auto simp: json_strs_def dest: map_JStr_inj)

lemma opt_bytes_inj: "opt_bytes a = opt_bytes b \<longleftrightarrow> a = b"
  by (auto simp: opt_bytes_def json_bytes_inj)

lemma opt_bytes_Nil [simp]: "opt_bytes [] = None"
  by (simp add: opt_bytes_def)

lemma wire_ok_opt_bytes [simp]: "wire_ok (WTree (Inr (opt_bytes b)))"
  by (simp add: opt_bytes_def canon_json_bytes)

lemma json_time_inj: "json_time s = Inr j \<Longrightarrow> json_time t = Inr j \<Longrightarrow> s = t"
  by (auto simp: json_time_def dest: marshal_time_inj split: option.splits)

text \<open>
  The text forms of instants and durations in messages: \<open>time.Time.Format\<close> with the RFC 3339 layouts for any
  year, \<open>time.Duration.String\<close> and \<open>time.Duration.Round\<close>. Records do not use these: they marshal instants
  through \<open>json_time\<close>.
\<close>

section \<open>Instants\<close>

text \<open>The calendar repeats every 146097 days, 400 years; a year is written with at least four digits.\<close>

definition year_text :: "int \<Rightarrow> string" where
  "year_text y = (if y < 0 then CHR ''-'' # pad_zeros 4 (fmt_d (nat (- y))) else pad_zeros 4 (fmt_d (nat y)))"

definition fmt_RFC3339Nano :: "gotime \<Rightarrow> string" where
  "fmt_RFC3339Nano t =
     (let cycle = day_of t div 146097; d = nat (day_of t mod 146097)
      in year_text (int (civil_year d) + 400 * cycle) @ drop 4 (rfc3339 d (sec_of t) (nano_of t)))"

definition fmt_RFC3339 :: "gotime \<Rightarrow> string" where
  "fmt_RFC3339 t = fmt_RFC3339Nano (t - t mod 1000000000)"

section \<open>Durations\<close>

text \<open>\<open>v / 10 ^ w\<close> with its fraction, trailing zeros and an empty fraction dropped.\<close>

definition fmt_frac :: "nat \<Rightarrow> nat \<Rightarrow> string" where
  "fmt_frac v w =
     (let f = strip_zeros (dec w (v mod 10 ^ w)) in if f = [] then [] else CHR ''.'' # f)"

definition duration_text :: "nat \<Rightarrow> string" where
  "duration_text u =
     (if u = 0 then ''0s''
      else if u < 1000 then fmt_d u @ ''ns''
      else if u < 1000000 then fmt_d (u div 1000) @ fmt_frac u 3 @ [CHR 0xC2, CHR 0xB5] @ ''s''
      else if u < 1000000000 then fmt_d (u div 1000000) @ fmt_frac u 6 @ ''ms''
      else
        let s = u div 1000000000; m = s div 60; h = m div 60
        in (if h = 0 then [] else fmt_d h @ ''h'') @ (if m = 0 then [] else fmt_d (m mod 60) @ ''m'') @
           fmt_d (s mod 60) @ fmt_frac u 9 @ ''s'')"

definition Duration_String :: "duration \<Rightarrow> string" where
  "Duration_String d = (if sint d < 0 then CHR ''-'' # duration_text (nat (- sint d)) else duration_text (nat (sint d)))"

text \<open>\<open>d.Round(m)\<close> for a positive \<open>m\<close>: to the nearest multiple, halves away from zero, saturating.\<close>

definition Duration_Round :: "duration \<Rightarrow> duration \<Rightarrow> duration" where
  "Duration_Round d m =
     (let r = (if sint d < 0 then - ((- sint d) mod sint m) else sint d mod sint m) in
      if sint d < 0
      then (if 2 * (- r) < sint m then word_of_int (sint d - r) else word_of_int (max (- (2 ^ 63)) (sint d - r - sint m)))
      else (if 2 * r < sint m then word_of_int (sint d - r) else word_of_int (min (2 ^ 63 - 1) (sint d - r + sint m))))"

end
