(* ===== verification/OperatorRecords.thy ===== *)
theory OperatorRecords
  imports SignedContract GoText
begin

text \<open>
  Records that one pinned key signs, outside the vault's key store: the operator's stop list and
  failover policy, and what a sentinel writes. They share one shape: the canonical JSON of the record
  without its signature, signed by a \<open>crypto.SigningKey\<close> and checked by a \<open>crypto.SuitePublicKey\<close>
  (shared/crypto/signature_suite.go), the key that a verifier pins together with its suite.

  A kind of record is an instance of \<open>signed_contract\<close>. What its key signed verifies under the key's
  public half, and the signed bytes fix every field but the signature.
\<close>

record SuitePublicKey =
  SP_Suite :: SignatureSuite
  SP_Bytes :: bytes

definition SigningKey_Public :: "prims \<Rightarrow> SigningKey \<Rightarrow> SuitePublicKey" where
  "SigningKey_Public P k = \<lparr>SP_Suite = SK_suite k, SP_Bytes = PublicKeyBytes P k\<rparr>"

definition SuitePublicKey_VerifyRecord ::
    "prims \<Rightarrow> SuitePublicKey \<Rightarrow> SignatureSuite \<Rightarrow> bytes \<Rightarrow> bytes \<Rightarrow> go_error option" where
  "SuitePublicKey_VerifyRecord P k alg msg sig = VerifyRecord P (SP_Suite k) (SP_Bytes k) alg msg sig"

definition signedBytes :: "'r contract \<Rightarrow> floats \<Rightarrow> 'r \<Rightarrow> go_error + bytes" where
  "signedBytes ct F r = CanonicalJSON F (marshal_wire (ct_Wire ct (ct_SetSig ct [] r)))"

text \<open>A key that can sign: of a known suite, with a public half of the suite's size.\<close>

definition key_ok :: "prims \<Rightarrow> SigningKey \<Rightarrow> bool" where
  "key_ok P k \<longleftrightarrow> Suite_Valid (SK_suite k) \<and> length (PublicKeyBytes P k) = PublicKeySize (SK_suite k)"

lemma signedBytes_cover: "signedBytes ct F r = Inr cb \<longleftrightarrow> contract_cover ct F r = Inr cb"
  by (auto simp: signedBytes_def contract_cover_def split: sum.splits)

text \<open>A key made from a seed can sign, over any library that keeps the documented sizes.\<close>

lemma key_ok_ed25519: "prims_ok P \<Longrightarrow> key_ok P \<lparr>SK_suite = SuiteEd25519, SK_priv = Some seed\<rparr>"
  by (simp add: key_ok_def Suite_Valid_iff PublicKeyBytes_def PublicKeySize_def prims_ok_def)

context signed_contract begin

lemma signedBytes_sig [simp]: "signedBytes ct F (ct_SetSig ct s r) = signedBytes ct F r"
  by (simp add: signedBytes_def sig_set)

lemma signed_bytes_fix:
  "contract_clean ct a \<Longrightarrow> contract_clean ct b \<Longrightarrow> signedBytes ct F a = Inr m \<Longrightarrow> signedBytes ct F b = Inr m \<Longrightarrow>
   ct_SetSig ct [] a = ct_SetSig ct [] b"
  using cover_fixes [of a b F m] by (simp add: signedBytes_cover)

lemma signedBytes_total:
  "contract_clean ct r \<Longrightarrow> in_years (ct_Wire ct (ct_SetSig ct [] r)) \<Longrightarrow> \<exists>m. signedBytes ct F r = Inr m"
  using cover_total [of r F] by (auto simp: signedBytes_cover)

lemma key_signature_verifies:
  assumes "prims_ok P" "key_ok P k" "SigningKey_Sign P k msg = Inr sig"
  shows "SuitePublicKey_VerifyRecord P (SigningKey_Public P k)
    (ct_Alg ct (ct_SetSig ct sig (ct_SetAlg ct (RecordAlg (SK_suite k)) r))) msg
    (ct_Sig ct (ct_SetSig ct sig (ct_SetAlg ct (RecordAlg (SK_suite k)) r))) = None"
  using VerifyRecord_Sign [OF assms(1,3)] assms(2)
  by (simp add: SuitePublicKey_VerifyRecord_def SigningKey_Public_def key_ok_def alg_set sig_set)

end

end
