(* ===== verification/Tee.thy ===== *)
theory Tee
  imports GoText Sha256 Signatures
begin

text \<open>
  The trusted-hardware vocabulary of src/internal/shared/tee (tee.go, factory.go, provider_auto.go):
  provider names and their parsing, measurements, the two sides of attestation as functions, and the
  simulated backend (simulated.go), which is the implementation that needs no hardware.

  The locale \<open>attestation_pair\<close> is what a consumer of attestations relies on: what the producer quotes
  verifies to its measurement, and one piece of evidence verifies for one nonce only. The simulated
  backend interprets it.
\<close>

type_synonym Provider = string
type_synonym Measurement = bytes
type_synonym Evidence = bytes
type_synonym Nonce = bytes

section \<open>Providers\<close>

definition ProviderSimulated :: Provider where
  "ProviderSimulated = ''simulated''"

definition ProviderGCPSEVSNP :: Provider where
  "ProviderGCPSEVSNP = ''gcp-sev-snp''"

definition AllProviders :: "Provider list" where
  "AllProviders =
     [ProviderSimulated, ''aws-nitro'', ''azure-sgx'', ProviderGCPSEVSNP, ''intel-sgx-dcap'', ''gcp-tdx'',
      ''azure-cgpu'', ''azure-sev-snp'', ''gcp-sev-snp-vtpm'', ''aws-sev-snp'']"

definition ProviderAuto :: Provider where
  "ProviderAuto = ''auto''"

definition providerAliases :: "(Provider \<times> Provider) list" where
  "providerAliases =
     [(''nitro'', ''aws-nitro''), (''sev-snp'', ProviderGCPSEVSNP), (''sgx-dcap'', ''intel-sgx-dcap''), (''tdx'', ''gcp-tdx'')]"

definition QuotesTheBoot :: "Provider \<Rightarrow> bool" where
  "QuotesTheBoot p \<longleftrightarrow> p \<in> {''gcp-sev-snp-vtpm'', ''azure-sev-snp'', ''azure-cgpu''}"

definition ParseProvider :: "string \<Rightarrow> go_error + Provider" where
  "ParseProvider s =
     (let norm = to_lower (TrimSpace s) in
      if norm \<in> set AllProviders then Inr norm
      else (case map_of providerAliases norm of
              Some canonical \<Rightarrow> Inr canonical
            | None \<Rightarrow>
                if norm = ProviderAuto then Inr ProviderAuto
                else Inl (Structural CodeFieldValueInvalid
                  (''tee: unknown provider '' @ fmt_q s @ '' (valid: '' @ fmt_list AllProviders @
                   ''; also '' @ fmt_list (map fst providerAliases) @ '' and '' @ fmt_q ProviderAuto @ '')'') None)))"

lemma ParseProvider_known:
  "ParseProvider s = Inr p \<Longrightarrow> p \<in> set AllProviders \<or> p = ProviderAuto"
  by (auto simp: ParseProvider_def Let_def providerAliases_def AllProviders_def ProviderGCPSEVSNP_def
      split: if_splits option.splits)

section \<open>Measurements\<close>

definition MeasurementFromBytes :: "bytes \<Rightarrow> go_error + Measurement" where
  "MeasurementFromBytes b =
     (if length b \<in> {32, 48, 64} then Inr b
      else Inl (Structural CodeFieldValueInvalid
        (''tee: measurement must be 32, 48, or 64 bytes; got '' @ fmt_d (length b)) None))"

definition Measurement_IsZero :: "Measurement \<Rightarrow> bool" where
  "Measurement_IsZero m = list_all (\<lambda>b. b = 0) m"

definition MeasurementOf :: "bytes \<Rightarrow> Measurement" where
  "MeasurementOf canonicalDescriptor = SHA256 canonicalDescriptor"

definition NonceMinBytes :: nat where
  "NonceMinBytes = 16"

section \<open>Producers and verifiers\<close>

type_synonym tee_Producer = "Nonce \<Rightarrow> go_error + Evidence"
type_synonym tee_Verifier = "Evidence \<Rightarrow> Nonce \<Rightarrow> go_error + Measurement"

locale attestation_pair =
  fixes quote_ev :: tee_Producer
    and verify_ev :: tee_Verifier
    and measured :: Measurement
  assumes quoted_verifies: "quote_ev n = Inr ev \<Longrightarrow> length n < 2 ^ 32 \<Longrightarrow> verify_ev ev n = Inr measured"
    and measures: "verify_ev ev n = Inr m \<Longrightarrow> m = measured"
    and bound_to_nonce: "verify_ev ev n = Inr m \<Longrightarrow> verify_ev ev n' = Inr m' \<Longrightarrow> n = n'"
begin

lemma evidence_not_replayed:
  "quote_ev n = Inr ev \<Longrightarrow> length n < 2 ^ 32 \<Longrightarrow> n' \<noteq> n \<Longrightarrow> \<exists>err. verify_ev ev n' = Inl err"
  using quoted_verifies bound_to_nonce by (cases "verify_ev ev n'") blast+

end

section \<open>The simulated backend\<close>

text \<open>Ed25519 with the length checks of the wrappers in shared/crypto/ed25519.go; the key pair is its seed.\<close>

definition ed_Verify :: "prims \<Rightarrow> bytes \<Rightarrow> bytes \<Rightarrow> bytes \<Rightarrow> go_error option" where
  "ed_Verify P pub msg sig =
     (if length pub \<noteq> 32 then Some (Structural CodeFieldValueInvalid ''crypto: ed25519 public key must be 32 bytes'' None)
      else if length sig \<noteq> 64 then Some (Integrity CodeSignatureInvalid ''crypto: ed25519 signature length wrong'' None)
      else chk (\<not> pr_ed_verify P pub msg sig)
             (Integrity CodeSignatureInvalid ''crypto: ed25519 signature verification failed'' None))"

record Simulated =
  sim_measurement :: Measurement
  sim_seed :: bytes

definition simulatedEvidenceMagic :: bytes where
  "simulatedEvidenceMagic = string_bytes ''SAGV-TEE-SIM-V1''"

text \<open>The seed is given, or drawn by the caller of the definition where the code draws a random one.\<close>

definition NewSimulated :: "bytes \<Rightarrow> bytes \<Rightarrow> go_error + Simulated" where
  "NewSimulated workloadDescriptor seed =
     (if length seed \<noteq> 32 then Inl (Structural CodeFieldValueInvalid ''tee: seed must be 32 bytes'' None)
      else Inr \<lparr>sim_measurement = MeasurementOf workloadDescriptor, sim_seed = seed\<rparr>)"

definition sim_PublicKey :: "prims \<Rightarrow> Simulated \<Rightarrow> bytes" where
  "sim_PublicKey P s = pr_ed_public P (sim_seed s)"

definition Simulated_Quote :: "prims \<Rightarrow> Simulated \<Rightarrow> tee_Producer" where
  "Simulated_Quote P s nonce =
     (if length nonce < NonceMinBytes
      then Inl (Structural CodeFieldValueInvalid ''tee: nonce must be at least NonceMinBytes of entropy'' None)
      else Inr (simulatedEvidenceMagic @ PutUint32 (of_nat (length nonce)) @ nonce @ sim_measurement s @
             pr_ed_sign P (sim_seed s) (sim_measurement s @ nonce)))"

record SimulatedVerifier =
  sv_attestorPub :: bytes
  sv_expected :: Measurement

definition tee_refusal :: "string \<Rightarrow> go_error" where
  "tee_refusal msg = Integrity CodeSignatureInvalid (''tee: '' @ msg) None"

definition SimulatedVerifier_Verify :: "prims \<Rightarrow> SimulatedVerifier \<Rightarrow> tee_Verifier" where
  "SimulatedVerifier_Verify P v ev nonce =
     (let magic = length simulatedEvidenceMagic;
          body = drop (magic + 4) ev;
          nlen = unbe (take 4 (drop magic ev));
          nonceBytes = take nlen body;
          mBytes = take HashSize (drop nlen body);
          sig = take 64 (drop (nlen + HashSize) body)
      in if length nonce < NonceMinBytes
         then Inl (Structural CodeFieldValueInvalid ''tee: challenger nonce must be at least NonceMinBytes of entropy'' None)
         else if length ev < magic + 4 then Inl (tee_refusal ''evidence too short'')
         else if take magic ev \<noteq> simulatedEvidenceMagic then Inl (tee_refusal ''evidence magic mismatch'')
         else if nlen = 0 \<or> length body < nlen + HashSize + 64 then Inl (tee_refusal ''evidence truncated'')
         else if nonceBytes \<noteq> nonce then Inl (tee_refusal ''evidence nonce mismatch (replay?)'')
         else if mBytes \<noteq> sv_expected v then Inl (tee_refusal ''measurement differs from expected (wrong workload)'')
         else (case ed_Verify P (sv_attestorPub v) (mBytes @ nonceBytes) sig of
                 Some err \<Rightarrow> Inl err
               | None \<Rightarrow> Inr mBytes))"

lemma unbe_PutUint32: "unbe (PutUint32 w) = unat w"
  using unsigned_less [of w, where 'a = nat] by (simp add: PutUint32_def unbe_be)

lemma length_magic [simp]: "length simulatedEvidenceMagic = 15"
  by (simp add: simulatedEvidenceMagic_def)

lemma SimulatedVerifier_Verify_ok:
  "SimulatedVerifier_Verify P v ev nonce = Inr m \<Longrightarrow>
   m = sv_expected v \<and> nonce = take (unbe (take 4 (drop 15 ev))) (drop 19 ev)"
  by (auto simp: SimulatedVerifier_Verify_def Let_def split: if_splits option.splits)

lemma Simulated_quote_verifies:
  assumes "prims_ok P" "length (sim_measurement s) = HashSize" "length nonce < 2 ^ 32"
    "Simulated_Quote P s nonce = Inr ev"
  shows "SimulatedVerifier_Verify P \<lparr>sv_attestorPub = sim_PublicKey P s, sv_expected = sim_measurement s\<rparr> ev nonce =
    Inr (sim_measurement s)"
proof -
  let ?sig = "pr_ed_sign P (sim_seed s) (sim_measurement s @ nonce)"
  have ev: "ev = simulatedEvidenceMagic @ PutUint32 (of_nat (length nonce)) @ nonce @ sim_measurement s @ ?sig"
    and n: "16 \<le> length nonce"
    using assms(4) by (auto simp: Simulated_Quote_def NonceMinBytes_def split: if_splits)
  have "unbe (PutUint32 (of_nat (length nonce))) = length nonce"
    using assms(3) by (simp add: unbe_PutUint32 unat_of_nat)
  moreover have "length ?sig = 64" "length (sim_PublicKey P s) = 32"
      "pr_ed_verify P (sim_PublicKey P s) (sim_measurement s @ nonce) ?sig"
    using assms(1) by (simp_all add: prims_ok_def sim_PublicKey_def)
  moreover have "nonce \<noteq> []" using n by auto
  ultimately show ?thesis
    using n assms(2) unfolding SimulatedVerifier_Verify_def ed_Verify_def ev
    by (simp add: Let_def NonceMinBytes_def)
qed

text \<open>A simulated machine over a library that keeps the documented laws.\<close>

definition sim_tee :: "bytes \<Rightarrow> bytes \<Rightarrow> Simulated" where
  "sim_tee workload seed = \<lparr>sim_measurement = MeasurementOf workload, sim_seed = seed\<rparr>"

definition sim_tee_verifier :: "prims \<Rightarrow> Simulated \<Rightarrow> tee_Verifier" where
  "sim_tee_verifier P s = SimulatedVerifier_Verify P \<lparr>sv_attestorPub = sim_PublicKey P s, sv_expected = sim_measurement s\<rparr>"

interpretation simulated: attestation_pair "Simulated_Quote plain_prims (sim_tee w k)"
    "sim_tee_verifier plain_prims (sim_tee w k)" "MeasurementOf w" for w k
proof
  fix n ev
  assume "Simulated_Quote plain_prims (sim_tee w k) n = Inr ev" "length n < 2 ^ 32"
  from Simulated_quote_verifies [OF plain_prims_ok _ this(2,1)]
  show "sim_tee_verifier plain_prims (sim_tee w k) ev n = Inr (MeasurementOf w)"
    by (simp add: sim_tee_verifier_def sim_tee_def MeasurementOf_def)
next
  fix ev n m
  assume "sim_tee_verifier plain_prims (sim_tee w k) ev n = Inr m"
  from SimulatedVerifier_Verify_ok [OF this [unfolded sim_tee_verifier_def]]
  show "m = MeasurementOf w" by (simp add: sim_tee_def)
next
  fix ev n m n' m'
  assume "sim_tee_verifier plain_prims (sim_tee w k) ev n = Inr m" "sim_tee_verifier plain_prims (sim_tee w k) ev n' = Inr m'"
  then show "n = n'"
    using SimulatedVerifier_Verify_ok unfolding sim_tee_verifier_def by blast
qed

end
