(* ===== verification/KeyRelease.thy ===== *)
theory KeyRelease
  imports Tee
begin

text \<open>
  The key-release policy interface of src/internal/vault/kms/policy.go and its allow-list
  implementation. A policy is a pair of functions, the two methods of the interface; a Go map is
  the list of its entries in the order its iteration takes, with distinct keys.

  The locale \<open>release_gate\<close> is the contract of everything that stands in front of a policy: it refuses
  what its own rule refuses and otherwise answers as the policy behind it. Gates compose.
\<close>

record PolicyVerdict =
  PV_Authorized :: bool
  PV_Reason :: string

record KeyReleasePolicy =
  kp_AuthorizeKeyRelease :: "Provider \<Rightarrow> bytes \<Rightarrow> string \<Rightarrow> string list \<Rightarrow> go_error + PolicyVerdict"
  kp_PolicyVersion :: string

definition authorized :: "KeyReleasePolicy \<Rightarrow> Provider \<Rightarrow> bytes \<Rightarrow> string \<Rightarrow> string list \<Rightarrow> bool" where
  "authorized p kind m did kids \<longleftrightarrow>
     (case kp_AuthorizeKeyRelease p kind m did kids of Inr v \<Rightarrow> PV_Authorized v | Inl err \<Rightarrow> False)"

record AllowListPolicy =
  al_version :: string
  al_allowed :: "(Provider \<times> bytes list) list"

fun copy_measurements :: "Provider \<Rightarrow> nat \<Rightarrow> bytes list \<Rightarrow> go_error + bytes list" where
  "copy_measurements kind i [] = Inr []"
| "copy_measurements kind i (m # ms) =
     (case MeasurementFromBytes m of
        Inl err \<Rightarrow> Inl (Structural CodeFieldValueInvalid
          (''kms.NewAllowListPolicy: '' @ kind @ ''['' @ fmt_d i @ ''] measurement must be 32, 48 or 64 bytes; got '' @
           fmt_d (length m)) (Some err))
      | Inr cp \<Rightarrow> bindR (copy_measurements kind (Suc i) ms) (\<lambda>r. Inr (cp # r)))"

fun copy_allowed :: "(Provider \<times> bytes list) list \<Rightarrow> go_error + (Provider \<times> bytes list) list" where
  "copy_allowed [] = Inr []"
| "copy_allowed ((kind, ms) # r) =
     (if kind = [] then Inl (Structural CodeFieldValueInvalid ''kms.NewAllowListPolicy: empty Provider key'' None)
      else bindR (copy_measurements kind 0 ms) (\<lambda>dup. bindR (copy_allowed r) (\<lambda>out. Inr ((kind, dup) # out))))"

definition NewAllowListPolicy :: "string \<Rightarrow> (Provider \<times> bytes list) list \<Rightarrow> go_error + AllowListPolicy" where
  "NewAllowListPolicy version allowed =
     (if version = [] then Inl (Structural CodeRequiredFieldMissing ''kms.NewAllowListPolicy: version required'' None)
      else bindR (copy_allowed allowed) (\<lambda>out. Inr \<lparr>al_version = version, al_allowed = out\<rparr>))"

definition AllowList_Authorize ::
    "AllowListPolicy \<Rightarrow> Provider \<Rightarrow> bytes \<Rightarrow> string \<Rightarrow> string list \<Rightarrow> go_error + PolicyVerdict" where
  "AllowList_Authorize p kind m decisionID keyIDs =
     guardR
       (first_err
         [chk (kind = []) (Structural CodeRequiredFieldMissing ''kms.AllowListPolicy: destination_tee_kind required'' None),
          (case MeasurementFromBytes m of
             Inl err \<Rightarrow> Some (Structural CodeFieldValueInvalid
               (''kms.AllowListPolicy: destination_measurement must be 32, 48 or 64 bytes; got '' @ fmt_d (length m)) (Some err))
           | Inr cp \<Rightarrow> None),
          chk (decisionID = []) (Structural CodeRequiredFieldMissing ''kms.AllowListPolicy: decision_id required'' None),
          chk (keyIDs = []) (Structural CodeRequiredFieldMissing ''kms.AllowListPolicy: key_ids must contain at least one key'' None)])
       (Inr (case map_of (al_allowed p) kind of
               None \<Rightarrow> \<lparr>PV_Authorized = False, PV_Reason = ''no allow-list entries for destination kind '' @ fmt_q kind\<rparr>
             | Some ms \<Rightarrow>
                 if ms = [] then \<lparr>PV_Authorized = False, PV_Reason = ''no allow-list entries for destination kind '' @ fmt_q kind\<rparr>
                 else if m \<in> set ms then \<lparr>PV_Authorized = True, PV_Reason = ''allow-list match for '' @ fmt_q kind\<rparr>
                 else \<lparr>PV_Authorized = False, PV_Reason = ''destination measurement not in allow-list for '' @ fmt_q kind\<rparr>))"

definition allow_list :: "AllowListPolicy \<Rightarrow> KeyReleasePolicy" where
  "allow_list p = \<lparr>kp_AuthorizeKeyRelease = AllowList_Authorize p, kp_PolicyVersion = al_version p\<rparr>"

lemma copy_measurements_id: "copy_measurements kind i ms = Inr r \<Longrightarrow> r = ms"
  by (induction ms arbitrary: i r)
    (auto simp: MeasurementFromBytes_def split: sum.splits if_splits)

lemma copy_allowed_id: "copy_allowed xs = Inr r \<Longrightarrow> r = xs"
  by (induction xs arbitrary: r rule: copy_allowed.induct)
    (auto dest: copy_measurements_id split: if_splits)

text \<open>The policy authorizes exactly the listed measurements, for a named decision and some key.\<close>

lemma allow_list_authorizes:
  assumes "NewAllowListPolicy version allowed = Inr p"
  shows "authorized (allow_list p) kind m did kids \<longleftrightarrow>
    kind \<noteq> [] \<and> length m \<in> {32, 48, 64} \<and> did \<noteq> [] \<and> kids \<noteq> [] \<and> (\<exists>ms. map_of allowed kind = Some ms \<and> m \<in> set ms)"
proof -
  have "al_allowed p = allowed"
    using assms copy_allowed_id by (auto simp: NewAllowListPolicy_def split: if_splits)
  then show ?thesis
    by (auto simp: authorized_def allow_list_def AllowList_Authorize_def guardR_def MeasurementFromBytes_def
        first_err_Cons chk_def split: option.splits)
qed

locale release_gate =
  fixes gate :: "KeyReleasePolicy \<Rightarrow> KeyReleasePolicy"
    and refuses :: "Provider \<Rightarrow> bytes \<Rightarrow> bool"
  assumes refused: "refuses kind m \<Longrightarrow> \<exists>why. kp_AuthorizeKeyRelease (gate inner) kind m did kids = Inr \<lparr>PV_Authorized = False, PV_Reason = why\<rparr>"
    and passed: "\<not> refuses kind m \<Longrightarrow> kp_AuthorizeKeyRelease (gate inner) kind m did kids = kp_AuthorizeKeyRelease inner kind m did kids"
begin

lemma gate_narrows: "authorized (gate inner) kind m did kids \<longleftrightarrow> \<not> refuses kind m \<and> authorized inner kind m did kids"
  using refused [of kind m inner did kids] passed [of kind m inner did kids]
  by (cases "refuses kind m") (auto simp: authorized_def)

end

end
