(* ===== verification/Revocation.thy ===== *)
theory Revocation
  imports OperatorRecords KeyRelease AuditChain
begin

text \<open>
  The operator's signed stop list (src/internal/vault/revocation/revocation.go): its gate and signature,
  what it denies, the release gate it forms, and the rollback check against the audit log.

  The measurements by provider are a Go map, here the list of its entries in key order; the code's
  validation takes them in any order, so of several malformed entries it may report another. \<open>D\<close> stands
  for \<open>encoding/json\<close>'s decoding of a list file (unknown fields refused), \<open>U\<close> for its decoding of the
  \<open>policy_version\<close> member of an audit payload.
\<close>

record RevocationList =
  RL_Schema :: string
  RL_Serial :: u64
  RL_IssuedAt :: gotime
  RL_StopAll :: bool
  RL_RevokedMeasurements :: "(string \<times> string list) list"
  RL_Reason :: string
  RL_SigningKeyID :: string
  RL_Alg :: SignatureSuite
  RL_Signature :: bytes

definition RevocationSchema :: string where
  "RevocationSchema = ''vault-genome/revocation/v1''"

fun check_revoked_hexes :: "string \<Rightarrow> string list \<Rightarrow> go_error option" where
  "check_revoked_hexes provider [] = None"
| "check_revoked_hexes provider (h # hs) =
     (case hex_decode h of
        None \<Rightarrow> Some (errorsNew (''revocation: revoked_measurements['' @ provider @ '']: '' @ fmt_q h @ '' is not hex''))
      | Some b \<Rightarrow>
          (case MeasurementFromBytes b of
             Inl err \<Rightarrow> Some (wrapf (''revocation: revoked_measurements['' @ provider @ '']'') err)
           | Inr m \<Rightarrow> check_revoked_hexes provider hs))"

fun check_revoked :: "(string \<times> string list) list \<Rightarrow> go_error option" where
  "check_revoked [] = None"
| "check_revoked ((provider, hs) # r) =
     (case ParseProvider provider of
        Inl err \<Rightarrow> Some (wrapf ''revocation: revoked_measurements'' err)
      | Inr p \<Rightarrow>
          (case check_revoked_hexes provider hs of Some err \<Rightarrow> Some err | None \<Rightarrow> check_revoked r))"

definition RevocationList_validate :: "RevocationList \<Rightarrow> go_error option" where
  "RevocationList_validate l =
     first_err
       [chk (RL_Schema l \<noteq> RevocationSchema)
          (errorsNew (''revocation: schema '' @ fmt_q (RL_Schema l) @ '', want '' @ fmt_q RevocationSchema)),
        chk (RL_Serial l = 0) (errorsNew ''revocation: serial must be at least 1''),
        chk (RL_IssuedAt l = zero_time) (errorsNew ''revocation: issued_at required''),
        chk (RL_SigningKeyID l = []) (errorsNew ''revocation: signing_key_id required''),
        (case RecordSuite (RL_Alg l) of Inl err \<Rightarrow> Some (wrapf ''revocation: alg'' err) | Inr s \<Rightarrow> None),
        check_revoked (RL_RevokedMeasurements l)]"

definition revoked_json :: "(string \<times> string list) list \<Rightarrow> jval option" where
  "revoked_json rm = (if rm = [] then None else Some (JObj (map (\<lambda>(k, v). (k, json_strs v)) rm)))"

definition RevocationList_fields :: "RevocationList \<Rightarrow> (string \<times> wire) list" where
  "RevocationList_fields l =
     [(''alg'', WOpt (RL_Alg l)),
      (''issued_at'', WTime (RL_IssuedAt l)),
      (''reason'', WOpt (RL_Reason l)),
      (''revoked_measurements'', WTree (Inr (revoked_json (RL_RevokedMeasurements l)))),
      (''schema'', WStr (RL_Schema l)),
      (''serial'', WNum (unat (RL_Serial l))),
      (''signature'', WTree (Inr (opt_bytes (RL_Signature l)))),
      (''signing_key_id'', WStr (RL_SigningKeyID l)),
      (''stop_all'', WBool (RL_StopAll l))]"

definition RevocationList_record :: "RevocationList contract" where
  "RevocationList_record =
     \<lparr>ct_Name = ''revocation'', ct_Purpose = PurposeUnknown, ct_Validate = RevocationList_validate,
      ct_Wire = RevocationList_fields, ct_KeyID = RL_SigningKeyID, ct_Alg = RL_Alg, ct_Sig = RL_Signature,
      ct_SetAlg = (\<lambda>a l. l\<lparr>RL_Alg := a\<rparr>), ct_SetSig = (\<lambda>s l. l\<lparr>RL_Signature := s\<rparr>)\<rparr>"

lemma revoked_json_inj: "revoked_json a = revoked_json b \<longleftrightarrow> a = b"
proof -
  have "inj (\<lambda>(k :: string, v). (k, json_strs v))" by (auto simp: inj_def json_strs_inj)
  then show ?thesis by (auto simp: revoked_json_def dest: injD [OF inj_mapI])
qed

interpretation stop_list: signed_contract RevocationList_record
  by unfold_locales
    (auto simp: RevocationList_record_def RevocationList_fields_def shape_def contract_clean_def fields_ok_def
      revoked_json_inj opt_bytes_inj word_unat_eq_iff simp del: wire_ok.simps(9)
      intro: RevocationList.equality)

text \<open>\<open>l.signedBytes()\<close>, \<open>Sign\<close> (the key by pointer) and \<open>Parse\<close>.\<close>

definition RevocationList_signedBytes :: "floats \<Rightarrow> RevocationList \<Rightarrow> go_error + bytes" where
  "RevocationList_signedBytes = signedBytes RevocationList_record"

definition RevocationList_Sign ::
    "floats \<Rightarrow> prims \<Rightarrow> RevocationList \<Rightarrow> SigningKey option \<Rightarrow> go_error + RevocationList" where
  "RevocationList_Sign F P l key =
     (case key of
        None \<Rightarrow> Inl (errorsNew ''revocation: operator key required'')
      | Some k \<Rightarrow>
          let l1 = (if RL_Schema l = [] then l\<lparr>RL_Schema := RevocationSchema\<rparr> else l);
              l2 = l1\<lparr>RL_Alg := RecordAlg (SK_suite k)\<rparr>
          in guardR (RevocationList_validate l2)
               (bindR (RevocationList_signedBytes F l2) (\<lambda>msg.
                 bindR (SigningKey_Sign P k msg) (\<lambda>sig. Inr (l2\<lparr>RL_Signature := sig\<rparr>)))))"

definition RevocationList_Parse ::
    "floats \<Rightarrow> prims \<Rightarrow> (bytes \<Rightarrow> go_error + RevocationList) \<Rightarrow> bytes \<Rightarrow> SuitePublicKey \<Rightarrow> string \<Rightarrow>
     go_error + RevocationList" where
  "RevocationList_Parse F P D raw pub kid =
     (case D raw of
        Inl err \<Rightarrow> Inl (wrapf ''revocation: decode'' err)
      | Inr l \<Rightarrow>
          guardR (RevocationList_validate l)
            (if RL_SigningKeyID l \<noteq> kid
             then Inl (errorsNew (''revocation: list is signed by '' @ fmt_q (RL_SigningKeyID l) @
                    ''; this authority trusts '' @ fmt_q kid))
             else bindR (RevocationList_signedBytes F l) (\<lambda>msg.
               case SuitePublicKey_VerifyRecord P pub (RL_Alg l) msg (RL_Signature l) of
                 Some err \<Rightarrow> Inl (wrapf ''revocation: signature does not verify under the operator key'' err)
               | None \<Rightarrow> Inr l)))"

section \<open>What the list denies\<close>

definition list_reason :: "RevocationList \<Rightarrow> string" where
  "list_reason l = (if RL_Reason l = [] then ''no reason given'' else RL_Reason l)"

definition Denies :: "RevocationList \<Rightarrow> Provider \<Rightarrow> bytes \<Rightarrow> bool \<times> string" where
  "Denies l kind m =
     (if RL_StopAll l
      then (True, ''operator stop in force (revocation serial '' @ fmt_d (unat (RL_Serial l)) @ ''): '' @ list_reason l)
      else if hex_encode m \<in> set (case map_of (RL_RevokedMeasurements l) kind of None \<Rightarrow> [] | Some hs \<Rightarrow> hs)
      then (True, ''destination measurement revoked by the operator (revocation serial '' @
              fmt_d (unat (RL_Serial l)) @ ''): '' @ list_reason l)
      else (False, []))"

definition RevocationGate :: "RevocationList \<Rightarrow> KeyReleasePolicy \<Rightarrow> KeyReleasePolicy" where
  "RevocationGate l inner =
     \<lparr>kp_AuthorizeKeyRelease = (\<lambda>kind m did kids.
        case Denies l kind m of
          (True, why) \<Rightarrow> Inr \<lparr>PV_Authorized = False, PV_Reason = why\<rparr>
        | (False, why) \<Rightarrow> kp_AuthorizeKeyRelease inner kind m did kids),
      kp_PolicyVersion = kp_PolicyVersion inner @ '';revocation='' @ fmt_d (unat (RL_Serial l))\<rparr>"

interpretation stop_gate: release_gate "RevocationGate l" "\<lambda>kind m. fst (Denies l kind m)" for l
  by unfold_locales (auto simp: RevocationGate_def split: prod.splits bool.splits)

lemma Denies_iff:
  "fst (Denies l kind m) \<longleftrightarrow>
     RL_StopAll l \<or> (\<exists>hs. map_of (RL_RevokedMeasurements l) kind = Some hs \<and> hex_encode m \<in> set hs)"
  by (cases "map_of (RL_RevokedMeasurements l) kind") (auto simp: Denies_def)

section \<open>Rollback\<close>

text \<open>The regular expression \<open>;revocation=(\d+)$\<close>: the digits that end the text, behind the marker.\<close>

definition serial_text :: "string \<Rightarrow> string option" where
  "serial_text s =
     (let ds = rev (takeWhile is_digit (rev s));
          pre = rev (dropWhile is_digit (rev s));
          marker = '';revocation=''
      in if ds \<noteq> [] \<and> length marker \<le> length pre \<and> drop (length pre - length marker) pre = marker then Some ds else None)"

definition serialInPolicyVersion :: "string \<Rightarrow> u64 option" where
  "serialInPolicyVersion s = Option.bind (serial_text s) ParseUint"

definition release_kinds :: "string list" where
  "release_kinds = [''KEY_RELEASE_AUTHORIZED'', ''KEY_RELEASE_DENIED'']"

fun HighestSerial_loop :: "(bytes \<Rightarrow> string option) \<Rightarrow> u64 \<Rightarrow> AuditEvent list \<Rightarrow> u64" where
  "HighestSerial_loop U highest [] = highest"
| "HighestSerial_loop U highest (e # es) =
     HighestSerial_loop U
       (if AE_Kind e \<notin> set release_kinds then highest
        else (case Option.bind (U (AE_Payload e)) serialInPolicyVersion of
                Some n \<Rightarrow> if n > highest then n else highest
              | None \<Rightarrow> highest)) es"

definition HighestSerial :: "(bytes \<Rightarrow> string option) \<Rightarrow> AuditEvent list \<Rightarrow> u64" where
  "HighestSerial U es = HighestSerial_loop U 0 es"

definition CheckNotRolledBack :: "(bytes \<Rightarrow> string option) \<Rightarrow> RevocationList \<Rightarrow> AuditEvent list \<Rightarrow> go_error option" where
  "CheckNotRolledBack U l es =
     (let highest = HighestSerial U es in
      chk (RL_Serial l < highest)
        (errorsNew (''revocation: list serial '' @ fmt_d (unat (RL_Serial l)) @ '' is older than serial '' @
          fmt_d (unat highest) @ '' already applied in the audit log (rollback refused)'')))"

text \<open>A gate's version names the serial of its list, whatever the policy behind it is called.\<close>

lemma gate_names_serial: "serialInPolicyVersion (kp_PolicyVersion (RevocationGate l inner)) = Some (RL_Serial l)"
proof -
  let ?n = "fmt_d (unat (RL_Serial l))"
  have d: "list_all is_digit (rev ?n)" "?n \<noteq> []" using fmt_d_digits [of "unat (RL_Serial l)"] by simp_all
  have v: "rev (kp_PolicyVersion (RevocationGate l inner)) = rev ?n @ CHR ''='' # rev (kp_PolicyVersion inner @ '';revocation'')"
    by (simp add: RevocationGate_def)
  have "takeWhile is_digit (rev ?n @ CHR ''='' # x) = rev ?n" "dropWhile is_digit (rev ?n @ CHR ''='' # x) = CHR ''='' # x" for x
  proof -
    have "is_digit c" if "c \<in> set (rev ?n)" for c using d(1) that by (simp add: list_all_iff)
    moreover have "\<not> is_digit (CHR ''='')" by (simp add: is_digit_def)
    ultimately show "takeWhile is_digit (rev ?n @ CHR ''='' # x) = rev ?n" "dropWhile is_digit (rev ?n @ CHR ''='' # x) = CHR ''='' # x"
      by (subst takeWhile_append2 dropWhile_append2; simp)+
  qed
  then have "serial_text (kp_PolicyVersion (RevocationGate l inner)) = Some ?n"
    using d(2) unfolding serial_text_def v by simp
  then show ?thesis by (simp add: serialInPolicyVersion_def ParseUint_fmt_d)
qed

lemma HighestSerial_loop_max:
  "HighestSerial_loop U h es \<ge> h \<and>
   (\<forall>e n. e \<in> set es \<longrightarrow> AE_Kind e \<in> set release_kinds \<longrightarrow>
      Option.bind (U (AE_Payload e)) serialInPolicyVersion = Some n \<longrightarrow> n \<le> HighestSerial_loop U h es)"
proof (induction es arbitrary: h)
  case (Cons e es)
  let ?h = "if AE_Kind e \<notin> set release_kinds then h
        else (case Option.bind (U (AE_Payload e)) serialInPolicyVersion of
                Some n \<Rightarrow> if n > h then n else h | None \<Rightarrow> h)"
  have "h \<le> ?h" by (auto split: option.splits)
  moreover have "n \<le> ?h" if "AE_Kind e \<in> set release_kinds" "Option.bind (U (AE_Payload e)) serialInPolicyVersion = Some n" for n
    using that by auto
  ultimately show ?case using Cons [of ?h] by (fastforce intro: order_trans)
qed simp

lemma HighestSerial_attained:
  "HighestSerial_loop U h es = h \<or>
   (\<exists>e \<in> set es. \<exists>v. AE_Kind e \<in> set release_kinds \<and> U (AE_Payload e) = Some v \<and>
      serialInPolicyVersion v = Some (HighestSerial_loop U h es))"
proof (induction es arbitrary: h)
  case (Cons e es)
  let ?h = "if AE_Kind e \<notin> set release_kinds then h
        else (case Option.bind (U (AE_Payload e)) serialInPolicyVersion of
                Some n \<Rightarrow> if n > h then n else h | None \<Rightarrow> h)"
  define k where "k = ?h"
  have loop: "HighestSerial_loop U h (e # es) = HighestSerial_loop U k es" by (simp add: k_def)
  have "k = h \<or> (AE_Kind e \<in> set release_kinds \<and> (\<exists>v. U (AE_Payload e) = Some v \<and> serialInPolicyVersion v = Some k))"
    unfolding k_def by (cases "U (AE_Payload e)") (simp_all split: option.split)
  then show ?case unfolding loop using Cons [of k] by (elim disjE) auto
qed simp

section \<open>What a list means\<close>

text \<open>
  The meaning its validation gives a list: an entry revokes the measurement its text decodes to, at the
  provider its name parses to. \<open>Denies\<close> compares texts, so it follows that meaning for entries in the
  canonical spelling, the provider's own name and lower-case digits.
\<close>

definition revokes :: "RevocationList \<Rightarrow> Provider \<Rightarrow> bytes \<Rightarrow> bool" where
  "revokes l kind m \<longleftrightarrow>
     (\<exists>(p, hs) \<in> set (RL_RevokedMeasurements l). ParseProvider p = Inr kind \<and> (\<exists>h \<in> set hs. hex_decode h = Some m))"

definition canonical_spelling :: "RevocationList \<Rightarrow> bool" where
  "canonical_spelling l \<longleftrightarrow>
     distinct (map fst (RL_RevokedMeasurements l)) \<and>
     list_all (\<lambda>(p, hs). ParseProvider p = Inr p \<and> list_all is_lower_hex hs) (RL_RevokedMeasurements l)"

lemma Denies_revokes:
  assumes "canonical_spelling l"
  shows "fst (Denies l kind m) \<longleftrightarrow> RL_StopAll l \<or> revokes l kind m"
proof -
  let ?rm = "RL_RevokedMeasurements l"
  have spelled: "ParseProvider p = Inr p" "list_all is_lower_hex hs" if "(p, hs) \<in> set ?rm" for p hs
    using assms that by (auto simp: canonical_spelling_def list_all_iff)
  have "(\<exists>hs. map_of ?rm kind = Some hs \<and> hex_encode m \<in> set hs) \<longleftrightarrow> (\<exists>hs. (kind, hs) \<in> set ?rm \<and> hex_encode m \<in> set hs)"
    using assms by (simp add: canonical_spelling_def)
  also have "\<dots> \<longleftrightarrow> revokes l kind m"
  proof -
    have "hex_encode m \<in> set hs \<longleftrightarrow> (\<exists>h \<in> set hs. hex_decode h = Some m)" if "(p, hs) \<in> set ?rm" for p hs
      using spelled(2) [OF that] hex_encode_decode [of _ m] hex_decode_encode [of m] by (metis list_all_iff)
    moreover have "ParseProvider p = Inr kind \<longleftrightarrow> p = kind" if "(p, hs) \<in> set ?rm" for p hs
      using spelled(1) [OF that] by auto
    ultimately show ?thesis unfolding revokes_def by blast
  qed
  finally show ?thesis by (simp add: Denies_iff)
qed

text \<open>What the operator's key signed is accepted under its public half.\<close>

lemma RevocationList_Sign_ok:
  assumes "RevocationList_Sign F P l (Some k) = Inr l'"
  obtains msg sig where "RevocationList_validate l' = None" "RevocationList_signedBytes F l' = Inr msg" "SigningKey_Sign P k msg = Inr sig"
    "RL_Alg l' = RecordAlg (SK_suite k)" "RL_Signature l' = sig" "RL_RevokedMeasurements l' = RL_RevokedMeasurements l"
    "RL_StopAll l' = RL_StopAll l" "RL_SigningKeyID l' = RL_SigningKeyID l" "RL_Serial l' = RL_Serial l"
proof -
  let ?l = "(if RL_Schema l = [] then l\<lparr>RL_Schema := RevocationSchema\<rparr> else l)\<lparr>RL_Alg := RecordAlg (SK_suite k)\<rparr>"
  obtain msg sig where *: "RevocationList_validate ?l = None" "RevocationList_signedBytes F ?l = Inr msg"
      "SigningKey_Sign P k msg = Inr sig" "l' = ?l\<lparr>RL_Signature := sig\<rparr>"
    using assms by (auto simp: RevocationList_Sign_def Let_def)
  have "RevocationList_validate l' = RevocationList_validate ?l" "RevocationList_signedBytes F l' = RevocationList_signedBytes F ?l"
    using *(4) by (simp_all add: RevocationList_validate_def RevocationList_signedBytes_def signedBytes_def RevocationList_record_def)
  with * show ?thesis by (intro that [of msg sig]) (simp_all split: if_splits)
qed

lemma signed_stop_list_parses:
  assumes "prims_ok P" "key_ok P k" "RevocationList_Sign F P l (Some k) = Inr l'" "D raw = Inr l'"
  shows "RevocationList_Parse F P D raw (SigningKey_Public P k) (RL_SigningKeyID l) = Inr l'"
  using assms(3)
proof (rule RevocationList_Sign_ok)
  fix msg sig
  assume *: "RevocationList_validate l' = None" "RevocationList_signedBytes F l' = Inr msg" "SigningKey_Sign P k msg = Inr sig"
    "RL_Alg l' = RecordAlg (SK_suite k)" "RL_Signature l' = sig" "RL_SigningKeyID l' = RL_SigningKeyID l"
  have "SuitePublicKey_VerifyRecord P (SigningKey_Public P k) (RL_Alg l') msg (RL_Signature l') = None"
    using stop_list.key_signature_verifies [OF assms(1,2) *(3), of l'] *(4,5)
    by (simp add: RevocationList_record_def)
  with * assms(4) show ?thesis by (simp add: RevocationList_Parse_def)
qed

end
