(* ===== verification/TrustAdmission.thy ===== *)
theory TrustAdmission
  imports Revocation ReleaseContracts
begin

text \<open>
  Trust admission, stage 2 of the flow (src/internal/vault/trust/trust.go): a request and an attested
  peer are judged against the operator's stop list and the served policy profiles, and the outcome is a
  signed attestation result.

  The stop list's source is a function that the code calls at each evaluation: \<open>ta_stopList\<close> says whether
  one is configured, and what the call returned is an argument of \<open>Evaluate\<close>, as the clock reading is.
  The verifier's detail about the peer is carried along and never read ('d).
\<close>

definition ReasonPeerAttested :: string where
  "ReasonPeerAttested = ''trust.peer_attested''"

definition ReasonOperatorStop :: string where
  "ReasonOperatorStop = ''trust.operator_stop''"

definition ReasonMeasurementRevoked :: string where
  "ReasonMeasurementRevoked = ''trust.measurement_revoked''"

definition ReasonProfileNotServed :: string where
  "ReasonProfileNotServed = ''trust.policy_profile_not_served''"

definition ReasonPeerMissing :: string where
  "ReasonPeerMissing = ''trust.peer_missing''"

lemmas reason_defs = ReasonPeerAttested_def ReasonOperatorStop_def ReasonMeasurementRevoked_def
  ReasonProfileNotServed_def ReasonPeerMissing_def

definition CodeStopListUnavailable :: string where
  "CodeStopListUnavailable = ''trust.stop_list_unavailable''"

record 'd Peer =
  pe_Provider :: Provider
  pe_Measurement :: Measurement
  pe_RemoteAddr :: string
  pe_EvidenceAt :: gotime
  pe_Detail :: "'d option"

record TrustOptions =
  to_Profiles :: "string list"
  to_StopList :: bool
  to_IDPrefix :: string
  to_DefaultTTL :: duration

record Admission =
  ta_signer :: Signer
  ta_signingKID :: KeyID
  ta_profiles :: "string set"
  ta_stopList :: bool
  ta_idPrefix :: string
  ta_defaultTTL :: duration
  ta_counter :: u64

definition trust_missing :: "string \<Rightarrow> go_error" where
  "trust_missing what = Structural CodeRequiredFieldMissing (''vault/trust: '' @ what) None"

definition NewAdmission ::
    "unit option \<Rightarrow> Signer option \<Rightarrow> KeyID \<Rightarrow> TrustOptions \<Rightarrow> go_error + Admission" where
  "NewAdmission clock signer signingKID opts =
     (case clock of
        None \<Rightarrow> Inl (trust_missing ''clock is required'')
      | Some clk \<Rightarrow>
     (case signer of
        None \<Rightarrow> Inl (trust_missing ''signer is required'')
      | Some sg \<Rightarrow>
          let ttl = (if to_DefaultTTL opts = 0 then Attestation_DefaultTTL else to_DefaultTTL opts)
          in guardR
               (first_err
                 [chk (signingKID = []) (trust_missing ''signing_key_id is required''),
                  chk (to_Profiles opts = []) (trust_missing ''at least one served policy profile is required''),
                  chk ([] \<in> set (to_Profiles opts))
                    (Structural CodeFieldValueInvalid ''vault/trust: an empty policy profile cannot be served'' None),
                  chk (sint ttl < 0) (Structural CodeFieldValueInvalid ''vault/trust: default TTL must be positive'' None)])
               (Inr \<lparr>ta_signer = sg, ta_signingKID = signingKID, ta_profiles = set (to_Profiles opts),
                     ta_stopList = to_StopList opts,
                     ta_idPrefix = (if to_IDPrefix opts = [] then ''att-'' else to_IDPrefix opts),
                     ta_defaultTTL = ttl, ta_counter = 0\<rparr>)))"

record 'd TrustDecision =
  td_Result :: AttestationResult
  td_Allowed :: bool
  td_Reason :: string
  td_Detail :: string
  td_StopSerial :: u64
  td_PeerProvider :: Provider
  td_PeerMeasurementHex :: string
  td_PeerDetail :: "'d option"

text \<open>The verdict ahead of the signature: the outcome, its reason and detail, and the serial consulted.\<close>

definition stop_verdict ::
    "Admission \<Rightarrow> (go_error + RevocationList) \<Rightarrow> 'd Peer \<Rightarrow> go_error + string \<times> string \<times> string \<times> u64" where
  "stop_verdict a source peer =
     (if pe_Measurement peer = []
      then Inr (OutcomeDeny, ReasonPeerMissing, ''no attested peer: the Return Path session carries no measurement'', 0)
      else if ta_stopList a
      then (case source of
              Inl err \<Rightarrow> Inl (Operational CodeStopListUnavailable
                ''vault/trust: the operator's stop list could not be consulted; nothing is admitted'' (Some err))
            | Inr l \<Rightarrow>
                (case Denies l (pe_Provider peer) (pe_Measurement peer) of
                   (True, why) \<Rightarrow>
                     Inr (OutcomeDeny, if RL_StopAll l then ReasonOperatorStop else ReasonMeasurementRevoked, why, RL_Serial l)
                 | (False, why) \<Rightarrow> Inr (OutcomeAllow, [], [], RL_Serial l)))
      else Inr (OutcomeAllow, [], [], 0))"

definition profile_verdict :: "Admission \<Rightarrow> RecoveryRequest \<Rightarrow> 'd Peer \<Rightarrow> string \<times> string \<times> string \<times> u64 \<Rightarrow>
     string \<times> string \<times> string \<times> u64" where
  "profile_verdict a req peer v =
     (case v of (outcome, reason, detail, serial) \<Rightarrow>
        if outcome \<noteq> OutcomeAllow then v
        else if RQ_PolicyProfile req \<notin> ta_profiles a
        then (OutcomeDeny, ReasonProfileNotServed,
              ''policy profile '' @ fmt_q (RQ_PolicyProfile req) @ '' is not served by this vault'', serial)
        else (OutcomeAllow, ReasonPeerAttested,
              ''peer attested with '' @ pe_Provider peer @ '', measurement '' @ hex_encode (pe_Measurement peer), serial))"

text \<open>The signed decision for a verdict, under the counter as it was bumped.\<close>

definition trust_result :: "Admission \<Rightarrow> RecoveryRequest \<Rightarrow> string \<times> string \<times> string \<times> u64 \<Rightarrow> duration \<Rightarrow> gotime \<Rightarrow> AttestationResult" where
  "trust_result a req v ttl now =
     \<lparr>AR_SchemaVersion = 1, AR_AttestationID = ta_idPrefix a @ fmt_016x (ta_counter a), AR_RequestID = RQ_RequestID req,
      AR_Outcome = fst v, AR_Reason = fst (snd v), AR_IssuedAt = now, AR_TTL = ttl, AR_SigningKeyID = ta_signingKID a,
      AR_Alg = [], AR_Signature = []\<rparr>"

definition sign_decision ::
    "floats \<Rightarrow> Admission \<Rightarrow> RecoveryRequest \<Rightarrow> 'd Peer \<Rightarrow> string \<times> string \<times> string \<times> u64 \<Rightarrow> duration \<Rightarrow> gotime \<Rightarrow>
     go_error + 'd TrustDecision" where
  "sign_decision F a req peer v ttl now =
     (case AttestationResult_SignWith F (trust_result a req v ttl now) (ta_signer a) of
        (Some err, res) \<Rightarrow> Inl err
      | (None, res) \<Rightarrow>
          guardR (AttestationResult_Validate res)
            (Inr \<lparr>td_Result = res, td_Allowed = (fst v = OutcomeAllow), td_Reason = fst (snd v),
                  td_Detail = fst (snd (snd v)), td_StopSerial = snd (snd (snd v)), td_PeerProvider = pe_Provider peer,
                  td_PeerMeasurementHex = hex_encode (pe_Measurement peer), td_PeerDetail = pe_Detail peer\<rparr>))"

definition Evaluate ::
    "floats \<Rightarrow> Admission \<Rightarrow> (go_error + RevocationList) \<Rightarrow> RecoveryRequest \<Rightarrow> 'd Peer \<Rightarrow> duration \<Rightarrow> gotime \<Rightarrow>
     (go_error + 'd TrustDecision) \<times> Admission" where
  "Evaluate F a source req peer ttl0 now =
     (let ttl = (if ttl0 = 0 then ta_defaultTTL a else ttl0);
          a1 = a\<lparr>ta_counter := ta_counter a + 1\<rparr>
      in case first_err
             [RecoveryRequest_Validate req,
              chk (sint ttl \<le> 0) (Structural CodeFieldValueInvalid ''vault/trust: ttl must be positive'' None)] of
        Some err \<Rightarrow> (Inl err, a)
      | None \<Rightarrow>
          (case stop_verdict a source peer of
             Inl err \<Rightarrow> (Inl err, a)
           | Inr v \<Rightarrow> (sign_decision F a1 req peer (profile_verdict a req peer v) ttl now, a1)))"

lemma outcomes_distinct [simp]: "OutcomeAllow \<noteq> OutcomeDeny" "OutcomeDeny \<noteq> OutcomeAllow"
  by (simp_all add: OutcomeAllow_def OutcomeDeny_def)

text \<open>What the two verdicts say together.\<close>

definition clear_of_stops :: "Admission \<Rightarrow> (go_error + RevocationList) \<Rightarrow> 'd Peer \<Rightarrow> bool" where
  "clear_of_stops a source peer \<longleftrightarrow>
     pe_Measurement peer \<noteq> [] \<and>
     (ta_stopList a \<longrightarrow> (\<exists>l. source = Inr l \<and> \<not> fst (Denies l (pe_Provider peer) (pe_Measurement peer))))"

lemma verdict_allow_iff:
  assumes "stop_verdict a source peer = Inr v"
  shows "fst (profile_verdict a req peer v) = OutcomeAllow \<longleftrightarrow>
    clear_of_stops a source peer \<and> RQ_PolicyProfile req \<in> ta_profiles a"
  using assms
  by (auto simp: stop_verdict_def profile_verdict_def clear_of_stops_def split: if_splits sum.splits prod.splits bool.splits)

lemma verdict_outcome:
  assumes "stop_verdict a source peer = Inr v"
  shows "fst (profile_verdict a req peer v) \<in> {OutcomeAllow, OutcomeDeny} \<and>
    fst (snd (profile_verdict a req peer v)) \<noteq> [] \<and>
    (fst (profile_verdict a req peer v) = OutcomeAllow \<longleftrightarrow> fst (snd (profile_verdict a req peer v)) = ReasonPeerAttested)"
  using assms
  by (auto simp: stop_verdict_def profile_verdict_def reason_defs split: if_splits sum.splits prod.splits bool.splits)

lemma Evaluate_Inr:
  assumes "Evaluate F a source req peer ttl0 now = (Inr d, a')"
  obtains v w res where "RecoveryRequest_Validate req = None" "stop_verdict a source peer = Inr v"
    "w = profile_verdict a req peer v" "0 < sint (if ttl0 = 0 then ta_defaultTTL a else ttl0)"
    "res = trust_result (a\<lparr>ta_counter := ta_counter a + 1\<rparr>) req w (if ttl0 = 0 then ta_defaultTTL a else ttl0) now"
    "AttestationResult_SignWith F res (ta_signer a) = (None, td_Result d)" "AttestationResult_Validate (td_Result d) = None"
    "td_Allowed d \<longleftrightarrow> fst w = OutcomeAllow" "td_Reason d = fst (snd w)" "td_StopSerial d = snd (snd (snd w))"
    "a' = a\<lparr>ta_counter := ta_counter a + 1\<rparr>"
  using assms that
  by (fastforce simp: Evaluate_def Let_def sign_decision_def guardR_def split: option.splits sum.splits prod.splits)

end
