(* ===== verification/TrustProperties.thy ===== *)
theory TrustProperties
  imports TrustAdmission LiveSigners
begin

text \<open>
  The properties of trust admission and of the operator's stop list: which peers are admitted over any
  history of evaluations, that a stop halts admission and key release alike, what a revocation means and
  how it must be spelled, and that an earlier list cannot be put back.
\<close>

section \<open>Histories of evaluations\<close>

type_synonym 'd evaluation = "(go_error + RevocationList) \<times> RecoveryRequest \<times> 'd Peer \<times> duration \<times> gotime"

fun admission_run :: "floats \<Rightarrow> Admission \<Rightarrow> 'd evaluation list \<Rightarrow> Admission" where
  "admission_run F a [] = a"
| "admission_run F a ((source, req, peer, ttl, now) # calls) =
     admission_run F (snd (Evaluate F a source req peer ttl now)) calls"

lemma Evaluate_state:
  "snd (Evaluate F a source req peer ttl now) = a \<or> snd (Evaluate F a source req peer ttl now) = a\<lparr>ta_counter := ta_counter a + 1\<rparr>"
  by (simp add: Evaluate_def Let_def split: option.split sum.split)

lemma admission_run_state: "\<exists>n. admission_run F a calls = a\<lparr>ta_counter := n\<rparr>"
proof (induction calls arbitrary: a)
  case Nil
  show ?case by (intro exI [of _ "ta_counter a"]) simp
next
  case (Cons c calls)
  obtain source req peer ttl now where c: "c = (source, req, peer, ttl, now)" by (cases c) auto
  from Cons [of a] Cons [of "a\<lparr>ta_counter := ta_counter a + 1\<rparr>"] show ?case
    using Evaluate_state [of F a source req peer ttl now] c by auto
qed

lemma NewAdmission_ok:
  assumes "NewAdmission clock (Some sg) kid opts = Inr a"
  shows "ta_signer a = sg \<and> ta_profiles a = set (to_Profiles opts) \<and> ta_stopList a = to_StopList opts \<and> ta_signingKID a = kid"
  using assms by (auto simp: NewAdmission_def Let_def split: option.splits)

lemma admission_run_fields:
  "ta_signer (admission_run F a calls) = ta_signer a" "ta_profiles (admission_run F a calls) = ta_profiles a"
  "ta_stopList (admission_run F a calls) = ta_stopList a" "ta_signingKID (admission_run F a calls) = ta_signingKID a"
  using admission_run_state [of F a calls] by auto

lemma attestation_signed_fields:
  "AttestationResult_SignWith F res sg = (None, res') \<Longrightarrow>
   AR_Outcome res' = AR_Outcome res \<and> AR_RequestID res' = AR_RequestID res \<and> AR_IssuedAt res' = AR_IssuedAt res \<and>
   AR_TTL res' = AR_TTL res \<and> AR_Reason res' = AR_Reason res"
  unfolding AttestationResult_SignWith_def
  by (drule attestation_result.SignWith_ok_shape) (auto simp: AttestationResult_contract_def)

section \<open>Admission\<close>

text \<open>C30: Over any history of evaluations, trust is granted exactly to a peer with an attested measurement,
  for a served policy profile, when the operator's stop list, if one is configured, was read and neither
  stops everything nor revokes the measurement under the peer's provider; every decision carries its
  outcome and a signed result for the request, of positive lifetime, that verifies under the vault's keys.\<close>

theorem admission_allows_only_attested_peers:
  assumes "NewAdmission clock (Some (ring_signer r)) kid opts = Inr a0" "ring_ok r"
    and "Evaluate F (admission_run F a0 calls) source req peer ttl now = (Inr d, a')"
  shows "(td_Allowed d \<longleftrightarrow> pe_Measurement peer \<noteq> [] \<and> RQ_PolicyProfile req \<in> set (to_Profiles opts) \<and>
      (to_StopList opts \<longrightarrow> (\<exists>l. source = Inr l \<and> \<not> RL_StopAll l \<and>
        (\<forall>hs. map_of (RL_RevokedMeasurements l) (pe_Provider peer) = Some hs \<longrightarrow> hex_encode (pe_Measurement peer) \<notin> set hs)))) \<and>
    AR_Outcome (td_Result d) = (if td_Allowed d then OutcomeAllow else OutcomeDeny) \<and>
    AR_RequestID (td_Result d) = RQ_RequestID req \<and> AR_IssuedAt (td_Result d) = now \<and> 0 < sint (AR_TTL (td_Result d)) \<and>
    AttestationResult_VerifySignature F (fst r) (td_Result d) (Some (ring_resolver r)) = None"
  using assms(3)
proof (rule Evaluate_Inr)
  let ?a = "admission_run F a0 calls"
  fix v w res
  assume v: "stop_verdict ?a source peer = Inr v" and w: "w = profile_verdict ?a req peer v"
    and ttl: "0 < sint (if ttl = 0 then ta_defaultTTL ?a else ttl)"
    and res: "res = trust_result (?a\<lparr>ta_counter := ta_counter ?a + 1\<rparr>) req w (if ttl = 0 then ta_defaultTTL ?a else ttl) now"
    and sign: "AttestationResult_SignWith F res (ta_signer ?a) = (None, td_Result d)"
    and valid: "AttestationResult_Validate (td_Result d) = None" and allowed: "td_Allowed d = (fst w = OutcomeAllow)"
  note fields = admission_run_fields [of F a0 calls] NewAdmission_ok [OF assms(1)]
  have "AttestationResult_VerifySignature F (fst r) (td_Result d) (Some (ring_resolver r)) = None"
    using sign valid assms(2) fields attestation_result.signed_verifies [of r F res "td_Result d"]
    unfolding AttestationResult_SignWith_def AttestationResult_VerifySignature_def
    by (simp add: AttestationResult_contract_def)
  moreover have "AR_Outcome res = (if td_Allowed d then OutcomeAllow else OutcomeDeny)"
    using verdict_outcome [OF v, of req] allowed by (auto simp: res w trust_result_def)
  ultimately show ?thesis
    using attestation_signed_fields [OF sign] allowed verdict_allow_iff [OF v, of req] fields ttl
    by (auto simp: res w trust_result_def clear_of_stops_def Denies_iff)
qed

section \<open>An admission that admits\<close>

definition demo_trust :: TrustOptions where
  "demo_trust = \<lparr>to_Profiles = [''p''], to_StopList = True, to_IDPrefix = [], to_DefaultTTL = 0\<rparr>"

definition demo_admission :: Admission where
  "demo_admission =
     \<lparr>ta_signer = ring_signer demo_keys, ta_signingKID = ''k'', ta_profiles = {''p''}, ta_stopList = True,
      ta_idPrefix = ''att-'', ta_defaultTTL = Attestation_DefaultTTL, ta_counter = 0\<rparr>"

definition demo_request :: RecoveryRequest where
  "demo_request = \<lparr>RQ_SchemaVersion = 1, RQ_RequestID = ''r'', RQ_GenomeID = ''g'', RQ_PolicyProfile = ''p'',
     RQ_RequesterIdentity = ''i'', RQ_Contour = Map.empty, RQ_CreatedAt = 5\<rparr>"

definition demo_peer :: "unit Peer" where
  "demo_peer = \<lparr>pe_Provider = ProviderGCPSEVSNP, pe_Measurement = zeros 48, pe_RemoteAddr = [], pe_EvidenceAt = 5, pe_Detail = None\<rparr>"

definition demo_stop :: "bool \<Rightarrow> RevocationList" where
  "demo_stop all = \<lparr>RL_Schema = RevocationSchema, RL_Serial = 3, RL_IssuedAt = 5, RL_StopAll = all,
     RL_RevokedMeasurements = [], RL_Reason = [], RL_SigningKeyID = ''op'', RL_Alg = [], RL_Signature = []\<rparr>"

lemma sint_DefaultTTL: "sint Attestation_DefaultTTL = 300000000000"
  by (simp add: Attestation_DefaultTTL_def Second_def)

lemma demo_admission_new: "NewAdmission (Some ()) (Some (ring_signer demo_keys)) ''k'' demo_trust = Inr demo_admission"
  by (simp add: NewAdmission_def demo_trust_def demo_admission_def Let_def sint_DefaultTTL)

lemma trust_result_signs:
  assumes "live_signer (ta_signer a) (ta_signingKID a) PurposeSigningAuthority" "ascii (ta_idPrefix a)" "ascii (RQ_RequestID req)"
    and "ascii (fst v)" "fst v \<in> set validOutcomes" "ascii (fst (snd v))" "fst (snd v) \<noteq> []" "RQ_RequestID req \<noteq> []"
    and "0 < sint ttl" "now \<noteq> zero_time" "marshal_time now \<noteq> None"
  shows "\<exists>d. sign_decision F a req peer v ttl now = Inr d"
proof -
  let ?ct = AttestationResult_contract and ?res = "trust_result a req v ttl now"
  obtain alg where alg: "keys_RecordAlg (ta_signer a) (ta_signingKID a) = Inr alg" "ascii alg"
    using assms(1) by (auto simp: live_signer_def)
  have fmt: "ascii (fmt_016x n)" "fmt_016x n \<noteq> []" for n
    by (simp_all add: fmt_016x_def) (metis length_PutUint(3) length_hex_encode list.size(3) mult_eq_0_iff numeral_eq_iff zero_neq_numeral)
  have "\<exists>sig. contract_SignWith ?ct F ?res (ta_signer a) = (None, ct_SetSig ?ct sig (ct_SetAlg ?ct alg ?res)) \<and> sig \<noteq> []"
  proof (rule attestation_result.SignWith_live)
    show "contract_clean ?ct (ct_SetAlg ?ct alg ?res)"
      using assms alg(2) fmt sint_range [of ttl] by (simp add: contract_clean_def AttestationResult_contract_def AttestationResult_fields_def
          fields_ok_def trust_result_def sint_range live_signer_def)
    show "in_years (ct_Wire ?ct (ct_SetSig ?ct [] (ct_SetAlg ?ct alg ?res)))"
      using assms by (simp add: AttestationResult_contract_def AttestationResult_fields_def in_years_def trust_result_def)
  qed (use assms(1) alg in \<open>auto simp: live_signer_def AttestationResult_contract_def trust_result_def\<close>)
  then obtain sig where sig: "AttestationResult_SignWith F ?res (ta_signer a) = (None, ?res\<lparr>AR_Alg := alg, AR_Signature := sig\<rparr>)"
      "sig \<noteq> []"
    by (auto simp: AttestationResult_SignWith_def AttestationResult_contract_def)
  have "AttestationResult_Validate (?res\<lparr>AR_Alg := alg, AR_Signature := sig\<rparr>) = None"
    using assms sig(2) fmt by (simp add: AttestationResult_Validate_def trust_result_def schema_gate_def live_signer_def)
  then show ?thesis using sig(1) by (simp add: sign_decision_def)
qed

lemma demo_evaluates: "\<exists>d a'. Evaluate F demo_admission (Inr (demo_stop stop)) demo_request demo_peer 0 5 = (Inr d, a')"
proof -
  let ?v = "if stop then (OutcomeDeny, ReasonOperatorStop, snd (Denies (demo_stop stop) ProviderGCPSEVSNP (zeros 48)), 3)
            else (OutcomeAllow, [], [], 3)"
  let ?a = "demo_admission\<lparr>ta_counter := ta_counter demo_admission + 1\<rparr>" and ?w = "profile_verdict demo_admission demo_request demo_peer ?v"
  have v: "stop_verdict demo_admission (Inr (demo_stop stop)) demo_peer = Inr ?v"
    by (simp add: stop_verdict_def demo_admission_def demo_peer_def demo_stop_def Denies_def zeros_def)
  have "fst ?w \<in> {OutcomeAllow, OutcomeDeny} \<and> fst (snd ?w) \<noteq> [] \<and> ascii (fst (snd ?w))"
    using verdict_outcome [OF v, of demo_request] by (auto simp: profile_verdict_def reason_defs)
  moreover have "marshal_time 5 \<noteq> None" by (simp add: marshal_time_def day_of_def epoch_days_def days_before_year_def)
  moreover have "ta_signer ?a = ring_signer demo_keys" "ta_signingKID ?a = ''k''" "ascii (ta_idPrefix ?a)"
      "ascii (RQ_RequestID demo_request)" "RQ_RequestID demo_request \<noteq> []" "ta_defaultTTL demo_admission = Attestation_DefaultTTL"
    by (simp_all add: demo_admission_def demo_request_def)
  ultimately have "\<exists>d :: unit TrustDecision. sign_decision F ?a demo_request demo_peer ?w Attestation_DefaultTTL 5 = Inr d"
    using demo_signers_live(2)
    by (intro trust_result_signs) (auto simp: validOutcomes_def sint_DefaultTTL zero_time_def OutcomeAllow_def OutcomeDeny_def)
  moreover have "RecoveryRequest_Validate demo_request = None"
    by (simp add: RecoveryRequest_Validate_def schema_gate_def demo_request_def zero_time_def)
  ultimately show ?thesis
    using v by (auto simp: Evaluate_def sint_DefaultTTL \<open>ta_defaultTTL demo_admission = _\<close> Let_def)
qed

text \<open>The theorem applied to an admission that admits.\<close>

theorem admission_allows_only_attested_peers_witness:
  "\<exists>d a'. Evaluate (\<lambda>n. Inr None) demo_admission (Inr (demo_stop False)) demo_request demo_peer 0 5 = (Inr d, a') \<and>
    td_Allowed d \<and> AR_Outcome (td_Result d) = OutcomeAllow"
proof -
  obtain d a' where d: "Evaluate (\<lambda>n. Inr None) demo_admission (Inr (demo_stop False)) demo_request demo_peer 0 5 = (Inr d, a')"
    using demo_evaluates by blast
  from admission_allows_only_attested_peers [OF demo_admission_new demo_keys_ok, of "\<lambda>n. Inr None" "[]", simplified, OF d]
  have "td_Allowed d" by (simp add: demo_peer_def demo_request_def demo_trust_def demo_stop_def zeros_def)
  moreover from this have "AR_Outcome (td_Result d) = OutcomeAllow"
    using admission_allows_only_attested_peers [OF demo_admission_new demo_keys_ok, of "\<lambda>n. Inr None" "[]", simplified, OF d] by simp
  ultimately show ?thesis using d by blast
qed

section \<open>The stop\<close>

text \<open>C31: An operator's stop holds everywhere it is consulted: a list that stops everything, or that names the
  peer's measurement under its provider, is denied at every admission with the list's serial and the
  reason on record, and no policy behind the release gate can authorize a key to that peer.\<close>

theorem stop_list_stops_admission_and_release:
  assumes "NewAdmission clock (Some sg) kid opts = Inr a0" "to_StopList opts"
    and "RL_StopAll l \<or> (\<exists>hs. map_of (RL_RevokedMeasurements l) (pe_Provider peer) = Some hs \<and> hex_encode (pe_Measurement peer) \<in> set hs)"
    and "pe_Measurement peer \<noteq> []"
    and "Evaluate F (admission_run F a0 calls) (Inr l) req peer ttl now = (Inr d, a')"
  shows "\<not> td_Allowed d \<and> AR_Outcome (td_Result d) = OutcomeDeny \<and> td_StopSerial d = RL_Serial l \<and>
    AR_Reason (td_Result d) = (if RL_StopAll l then ReasonOperatorStop else ReasonMeasurementRevoked) \<and>
    (\<forall>inner did kids. \<not> authorized (RevocationGate l inner) (pe_Provider peer) (pe_Measurement peer) did kids)"
  using assms(5)
proof (rule Evaluate_Inr)
  let ?a = "admission_run F a0 calls"
  fix v w res
  assume v: "stop_verdict ?a (Inr l) peer = Inr v" and w: "w = profile_verdict ?a req peer v"
    and res: "res = trust_result (?a\<lparr>ta_counter := ta_counter ?a + 1\<rparr>) req w (if ttl = 0 then ta_defaultTTL ?a else ttl) now"
    and sign: "AttestationResult_SignWith F res (ta_signer ?a) = (None, td_Result d)"
    and d: "td_Allowed d = (fst w = OutcomeAllow)" "td_StopSerial d = snd (snd (snd w))"
  have denied: "fst (Denies l (pe_Provider peer) (pe_Measurement peer))"
    using assms(3) by (simp add: Denies_iff)
  moreover have "ta_stopList ?a"
    using NewAdmission_ok [OF assms(1)] assms(2) by (simp add: admission_run_fields)
  ultimately have "w = (OutcomeDeny, if RL_StopAll l then ReasonOperatorStop else ReasonMeasurementRevoked,
      snd (Denies l (pe_Provider peer) (pe_Measurement peer)), RL_Serial l)"
    using v assms(4) by (cases "Denies l (pe_Provider peer) (pe_Measurement peer)")
      (auto simp: stop_verdict_def w profile_verdict_def)
  then show ?thesis
    using d attestation_signed_fields [OF sign] stop_gate.gate_narrows [of l] denied
    by (simp add: res trust_result_def)
qed

theorem stop_list_stops_admission_and_release_witness:
  "\<exists>d a'. Evaluate (\<lambda>n. Inr None) demo_admission (Inr (demo_stop True)) demo_request demo_peer 0 5 = (Inr d, a') \<and>
    \<not> td_Allowed d \<and> td_StopSerial d = 3 \<and> AR_Reason (td_Result d) = ReasonOperatorStop"
proof -
  obtain d a' where d: "Evaluate (\<lambda>n. Inr None) demo_admission (Inr (demo_stop True)) demo_request demo_peer 0 5 = (Inr d, a')"
    using demo_evaluates by blast
  from stop_list_stops_admission_and_release [OF demo_admission_new, of "demo_stop True" demo_peer "\<lambda>n. Inr None" "[]", simplified, OF _ _ _ d]
  show ?thesis using d by (auto simp: demo_trust_def demo_stop_def demo_peer_def zeros_def)
qed

text \<open>C32: A stop cannot be undone by putting an earlier list back: once a release decision made behind a gate
  is on record with its policy version, every list of a lower serial is refused, and a list is refused
  only for a release decision on record that names a higher serial.\<close>

theorem stop_list_cannot_be_rolled_back:
  "(\<forall>e \<in> set es. \<forall>l' inner. AE_Kind e \<in> set release_kinds \<and> U (AE_Payload e) = Some (kp_PolicyVersion (RevocationGate l' inner)) \<and>
      RL_Serial l < RL_Serial l' \<longrightarrow> (\<exists>m. CheckNotRolledBack U l es = Some (PlainError m None))) \<and>
   (CheckNotRolledBack U l es \<noteq> None \<longrightarrow>
      (\<exists>e \<in> set es. \<exists>v n. AE_Kind e \<in> set release_kinds \<and> U (AE_Payload e) = Some v \<and>
         serialInPolicyVersion v = Some n \<and> RL_Serial l < n))"
proof -
  have low: "RL_Serial l < HighestSerial U es"
    if "e \<in> set es" "AE_Kind e \<in> set release_kinds" "U (AE_Payload e) = Some (kp_PolicyVersion (RevocationGate l' inner))"
      "RL_Serial l < RL_Serial l'" for e l' inner
  proof -
    have "RL_Serial l' \<le> HighestSerial U es"
      using conjunct2 [OF HighestSerial_loop_max [where U = U and h = 0 and es = es]] that(1-3) gate_names_serial [of l' inner]
      unfolding HighestSerial_def by auto
    with that(4) show ?thesis by simp
  qed
  have "\<exists>e \<in> set es. \<exists>v n. AE_Kind e \<in> set release_kinds \<and> U (AE_Payload e) = Some v \<and>
         serialInPolicyVersion v = Some n \<and> RL_Serial l < n" if "CheckNotRolledBack U l es \<noteq> None"
  proof -
    have "RL_Serial l < HighestSerial_loop U 0 es"
      using that by (simp add: CheckNotRolledBack_def Let_def HighestSerial_def chk_def split: if_splits)
    with HighestSerial_attained [of U 0 es] show ?thesis by auto
  qed
  then show ?thesis
    using low by (auto simp: CheckNotRolledBack_def Let_def errorsNew_def)
qed

theorem stop_list_cannot_be_rolled_back_witness:
  "\<exists>m. CheckNotRolledBack (\<lambda>p. Some (kp_PolicyVersion (RevocationGate (demo_stop True) (allow_list \<lparr>al_version = ''v'', al_allowed = []\<rparr>))))
     (demo_stop False\<lparr>RL_Serial := 2\<rparr>) [demo_event\<lparr>AE_Kind := ''KEY_RELEASE_DENIED''\<rparr>] = Some (PlainError m None)"
  using conjunct1 [OF stop_list_cannot_be_rolled_back [where es = "[demo_event\<lparr>AE_Kind := ''KEY_RELEASE_DENIED''\<rparr>]"
      and U = "\<lambda>p. Some (kp_PolicyVersion (RevocationGate (demo_stop True) (allow_list \<lparr>al_version = ''v'', al_allowed = []\<rparr>)))"
      and l = "demo_stop False\<lparr>RL_Serial := 2\<rparr>"]]
  by (auto simp: release_kinds_def demo_stop_def)

section \<open>The meaning of a revocation\<close>

text \<open>For a stop list in the canonical spelling, the release gate refuses exactly what the list means: every
  measurement an entry decodes to, at the provider its name parses to, or everything under a stop.\<close>

theorem gate_enforces_the_lists_meaning:
  assumes "canonical_spelling l"
  shows "authorized (RevocationGate l inner) kind m did kids \<longleftrightarrow>
    \<not> RL_StopAll l \<and> \<not> revokes l kind m \<and> authorized inner kind m did kids"
  using Denies_revokes [OF assms] stop_gate.gate_narrows [of l] by simp

definition demo_revocation :: "string \<Rightarrow> RevocationList" where
  "demo_revocation name = demo_stop False\<lparr>RL_RevokedMeasurements := [(name, [hex_encode (zeros 48)])]\<rparr>"

lemma parse_names:
  "ParseProvider ''sev-snp'' = Inr ProviderGCPSEVSNP" "ParseProvider ProviderGCPSEVSNP = Inr ProviderGCPSEVSNP"
  by code_simp+

theorem gate_enforces_the_lists_meaning_witness:
  "\<forall>inner did kids. \<not> authorized (RevocationGate (demo_revocation ProviderGCPSEVSNP) inner) ProviderGCPSEVSNP (zeros 48) did kids"
  using gate_enforces_the_lists_meaning [of "demo_revocation ProviderGCPSEVSNP" _ ProviderGCPSEVSNP "zeros 48"]
  by (simp add: canonical_spelling_def demo_revocation_def revokes_def parse_names)

text \<open>Outside that spelling a revocation is accepted and has no effect: the operator signs a list that names
  a measurement under the family name \<open>sev-snp\<close>, the list validates and parses under the operator's key,
  it revokes the measurement at \<open>gcp-sev-snp\<close> by its own meaning, and the gate answers every request to
  that destination as if there were no list.\<close>

theorem revocation_by_family_name_is_ignored:
  assumes "prims_ok P" "key_ok P k" "RL_RevokedMeasurements l = [(''sev-snp'', [hex_encode m])]" "\<not> RL_StopAll l"
    and "RevocationList_Sign F P l (Some k) = Inr l'" "D raw = Inr l'"
  shows "RevocationList_Parse F P D raw (SigningKey_Public P k) (RL_SigningKeyID l) = Inr l' \<and>
    revokes l' ProviderGCPSEVSNP m \<and>
    kp_AuthorizeKeyRelease (RevocationGate l' inner) ProviderGCPSEVSNP m did kids =
    kp_AuthorizeKeyRelease inner ProviderGCPSEVSNP m did kids"
proof -
  have l': "RL_RevokedMeasurements l' = [(''sev-snp'', [hex_encode m])]" "\<not> RL_StopAll l'"
    using assms(3-5) by (auto elim!: RevocationList_Sign_ok)
  then have "\<not> fst (Denies l' ProviderGCPSEVSNP m)" by (simp add: Denies_iff ProviderGCPSEVSNP_def)
  with signed_stop_list_parses [OF assms(1,2,5), of D raw, OF assms(6)] stop_gate.passed [of l'] l' show ?thesis
    by (simp add: revokes_def parse_names)
qed

definition demo_operator :: SigningKey where
  "demo_operator = \<lparr>SK_suite = SuiteEd25519, SK_priv = Some (zeros 32)\<rparr>"

lemma demo_revocation_signs: "\<exists>l'. RevocationList_Sign F plain_prims (demo_revocation ''sev-snp'') (Some demo_operator) = Inr l'"
proof -
  let ?l = "demo_revocation ''sev-snp''" and ?r = RevocationList_record
  have "RevocationList_validate ?l = None"
    by (simp add: RevocationList_validate_def demo_revocation_def demo_stop_def zero_time_def RecordSuite_def parse_names
        MeasurementFromBytes_def)
  moreover have "\<exists>msg. signedBytes ?r F ?l = Inr msg"
  proof (rule stop_list.signedBytes_total)
    show "contract_clean ?r ?l"
      by (simp add: contract_clean_def RevocationList_record_def RevocationList_fields_def fields_ok_def demo_revocation_def
          demo_stop_def revoked_json_def json_strs_def RevocationSchema_def)
    show "in_years (ct_Wire ?r (ct_SetSig ?r [] ?l))"
      by (simp add: RevocationList_record_def RevocationList_fields_def in_years_def demo_revocation_def
          demo_stop_def marshal_time_def day_of_def epoch_days_def days_before_year_def)
  qed
  ultimately show ?thesis
    by (auto simp: RevocationList_Sign_def Let_def demo_operator_def RecordAlg_def demo_revocation_def demo_stop_def
        RevocationSchema_def RevocationList_signedBytes_def SigningKey_Sign_def)
qed

theorem revocation_by_family_name_is_ignored_witness:
  "\<exists>l'. RevocationList_Parse (\<lambda>n. Inr None) plain_prims (\<lambda>raw. Inr l') [] (SigningKey_Public plain_prims demo_operator) ''op'' = Inr l' \<and>
    revokes l' ProviderGCPSEVSNP (zeros 48) \<and>
    (\<forall>inner did kids. kp_AuthorizeKeyRelease (RevocationGate l' inner) ProviderGCPSEVSNP (zeros 48) did kids =
       kp_AuthorizeKeyRelease inner ProviderGCPSEVSNP (zeros 48) did kids)"
proof -
  obtain l' where "RevocationList_Sign (\<lambda>n. Inr None) plain_prims (demo_revocation ''sev-snp'') (Some demo_operator) = Inr l'"
    using demo_revocation_signs by blast
  from revocation_by_family_name_is_ignored [OF plain_prims_ok _ _ _ this, of "zeros 48" "\<lambda>raw. Inr l'" "[]"]
  show ?thesis
    using key_ok_ed25519 [OF plain_prims_ok, of "zeros 32"]
    by (auto simp: demo_operator_def demo_revocation_def demo_stop_def)
qed

end
