(* ===== verification/SentinelRecords.thy ===== *)
theory SentinelRecords
  imports OperatorRecords Tee LiveSigners
begin

text \<open>
  What a sentinel writes to its outbox (src/internal/genome/sentinel/records.go): seal records, heartbeats
  and compromise reports, each with its gate, its signature by the sentinel's key and its optional
  attestation by the primary's hardware. \<open>D\<close> stands for \<open>encoding/json\<close>'s decoding of a record file
  (unknown fields and trailing data refused).

  The operations that the three kinds share (the interface \<open>signable\<close>) are written once over a record
  \<open>signable\<close> of accessors; the locale \<open>attested_record\<close> holds its laws: the nonce of an attestation fixes
  the record's content, so evidence made for one record does not fit another.
\<close>

section \<open>Names\<close>

definition BundleName :: "u64 \<Rightarrow> string" where
  "BundleName g = ''gen-'' @ pad_zeros 6 (fmt_d (unat g)) @ ''.genome''"

definition EscrowName :: "u64 \<Rightarrow> string" where
  "EscrowName g = BundleName g @ ''.escrow''"

definition RecordName :: "u64 \<Rightarrow> string" where
  "RecordName g = ''gen-'' @ pad_zeros 6 (fmt_d (unat g)) @ ''.seal.json''"

text \<open>The regular expressions of the package, as checks on the whole text.\<close>

definition is_hex_digest :: "string \<Rightarrow> bool" where
  "is_hex_digest s \<longleftrightarrow> length s = 64 \<and> is_lower_hex s"

definition is_sentinel_id :: "string \<Rightarrow> bool" where
  "is_sentinel_id s \<longleftrightarrow> take 9 s = ''sentinel-'' \<and> length s = 25 \<and> is_lower_hex (drop 9 s)"

text \<open>\<open>bundle.IsKeyID\<close>: \<open>genome-\<close>, 12 hex digits, \<open>-g\<close>, a decimal number, \<open>-\<close>, 12 hex digits.\<close>

definition IsKeyID :: "string \<Rightarrow> bool" where
  "IsKeyID s \<longleftrightarrow>
     (let n = length s - 34 in
      34 < length s \<and> take 7 s = ''genome-'' \<and> is_lower_hex (take 12 (drop 7 s)) \<and> take 2 (drop 19 s) = ''-g'' \<and>
      list_all is_digit (take n (drop 21 s)) \<and> s ! (21 + n) = CHR ''-'' \<and> is_lower_hex (drop (22 + n) s))"

definition sentinel_KeyID :: "SuitePublicKey \<Rightarrow> string" where
  "sentinel_KeyID pub = ''sentinel-'' @ hex_encode (take 8 (SHA256 (SP_Bytes pub)))"

lemma sentinel_KeyID_ok [simp]: "is_sentinel_id (sentinel_KeyID pub)"
  by (simp add: is_sentinel_id_def sentinel_KeyID_def SHA256_length HashSize_def)

section \<open>Attestations and links\<close>

record Attestation =
  AT_Kind :: string
  AT_Evidence :: Evidence

definition Attestation_validate :: "Attestation option \<Rightarrow> go_error option" where
  "Attestation_validate att =
     (case att of
        None \<Rightarrow> None
      | Some a \<Rightarrow>
          first_err
            [(case ParseProvider (AT_Kind a) of Inl err \<Rightarrow> Some (wrapf ''sentinel: attestation kind'' err) | Inr p \<Rightarrow> None),
             chk (AT_Evidence a = []) (errorsNew ''sentinel: attestation without evidence'')])"

definition attestation_json :: "Attestation option \<Rightarrow> jval option" where
  "attestation_json att =
     map_option (\<lambda>a. JObj [(''evidence'', json_bytes (AT_Evidence a)), (''kind'', JStr (AT_Kind a))]) att"

record Link =
  LK_Generation :: u64
  LK_BundleSHA256 :: string
  LK_SealedAt :: gotime

definition Link_validate :: "Link option \<Rightarrow> go_error option" where
  "Link_validate l =
     (case l of
        None \<Rightarrow> None
      | Some k \<Rightarrow> chk (\<not> is_hex_digest (LK_BundleSHA256 k) \<or> LK_SealedAt k = zero_time) (errorsNew ''sentinel: malformed link''))"

definition link_json :: "Link option \<Rightarrow> go_error + jval option" where
  "link_json l =
     (case l of
        None \<Rightarrow> Inr None
      | Some k \<Rightarrow> bindR (json_time (LK_SealedAt k)) (\<lambda>t. Inr (Some (JObj
          [(''bundle_sha256'', JStr (LK_BundleSHA256 k)), (''generation'', JNum (fmt_d (unat (LK_Generation k)))), (''sealed_at'', t)]))))"

definition err_schema :: "string \<Rightarrow> string \<Rightarrow> go_error" where
  "err_schema got want = errorsNew (''sentinel: schema '' @ fmt_q got @ '', want '' @ fmt_q want)"

definition err_sentinel :: "string \<Rightarrow> go_error" where
  "err_sentinel s = errorsNew (''sentinel: '' @ fmt_q s @ '' is not a sentinel key id'')"

lemma attestation_json_inj: "attestation_json a = attestation_json b \<longleftrightarrow> a = b"
  by (cases a; cases b) (auto simp: attestation_json_def json_bytes_inj intro: Attestation.equality)

lemma link_json_inj: "link_json a = Inr j \<Longrightarrow> link_json b = Inr j \<Longrightarrow> a = b"
  by (cases a; cases b)
    (auto simp: link_json_def word_unat_eq_iff dest: json_time_inj fmt_d_inj intro!: Link.equality)

section \<open>The three records\<close>

record SealRecord =
  SE_Schema :: string
  SE_Sentinel :: string
  SE_Generation :: u64
  SE_Bundle :: string
  SE_BundleSHA256 :: string
  SE_BundleBytes :: i64
  SE_KeyID :: string
  SE_Escrow :: string
  SE_EscrowKey :: string
  SE_PayloadSHA256 :: string
  SE_ParentBundleSHA256 :: string
  SE_SealedAt :: gotime
  SE_Attestation :: "Attestation option"
  SE_Alg :: SignatureSuite
  SE_Signature :: bytes

definition SealSchema :: string where
  "SealSchema = ''vault-genome/seal-record/v1''"

definition SealRecord_Link :: "SealRecord \<Rightarrow> Link" where
  "SealRecord_Link r = \<lparr>LK_Generation = SE_Generation r, LK_BundleSHA256 = SE_BundleSHA256 r, LK_SealedAt = SE_SealedAt r\<rparr>"

definition SealRecord_validate :: "SealRecord \<Rightarrow> go_error option" where
  "SealRecord_validate r =
     first_err
       [chk (SE_Schema r \<noteq> SealSchema) (err_schema (SE_Schema r) SealSchema),
        chk (\<not> is_sentinel_id (SE_Sentinel r)) (err_sentinel (SE_Sentinel r)),
        chk (SE_Bundle r \<noteq> BundleName (SE_Generation r) \<or> SE_Escrow r \<noteq> EscrowName (SE_Generation r))
          (errorsNew (''sentinel: generation '' @ fmt_d (unat (SE_Generation r)) @ '' names files '' @ fmt_q (SE_Bundle r) @
            '' and '' @ fmt_q (SE_Escrow r))),
        chk (\<not> is_hex_digest (SE_BundleSHA256 r) \<or> sint (SE_BundleBytes r) \<le> 0)
          (errorsNew ''sentinel: bundle digest and size required''),
        chk (\<not> IsKeyID (SE_KeyID r)) (errorsNew (''sentinel: '' @ fmt_q (SE_KeyID r) @ '' is not a genome key id'')),
        chk (SE_EscrowKey r = []) (errorsNew ''sentinel: escrow key tag required''),
        chk (length (SE_PayloadSHA256 r) \<noteq> 71) (errorsNew ''sentinel: payload digest required''),
        chk ((SE_Generation r > 0) \<noteq> (SE_ParentBundleSHA256 r \<noteq> []))
          (errorsNew ''sentinel: a parent is named exactly when the generation is above 0''),
        chk (SE_ParentBundleSHA256 r \<noteq> [] \<and> \<not> is_hex_digest (SE_ParentBundleSHA256 r))
          (errorsNew ''sentinel: malformed parent digest''),
        chk (SE_SealedAt r = zero_time) (errorsNew ''sentinel: sealed_at required''),
        Attestation_validate (SE_Attestation r)]"

definition SealRecord_fields :: "SealRecord \<Rightarrow> (string \<times> wire) list" where
  "SealRecord_fields r =
     [(''alg'', WOpt (SE_Alg r)),
      (''attestation'', WTree (Inr (attestation_json (SE_Attestation r)))),
      (''bundle'', WStr (SE_Bundle r)),
      (''bundle_bytes'', WInt (sint (SE_BundleBytes r))),
      (''bundle_sha256'', WStr (SE_BundleSHA256 r)),
      (''escrow'', WStr (SE_Escrow r)),
      (''escrow_key'', WStr (SE_EscrowKey r)),
      (''generation'', WNum (unat (SE_Generation r))),
      (''key_id'', WStr (SE_KeyID r)),
      (''parent_bundle_sha256'', WOpt (SE_ParentBundleSHA256 r)),
      (''payload_sha256'', WStr (SE_PayloadSHA256 r)),
      (''schema'', WStr (SE_Schema r)),
      (''sealed_at'', WTime (SE_SealedAt r)),
      (''sentinel'', WStr (SE_Sentinel r)),
      (''signature'', WTree (Inr (opt_bytes (SE_Signature r))))]"

record Heartbeat =
  HB_Schema :: string
  HB_Sentinel :: string
  HB_Seq :: u64
  HB_At :: gotime
  HB_StartedAt :: gotime
  HB_Status :: string
  HB_Last :: "Link option"
  HB_Wires :: i64
  HB_Attestation :: "Attestation option"
  HB_Alg :: SignatureSuite
  HB_Signature :: bytes

definition HeartbeatSchema :: string where
  "HeartbeatSchema = ''vault-genome/heartbeat/v1''"

definition StatusWatching :: string where
  "StatusWatching = ''watching''"

definition StatusStopped :: string where
  "StatusStopped = ''stopped''"

definition StatusCompromised :: string where
  "StatusCompromised = ''compromised''"

lemmas status_defs = StatusWatching_def StatusStopped_def StatusCompromised_def

definition Heartbeat_validate :: "Heartbeat \<Rightarrow> go_error option" where
  "Heartbeat_validate h =
     first_err
       [chk (HB_Schema h \<noteq> HeartbeatSchema) (err_schema (HB_Schema h) HeartbeatSchema),
        chk (\<not> is_sentinel_id (HB_Sentinel h)) (err_sentinel (HB_Sentinel h)),
        chk (HB_Seq h = 0 \<or> HB_At h = zero_time \<or> HB_StartedAt h = zero_time)
          (errorsNew ''sentinel: heartbeat seq, at and started_at required''),
        chk (HB_Status h \<notin> {StatusWatching, StatusStopped, StatusCompromised})
          (errorsNew (''sentinel: heartbeat status '' @ fmt_q (HB_Status h))),
        Attestation_validate (HB_Attestation h),
        Link_validate (HB_Last h)]"

definition Heartbeat_fields :: "Heartbeat \<Rightarrow> (string \<times> wire) list" where
  "Heartbeat_fields h =
     [(''alg'', WOpt (HB_Alg h)),
      (''at'', WTime (HB_At h)),
      (''attestation'', WTree (Inr (attestation_json (HB_Attestation h)))),
      (''last'', WTree (link_json (HB_Last h))),
      (''schema'', WStr (HB_Schema h)),
      (''sentinel'', WStr (HB_Sentinel h)),
      (''seq'', WNum (unat (HB_Seq h))),
      (''signature'', WTree (Inr (opt_bytes (HB_Signature h)))),
      (''started_at'', WTime (HB_StartedAt h)),
      (''status'', WStr (HB_Status h)),
      (''wires'', WInt (sint (HB_Wires h)))]"

record Trip =
  TP_Wire :: string
  TP_Target :: string
  TP_Want :: string
  TP_Got :: string
  TP_Detail :: string

definition opt_member :: "string \<Rightarrow> string \<Rightarrow> (string \<times> jval) list" where
  "opt_member k s = (if s = [] then [] else [(k, JStr s)])"

definition trip_json :: "Trip \<Rightarrow> jval" where
  "trip_json t = JObj (opt_member ''detail'' (TP_Detail t) @ [(''got'', JStr (TP_Got t)), (''target'', JStr (TP_Target t))] @
     opt_member ''want'' (TP_Want t) @ [(''wire'', JStr (TP_Wire t))])"

definition trips_json :: "Trip list \<Rightarrow> jval" where
  "trips_json ts = (if ts = [] then JNull else JArr (map trip_json ts))"

record Compromise =
  CR_Schema :: string
  CR_Sentinel :: string
  CR_DetectedAt :: gotime
  CR_Tripped :: "Trip list"
  CR_Last :: "Link option"
  CR_Attestation :: "Attestation option"
  CR_Alg :: SignatureSuite
  CR_Signature :: bytes

definition CompromiseSchema :: string where
  "CompromiseSchema = ''vault-genome/compromise/v1''"

definition Compromise_validate :: "Compromise \<Rightarrow> go_error option" where
  "Compromise_validate c =
     first_err
       [chk (CR_Schema c \<noteq> CompromiseSchema) (err_schema (CR_Schema c) CompromiseSchema),
        chk (\<not> is_sentinel_id (CR_Sentinel c)) (err_sentinel (CR_Sentinel c)),
        chk (CR_DetectedAt c = zero_time \<or> CR_Tripped c = [])
          (errorsNew ''sentinel: a compromise report names when and which wires''),
        Attestation_validate (CR_Attestation c),
        Link_validate (CR_Last c)]"

definition Compromise_fields :: "Compromise \<Rightarrow> (string \<times> wire) list" where
  "Compromise_fields c =
     [(''alg'', WOpt (CR_Alg c)),
      (''attestation'', WTree (Inr (attestation_json (CR_Attestation c)))),
      (''detected_at'', WTime (CR_DetectedAt c)),
      (''last'', WTree (link_json (CR_Last c))),
      (''schema'', WStr (CR_Schema c)),
      (''sentinel'', WStr (CR_Sentinel c)),
      (''signature'', WTree (Inr (opt_bytes (CR_Signature c)))),
      (''tripped'', WTree (Inr (Some (trips_json (CR_Tripped c)))))]"

lemma trips_json_inj: "trips_json s = trips_json t \<longleftrightarrow> s = t"
proof -
  have "x = y" if "trip_json x = trip_json y" for x y
    using that by (auto simp: trip_json_def opt_member_def split: if_splits intro!: Trip.equality)
  then have "inj trip_json" by (auto simp: inj_def)
  then show ?thesis by (auto simp: trips_json_def)
qed

text \<open>
  The signing and attesting of sentinel records (the second half of
  src/internal/genome/sentinel/records.go): one set of operations over the interface \<open>signable\<close>, here a
  record of accessors, and its three instances.
\<close>

record 'r signable =
  sn_record :: "'r contract"
  sn_Attestation :: "'r \<Rightarrow> Attestation option"
  sn_SetAttestation :: "Attestation option \<Rightarrow> 'r \<Rightarrow> 'r"

definition sn_validate :: "'r signable \<Rightarrow> 'r \<Rightarrow> go_error option" where
  "sn_validate sn = ct_Validate (sn_record sn)"

text \<open>\<open>v.unattested()\<close>: what an attestation covers, the record without signature, suite and attestation.\<close>

definition unattested :: "'r signable \<Rightarrow> 'r \<Rightarrow> 'r" where
  "unattested sn v = ct_SetSig (sn_record sn) [] (ct_SetAlg (sn_record sn) [] (sn_SetAttestation sn None v))"

definition attestationNonce :: "'r signable \<Rightarrow> floats \<Rightarrow> 'r \<Rightarrow> go_error + Nonce" where
  "attestationNonce sn F v = CanonicalJSON F (marshal_wire (ct_Wire (sn_record sn) (unattested sn v)))"

definition attest :: "'r signable \<Rightarrow> floats \<Rightarrow> 'r \<Rightarrow> tee_Producer \<Rightarrow> Provider \<Rightarrow> go_error + Attestation" where
  "attest sn F v producer kind =
     guardR (sn_validate sn v)
       (bindR (attestationNonce sn F v) (\<lambda>nonce.
          case producer nonce of
            Inl err \<Rightarrow> Inl (wrapf ''sentinel: attest'' err)
          | Inr ev \<Rightarrow> Inr \<lparr>AT_Kind = kind, AT_Evidence = ev\<rparr>))"

definition ErrUnattested :: go_error where
  "ErrUnattested = errorsNew ''sentinel: the record carries no attestation''"

definition verifyAttestation :: "'r signable \<Rightarrow> floats \<Rightarrow> 'r \<Rightarrow> tee_Verifier option \<Rightarrow> go_error + Measurement" where
  "verifyAttestation sn F v verifier =
     (case sn_Attestation sn v of
        None \<Rightarrow> Inl ErrUnattested
      | Some att \<Rightarrow>
          (case verifier of
             None \<Rightarrow> Inl (errorsNew ''sentinel: no verifier for the record's attestation'')
           | Some vf \<Rightarrow>
               bindR (attestationNonce sn F v) (\<lambda>nonce.
                 case vf (AT_Evidence att) nonce of
                   Inl err \<Rightarrow> Inl (wrapf (''sentinel: the record's '' @ AT_Kind att @ '' attestation does not verify'') err)
                 | Inr m \<Rightarrow> Inr m)))"

definition signatureOver :: "'r signable \<Rightarrow> floats \<Rightarrow> prims \<Rightarrow> 'r \<Rightarrow> SigningKey \<Rightarrow> go_error + bytes" where
  "signatureOver sn F P v k =
     (let ct = sn_record sn; me = sentinel_KeyID (SigningKey_Public P k) in
      guardR
        (first_err
          [sn_validate sn v,
           chk (ct_KeyID ct v \<noteq> me) (errorsNew (''sentinel: record names '' @ ct_KeyID ct v @ '', the key is '' @ me)),
           chk (ct_Alg ct v \<noteq> RecordAlg (SK_suite k))
             (errorsNew (''sentinel: record names suite '' @ fmt_q (ct_Alg ct v) @ '', the key signs under '' @ SK_suite k))])
        (bindR (signedBytes ct F v) (\<lambda>msg. SigningKey_Sign P k msg)))"

definition sentinel_verify :: "'r signable \<Rightarrow> floats \<Rightarrow> prims \<Rightarrow> 'r \<Rightarrow> SuitePublicKey \<Rightarrow> go_error option" where
  "sentinel_verify sn F P v pub =
     (let ct = sn_record sn; me = sentinel_KeyID pub in
      case first_err
        [sn_validate sn v,
         chk (ct_KeyID ct v \<noteq> me)
           (errorsNew (''sentinel: signed by '' @ ct_KeyID ct v @ '', the pinned sentinel is '' @ me))] of
        Some err \<Rightarrow> Some err
      | None \<Rightarrow>
          (case signedBytes ct F v of
             Inl err \<Rightarrow> Some err
           | Inr msg \<Rightarrow>
               (case SuitePublicKey_VerifyRecord P pub (ct_Alg ct v) msg (ct_Sig ct v) of
                  Some err \<Rightarrow> Some (wrapf ''sentinel: signature does not verify under the pinned sentinel key'' err)
                | None \<Rightarrow> None)))"

text \<open>Signing: the suite is set from the key (and the schema, by the caller), then the signature.\<close>

definition sentinel_sign :: "'r signable \<Rightarrow> floats \<Rightarrow> prims \<Rightarrow> 'r \<Rightarrow> SigningKey \<Rightarrow> go_error + 'r" where
  "sentinel_sign sn F P v k =
     (let v1 = ct_SetAlg (sn_record sn) (RecordAlg (SK_suite k)) v
      in bindR (signatureOver sn F P v1 k) (\<lambda>sig. Inr (ct_SetSig (sn_record sn) sig v1)))"

definition sentinel_parse ::
    "'r signable \<Rightarrow> floats \<Rightarrow> prims \<Rightarrow> (bytes \<Rightarrow> go_error + 'r) \<Rightarrow> bytes \<Rightarrow> SuitePublicKey \<Rightarrow> go_error + 'r" where
  "sentinel_parse sn F P D raw pub =
     (case D raw of
        Inl err \<Rightarrow> Inl (wrapf ''sentinel: decode'' err)
      | Inr v \<Rightarrow> guardR (sentinel_verify sn F P v pub) (Inr v))"

section \<open>The laws of a signable record\<close>

locale attested_record = signed_contract "sn_record sn" for sn :: "'r signable" +
  assumes att_set: "sn_Attestation sn (sn_SetAttestation sn a r) = a"
    and att_kept: "sn_Attestation sn (ct_SetAlg (sn_record sn) g r) = sn_Attestation sn r"
      "sn_Attestation sn (ct_SetSig (sn_record sn) s r) = sn_Attestation sn r"
    and unattested_same: "unattested sn (sn_SetAttestation sn a r) = unattested sn r"
      "unattested sn (ct_SetAlg (sn_record sn) g r) = unattested sn r" "unattested sn (ct_SetSig (sn_record sn) s r) = unattested sn r"
    and clean_unattested: "contract_clean (sn_record sn) r \<Longrightarrow> contract_clean (sn_record sn) (unattested sn r)"
    and validate_sig: "sn_validate sn (ct_SetSig (sn_record sn) s r) = sn_validate sn r"
begin

lemma nonce_kept [simp]:
  "attestationNonce sn F (sn_SetAttestation sn a r) = attestationNonce sn F r"
  "attestationNonce sn F (ct_SetAlg (sn_record sn) g r) = attestationNonce sn F r"
  "attestationNonce sn F (ct_SetSig (sn_record sn) s r) = attestationNonce sn F r"
  by (simp_all add: attestationNonce_def unattested_same)

lemma nonce_is_signedBytes: "attestationNonce sn F r = signedBytes (sn_record sn) F (unattested sn r)"
  by (simp add: attestationNonce_def signedBytes_def unattested_def sig_set)

text \<open>The nonce fixes the content: everything but signature, suite and attestation.\<close>

lemma nonce_fixes:
  assumes "contract_clean (sn_record sn) a" "contract_clean (sn_record sn) b"
    and "attestationNonce sn F a = Inr n" "attestationNonce sn F b = Inr n"
  shows "unattested sn a = unattested sn b"
  using signed_bytes_fix [OF clean_unattested [OF assms(1)] clean_unattested [OF assms(2)], of F n] assms(3,4)
  unfolding nonce_is_signedBytes by (simp add: unattested_def sig_set)

text \<open>What the machine attested verifies as the machine's measurement, also after signing.\<close>

lemma attested_verifies:
  assumes "attestation_pair quote_ev verify_ev m" "attest sn F r quote_ev kind = Inr att"
    and "attestationNonce sn F r = Inr n" "length n < 2 ^ 32"
  shows "verifyAttestation sn F (ct_SetSig (sn_record sn) s (ct_SetAlg (sn_record sn) g (sn_SetAttestation sn (Some att) r))) (Some verify_ev) = Inr m"
proof -
  obtain ev where "quote_ev n = Inr ev" "AT_Evidence att = ev"
    using assms(2,3) by (auto simp: attest_def split: sum.splits)
  with attestation_pair.quoted_verifies [OF assms(1) this(1) assms(4)] assms(3) show ?thesis
    by (simp add: verifyAttestation_def att_set att_kept)
qed

text \<open>One piece of evidence vouches for one content.\<close>

lemma evidence_fits_one_record:
  assumes "attestation_pair quote_ev verify_ev m" "contract_clean (sn_record sn) a" "contract_clean (sn_record sn) b"
    and "verifyAttestation sn F a (Some verify_ev) = Inr x" "verifyAttestation sn F b (Some verify_ev) = Inr y"
    and "map_option AT_Evidence (sn_Attestation sn a) = map_option AT_Evidence (sn_Attestation sn b)"
  shows "unattested sn a = unattested sn b"
proof -
  have get: "\<exists>att n. sn_Attestation sn r = Some att \<and> attestationNonce sn F r = Inr n \<and> verify_ev (AT_Evidence att) n = Inr z"
    if "verifyAttestation sn F r (Some verify_ev) = Inr z" for r z
  proof (cases "sn_Attestation sn r")
    case (Some att)
    with that obtain n where "attestationNonce sn F r = Inr n" by (auto simp: verifyAttestation_def)
    with that Some show ?thesis by (cases "verify_ev (AT_Evidence att) n") (auto simp: verifyAttestation_def)
  qed (use that in \<open>simp add: verifyAttestation_def\<close>)
  obtain att n where a: "sn_Attestation sn a = Some att" "attestationNonce sn F a = Inr n" "verify_ev (AT_Evidence att) n = Inr x"
    using get [OF assms(4)] by blast
  obtain att' n' where b: "sn_Attestation sn b = Some att'" "attestationNonce sn F b = Inr n'" "verify_ev (AT_Evidence att') n' = Inr y"
    using get [OF assms(5)] by blast
  have "n = n'"
    using attestation_pair.bound_to_nonce [OF assms(1) a(3), of n' y] b(3) assms(6) a(1) b(1) by simp
  with nonce_fixes [OF assms(2,3) a(2)] b(2) show ?thesis by simp
qed

text \<open>What the sentinel's key signed verifies under its public half.\<close>

lemma sentinel_signed_verifies:
  assumes "prims_ok P" "key_ok P k" "sentinel_sign sn F P v k = Inr v'"
  shows "sentinel_verify sn F P v' (SigningKey_Public P k) = None"
proof -
  let ?ct = "sn_record sn" and ?v1 = "ct_SetAlg (sn_record sn) (RecordAlg (SK_suite k)) v"
  obtain msg sig where *: "sn_validate sn ?v1 = None" "ct_KeyID ?ct ?v1 = sentinel_KeyID (SigningKey_Public P k)"
      "signedBytes ?ct F ?v1 = Inr msg" "SigningKey_Sign P k msg = Inr sig" "v' = ct_SetSig ?ct sig ?v1"
    using assms(3) by (auto simp: sentinel_sign_def signatureOver_def Let_def split: if_splits)
  with key_signature_verifies [OF assms(1,2) *(4), of v] show ?thesis
    by (simp add: sentinel_verify_def Let_def validate_sig key_kept)
qed

lemma sentinel_verified:
  assumes "sentinel_verify sn F P v pub = None"
  shows "sn_validate sn v = None \<and> ct_KeyID (sn_record sn) v = sentinel_KeyID pub"
  using assms by (auto simp: sentinel_verify_def Let_def split: option.splits sum.splits)

lemma sentinel_parse_ok:
  "sentinel_parse sn F P D raw pub = Inr v \<longleftrightarrow> D raw = Inr v \<and> sentinel_verify sn F P v pub = None"
  by (auto simp: sentinel_parse_def split: sum.splits)

end

section \<open>The three instances\<close>

definition SealRecord_signable :: "SealRecord signable" where
  "SealRecord_signable =
     \<lparr>sn_record =
        \<lparr>ct_Name = ''sentinel'', ct_Purpose = PurposeUnknown, ct_Validate = SealRecord_validate, ct_Wire = SealRecord_fields,
         ct_KeyID = SE_Sentinel, ct_Alg = SE_Alg, ct_Sig = SE_Signature,
         ct_SetAlg = (\<lambda>a r. r\<lparr>SE_Alg := a\<rparr>), ct_SetSig = (\<lambda>s r. r\<lparr>SE_Signature := s\<rparr>)\<rparr>,
      sn_Attestation = SE_Attestation, sn_SetAttestation = (\<lambda>a r. r\<lparr>SE_Attestation := a\<rparr>)\<rparr>"

definition Heartbeat_signable :: "Heartbeat signable" where
  "Heartbeat_signable =
     \<lparr>sn_record =
        \<lparr>ct_Name = ''sentinel'', ct_Purpose = PurposeUnknown, ct_Validate = Heartbeat_validate, ct_Wire = Heartbeat_fields,
         ct_KeyID = HB_Sentinel, ct_Alg = HB_Alg, ct_Sig = HB_Signature,
         ct_SetAlg = (\<lambda>a r. r\<lparr>HB_Alg := a\<rparr>), ct_SetSig = (\<lambda>s r. r\<lparr>HB_Signature := s\<rparr>)\<rparr>,
      sn_Attestation = HB_Attestation, sn_SetAttestation = (\<lambda>a r. r\<lparr>HB_Attestation := a\<rparr>)\<rparr>"

definition Compromise_signable :: "Compromise signable" where
  "Compromise_signable =
     \<lparr>sn_record =
        \<lparr>ct_Name = ''sentinel'', ct_Purpose = PurposeUnknown, ct_Validate = Compromise_validate, ct_Wire = Compromise_fields,
         ct_KeyID = CR_Sentinel, ct_Alg = CR_Alg, ct_Sig = CR_Signature,
         ct_SetAlg = (\<lambda>a r. r\<lparr>CR_Alg := a\<rparr>), ct_SetSig = (\<lambda>s r. r\<lparr>CR_Signature := s\<rparr>)\<rparr>,
      sn_Attestation = CR_Attestation, sn_SetAttestation = (\<lambda>a r. r\<lparr>CR_Attestation := a\<rparr>)\<rparr>"

lemma link_tree_inj:
  assumes "link_json a = link_json b"
  shows "wire_in_years (WTree (link_json a)) \<Longrightarrow> a = b" "wire_in_years (WTree (link_json b)) \<Longrightarrow> a = b"
  using link_json_inj [of a "projr (link_json b)" b] assms by (auto split: sum.splits)

interpretation seal_record: attested_record SealRecord_signable
  by unfold_locales
    (auto simp: SealRecord_signable_def SealRecord_fields_def shape_def contract_clean_def fields_ok_def in_years_def
      attestation_json_inj attestation_json_def [of None] opt_bytes_inj word_unat_eq_iff sint_inject sn_validate_def
      SealRecord_validate_def unattested_def simp del: wire_ok.simps(9)
      intro: SealRecord.equality)

interpretation heartbeat: attested_record Heartbeat_signable
  by unfold_locales
    (auto simp: Heartbeat_signable_def Heartbeat_fields_def shape_def contract_clean_def fields_ok_def in_years_def
      attestation_json_inj attestation_json_def [of None] opt_bytes_inj word_unat_eq_iff sint_inject sn_validate_def
      Heartbeat_validate_def unattested_def simp del: wire_ok.simps(9) wire_in_years.simps
      intro: Heartbeat.equality link_tree_inj)

interpretation compromise: attested_record Compromise_signable
  by unfold_locales
    (auto simp: Compromise_signable_def Compromise_fields_def shape_def contract_clean_def fields_ok_def in_years_def
      attestation_json_inj attestation_json_def [of None] opt_bytes_inj trips_json_inj sn_validate_def
      Compromise_validate_def unattested_def simp del: wire_ok.simps(9) wire_in_years.simps
      intro: Compromise.equality link_tree_inj)

text \<open>
  Sentinels that work: a record that is well formed, for the key that signs it, is always signed, and a
  concrete sentinel over the plain primitives that the examples use.
\<close>

context attested_record begin

lemma sentinel_sign_total:
  assumes "sn_validate sn (ct_SetAlg (sn_record sn) (RecordAlg (SK_suite k)) v) = None"
    and "ct_KeyID (sn_record sn) v = sentinel_KeyID (SigningKey_Public P k)"
    and "contract_clean (sn_record sn) (ct_SetAlg (sn_record sn) (RecordAlg (SK_suite k)) v)"
    and "in_years (ct_Wire (sn_record sn) (ct_SetSig (sn_record sn) [] (ct_SetAlg (sn_record sn) (RecordAlg (SK_suite k)) v)))"
    and "\<And>msg. \<exists>sig. SigningKey_Sign P k msg = Inr sig"
  shows "\<exists>sig. sentinel_sign sn F P v k = Inr (ct_SetSig (sn_record sn) sig (ct_SetAlg (sn_record sn) (RecordAlg (SK_suite k)) v))"
proof -
  obtain msg where "signedBytes (sn_record sn) F (ct_SetAlg (sn_record sn) (RecordAlg (SK_suite k)) v) = Inr msg"
    using signedBytes_total [OF assms(3,4)] by blast
  moreover obtain sig where "SigningKey_Sign P k msg = Inr sig" using assms(5) by blast
  ultimately have "sentinel_sign sn F P v k = Inr (ct_SetSig (sn_record sn) sig (ct_SetAlg (sn_record sn) (RecordAlg (SK_suite k)) v))"
    using assms(1,2) by (simp add: sentinel_sign_def signatureOver_def Let_def alg_set key_kept)
  then show ?thesis by blast
qed

end

section \<open>A sentinel of the examples\<close>

definition demo_sentinel :: SigningKey where
  "demo_sentinel = \<lparr>SK_suite = SuiteEd25519, SK_priv = Some (zeros 32)\<rparr>"

definition demo_pin :: SuitePublicKey where
  "demo_pin = SigningKey_Public plain_prims demo_sentinel"

lemma demo_sentinel_signs: "\<exists>sig. SigningKey_Sign plain_prims demo_sentinel msg = Inr sig"
  by (simp add: SigningKey_Sign_def demo_sentinel_def)

lemma demo_sentinel_ok: "key_ok plain_prims demo_sentinel"
  unfolding demo_sentinel_def by (rule key_ok_ed25519 [OF plain_prims_ok])

definition demo_heartbeat :: Heartbeat where
  "demo_heartbeat = \<lparr>HB_Schema = HeartbeatSchema, HB_Sentinel = sentinel_KeyID demo_pin, HB_Seq = 1, HB_At = 0, HB_StartedAt = 0,
     HB_Status = StatusWatching, HB_Last = None, HB_Wires = 0, HB_Attestation = None, HB_Alg = [], HB_Signature = []\<rparr>"

definition demo_report :: Compromise where
  "demo_report = \<lparr>CR_Schema = CompromiseSchema, CR_Sentinel = sentinel_KeyID demo_pin, CR_DetectedAt = 0,
     CR_Tripped = [\<lparr>TP_Wire = ''path'', TP_Target = ''x'', TP_Want = [], TP_Got = ''missing'', TP_Detail = []\<rparr>],
     CR_Last = None, CR_Attestation = None, CR_Alg = [], CR_Signature = []\<rparr>"

lemma demo_names: "valid_utf8 (sentinel_KeyID demo_pin)"
  by (simp add: sentinel_KeyID_def)

lemma demo_instants: "\<exists>s. marshal_time 0 = Some s"
  by (simp add: marshal_time_def day_of_def epoch_days_def days_before_year_def)

lemma demo_key: "sentinel_KeyID (SigningKey_Public plain_prims demo_sentinel) = sentinel_KeyID demo_pin" "RecordAlg (SK_suite demo_sentinel) = []"
  by (simp_all add: demo_pin_def demo_sentinel_def RecordAlg_def)

lemmas demo_clean = contract_clean_def fields_ok_def in_years_def attestation_json_def link_json_def trips_json_def trip_json_def opt_member_def

lemma demo_heartbeat_verifies: "\<exists>sig. sentinel_verify Heartbeat_signable F plain_prims (demo_heartbeat\<lparr>HB_Signature := sig\<rparr>) demo_pin = None"
proof -
  have "\<exists>sig. sentinel_sign Heartbeat_signable F plain_prims demo_heartbeat demo_sentinel =
      Inr (ct_SetSig (sn_record Heartbeat_signable) sig
        (ct_SetAlg (sn_record Heartbeat_signable) (RecordAlg (SK_suite demo_sentinel)) demo_heartbeat))"
  proof (rule heartbeat.sentinel_sign_total)
    show "sn_validate Heartbeat_signable (ct_SetAlg (sn_record Heartbeat_signable) (RecordAlg (SK_suite demo_sentinel)) demo_heartbeat) = None"
      by (simp add: demo_key sn_validate_def Heartbeat_signable_def Heartbeat_validate_def demo_heartbeat_def status_defs zero_time_def
        Attestation_validate_def Link_validate_def)
    show "ct_KeyID (sn_record Heartbeat_signable) demo_heartbeat = sentinel_KeyID (SigningKey_Public plain_prims demo_sentinel)"
      by (simp add: demo_key Heartbeat_signable_def demo_heartbeat_def)
    show "contract_clean (sn_record Heartbeat_signable) (ct_SetAlg (sn_record Heartbeat_signable) (RecordAlg (SK_suite demo_sentinel)) demo_heartbeat)"
      using demo_names by (simp add: demo_key Heartbeat_signable_def demo_heartbeat_def Heartbeat_fields_def HeartbeatSchema_def status_defs demo_clean)
    show "in_years (ct_Wire (sn_record Heartbeat_signable) (ct_SetSig (sn_record Heartbeat_signable) []
        (ct_SetAlg (sn_record Heartbeat_signable) (RecordAlg (SK_suite demo_sentinel)) demo_heartbeat)))"
      using demo_instants by (simp add: demo_key Heartbeat_signable_def demo_heartbeat_def Heartbeat_fields_def demo_clean)
  qed (rule demo_sentinel_signs)
  then show ?thesis
    using heartbeat.sentinel_signed_verifies [OF plain_prims_ok demo_sentinel_ok, folded demo_pin_def]
    by (fastforce simp: Heartbeat_signable_def demo_key(2) demo_heartbeat_def)
qed

lemma demo_report_verifies: "\<exists>sig. sentinel_verify Compromise_signable F plain_prims (demo_report\<lparr>CR_Signature := sig\<rparr>) demo_pin = None"
proof -
  have "\<exists>sig. sentinel_sign Compromise_signable F plain_prims demo_report demo_sentinel =
      Inr (ct_SetSig (sn_record Compromise_signable) sig
        (ct_SetAlg (sn_record Compromise_signable) (RecordAlg (SK_suite demo_sentinel)) demo_report))"
  proof (rule compromise.sentinel_sign_total)
    show "sn_validate Compromise_signable (ct_SetAlg (sn_record Compromise_signable) (RecordAlg (SK_suite demo_sentinel)) demo_report) = None"
      by (simp add: demo_key sn_validate_def Compromise_signable_def Compromise_validate_def demo_report_def zero_time_def
        Attestation_validate_def Link_validate_def)
    show "ct_KeyID (sn_record Compromise_signable) demo_report = sentinel_KeyID (SigningKey_Public plain_prims demo_sentinel)"
      by (simp add: demo_key Compromise_signable_def demo_report_def)
    show "contract_clean (sn_record Compromise_signable) (ct_SetAlg (sn_record Compromise_signable) (RecordAlg (SK_suite demo_sentinel)) demo_report)"
      using demo_names by (simp add: demo_key Compromise_signable_def demo_report_def Compromise_fields_def CompromiseSchema_def demo_clean)
    show "in_years (ct_Wire (sn_record Compromise_signable) (ct_SetSig (sn_record Compromise_signable) []
        (ct_SetAlg (sn_record Compromise_signable) (RecordAlg (SK_suite demo_sentinel)) demo_report)))"
      using demo_instants by (simp add: demo_key Compromise_signable_def demo_report_def Compromise_fields_def demo_clean)
  qed (rule demo_sentinel_signs)
  then show ?thesis
    using compromise.sentinel_signed_verifies [OF plain_prims_ok demo_sentinel_ok, folded demo_pin_def]
    by (fastforce simp: Compromise_signable_def demo_key(2) demo_report_def)
qed

end
