(* ===== verification/GenomeBundle.thy ===== *)
theory GenomeBundle
  imports SentinelRecords KeyStore "HOL-Library.Signed_Division"
begin

text \<open>
  The sealed genome bundle (src/internal/genome/bundle/bundle.go and the streams of file.go): header, key
  names, the segment framing of versions 3 and 4, sealing, the streaming reader, and the identity of a
  bundle file. \<open>J\<close> and \<open>D\<close> stand for \<open>encoding/json\<close> on the header: marshalling, and decoding (unknown
  fields refused) with whether anything follows the value. A stream is the bytes it still yields; a hash
  that is fed in pieces is the pieces it was fed. The fresh key is an argument, and so is the clock.

  \<open>int64\<close> arithmetic is kept at its width. A slice bound that would be negative panics: \<open>None\<close>.
\<close>

definition bundle_Magic :: bytes where
  "bundle_Magic = string_bytes ''VG-GENOME-04'' @ zeros 4"

definition bundle_MagicV3 :: bytes where
  "bundle_MagicV3 = string_bytes ''VG-GENOME-03'' @ zeros 4"

definition bundle_Format :: string where
  "bundle_Format = ''vault-genome-v4''"

definition bundle_FormatV3 :: string where
  "bundle_FormatV3 = ''vault-genome-v3''"

definition MaxHeaderBytes :: nat where
  "MaxHeaderBytes = 4 * 2 ^ 20"

definition DefaultSegmentBytes :: i64 where
  "DefaultSegmentBytes = 2 ^ 20"

definition MinSegmentBytes :: i64 where
  "MinSegmentBytes = 4 * 2 ^ 10"

definition MaxSegmentBytes :: i64 where
  "MaxSegmentBytes = 64 * 2 ^ 20"

definition noncePrefixSize :: nat where
  "noncePrefixSize = 7"

definition ContentOllama :: string where
  "ContentOllama = ''ollama''"

definition ContentDir :: string where
  "ContentDir = ''dir''"

record Header =
  GH_Format :: string
  GH_KeyID :: string
  GH_SealedAt :: gotime
  GH_Generation :: u64
  GH_ParentBundleSHA256 :: string
  GH_ParentPayloadSHA256 :: string
  GH_ParentGeneration :: u64
  GH_ContentKind :: string
  GH_ContentRef :: string
  GH_ContentSnapshot :: bytes
  GH_PayloadSHA256 :: string
  GH_PayloadBytes :: i64
  GH_SegmentBytes :: i64

section \<open>Names and sizes\<close>

definition is_payload_digest :: "string \<Rightarrow> bool" where
  "is_payload_digest s \<longleftrightarrow> take 7 s = ''sha256:'' \<and> is_hex_digest (drop 7 s)"

definition PayloadDigest :: "bytes \<Rightarrow> string" where
  "PayloadDigest payload = ''sha256:'' @ hex_encode (SHA256 payload)"

definition DEK_KeyTag :: "bytes \<Rightarrow> string" where
  "DEK_KeyTag dek = hex_encode (take 6 (SHA256 (string_bytes ''vault-genome key tag v1'' @ [0] @ dek)))"

definition NewKeyID :: "string \<Rightarrow> u64 \<Rightarrow> bytes \<Rightarrow> string" where
  "NewKeyID payloadSHA256 generation dek =
     ''genome-'' @ take 12 (drop 7 payloadSHA256) @ ''-g'' @ fmt_d (unat generation) @ ''-'' @ DEK_KeyTag dek"

text \<open>The submatches of the key id's regular expression.\<close>

definition KeyID_parts :: "string \<Rightarrow> (string \<times> string \<times> string) option" where
  "KeyID_parts s = (if IsKeyID s then Some (take 12 (drop 7 s), take (length s - 34) (drop 21 s), drop (length s - 12) s) else None)"

definition CheckKey :: "string \<Rightarrow> bytes \<Rightarrow> go_error option" where
  "CheckKey kid dek =
     (case KeyID_parts kid of
        None \<Rightarrow> Some (errorsNew (''bundle: '' @ fmt_q kid @ '' is not a genome key id''))
      | Some (p, g, tag) \<Rightarrow>
          if length dek \<noteq> 32
          then Some (errorsNew (''bundle: a genome key is 32 bytes, this one is '' @ fmt_d (length dek)))
          else chk (tag \<noteq> DEK_KeyTag dek) (errorsNew (''bundle: this key is not '' @ kid)))"

definition segmentCount :: "i64 \<Rightarrow> i64 \<Rightarrow> i64" where
  "segmentCount payloadBytes segmentBytes =
     (if payloadBytes = 0 then 1 else word_of_int (sint (payloadBytes + segmentBytes - 1) sdiv sint segmentBytes))"

definition Header_validateFormat :: "Header \<Rightarrow> string \<Rightarrow> go_error option" where
  "Header_validateFormat h format =
     first_err
       [chk (GH_Format h \<noteq> format) (errorsNew (''bundle: format '' @ fmt_q (GH_Format h) @ '', want '' @ fmt_q format)),
        chk (GH_ContentKind h \<noteq> ContentOllama \<and> GH_ContentKind h \<noteq> ContentDir)
          (errorsNew (''bundle: content kind '' @ fmt_q (GH_ContentKind h))),
        chk (\<not> is_payload_digest (GH_PayloadSHA256 h))
          (errorsNew (''bundle: payload digest '' @ fmt_q (GH_PayloadSHA256 h) @ '' is not sha256:<64 hex>'')),
        chk (sint (GH_PayloadBytes h) < 0) (errorsNew ''bundle: negative payload size''),
        chk (sint (GH_SegmentBytes h) < sint MinSegmentBytes \<or> sint (GH_SegmentBytes h) > sint MaxSegmentBytes)
          (errorsNew (''bundle: segment size '' @ fmt_int (sint (GH_SegmentBytes h)) @ '' outside [4096, 67108864]'')),
        chk (sint (segmentCount (GH_PayloadBytes h) (GH_SegmentBytes h)) > 2 ^ 32)
          (errorsNew ''bundle: payload needs more than 2^32 segments''),
        chk (case KeyID_parts (GH_KeyID h) of
               None \<Rightarrow> True
             | Some (p, g, tag) \<Rightarrow> p \<noteq> take 12 (drop 7 (GH_PayloadSHA256 h)) \<or> g \<noteq> fmt_d (unat (GH_Generation h)))
          (errorsNew (''bundle: key id '' @ fmt_q (GH_KeyID h) @ '' does not name this payload and generation'')),
        chk (GH_SealedAt h = zero_time) (errorsNew ''bundle: sealed_at required''),
        chk ((GH_Generation h = 0) \<noteq> (GH_ParentBundleSHA256 h = []))
          (errorsNew ''bundle: generation 0 has no parent, and every later generation names one'')]"

definition Header_validate :: "Header \<Rightarrow> go_error option" where
  "Header_validate h = Header_validateFormat h bundle_Format"

section \<open>Segments\<close>

definition segmentAADBase :: "bytes \<Rightarrow> bytes" where
  "segmentAADBase headerBytes = SHA256 (string_bytes ''vault-genome bundle segment v4'' @ [0] @ headerBytes)"

definition segmentAADV4 :: "bytes \<Rightarrow> i64 \<Rightarrow> bool \<Rightarrow> bytes" where
  "segmentAADV4 base i final = SHA256 (base @ PutUint64 i @ [if final then 1 else 0])"

definition segmentAADV3 :: "bytes \<Rightarrow> bytes" where
  "segmentAADV3 headerBytes = SHA256 (string_bytes ''vault-genome bundle segment v3'' @ [0] @ headerBytes)"

definition segmentNonce :: "bytes \<Rightarrow> i64 \<Rightarrow> bool \<Rightarrow> bytes" where
  "segmentNonce prefix i final = take 7 (prefix @ zeros 7) @ PutUint32 (ucast i) @ [if final then 1 else 0]"

text \<open>The plaintext size of segment \<open>i\<close>.\<close>

definition segment_size :: "Header \<Rightarrow> i64 \<Rightarrow> int" where
  "segment_size h i = min (sint (GH_SegmentBytes h)) (sint (GH_PayloadBytes h - i * GH_SegmentBytes h))"

section \<open>Sealing\<close>

text \<open>\<open>io.ReadFull\<close> on a stream that ends before the buffer is full, after it yielded \<open>got\<close>.\<close>

definition EOF :: go_error where
  "EOF = errorsNew ''EOF''"

definition ReadFull_error :: "bytes \<Rightarrow> go_error" where
  "ReadFull_error got = (if got = [] then EOF else errorsNew ''unexpected EOF'')"

text \<open>
  The loop over the segments, from \<open>i\<close> on for \<open>n\<close> more: the sealed segments, what was read, and the
  rest of the payload's stream.
\<close>

fun seal_segments ::
    "prims \<Rightarrow> bytes \<Rightarrow> bytes \<Rightarrow> Header \<Rightarrow> nat \<Rightarrow> nat \<Rightarrow> bytes \<Rightarrow> go_error + bytes \<times> bytes \<times> bytes" where
  "seal_segments P dek base h 0 i payload = Inr ([], [], payload)"
| "seal_segments P dek base h (Suc n) i payload =
     (let size = nat (segment_size h (of_nat i)); plain = take size payload in
      if length payload < size
      then Inl (wrapf (''bundle: payload ended before the '' @ fmt_int (sint (GH_PayloadBytes h)) @ '' bytes its header describes'') (ReadFull_error payload))
      else bindR (seal_segments P dek base h n (Suc i) (drop size payload)) (\<lambda>(sealed, digested, rest).
        Inr (pr_gcm_seal P dek plain (segmentAADV4 base (of_nat i) (n = 0)) @ sealed, plain @ digested, rest)))"

definition complete_header :: "Header \<Rightarrow> bytes \<Rightarrow> gotime \<Rightarrow> Header" where
  "complete_header h dek now =
     h\<lparr>GH_Format := bundle_Format, GH_KeyID := NewKeyID (GH_PayloadSHA256 h) (GH_Generation h) dek,
       GH_SegmentBytes := (if GH_SegmentBytes h = 0 then DefaultSegmentBytes else GH_SegmentBytes h),
       GH_SealedAt := (if GH_SealedAt h = zero_time then now else GH_SealedAt h)\<rparr>"

definition bundle_Seal ::
    "prims \<Rightarrow> (Header \<Rightarrow> go_error + bytes) \<Rightarrow> Header \<Rightarrow> bytes \<Rightarrow> bytes \<Rightarrow> gotime \<Rightarrow> go_error + Header \<times> bytes \<times> bytes" where
  "bundle_Seal P J h0 payload dek now =
     (if \<not> is_payload_digest (GH_PayloadSHA256 h0) \<or> sint (GH_PayloadBytes h0) < 0
      then Inl (errorsNew ''bundle: the header must describe the payload (payload_sha256, payload_bytes)'')
      else
        let h = complete_header h0 dek now in
        guardR (Header_validate h)
          (case J h of
             Inl err \<Rightarrow> Inl (wrapf ''bundle: encode header'' err)
           | Inr headerBytes \<Rightarrow>
               if length headerBytes > MaxHeaderBytes
               then Inl (errorsNew (''bundle: header is '' @ fmt_d (length headerBytes) @ '' bytes, over 4194304''))
               else bindR (NewGCM dek) (\<lambda>aead.
                 bindR (seal_segments P aead (segmentAADBase headerBytes) h
                          (nat (sint (segmentCount (GH_PayloadBytes h) (GH_SegmentBytes h)))) 0 payload)
                   (\<lambda>(sealed, digested, rest).
                     if rest \<noteq> []
                     then Inl (errorsNew (''bundle: payload is longer than the '' @ fmt_int (sint (GH_PayloadBytes h)) @ '' bytes its header describes''))
                     else if PayloadDigest digested \<noteq> GH_PayloadSHA256 h
                     then Inl (errorsNew (''bundle: payload hashes to '' @ PayloadDigest digested @ '', not the '' @ GH_PayloadSHA256 h @
                            '' its header describes (did it change while it was sealed?)''))
                     else Inr (h, dek, bundle_Magic @ PutUint32 (of_nat (length headerBytes)) @ headerBytes @ sealed)))))"

definition SealBytes ::
    "prims \<Rightarrow> (Header \<Rightarrow> go_error + bytes) \<Rightarrow> Header \<Rightarrow> bytes \<Rightarrow> bytes \<Rightarrow> gotime \<Rightarrow> go_error + bytes \<times> bytes" where
  "SealBytes P J h payload dek now =
     bindR (bundle_Seal P J (h\<lparr>GH_PayloadSHA256 := PayloadDigest payload, GH_PayloadBytes := of_nat (length payload)\<rparr>) payload dek now)
       (\<lambda>(h', dek', blob). Inr (blob, dek'))"

section \<open>Reading\<close>

record Reader =
  rd_Header :: Header
  rd_HeaderBytes :: bytes
  rd_r :: bytes
  rd_version :: nat
  rd_prefix :: bytes
  rd_opened :: bool

definition IsV3 :: "bytes \<Rightarrow> bool" where
  "IsV3 blob \<longleftrightarrow> length blob \<ge> 16 \<and> take 16 blob = bundle_MagicV3"

definition IsV4 :: "bytes \<Rightarrow> bool" where
  "IsV4 blob \<longleftrightarrow> length blob \<ge> 16 \<and> take 16 blob = bundle_Magic"

definition bundle_Is :: "bytes \<Rightarrow> bool" where
  "bundle_Is blob \<longleftrightarrow> IsV4 blob \<or> IsV3 blob"

definition NewReader :: "(bytes \<Rightarrow> go_error + Header \<times> bool) \<Rightarrow> bytes \<Rightarrow> go_error + Reader" where
  "NewReader D r =
     (let prefix = take 20 r @ zeros (20 - length r);
          version = (if IsV4 prefix then 4 else 3 :: nat);
          format = (if IsV4 prefix then bundle_Format else bundle_FormatV3);
          n = unbe (drop 16 prefix); body = drop 20 r
      in if length r < 20
         then Inl (errorsNew (if bundle_Is prefix then ''bundle: truncated before the header'' else ''bundle: not a v3 or v4 Vault Genome bundle''))
         else if \<not> bundle_Is prefix then Inl (errorsNew ''bundle: not a v3 or v4 Vault Genome bundle'')
         else if n > MaxHeaderBytes then Inl (errorsNew (''bundle: header length '' @ fmt_d n @ '' over 4194304''))
         else if length body < n then Inl (wrapf (''bundle: header length '' @ fmt_d n @ '' does not fit'') (ReadFull_error body))
         else (case D (take n body) of
                 Inl err \<Rightarrow> Inl (wrapf ''bundle: header'' err)
               | Inr (h, trailing) \<Rightarrow>
                   if trailing then Inl (errorsNew ''bundle: header: trailing data'')
                   else guardR (Header_validateFormat h format)
                     (if version = 3
                      then (if length body < n + noncePrefixSize then Inl (errorsNew ''bundle: truncated payload'')
                            else Inr \<lparr>rd_Header = h, rd_HeaderBytes = take n body, rd_r = drop (n + noncePrefixSize) body,
                                      rd_version = 3, rd_prefix = take noncePrefixSize (drop n body), rd_opened = False\<rparr>)
                      else Inr \<lparr>rd_Header = h, rd_HeaderBytes = take n body, rd_r = drop n body,
                                rd_version = 4, rd_prefix = [], rd_opened = False\<rparr>)))"

text \<open>\<open>open(nonce, ct, aad)\<close>, and the reader of the payload.\<close>

type_synonym opener = "bytes \<Rightarrow> bytes \<Rightarrow> bytes \<Rightarrow> go_error + bytes"

record payloadReader =
  pl_Header :: Header
  pl_version :: nat
  pl_prefix :: bytes
  pl_aad :: bytes
  pl_r :: bytes
  pl_next :: i64
  pl_count :: i64
  pl_plain :: bytes
  pl_digest :: bytes
  pl_total :: i64

definition Reader_payload :: "Reader \<Rightarrow> (go_error + payloadReader) \<times> Reader" where
  "Reader_payload b =
     (if rd_opened b then (Inl (errorsNew ''bundle: payload already read''), b)
      else (Inr \<lparr>pl_Header = rd_Header b, pl_version = rd_version b, pl_prefix = rd_prefix b,
                 pl_aad = (if rd_version b = 3 then segmentAADV3 (rd_HeaderBytes b) else segmentAADBase (rd_HeaderBytes b)),
                 pl_r = rd_r b, pl_next = 0,
                 pl_count = segmentCount (GH_PayloadBytes (rd_Header b)) (GH_SegmentBytes (rd_Header b)),
                 pl_plain = [], pl_digest = [], pl_total = 0\<rparr>,
            b\<lparr>rd_opened := True\<rparr>))"

definition segment_overhead :: "nat \<Rightarrow> int" where
  "segment_overhead version = (if version = 3 then 16 else 12 + 16)"

definition segment_label :: "payloadReader \<Rightarrow> string" where
  "segment_label p = ''segment '' @ fmt_int (sint (pl_next p + 1)) @ '' of '' @ fmt_int (sint (pl_count p))"

definition advance :: "opener \<Rightarrow> payloadReader \<Rightarrow> (go_error option \<times> payloadReader) option" where
  "advance opn p =
     (let h = pl_Header p in
      if pl_next p = pl_count p
      then Some (if pl_r p \<noteq> [] then Some (errorsNew ''bundle: data after the last segment'')
                 else if pl_total p \<noteq> GH_PayloadBytes h \<or> PayloadDigest (pl_digest p) \<noteq> GH_PayloadSHA256 h
                 then Some (errorsNew ''bundle: opened payload is not the payload the header describes'')
                 else Some EOF, p)
      else
        let size = segment_size h (pl_next p); final = (pl_next p = pl_count p - 1);
            len = size + segment_overhead (pl_version p); buf = take (nat len) (pl_r p)
        in if len < 0 then None
           else if length (pl_r p) < nat len
           then Some (Some (errorsNew (''bundle: truncated in '' @ segment_label p)), p\<lparr>pl_r := []\<rparr>)
           else if pl_version p \<noteq> 3 \<and> len < 12 then None
           else
             let (nonce, ct, aad) =
                   (if pl_version p = 3 then (segmentNonce (pl_prefix p) (pl_next p) final, buf, pl_aad p)
                    else (take 12 buf, drop 12 buf, segmentAADV4 (pl_aad p) (pl_next p) final));
                 p1 = p\<lparr>pl_r := drop (nat len) (pl_r p)\<rparr>
             in (case opn nonce ct aad of
                   Inl err \<Rightarrow> Some (Some (wrapf (''bundle: '' @ segment_label p @ '' does not open under key '' @ GH_KeyID h) err), p1)
                 | Inr pt \<Rightarrow>
                     Some (None, p1\<lparr>pl_digest := pl_digest p @ pt, pl_total := pl_total p + of_nat (length pt),
                                    pl_plain := pt, pl_next := pl_next p + 1\<rparr>)))"

lemma advance_consumes:
  "advance opn p = Some (None, p') \<Longrightarrow> length (pl_r p') < length (pl_r p) \<or> segment_size (pl_Header p) (pl_next p) + segment_overhead (pl_version p) = 0"
  by (auto simp: advance_def Let_def split: if_splits prod.splits sum.splits)

text \<open>
  \<open>io.ReadAll\<close> over \<open>Read\<close>: everything the segments yield until an error, which is \<open>EOF\<close> at a good end. A
  reader whose segments would take no bytes at all is one that a header with a segment size of the
  gate's range never gives; the recursion stops there as it does at a panic.
\<close>

function ReadAll :: "opener \<Rightarrow> payloadReader \<Rightarrow> bytes \<Rightarrow> (go_error + bytes) option" where
  "ReadAll opn p acc =
     (case advance opn p of
        None \<Rightarrow> None
      | Some (Some err, p') \<Rightarrow> Some (if err = EOF then Inr acc else Inl err)
      | Some (None, p') \<Rightarrow> if length (pl_r p') < length (pl_r p) then ReadAll opn p' (acc @ pl_plain p') else None)"
  by pat_completeness auto
termination by (relation "measure (\<lambda>(opn, p, acc). length (pl_r p))") auto

declare ReadAll.simps [simp del]

definition PayloadWithKey :: "prims \<Rightarrow> Reader \<Rightarrow> bytes \<Rightarrow> (go_error + opener \<times> payloadReader) \<times> Reader" where
  "PayloadWithKey P b dek =
     (case CheckKey (GH_KeyID (rd_Header b)) dek of
        Some err \<Rightarrow> (Inl err, b)
      | None \<Rightarrow>
          (case NewGCM dek of
             Inl err \<Rightarrow> (Inl err, b)
           | Inr aead \<Rightarrow>
               (case Reader_payload b of
                  (Inl err, b') \<Rightarrow> (Inl err, b')
                | (Inr p, b') \<Rightarrow> (Inr (GCM_Open P dek, p), b'))))"

text \<open>\<open>Payload\<close> opens through a key store that holds the key under the header's key id.\<close>

definition Payload :: "(KeyID \<Rightarrow> opener) \<Rightarrow> Reader \<Rightarrow> (go_error + opener \<times> payloadReader) \<times> Reader" where
  "Payload opn b =
     (case Reader_payload b of
        (Inl err, b') \<Rightarrow> (Inl err, b')
      | (Inr p, b') \<Rightarrow> (Inr (opn (GH_KeyID (rd_Header b)), p), b'))"

definition OpenBytes ::
    "prims \<Rightarrow> (bytes \<Rightarrow> go_error + Header \<times> bool) \<Rightarrow> bytes \<Rightarrow> bytes \<Rightarrow> (go_error + bytes \<times> Header) option" where
  "OpenBytes P D blob dek =
     (case NewReader D blob of
        Inl err \<Rightarrow> Some (Inl err)
      | Inr r \<Rightarrow>
          (case fst (PayloadWithKey P r dek) of
             Inl err \<Rightarrow> Some (Inl err)
           | Inr (opn, p) \<Rightarrow>
               map_option (\<lambda>res. bindR res (\<lambda>out. Inr (out, rd_Header r))) (ReadAll opn p [])))"

section \<open>Identity\<close>

record Identity =
  ID_Header :: Header
  ID_SHA256 :: string
  ID_Size :: i64

text \<open>\<open>Identify\<close> on what a file holds.\<close>

definition Identify :: "(bytes \<Rightarrow> go_error + Header \<times> bool) \<Rightarrow> string \<Rightarrow> bytes \<Rightarrow> go_error + Identity" where
  "Identify D fpath content =
     (case NewReader D content of
        Inl err \<Rightarrow> Inl (wrapf fpath err)
      | Inr r \<Rightarrow> Inr \<lparr>ID_Header = rd_Header r, ID_SHA256 = hex_encode (SHA256 content), ID_Size = of_nat (length content)\<rparr>)"

end
