(* ===== verification/BundleProofs.thy ===== *)
theory BundleProofs
  imports GenomeBundle
begin

text \<open>
  The lemmas of the genome bundle: the segment arithmetic below the wrap, that what the sealing loop
  wrote the reader reads back, and what the end of a payload's stream proves.
\<close>

section \<open>Segment arithmetic\<close>

text \<open>A header whose sizes leave room below the top of \<open>int64\<close>.\<close>

definition sized :: "Header \<Rightarrow> bool" where
  "sized h \<longleftrightarrow> 0 \<le> sint (GH_PayloadBytes h) \<and> sint (GH_PayloadBytes h) < 2 ^ 62 \<and>
     2 ^ 12 \<le> sint (GH_SegmentBytes h) \<and> sint (GH_SegmentBytes h) \<le> 2 ^ 26"

text \<open>How many segments such a header has, as a number.\<close>

definition segments :: "Header \<Rightarrow> nat" where
  "segments h = (if GH_PayloadBytes h = 0 then 1
     else nat ((sint (GH_PayloadBytes h) + sint (GH_SegmentBytes h) - 1) div sint (GH_SegmentBytes h)))"

lemma sdiv_nonneg: "0 \<le> a \<Longrightarrow> 0 < b \<Longrightarrow> (a :: int) sdiv b = a div b"
  by (simp add: signed_divide_int_def sgn_if)

lemma sint_sum_exact:
  assumes "- (2 ^ 63) \<le> sint a + sint b" "sint a + sint b < 2 ^ 63"
  shows "sint (a + b :: i64) = sint a + sint b"
proof -
  have "a + b = word_of_int (sint a + sint b)" by simp
  then show ?thesis using sint_of_int [OF assms] by simp
qed

lemma sint_0_iff: "sint (w :: i64) = 0 \<longleftrightarrow> w = 0"
  using sint_inject [of w 0] by simp

lemma segments_bounds:
  assumes "sized h"
  shows "1 \<le> segments h" "int (segments h) * sint (GH_SegmentBytes h) < sint (GH_PayloadBytes h) + sint (GH_SegmentBytes h) \<or> GH_PayloadBytes h = 0"
    "sint (GH_PayloadBytes h) \<le> int (segments h) * sint (GH_SegmentBytes h)" "int (segments h) < 2 ^ 62"
proof -
  let ?p = "sint (GH_PayloadBytes h)" and ?s = "sint (GH_SegmentBytes h)"
  have s: "0 < ?s" "?s \<le> 2 ^ 26" "0 \<le> ?p" "?p < 2 ^ 62" using assms by (auto simp: sized_def)
  have q: "(?p + ?s - 1) div ?s * ?s \<le> ?p + ?s - 1" "?p + ?s - 1 < (?p + ?s - 1) div ?s * ?s + ?s"
    using s pos_mod_bound [of ?s "?p + ?s - 1"] pos_mod_sign [of ?s "?p + ?s - 1"] div_mult_mod_eq [of "?p + ?s - 1" ?s]
    by linarith+
  have pos: "1 \<le> (?p + ?s - 1) div ?s" if "GH_PayloadBytes h \<noteq> 0"
  proof -
    have "0 < ?p" using that s sint_0_iff [of "GH_PayloadBytes h"] by auto
    then have "?s \<le> ?p + ?s - 1" by simp
    then show ?thesis using s(1) by (metis div_self less_irrefl zdiv_mono1)
  qed
  then show "1 \<le> segments h" by (auto simp: segments_def)
  show "int (segments h) * ?s < ?p + ?s \<or> GH_PayloadBytes h = 0" using q pos by (auto simp: segments_def)
  show "?p \<le> int (segments h) * ?s" using q pos s by (auto simp: segments_def)
  have "(?p + ?s - 1) div ?s \<le> (?p + ?s - 1) div 2 ^ 12"
    using assms s by (intro zdiv_mono2) (auto simp: sized_def)
  also have "\<dots> < 2 ^ 62" using s by simp
  finally show "int (segments h) < 2 ^ 62" using pos by (auto simp: segments_def)
qed

lemma segmentCount_sized:
  assumes "sized h"
  shows "segmentCount (GH_PayloadBytes h) (GH_SegmentBytes h) = of_nat (segments h)"
proof (cases "GH_PayloadBytes h = 0")
  case False
  let ?p = "sint (GH_PayloadBytes h)" and ?s = "sint (GH_SegmentBytes h)"
  have s: "0 < ?s" "?s \<le> 2 ^ 26" "0 \<le> ?p" "?p < 2 ^ 62" using assms by (auto simp: sized_def)
  have "sint (GH_PayloadBytes h + GH_SegmentBytes h - 1) = ?p + ?s - 1"
    using s sint_sum_exact [of "GH_PayloadBytes h" "GH_SegmentBytes h"]
      sint_sum_exact [of "GH_PayloadBytes h + GH_SegmentBytes h" "- 1"] by simp
  moreover have "0 \<le> ?p + ?s - 1" using s by simp
  moreover have "0 \<le> (?p + ?s - 1) div ?s" using s by (simp add: pos_imp_zdiv_nonneg_iff)
  ultimately show ?thesis
    using False s by (simp add: segmentCount_def segments_def sdiv_nonneg of_nat_nat)
qed (simp add: segmentCount_def segments_def)

lemma sint_of_nat: "n < 2 ^ 62 \<Longrightarrow> sint (of_nat n :: i64) = int n"
  using sint_of_int [of "int n"] by simp

lemma segment_range_arith:
  fixes p :: int
  assumes "0 \<le> x" "x \<le> y" "y \<le> 2 ^ 62 + 2 ^ 26" "0 \<le> p" "p < 2 ^ 62"
  shows "- (2 ^ 63) \<le> p - x \<and> p - x < 2 ^ 63"
  using assms by simp

lemma segment_size_sized:
  assumes "sized h" "i \<le> segments h"
  shows "segment_size h (of_nat i) = min (sint (GH_SegmentBytes h)) (sint (GH_PayloadBytes h) - int i * sint (GH_SegmentBytes h))"
proof -
  let ?p = "sint (GH_PayloadBytes h)" and ?s = "sint (GH_SegmentBytes h)"
  have s: "0 < ?s" "?s \<le> 2 ^ 26" "0 \<le> ?p" "?p < 2 ^ 62" using assms(1) by (auto simp: sized_def)
  have "int i * ?s \<le> int (segments h) * ?s" using assms(2) s by (intro mult_right_mono) auto
  moreover have "int (segments h) * ?s \<le> 2 ^ 62 + 2 ^ 26"
    using segments_bounds(2) [OF assms(1)] s by (auto simp: segments_def)
  moreover have "0 \<le> int i * ?s" using s by simp
  ultimately have "- (2 ^ 63) \<le> ?p - int i * ?s \<and> ?p - int i * ?s < 2 ^ 63" using s by (intro segment_range_arith) auto
  then have "sint (word_of_int (?p - int i * ?s) :: i64) = ?p - int i * ?s" by (intro sint_of_int) auto
  moreover have "GH_PayloadBytes h - of_nat i * GH_SegmentBytes h = word_of_int (?p - int i * ?s)"
    by simp
  ultimately show ?thesis by (simp only: segment_size_def)
qed

lemma segment_size_nonneg:
  assumes "sized h" "i < segments h"
  shows "0 \<le> segment_size h (of_nat i)"
proof -
  let ?p = "sint (GH_PayloadBytes h)" and ?s = "sint (GH_SegmentBytes h)"
  have s: "0 < ?s" "0 \<le> ?p" using assms(1) by (auto simp: sized_def)
  have "int i * ?s \<le> ?p"
  proof (cases "GH_PayloadBytes h = 0")
    case True
    with assms(2) have "i = 0" by (simp add: segments_def)
    with s show ?thesis by simp
  next
    case False
    have "(int i + 1) * ?s \<le> int (segments h) * ?s" using assms(2) s by (intro mult_right_mono) auto
    with False segments_bounds(2) [OF assms(1)] show ?thesis by (simp add: algebra_simps)
  qed
  then show ?thesis using s segment_size_sized [OF assms(1), of i] assms(2) by simp
qed

lemma segment_split_arith:
  fixes l :: int
  assumes "l = sz + d" "sz = min s (p - x)" "0 \<le> sz" "d = max 0 (p - x - s)"
  shows "l = max 0 (p - x)"
  using assms by (auto simp: min_def max_def split: if_splits)

text \<open>The segments from \<open>i\<close> on hold the rest of the payload.\<close>

lemma seal_segments_length:
  assumes "sized h" "i + n = segments h" "seal_segments P dek base h n i payload = Inr (sealed, digested, rest)"
  shows "int (length digested) = max 0 (sint (GH_PayloadBytes h) - int i * sint (GH_SegmentBytes h)) \<and> payload = digested @ rest"
  using assms(2,3)
proof (induction n arbitrary: i payload sealed digested rest)
  case 0
  with segments_bounds(3) [OF assms(1)] show ?case by simp
next
  case (Suc n)
  let ?p = "sint (GH_PayloadBytes h)" and ?s = "sint (GH_SegmentBytes h)" and ?size = "nat (segment_size h (of_nat i))"
  have s: "0 < ?s" using assms(1) by (simp add: sized_def)
  from Suc.prems(2) obtain c d where *: "?size \<le> length payload"
      "seal_segments P dek base h n (Suc i) (drop ?size payload) = Inr (c, d, rest)" "digested = take ?size payload @ d"
    by (auto simp: Let_def split: if_splits)
  have IH: "int (length d) = max 0 (?p - int (Suc i) * ?s)" "drop ?size payload = d @ rest"
    using Suc.IH [OF _ *(2)] Suc.prems(1) by simp_all
  have "i < segments h" using Suc.prems(1) by simp
  then have size: "segment_size h (of_nat i) = min ?s (?p - int i * ?s)" "0 \<le> segment_size h (of_nat i)"
    using segment_size_sized [OF assms(1), of i] segment_size_nonneg [OF assms(1), of i] by auto
  have len: "int (length digested) = segment_size h (of_nat i) + int (length d)" using *(1,3) size(2) by simp
  have "int (Suc i) * ?s = int i * ?s + ?s" by (simp add: distrib_right)
  with IH(1) have d: "int (length d) = max 0 (?p - int i * ?s - ?s)" by simp
  have "int (length digested) = max 0 (?p - int i * ?s)" by (rule segment_split_arith [OF len size d])
  moreover have "payload = digested @ rest"
    unfolding *(3) append_assoc IH(2) [symmetric] by (rule append_take_drop_id [symmetric])
  ultimately show ?case ..
qed

section \<open>Reading back\<close>

lemma of_nat_i64_eq: "m < 2 ^ 62 \<Longrightarrow> n < 2 ^ 62 \<Longrightarrow> (of_nat m :: i64) = of_nat n \<longleftrightarrow> m = n"
  by (metis sint_of_nat of_nat_eq_iff)

text \<open>The reader, from segment \<open>i\<close> on, yields what the loop sealed from \<open>i\<close> on.\<close>

lemma ReadAll_sealed:
  assumes "prims_ok P" "length dek = 32" "sized h" "i + n = segments h"
    and "seal_segments P dek base h n i payload = Inr (sealed, digested, rest)"
    and "pl_Header p = h" "pl_version p = 4" "pl_aad p = base" "pl_r p = sealed" "pl_next p = of_nat i" "pl_count p = of_nat (segments h)"
    and "pl_digest p @ digested = whole" "pl_total p = of_nat (length (pl_digest p))"
    and "of_nat (length whole) = GH_PayloadBytes h" "PayloadDigest whole = GH_PayloadSHA256 h"
  shows "ReadAll (GCM_Open P dek) p acc = Some (Inr (acc @ digested))"
  using assms(4-13)
proof (induction n arbitrary: i payload sealed digested rest p acc)
  case 0
  then have "advance (GCM_Open P dek) p = Some (Some EOF, p)"
    using assms(14,15) by (auto simp: advance_def Let_def)
  with 0 show ?case by (simp add: ReadAll.simps [of _ p])
next
  case (Suc n)
  let ?size = "nat (segment_size h (of_nat i))" and ?aad = "segmentAADV4 base (of_nat i) (n = 0)"
  let ?plain = "take ?size payload"
  from Suc.prems(2) obtain c d where *: "?size \<le> length payload"
      "seal_segments P dek base h n (Suc i) (drop ?size payload) = Inr (c, d, rest)" "digested = ?plain @ d"
      "sealed = pr_gcm_seal P dek ?plain ?aad @ c"
    by (auto simp: Let_def split: if_splits)
  have N: "segments h < 2 ^ 62" using segments_bounds(4) [OF assms(3)] by simp
  have i: "i < segments h" using Suc.prems(1) by simp
  have size0: "0 \<le> segment_size h (of_nat i)" by (rule segment_size_nonneg [OF assms(3) i])
  have g: "length (pr_gcm_seal P dek ?plain ?aad) = 28 + ?size" "pr_gcm_open P dek (pr_gcm_seal P dek ?plain ?aad) ?aad = Inr ?plain"
    using assms(1) *(1) by (simp_all add: prims_ok_def)
  have len: "nat (segment_size h (of_nat i) + segment_overhead 4) = 28 + ?size" using size0 by (simp add: segment_overhead_def)
  have opened: "GCM_Open P dek (take 12 (pr_gcm_seal P dek ?plain ?aad)) (drop 12 (pr_gcm_seal P dek ?plain ?aad)) ?aad = Inr ?plain"
    using g assms(2) by (simp add: GCM_Open_def NewGCM_def)
  have nxt: "(of_nat i :: i64) \<noteq> of_nat (segments h)" "((of_nat i :: i64) = of_nat (segments h) - 1) \<longleftrightarrow> n = 0"
    using of_nat_i64_eq [of i "segments h"] of_nat_i64_eq [of "Suc i" "segments h"] N i Suc.prems(1)
    by (auto simp: eq_diff_eq algebra_simps)
  define p1 where "p1 = p\<lparr>pl_r := c, pl_digest := pl_digest p @ ?plain, pl_total := pl_total p + of_nat (length ?plain),
      pl_plain := ?plain, pl_next := of_nat i + 1\<rparr>"
  have adv: "advance (GCM_Open P dek) p = Some (None, p1)"
    using Suc.prems(3-8) nxt opened g(1) len size0 *(4)
    by (simp add: advance_def Let_def p1_def segment_overhead_def)
  have "ReadAll (GCM_Open P dek) p1 (acc @ ?plain) = Some (Inr ((acc @ ?plain) @ d))"
    using Suc.prems *(3) by (intro Suc.IH [OF _ *(2)]) (simp_all add: p1_def add.commute)
  moreover have "length (pl_r p1) < length (pl_r p)" using Suc.prems(6) *(4) g(1) by (simp add: p1_def)
  ultimately show ?case using adv *(3) by (simp add: ReadAll.simps [of _ p] p1_def)
qed

section \<open>Opening\<close>

lemma NewReader_v4:
  assumes "length hb \<le> MaxHeaderBytes" "D hb = Inr (h, False)" "Header_validateFormat h bundle_Format = None"
  shows "NewReader D (bundle_Magic @ PutUint32 (of_nat (length hb)) @ hb @ sealed) =
    Inr \<lparr>rd_Header = h, rd_HeaderBytes = hb, rd_r = sealed, rd_version = 4, rd_prefix = [], rd_opened = False\<rparr>"
proof -
  have n: "unat (of_nat (length hb) :: u32) = length hb" using assms(1) by (simp add: MaxHeaderBytes_def unat_of_nat)
  have m: "length bundle_Magic = 16" by (simp add: bundle_Magic_def)
  have d: "drop 16 (bundle_Magic @ x) = x" "take 16 (bundle_Magic @ x) = bundle_Magic" for x using m by simp_all
  show ?thesis using assms m n
    by (simp add: NewReader_def Let_def IsV4_def bundle_Is_def unbe_PutUint32 guardR_def d zeros_def)
qed

lemma validate_sized:
  assumes "Header_validateFormat h f = None" "sint (GH_PayloadBytes h) < 2 ^ 62"
  shows "sized h"
  using assms by (auto simp: Header_validateFormat_def sized_def MinSegmentBytes_def MaxSegmentBytes_def)

lemma CheckKey_own:
  assumes "KeyID_parts (NewKeyID ps g dek) \<noteq> None" "length dek = 32"
  shows "CheckKey (NewKeyID ps g dek) dek = None"
proof -
  have "length (DEK_KeyTag dek) = 12" by (simp add: DEK_KeyTag_def SHA256_length HashSize_def)
  then have "drop (length (x @ DEK_KeyTag dek) - 12) (x @ DEK_KeyTag dek) = DEK_KeyTag dek" for x by simp
  from this [of "''genome-'' @ take 12 (drop 7 ps) @ ''-g'' @ fmt_d (unat g) @ ''-''"]
  have "drop (length (NewKeyID ps g dek) - 12) (NewKeyID ps g dek) = DEK_KeyTag dek" by (simp only: NewKeyID_def append_assoc)
  with assms show ?thesis by (auto simp: CheckKey_def KeyID_parts_def split: if_splits)
qed

text \<open>A stream that ended well yielded the payload its header describes.\<close>

lemma ReadAll_sound:
  assumes "ReadAll opn p acc = Some (Inr out)" "acc = pl_digest p" "pl_total p = of_nat (length (pl_digest p))"
  shows "PayloadDigest out = GH_PayloadSHA256 (pl_Header p) \<and> of_nat (length out) = GH_PayloadBytes (pl_Header p)"
  using assms
proof (induction opn p acc rule: ReadAll.induct)
  case (1 opn p acc)
  show ?case
  proof (cases "advance opn p")
    case (Some a)
    then obtain e p' where a: "advance opn p = Some (e, p')" by (cases a) auto
    show ?thesis
    proof (cases e)
      case None
      with a "1.prems"(1) have r: "ReadAll opn p' (acc @ pl_plain p') = Some (Inr out)" "length (pl_r p') < length (pl_r p)"
        by (auto simp: ReadAll.simps [of _ p] split: if_splits)
      from a None have "pl_Header p' = pl_Header p" "pl_digest p' = pl_digest p @ pl_plain p'"
          "pl_total p' = pl_total p + of_nat (length (pl_plain p'))"
        by (auto simp: advance_def Let_def split: if_splits sum.splits prod.splits)
      with "1.IH" [OF a refl None] r "1.prems"(2,3) None a show ?thesis by auto
    next
      case (Some err)
      with a "1.prems"(1) have "err = EOF" "out = acc" by (auto simp: ReadAll.simps [of _ p] split: if_splits)
      moreover have "\<not> (EOF = errorsNew ''bundle: data after the last segment'')" by (simp add: EOF_def errorsNew_def)
      ultimately show ?thesis using a Some "1.prems"(2,3)
        by (auto simp: advance_def Let_def EOF_def errorsNew_def wrapf_def split: if_splits sum.splits prod.splits)
    qed
  qed (use "1.prems"(1) in \<open>simp add: ReadAll.simps [of _ p]\<close>)
qed

text \<open>A payload of the size the header describes seals.\<close>

lemma seal_segments_total:
  assumes "sized h" "i + n = segments h" "int (length payload) = max 0 (sint (GH_PayloadBytes h) - int i * sint (GH_SegmentBytes h))"
  shows "\<exists>sealed. seal_segments P dek base h n i payload = Inr (sealed, payload, [])"
  using assms(2,3)
proof (induction n arbitrary: i payload)
  case 0
  with segments_bounds(3) [OF assms(1)] show ?case by simp
next
  case (Suc n)
  let ?p = "sint (GH_PayloadBytes h)" and ?s = "sint (GH_SegmentBytes h)" and ?size = "nat (segment_size h (of_nat i))"
  have i: "i < segments h" using Suc.prems(1) by simp
  note size = segment_size_sized [OF assms(1), of i] segment_size_nonneg [OF assms(1) i]
  have s: "0 < ?s" using assms(1) by (simp add: sized_def)
  have "int (Suc i) * ?s = int i * ?s + ?s" by (simp add: distrib_right)
  moreover have le: "?size \<le> length payload" using Suc.prems(2) size i s by auto
  ultimately have "int (length (drop ?size payload)) = max 0 (?p - int (Suc i) * ?s)"
    using Suc.prems(2) size i s by (simp only: length_drop of_nat_diff)
  from Suc.IH [OF _ this] Suc.prems(1) obtain sealed
    where "seal_segments P dek base h n (Suc i) (drop ?size payload) = Inr (sealed, drop ?size payload, [])" by auto
  with le show ?case by (auto simp: Let_def)
qed

lemma KeyID_parts_NewKeyID:
  assumes "is_payload_digest ps"
  shows "KeyID_parts (NewKeyID ps g dek) = Some (take 12 (drop 7 ps), fmt_d (unat g), DEK_KeyTag dek)"
proof -
  have tag: "length (DEK_KeyTag dek) = 12" "is_lower_hex (DEK_KeyTag dek)"
    by (simp_all add: DEK_KeyTag_def SHA256_length HashSize_def)
  let ?a = "take 12 (drop 7 ps)" and ?g = "fmt_d (unat g)" and ?t = "DEK_KeyTag dek"
  have a: "length ?a = 12" "is_lower_hex ?a"
    using assms by (auto simp: is_payload_digest_def is_hex_digest_def is_lower_hex_def list_all_iff dest: in_set_takeD)
  have g: "list_all is_digit ?g" "?g \<noteq> []" using fmt_d_digits [of "unat g"] by simp_all
  define kid where "kid = ''genome-'' @ ?a @ ''-g'' @ ?g @ ''-'' @ ?t"
  have k: "NewKeyID ps g dek = kid" by (simp add: NewKeyID_def kid_def)
  have t7: "take 7 kid = ''genome-''" by (simp add: kid_def)
  have len: "length kid = 34 + length ?g" using a tag by (simp add: kid_def)
  have d7: "drop 7 kid = ?a @ ''-g'' @ ?g @ ''-'' @ ?t" by (simp add: kid_def)
  have d19: "drop 19 kid = ''-g'' @ ?g @ ''-'' @ ?t"
    using arg_cong [OF d7, of "drop 12"] a by simp
  have d21: "drop 21 kid = ?g @ ''-'' @ ?t" using arg_cong [OF d19, of "drop 2"] by simp
  have dn: "drop (21 + length ?g) kid = ''-'' @ ?t" using arg_cong [OF d21, of "drop (length ?g)"] by (simp add: add.commute)
  have dt: "drop (22 + length ?g) kid = ?t" using arg_cong [OF dn, of "drop 1"] by simp
  have nth: "kid ! (21 + length ?g) = CHR ''-''" using nth_drop [of "21 + length ?g" kid 0] dn len by simp
  have "IsKeyID kid"
    using len t7 d7 d19 d21 dt nth a g tag by (simp add: IsKeyID_def Let_def)
  then show ?thesis unfolding k using len d7 d21 dt a tag by (simp add: KeyID_parts_def)
qed

section \<open>The reader always answers\<close>

lemma ReadAll_step_None:
  assumes "ReadAll opn p acc = None"
  shows "advance opn p = None \<or> (\<exists>p'. advance opn p = Some (None, p') \<and>
    (length (pl_r p) \<le> length (pl_r p') \<or> ReadAll opn p' (acc @ pl_plain p') = None))"
  using assms by (auto simp: ReadAll.simps [of _ p] not_less split: option.splits if_splits prod.splits)

lemma advance_step:
  assumes "advance opn p = Some (None, p')" "0 \<le> segment_size (pl_Header p) (pl_next p)"
  shows "pl_Header p' = pl_Header p" "pl_count p' = pl_count p" "pl_next p' = pl_next p + 1" "pl_next p \<noteq> pl_count p"
    "int (length (pl_r p')) + segment_size (pl_Header p) (pl_next p) < int (length (pl_r p))"
  using assms by (auto simp: advance_def Let_def segment_overhead_def split: if_splits sum.splits prod.splits)

lemma advance_no_panic:
  assumes "pl_next p \<noteq> pl_count p \<Longrightarrow> 0 \<le> segment_size (pl_Header p) (pl_next p)"
  shows "advance opn p \<noteq> None"
proof (cases "pl_next p = pl_count p")
  case False
  with assms have "\<not> segment_size (pl_Header p) (pl_next p) + segment_overhead (pl_version p) < 0"
    "\<not> segment_size (pl_Header p) (pl_next p) + segment_overhead (pl_version p) < 12"
    by (auto simp: segment_overhead_def)
  with False show ?thesis by (simp add: advance_def Let_def split: sum.splits prod.splits)
qed (simp add: advance_def Let_def)

text \<open>Below the wrap the sizes stay non-negative up to the last segment.\<close>

lemma ReadAll_answers_sized:
  assumes "sized (pl_Header p)" "pl_count p = of_nat (segments (pl_Header p))" "pl_next p = of_nat i" "i \<le> segments (pl_Header p)"
  shows "ReadAll opn p acc \<noteq> None"
  using assms
proof (induction "length (pl_r p)" arbitrary: p acc i rule: less_induct)
  case less
  have size: "0 \<le> segment_size (pl_Header p) (pl_next p)" if "pl_next p \<noteq> pl_count p"
    using segment_size_nonneg [OF less.prems(1), of i] less.prems(2-4) that by (cases "i = segments (pl_Header p)") auto
  show ?case
  proof
    assume "ReadAll opn p acc = None"
    with ReadAll_step_None advance_no_panic [OF size] obtain p' where p': "advance opn p = Some (None, p')"
        "length (pl_r p) \<le> length (pl_r p') \<or> ReadAll opn p' (acc @ pl_plain p') = None" by blast
    have ne: "pl_next p \<noteq> pl_count p" using p'(1) by (auto simp: advance_def Let_def split: if_splits)
    note st = advance_step [OF p'(1) size [OF ne]]
    have "Suc i \<le> segments (pl_Header p)" using less.prems(2-4) ne by (cases "i = segments (pl_Header p)") auto
    then have "ReadAll opn p' (acc @ pl_plain p') \<noteq> None"
      using st size [OF ne] less.prems by (intro less.hyps [of p' "Suc i"]) (auto simp: add.commute)
    with p'(2) st(5) size [OF ne] show False by linarith
  qed
qed

text \<open>Above it the stream ends before the sizes turn.\<close>

lemma segment_size_huge:
  assumes "2 ^ 62 \<le> sint (GH_PayloadBytes h)" "2 ^ 12 \<le> sint (GH_SegmentBytes h)" "sint (GH_SegmentBytes h) \<le> 2 ^ 26"
    and "int i * sint (GH_SegmentBytes h) \<le> 2 ^ 61"
  shows "segment_size h (of_nat i) = sint (GH_SegmentBytes h)"
proof -
  let ?p = "sint (GH_PayloadBytes h)" and ?x = "int i * sint (GH_SegmentBytes h)"
  have x: "0 \<le> ?x" using assms(2) by (intro mult_nonneg_nonneg) auto
  have "?p < 2 ^ 63" by (rule sint_range(2))
  then have "sint (word_of_int (?p - ?x) :: i64) = ?p - ?x" using x assms(1,4) segment_range_arith [of ?x ?x "2 ^ 61"] by (intro sint_of_int) simp_all
  moreover have "GH_PayloadBytes h - of_nat i * GH_SegmentBytes h = word_of_int (?p - ?x)" by simp
  ultimately have "segment_size h (of_nat i) = min (sint (GH_SegmentBytes h)) (?p - ?x)" by (simp only: segment_size_def)
  moreover have "sint (GH_SegmentBytes h) \<le> ?p - ?x" using assms(1,3,4) by simp
  ultimately show ?thesis by simp
qed

lemma ReadAll_answers_huge:
  assumes "2 ^ 62 \<le> sint (GH_PayloadBytes (pl_Header p))" "2 ^ 12 \<le> sint (GH_SegmentBytes (pl_Header p))"
    and "sint (GH_SegmentBytes (pl_Header p)) \<le> 2 ^ 26" "pl_next p = of_nat i"
    and "int i * sint (GH_SegmentBytes (pl_Header p)) + int (length (pl_r p)) \<le> 2 ^ 61"
  shows "ReadAll opn p acc \<noteq> None"
  using assms
proof (induction "length (pl_r p)" arbitrary: p acc i rule: less_induct)
  case less
  let ?s = "sint (GH_SegmentBytes (pl_Header p))"
  have size: "segment_size (pl_Header p) (pl_next p) = ?s"
    using less.prems by (simp only: less.prems(4)) (rule segment_size_huge, auto)
  have s: "0 \<le> segment_size (pl_Header p) (pl_next p)" using size less.prems(2) by simp
  show ?case
  proof
    assume "ReadAll opn p acc = None"
    with ReadAll_step_None advance_no_panic [OF s] obtain p' where p': "advance opn p = Some (None, p')"
        "length (pl_r p) \<le> length (pl_r p') \<or> ReadAll opn p' (acc @ pl_plain p') = None" by blast
    note st = advance_step [OF p'(1) s]
    have "int (Suc i) * ?s = int i * ?s + ?s" by (simp add: distrib_right)
    then have "ReadAll opn p' (acc @ pl_plain p') \<noteq> None"
      using st size less.prems by (intro less.hyps [of p' "Suc i"]) (auto simp: add.commute)
    with p'(2) st(5) s show False by linarith
  qed
qed

section \<open>Version 3 nonces\<close>

text \<open>The segment index fits its four bytes: nonces differ whenever the indices do.\<close>

lemma segmentNonce_inj:
  assumes "length prefix = 7" "m < 2 ^ 32" "n < 2 ^ 32"
    "segmentNonce prefix (of_nat m) a = segmentNonce prefix (of_nat n) b"
  shows "m = n \<and> a = b"
proof -
  have "PutUint32 (ucast (of_nat m :: i64)) @ [if a then 1 else 0 :: byte] = PutUint32 (ucast (of_nat n :: i64)) @ [if b then 1 else 0]"
    using assms(1,4) by (simp add: segmentNonce_def)
  then have "(ucast (of_nat m :: i64) :: u32) = ucast (of_nat n :: i64)" "a = b" by (auto split: if_splits)
  moreover have "unat (ucast (of_nat k :: i64) :: u32) = k" if "k < 2 ^ 32" for k
    using that by (simp add: unat_of_nat unsigned_ucast_eq take_bit_nat_eq_self)
  ultimately show ?thesis using assms(2,3) by metis
qed

end
