(* ===== verification/BundleProperties.thy ===== *)
theory BundleProperties
  imports BundleProofs
begin

text \<open>
  The properties of the genome bundle: what is sealed opens, what opens is what was described, the
  reader always answers, and where the 32-bit limit on segments holds.
\<close>

section \<open>Sealing and opening\<close>

lemma Header_validate_snapshot [simp]:
  "Header_validateFormat (h\<lparr>GH_ContentSnapshot := s\<rparr>) f = Header_validateFormat h f"
  by (cases h) (simp only: Header_validateFormat_def Header.simps)

text \<open>What a guarded result is, without its error.\<close>

lemma guarded_Inr:
  "(if b then Inl e else x) = Inr y \<longleftrightarrow> \<not> b \<and> x = Inr y"
  "(case m of Inl err \<Rightarrow> Inl (g err) | Inr a \<Rightarrow> k a) = Inr y \<longleftrightarrow> (\<exists>a. m = Inr a \<and> k a = Inr y)"
  "bindR m k = Inr y \<longleftrightarrow> (\<exists>a. m = Inr a \<and> k a = Inr y)"
  "guardR c x = Inr y \<longleftrightarrow> c = None \<and> x = Inr y"
  "(case p of (u, v, w) \<Rightarrow> k3 u v w) = Inr y \<longleftrightarrow> (\<exists>u v w. p = (u, v, w) \<and> k3 u v w = Inr y)"
  "(case q of (u, v) \<Rightarrow> k2 u v) = Inr y \<longleftrightarrow> (\<exists>u v. q = (u, v) \<and> k2 u v = Inr y)"
  by (auto split: sum.split option.split prod.split)

lemma Seal_ok:
  assumes "bundle_Seal P J h payload dek now = Inr (h', dek', blob)"
  obtains hb sealed digested where "is_payload_digest (GH_PayloadSHA256 h)" "h' = complete_header h dek now" "dek' = dek"
    "Header_validate h' = None" "J h' = Inr hb" "length hb \<le> MaxHeaderBytes" "length dek = 32"
    "seal_segments P dek (segmentAADBase hb) h' (nat (sint (segmentCount (GH_PayloadBytes h') (GH_SegmentBytes h')))) 0 payload = Inr (sealed, digested, [])"
    "PayloadDigest digested = GH_PayloadSHA256 h'"
    "blob = bundle_Magic @ PutUint32 (of_nat (length hb)) @ hb @ sealed"
  using assms unfolding bundle_Seal_def Let_def NewGCM_def
  by (auto simp only: guarded_Inr prod.inject sum.inject not_less de_Morgan_disj not_not)

lemma Seal_opens:
  assumes "prims_ok P" "bundle_Seal P J h payload dek now = Inr (h', dek', blob)" "sint (GH_PayloadBytes h) < 2 ^ 62"
    and "\<And>hb. J h' = Inr hb \<Longrightarrow> D hb = Inr (h'\<lparr>GH_ContentSnapshot := s\<rparr>, False)"
  shows "OpenBytes P D blob dek' = Some (Inr (payload, h'\<lparr>GH_ContentSnapshot := s\<rparr>))"
proof -
  let ?h = "h'\<lparr>GH_ContentSnapshot := s\<rparr>" and ?base = "\<lambda>hb. segmentAADBase hb"
  obtain hb sealed digested where hb: "is_payload_digest (GH_PayloadSHA256 h)" "h' = complete_header h dek now" "dek' = dek"
      "Header_validate h' = None" "J h' = Inr hb" "length hb \<le> MaxHeaderBytes" "length dek = 32"
      "seal_segments P dek (?base hb) h' (nat (sint (segmentCount (GH_PayloadBytes h') (GH_SegmentBytes h')))) 0 payload = Inr (sealed, digested, [])"
      "PayloadDigest digested = GH_PayloadSHA256 h'"
      "blob = bundle_Magic @ PutUint32 (of_nat (length hb)) @ hb @ sealed"
    by (rule Seal_ok [OF assms(2)])
  have v: "Header_validateFormat h' bundle_Format = None" using hb(4) by (simp add: Header_validate_def)
  have sz: "sized h'" by (rule validate_sized [OF v]) (use assms(3) hb(2) in \<open>simp add: complete_header_def\<close>)
  have n: "nat (sint (segmentCount (GH_PayloadBytes h') (GH_SegmentBytes h'))) = segments h'"
    using segments_bounds(4) [OF sz] sint_of_nat [of "segments h'"] by (simp add: segmentCount_sized [OF sz])
  have len: "int (length digested) = sint (GH_PayloadBytes h')" "payload = digested"
    using seal_segments_length [OF sz _ hb(8) [unfolded n]] sz by (auto simp: sized_def)
  have p: "of_nat (length digested) = GH_PayloadBytes h'" using arg_cong [OF len(1), of "of_int :: int \<Rightarrow> i64"] by simp
  have read: "NewReader D blob = Inr \<lparr>rd_Header = ?h, rd_HeaderBytes = hb, rd_r = sealed, rd_version = 4, rd_prefix = [], rd_opened = False\<rparr>"
    using hb(6,10) assms(4) [OF hb(5)] v NewReader_v4 [of hb D ?h sealed] by simp
  have key: "CheckKey (GH_KeyID h') dek = None"
    using hb(1,2,7) CheckKey_own KeyID_parts_NewKeyID by (simp add: complete_header_def)
  have segs: "segments ?h = segments h'" "sized ?h = sized h'" by (simp_all add: segments_def sized_def)
  have same: "seal_segments P dek b ?h m i pay = seal_segments P dek b h' m i pay" for b m i pay
    by (induction m arbitrary: i pay) (simp_all add: segment_size_def Let_def)
  have "ReadAll (GCM_Open P dek) \<lparr>pl_Header = ?h, pl_version = 4, pl_prefix = [], pl_aad = ?base hb, pl_r = sealed, pl_next = 0,
      pl_count = segmentCount (GH_PayloadBytes h') (GH_SegmentBytes h'), pl_plain = [], pl_digest = [], pl_total = 0\<rparr> []
      = Some (Inr ([] @ digested))"
    by (rule ReadAll_sealed [where h = ?h and i = 0 and n = "segments h'" and base = "?base hb" and payload = payload and
          sealed = sealed and rest = "[]" and whole = digested])
      (use assms(1) hb(7,8,9) sz n segs same p segmentCount_sized [OF sz] in simp_all)
  with read key hb(3,7) len(2) show ?thesis
    by (simp add: OpenBytes_def PayloadWithKey_def NewGCM_def Reader_payload_def)
qed

text \<open>A header that describes its payload, and the header that sealing completes it to.\<close>

definition describe :: "Header \<Rightarrow> bytes \<Rightarrow> Header" where
  "describe h payload = h\<lparr>GH_PayloadSHA256 := PayloadDigest payload, GH_PayloadBytes := of_nat (length payload)\<rparr>"

definition sealable :: "Header \<Rightarrow> bytes \<Rightarrow> bool" where
  "sealable h payload \<longleftrightarrow>
     (GH_ContentKind h = ContentOllama \<or> GH_ContentKind h = ContentDir) \<and>
     (GH_SegmentBytes h = 0 \<or> 2 ^ 12 \<le> sint (GH_SegmentBytes h) \<and> sint (GH_SegmentBytes h) \<le> 2 ^ 26) \<and>
     (GH_Generation h = 0 \<longleftrightarrow> GH_ParentBundleSHA256 h = []) \<and> length payload \<le> 2 ^ 44"

lemma PayloadDigest_ok [simp]: "is_payload_digest (PayloadDigest payload)"
  by (simp add: is_payload_digest_def PayloadDigest_def is_hex_digest_def SHA256_length HashSize_def)

lemma complete_fields [simp]:
  "GH_Format (complete_header h dek now) = bundle_Format" "GH_PayloadBytes (complete_header h dek now) = GH_PayloadBytes h"
  "GH_PayloadSHA256 (complete_header h dek now) = GH_PayloadSHA256 h" "GH_ContentKind (complete_header h dek now) = GH_ContentKind h"
  "GH_Generation (complete_header h dek now) = GH_Generation h" "GH_ParentBundleSHA256 (complete_header h dek now) = GH_ParentBundleSHA256 h"
  "GH_KeyID (complete_header h dek now) = NewKeyID (GH_PayloadSHA256 h) (GH_Generation h) dek"
  "GH_SegmentBytes (complete_header h dek now) = (if GH_SegmentBytes h = 0 then DefaultSegmentBytes else GH_SegmentBytes h)"
  "now \<noteq> zero_time \<Longrightarrow> GH_SealedAt (complete_header h dek now) \<noteq> zero_time"
  by (simp_all add: complete_header_def)

lemma describe_fields [simp]:
  "GH_PayloadSHA256 (describe h p) = PayloadDigest p" "GH_PayloadBytes (describe h p) = of_nat (length p)"
  "GH_ContentKind (describe h p) = GH_ContentKind h" "GH_Generation (describe h p) = GH_Generation h"
  "GH_ParentBundleSHA256 (describe h p) = GH_ParentBundleSHA256 h" "GH_SegmentBytes (describe h p) = GH_SegmentBytes h"
  by (simp_all add: describe_def)

lemma sealable_sized:
  assumes "sealable h payload" "h1 = complete_header (describe h payload) dek now"
  shows "sized h1" "sint (GH_PayloadBytes h1) = int (length payload)" "segments h1 \<le> 2 ^ 32"
proof -
  have p: "sint (GH_PayloadBytes h1) = int (length payload)" "length payload \<le> 2 ^ 44"
    using assms(1) sint_of_nat [of "length payload"] by (simp_all add: assms(2) sealable_def)
  have s: "2 ^ 12 \<le> sint (GH_SegmentBytes h1)" "sint (GH_SegmentBytes h1) \<le> 2 ^ 26"
    using assms(1) by (auto simp: assms(2) sealable_def DefaultSegmentBytes_def)
  show sz: "sized h1" using p s by (simp add: sized_def)
  show "sint (GH_PayloadBytes h1) = int (length payload)" by (rule p(1))
  have "int (segments h1) - 1 < 2 ^ 32 \<or> GH_PayloadBytes h1 = 0"
  proof (rule disjCI)
    assume "GH_PayloadBytes h1 \<noteq> 0"
    then have "(int (segments h1) - 1) * sint (GH_SegmentBytes h1) < 2 ^ 44"
      using segments_bounds(2) [OF sz] p by (auto simp: left_diff_distrib)
    moreover have "(int (segments h1) - 1) * 2 ^ 12 \<le> (int (segments h1) - 1) * sint (GH_SegmentBytes h1)"
      using s segments_bounds(1) [OF sz] by (intro mult_left_mono) auto
    ultimately show "int (segments h1) - 1 < 2 ^ 32" by simp
  qed
  then show "segments h1 \<le> 2 ^ 32" by (auto simp: segments_def)
qed

lemma Seal_total:
  assumes "sealable h payload" "length dek = 32" "now \<noteq> zero_time"
    and "h1 = complete_header (describe h payload) dek now" "J h1 = Inr hb" "length hb \<le> MaxHeaderBytes"
  shows "\<exists>blob. bundle_Seal P J (describe h payload) payload dek now = Inr (h1, dek, blob)"
proof -
  note sz = sealable_sized [OF assms(1,4)]
  have count: "sint (segmentCount (GH_PayloadBytes h1) (GH_SegmentBytes h1)) = int (segments h1)"
    using sz(3) sint_of_nat [of "segments h1"] by (simp add: segmentCount_sized [OF sz(1)])
  have fields: "GH_Format h1 = bundle_Format" "GH_ContentKind h1 = GH_ContentKind h" "GH_PayloadSHA256 h1 = PayloadDigest payload"
      "GH_KeyID h1 = NewKeyID (PayloadDigest payload) (GH_Generation h1) dek" "GH_SealedAt h1 \<noteq> zero_time"
      "GH_Generation h1 = GH_Generation h" "GH_ParentBundleSHA256 h1 = GH_ParentBundleSHA256 h"
    using assms(3,4) by simp_all
  have "Header_validateFormat h1 bundle_Format = None"
    using sz count fields assms(1) KeyID_parts_NewKeyID [OF PayloadDigest_ok]
    by (auto simp: Header_validateFormat_def sized_def sealable_def MinSegmentBytes_def MaxSegmentBytes_def)
  moreover obtain sealed where "seal_segments P dek (segmentAADBase hb) h1 (segments h1) 0 payload = Inr (sealed, payload, [])"
    using seal_segments_total [OF sz(1), of 0 "segments h1" payload P dek "segmentAADBase hb"] sz(2) by auto
  moreover have "\<not> sint (of_nat (length payload) :: i64) < 0" using sz(2) assms(4) by simp
  ultimately show ?thesis
    using assms(2-6) count fields(3) unfolding bundle_Seal_def Let_def NewGCM_def assms(4) [symmetric]
    by (simp only: guarded_Inr Header_validate_def sum.inject prod.inject describe_fields PayloadDigest_ok nat_int) auto
qed

text \<open>C33: Whatever is sealed in memory opens: a payload of up to 2^44 bytes, under any header of a known kind
  whose parent is named exactly when it is a later generation, seals under a fresh key, and the bundle so
  written opens under that key, and yields the payload, byte for byte, with the header that was sealed.\<close>

theorem sealed_bytes_open:
  assumes "prims_ok P" "sealable h payload" "length dek = 32" "now \<noteq> zero_time"
    and "h1 = complete_header (describe h payload) dek now" "J h1 = Inr hb" "length hb \<le> MaxHeaderBytes"
    and "D hb = Inr (h1\<lparr>GH_ContentSnapshot := s\<rparr>, False)"
  shows "\<exists>blob. SealBytes P J h payload dek now = Inr (blob, dek) \<and>
    OpenBytes P D blob dek = Some (Inr (payload, h1\<lparr>GH_ContentSnapshot := s\<rparr>))"
proof -
  obtain blob where blob: "bundle_Seal P J (describe h payload) payload dek now = Inr (h1, dek, blob)"
    using Seal_total [OF assms(2-5), where J = J and hb = hb] assms(6,7) by blast
  have "sint (GH_PayloadBytes (describe h payload)) < 2 ^ 62"
    using sealable_sized(2) [OF assms(2,5)] assms(2,5) by (simp add: sealable_def)
  from Seal_opens [OF assms(1) blob this, of D s] assms(6,8)
  have "OpenBytes P D blob dek = Some (Inr (payload, h1\<lparr>GH_ContentSnapshot := s\<rparr>))" by simp
  with blob show ?thesis by (auto simp: SealBytes_def describe_def)
qed

definition demo_header :: Header where
  "demo_header = \<lparr>GH_Format = [], GH_KeyID = [], GH_SealedAt = 0, GH_Generation = 0, GH_ParentBundleSHA256 = [],
     GH_ParentPayloadSHA256 = [], GH_ParentGeneration = 0, GH_ContentKind = ''dir'', GH_ContentRef = ''lora'',
     GH_ContentSnapshot = string_bytes ''{}'', GH_PayloadSHA256 = [], GH_PayloadBytes = 0, GH_SegmentBytes = 4096\<rparr>"

definition demo_sealed :: Header where
  "demo_sealed = complete_header (describe demo_header [1, 2, 3]) (zeros 32) 1"

lemma demo_sealable: "sealable demo_header [1, 2, 3]"
  by (simp add: sealable_def demo_header_def ContentOllama_def ContentDir_def)

theorem sealed_bytes_open_witness:
  "\<exists>blob. SealBytes plain_prims (\<lambda>h. Inr [123]) demo_header [1, 2, 3] (zeros 32) 1 = Inr (blob, zeros 32) \<and>
    OpenBytes plain_prims (\<lambda>b. Inr (demo_sealed\<lparr>GH_ContentSnapshot := []\<rparr>, False)) blob (zeros 32) =
      Some (Inr ([1, 2, 3], demo_sealed\<lparr>GH_ContentSnapshot := []\<rparr>))"
  by (rule sealed_bytes_open [where hb = "[123]" and s = "[]", OF plain_prims_ok demo_sealable _ _ demo_sealed_def])
    (simp_all add: zero_time_def MaxHeaderBytes_def)

section \<open>What an opened bundle proves\<close>

lemma NewReader_ok:
  assumes "NewReader D blob = Inr r"
  shows "Header_validateFormat (rd_Header r) (if rd_version r = 4 then bundle_Format else bundle_FormatV3) = None \<and>
    bundle_Is blob \<and> (rd_version r = 4 \<longleftrightarrow> IsV4 blob) \<and> (rd_version r = 3 \<or> rd_version r = 4) \<and>
    length (rd_r r) < length blob \<and> rd_opened r = False"
proof -
  have t: "20 \<le> length blob \<Longrightarrow> IsV4 (take 20 blob @ zeros (20 - length blob)) = IsV4 blob"
      "20 \<le> length blob \<Longrightarrow> bundle_Is (take 20 blob @ zeros (20 - length blob)) = bundle_Is blob"
    by (simp_all add: bundle_Is_def IsV4_def IsV3_def)
  let ?prefix = "take 20 blob @ zeros (20 - length blob)"
  from assms have len: "20 \<le> length blob" unfolding NewReader_def Let_def by (simp only: guarded_Inr not_less)
  show ?thesis
  proof (cases "IsV4 ?prefix")
    case True
    with assms have "\<exists>h n. Header_validateFormat h bundle_Format = None \<and> r = \<lparr>rd_Header = h, rd_HeaderBytes = take n (drop 20 blob),
        rd_r = drop n (drop 20 blob), rd_version = 4, rd_prefix = [], rd_opened = False\<rparr>" unfolding NewReader_def Let_def
      by (simp only: guarded_Inr if_True) auto
    with True t len show ?thesis by (auto simp: bundle_Is_def)
  next
    case False
    with assms have "bundle_Is ?prefix \<and> Header_validateFormat (rd_Header r) bundle_FormatV3 = None \<and> rd_version r = 3 \<and>
        \<not> rd_opened r \<and> length (rd_r r) \<le> length blob - 20" unfolding NewReader_def Let_def
      by (simp only: guarded_Inr if_False) (auto split: if_splits)
    with False t len show ?thesis by auto
  qed
qed

lemma OpenBytes_ok:
  assumes "OpenBytes P D blob dek = Some (Inr (out, h))"
  obtains r p where "NewReader D blob = Inr r" "rd_Header r = h" "CheckKey (GH_KeyID h) dek = None"
    "ReadAll (GCM_Open P dek) p [] = Some (Inr out)" "pl_Header p = h" "pl_digest p = []" "pl_total p = 0"
proof -
  from assms obtain r where r: "NewReader D blob = Inr r" by (cases "NewReader D blob") (auto simp: OpenBytes_def)
  from assms r obtain opn p b' where p: "PayloadWithKey P r dek = (Inr (opn, p), b')"
    by (cases "PayloadWithKey P r dek"; cases "fst (PayloadWithKey P r dek)") (auto simp: OpenBytes_def)
  then have k: "CheckKey (GH_KeyID (rd_Header r)) dek = None" and op: "opn = GCM_Open P dek"
      and h: "pl_Header p = rd_Header r" "pl_digest p = []" "pl_total p = 0"
    by (auto simp: PayloadWithKey_def NewGCM_def Reader_payload_def split: option.splits if_splits)
  from assms r p have "ReadAll opn p [] = Some (Inr out)" "rd_Header r = h" by (auto simp: OpenBytes_def)
  with that r k op h show thesis by blast
qed

text \<open>C34: Whatever a bundle file holds, if it opens under a key then the key is the one the header names by
  its tag, the header is valid for the format its magic announces, and the payload that was read hashes to
  the digest and has the size the header states.\<close>

theorem opened_payload_is_the_headers:
  assumes "OpenBytes P D blob dek = Some (Inr (out, h))"
  shows "PayloadDigest out = GH_PayloadSHA256 h \<and> of_nat (length out) = GH_PayloadBytes h \<and> CheckKey (GH_KeyID h) dek = None \<and>
    bundle_Is blob \<and> Header_validateFormat h (if IsV4 blob then bundle_Format else bundle_FormatV3) = None"
proof -
  obtain r p where r: "NewReader D blob = Inr r" "rd_Header r = h" "CheckKey (GH_KeyID h) dek = None"
      "ReadAll (GCM_Open P dek) p [] = Some (Inr out)" "pl_Header p = h" "pl_digest p = []" "pl_total p = 0"
    by (rule OpenBytes_ok [OF assms])
  with NewReader_ok [OF r(1)] ReadAll_sound [OF r(4)] show ?thesis by (cases "IsV4 blob") auto
qed

lemma demo_opens:
  "\<exists>blob. OpenBytes plain_prims (\<lambda>b. Inr (demo_sealed\<lparr>GH_ContentSnapshot := []\<rparr>, False)) blob (zeros 32) =
     Some (Inr ([1, 2, 3], demo_sealed\<lparr>GH_ContentSnapshot := []\<rparr>))"
proof -
  obtain blob where blob: "bundle_Seal plain_prims (\<lambda>h. Inr [123]) (describe demo_header [1, 2, 3]) [1, 2, 3] (zeros 32) 1 =
      Inr (demo_sealed, zeros 32, blob)"
    using Seal_total [OF demo_sealable _ _ demo_sealed_def, where J = "\<lambda>h. Inr [123]" and hb = "[123]"]
    by (auto simp: zero_time_def MaxHeaderBytes_def)
  show ?thesis by (rule exI, rule Seal_opens [OF plain_prims_ok blob]) (simp_all add: describe_def)
qed

theorem opened_payload_is_the_headers_witness:
  "\<exists>out (h :: Header). PayloadDigest out = GH_PayloadSHA256 h \<and> of_nat (length out) = GH_PayloadBytes h \<and> out = [1, 2, 3] \<and>
    CheckKey (GH_KeyID h) (zeros 32) = None"
proof -
  obtain blob out h where "OpenBytes plain_prims (\<lambda>b. Inr (demo_sealed\<lparr>GH_ContentSnapshot := []\<rparr>, False)) blob (zeros 32) =
     Some (Inr (out, h))" "out = [1, 2, 3]" using demo_opens by blast
  with opened_payload_is_the_headers [OF this(1)] show ?thesis by blast
qed

text \<open>C35: The reader always answers: over any file of up to 2^61 bytes, with any header and any key, opening
  returns the payload or an error; it never slices out of range and always comes to an end.\<close>

theorem reader_always_answers:
  assumes "length blob \<le> 2 ^ 61"
  shows "OpenBytes P D blob dek \<noteq> None"
proof (cases "NewReader D blob")
  case (Inr r)
  let ?h = "rd_Header r"
  note ok = NewReader_ok [OF Inr]
  obtain f where f: "Header_validateFormat ?h f = None" using ok by blast
  then have s: "2 ^ 12 \<le> sint (GH_SegmentBytes ?h)" "sint (GH_SegmentBytes ?h) \<le> 2 ^ 26"
    by (auto simp: Header_validateFormat_def MinSegmentBytes_def MaxSegmentBytes_def)
  have "ReadAll opn p [] \<noteq> None" if "fst (Reader_payload r) = Inr p" for opn p
  proof -
    from that have p: "pl_Header p = ?h" "pl_next p = of_nat 0" "pl_r p = rd_r r"
        "pl_count p = segmentCount (GH_PayloadBytes ?h) (GH_SegmentBytes ?h)"
      by (auto simp: Reader_payload_def split: if_splits)
    show ?thesis
    proof (cases "sint (GH_PayloadBytes ?h) < 2 ^ 62")
      case True
      then show ?thesis
        using ReadAll_answers_sized [of p 0] validate_sized [OF f True] p segmentCount_sized by simp
    next
      case False
      then show ?thesis using ReadAll_answers_huge [of p 0] s p ok assms by simp
    qed
  qed
  moreover have "fst (Reader_payload r) = Inr p" if "Reader_payload r = (Inr p, r')" for p r' using that by simp
  ultimately show ?thesis using Inr by (fastforce simp: OpenBytes_def PayloadWithKey_def split: sum.splits option.splits prod.splits)
qed (simp add: OpenBytes_def)

theorem reader_always_answers_witness: "OpenBytes plain_prims (\<lambda>b. Inl EOF) [1, 2, 3] (zeros 32) \<noteq> None"
  by (rule reader_always_answers) simp

section \<open>The limit on segments\<close>

lemma div_le_self: "0 \<le> (a :: int) \<Longrightarrow> 0 < b \<Longrightarrow> a div b \<le> a"
  using zdiv_mono2 [of a 1 b] by simp

lemma sdiv_neg: "a < 0 \<Longrightarrow> 0 < b \<Longrightarrow> (a :: int) sdiv b = - ((- a) div b)"
  by (simp add: signed_divide_int_def)

text \<open>The number of segments is the payload's size divided by the segment size, rounded up, for every
  payload of at most 2^63 less a segment; above that the 64-bit sum wraps and the count is negative, so a
  header's limit of 2^32 segments refuses exactly what it should below that size and nothing above it.\<close>

theorem segment_limit_holds_below_the_wrap:
  assumes "0 < sint p" "2 ^ 12 \<le> sint s" "sint s \<le> 2 ^ 26"
  shows "if sint p + sint s \<le> 2 ^ 63
    then (sint (segmentCount p s) - 1) * sint s < sint p \<and> sint p \<le> sint (segmentCount p s) * sint s
    else sint (segmentCount p s) < 0"
proof (cases "sint p + sint s \<le> 2 ^ 63")
  case True
  let ?q = "(sint p + sint s - 1) div sint s"
  have nz: "p \<noteq> 0" using assms(1) by auto
  have p1: "sint (p - 1) = sint p - 1"
    using sint_sum_exact [of p "- 1"] assms(1) sint_range(2) [of p] by simp
  have sum: "sint (p + s - 1) = sint p + sint s - 1"
    using sint_sum_exact [of "p - 1" s] p1 True assms sint_range(1) [of p] by (simp add: algebra_simps)
  have "0 < sint s" using assms by simp
  then have q: "?q * sint s \<le> sint p + sint s - 1" "sint p + sint s - 1 < ?q * sint s + sint s"
    using pos_mod_bound [of "sint s" "sint p + sint s - 1"] pos_mod_sign [of "sint s" "sint p + sint s - 1"]
      div_mult_mod_eq [of "sint p + sint s - 1" "sint s"] by linarith+
  have "0 \<le> ?q" using assms by (simp add: pos_imp_zdiv_nonneg_iff)
  moreover have "?q \<le> sint p + sint s - 1" using assms by (intro div_le_self) auto
  ultimately have "sint (word_of_int ?q :: i64) = ?q" using True by (intro sint_of_int) auto
  then have "sint (segmentCount p s) = ?q"
    using assms sum nz by (simp add: segmentCount_def sdiv_nonneg)
  with True q show ?thesis by (simp add: left_diff_distrib)
next
  case False
  have nz: "p \<noteq> 0" using assms(1) by auto
  have w: "p + s - 1 = word_of_int (sint p + sint s - 1 - 2 ^ 64)"
    by (simp add: word_of_int_eq_iff take_bit_eq_mod)
  have "sint (p + s - 1) = sint p + sint s - 1 - 2 ^ 64"
    unfolding w using False assms sint_range(2) [of p] by (intro sint_of_int) auto
  moreover define d where "d = 2 ^ 64 + 1 - sint p - sint s"
  ultimately have sum: "sint (p + s - 1) = - d" by simp
  have d: "sint s \<le> d" "d \<le> 2 ^ 63" using False assms sint_range(2) [of p] by (simp_all add: d_def)
  have "0 < d div sint s" using d(1) assms by (simp add: pos_imp_zdiv_pos_iff)
  moreover have "d div sint s \<le> d" using d assms by (intro div_le_self) auto
  ultimately have "sint (word_of_int (- (d div sint s)) :: i64) = - (d div sint s)" using d by (intro sint_of_int) auto
  moreover have "(- d) sdiv sint s = - (d div sint s)" using sdiv_neg [of "- d" "sint s"] d assms by simp
  ultimately have "sint (segmentCount p s) = - (d div sint s)"
    using assms sum nz by (simp add: segmentCount_def)
  with False \<open>0 < d div sint s\<close> show ?thesis by simp
qed

theorem segment_limit_holds_below_the_wrap_witness:
  "sint (segmentCount (2 ^ 63 - 1) 4096) < 0 \<and> sint (segmentCount (2 ^ 44 + 1) 4096) > 2 ^ 32"
  using segment_limit_holds_below_the_wrap [of "2 ^ 63 - 1" 4096] segment_limit_holds_below_the_wrap [of "2 ^ 44 + 1" 4096]
  by simp

text \<open>Under a valid version 3 header no two segments share a nonce: the index fits its four bytes because
  a valid header has at most 2^32 segments, and the last byte tells the final segment from the others.\<close>

theorem segment_nonces_distinct:
  assumes "Header_validateFormat h f = None" "length prefix = 7"
    and "int m < sint (segmentCount (GH_PayloadBytes h) (GH_SegmentBytes h))" "int n < sint (segmentCount (GH_PayloadBytes h) (GH_SegmentBytes h))"
    and "segmentNonce prefix (of_nat m) a = segmentNonce prefix (of_nat n) b"
  shows "m = n \<and> a = b"
proof -
  have "sint (segmentCount (GH_PayloadBytes h) (GH_SegmentBytes h)) \<le> 2 ^ 32"
    using assms(1) by (auto simp: Header_validateFormat_def)
  with assms(3,4) have "m < 2 ^ 32" "n < 2 ^ 32" by simp_all
  then show ?thesis using segmentNonce_inj assms(2,5) by blast
qed

definition two_segments :: Header where
  "two_segments = demo_header\<lparr>GH_Format := bundle_FormatV3, GH_KeyID := ''genome-aaaaaaaaaaaa-g0-bbbbbbbbbbbb'', GH_SealedAt := 1,
     GH_PayloadSHA256 := ''sha256:'' @ replicate 64 CHR ''a'', GH_PayloadBytes := 8192\<rparr>"

lemma two_segments_valid: "Header_validateFormat two_segments bundle_FormatV3 = None"
proof -
  have "KeyID_parts (GH_KeyID two_segments) = Some (replicate 12 CHR ''a'', ''0'', replicate 12 CHR ''b'')" by code_simp
  moreover have "is_payload_digest (GH_PayloadSHA256 two_segments)" by code_simp
  moreover have "fmt_d 0 = ''0''" by code_simp
  ultimately show ?thesis
    by (simp add: Header_validateFormat_def two_segments_def demo_header_def MinSegmentBytes_def MaxSegmentBytes_def
        segmentCount_def ContentDir_def ContentOllama_def zero_time_def sdiv_nonneg numeral_eq_Suc replicate_Suc del: replicate_Suc)
qed

theorem segment_nonces_distinct_witness: "segmentNonce (zeros 7) 0 False \<noteq> segmentNonce (zeros 7) 1 True"
proof
  assume eq: "segmentNonce (zeros 7) 0 False = segmentNonce (zeros 7) 1 True"
  have count: "sint (segmentCount (GH_PayloadBytes two_segments) (GH_SegmentBytes two_segments)) = 2"
    by (simp add: two_segments_def demo_header_def segmentCount_def sdiv_nonneg)
  show False using segment_nonces_distinct [OF two_segments_valid, of "zeros 7" 0 1 False True] count eq by simp
qed

end
