(* ===== verification/FailoverPolicy.thy ===== *)
theory FailoverPolicy
  imports SentinelRecords KeyRelease GoText AuditChain
begin

text \<open>
  The operator's failover policy (src/internal/vault/failover/policy.go) and the release gate it forms
  (gate.go): the signed record, its gate, what it allows, when it stands and when it is spent.

  \<open>N\<close> stands for \<open>net/url\<close> and \<open>net\<close>: the scheme, host and hostname of an address that parses, and whether
  a hostname parses as a loopback address. \<open>D\<close> stands for \<open>encoding/json\<close>'s decoding of a policy file
  (unknown fields refused), and of the payload of a decision.
\<close>

record urls =
  u_Parse :: "string \<Rightarrow> (string \<times> string \<times> string) option"
  u_LoopbackIP :: "string \<Rightarrow> bool"

definition IsLoopbackHost :: "urls \<Rightarrow> string \<Rightarrow> bool" where
  "IsLoopbackHost N host \<longleftrightarrow> host = ''localhost'' \<or> u_LoopbackIP N host"

definition FailoverSchema :: string where
  "FailoverSchema = ''vault-genome/failover-policy/v1''"

definition GateEquivalent :: string where
  "GateEquivalent = ''EQUIVALENT''"

definition GateExact :: string where
  "GateExact = ''EXACT''"

record Primary =
  PR_Kind :: string
  PR_Measurements :: "string list"
  PR_AttestorPublicKey :: bytes

record Standby =
  SB_Kind :: string
  SB_Endpoint :: string
  SB_Measurements :: "string list"

record Triggers =
  TG_CompromiseReport :: bool
  TG_HeartbeatTimeoutSeconds :: i64
  TG_StoppedGraceSeconds :: i64

record Policy =
  FP_Schema :: string
  FP_Serial :: u64
  FP_IssuedAt :: gotime
  FP_NotAfter :: gotime
  FP_SentinelPublicKey :: bytes
  FP_SentinelAlg :: SignatureSuite
  FP_Primary :: "Primary option"
  FP_Standby :: Standby
  FP_Triggers :: Triggers
  FP_QuarantineSeconds :: i64
  FP_MaxRPOSeconds :: i64
  FP_RequireGate :: string
  FP_Reason :: string
  FP_SigningKeyID :: string
  FP_Alg :: SignatureSuite
  FP_Signature :: bytes

section \<open>The gate\<close>

fun checkMeasurements :: "string \<Rightarrow> string list \<Rightarrow> go_error option" where
  "checkMeasurements who [] = None"
| "checkMeasurements who (m # ms) =
     (case hex_decode m of
        None \<Rightarrow> Some (errorsNew (''failover: '' @ who @ '' measurement '' @ fmt_q m @ '' is not lower-case hex''))
      | Some b \<Rightarrow>
          if hex_encode b \<noteq> m then Some (errorsNew (''failover: '' @ who @ '' measurement '' @ fmt_q m @ '' is not lower-case hex''))
          else (case MeasurementFromBytes b of
                  Inl err \<Rightarrow> Some (wrapf (''failover: '' @ who @ '' measurement'') err)
                | Inr x \<Rightarrow> checkMeasurements who ms))"

definition Primary_validate :: "Primary option \<Rightarrow> go_error option" where
  "Primary_validate pr =
     (case pr of
        None \<Rightarrow> None
      | Some p \<Rightarrow>
          (case ParseProvider (PR_Kind p) of
             Inl err \<Rightarrow> Some (wrapf ''failover: primary kind'' err)
           | Inr kind \<Rightarrow>
               first_err
                 [chk (PR_Measurements p = []) (errorsNew ''failover: a pinned primary needs at least one measurement''),
                  checkMeasurements ''primary'' (PR_Measurements p),
                  chk (kind = ProviderSimulated \<and> length (PR_AttestorPublicKey p) \<noteq> 32)
                    (errorsNew ''failover: a simulated primary is pinned by its attestation key (32 bytes)''),
                  chk (kind \<noteq> ProviderSimulated \<and> length (PR_AttestorPublicKey p) \<noteq> 0)
                    (errorsNew (''failover: a '' @ kind @ '' primary has no attestation key to pin; its chain is the authority's anchor''))]))"

definition checkEndpoint :: "urls \<Rightarrow> string \<Rightarrow> go_error option" where
  "checkEndpoint N raw =
     (case u_Parse N raw of
        None \<Rightarrow> Some (errorsNew (''failover: standby endpoint '' @ fmt_q raw @ '' is not an absolute URL''))
      | Some (scheme, host, hostname) \<Rightarrow>
          if host = [] then Some (errorsNew (''failover: standby endpoint '' @ fmt_q raw @ '' is not an absolute URL''))
          else if scheme = ''https'' \<or> (scheme = ''http'' \<and> IsLoopbackHost N hostname) then None
          else Some (errorsNew (''failover: standby endpoint '' @ fmt_q raw @ '': https required (plain http only to a loopback host)'')))"

definition policy_scalars :: "Policy \<Rightarrow> go_error option" where
  "policy_scalars p =
     first_err
       [chk (FP_Schema p \<noteq> FailoverSchema) (errorsNew (''failover: schema '' @ fmt_q (FP_Schema p) @ '', want '' @ fmt_q FailoverSchema)),
        chk (FP_Serial p = 0) (errorsNew ''failover: serial must be at least 1''),
        chk (FP_IssuedAt p = zero_time \<or> \<not> FP_NotAfter p > FP_IssuedAt p)
          (errorsNew ''failover: issued_at required, and not_after must follow it''),
        chk (\<not> TG_CompromiseReport (FP_Triggers p) \<and> sint (TG_HeartbeatTimeoutSeconds (FP_Triggers p)) \<le> 0)
          (errorsNew ''failover: the policy names no trigger''),
        chk (sint (TG_HeartbeatTimeoutSeconds (FP_Triggers p)) < 0 \<or> sint (TG_StoppedGraceSeconds (FP_Triggers p)) < 0 \<or>
             sint (FP_QuarantineSeconds p) < 0 \<or> sint (FP_MaxRPOSeconds p) < 0)
          (errorsNew ''failover: durations must not be negative''),
        chk (FP_RequireGate p \<noteq> [] \<and> FP_RequireGate p \<noteq> GateEquivalent \<and> FP_RequireGate p \<noteq> GateExact)
          (errorsNew (''failover: require_gate '' @ fmt_q (FP_RequireGate p) @ '' (want EQUIVALENT, EXACT or none)'')),
        chk (FP_SigningKeyID p = []) (errorsNew ''failover: signing_key_id required'')]"

definition sentinel_pin_check :: "Policy \<Rightarrow> go_error option" where
  "sentinel_pin_check p =
     (case RecordSuite (FP_SentinelAlg p) of
        Inl err \<Rightarrow> Some (wrapf ''failover: sentinel_alg'' err)
      | Inr suite \<Rightarrow>
          chk (length (FP_SentinelPublicKey p) \<noteq> PublicKeySize suite)
            (errorsNew (''failover: sentinel_public_key must be '' @ fmt_d (PublicKeySize suite) @ '' bytes for '' @ suite)))"

definition Policy_validate :: "urls \<Rightarrow> Policy \<Rightarrow> go_error option" where
  "Policy_validate N p =
     first_err
       [policy_scalars p,
        sentinel_pin_check p,
        (case RecordSuite (FP_Alg p) of Inl err \<Rightarrow> Some (wrapf ''failover: alg'' err) | Inr s \<Rightarrow> None),
        (case ParseProvider (SB_Kind (FP_Standby p)) of Inl err \<Rightarrow> Some (wrapf ''failover: standby kind'' err) | Inr k \<Rightarrow> None),
        checkEndpoint N (SB_Endpoint (FP_Standby p)),
        chk (SB_Measurements (FP_Standby p) = []) (errorsNew ''failover: the standby must be pinned to at least one measurement''),
        checkMeasurements ''standby'' (SB_Measurements (FP_Standby p)),
        Primary_validate (FP_Primary p)]"

section \<open>The signed form\<close>

definition opt_int :: "i64 \<Rightarrow> jval option" where
  "opt_int i = (if i = 0 then None else Some (JNum (fmt_int (sint i))))"

definition opt_jval :: "string \<Rightarrow> jval option \<Rightarrow> (string \<times> jval) list" where
  "opt_jval k v = (case v of None \<Rightarrow> [] | Some j \<Rightarrow> [(k, j)])"

definition primary_json :: "Primary option \<Rightarrow> jval option" where
  "primary_json pr =
     map_option (\<lambda>p. JObj (opt_jval ''attestor_public_key'' (opt_bytes (PR_AttestorPublicKey p)) @
       [(''kind'', JStr (PR_Kind p)), (''measurements'', json_strs (PR_Measurements p))])) pr"

definition standby_json :: "Standby \<Rightarrow> jval" where
  "standby_json s = JObj [(''endpoint'', JStr (SB_Endpoint s)), (''kind'', JStr (SB_Kind s)), (''measurements'', json_strs (SB_Measurements s))]"

definition triggers_json :: "Triggers \<Rightarrow> jval" where
  "triggers_json t =
     JObj ([(''compromise_report'', JBool (TG_CompromiseReport t))] @
       opt_jval ''heartbeat_timeout_seconds'' (opt_int (TG_HeartbeatTimeoutSeconds t)) @
       opt_jval ''stopped_grace_seconds'' (opt_int (TG_StoppedGraceSeconds t)))"

definition Policy_fields :: "Policy \<Rightarrow> (string \<times> wire) list" where
  "Policy_fields p =
     [(''alg'', WOpt (FP_Alg p)),
      (''issued_at'', WTime (FP_IssuedAt p)),
      (''max_rpo_seconds'', WTree (Inr (opt_int (FP_MaxRPOSeconds p)))),
      (''not_after'', WTime (FP_NotAfter p)),
      (''primary'', WTree (Inr (primary_json (FP_Primary p)))),
      (''quarantine_seconds'', WTree (Inr (opt_int (FP_QuarantineSeconds p)))),
      (''reason'', WOpt (FP_Reason p)),
      (''require_gate'', WOpt (FP_RequireGate p)),
      (''schema'', WStr (FP_Schema p)),
      (''sentinel_alg'', WOpt (FP_SentinelAlg p)),
      (''sentinel_public_key'', WBytes (FP_SentinelPublicKey p)),
      (''serial'', WNum (unat (FP_Serial p))),
      (''signature'', WTree (Inr (opt_bytes (FP_Signature p)))),
      (''signing_key_id'', WStr (FP_SigningKeyID p)),
      (''standby'', WTree (Inr (Some (standby_json (FP_Standby p))))),
      (''triggers'', WTree (Inr (Some (triggers_json (FP_Triggers p)))))]"

definition Policy_record :: "urls \<Rightarrow> Policy contract" where
  "Policy_record N =
     \<lparr>ct_Name = ''failover'', ct_Purpose = PurposeUnknown, ct_Validate = Policy_validate N,
      ct_Wire = Policy_fields, ct_KeyID = FP_SigningKeyID, ct_Alg = FP_Alg, ct_Sig = FP_Signature,
      ct_SetAlg = (\<lambda>a p. p\<lparr>FP_Alg := a\<rparr>), ct_SetSig = (\<lambda>s p. p\<lparr>FP_Signature := s\<rparr>)\<rparr>"

lemma opt_int_inj: "opt_int a = opt_int b \<longleftrightarrow> a = b"
  by (auto simp: opt_int_def sint_inject dest: fmt_int_inj)

lemma primary_json_inj: "primary_json a = primary_json b \<longleftrightarrow> a = b"
proof (cases a; cases b)
  fix x y assume "a = Some x" "b = Some y"
  then show ?thesis
    by (auto simp: primary_json_def opt_jval_def opt_bytes_def json_bytes_inj json_strs_inj intro!: Primary.equality split: if_splits)
qed (auto simp: primary_json_def)

lemma standby_json_inj: "standby_json a = standby_json b \<longleftrightarrow> a = b"
  by (auto simp: standby_json_def json_strs_inj intro: Standby.equality)

lemma triggers_json_inj: "triggers_json a = triggers_json b \<longleftrightarrow> a = b"
  by (auto simp: triggers_json_def opt_jval_def opt_int_def sint_inject dest: fmt_int_inj intro!: Triggers.equality split: if_splits)

interpretation failover_policy: signed_contract "Policy_record N" for N
  by unfold_locales
    (auto simp: Policy_record_def Policy_fields_def shape_def contract_clean_def fields_ok_def
      opt_int_inj primary_json_inj standby_json_inj triggers_json_inj opt_bytes_inj word_unat_eq_iff simp del: wire_ok.simps(9)
      intro: Policy.equality)

text \<open>\<open>p.signedBytes()\<close>, \<open>Sign\<close> (the key by pointer) and \<open>Parse\<close>.\<close>

definition Policy_signedBytes :: "urls \<Rightarrow> floats \<Rightarrow> Policy \<Rightarrow> go_error + bytes" where
  "Policy_signedBytes N = signedBytes (Policy_record N)"

definition Policy_Sign :: "urls \<Rightarrow> floats \<Rightarrow> prims \<Rightarrow> Policy \<Rightarrow> SigningKey option \<Rightarrow> go_error + Policy" where
  "Policy_Sign N F P p key =
     (case key of
        None \<Rightarrow> Inl (errorsNew ''failover: operator key required'')
      | Some k \<Rightarrow>
          let p1 = (if FP_Schema p = [] then p\<lparr>FP_Schema := FailoverSchema\<rparr> else p);
              p2 = p1\<lparr>FP_Alg := RecordAlg (SK_suite k)\<rparr>
          in guardR (Policy_validate N p2)
               (bindR (Policy_signedBytes N F p2) (\<lambda>msg.
                 bindR (SigningKey_Sign P k msg) (\<lambda>sig. Inr (p2\<lparr>FP_Signature := sig\<rparr>)))))"

definition Policy_Parse ::
    "urls \<Rightarrow> floats \<Rightarrow> prims \<Rightarrow> (bytes \<Rightarrow> go_error + Policy) \<Rightarrow> bytes \<Rightarrow> SuitePublicKey \<Rightarrow> string \<Rightarrow> go_error + Policy" where
  "Policy_Parse N F P D raw pub kid =
     (case D raw of
        Inl err \<Rightarrow> Inl (wrapf ''failover: decode'' err)
      | Inr p \<Rightarrow>
          guardR (Policy_validate N p)
            (if FP_SigningKeyID p \<noteq> kid
             then Inl (errorsNew (''failover: the policy is signed by '' @ fmt_q (FP_SigningKeyID p) @
                    ''; this authority trusts operator key '' @ fmt_q kid))
             else bindR (Policy_signedBytes N F p) (\<lambda>msg.
               case SuitePublicKey_VerifyRecord P pub (FP_Alg p) msg (FP_Signature p) of
                 Some err \<Rightarrow> Inl (wrapf ''failover: signature does not verify under the operator key'' err)
               | None \<Rightarrow> Inr p)))"

text \<open>\<open>p.Sentinel()\<close>: the pinned key; its id is \<open>sentinel_KeyID\<close> of it. \<open>p.Digest()\<close>.\<close>

definition Policy_Sentinel :: "Policy \<Rightarrow> SuitePublicKey" where
  "Policy_Sentinel p =
     \<lparr>SP_Suite = (case RecordSuite (FP_SentinelAlg p) of Inl err \<Rightarrow> SuiteEd25519 | Inr suite \<Rightarrow> suite),
      SP_Bytes = FP_SentinelPublicKey p\<rparr>"

definition Policy_Digest :: "floats \<Rightarrow> Policy \<Rightarrow> bytes" where
  "Policy_Digest F p = SHA256 (case CanonicalJSON F (marshal_wire (Policy_fields p)) of Inl err \<Rightarrow> [] | Inr raw \<Rightarrow> raw)"

section \<open>What it allows\<close>

definition PinsPrimary :: "Policy \<Rightarrow> bool" where
  "PinsPrimary p \<longleftrightarrow> FP_Primary p \<noteq> None"

definition PrimaryAllows :: "Policy \<Rightarrow> Measurement \<Rightarrow> bool" where
  "PrimaryAllows p m \<longleftrightarrow> (case FP_Primary p of None \<Rightarrow> False | Some pr \<Rightarrow> hex_encode m \<in> set (PR_Measurements pr))"

definition Policy_Allows :: "Policy \<Rightarrow> Provider \<Rightarrow> bytes \<Rightarrow> bool" where
  "Policy_Allows p kind m \<longleftrightarrow> kind = SB_Kind (FP_Standby p) \<and> hex_encode m \<in> set (SB_Measurements (FP_Standby p))"

definition FailoverGate :: "Policy \<Rightarrow> KeyReleasePolicy \<Rightarrow> KeyReleasePolicy" where
  "FailoverGate p inner =
     \<lparr>kp_AuthorizeKeyRelease = (\<lambda>kind m did kids.
        if \<not> Policy_Allows p kind m
        then Inr \<lparr>PV_Authorized = False, PV_Reason =
               ''failover policy serial '' @ fmt_d (unat (FP_Serial p)) @ '' releases only to its standby ('' @ SB_Kind (FP_Standby p) @
               '', measurement '' @ fmt_list (SB_Measurements (FP_Standby p)) @ ''); '' @ kind @ '' '' @ hex_encode m @ '' is not it''\<rparr>
        else kp_AuthorizeKeyRelease inner kind m did kids),
      kp_PolicyVersion = kp_PolicyVersion inner @ '';failover='' @ fmt_d (unat (FP_Serial p))\<rparr>"

interpretation failover_gate: release_gate "FailoverGate p" "\<lambda>kind m. \<not> Policy_Allows p kind m" for p
  by unfold_locales (auto simp: FailoverGate_def)

section \<open>When it stands\<close>

definition ActiveAt :: "Policy \<Rightarrow> gotime \<Rightarrow> go_error option" where
  "ActiveAt p t =
     first_err
       [chk (t < time_Add (FP_IssuedAt p) (- 5 * 60 * Second))
          (errorsNew (''failover: policy serial '' @ fmt_d (unat (FP_Serial p)) @ '' is issued at '' @ fmt_RFC3339 (FP_IssuedAt p) @ '', in the future'')),
        chk (\<not> t < FP_NotAfter p)
          (errorsNew (''failover: policy serial '' @ fmt_d (unat (FP_Serial p)) @ '' expired at '' @ fmt_RFC3339 (FP_NotAfter p)))]"

definition DecisionFailover :: string where
  "DecisionFailover = ''failover''"

definition DecisionDeclined :: string where
  "DecisionDeclined = ''declined''"

definition KindFailoverDecided :: string where
  "KindFailoverDecided = ''FAILOVER_DECIDED''"

text \<open>\<open>U\<close> decodes the members \<open>decision\<close> and \<open>policy_serial\<close> of a payload.\<close>

fun CheckNotSpent_loop :: "(bytes \<Rightarrow> (string \<times> u64) option) \<Rightarrow> Policy \<Rightarrow> u64 \<Rightarrow> AuditEvent list \<Rightarrow> go_error + u64" where
  "CheckNotSpent_loop U p highest [] = Inr highest"
| "CheckNotSpent_loop U p highest (e # es) =
     (if AE_Kind e \<noteq> KindFailoverDecided then CheckNotSpent_loop U p highest es
      else (case U (AE_Payload e) of
              None \<Rightarrow> Inl (errorsNew (''failover: audit event '' @ AE_EventID e @ '' does not decode''))
            | Some (decision, serial) \<Rightarrow>
                if serial = FP_Serial p \<and> decision = DecisionFailover
                then Inl (errorsNew (''failover: policy serial '' @ fmt_d (unat (FP_Serial p)) @ '' already carried out a failover (audit event '' @
                       AE_EventID e @ ''); moving again needs a new policy''))
                else CheckNotSpent_loop U p (max highest serial) es))"

definition CheckNotSpent :: "(bytes \<Rightarrow> (string \<times> u64) option) \<Rightarrow> Policy \<Rightarrow> AuditEvent list \<Rightarrow> go_error option" where
  "CheckNotSpent U p events =
     (case CheckNotSpent_loop U p 0 events of
        Inl err \<Rightarrow> Some err
      | Inr highest \<Rightarrow>
          chk (FP_Serial p < highest)
            (errorsNew (''failover: policy serial '' @ fmt_d (unat (FP_Serial p)) @ '' is older than serial '' @ fmt_d (unat highest) @
              '' already applied in the audit log (rollback refused)'')))"

lemma CheckNotSpent_loop_ok:
  assumes "CheckNotSpent_loop U p h es = Inr n"
  shows "h \<le> n" "\<And>e. e \<in> set es \<Longrightarrow> AE_Kind e = KindFailoverDecided \<Longrightarrow>
    \<exists>d s. U (AE_Payload e) = Some (d, s) \<and> s \<le> n \<and> \<not> (s = FP_Serial p \<and> d = DecisionFailover)"
proof -
  have "h \<le> n \<and> (\<forall>e \<in> set es. AE_Kind e = KindFailoverDecided \<longrightarrow>
      (\<exists>d s. U (AE_Payload e) = Some (d, s) \<and> s \<le> n \<and> \<not> (s = FP_Serial p \<and> d = DecisionFailover)))"
    using assms
  proof (induction es arbitrary: h)
    case (Cons e es)
    show ?case
    proof (cases "AE_Kind e = KindFailoverDecided")
      case True
      with Cons.prems obtain d s where ds: "U (AE_Payload e) = Some (d, s)" "\<not> (s = FP_Serial p \<and> d = DecisionFailover)"
          "CheckNotSpent_loop U p (max h s) es = Inr n"
        by (auto split: option.splits if_splits)
      with Cons.IH [OF ds(3)] True show ?thesis by auto
    next
      case False
      with Cons.prems Cons.IH [of h] show ?thesis by simp
    qed
  qed simp
  then show "h \<le> n" "\<And>e. e \<in> set es \<Longrightarrow> AE_Kind e = KindFailoverDecided \<Longrightarrow>
    \<exists>d s. U (AE_Payload e) = Some (d, s) \<and> s \<le> n \<and> \<not> (s = FP_Serial p \<and> d = DecisionFailover)" by auto
qed

text \<open>A validated policy: a positive timeout or a compromise trigger, durations of no sign.\<close>

lemma Policy_validated:
  assumes "Policy_validate N p = None"
  shows "0 \<le> sint (TG_HeartbeatTimeoutSeconds (FP_Triggers p))" "0 \<le> sint (TG_StoppedGraceSeconds (FP_Triggers p))"
    "0 \<le> sint (FP_QuarantineSeconds p)" "0 \<le> sint (FP_MaxRPOSeconds p)" "FP_IssuedAt p < FP_NotAfter p"
  using assms by (auto simp: Policy_validate_def policy_scalars_def)

end
