(* ===== verification/Outbox.thy ===== *)
theory Outbox
  imports SentinelRecords GenomeBundle
begin

text \<open>
  Reading a sentinel's outbox (src/internal/genome/sentinel/outbox.go): the bounded reads, the heartbeat and
  the compromise report, and the check of a chosen genome's files. The escrow envelope's form
  (genome/escrow/escrow.go) is here too.

  An \<open>Outbox\<close> is what the directory holds at one moment: its entries in the order \<open>os.ReadDir\<close> gives them
  (sorted by name) with whether each is a regular file, what \<open>os.Lstat\<close> and \<open>os.ReadFile\<close> give for a name (an
  error, nothing for what is not a regular file, or the content), and what opening it for a stream gives.
  \<open>D\<close> stands for \<open>encoding/json\<close>'s decoding of each kind of record.
\<close>

record Outbox =
  ob_Dir :: string
  ob_entries :: "go_error + (string \<times> bool) list"
  ob_file :: "string \<Rightarrow> go_error + bytes option"
  ob_open :: "string \<Rightarrow> go_error + bytes"

record decoders =
  d_Seal :: "bytes \<Rightarrow> go_error + SealRecord"
  d_Heartbeat :: "bytes \<Rightarrow> go_error + Heartbeat"
  d_Compromise :: "bytes \<Rightarrow> go_error + Compromise"

definition HeartbeatFile :: string where
  "HeartbeatFile = ''heartbeat.json''"

definition CompromiseFile :: string where
  "CompromiseFile = ''compromise.json''"

definition maxRecordBytes :: nat where
  "maxRecordBytes = 2 ^ 20"

section \<open>Bounded reads\<close>

definition fs_ErrNotExist :: go_error where
  "fs_ErrNotExist = errorsNew ''file does not exist''"

definition ErrAbsent :: go_error where
  "ErrAbsent = errorsNew ''sentinel: no such record''"

definition readBounded :: "Outbox \<Rightarrow> string \<Rightarrow> go_error + bytes" where
  "readBounded ob name =
     (case ob_file ob name of
        Inl err \<Rightarrow> Inl err
      | Inr None \<Rightarrow> Inl (errorsNew (''sentinel: '' @ name @ '' is not a regular file''))
      | Inr (Some raw) \<Rightarrow>
          if length raw > maxRecordBytes
          then Inl (errorsNew (''sentinel: '' @ name @ '' is '' @ fmt_d (length raw) @ '' bytes, over 1048576''))
          else Inr raw)"

definition readRecord :: "Outbox \<Rightarrow> string \<Rightarrow> go_error + bytes" where
  "readRecord ob name =
     (case readBounded ob name of
        Inl err \<Rightarrow> Inl (if errors_Is err fs_ErrNotExist then ErrAbsent else err)
      | Inr raw \<Rightarrow> Inr raw)"

definition ReadHeartbeat :: "floats \<Rightarrow> prims \<Rightarrow> decoders \<Rightarrow> Outbox \<Rightarrow> SuitePublicKey \<Rightarrow> go_error + Heartbeat \<times> bytes" where
  "ReadHeartbeat F P D ob pub =
     bindR (readRecord ob HeartbeatFile) (\<lambda>raw.
       bindR (sentinel_parse Heartbeat_signable F P (d_Heartbeat D) raw pub) (\<lambda>h. Inr (h, raw)))"

definition ReadCompromise :: "floats \<Rightarrow> prims \<Rightarrow> decoders \<Rightarrow> Outbox \<Rightarrow> SuitePublicKey \<Rightarrow> go_error + Compromise \<times> bytes" where
  "ReadCompromise F P D ob pub =
     bindR (readRecord ob CompromiseFile) (\<lambda>raw.
       bindR (sentinel_parse Compromise_signable F P (d_Compromise D) raw pub) (\<lambda>c. Inr (c, raw)))"

lemma ReadHeartbeat_ok:
  "ReadHeartbeat F P D ob pub = Inr (h, raw) \<longleftrightarrow>
   readRecord ob HeartbeatFile = Inr raw \<and> d_Heartbeat D raw = Inr h \<and> sentinel_verify Heartbeat_signable F P h pub = None"
  by (auto simp: ReadHeartbeat_def heartbeat.sentinel_parse_ok)

lemma ReadCompromise_ok:
  "ReadCompromise F P D ob pub = Inr (c, raw) \<longleftrightarrow>
   readRecord ob CompromiseFile = Inr raw \<and> d_Compromise D raw = Inr c \<and> sentinel_verify Compromise_signable F P c pub = None"
  by (auto simp: ReadCompromise_def compromise.sentinel_parse_ok)

section \<open>The chain\<close>

record Rejected =
  RJ_File :: string
  RJ_Reason :: string

text \<open>The submatch of \<open>^gen-([0-9]{6,})\.seal\.json$\<close>.\<close>

definition recordName_digits :: "string \<Rightarrow> string option" where
  "recordName_digits name =
     (let ds = take (length name - 14) (drop 4 name) in
      if 20 \<le> length name \<and> take 4 name = ''gen-'' \<and> list_all is_digit ds \<and> drop (length name - 10) name = ''.seal.json''
      then Some ds else None)"

text \<open>One entry of the directory: passed over, rejected, or a record that verifies.\<close>

definition chain_entry ::
    "floats \<Rightarrow> prims \<Rightarrow> decoders \<Rightarrow> Outbox \<Rightarrow> SuitePublicKey \<Rightarrow> string \<times> bool \<Rightarrow> (Rejected + SealRecord) option" where
  "chain_entry F P D ob pub entry =
     (let (name, regular) = entry in
      case recordName_digits name of
        None \<Rightarrow> None
      | Some ds \<Rightarrow>
          if \<not> regular then None
          else (case ParseUint ds of
                  None \<Rightarrow> Some (Inl \<lparr>RJ_File = name, RJ_Reason = ''generation out of range''\<rparr>)
                | Some gen \<Rightarrow>
                    (case bindR (readBounded ob name) (\<lambda>raw. sentinel_parse SealRecord_signable F P (d_Seal D) raw pub) of
                       Inl err \<Rightarrow> Some (Inl \<lparr>RJ_File = name, RJ_Reason = Error_String err\<rparr>)
                     | Inr rec \<Rightarrow>
                         if SE_Generation rec \<noteq> gen
                         then Some (Inl \<lparr>RJ_File = name, RJ_Reason = ''the file is generation '' @ fmt_d (unat gen) @
                                '', the record says '' @ fmt_d (unat (SE_Generation rec))\<rparr>)
                         else Some (Inr rec))))"

definition chain_entries ::
    "floats \<Rightarrow> prims \<Rightarrow> decoders \<Rightarrow> Outbox \<Rightarrow> SuitePublicKey \<Rightarrow> (string \<times> bool) list \<Rightarrow> (Rejected + SealRecord) list" where
  "chain_entries F P D ob pub es = map the (filter (\<lambda>x. x \<noteq> None) (map (chain_entry F P D ob pub) es))"

definition valid_records :: "('a + 'b) list \<Rightarrow> 'b list" where
  "valid_records rs = map projr (filter (\<lambda>x. \<not> isl x) rs)"

definition rejected_records :: "('a + 'b) list \<Rightarrow> 'a list" where
  "rejected_records rs = map projl (filter isl rs)"

definition follows :: "SealRecord \<Rightarrow> SealRecord \<Rightarrow> bool" where
  "follows prev rec \<longleftrightarrow> SE_Generation rec = SE_Generation prev + 1 \<and> SE_ParentBundleSHA256 rec = SE_BundleSHA256 prev"

text \<open>The walk over the records in order of generation: the chain, and what breaks off it.\<close>

fun link_records :: "SealRecord list \<Rightarrow> SealRecord list \<Rightarrow> SealRecord list \<times> Rejected list" where
  "link_records chain [] = (chain, [])"
| "link_records chain (rec # rs) =
     (if chain = [] \<or> follows (last chain) rec then link_records (chain @ [rec]) rs
      else (chain, map (\<lambda>r. \<lparr>RJ_File = RecordName (SE_Generation r), RJ_Reason =
              ''does not follow generation '' @ fmt_d (unat (SE_Generation (last chain))) @ '': the chain breaks there''\<rparr>) (rec # rs)))"

text \<open>
  \<open>sort.Slice\<close> by generation. The order it leaves records of one generation in is not documented; a stable
  order is taken here, and the properties do not depend on it.
\<close>

definition ReadChain ::
    "floats \<Rightarrow> prims \<Rightarrow> decoders \<Rightarrow> Outbox \<Rightarrow> SuitePublicKey \<Rightarrow> go_error + SealRecord list \<times> Rejected list" where
  "ReadChain F P D ob pub =
     bindR (ob_entries ob) (\<lambda>entries.
       let rs = chain_entries F P D ob pub entries;
           (chain, broken) = link_records [] (sort_key (\<lambda>r. unat (SE_Generation r)) (valid_records rs))
       in Inr (chain, rejected_records rs @ broken))"

section \<open>The files of a genome\<close>

record Envelope =
  EN_Schema :: string
  EN_KeyID :: string
  EN_EscrowKey :: string
  EN_Suite :: string
  EN_Ciphertext :: bytes

text \<open>\<open>escrow.Parse\<close>: \<open>E\<close> decodes an envelope, unknown fields refused.\<close>

definition escrow_Parse :: "(bytes \<Rightarrow> go_error + Envelope) \<Rightarrow> bytes \<Rightarrow> go_error + Envelope" where
  "escrow_Parse E raw = (case E raw of Inl err \<Rightarrow> Inl (wrapf ''escrow'' err) | Inr env \<Rightarrow> Inr env)"

definition CheckGenome ::
    "(bytes \<Rightarrow> go_error + Header \<times> bool) \<Rightarrow> (bytes \<Rightarrow> go_error + Envelope) \<Rightarrow> Outbox \<Rightarrow> SealRecord \<Rightarrow> go_error + Identity \<times> Envelope" where
  "CheckGenome DH E ob rec =
     bindR (bindR (ob_open ob (SE_Bundle rec)) (Identify DH (ob_Dir ob @ ''/'' @ SE_Bundle rec))) (\<lambda>id.
       let h = ID_Header id in
       if ID_SHA256 id \<noteq> SE_BundleSHA256 rec \<or> ID_Size id \<noteq> SE_BundleBytes rec
       then Inl (errorsNew (''sentinel: '' @ SE_Bundle rec @ '' hashes to '' @ ID_SHA256 id @ '' ('' @ fmt_int (sint (ID_Size id)) @
              '' bytes), the record says '' @ SE_BundleSHA256 rec @ '' ('' @ fmt_int (sint (SE_BundleBytes rec)) @ '' bytes)''))
       else if GH_KeyID h \<noteq> SE_KeyID rec \<or> GH_Generation h \<noteq> SE_Generation rec \<or> GH_PayloadSHA256 h \<noteq> SE_PayloadSHA256 rec \<or>
           GH_ParentBundleSHA256 h \<noteq> SE_ParentBundleSHA256 rec
       then Inl (errorsNew (''sentinel: '' @ SE_Bundle rec @ '''s header is not the one its record describes''))
       else bindR (readBounded ob (SE_Escrow rec)) (\<lambda>raw.
         bindR (escrow_Parse E raw) (\<lambda>env.
           if EN_KeyID env \<noteq> SE_KeyID rec \<or> EN_EscrowKey env \<noteq> SE_EscrowKey rec
           then Inl (errorsNew (''sentinel: '' @ SE_Escrow rec @ '' escrows key '' @ EN_KeyID env @ '' to '' @ EN_EscrowKey env @
                  '', the record says '' @ SE_KeyID rec @ '' to '' @ SE_EscrowKey rec))
           else Inr (id, env))))"

section \<open>Lemmas of the chain\<close>

lemma chain_entries_Cons [simp]:
  "chain_entries F P D ob pub [] = []"
  "chain_entries F P D ob pub (e # es) =
     (case chain_entry F P D ob pub e of None \<Rightarrow> chain_entries F P D ob pub es | Some x \<Rightarrow> x # chain_entries F P D ob pub es)"
  by (auto simp: chain_entries_def split: option.split)

lemma sum_lists [simp]:
  "valid_records [] = []" "valid_records (Inr r # rs) = r # valid_records rs" "valid_records (Inl x # rs) = valid_records rs"
  "rejected_records [] = []" "rejected_records (Inr r # rs) = rejected_records rs" "rejected_records (Inl x # rs) = x # rejected_records rs"
  by (simp_all add: valid_records_def rejected_records_def)

text \<open>A chain is linked when each record follows the one before.\<close>

definition seals_linked :: "SealRecord list \<Rightarrow> bool" where
  "seals_linked rs \<longleftrightarrow> (\<forall>i. Suc i < length rs \<longrightarrow> follows (rs ! i) (rs ! Suc i))"

lemma seals_linked_Nil [simp]: "seals_linked []" "seals_linked [r]" by (simp_all add: seals_linked_def)

lemma seals_linked_snoc: "seals_linked rs \<Longrightarrow> rs \<noteq> [] \<Longrightarrow> follows (last rs) r \<Longrightarrow> seals_linked (rs @ [r])"
  unfolding seals_linked_def
proof (intro allI impI)
  fix i
  assume a: "\<forall>i. Suc i < length rs \<longrightarrow> follows (rs ! i) (rs ! Suc i)" "rs \<noteq> []" "follows (last rs) r" "Suc i < length (rs @ [r])"
  show "follows ((rs @ [r]) ! i) ((rs @ [r]) ! Suc i)"
  proof (cases "Suc i < length rs")
    case True
    with a(1) show ?thesis by (simp add: nth_append)
  next
    case False
    with a(4) have "Suc i = length rs" by simp
    then have "i = length rs - 1" "i < length rs" by auto
    with a(2,3) \<open>Suc i = length rs\<close> show ?thesis by (simp add: nth_append last_conv_nth)
  qed
qed

lemma seals_linked_append:
  assumes "seals_linked (rs @ r # ss)" "rs \<noteq> []"
  shows "follows (last rs) r"
proof -
  have "Suc (length rs - 1) = length rs" using assms(2) by simp
  with assms(1) [unfolded seals_linked_def, rule_format, of "length rs - 1"] assms(2) show ?thesis
    by (simp add: nth_append last_conv_nth)
qed

lemma seals_linked_prefix:
  assumes "seals_linked (rs @ ss)"
  shows "seals_linked rs"
  unfolding seals_linked_def
proof (intro allI impI)
  fix i
  assume "Suc i < length rs"
  with assms [unfolded seals_linked_def, rule_format, of i] show "follows (rs ! i) (rs ! Suc i)" by (simp add: nth_append)
qed

lemma link_records_linked:
  assumes "seals_linked chain" "link_records chain rs = (chain', broken)"
  shows "seals_linked chain' \<and> (\<exists>ss ts. chain' = chain @ ss \<and> rs = ss @ ts)"
  using assms
proof (induction chain rs rule: link_records.induct)
  case (2 chain rec rs)
  show ?case
  proof (cases "chain = [] \<or> follows (last chain) rec")
    case True
    then have "seals_linked (chain @ [rec])" using "2.prems"(1) seals_linked_snoc by (cases "chain = []") auto
    with True "2.IH" [OF True] "2.prems"(2) show ?thesis by (metis append_Cons append_Nil append_assoc link_records.simps(2))
  next
    case False
    with "2.prems" show ?thesis by auto
  qed
qed simp

text \<open>Records that are linked are all taken.\<close>

lemma link_records_complete: "seals_linked (chain @ rs) \<Longrightarrow> link_records chain rs = (chain @ rs, [])"
proof (induction rs arbitrary: chain)
  case (Cons r rs)
  then have "chain = [] \<or> follows (last chain) r" using seals_linked_append by blast
  with Cons.IH [of "chain @ [r]"] Cons.prems show ?case by simp
qed simp

lemma ReadChain_ok:
  assumes "ReadChain F P D ob pub = Inr (chain, rejected)"
  obtains entries where "ob_entries ob = Inr entries" "seals_linked chain"
    "\<And>r. r \<in> set chain \<Longrightarrow> Inr r \<in> set (chain_entries F P D ob pub entries)"
proof -
  obtain entries where e: "ob_entries ob = Inr entries" using assms by (auto simp: ReadChain_def)
  let ?v = "sort_key (\<lambda>r. unat (SE_Generation r)) (valid_records (chain_entries F P D ob pub entries))"
  obtain broken where l: "link_records [] ?v = (chain, broken)"
    using assms e by (auto simp: ReadChain_def Let_def split: prod.splits)
  have valid: "Inr r \<in> set rs" if "r \<in> set (valid_records rs)" for r :: SealRecord and rs :: "(Rejected + SealRecord) list"
    using that
  proof (induction rs)
    case (Cons a rs)
    then show ?case by (cases a) auto
  qed simp
  from link_records_linked [OF _ l] obtain ts where ts: "seals_linked chain" "?v = chain @ ts" by auto
  have "Inr r \<in> set (chain_entries F P D ob pub entries)" if "r \<in> set chain" for r
  proof -
    have "r \<in> set ?v" unfolding ts(2) using that by simp
    then show ?thesis using valid by simp
  qed
  with that e ts(1) show thesis by blast
qed

lemma chain_entry_Inr:
  assumes "chain_entry F P D ob pub (name, regular) = Some (Inr r)"
  obtains raw where "readBounded ob name = Inr raw" "d_Seal D raw = Inr r" "sentinel_verify SealRecord_signable F P r pub = None"
  using assms
  by (auto simp: chain_entry_def Let_def seal_record.sentinel_parse_ok split: option.splits if_splits sum.splits)

end
