(* ===== verification/FailoverWatch.thy ===== *)
theory FailoverWatch
  imports FailoverPolicy Outbox
begin

text \<open>
  The release authority's watch over the primary's outbox (src/internal/vault/failover/watch.go): a state
  machine whose step is one observation of the outbox at one reading of the authority's clock.

  The watcher's \<open>State\<close> text, which only feeds a log, is kept; the polling loop with its context and logger
  is a run over the observations its polls make, up to the first that fires a trigger.
\<close>

definition TriggerCompromise :: string where
  "TriggerCompromise = ''compromise-report''"

definition TriggerHeartbeatTimeout :: string where
  "TriggerHeartbeatTimeout = ''heartbeat-timeout''"

definition TriggerStoppedOverdue :: string where
  "TriggerStoppedOverdue = ''stopped-overdue''"

record Trigger =
  TR_Kind :: string
  TR_At :: gotime
  TR_ObservedAt :: gotime
  TR_AliveObservedAt :: gotime
  TR_Evidence :: bytes
  TR_Compromise :: "Compromise option"
  TR_Heartbeat :: "Heartbeat option"
  TR_PrimaryMeasurement :: Measurement
  TR_Ignored :: "string list"

definition reportedLast :: "Trigger \<Rightarrow> Link option" where
  "reportedLast t =
     (case TR_Compromise t of
        Some c \<Rightarrow> CR_Last c
      | None \<Rightarrow> (case TR_Heartbeat t of Some h \<Rightarrow> HB_Last h | None \<Rightarrow> None))"

record Watcher =
  w_policy :: Policy
  w_pub :: SuitePublicKey
  w_primary :: "tee_Verifier option"
  w_hb :: "Heartbeat option"
  w_hbRaw :: bytes
  w_hbAt :: Measurement
  w_aliveAt :: gotime
  w_stoppedAt :: gotime
  w_Ignored :: "string list"
  w_State :: string

definition NewWatcher :: "Policy \<Rightarrow> tee_Verifier option \<Rightarrow> Watcher" where
  "NewWatcher p primary =
     \<lparr>w_policy = p, w_pub = Policy_Sentinel p, w_primary = primary, w_hb = None, w_hbRaw = [], w_hbAt = [],
      w_aliveAt = zero_time, w_stoppedAt = zero_time, w_Ignored = [], w_State = []\<rparr>"

text \<open>\<open>w.attested\<close>, on a record of any kind.\<close>

definition watcher_attested :: "'r signable \<Rightarrow> floats \<Rightarrow> Watcher \<Rightarrow> 'r \<Rightarrow> go_error + Measurement" where
  "watcher_attested sn F w rec =
     (case FP_Primary (w_policy w) of
        None \<Rightarrow> Inr []
      | Some pr \<Rightarrow>
          bindR (verifyAttestation sn F rec (w_primary w)) (\<lambda>m.
            if \<not> PrimaryAllows (w_policy w) m
            then Inl (errorsNew (''attested by '' @ PR_Kind pr @ '' measurement '' @ hex_encode m @
                   '', which the policy does not pin as the primary''))
            else Inr m))"

text \<open>The notes ignored so far are the keys of \<open>seen\<close>.\<close>

definition ignore_note :: "string \<Rightarrow> go_error \<Rightarrow> string" where
  "ignore_note fname err = fname @ '': '' @ Error_String err"

definition watcher_ignore :: "string \<Rightarrow> go_error \<Rightarrow> Watcher \<Rightarrow> Watcher" where
  "watcher_ignore fname err w =
     (if ignore_note fname err \<in> set (w_Ignored w) then w else w\<lparr>w_Ignored := w_Ignored w @ [ignore_note fname err]\<rparr>)"

section \<open>One observation\<close>

text \<open>The compromise report: a trigger, or the watcher with what it noted.\<close>

definition observe_compromise ::
    "floats \<Rightarrow> prims \<Rightarrow> decoders \<Rightarrow> Outbox \<Rightarrow> gotime \<Rightarrow> Watcher \<Rightarrow> Trigger option \<times> Watcher" where
  "observe_compromise F P D ob now w =
     (case bindR (ReadCompromise F P D ob (w_pub w)) (\<lambda>(c, raw).
             bindR (watcher_attested Compromise_signable F w c) (\<lambda>m. Inr (c, raw, m))) of
        Inr (c, raw, m) \<Rightarrow>
          (Some \<lparr>TR_Kind = TriggerCompromise, TR_At = CR_DetectedAt c, TR_ObservedAt = now, TR_AliveObservedAt = w_aliveAt w,
                 TR_Evidence = raw, TR_Compromise = Some c, TR_Heartbeat = w_hb w, TR_PrimaryMeasurement = m, TR_Ignored = []\<rparr>, w)
      | Inl err \<Rightarrow> (None, if errors_Is err ErrAbsent then w else watcher_ignore CompromiseFile err w))"

definition rises :: "Watcher \<Rightarrow> Heartbeat \<Rightarrow> bool" where
  "rises w h \<longleftrightarrow> (case w_hb w of None \<Rightarrow> True | Some h0 \<Rightarrow> HB_Seq h > HB_Seq h0)"

definition watcher_accept :: "Heartbeat \<Rightarrow> bytes \<Rightarrow> Measurement \<Rightarrow> gotime \<Rightarrow> Watcher \<Rightarrow> Watcher" where
  "watcher_accept h raw m now w =
     w\<lparr>w_hb := Some h, w_hbRaw := raw, w_hbAt := m, w_aliveAt := now,
       w_stoppedAt := (if HB_Status h \<noteq> StatusStopped then zero_time
                       else if w_stoppedAt w = zero_time then now else w_stoppedAt w)\<rparr>"

definition observe_heartbeat :: "floats \<Rightarrow> prims \<Rightarrow> decoders \<Rightarrow> Outbox \<Rightarrow> gotime \<Rightarrow> Watcher \<Rightarrow> Watcher" where
  "observe_heartbeat F P D ob now w =
     (case bindR (ReadHeartbeat F P D ob (w_pub w)) (\<lambda>(h, raw).
             if rises w h then bindR (watcher_attested Heartbeat_signable F w h) (\<lambda>m. Inr (h, raw, m)) else Inr (h, raw, [])) of
        Inr (h, raw, m) \<Rightarrow>
          if rises w h then watcher_accept h raw m now w
          else (case w_hb w of
                  Some h0 \<Rightarrow>
                    if HB_Seq h < HB_Seq h0
                    then watcher_ignore HeartbeatFile (errorsNew (''sequence '' @ fmt_d (unat (HB_Seq h)) @ '' after '' @
                           fmt_d (unat (HB_Seq h0)) @ '': an older heartbeat was put back'')) w
                    else w
                | None \<Rightarrow> w)
      | Inl err \<Rightarrow> if errors_Is err ErrAbsent then w else watcher_ignore HeartbeatFile err w)"

definition heartbeat_trigger :: "string \<Rightarrow> Heartbeat \<Rightarrow> gotime \<Rightarrow> Watcher \<Rightarrow> Trigger" where
  "heartbeat_trigger kind h now w =
     \<lparr>TR_Kind = kind, TR_At = HB_At h, TR_ObservedAt = now, TR_AliveObservedAt = w_aliveAt w, TR_Evidence = w_hbRaw w,
      TR_Compromise = None, TR_Heartbeat = Some h, TR_PrimaryMeasurement = w_hbAt w, TR_Ignored = []\<rparr>"

definition timeout_verdict :: "Heartbeat \<Rightarrow> gotime \<Rightarrow> Watcher \<Rightarrow> Trigger option \<times> Watcher" where
  "timeout_verdict h now w =
     (let t = TG_HeartbeatTimeoutSeconds (FP_Triggers (w_policy w)) in
      if 0 < sint t \<and> sint (time_Sub now (w_aliveAt w)) \<ge> sint (seconds t)
      then (Some (heartbeat_trigger TriggerHeartbeatTimeout h now w), w)
      else (None, w\<lparr>w_State := ''watching''\<rparr>))"

definition stopped_verdict :: "Heartbeat \<Rightarrow> gotime \<Rightarrow> Watcher \<Rightarrow> Trigger option \<times> Watcher" where
  "stopped_verdict h now w =
     (let grace = seconds (TG_StoppedGraceSeconds (FP_Triggers (w_policy w))) in
      if sint grace \<le> 0
      then (None, w\<lparr>w_State := ''the primary's sentinel was stopped by its operator: standing down''\<rparr>)
      else if sint (time_Sub now (w_stoppedAt w)) \<ge> sint grace
      then (Some (heartbeat_trigger TriggerStoppedOverdue h now w), w)
      else (None, w\<lparr>w_State := ''the primary's sentinel was stopped by its operator: standing down for '' @
              Duration_String (Duration_Round (grace - time_Sub now (w_stoppedAt w)) Second) @ '' more''\<rparr>))"

definition observe_verdict :: "gotime \<Rightarrow> Watcher \<Rightarrow> Trigger option \<times> Watcher" where
  "observe_verdict now w =
     (case w_hb w of
        None \<Rightarrow> (None, w\<lparr>w_State := ''waiting for the primary's first heartbeat''\<rparr>)
      | Some h \<Rightarrow>
          if HB_Status h = StatusCompromised \<and> TG_CompromiseReport (FP_Triggers (w_policy w))
          then (Some (heartbeat_trigger TriggerCompromise h now w), w)
          else if HB_Status h = StatusStopped then stopped_verdict h now w
          else timeout_verdict h now w)"

definition observe :: "floats \<Rightarrow> prims \<Rightarrow> decoders \<Rightarrow> Outbox \<Rightarrow> gotime \<Rightarrow> Watcher \<Rightarrow> Trigger option \<times> Watcher" where
  "observe F P D ob now w =
     (case (if TG_CompromiseReport (FP_Triggers (w_policy w)) then observe_compromise F P D ob now w else (None, w)) of
        (Some t, w') \<Rightarrow> (Some t, w')
      | (None, w') \<Rightarrow> observe_verdict now (observe_heartbeat F P D ob now w'))"

definition Observe :: "floats \<Rightarrow> prims \<Rightarrow> decoders \<Rightarrow> Outbox \<Rightarrow> gotime \<Rightarrow> Watcher \<Rightarrow> Trigger option \<times> Watcher" where
  "Observe F P D ob now w =
     (case observe F P D ob now w of
        (None, w') \<Rightarrow> (None, w')
      | (Some t, w') \<Rightarrow> (Some (t\<lparr>TR_Ignored := w_Ignored w'\<rparr>), w'))"

text \<open>\<open>Watch\<close> over the observations its polls make.\<close>

fun Watch :: "floats \<Rightarrow> prims \<Rightarrow> decoders \<Rightarrow> (Outbox \<times> gotime) list \<Rightarrow> Watcher \<Rightarrow> Trigger option \<times> Watcher" where
  "Watch F P D [] w = (None, w)"
| "Watch F P D ((ob, now) # obs) w =
     (case Observe F P D ob now w of
        (Some t, w') \<Rightarrow> (Some t, w')
      | (None, w') \<Rightarrow> Watch F P D obs w')"

section \<open>What an observation keeps\<close>

lemma ignore_fields [simp]:
  "w_policy (watcher_ignore f e w) = w_policy w" "w_pub (watcher_ignore f e w) = w_pub w"
  "w_primary (watcher_ignore f e w) = w_primary w" "w_hb (watcher_ignore f e w) = w_hb w"
  "w_hbRaw (watcher_ignore f e w) = w_hbRaw w" "w_hbAt (watcher_ignore f e w) = w_hbAt w"
  "w_aliveAt (watcher_ignore f e w) = w_aliveAt w" "w_stoppedAt (watcher_ignore f e w) = w_stoppedAt w"
  by (simp_all add: watcher_ignore_def)

text \<open>
  The part of the watcher that decisions read: policy, key, verifier, the accepted heartbeat with its
  evidence and measurement, and the two instants. Notes and texts do not matter.
\<close>

definition core :: "Watcher \<Rightarrow> Watcher" where
  "core w = w\<lparr>w_Ignored := [], w_State := []\<rparr>"

lemma core_fields [simp]:
  "w_policy (core w) = w_policy w" "w_pub (core w) = w_pub w" "w_primary (core w) = w_primary w" "w_hb (core w) = w_hb w"
  "w_hbRaw (core w) = w_hbRaw w" "w_hbAt (core w) = w_hbAt w" "w_aliveAt (core w) = w_aliveAt w" "w_stoppedAt (core w) = w_stoppedAt w"
  "core (watcher_ignore f e w) = core w" "core (w\<lparr>w_State := s\<rparr>) = core w"
  by (simp_all add: core_def watcher_ignore_def)

lemma core_eqD:
  assumes "core w = core v"
  shows "w_policy w = w_policy v" "w_pub w = w_pub v" "w_primary w = w_primary v" "w_hb w = w_hb v" "w_hbRaw w = w_hbRaw v"
    "w_hbAt w = w_hbAt v" "w_aliveAt w = w_aliveAt v" "w_stoppedAt w = w_stoppedAt v"
  using assms core_fields by metis+

lemma observe_compromise_core: "core (snd (observe_compromise F P D ob now w)) = core w"
  by (simp add: observe_compromise_def split: sum.split prod.split)

lemma observe_verdict_core: "core (snd (observe_verdict now w)) = core w"
  by (simp add: observe_verdict_def stopped_verdict_def timeout_verdict_def Let_def split: option.split)

text \<open>A heartbeat that counts: it verifies under the pinned key, rises, and is attested as the policy pins.\<close>

definition counts :: "floats \<Rightarrow> prims \<Rightarrow> decoders \<Rightarrow> Outbox \<Rightarrow> Watcher \<Rightarrow> Heartbeat \<Rightarrow> bytes \<Rightarrow> Measurement \<Rightarrow> bool" where
  "counts F P D ob w h raw m \<longleftrightarrow>
     ReadHeartbeat F P D ob (w_pub w) = Inr (h, raw) \<and> rises w h \<and> watcher_attested Heartbeat_signable F w h = Inr m"

lemma observe_heartbeat_cases:
  "(\<exists>h raw m. counts F P D ob w h raw m \<and> observe_heartbeat F P D ob now w = watcher_accept h raw m now w) \<or>
   ((\<nexists>h raw m. counts F P D ob w h raw m) \<and> core (observe_heartbeat F P D ob now w) = core w)"
proof (cases "ReadHeartbeat F P D ob (w_pub w)")
  case (Inl err)
  then show ?thesis by (simp add: observe_heartbeat_def counts_def)
next
  case (Inr a)
  then obtain h raw where a: "ReadHeartbeat F P D ob (w_pub w) = Inr (h, raw)" by (cases a) auto
  show ?thesis
  proof (cases "rises w h")
    case True
    with a show ?thesis
      by (cases "watcher_attested Heartbeat_signable F w h") (auto simp: observe_heartbeat_def counts_def)
  next
    case False
    with a show ?thesis by (simp add: observe_heartbeat_def counts_def split: option.split)
  qed
qed

end
