(* ===== verification/WatchProperties.thy ===== *)
theory WatchProperties
  imports SentinelRecords FailoverWatch
begin

text \<open>
  What a watch over any sequence of observations keeps: the pinned policy, that the accepted heartbeat
  verifies and is vouched for, and since when nothing newer has counted.
\<close>

section \<open>Vouching\<close>

text \<open>What a policy asks of a record's machine: nothing, or an attestation at a pinned measurement.\<close>

definition vouched :: "'r signable \<Rightarrow> floats \<Rightarrow> Policy \<Rightarrow> tee_Verifier option \<Rightarrow> 'r \<Rightarrow> Measurement \<Rightarrow> bool" where
  "vouched sn F p primary rec m \<longleftrightarrow>
     (if PinsPrimary p then verifyAttestation sn F rec primary = Inr m \<and> PrimaryAllows p m else m = [])"

lemma watcher_attested_Inr:
  "watcher_attested sn F w rec = Inr m \<longleftrightarrow> vouched sn F (w_policy w) (w_primary w) rec m"
  by (auto simp: watcher_attested_def vouched_def PinsPrimary_def split: option.split)

text \<open>A watcher of a policy.\<close>

definition watches :: "Policy \<Rightarrow> tee_Verifier option \<Rightarrow> Watcher \<Rightarrow> bool" where
  "watches p primary w \<longleftrightarrow> w_policy w = p \<and> w_pub w = Policy_Sentinel p \<and> w_primary w = primary"

lemma watches_New [simp]: "watches p primary (NewWatcher p primary)"
  by (simp add: watches_def NewWatcher_def)

lemma watches_core:
  assumes "core v = core w"
  shows "watches p primary v = watches p primary w"
  by (simp add: watches_def core_eqD [OF assms])

lemma counts_watches:
  assumes "watches p primary w"
  shows "counts F P D ob w h raw m \<longleftrightarrow>
    ReadHeartbeat F P D ob (Policy_Sentinel p) = Inr (h, raw) \<and> rises w h \<and> vouched Heartbeat_signable F p primary h m"
  using assms by (simp add: counts_def watches_def watcher_attested_Inr)

section \<open>The invariant of a watch\<close>

text \<open>
  After the observations \<open>seen\<close>: the accepted heartbeat was read in one of them, when the watcher last saw
  its primary alive; it verifies and is vouched for; and no later one held a newer heartbeat that counts.
\<close>

definition newer ::
    "floats \<Rightarrow> prims \<Rightarrow> decoders \<Rightarrow> Policy \<Rightarrow> tee_Verifier option \<Rightarrow> Heartbeat \<Rightarrow> Outbox \<Rightarrow> bool" where
  "newer F P D p primary h ob \<longleftrightarrow>
     (\<exists>h' raw m. ReadHeartbeat F P D ob (Policy_Sentinel p) = Inr (h', raw) \<and> vouched Heartbeat_signable F p primary h' m \<and> HB_Seq h' > HB_Seq h)"

definition alive_since ::
    "floats \<Rightarrow> prims \<Rightarrow> decoders \<Rightarrow> Policy \<Rightarrow> tee_Verifier option \<Rightarrow> (Outbox \<times> gotime) list \<Rightarrow> Watcher \<Rightarrow> Heartbeat \<Rightarrow> bool" where
  "alive_since F P D p primary seen w h \<longleftrightarrow>
     vouched Heartbeat_signable F p primary h (w_hbAt w) \<and>
     (\<exists>before ob after. seen = before @ (ob, w_aliveAt w) # after \<and>
        ReadHeartbeat F P D ob (Policy_Sentinel p) = Inr (h, w_hbRaw w) \<and> (\<forall>(ob', now') \<in> set after. \<not> newer F P D p primary h ob'))"

text \<open>When the watcher first saw its primary stopped: an observation that read a heartbeat saying so.\<close>

definition stopped_seen :: "floats \<Rightarrow> prims \<Rightarrow> decoders \<Rightarrow> Policy \<Rightarrow> (Outbox \<times> gotime) list \<Rightarrow> Watcher \<Rightarrow> bool" where
  "stopped_seen F P D p seen w \<longleftrightarrow>
     (w_stoppedAt w \<noteq> zero_time \<longrightarrow>
       (\<exists>ob h raw. (ob, w_stoppedAt w) \<in> set seen \<and> ReadHeartbeat F P D ob (Policy_Sentinel p) = Inr (h, raw) \<and> HB_Status h = StatusStopped))"

definition watch_inv ::
    "floats \<Rightarrow> prims \<Rightarrow> decoders \<Rightarrow> Policy \<Rightarrow> tee_Verifier option \<Rightarrow> (Outbox \<times> gotime) list \<Rightarrow> Watcher \<Rightarrow> bool" where
  "watch_inv F P D p primary seen w \<longleftrightarrow>
     watches p primary w \<and> stopped_seen F P D p seen w \<and>
     (case w_hb w of None \<Rightarrow> True | Some h \<Rightarrow> alive_since F P D p primary seen w h)"

lemma watch_inv_New: "watch_inv F P D p primary [] (NewWatcher p primary)"
  by (simp add: watch_inv_def stopped_seen_def) (simp add: NewWatcher_def)

lemma watch_inv_core:
  assumes "core v = core w"
  shows "watch_inv F P D p primary seen v = watch_inv F P D p primary seen w"
  by (cases "w_hb w") (simp_all add: watch_inv_def alive_since_def stopped_seen_def watches_core [OF assms] core_eqD [OF assms])

lemma watch_inv_heartbeat:
  assumes "watch_inv F P D p primary seen w"
  shows "watch_inv F P D p primary (seen @ [(ob, now)]) (observe_heartbeat F P D ob now w)"
  using observe_heartbeat_cases [of F P D ob w now]
proof (elim disjE exE conjE)
  fix h raw m
  assume c: "counts F P D ob w h raw m" "observe_heartbeat F P D ob now w = watcher_accept h raw m now w"
  have "watches p primary w" using assms by (simp add: watch_inv_def)
  with c(1) have "ReadHeartbeat F P D ob (Policy_Sentinel p) = Inr (h, raw)" "vouched Heartbeat_signable F p primary h m"
    by (simp_all add: counts_watches)
  moreover from this(1) assms have "stopped_seen F P D p (seen @ [(ob, now)]) (watcher_accept h raw m now w)"
    by (auto simp: watch_inv_def stopped_seen_def watcher_accept_def)
  ultimately show ?thesis
    using \<open>watches p primary w\<close> c(2)
    by (auto simp: watch_inv_def alive_since_def watcher_accept_def watches_def intro!: exI [of _ seen])
next
  assume c: "\<nexists>h raw m. counts F P D ob w h raw m" "core (observe_heartbeat F P D ob now w) = core w"
  have w: "watches p primary w" and st: "stopped_seen F P D p (seen @ [(ob, now)]) w"
    using assms by (auto simp: watch_inv_def stopped_seen_def)
  have "watch_inv F P D p primary (seen @ [(ob, now)]) w"
  proof (cases "w_hb w")
    case None
    with w st show ?thesis by (simp add: watch_inv_def)
  next
    case (Some h)
    with assms obtain before ob0 after where h: "vouched Heartbeat_signable F p primary h (w_hbAt w)"
        "seen = before @ (ob0, w_aliveAt w) # after" "ReadHeartbeat F P D ob0 (Policy_Sentinel p) = Inr (h, w_hbRaw w)"
        "\<forall>(ob', now') \<in> set after. \<not> newer F P D p primary h ob'"
      by (auto simp: watch_inv_def alive_since_def)
    have "\<not> newer F P D p primary h ob"
      using c(1) Some w by (auto simp: newer_def counts_watches rises_def)
    with h have "alive_since F P D p primary (seen @ [(ob, now)]) w h"
      unfolding alive_since_def by (intro conjI exI [of _ before] exI [of _ ob0] exI [of _ "after @ [(ob, now)]"]) auto
    with w st Some show ?thesis by (simp add: watch_inv_def)
  qed
  with watch_inv_core [OF c(2)] show ?thesis by simp
qed

text \<open>The compromise report comes before the heartbeat; it does not touch what the invariant reads.\<close>

lemma observe_split:
  obtains (report) t where "TG_CompromiseReport (FP_Triggers (w_policy w))" "fst (observe_compromise F P D ob now w) = Some t"
      "observe F P D ob now w = (Some t, snd (observe_compromise F P D ob now w))"
  | (heartbeat) v where "core v = core w" "observe F P D ob now w = observe_verdict now (observe_heartbeat F P D ob now v)"
      "TG_CompromiseReport (FP_Triggers (w_policy w)) \<Longrightarrow> fst (observe_compromise F P D ob now w) = None"
proof (cases "TG_CompromiseReport (FP_Triggers (w_policy w))")
  case True
  obtain r v where rv: "observe_compromise F P D ob now w = (r, v)" by (cases "observe_compromise F P D ob now w")
  have "core v = core w" using observe_compromise_core [of F P D ob now w] rv by simp
  with True rv that show thesis by (cases r) (auto simp: observe_def)
next
  case False
  then show thesis using that(2) [of w] by (simp add: observe_def)
qed

lemma observe_keeps:
  assumes "watch_inv F P D p primary seen w" "observe F P D ob now w = (None, w')"
  shows "watch_inv F P D p primary (seen @ [(ob, now)]) w'"
proof (rule observe_split [of w F P D ob now])
  fix v
  assume v: "core v = core w" "observe F P D ob now w = observe_verdict now (observe_heartbeat F P D ob now v)"
  have "watch_inv F P D p primary (seen @ [(ob, now)]) (observe_heartbeat F P D ob now v)"
    using assms(1) watch_inv_core [OF v(1)] by (intro watch_inv_heartbeat) simp
  moreover have "core w' = core (observe_heartbeat F P D ob now v)"
    using observe_verdict_core [of now "observe_heartbeat F P D ob now v"] v(2) assms(2) by (metis snd_conv)
  ultimately show ?thesis using watch_inv_core by blast
qed (use assms(2) in simp)

text \<open>
  A run that fires does so at the last observation it made, from a watcher that satisfies the invariant
  for the observations before.
\<close>

lemma Watch_fires:
  assumes "watch_inv F P D p primary seen w0" "Watch F P D obs w0 = (Some t, w')"
  obtains pre ob now rest w where "obs = pre @ (ob, now) # rest" "watch_inv F P D p primary (seen @ pre) w"
    "Observe F P D ob now w = (Some t, w')" "Watch F P D pre w0 = (None, w)"
  using assms
proof (induction obs arbitrary: seen w0 thesis)
  case (Cons o1 obs)
  obtain ob now where o1: "o1 = (ob, now)" by (cases o1)
  obtain r v where rv: "Observe F P D ob now w0 = (r, v)" by (cases "Observe F P D ob now w0")
  show ?case
  proof (cases r)
    case (Some t0)
    with rv o1 Cons.prems show ?thesis by (intro Cons.prems(1) [of "[]"]) auto
  next
    case None
    have "observe F P D ob now w0 = (None, v)" using rv None by (auto simp: Observe_def split: prod.splits option.splits)
    then have inv: "watch_inv F P D p primary (seen @ [o1]) v" using observe_keeps Cons.prems(2) o1 by blast
    have W: "Watch F P D obs v = (Some t, w')" using Cons.prems(3) o1 rv None by simp
    show ?thesis
    proof (rule Cons.IH [OF _ inv W])
      fix pre ob1 now1 rest w
      assume "obs = pre @ (ob1, now1) # rest" "watch_inv F P D p primary ((seen @ [o1]) @ pre) w"
        "Observe F P D ob1 now1 w = (Some t, w')" "Watch F P D pre v = (None, w)"
      then show thesis using o1 rv None by (intro Cons.prems(1) [of "o1 # pre" ob1 now1 rest w]) auto
    qed
  qed
qed simp

lemma Watch_quiet:
  assumes "watch_inv F P D p primary seen w0" "Watch F P D obs w0 = (None, w)"
  shows "watch_inv F P D p primary (seen @ obs) w"
  using assms
proof (induction obs arbitrary: seen w0)
  case (Cons o1 obs)
  obtain ob now where o1: "o1 = (ob, now)" by (cases o1)
  obtain r v where rv: "Observe F P D ob now w0 = (r, v)" by (cases "Observe F P D ob now w0")
  with Cons.prems(2) o1 have "r = None" by (cases r) auto
  then have "observe F P D ob now w0 = (None, v)" using rv by (auto simp: Observe_def split: prod.splits option.splits)
  then have "watch_inv F P D p primary (seen @ [o1]) v" using observe_keeps Cons.prems(1) o1 by blast
  from Cons.IH [OF this] Cons.prems(2) o1 rv \<open>r = None\<close> show ?case by simp
qed simp

section \<open>What fires\<close>

text \<open>What the accepted heartbeat says at an instant, under a policy.\<close>

definition heartbeat_fires :: "Policy \<Rightarrow> gotime \<Rightarrow> Watcher \<Rightarrow> Heartbeat \<Rightarrow> string \<Rightarrow> bool" where
  "heartbeat_fires p now u h kind \<longleftrightarrow>
     kind = TriggerCompromise \<and> HB_Status h = StatusCompromised \<and> TG_CompromiseReport (FP_Triggers p) \<or>
     kind = TriggerStoppedOverdue \<and> HB_Status h = StatusStopped \<and> 0 < sint (seconds (TG_StoppedGraceSeconds (FP_Triggers p))) \<and>
       sint (seconds (TG_StoppedGraceSeconds (FP_Triggers p))) \<le> sint (time_Sub now (w_stoppedAt u)) \<or>
     kind = TriggerHeartbeatTimeout \<and> HB_Status h \<noteq> StatusStopped \<and> 0 < sint (TG_HeartbeatTimeoutSeconds (FP_Triggers p)) \<and>
       sint (seconds (TG_HeartbeatTimeoutSeconds (FP_Triggers p))) \<le> sint (time_Sub now (w_aliveAt u))"

lemma verdict_fires:
  assumes "observe_verdict now u = (Some t, w')"
  obtains h kind where "w_hb u = Some h" "t = heartbeat_trigger kind h now u" "heartbeat_fires (w_policy u) now u h kind"
  using assms
  by (auto simp: observe_verdict_def stopped_verdict_def timeout_verdict_def heartbeat_fires_def Let_def split: option.splits if_splits)

lemma fires_verdict:
  assumes "w_hb u = Some h" "heartbeat_fires (w_policy u) now u h kind"
  shows "\<exists>t. observe_verdict now u = (Some t, u) \<and> TR_ObservedAt t = now \<and> (TR_Kind t = kind \<or> TR_Kind t = TriggerCompromise)"
  using assms
  by (auto simp: observe_verdict_def stopped_verdict_def timeout_verdict_def heartbeat_fires_def heartbeat_trigger_def Let_def status_defs)

lemma observe_heartbeat_policy: "w_policy (observe_heartbeat F P D ob now v) = w_policy v"
  using observe_heartbeat_cases [of F P D ob v now]
proof (elim disjE exE conjE)
  assume "core (observe_heartbeat F P D ob now v) = core v"
  then show ?thesis by (rule core_eqD)
qed (simp add: watcher_accept_def)

text \<open>The two ways an observation fires.\<close>

lemma observe_fires:
  assumes "observe F P D ob now w = (Some t, w')"
  obtains (report) c raw m where "TG_CompromiseReport (FP_Triggers (w_policy w))" "ReadCompromise F P D ob (w_pub w) = Inr (c, raw)"
      "watcher_attested Compromise_signable F w c = Inr m" "TR_Kind t = TriggerCompromise" "TR_At t = CR_DetectedAt c"
      "TR_Evidence t = raw" "TR_Compromise t = Some c" "TR_PrimaryMeasurement t = m" "TR_ObservedAt t = now"
  | (heartbeat) v h kind where "core v = core w" "w_hb (observe_heartbeat F P D ob now v) = Some h"
      "t = heartbeat_trigger kind h now (observe_heartbeat F P D ob now v)"
      "heartbeat_fires (w_policy w) now (observe_heartbeat F P D ob now v) h kind"
proof (rule observe_split [of w F P D ob now])
  fix t0
  assume r: "TG_CompromiseReport (FP_Triggers (w_policy w))" "fst (observe_compromise F P D ob now w) = Some t0"
    "observe F P D ob now w = (Some t0, snd (observe_compromise F P D ob now w))"
  then have "t = t0" using assms by simp
  with r(1,2) that(1) show thesis
    by (auto simp: observe_compromise_def split: sum.splits if_splits prod.splits)
next
  fix v
  assume v: "core v = core w" "observe F P D ob now w = observe_verdict now (observe_heartbeat F P D ob now v)"
  obtain h kind where "w_hb (observe_heartbeat F P D ob now v) = Some h"
      "t = heartbeat_trigger kind h now (observe_heartbeat F P D ob now v)"
      "heartbeat_fires (w_policy (observe_heartbeat F P D ob now v)) now (observe_heartbeat F P D ob now v) h kind"
    by (rule verdict_fires) (use assms v(2) in simp)
  with that(2) [OF v(1)] show thesis by (simp add: observe_heartbeat_policy core_eqD(1) [OF v(1)])
qed

lemma Observe_fires:
  assumes "Observe F P D ob now w = (Some t, w')"
  obtains t0 where "observe F P D ob now w = (Some t0, w')" "t = t0\<lparr>TR_Ignored := w_Ignored w'\<rparr>"
  using assms by (auto simp: Observe_def split: prod.splits option.splits)

text \<open>
  The properties of the release authority's watch: what a trigger rests on, that a timeout means silence,
  that every sign of failure the policy enables fires, and what the conversion of its durations does.
\<close>

text \<open>A number of seconds that fits a duration.\<close>

definition whole_seconds :: "i64 \<Rightarrow> bool" where
  "whole_seconds n \<longleftrightarrow> 0 < sint n \<and> sint n * 1000000000 < 2 ^ 63 - 1"

lemma whole_seconds_sint: "whole_seconds n \<Longrightarrow> sint (seconds n) = sint n * 1000000000"
  by (rule sint_seconds) (auto simp: whole_seconds_def)

lemma watches_fields: "watches p primary w \<Longrightarrow> w_policy w = p \<and> w_pub w = Policy_Sentinel p \<and> w_primary w = primary"
  by (simp add: watches_def)

section \<open>A watch of the examples\<close>

text \<open>A policy that pins the demonstration sentinel, an outbox with one record, and what a watch makes of it.\<close>

definition demo_policy :: "i64 \<Rightarrow> Policy" where
  "demo_policy T = \<lparr>FP_Schema = FailoverSchema, FP_Serial = 1, FP_IssuedAt = 0, FP_NotAfter = 1000000000000,
     FP_SentinelPublicKey = SP_Bytes demo_pin, FP_SentinelAlg = [], FP_Primary = None,
     FP_Standby = \<lparr>SB_Kind = ProviderGCPSEVSNP, SB_Endpoint = ''https://standby'', SB_Measurements = [hex_encode (zeros 48)]\<rparr>,
     FP_Triggers = \<lparr>TG_CompromiseReport = True, TG_HeartbeatTimeoutSeconds = T, TG_StoppedGraceSeconds = 0\<rparr>,
     FP_QuarantineSeconds = 0, FP_MaxRPOSeconds = 0, FP_RequireGate = [], FP_Reason = [], FP_SigningKeyID = ''op'',
     FP_Alg = [], FP_Signature = []\<rparr>"

definition demo_outbox :: "string \<Rightarrow> Outbox" where
  "demo_outbox name = \<lparr>ob_Dir = ''/outbox'', ob_entries = Inr [], ob_file = (\<lambda>n. if n = name then Inr (Some []) else Inl fs_ErrNotExist),
     ob_open = (\<lambda>n. Inl fs_ErrNotExist)\<rparr>"

definition demo_decoders :: "bytes \<Rightarrow> bytes \<Rightarrow> decoders" where
  "demo_decoders s1 s2 = \<lparr>d_Seal = (\<lambda>raw. Inl EOF), d_Heartbeat = (\<lambda>raw. Inr (demo_heartbeat\<lparr>HB_Signature := s1\<rparr>)),
     d_Compromise = (\<lambda>raw. Inr (demo_report\<lparr>CR_Signature := s2\<rparr>))\<rparr>"

lemma demo_policy_pin [simp]: "Policy_Sentinel (demo_policy T) = demo_pin"
  by (simp add: Policy_Sentinel_def demo_policy_def RecordSuite_def demo_pin_def SigningKey_Public_def demo_sentinel_def)

lemma demo_policy_fields [simp]:
  "FP_Triggers (demo_policy T) = \<lparr>TG_CompromiseReport = True, TG_HeartbeatTimeoutSeconds = T, TG_StoppedGraceSeconds = 0\<rparr>"
  "FP_Primary (demo_policy T) = None" "vouched sn F (demo_policy T) primary rec m \<longleftrightarrow> m = []"
  by (simp_all add: demo_policy_def vouched_def PinsPrimary_def)

lemma demo_files:
  "readRecord (demo_outbox CompromiseFile) CompromiseFile = Inr []" "readRecord (demo_outbox HeartbeatFile) HeartbeatFile = Inr []"
  "readRecord (demo_outbox HeartbeatFile) CompromiseFile = Inl ErrAbsent"
  by (simp_all add: readRecord_def readBounded_def demo_outbox_def maxRecordBytes_def CompromiseFile_def HeartbeatFile_def fs_ErrNotExist_def errorsNew_def)

lemma demo_reads:
  "\<exists>s1 s2. ReadHeartbeat F plain_prims (demo_decoders s1 s2) (demo_outbox HeartbeatFile) demo_pin = Inr (demo_heartbeat\<lparr>HB_Signature := s1\<rparr>, []) \<and>
     ReadCompromise F plain_prims (demo_decoders s1 s2) (demo_outbox HeartbeatFile) demo_pin = Inl ErrAbsent \<and>
     ReadCompromise F plain_prims (demo_decoders s1 s2) (demo_outbox CompromiseFile) demo_pin = Inr (demo_report\<lparr>CR_Signature := s2\<rparr>, [])"
proof -
  obtain s1 s2 where "sentinel_verify Heartbeat_signable F plain_prims (demo_heartbeat\<lparr>HB_Signature := s1\<rparr>) demo_pin = None"
      "sentinel_verify Compromise_signable F plain_prims (demo_report\<lparr>CR_Signature := s2\<rparr>) demo_pin = None"
    using demo_heartbeat_verifies [of F] demo_report_verifies [of F] by blast
  then have "ReadHeartbeat F plain_prims (demo_decoders s1 s2) (demo_outbox HeartbeatFile) demo_pin = Inr (demo_heartbeat\<lparr>HB_Signature := s1\<rparr>, []) \<and>
     ReadCompromise F plain_prims (demo_decoders s1 s2) (demo_outbox HeartbeatFile) demo_pin = Inl ErrAbsent \<and>
     ReadCompromise F plain_prims (demo_decoders s1 s2) (demo_outbox CompromiseFile) demo_pin = Inr (demo_report\<lparr>CR_Signature := s2\<rparr>, [])"
    by (simp add: ReadHeartbeat_ok ReadCompromise_ok demo_files demo_decoders_def) (simp add: ReadCompromise_def demo_files)
  then show ?thesis by blast
qed

text \<open>Over an outbox whose heartbeat does not move: watching at first, and a timeout when it is due.\<close>

lemma still_primary:
  assumes "ReadCompromise F P D ob (Policy_Sentinel p) = Inl ErrAbsent" "ReadHeartbeat F P D ob (Policy_Sentinel p) = Inr (h, raw)"
    and "FP_Primary p = None" "HB_Status h = StatusWatching" "whole_seconds (TG_HeartbeatTimeoutSeconds (FP_Triggers p))"
  shows "\<exists>w. Watch F P D [(ob, now)] (NewWatcher p primary) = (None, w) \<and> w_hb w = Some h \<and> w_aliveAt w = now"
    "now' - now \<ge> sint (TG_HeartbeatTimeoutSeconds (FP_Triggers p)) * 1000000000 \<Longrightarrow>
     \<exists>t w. Watch F P D [(ob, now), (ob, now')] (NewWatcher p primary) = (Some t, w) \<and> TR_Kind t = TriggerHeartbeatTimeout"
proof -
  let ?T = "TG_HeartbeatTimeoutSeconds (FP_Triggers p)"
  note wf = watches_fields [OF watches_New [of p primary]]
  let ?w0 = "NewWatcher p primary" and ?w1 = "(watcher_accept h raw [] now (NewWatcher p primary))\<lparr>w_State := ''watching''\<rparr>"
  have c: "observe_compromise F P D ob i w = (None, w)" if "w_pub w = Policy_Sentinel p" for i w
    using assms(1) that by (simp add: observe_compromise_def ErrAbsent_def errorsNew_def)
  have h1: "observe_heartbeat F P D ob now ?w0 = watcher_accept h raw [] now ?w0"
    using assms(2,3) wf by (simp add: observe_heartbeat_def rises_def watcher_attested_def) (simp add: NewWatcher_def)
  have h2: "observe_heartbeat F P D ob i ?w1 = ?w1" for i
    using assms(2) wf by (simp add: observe_heartbeat_def rises_def watcher_accept_def)
  have T: "0 < sint ?T" "0 < sint (seconds ?T)" using assms(5) whole_seconds_sint [OF assms(5)] by (simp_all add: whole_seconds_def)
  have "observe F P D ob now ?w0 = (None, ?w1)"
    using c [of ?w0] h1 T assms(4) wf
    by (simp add: observe_def observe_verdict_def timeout_verdict_def watcher_accept_def status_defs Let_def time_Sub_def)
  then have s1: "Observe F P D ob now ?w0 = (None, ?w1)" by (simp add: Observe_def)
  then show "\<exists>w. Watch F P D [(ob, now)] ?w0 = (None, w) \<and> w_hb w = Some h \<and> w_aliveAt w = now"
    by (simp add: watcher_accept_def)
  assume late: "now' - now \<ge> sint ?T * 1000000000"
  have "sint (seconds ?T) \<le> sint (time_Sub now' now)"
    using time_Sub_ge_iff [of "sint ?T * 1000000000" now' now] late assms(5) whole_seconds_sint [OF assms(5)]
    by (simp add: whole_seconds_def)
  then have "observe F P D ob now' ?w1 = (Some (heartbeat_trigger TriggerHeartbeatTimeout h now' ?w1), ?w1)"
    using c [of ?w1] h2 [of now'] T assms(4) wf
    by (simp add: observe_def) (simp add: observe_verdict_def timeout_verdict_def watcher_accept_def status_defs Let_def)
  then have "Observe F P D ob now' ?w1 = (Some ((heartbeat_trigger TriggerHeartbeatTimeout h now' ?w1)\<lparr>TR_Ignored := w_Ignored ?w1\<rparr>), ?w1)"
    by (simp add: Observe_def)
  with s1 show "\<exists>t w. Watch F P D [(ob, now), (ob, now')] ?w0 = (Some t, w) \<and> TR_Kind t = TriggerHeartbeatTimeout"
    by (simp add: heartbeat_trigger_def)
qed

lemma report_fires:
  assumes "ReadCompromise F P D ob (Policy_Sentinel p) = Inr (c, raw)" "TG_CompromiseReport (FP_Triggers p)" "FP_Primary p = None"
  shows "\<exists>t w. Watch F P D [(ob, now)] (NewWatcher p primary) = (Some t, w)"
proof -
  have "\<exists>t. observe F P D ob now (NewWatcher p primary) = (Some t, NewWatcher p primary)"
    using assms watches_fields [OF watches_New [of p primary]]
    by (simp add: observe_def observe_compromise_def watcher_attested_def)
  then show ?thesis by (auto simp: Observe_def)
qed

section \<open>What a trigger rests on\<close>

lemma observe_heartbeat_inv:
  assumes "watch_inv F P D p primary seen w" "core v = core w" "w_hb (observe_heartbeat F P D ob now v) = Some h"
  shows "alive_since F P D p primary (seen @ [(ob, now)]) (observe_heartbeat F P D ob now v) h"
proof -
  have "watch_inv F P D p primary (seen @ [(ob, now)]) (observe_heartbeat F P D ob now v)"
    using assms(1) watch_inv_core [OF assms(2)] by (intro watch_inv_heartbeat) simp
  with assms(3) show ?thesis by (simp add: watch_inv_def)
qed

text \<open>The evidence of a trigger, by what it is.\<close>

definition report_evidence ::
    "floats \<Rightarrow> prims \<Rightarrow> decoders \<Rightarrow> Policy \<Rightarrow> tee_Verifier option \<Rightarrow> Trigger \<Rightarrow> Compromise \<Rightarrow> bool" where
  "report_evidence F P D p primary t c \<longleftrightarrow>
     TR_Kind t = TriggerCompromise \<and> TG_CompromiseReport (FP_Triggers p) \<and> d_Compromise D (TR_Evidence t) = Inr c \<and>
     sentinel_verify Compromise_signable F P c (Policy_Sentinel p) = None \<and>
     vouched Compromise_signable F p primary c (TR_PrimaryMeasurement t) \<and> TR_At t = CR_DetectedAt c"

definition heartbeat_evidence ::
    "floats \<Rightarrow> prims \<Rightarrow> decoders \<Rightarrow> Policy \<Rightarrow> tee_Verifier option \<Rightarrow> Trigger \<Rightarrow> Heartbeat \<Rightarrow> bool" where
  "heartbeat_evidence F P D p primary t h \<longleftrightarrow>
     d_Heartbeat D (TR_Evidence t) = Inr h \<and> sentinel_verify Heartbeat_signable F P h (Policy_Sentinel p) = None \<and>
     vouched Heartbeat_signable F p primary h (TR_PrimaryMeasurement t) \<and> TR_At t = HB_At h \<and>
     (TR_Kind t = TriggerCompromise \<and> HB_Status h = StatusCompromised \<and> TG_CompromiseReport (FP_Triggers p) \<or>
      TR_Kind t = TriggerStoppedOverdue \<and> HB_Status h = StatusStopped \<and> TG_StoppedGraceSeconds (FP_Triggers p) \<noteq> 0 \<or>
      TR_Kind t = TriggerHeartbeatTimeout \<and> HB_Status h \<noteq> StatusStopped \<and> 0 < sint (TG_HeartbeatTimeoutSeconds (FP_Triggers p)))"

text \<open>C22: Whatever the outbox held over a watch, a trigger rests on a record that decodes from its evidence,
  verifies under the sentinel key the operator pinned and, when the policy pins the primary's machine, is
  attested at a pinned measurement: a compromise report, or the accepted heartbeat whose status or age the
  policy acts on. What does not verify never fires.\<close>

theorem trigger_evidence_verifies:
  assumes "Watch F P D obs (NewWatcher p primary) = (Some t, w')"
  shows "(\<exists>c. TR_Compromise t = Some c \<and> report_evidence F P D p primary t c) \<or>
    (TR_Compromise t = None \<and> (\<exists>h. TR_Heartbeat t = Some h \<and> heartbeat_evidence F P D p primary t h))"
proof -
  obtain pre ob now rest w where run: "obs = pre @ (ob, now) # rest" "watch_inv F P D p primary ([] @ pre) w"
      "Observe F P D ob now w = (Some t, w')"
    by (rule Watch_fires [OF watch_inv_New assms])
  have w: "watches p primary w" using run(2) by (simp add: watch_inv_def)
  note wf = watches_fields [OF w]
  obtain t0 where t0: "observe F P D ob now w = (Some t0, w')" "t = t0\<lparr>TR_Ignored := w_Ignored w'\<rparr>"
    by (rule Observe_fires [OF run(3)])
  from t0(1) show ?thesis
  proof (cases rule: observe_fires)
    case (report c raw m)
    with wf have "report_evidence F P D p primary t c"
      by (auto simp: report_evidence_def t0(2) ReadCompromise_ok watcher_attested_Inr)
    with report t0(2) show ?thesis by auto
  next
    case (heartbeat v h kind)
    let ?u = "observe_heartbeat F P D ob now v"
    from observe_heartbeat_inv [OF run(2) heartbeat(1,2)]
    have "vouched Heartbeat_signable F p primary h (w_hbAt ?u)" "\<exists>ob'. ReadHeartbeat F P D ob' (Policy_Sentinel p) = Inr (h, w_hbRaw ?u)"
      by (auto simp: alive_since_def)
    moreover have "TG_StoppedGraceSeconds (FP_Triggers p) \<noteq> 0" if "0 < sint (seconds (TG_StoppedGraceSeconds (FP_Triggers p)))"
      using that by (auto simp: seconds_def)
    ultimately have "heartbeat_evidence F P D p primary t h"
      using heartbeat(3,4) wf by (auto simp: heartbeat_evidence_def t0(2) heartbeat_trigger_def heartbeat_fires_def ReadHeartbeat_ok)
    with heartbeat(3) t0(2) show ?thesis by (simp add: heartbeat_trigger_def)
  qed
qed

theorem trigger_evidence_verifies_witness:
  "\<exists>D t. (\<exists>c. TR_Compromise t = Some c \<and> report_evidence (\<lambda>n. Inr None) plain_prims D (demo_policy 60) None t c) \<or>
    (TR_Compromise t = None \<and> (\<exists>h. TR_Heartbeat t = Some h \<and> heartbeat_evidence (\<lambda>n. Inr None) plain_prims D (demo_policy 60) None t h))"
proof -
  let ?F = "\<lambda>n. Inr None"
  obtain s1 s2 where "ReadCompromise ?F plain_prims (demo_decoders s1 s2) (demo_outbox CompromiseFile) demo_pin = Inr (demo_report\<lparr>CR_Signature := s2\<rparr>, [])"
    using demo_reads [of ?F] by blast
  then obtain t w where "Watch ?F plain_prims (demo_decoders s1 s2) [(demo_outbox CompromiseFile, 0)] (NewWatcher (demo_policy 60) None) = (Some t, w)"
    using report_fires [of ?F plain_prims "demo_decoders s1 s2" "demo_outbox CompromiseFile" "demo_policy 60" _ _ 0 None] by auto
  from trigger_evidence_verifies [OF this] show ?thesis by blast
qed

section \<open>A timeout means silence\<close>

text \<open>C21: Under a policy whose timeout in nanoseconds fits an int64, a watch times out only on silence: some observation read the heartbeat that the trigger names, at
  least the policy's timeout before the one that fired, by the authority's own clock, and none of the
  observations from the one to the other held a newer heartbeat that verifies and is vouched for, whatever
  else was put in the outbox.\<close>

theorem timeout_means_silence:
  assumes "Watch F P D obs (NewWatcher p primary) = (Some t, w')" "TR_Kind t = TriggerHeartbeatTimeout"
    and "whole_seconds (TG_HeartbeatTimeoutSeconds (FP_Triggers p))"
  shows "\<exists>before ob alive quiet rest h. obs = before @ (ob, alive) # quiet @ rest \<and>
    ReadHeartbeat F P D ob (Policy_Sentinel p) = Inr (h, TR_Evidence t) \<and> TR_Heartbeat t = Some h \<and> TR_AliveObservedAt t = alive \<and>
    TR_ObservedAt t = snd (last ((ob, alive) # quiet)) \<and>
    TR_ObservedAt t - alive \<ge> sint (TG_HeartbeatTimeoutSeconds (FP_Triggers p)) * 1000000000 \<and>
    (\<forall>(ob', now') \<in> set quiet. \<not> newer F P D p primary h ob')"
proof -
  let ?T = "TG_HeartbeatTimeoutSeconds (FP_Triggers p)"
  obtain pre ob now rest w where run: "obs = pre @ (ob, now) # rest" "watch_inv F P D p primary ([] @ pre) w"
      "Observe F P D ob now w = (Some t, w')"
    by (rule Watch_fires [OF watch_inv_New assms(1)])
  have w: "watches p primary w" using run(2) by (simp add: watch_inv_def)
  obtain t0 where t0: "observe F P D ob now w = (Some t0, w')" "t = t0\<lparr>TR_Ignored := w_Ignored w'\<rparr>"
    by (rule Observe_fires [OF run(3)])
  from t0(1) show ?thesis
  proof (cases rule: observe_fires)
    case (report c raw m)
    with assms(2) t0(2) show ?thesis by (simp add: TriggerCompromise_def TriggerHeartbeatTimeout_def)
  next
    case (heartbeat v h kind)
    let ?u = "observe_heartbeat F P D ob now v"
    have kind: "kind = TriggerHeartbeatTimeout" using assms(2) t0(2) heartbeat(3) by (simp add: heartbeat_trigger_def)
    obtain before ob0 after where h: "pre @ [(ob, now)] = before @ (ob0, w_aliveAt ?u) # after"
        "ReadHeartbeat F P D ob0 (Policy_Sentinel p) = Inr (h, w_hbRaw ?u)" "\<forall>(ob', now') \<in> set after. \<not> newer F P D p primary h ob'"
      using observe_heartbeat_inv [OF run(2) heartbeat(1,2)] by (auto simp: alive_since_def)
    have "sint (seconds ?T) \<le> sint (time_Sub now (w_aliveAt ?u))"
      using heartbeat(4) kind watches_fields [OF w] by (simp add: heartbeat_fires_def TriggerCompromise_def TriggerStoppedOverdue_def TriggerHeartbeatTimeout_def)
    then have late: "sint ?T * 1000000000 \<le> now - w_aliveAt ?u"
      using time_Sub_ge_iff [of "sint ?T * 1000000000" now "w_aliveAt ?u"] assms(3) whole_seconds_sint [OF assms(3)]
      by (simp add: whole_seconds_def)
    have "last (before @ (ob0, w_aliveAt ?u) # after) = (ob, now)" using h(1) [symmetric] by simp
    then have "snd (last ((ob0, w_aliveAt ?u) # after)) = now" by simp
    moreover have "obs = before @ (ob0, w_aliveAt ?u) # after @ rest" using run(1) h(1) by (metis append.assoc append_Cons append_Nil)
    ultimately show ?thesis
      using h(2,3) late heartbeat(3) t0(2)
      by (intro exI [of _ before] exI [of _ ob0] exI [of _ "w_aliveAt ?u"] exI [of _ after] exI [of _ rest] exI [of _ h])
        (simp add: heartbeat_trigger_def)
  qed
qed

theorem timeout_means_silence_witness:
  "\<exists>D before ob alive quiet rest h. [(demo_outbox HeartbeatFile, 0), (demo_outbox HeartbeatFile, 60000000000 :: gotime)] = before @ (ob, alive) # quiet @ rest \<and>
    ReadHeartbeat (\<lambda>n. Inr None) plain_prims D ob demo_pin = Inr (h, []) \<and>
    (\<forall>(ob', now') \<in> set quiet. \<not> newer (\<lambda>n. Inr None) plain_prims D (demo_policy 60) None h ob')"
proof -
  let ?F = "\<lambda>n. Inr None" and ?ob = "demo_outbox HeartbeatFile"
  obtain s1 s2 where r: "ReadHeartbeat ?F plain_prims (demo_decoders s1 s2) ?ob demo_pin = Inr (demo_heartbeat\<lparr>HB_Signature := s1\<rparr>, [])"
      "ReadCompromise ?F plain_prims (demo_decoders s1 s2) ?ob demo_pin = Inl ErrAbsent"
    using demo_reads [of ?F] by blast
  let ?D = "demo_decoders s1 s2"
  have T: "whole_seconds (TG_HeartbeatTimeoutSeconds (FP_Triggers (demo_policy 60)))" by (simp add: whole_seconds_def)
  have "\<exists>t w. Watch ?F plain_prims ?D [(?ob, 0), (?ob, 60000000000)] (NewWatcher (demo_policy 60) None) = (Some t, w) \<and>
      TR_Kind t = TriggerHeartbeatTimeout"
    by (rule still_primary(2) [where h = "demo_heartbeat\<lparr>HB_Signature := s1\<rparr>" and raw = "[]"])
      (use r T in \<open>simp_all add: demo_heartbeat_def\<close>)
  then obtain t w where run: "Watch ?F plain_prims ?D [(?ob, 0), (?ob, 60000000000)] (NewWatcher (demo_policy 60) None) = (Some t, w)"
      "TR_Kind t = TriggerHeartbeatTimeout" by blast
  from timeout_means_silence [OF run T] obtain before ob alive quiet rest h where
    x: "[(?ob, 0), (?ob, 60000000000 :: gotime)] = before @ (ob, alive) # quiet @ rest"
      "ReadHeartbeat ?F plain_prims ?D ob demo_pin = Inr (h, TR_Evidence t)" "\<forall>(ob', now') \<in> set quiet. \<not> newer ?F plain_prims ?D (demo_policy 60) None h ob'"
    by auto
  from x(1) have "ob = ?ob" by (auto simp: Cons_eq_append_conv)
  then have "TR_Evidence t = []" using r(1) x(2) by simp
  with x show ?thesis by metis
qed

section \<open>Signs of failure fire\<close>

text \<open>
  What one observation shows to a watcher that has not fired: a report of a compromise; a newer heartbeat that
  says compromised; a primary that its operator stopped and that stayed stopped for the policy's grace (no
  newer heartbeat counts, or the newer one still says stopped); or a primary that was not stopped and has
  been silent for the policy's timeout. Each is a sign only where the policy enables it.
\<close>

definition newer_says ::
    "floats \<Rightarrow> prims \<Rightarrow> decoders \<Rightarrow> Policy \<Rightarrow> tee_Verifier option \<Rightarrow> Watcher \<Rightarrow> Outbox \<Rightarrow> string \<Rightarrow> bool" where
  "newer_says F P D p primary w ob status \<longleftrightarrow>
     (\<exists>h raw m. ReadHeartbeat F P D ob (Policy_Sentinel p) = Inr (h, raw) \<and> rises w h \<and> vouched Heartbeat_signable F p primary h m \<and>
        HB_Status h = status)"

definition shows_failure ::
    "floats \<Rightarrow> prims \<Rightarrow> decoders \<Rightarrow> Policy \<Rightarrow> tee_Verifier option \<Rightarrow> Watcher \<Rightarrow> Outbox \<Rightarrow> gotime \<Rightarrow> string \<Rightarrow> bool" where
  "shows_failure F P D p primary w ob now kind \<longleftrightarrow>
     (let T = FP_Triggers p; kept = (\<lambda>h. w_hb w = Some h \<and> \<not> newer F P D p primary h ob) in
      kind = TriggerCompromise \<and> TG_CompromiseReport T \<and>
        (\<exists>c raw m. ReadCompromise F P D ob (Policy_Sentinel p) = Inr (c, raw) \<and> vouched Compromise_signable F p primary c m) \<or>
      kind = TriggerCompromise \<and> TG_CompromiseReport T \<and> newer_says F P D p primary w ob StatusCompromised \<or>
      kind = TriggerStoppedOverdue \<and> whole_seconds (TG_StoppedGraceSeconds T) \<and>
        now - w_stoppedAt w \<ge> sint (TG_StoppedGraceSeconds T) * 1000000000 \<and>
        ((\<exists>h. kept h \<and> HB_Status h = StatusStopped) \<or> w_stoppedAt w \<noteq> zero_time \<and> newer_says F P D p primary w ob StatusStopped) \<or>
      kind = TriggerHeartbeatTimeout \<and> whole_seconds (TG_HeartbeatTimeoutSeconds T) \<and>
        now - w_aliveAt w \<ge> sint (TG_HeartbeatTimeoutSeconds T) * 1000000000 \<and> (\<exists>h. kept h \<and> HB_Status h \<noteq> StatusStopped))"

lemma whole_seconds_due:
  assumes "whole_seconds n" "now - t \<ge> sint n * 1000000000"
  shows "0 < sint (seconds n)" "sint (seconds n) \<le> sint (time_Sub now t)"
  using time_Sub_ge_iff [of "sint n * 1000000000" now t] assms whole_seconds_sint [OF assms(1)] by (simp_all add: whole_seconds_def)

text \<open>The heartbeat after an observation: the newer one that counts, or the one before.\<close>

lemma heartbeat_newer:
  assumes "watches p primary v" "newer_says F P D p primary v ob status"
  obtains h raw m where "HB_Status h = status" "observe_heartbeat F P D ob now v = watcher_accept h raw m now v"
proof -
  obtain h0 raw0 m0 where h0: "counts F P D ob v h0 raw0 m0" "HB_Status h0 = status"
    using assms by (auto simp: newer_says_def counts_watches)
  with observe_heartbeat_cases [of F P D ob v now] obtain h raw m where
    "counts F P D ob v h raw m" "observe_heartbeat F P D ob now v = watcher_accept h raw m now v" by blast
  with h0 show thesis by (intro that [of h raw m]) (auto simp: counts_def)
qed

lemma heartbeat_kept:
  assumes "watches p primary v" "w_hb v = Some h" "\<not> newer F P D p primary h ob"
  shows "core (observe_heartbeat F P D ob now v) = core v"
proof -
  have "\<nexists>h' raw m. counts F P D ob v h' raw m" using assms by (auto simp: newer_def counts_watches rises_def)
  with observe_heartbeat_cases [of F P D ob v now] show ?thesis by blast
qed

lemma sign_fires:
  assumes w: "watches p primary v" and sign: "shows_failure F P D p primary v ob now kind"
    and report: "\<not> (TG_CompromiseReport (FP_Triggers p) \<and>
      (\<exists>c raw m. ReadCompromise F P D ob (Policy_Sentinel p) = Inr (c, raw) \<and> vouched Compromise_signable F p primary c m))"
  obtains h where "w_hb (observe_heartbeat F P D ob now v) = Some h" "heartbeat_fires p now (observe_heartbeat F P D ob now v) h kind"
proof -
  let ?u = "observe_heartbeat F P D ob now v" and ?T = "FP_Triggers p"
  consider (compromised) "kind = TriggerCompromise" "TG_CompromiseReport ?T" "newer_says F P D p primary v ob StatusCompromised"
    | (kept) h where "w_hb v = Some h" "\<not> newer F P D p primary h ob" "heartbeat_fires p now v h kind"
    | (stopped) "kind = TriggerStoppedOverdue" "whole_seconds (TG_StoppedGraceSeconds ?T)"
        "now - w_stoppedAt v \<ge> sint (TG_StoppedGraceSeconds ?T) * 1000000000" "w_stoppedAt v \<noteq> zero_time"
        "newer_says F P D p primary v ob StatusStopped"
    using sign report
    by (auto simp: shows_failure_def Let_def heartbeat_fires_def whole_seconds_due) (auto simp: whole_seconds_def)
  then show thesis
  proof cases
    case compromised
    obtain h raw m where "HB_Status h = StatusCompromised" "?u = watcher_accept h raw m now v"
      by (rule heartbeat_newer [OF w compromised(3)])
    with compromised that [of h] show thesis by (simp add: heartbeat_fires_def watcher_accept_def)
  next
    case (kept h)
    from core_eqD [OF heartbeat_kept [OF w kept(1,2)]] kept that [of h] show thesis by (simp add: heartbeat_fires_def)
  next
    case stopped
    obtain h raw m where "HB_Status h = StatusStopped" "?u = watcher_accept h raw m now v"
      by (rule heartbeat_newer [OF w stopped(5)])
    with stopped that [of h] whole_seconds_due [OF stopped(2,3)] show thesis
      by (simp add: heartbeat_fires_def watcher_accept_def)
  qed
qed

lemma sign_core:
  assumes "core v = core w"
  shows "shows_failure F P D p primary v ob now kind = shows_failure F P D p primary w ob now kind"
  by (simp add: shows_failure_def newer_says_def rises_def core_eqD [OF assms])

lemma Watch_then:
  assumes "Watch F P D obs u0 = (None, w)" "Observe F P D ob now w = (Some t, w')"
  shows "Watch F P D (obs @ [(ob, now)]) u0 = (Some t, w')"
  using assms(1)
proof (induction obs arbitrary: u0)
  case Nil
  with assms(2) show ?case by simp
next
  case (Cons o1 xs)
  then show ?case by (cases o1) (auto split: prod.splits option.splits)
qed

text \<open>C23: Every sign of failure that the policy enables fires at the first observation that shows it: a report of a
  compromise that verifies and is vouched for; a newer heartbeat that counts and says compromised; a stop by the
  operator that has outlasted the policy's grace, whether the heartbeats have ended or go on saying stopped; and
  the silence of a primary that was not stopped, at the policy's timeout after its last heartbeat (for a
  grace and a timeout whose nanoseconds fit an int64). The trigger is of that sign's kind, or a compromise shown by the
  same observation; and the instants that grace and timeout run from are those of the observations that first
  read a stopped heartbeat and that last read a newer one.\<close>

theorem signs_of_failure_fire:
  assumes "Watch F P D obs (NewWatcher p primary) = (None, w)" and "shows_failure F P D p primary w ob now kind"
  shows "(\<exists>t w'. Watch F P D (obs @ [(ob, now)]) (NewWatcher p primary) = (Some t, w') \<and> TR_ObservedAt t = now \<and>
      (TR_Kind t = kind \<or> TR_Kind t = TriggerCompromise)) \<and>
    (\<forall>h. w_hb w = Some h \<longrightarrow> alive_since F P D p primary obs w h) \<and> stopped_seen F P D p obs w"
proof (intro conjI)
  have inv: "watch_inv F P D p primary obs w" using Watch_quiet [OF watch_inv_New assms(1)] by simp
  then have w: "watches p primary w" by (simp add: watch_inv_def)
  note wf = watches_fields [OF w]
  have "\<exists>t w'. observe F P D ob now w = (Some t, w') \<and> TR_ObservedAt t = now \<and> (TR_Kind t = kind \<or> TR_Kind t = TriggerCompromise)"
  proof (rule observe_split [of w F P D ob now])
    fix t0
    assume r: "fst (observe_compromise F P D ob now w) = Some t0" "observe F P D ob now w = (Some t0, snd (observe_compromise F P D ob now w))"
    then have "TR_ObservedAt t0 = now" "TR_Kind t0 = TriggerCompromise" by (auto simp: observe_compromise_def split: sum.splits if_splits prod.splits)
    with r(2) show ?thesis by simp
  next
    fix v
    assume v: "core v = core w" "observe F P D ob now w = observe_verdict now (observe_heartbeat F P D ob now v)"
      "TG_CompromiseReport (FP_Triggers (w_policy w)) \<Longrightarrow> fst (observe_compromise F P D ob now w) = None"
    have quiet: "\<not> (TG_CompromiseReport (FP_Triggers p) \<and>
        (\<exists>c raw m. ReadCompromise F P D ob (Policy_Sentinel p) = Inr (c, raw) \<and> vouched Compromise_signable F p primary c m))"
    proof
      assume "TG_CompromiseReport (FP_Triggers p) \<and>
        (\<exists>c raw m. ReadCompromise F P D ob (Policy_Sentinel p) = Inr (c, raw) \<and> vouched Compromise_signable F p primary c m)"
      then obtain c raw m where "TG_CompromiseReport (FP_Triggers p)" "ReadCompromise F P D ob (Policy_Sentinel p) = Inr (c, raw)"
          "watcher_attested Compromise_signable F w c = Inr m" using wf by (auto simp: watcher_attested_Inr)
      with v(3) wf show False by (simp add: observe_compromise_def)
    qed
    have vw: "watches p primary v" using w watches_core [OF v(1)] by simp
    have sign: "shows_failure F P D p primary v ob now kind" using assms(2) sign_core [OF v(1)] by simp
    obtain h where "w_hb (observe_heartbeat F P D ob now v) = Some h" "heartbeat_fires p now (observe_heartbeat F P D ob now v) h kind"
      by (rule sign_fires [OF vw sign quiet])
    moreover have "w_policy (observe_heartbeat F P D ob now v) = p" using watches_fields [OF vw] by (simp add: observe_heartbeat_policy)
    ultimately show ?thesis using fires_verdict v(2) by metis
  qed
  then obtain t w' where t: "observe F P D ob now w = (Some t, w')" "TR_ObservedAt t = now" "TR_Kind t = kind \<or> TR_Kind t = TriggerCompromise"
    by blast
  then have "Observe F P D ob now w = (Some (t\<lparr>TR_Ignored := w_Ignored w'\<rparr>), w')" by (simp add: Observe_def)
  from Watch_then [OF assms(1) this] t(2,3)
  show "\<exists>t w'. Watch F P D (obs @ [(ob, now)]) (NewWatcher p primary) = (Some t, w') \<and> TR_ObservedAt t = now \<and>
      (TR_Kind t = kind \<or> TR_Kind t = TriggerCompromise)" by auto
  show "\<forall>h. w_hb w = Some h \<longrightarrow> alive_since F P D p primary obs w h" "stopped_seen F P D p obs w"
    using inv by (auto simp: watch_inv_def)
qed

theorem signs_of_failure_fire_witness:
  "\<exists>D t w. Watch (\<lambda>n. Inr None) plain_prims D [(demo_outbox HeartbeatFile, 0), (demo_outbox HeartbeatFile, 60000000000)]
     (NewWatcher (demo_policy 60) None) = (Some t, w) \<and> TR_ObservedAt t = 60000000000"
proof -
  let ?F = "\<lambda>n. Inr None" and ?ob = "demo_outbox HeartbeatFile"
  obtain s1 s2 where r: "ReadHeartbeat ?F plain_prims (demo_decoders s1 s2) ?ob demo_pin = Inr (demo_heartbeat\<lparr>HB_Signature := s1\<rparr>, [])"
      "ReadCompromise ?F plain_prims (demo_decoders s1 s2) ?ob demo_pin = Inl ErrAbsent"
    using demo_reads [of ?F] by blast
  let ?D = "demo_decoders s1 s2"
  have T: "whole_seconds 60" by (simp add: whole_seconds_def)
  obtain w where w: "Watch ?F plain_prims ?D [(?ob, 0)] (NewWatcher (demo_policy 60) None) = (None, w)"
      "w_hb w = Some (demo_heartbeat\<lparr>HB_Signature := s1\<rparr>)" "w_aliveAt w = 0"
    using still_primary(1) [of ?F plain_prims ?D ?ob "demo_policy 60" _ "[]" 0 None] r T by (auto simp: demo_heartbeat_def)
  have "\<not> newer ?F plain_prims ?D (demo_policy 60) None (demo_heartbeat\<lparr>HB_Signature := s1\<rparr>) ?ob" using r(1) by (simp add: newer_def)
  with w T have "shows_failure ?F plain_prims ?D (demo_policy 60) None w ?ob 60000000000 TriggerHeartbeatTimeout"
    by (simp add: shows_failure_def Let_def TriggerHeartbeatTimeout_def TriggerStoppedOverdue_def TriggerCompromise_def)
      (simp add: demo_heartbeat_def status_defs)
  from signs_of_failure_fire [OF w(1) this] show ?thesis by auto
qed

section \<open>Durations that wrap\<close>

lemma pin_check_triggers [simp]: "sentinel_pin_check (p\<lparr>FP_Triggers := t\<rparr>) = sentinel_pin_check p"
  by (cases "RecordSuite (FP_SentinelAlg p)") (simp_all add: sentinel_pin_check_def)

lemma validate_timeout:
  assumes "Policy_validate N p = None" "0 < sint T"
  shows "Policy_validate N (p\<lparr>FP_Triggers := (FP_Triggers p)\<lparr>TG_HeartbeatTimeoutSeconds := T\<rparr>\<rparr>) = None"
  using assms by (auto simp: Policy_validate_def policy_scalars_def)

text \<open>C27: The policy's gate sets no upper bound on its durations, and their conversion to nanoseconds wraps: for
  every policy the gate accepts, it also accepts the one whose timeout is any positive number of seconds
  whose product wraps to a negative one, and under that policy the first heartbeat of a primary that is
  watching fires a timeout in the moment it is first seen.\<close>

theorem oversized_timeout_fires_at_once:
  assumes "Policy_validate N p0 = None" "0 < sint T" "sint (seconds T) \<le> 0"
    and "p = p0\<lparr>FP_Triggers := (FP_Triggers p0)\<lparr>TG_HeartbeatTimeoutSeconds := T\<rparr>\<rparr>"
    and "ReadCompromise F P D ob (Policy_Sentinel p) = Inl ErrAbsent"
    and "ReadHeartbeat F P D ob (Policy_Sentinel p) = Inr (h, raw)" "vouched Heartbeat_signable F p primary h m" "HB_Status h = StatusWatching"
  shows "Policy_validate N p = None \<and>
    (\<exists>t w'. Watch F P D [(ob, now)] (NewWatcher p primary) = (Some t, w') \<and> TR_Kind t = TriggerHeartbeatTimeout \<and>
       TR_AliveObservedAt t = now \<and> TR_ObservedAt t = now)"
proof
  show "Policy_validate N p = None" using validate_timeout [OF assms(1,2)] assms(4) by simp
  let ?w = "NewWatcher p primary" and ?T = "TG_HeartbeatTimeoutSeconds (FP_Triggers p)"
  have T: "?T = T" using assms(4) by simp
  have "counts F P D ob ?w h raw m"
    using assms(6,7) by (simp add: counts_watches [OF watches_New] rises_def) (simp add: NewWatcher_def)
  then have u: "observe_heartbeat F P D ob now ?w = watcher_accept h raw m now ?w"
    by (auto simp: observe_heartbeat_def counts_def)
  have c: "observe_compromise F P D ob now ?w = (None, ?w)"
    using assms(5) watches_fields [OF watches_New [of p primary]] by (simp add: observe_compromise_def ErrAbsent_def errorsNew_def)
  have "observe F P D ob now ?w = (Some (heartbeat_trigger TriggerHeartbeatTimeout h now (watcher_accept h raw m now ?w)), watcher_accept h raw m now ?w)"
    using c u assms(2,3,8) T watches_fields [OF watches_New [of p primary]]
    by (simp add: observe_def observe_verdict_def timeout_verdict_def watcher_accept_def status_defs Let_def time_Sub_def)
  then show "\<exists>t w'. Watch F P D [(ob, now)] ?w = (Some t, w') \<and> TR_Kind t = TriggerHeartbeatTimeout \<and>
       TR_AliveObservedAt t = now \<and> TR_ObservedAt t = now"
    by (simp add: Observe_def heartbeat_trigger_def watcher_accept_def)
qed

definition any_url :: urls where
  "any_url = \<lparr>u_Parse = (\<lambda>s. Some (''https'', ''h'', ''h'')), u_LoopbackIP = (\<lambda>h. False)\<rparr>"

lemma demo_policy_valid: "Policy_validate any_url (demo_policy 60) = None"
proof -
  have "length (SP_Bytes demo_pin) = 32"
    by (simp add: demo_pin_def SigningKey_Public_def demo_sentinel_def PublicKeyBytes_def plain_prims_def)
  moreover have "hex_decode (hex_encode (zeros 48)) = Some (zeros 48)" by simp
  moreover have "ParseProvider ProviderGCPSEVSNP = Inr ProviderGCPSEVSNP" by code_simp
  ultimately show ?thesis
    by (simp add: Policy_validate_def policy_scalars_def sentinel_pin_check_def demo_policy_def RecordSuite_def zero_time_def
        checkEndpoint_def any_url_def MeasurementFromBytes_def Primary_validate_def PublicKeySize_def)
qed

theorem oversized_timeout_fires_at_once_witness:
  "\<exists>D t w. Policy_validate any_url (demo_policy (2 ^ 63 - 1)) = None \<and>
     Watch (\<lambda>n. Inr None) plain_prims D [(demo_outbox HeartbeatFile, 5)] (NewWatcher (demo_policy (2 ^ 63 - 1)) None) = (Some t, w) \<and>
     TR_Kind t = TriggerHeartbeatTimeout \<and> TR_AliveObservedAt t = 5"
proof -
  let ?F = "\<lambda>n. Inr None" and ?ob = "demo_outbox HeartbeatFile"
  obtain s1 s2 where r: "ReadHeartbeat ?F plain_prims (demo_decoders s1 s2) ?ob demo_pin = Inr (demo_heartbeat\<lparr>HB_Signature := s1\<rparr>, [])"
      "ReadCompromise ?F plain_prims (demo_decoders s1 s2) ?ob demo_pin = Inl ErrAbsent"
    using demo_reads [of ?F] by blast
  have p: "demo_policy (2 ^ 63 - 1) = (demo_policy 60)\<lparr>FP_Triggers := (FP_Triggers (demo_policy 60))\<lparr>TG_HeartbeatTimeoutSeconds := 2 ^ 63 - 1\<rparr>\<rparr>"
    by (simp add: demo_policy_def)
  from oversized_timeout_fires_at_once [OF demo_policy_valid _ _ p, of ?F plain_prims "demo_decoders s1 s2" ?ob _ "[]" None "[]" 5] r
  show ?thesis by (auto simp: seconds_def Second_def demo_heartbeat_def)
qed

end
