(* ===== verification/FailoverChoose.thy ===== *)
theory FailoverChoose
  imports FailoverWatch
begin

text \<open>
  Which genome a failover restores (src/internal/vault/failover/choose.go) and the tree a header's snapshot
  describes (genome/tree/tree.go).

  \<open>decoders\<close>-like parameters stand for \<open>encoding/json\<close>: of a bundle header, an escrow envelope, and the two
  kinds of content snapshot. \<open>tc_IsLocal\<close> stands for \<open>filepath.IsLocal\<close>. A Go map of files is the list of
  its entries, the latest binding first; \<open>Paths\<close> sorts them.
\<close>

section \<open>Trees\<close>

record tree_codec =
  tc_Header :: "bytes \<Rightarrow> go_error + Header \<times> bool"
  tc_Envelope :: "bytes \<Rightarrow> go_error + Envelope"
  tc_Dir :: "bytes \<Rightarrow> go_error + (string \<times> string) list"
  tc_Ollama :: "bytes \<Rightarrow> go_error + string \<times> (string \<times> string) list"
  tc_IsLocal :: "string \<Rightarrow> bool"

definition StagingPrefix :: string where
  "StagingPrefix = ''.vg-staging-''"

fun dir_files :: "tree_codec \<Rightarrow> (string \<times> string) list \<Rightarrow> (string \<times> string) list \<Rightarrow> go_error + (string \<times> string) list" where
  "dir_files T [] files = Inr files"
| "dir_files T ((fpath, digest) # cs) files =
     (if \<not> tc_IsLocal T fpath then Inl (errorsNew (''tree: component path '' @ fmt_q fpath @ '' is not inside the restored directory''))
      else if \<not> is_payload_digest digest then Inl (errorsNew (''tree: '' @ fpath @ '': digest '' @ fmt_q digest @ '' is not sha256:<64 hex>''))
      else dir_files T cs ((fpath, digest) # files))"

text \<open>\<open>strings.Replace(s, ":", "-", 1)\<close>.\<close>

fun colon_to_dash :: "string \<Rightarrow> string" where
  "colon_to_dash [] = []"
| "colon_to_dash (c # s) = (if c = CHR '':'' then CHR ''-'' # s else c # colon_to_dash s)"

fun ollama_files :: "string \<Rightarrow> (string \<times> string) list \<Rightarrow> (string \<times> string) list \<Rightarrow> go_error + (string \<times> string) list" where
  "ollama_files manifest [] files = Inr files"
| "ollama_files manifest ((role, digest) # cs) files =
     (if \<not> is_payload_digest digest
      then Inl (errorsNew (''tree: '' @ role @ '' component digest '' @ fmt_q digest @ '' is not sha256:<64 hex>''))
      else if role = ''manifest'' then ollama_files manifest cs ((manifest, digest) # files)
      else ollama_files manifest cs ((''models/blobs/'' @ colon_to_dash digest, digest) # files))"

definition snapshot_files :: "tree_codec \<Rightarrow> Header \<Rightarrow> go_error + (string \<times> string) list" where
  "snapshot_files T h =
     (if GH_ContentKind h = ContentDir
      then (case tc_Dir T (GH_ContentSnapshot h) of
              Inl err \<Rightarrow> Inl (wrapf ''tree: dir snapshot'' err)
            | Inr cs \<Rightarrow> dir_files T cs [])
      else if GH_ContentKind h = ContentOllama
      then (case tc_Ollama T (GH_ContentSnapshot h) of
              Inl err \<Rightarrow> Inl (wrapf ''tree: ollama snapshot'' err)
            | Inr (manifestPath, cs) \<Rightarrow>
                if \<not> tc_IsLocal T manifestPath then Inl (errorsNew (''tree: manifest path '' @ fmt_q manifestPath @ '' is not local''))
                else bindR (ollama_files (''models/'' @ manifestPath) cs []) (\<lambda>files.
                  if map_of files (''models/'' @ manifestPath) = None
                  then Inl (errorsNew ''tree: the ollama snapshot has no manifest component'') else Inr files))
      else Inl (errorsNew (''tree: unknown content kind '' @ fmt_q (GH_ContentKind h))))"

definition Paths :: "(string \<times> string) list \<Rightarrow> string list" where
  "Paths files = sort_key (map (\<lambda>c. (of_char c :: nat))) (remdups (map fst files))"

text \<open>The reserved-path check of a map without an order names one of the offending paths; here the first.\<close>

definition Files :: "tree_codec \<Rightarrow> Header \<Rightarrow> go_error + (string \<times> string) list" where
  "Files T h =
     bindR (snapshot_files T h) (\<lambda>files.
       if files = [] then Inl (errorsNew ''tree: the snapshot lists no files'')
       else (case List.find (\<lambda>p. take 12 p = StagingPrefix) (Paths files) of
               Some p \<Rightarrow> Inl (errorsNew (''tree: snapshot path '' @ fmt_q p @ '' is reserved''))
             | None \<Rightarrow> Inr files))"

definition trim_sha256 :: "string \<Rightarrow> string" where
  "trim_sha256 s = (if take 7 s = ''sha256:'' then drop 7 s else s)"

definition tree_Digest :: "(string \<times> string) list \<Rightarrow> string" where
  "tree_Digest files =
     hex_encode (SHA256 (string_bytes (concat (map (\<lambda>p. p @ '' '' @
       trim_sha256 (case map_of files p of None \<Rightarrow> [] | Some d \<Rightarrow> d) @ [CHR 0x0A]) (Paths files)))))"

section \<open>The choice\<close>

record ExpectedGenome =
  EG_BundleSHA256 :: string
  EG_PayloadSHA256 :: string
  EG_TreeSHA256 :: string

record Chosen =
  CG_Record :: SealRecord
  CG_Identity :: Identity
  CG_Envelope :: Envelope
  CG_Expected :: ExpectedGenome
  CG_RPO :: duration

text \<open>A \<open>Choice\<close>: what was chosen, if anything, with the chain's end and what was set aside.\<close>

record Choice =
  CH_Chosen :: "Chosen option"
  CH_ChainEnd :: "u64 option"
  CH_SetAside :: "Rejected list"

text \<open>What the loop does with one record: a reason to set it aside, a reason to stop, or a genome.\<close>

datatype verdict_on = Aside string | Contradiction string string | Take Chosen

definition position_verdict :: "Policy \<Rightarrow> Trigger \<Rightarrow> Link \<Rightarrow> gotime \<Rightarrow> SealRecord \<Rightarrow> verdict_on option" where
  "position_verdict p t lst cutoff rec =
     (if SE_Generation rec > LK_Generation lst
      then Some (Aside (''after generation '' @ fmt_d (unat (LK_Generation lst)) @ '', the last the sentinel's '' @ TR_Kind t @ '' names''))
      else if SE_Generation rec = LK_Generation lst \<and> SE_BundleSHA256 rec \<noteq> LK_BundleSHA256 lst
      then Some (Contradiction
             (''the sentinel's '' @ TR_Kind t @ '' names bundle '' @ take 12 (LK_BundleSHA256 lst) @ '' for generation '' @
              fmt_d (unat (LK_Generation lst)) @ ''; the outbox holds '' @ take 12 (SE_BundleSHA256 rec))
             (''generation '' @ fmt_d (unat (LK_Generation lst)) @ '' in the outbox is not the bundle the sentinel's '' @ TR_Kind t @
              '' names: the outbox contradicts the sentinel, and nothing in it is trusted''))
      else if SE_SealedAt rec > cutoff
      then Some (Aside (''sealed at '' @ fmt_RFC3339Nano (SE_SealedAt rec) @ '', after the cutoff '' @ fmt_RFC3339Nano cutoff))
      else None)"

definition chain_attested :: "floats \<Rightarrow> Policy \<Rightarrow> tee_Verifier option \<Rightarrow> SealRecord \<Rightarrow> go_error option" where
  "chain_attested F p primary rec =
     (case FP_Primary p of
        None \<Rightarrow> None
      | Some pr \<Rightarrow>
          (case verifyAttestation SealRecord_signable F rec primary of
             Inl err \<Rightarrow> Some err
           | Inr m \<Rightarrow> chk (\<not> PrimaryAllows p m) (errorsNew (''attested by '' @ PR_Kind pr @ '' measurement '' @ hex_encode m @
                   '', which the policy does not pin as the primary''))))"

definition genome_files :: "tree_codec \<Rightarrow> Outbox \<Rightarrow> string \<Rightarrow> SealRecord \<Rightarrow> go_error + Identity \<times> Envelope \<times> (string \<times> string) list" where
  "genome_files T ob escrowTag rec =
     bindR (CheckGenome (tc_Header T) (tc_Envelope T) ob rec) (\<lambda>(ident, env).
       if EN_EscrowKey env \<noteq> escrowTag
       then Inl (errorsNew (''its key is escrowed to '' @ EN_EscrowKey env @ '', not to this authority's '' @ escrowTag))
       else bindR (Files T (ID_Header ident)) (\<lambda>files. Inr (ident, env, files)))"

definition record_verdict ::
    "floats \<Rightarrow> tree_codec \<Rightarrow> Outbox \<Rightarrow> Policy \<Rightarrow> Trigger \<Rightarrow> string \<Rightarrow> tee_Verifier option \<Rightarrow> Link \<Rightarrow> gotime \<Rightarrow> SealRecord \<Rightarrow> verdict_on" where
  "record_verdict F T ob p t escrowTag primary lst cutoff rec =
     (case position_verdict p t lst cutoff rec of
        Some v \<Rightarrow> v
      | None \<Rightarrow>
          (case chain_attested F p primary rec of
             Some err \<Rightarrow> Aside (Error_String err)
           | None \<Rightarrow>
               (case genome_files T ob escrowTag rec of
                  Inl err \<Rightarrow> Aside (Error_String err)
                | Inr (ident, env, files) \<Rightarrow>
                    Take \<lparr>CG_Record = rec, CG_Identity = ident, CG_Envelope = env,
                          CG_Expected = \<lparr>EG_BundleSHA256 = ID_SHA256 ident, EG_PayloadSHA256 = GH_PayloadSHA256 (ID_Header ident),
                                         EG_TreeSHA256 = tree_Digest files\<rparr>,
                          CG_RPO = time_Sub (TR_At t) (SE_SealedAt rec)\<rparr>)))"

definition rpo_reason :: "Policy \<Rightarrow> Chosen \<Rightarrow> string" where
  "rpo_reason p g =
     (let limit = seconds (FP_MaxRPOSeconds p) in
      if 0 < sint limit \<and> sint (CG_RPO g) > sint limit
      then ''the newest trustworthy genome, generation '' @ fmt_d (unat (SE_Generation (CG_Record g))) @ '', was sealed '' @
           Duration_String (Duration_Round (CG_RPO g) 1000000) @ '' before the trigger; the policy allows at most '' @ Duration_String limit
      else [])"

text \<open>The walk from the newest record down. An empty reason is a choice.\<close>

fun choose_loop :: "(SealRecord \<Rightarrow> verdict_on) \<Rightarrow> Policy \<Rightarrow> gotime \<Rightarrow> SealRecord list \<Rightarrow> Choice \<Rightarrow> Choice \<times> string" where
  "choose_loop judge p cutoff [] c =
     (c, ''no genome in the verified chain was sealed by '' @ fmt_RFC3339Nano cutoff @ '' and checks out'')"
| "choose_loop judge p cutoff (rec # older) c =
     (let aside = (\<lambda>reason. c\<lparr>CH_SetAside := CH_SetAside c @ [\<lparr>RJ_File = RecordName (SE_Generation rec), RJ_Reason = reason\<rparr>]\<rparr>) in
      case judge rec of
        Aside reason \<Rightarrow> choose_loop judge p cutoff older (aside reason)
      | Contradiction reason why \<Rightarrow> (aside reason, why)
      | Take g \<Rightarrow> (c\<lparr>CH_Chosen := Some g\<rparr>, rpo_reason p g))"

definition Choose ::
    "floats \<Rightarrow> prims \<Rightarrow> decoders \<Rightarrow> tree_codec \<Rightarrow> Outbox \<Rightarrow> Policy \<Rightarrow> Trigger \<Rightarrow> string \<Rightarrow> tee_Verifier option \<Rightarrow> go_error + Choice \<times> string" where
  "Choose F P D T ob p t escrowTag primary =
     bindR (ReadChain F P D ob (Policy_Sentinel p)) (\<lambda>(chain, rejected).
       let c = \<lparr>CH_Chosen = None, CH_ChainEnd = None, CH_SetAside = rejected\<rparr> in
       if chain = [] then Inr (c, ''the outbox holds no genome the pinned sentinel sealed'')
       else
         let c1 = c\<lparr>CH_ChainEnd := Some (SE_Generation (last chain))\<rparr> in
         (case reportedLast t of
            None \<Rightarrow> Inr (c1, ''the sentinel's last record names no sealed generation: nothing in the outbox is vouched for'')
          | Some lst \<Rightarrow>
              let cutoff = time_Add (TR_At t) (- seconds (FP_QuarantineSeconds p)) in
              Inr (choose_loop (record_verdict F T ob p t escrowTag primary lst cutoff) p cutoff (rev chain) c1)))"

section \<open>The walk\<close>

text \<open>
  What the walk chooses is the first record, from the newest, that is neither set aside nor a
  contradiction; everything newer was set aside.
\<close>

lemma choose_loop_chosen:
  assumes "choose_loop judge p cutoff recs c = (c', why)" "CH_Chosen c = None" "CH_Chosen c' = Some g"
  obtains newer rec older where "recs = newer @ rec # older" "judge rec = Take g" "why = rpo_reason p g"
    "\<And>r. r \<in> set newer \<Longrightarrow> \<exists>reason. judge r = Aside reason \<and> \<lparr>RJ_File = RecordName (SE_Generation r), RJ_Reason = reason\<rparr> \<in> set (CH_SetAside c')"
    "set (CH_SetAside c) \<subseteq> set (CH_SetAside c')"
  using assms
proof (induction recs arbitrary: c thesis)
  case (Cons rec older)
  show ?case
  proof (cases "judge rec")
    case (Aside reason)
    let ?c = "c\<lparr>CH_SetAside := CH_SetAside c @ [\<lparr>RJ_File = RecordName (SE_Generation rec), RJ_Reason = reason\<rparr>]\<rparr>"
    have step: "choose_loop judge p cutoff older ?c = (c', why)" using Cons.prems(2) Aside by simp
    show ?thesis
    proof (rule Cons.IH [OF _ step])
      fix newer r older'
      assume a: "older = newer @ r # older'" "judge r = Take g" "why = rpo_reason p g"
        "\<And>r. r \<in> set newer \<Longrightarrow> \<exists>reason. judge r = Aside reason \<and> \<lparr>RJ_File = RecordName (SE_Generation r), RJ_Reason = reason\<rparr> \<in> set (CH_SetAside c')"
        "set (CH_SetAside ?c) \<subseteq> set (CH_SetAside c')"
      have "\<exists>reason. judge x = Aside reason \<and> \<lparr>RJ_File = RecordName (SE_Generation x), RJ_Reason = reason\<rparr> \<in> set (CH_SetAside c')"
        if "x \<in> set (rec # newer)" for x
        using that a(4,5) Aside by auto
      with a show thesis by (intro Cons.prems(1) [of "rec # newer" r older']) auto
    qed (use Cons.prems in simp_all)
  next
    case (Contradiction reason why')
    with Cons.prems show ?thesis by auto
  next
    case (Take g')
    with Cons.prems show ?thesis by (intro Cons.prems(1) [of "[]" rec older]) auto
  qed
qed auto

text \<open>A record the walk may take passed every gate of the policy.\<close>

lemma record_verdict_Take:
  assumes "record_verdict F T ob p t escrowTag primary lst cutoff rec = Take g"
  shows "CG_Record g = rec \<and> SE_Generation rec \<le> LK_Generation lst \<and>
    (SE_Generation rec = LK_Generation lst \<longrightarrow> SE_BundleSHA256 rec = LK_BundleSHA256 lst) \<and> SE_SealedAt rec \<le> cutoff \<and>
    chain_attested F p primary rec = None \<and>
    (\<exists>files. genome_files T ob escrowTag rec = Inr (CG_Identity g, CG_Envelope g, files) \<and>
       CG_Expected g = \<lparr>EG_BundleSHA256 = ID_SHA256 (CG_Identity g), EG_PayloadSHA256 = GH_PayloadSHA256 (ID_Header (CG_Identity g)),
                        EG_TreeSHA256 = tree_Digest files\<rparr>) \<and>
    CG_RPO g = time_Sub (TR_At t) (SE_SealedAt rec)"
  using assms
  by (auto simp: record_verdict_def position_verdict_def split: option.splits sum.splits if_splits prod.splits)

lemma genome_files_ok:
  assumes "genome_files T ob escrowTag rec = Inr (ident, env, files)"
  shows "ID_SHA256 ident = SE_BundleSHA256 rec \<and> GH_PayloadSHA256 (ID_Header ident) = SE_PayloadSHA256 rec \<and>
    GH_KeyID (ID_Header ident) = SE_KeyID rec \<and> EN_KeyID env = SE_KeyID rec \<and> EN_EscrowKey env = escrowTag \<and>
    (\<exists>content. ob_open ob (SE_Bundle rec) = Inr content \<and> hex_encode (SHA256 content) = SE_BundleSHA256 rec)"
  using assms
  by (auto simp: genome_files_def CheckGenome_def Let_def Identify_def split: if_splits sum.splits)

end
