(* ===== verification/FailoverLive.thy ===== *)
theory FailoverLive
  imports FailoverChoose BundleProperties WatchProperties
begin

text \<open>
  An outbox that works: one genome of generation 0 that the demonstration sentinel sealed, with the record
  that names it, its bundle and its escrowed key.
\<close>

definition demo_bundle :: bytes where
  "demo_bundle = bundle_Magic @ PutUint32 (of_nat (length [123 :: byte])) @ [123] @ []"

definition demo_seal_of :: "string \<Rightarrow> SealRecord" where
  "demo_seal_of tag = \<lparr>SE_Schema = SealSchema, SE_Sentinel = sentinel_KeyID demo_pin, SE_Generation = 0, SE_Bundle = BundleName 0,
     SE_BundleSHA256 = hex_encode (SHA256 demo_bundle), SE_BundleBytes = of_nat (length demo_bundle),
     SE_KeyID = GH_KeyID demo_sealed, SE_Escrow = EscrowName 0, SE_EscrowKey = tag,
     SE_PayloadSHA256 = PayloadDigest [1, 2, 3], SE_ParentBundleSHA256 = [], SE_SealedAt = 0, SE_Attestation = None,
     SE_Alg = [], SE_Signature = []\<rparr>"

abbreviation demo_seal :: SealRecord where
  "demo_seal \<equiv> demo_seal_of ''escrow''"

lemma demo_seal_Link: "SealRecord_Link (demo_seal_of tag) = SealRecord_Link demo_seal"
  by (simp add: SealRecord_Link_def demo_seal_of_def)

lemma PayloadDigest_length [simp]: "length (PayloadDigest b) = 71"
  by (simp add: PayloadDigest_def SHA256_length HashSize_def)

lemma demo_sealed_key: "GH_KeyID demo_sealed = NewKeyID (PayloadDigest [1, 2, 3]) 0 (zeros 32)"
  by (simp add: demo_sealed_def) (simp add: demo_header_def)

lemma demo_sealed_key_ok: "IsKeyID (GH_KeyID demo_sealed)"
  using KeyID_parts_NewKeyID [OF PayloadDigest_ok, of "[1, 2, 3]" 0 "zeros 32"]
  by (auto simp: demo_sealed_key KeyID_parts_def split: if_splits)

lemma demo_sealed_fields:
  "GH_Generation demo_sealed = 0" "GH_PayloadSHA256 demo_sealed = PayloadDigest [1, 2, 3]" "GH_ParentBundleSHA256 demo_sealed = []"
  "GH_ContentKind demo_sealed = ContentDir"
  by (simp_all add: demo_sealed_def) (simp_all add: demo_header_def ContentDir_def)

lemma demo_sealed_valid: "Header_validateFormat demo_sealed bundle_Format = None"
proof -
  obtain blob where "bundle_Seal plain_prims (\<lambda>h. Inr [123]) (describe demo_header [1, 2, 3]) [1, 2, 3] (zeros 32) 1 = Inr (demo_sealed, zeros 32, blob)"
    using Seal_total [OF demo_sealable _ _ demo_sealed_def, where J = "\<lambda>h. Inr [123]" and P = plain_prims and hb = "[123]"]
    by (auto simp: zero_time_def MaxHeaderBytes_def)
  from Seal_ok [OF this] show ?thesis by (simp add: Header_validate_def)
qed

lemma demo_bundle_size [simp]: "length demo_bundle = 21"
  by (simp add: demo_bundle_def bundle_Magic_def)

lemma ascii_take: "ascii s \<Longrightarrow> ascii (take n s)"
  by (auto simp: ascii_def list_all_iff dest: in_set_takeD)

lemma demo_texts:
  "valid_utf8 (BundleName 0)" "valid_utf8 (EscrowName 0)" "valid_utf8 (PayloadDigest b)" "valid_utf8 (GH_KeyID demo_sealed)"
proof -
  have d: "fmt_d 0 = ''0''" by code_simp
  then show "valid_utf8 (BundleName 0)" "valid_utf8 (EscrowName 0)"
    by (simp_all add: BundleName_def EscrowName_def pad_zeros_def numeral_eq_Suc ascii_utf8)
  show "valid_utf8 (PayloadDigest b)" by (simp add: PayloadDigest_def)
  show "valid_utf8 (GH_KeyID demo_sealed)"
    by (simp add: demo_sealed_key NewKeyID_def PayloadDigest_def DEK_KeyTag_def ascii_take d)
qed

lemma demo_seal_of_verifies:
  assumes "tag \<noteq> []" and "valid_utf8 tag"
  shows "\<exists>sig. sentinel_verify SealRecord_signable F plain_prims (demo_seal_of tag\<lparr>SE_Signature := sig\<rparr>) demo_pin = None"
proof -
  have "\<exists>sig. sentinel_sign SealRecord_signable F plain_prims (demo_seal_of tag) demo_sentinel =
      Inr (ct_SetSig (sn_record SealRecord_signable) sig
        (ct_SetAlg (sn_record SealRecord_signable) (RecordAlg (SK_suite demo_sentinel)) (demo_seal_of tag)))"
  proof (rule seal_record.sentinel_sign_total)
    show "sn_validate SealRecord_signable (ct_SetAlg (sn_record SealRecord_signable) (RecordAlg (SK_suite demo_sentinel)) (demo_seal_of tag)) = None"
      using demo_sealed_key_ok assms
      by (simp add: demo_key sn_validate_def SealRecord_signable_def SealRecord_validate_def demo_seal_of_def zero_time_def
        Attestation_validate_def is_hex_digest_def SHA256_length HashSize_def)
    show "ct_KeyID (sn_record SealRecord_signable) (demo_seal_of tag) = sentinel_KeyID (SigningKey_Public plain_prims demo_sentinel)"
      by (simp add: demo_key SealRecord_signable_def demo_seal_of_def)
    show "contract_clean (sn_record SealRecord_signable) (ct_SetAlg (sn_record SealRecord_signable) (RecordAlg (SK_suite demo_sentinel)) (demo_seal_of tag))"
      using demo_names demo_texts assms by (simp add: demo_key SealRecord_signable_def demo_seal_of_def SealRecord_fields_def SealSchema_def demo_clean)
    show "in_years (ct_Wire (sn_record SealRecord_signable) (ct_SetSig (sn_record SealRecord_signable) []
        (ct_SetAlg (sn_record SealRecord_signable) (RecordAlg (SK_suite demo_sentinel)) (demo_seal_of tag))))"
      using demo_instants by (simp add: demo_key SealRecord_signable_def demo_seal_of_def SealRecord_fields_def demo_clean)
  qed (rule demo_sentinel_signs)
  then show ?thesis
    using seal_record.sentinel_signed_verifies [OF plain_prims_ok demo_sentinel_ok, folded demo_pin_def]
    by (fastforce simp: SealRecord_signable_def demo_key(2) demo_seal_of_def)
qed

lemma demo_seal_verifies: "\<exists>sig. sentinel_verify SealRecord_signable F plain_prims (demo_seal\<lparr>SE_Signature := sig\<rparr>) demo_pin = None"
  by (rule demo_seal_of_verifies) (simp_all add: ascii_utf8)

text \<open>The outbox, with its record signed by \<open>sig\<close>, and what decodes from it.\<close>

definition demo_store :: Outbox where
  "demo_store = \<lparr>ob_Dir = ''/outbox'', ob_entries = Inr [(BundleName 0, True), (EscrowName 0, True), (RecordName 0, True)],
     ob_file = (\<lambda>n. Inr (Some [])), ob_open = (\<lambda>n. Inr demo_bundle)\<rparr>"

definition seal_decoders_of :: "string \<Rightarrow> bytes \<Rightarrow> decoders" where
  "seal_decoders_of tag sig = \<lparr>d_Seal = (\<lambda>raw. Inr (demo_seal_of tag\<lparr>SE_Signature := sig\<rparr>)), d_Heartbeat = (\<lambda>raw. Inl EOF),
     d_Compromise = (\<lambda>raw. Inl EOF)\<rparr>"

abbreviation seal_decoders :: "bytes \<Rightarrow> decoders" where
  "seal_decoders \<equiv> seal_decoders_of ''escrow''"

definition demo_codec_of :: "Envelope \<Rightarrow> tree_codec" where
  "demo_codec_of env = \<lparr>tc_Header = (\<lambda>b. Inr (demo_sealed, False)), tc_Envelope = (\<lambda>b. Inr env),
     tc_Dir = (\<lambda>b. Inr [(''adapter.bin'', PayloadDigest [1, 2, 3])]), tc_Ollama = (\<lambda>b. Inl EOF), tc_IsLocal = (\<lambda>p. True)\<rparr>"

definition demo_envelope :: Envelope where
  "demo_envelope = \<lparr>EN_Schema = [], EN_KeyID = GH_KeyID demo_sealed, EN_EscrowKey = ''escrow'', EN_Suite = [], EN_Ciphertext = []\<rparr>"

abbreviation demo_codec :: tree_codec where
  "demo_codec \<equiv> demo_codec_of demo_envelope"

lemma demo_file_names:
  "BundleName 0 = ''gen-000000.genome''" "EscrowName 0 = ''gen-000000.genome.escrow''" "RecordName 0 = ''gen-000000.seal.json''"
proof -
  have d: "fmt_d 0 = ''0''" by code_simp
  then show "BundleName 0 = ''gen-000000.genome''" "EscrowName 0 = ''gen-000000.genome.escrow''" "RecordName 0 = ''gen-000000.seal.json''"
    by (simp_all add: BundleName_def EscrowName_def RecordName_def pad_zeros_def numeral_eq_Suc)
qed

lemma demo_entries:
  "recordName_digits (BundleName 0) = None" "recordName_digits (EscrowName 0) = None" "recordName_digits (RecordName 0) = Some ''000000''"
  "ParseUint ''000000'' = Some 0"
  by (simp_all add: demo_file_names recordName_digits_def Let_def is_digit_def ParseUint_def digits_value_def)

lemma demo_store_files: "readBounded demo_store name = Inr []" "ob_open demo_store name = Inr demo_bundle"
  by (simp_all add: readBounded_def demo_store_def)

lemma demo_store_chain:
  assumes "sentinel_verify SealRecord_signable F plain_prims (demo_seal_of tag\<lparr>SE_Signature := sig\<rparr>) demo_pin = None"
  shows "chain_entry F plain_prims (seal_decoders_of tag sig) demo_store demo_pin (RecordName 0, True) = Some (Inr (demo_seal_of tag\<lparr>SE_Signature := sig\<rparr>))"
    "ReadChain F plain_prims (seal_decoders_of tag sig) demo_store demo_pin = Inr ([demo_seal_of tag\<lparr>SE_Signature := sig\<rparr>], [])"
proof -
  have "sentinel_parse SealRecord_signable F plain_prims (d_Seal (seal_decoders_of tag sig)) [] demo_pin = Inr (demo_seal_of tag\<lparr>SE_Signature := sig\<rparr>)"
    using assms by (simp add: seal_record.sentinel_parse_ok seal_decoders_of_def)
  then show e: "chain_entry F plain_prims (seal_decoders_of tag sig) demo_store demo_pin (RecordName 0, True) = Some (Inr (demo_seal_of tag\<lparr>SE_Signature := sig\<rparr>))"
    by (simp add: chain_entry_def demo_entries demo_store_files) (simp add: demo_seal_of_def)
  have s: "chain_entry F plain_prims (seal_decoders_of tag sig) demo_store demo_pin (BundleName 0, True) = None"
      "chain_entry F plain_prims (seal_decoders_of tag sig) demo_store demo_pin (EscrowName 0, True) = None"
    by (simp_all add: chain_entry_def demo_entries)
  show "ReadChain F plain_prims (seal_decoders_of tag sig) demo_store demo_pin = Inr ([demo_seal_of tag\<lparr>SE_Signature := sig\<rparr>], [])"
    by (simp add: ReadChain_def demo_store_def Let_def s [unfolded demo_store_def] e [unfolded demo_store_def])
qed

text \<open>A trigger whose heartbeat names the record, and the choice that it leads to.\<close>

definition demo_trigger :: Trigger where
  "demo_trigger = \<lparr>TR_Kind = TriggerHeartbeatTimeout, TR_At = 0, TR_ObservedAt = 0, TR_AliveObservedAt = 0, TR_Evidence = [],
     TR_Compromise = None, TR_Heartbeat = Some (demo_heartbeat\<lparr>HB_Last := Some (SealRecord_Link demo_seal)\<rparr>),
     TR_PrimaryMeasurement = [], TR_Ignored = []\<rparr>"

lemma demo_identity:
  "Identify (tc_Header (demo_codec_of env)) name demo_bundle =
     Inr \<lparr>ID_Header = demo_sealed, ID_SHA256 = hex_encode (SHA256 demo_bundle), ID_Size = 21\<rparr>"
proof -
  have "NewReader (tc_Header (demo_codec_of env)) demo_bundle =
      Inr \<lparr>rd_Header = demo_sealed, rd_HeaderBytes = [123], rd_r = [], rd_version = 4, rd_prefix = [], rd_opened = False\<rparr>"
    unfolding demo_bundle_def
    by (rule NewReader_v4) (simp_all add: demo_codec_of_def MaxHeaderBytes_def demo_sealed_valid)
  then show ?thesis by (simp add: Identify_def)
qed

lemma demo_genome_files:
  assumes "EN_KeyID env = GH_KeyID demo_sealed" and "EN_EscrowKey env = tag"
  shows "genome_files (demo_codec_of env) demo_store tag (demo_seal_of tag\<lparr>SE_Signature := sig\<rparr>) =
    Inr (\<lparr>ID_Header = demo_sealed, ID_SHA256 = hex_encode (SHA256 demo_bundle), ID_Size = 21\<rparr>, env, [(''adapter.bin'', PayloadDigest [1, 2, 3])])"
proof -
  have env: "escrow_Parse (tc_Envelope (demo_codec_of env)) [] = Inr env" by (simp add: escrow_Parse_def demo_codec_of_def)
  have "CheckGenome (tc_Header (demo_codec_of env)) (tc_Envelope (demo_codec_of env)) demo_store (demo_seal_of tag\<lparr>SE_Signature := sig\<rparr>) =
      Inr (\<lparr>ID_Header = demo_sealed, ID_SHA256 = hex_encode (SHA256 demo_bundle), ID_Size = 21\<rparr>, env)"
    using assms by (simp add: CheckGenome_def demo_store_files demo_identity Let_def demo_seal_of_def demo_sealed_fields env)
  moreover have "Files (demo_codec_of env) demo_sealed = Inr [(''adapter.bin'', PayloadDigest [1, 2, 3])]"
    by (simp add: Files_def snapshot_files_def demo_sealed_fields demo_codec_of_def Paths_def StagingPrefix_def)
  ultimately show ?thesis using assms by (simp add: genome_files_def)
qed

text \<open>Any policy for the demonstration sentinel with no bound on lost state and no quarantine makes the choice.\<close>

lemma demo_choice_of:
  assumes sig: "sentinel_verify SealRecord_signable F plain_prims (demo_seal_of tag\<lparr>SE_Signature := sig\<rparr>) demo_pin = None"
    and env: "EN_KeyID env = GH_KeyID demo_sealed" "EN_EscrowKey env = tag"
    and p: "Policy_Sentinel p = demo_pin" "FP_Primary p = None" "FP_QuarantineSeconds p = 0" "FP_MaxRPOSeconds p = 0"
  obtains c g where "Choose F plain_prims (seal_decoders_of tag sig) (demo_codec_of env) demo_store p demo_trigger tag None = Inr (c, [])"
    "CH_Chosen c = Some g" "CG_Envelope g = env" "CG_Record g = demo_seal_of tag\<lparr>SE_Signature := sig\<rparr>"
    "CG_Expected g = \<lparr>EG_BundleSHA256 = hex_encode (SHA256 demo_bundle), EG_PayloadSHA256 = PayloadDigest [1, 2, 3],
       EG_TreeSHA256 = tree_Digest [(''adapter.bin'', PayloadDigest [1, 2, 3])]\<rparr>"
proof -
  let ?rec = "demo_seal_of tag\<lparr>SE_Signature := sig\<rparr>"
  note demo_genome_files [OF env, of sig]
  moreover have "position_verdict p demo_trigger (SealRecord_Link demo_seal) 0 ?rec = None"
    by (simp add: position_verdict_def SealRecord_Link_def) (simp add: demo_seal_of_def)
  moreover have "chain_attested F p None ?rec = None" by (simp add: chain_attested_def p)
  ultimately obtain g where take: "record_verdict F (demo_codec_of env) demo_store p demo_trigger tag None (SealRecord_Link demo_seal) 0 ?rec = Take g"
      "CG_Envelope g = env" "CG_Record g = ?rec"
      "CG_Expected g = \<lparr>EG_BundleSHA256 = hex_encode (SHA256 demo_bundle), EG_PayloadSHA256 = PayloadDigest [1, 2, 3],
        EG_TreeSHA256 = tree_Digest [(''adapter.bin'', PayloadDigest [1, 2, 3])]\<rparr>"
    by (auto simp: record_verdict_def demo_sealed_fields)
  have t: "reportedLast demo_trigger = Some (SealRecord_Link demo_seal)" "TR_At demo_trigger = 0"
    by (simp_all add: reportedLast_def demo_trigger_def)
  have "rpo_reason p g = []" by (simp add: rpo_reason_def p seconds_def)
  with take show thesis
    by (intro that [of "\<lparr>CH_Chosen = Some g, CH_ChainEnd = Some (SE_Generation (demo_seal_of tag)), CH_SetAside = []\<rparr>" g])
      (simp_all add: Choose_def demo_store_chain [OF sig] t p seconds_def time_Add_def Let_def)
qed

lemma demo_choice:
  assumes "sentinel_verify SealRecord_signable F plain_prims (demo_seal\<lparr>SE_Signature := sig\<rparr>) demo_pin = None"
  shows "\<exists>c. Choose F plain_prims (seal_decoders sig) demo_codec demo_store (demo_policy 60) demo_trigger ''escrow'' None = Inr (c, [])"
proof -
  have "EN_KeyID demo_envelope = GH_KeyID demo_sealed" "EN_EscrowKey demo_envelope = ''escrow''" by (simp_all add: demo_envelope_def)
  moreover have "FP_Primary (demo_policy 60) = None" "FP_QuarantineSeconds (demo_policy 60) = 0" "FP_MaxRPOSeconds (demo_policy 60) = 0"
    by (simp_all add: demo_policy_def)
  ultimately show ?thesis using demo_choice_of [OF assms _ _ demo_policy_pin] by metis
qed

end
