(* ===== verification/FailoverProperties.thy ===== *)
theory FailoverProperties
  imports FailoverLive TrustProperties SessionProofs ChainProperties "HOL-Library.Multiset"
begin

text \<open>
  The properties of a failover: where a released key may go, how often one policy may be carried out, what
  the outbox of a working sentinel reads back as, and what is known of the genome that is chosen.
\<close>

section \<open>Where a key may go\<close>

text \<open>C24: Behind the operator's stop list and the failover policy's gate, in that order, a key is released only to
  the standby the policy names, by its provider and at one of its measurements, never to one the list
  revokes or under a stop, and only where the policy behind them would release it too.\<close>

theorem failover_releases_only_to_the_standby:
  "authorized (RevocationGate l (FailoverGate p inner)) kind m did kids \<longleftrightarrow>
     \<not> RL_StopAll l \<and> \<not> (\<exists>hs. map_of (RL_RevokedMeasurements l) kind = Some hs \<and> hex_encode m \<in> set hs) \<and>
     kind = SB_Kind (FP_Standby p) \<and> hex_encode m \<in> set (SB_Measurements (FP_Standby p)) \<and> authorized inner kind m did kids"
  using stop_gate.gate_narrows [of l "FailoverGate p inner" kind m did kids] failover_gate.gate_narrows [of p inner kind m did kids]
  by (auto simp: Denies_iff Policy_Allows_def)

text \<open>The standby under another spelling of its kind.\<close>

definition respell :: "string \<Rightarrow> Policy \<Rightarrow> Policy" where
  "respell name p = p\<lparr>FP_Standby := (FP_Standby p)\<lparr>SB_Kind := name\<rparr>\<rparr>"

lemma pin_check_standby [simp]: "sentinel_pin_check (p\<lparr>FP_Standby := s\<rparr>) = sentinel_pin_check p"
  by (cases "RecordSuite (FP_SentinelAlg p)") (simp_all add: sentinel_pin_check_def)

lemma validate_respell:
  assumes "Policy_validate N p = None" "ParseProvider name = Inr k"
  shows "Policy_validate N (respell name p) = None"
  using assms by (auto simp: Policy_validate_def policy_scalars_def respell_def)

text \<open>A policy that names its standby by a family name passes its own gate and can never be carried out: with
  any accepted policy the one that calls the standby \<open>sev-snp\<close> is accepted too, and its release gate refuses
  every measurement of every provider there is, the standby's included, since it compares the text as it
  was written.\<close>

theorem standby_by_family_name_never_released:
  assumes "Policy_validate N p = None" "kind \<in> set AllProviders"
  shows "Policy_validate N (respell ''sev-snp'' p) = None \<and> \<not> authorized (FailoverGate (respell ''sev-snp'' p) inner) kind m did kids"
proof
  show "Policy_validate N (respell ''sev-snp'' p) = None" by (rule validate_respell [OF assms(1) parse_names(1)])
  have "''sev-snp'' \<notin> set AllProviders" by code_simp
  with assms(2) have "kind \<noteq> ''sev-snp''" by auto
  then show "\<not> authorized (FailoverGate (respell ''sev-snp'' p) inner) kind m did kids"
    by (simp add: failover_gate.gate_narrows Policy_Allows_def respell_def)
qed

text \<open>A policy behind the gates that releases to anyone.\<close>

definition open_release :: KeyReleasePolicy where
  "open_release = \<lparr>kp_AuthorizeKeyRelease = (\<lambda>kind m did kids. Inr \<lparr>PV_Authorized = True, PV_Reason = []\<rparr>), kp_PolicyVersion = []\<rparr>"

theorem standby_by_family_name_never_released_witness:
  "Policy_validate any_url (respell ''sev-snp'' (demo_policy 60)) = None \<and>
   \<not> authorized (FailoverGate (respell ''sev-snp'' (demo_policy 60)) open_release) ProviderGCPSEVSNP (zeros 48) ''d'' [''k'']"
  by (rule standby_by_family_name_never_released [OF demo_policy_valid]) (simp add: AllProviders_def)

section \<open>How often\<close>

text \<open>C25: One policy serial carries out at most one failover, and none once a later serial has been applied: with
  a decision to fail over under that serial on record, or any decision under a higher one, the policy is
  refused, and a log with a decision that does not decode refuses every policy.\<close>

theorem one_failover_per_policy_serial:
  "CheckNotSpent U p es = None \<longleftrightarrow>
     (\<forall>e \<in> set es. AE_Kind e = KindFailoverDecided \<longrightarrow>
        (\<exists>d s. U (AE_Payload e) = Some (d, s) \<and> s \<le> FP_Serial p \<and> \<not> (s = FP_Serial p \<and> d = DecisionFailover)))"
proof
  assume "CheckNotSpent U p es = None"
  then obtain n where n: "CheckNotSpent_loop U p 0 es = Inr n" "n \<le> FP_Serial p"
    by (auto simp: CheckNotSpent_def not_less split: sum.splits)
  show "\<forall>e \<in> set es. AE_Kind e = KindFailoverDecided \<longrightarrow>
        (\<exists>d s. U (AE_Payload e) = Some (d, s) \<and> s \<le> FP_Serial p \<and> \<not> (s = FP_Serial p \<and> d = DecisionFailover))"
    using CheckNotSpent_loop_ok(2) [OF n(1)] n(2) by (meson order_trans)
next
  assume all: "\<forall>e \<in> set es. AE_Kind e = KindFailoverDecided \<longrightarrow>
        (\<exists>d s. U (AE_Payload e) = Some (d, s) \<and> s \<le> FP_Serial p \<and> \<not> (s = FP_Serial p \<and> d = DecisionFailover))"
  have "\<exists>n. CheckNotSpent_loop U p h es = Inr n \<and> n \<le> FP_Serial p" if "h \<le> FP_Serial p" for h
    using all that
  proof (induction es arbitrary: h)
    case (Cons e es)
    show ?case
    proof (cases "AE_Kind e = KindFailoverDecided")
      case True
      with Cons.prems obtain d s where "U (AE_Payload e) = Some (d, s)" "s \<le> FP_Serial p" "\<not> (s = FP_Serial p \<and> d = DecisionFailover)" by auto
      with True Cons.IH [of "max h s"] Cons.prems show ?thesis by auto
    qed (use Cons in simp)
  qed simp
  from this [of 0] obtain n where "CheckNotSpent_loop U p 0 es = Inr n" "n \<le> FP_Serial p" by auto
  then show "CheckNotSpent U p es = None" by (simp add: CheckNotSpent_def)
qed

theorem one_failover_per_policy_serial_witness:
  "CheckNotSpent (\<lambda>b. Some (DecisionFailover, 1)) (demo_policy 60) [demo_event\<lparr>AE_Kind := KindFailoverDecided\<rparr>] \<noteq> None"
  using one_failover_per_policy_serial [of "\<lambda>b. Some (DecisionFailover, 1)" "demo_policy 60" "[demo_event\<lparr>AE_Kind := KindFailoverDecided\<rparr>]"]
  by (simp add: demo_policy_def)

section \<open>Reading a sentinel's outbox\<close>

lemma RecordName_parts: "\<exists>ds. recordName_digits (RecordName g) = Some ds \<and> ParseUint ds = Some g"
proof -
  let ?d = "fmt_d (unat g)" and ?ds = "pad_zeros 6 (fmt_d (unat g))"
  have d: "list_all is_digit ?d" "?d \<noteq> []" "digits_value ?d = unat g" using fmt_d_digits [of "unat g"] by simp_all
  have z: "is_digit (CHR ''0'')" by (simp add: is_digit_def)
  have ds: "list_all is_digit ?ds" "6 \<le> length ?ds" "digits_value ?ds = unat g"
    using d z by (auto simp: pad_zeros_def list_all_iff digits_value_zeros)
  have n: "RecordName g = ''gen-'' @ ?ds @ ''.seal.json''" by (simp add: RecordName_def)
  have "recordName_digits (''gen-'' @ ?ds @ ''.seal.json'') = Some ?ds" if "list_all is_digit ?ds" "6 \<le> length ?ds"
    using that by (simp add: recordName_digits_def Let_def)
  with ds n have "recordName_digits (RecordName g) = Some ?ds" by simp
  moreover have "?ds \<noteq> []" using ds(2) by auto
  moreover have "unat g < 2 ^ 64" using unsigned_less [of g, where 'a = nat] by simp
  ultimately show ?thesis using ds by (simp add: ParseUint_def)
qed

text \<open>A record in the file that its generation names.\<close>

definition holds :: "floats \<Rightarrow> prims \<Rightarrow> decoders \<Rightarrow> Outbox \<Rightarrow> SuitePublicKey \<Rightarrow> SealRecord \<Rightarrow> bool" where
  "holds F P D ob pub r \<longleftrightarrow>
     (\<exists>raw. readBounded ob (RecordName (SE_Generation r)) = Inr raw \<and> d_Seal D raw = Inr r \<and>
        sentinel_verify SealRecord_signable F P r pub = None)"

lemma chain_entry_holds:
  assumes "holds F P D ob pub r"
  shows "chain_entry F P D ob pub (RecordName (SE_Generation r), True) = Some (Inr r)"
proof -
  obtain raw where "readBounded ob (RecordName (SE_Generation r)) = Inr raw" "sentinel_parse SealRecord_signable F P (d_Seal D) raw pub = Inr r"
    using assms by (auto simp: holds_def seal_record.sentinel_parse_ok)
  with RecordName_parts [of "SE_Generation r"] show ?thesis by (auto simp: chain_entry_def)
qed

lemma chain_entries_holds:
  assumes "\<And>n reg. (n, reg) \<in> set es \<Longrightarrow> recordName_digits n = None \<or> (\<exists>r. n = RecordName (SE_Generation r) \<and> reg \<and> holds F P D ob pub r)"
  shows "chain_entries F P D ob pub es = map (\<lambda>(n, reg). the (chain_entry F P D ob pub (n, reg))) (filter (\<lambda>(n, reg). recordName_digits n \<noteq> None) es)"
  using assms
proof (induction es)
  case (Cons e es)
  obtain n reg where e: "e = (n, reg)" by (cases e) auto
  from Cons.prems [of n reg] e consider "recordName_digits n = None" | r where "n = RecordName (SE_Generation r)" "reg" "holds F P D ob pub r" by auto
  then show ?case
  proof cases
    case 1
    then show ?thesis using e Cons by (auto simp: chain_entry_def)
  next
    case 2
    with chain_entry_holds [OF 2(3)] RecordName_parts [of "SE_Generation r"] e Cons show ?thesis by auto
  qed
qed simp

lemma valid_map_Inr [simp]: "valid_records (map (\<lambda>x. Inr (f x)) xs) = map f xs" "rejected_records (map (\<lambda>x. Inr (f x)) xs) = []"
  by (induction xs) auto

lemma rising_sorted:
  assumes "\<And>i. Suc i < length rs \<Longrightarrow> SE_Generation (rs ! i) < SE_Generation (rs ! Suc i)"
  shows "sorted (map (\<lambda>r. unat (SE_Generation r)) rs)" "inj_on (\<lambda>r. unat (SE_Generation r)) (set rs)"
proof -
  have "sorted_wrt (<) (map (\<lambda>r. unat (SE_Generation r)) rs)"
    by (subst sorted_wrt_iff_nth_Suc_transp) (use assms in \<open>auto simp: word_less_nat_alt\<close>)
  then show "sorted (map (\<lambda>r. unat (SE_Generation r)) rs)" "inj_on (\<lambda>r. unat (SE_Generation r)) (set rs)"
    by (auto simp: strict_sorted_iff distinct_map)
qed

lemma sort_key_unique:
  assumes "mset xs = mset ys" "sorted (map k ys)" "inj_on k (set ys)"
  shows "sort_key k xs = ys"
  by (rule sort_key_inj_key_eq) (use assms mset_eq_setD [OF assms(1)] in simp_all)

text \<open>C26: What a sentinel sealed is read back whole: an outbox whose record files are those of a linked chain of
  rising generations, each in the file its generation names and each verifying, in any order and among any
  other files, reads back as exactly that chain, with nothing rejected.\<close>

theorem sealed_chain_is_read_back:
  assumes "ob_entries ob = Inr entries"
    and "mset (filter (\<lambda>(n, reg). recordName_digits n \<noteq> None) entries) = mset (map (\<lambda>r. (RecordName (SE_Generation r), True)) rs)"
    and "\<And>r. r \<in> set rs \<Longrightarrow> holds F P D ob pub r" "seals_linked rs"
    and "\<And>i. Suc i < length rs \<Longrightarrow> SE_Generation (rs ! i) < SE_Generation (rs ! Suc i)"
  shows "ReadChain F P D ob pub = Inr (rs, [])"
proof -
  let ?named = "filter (\<lambda>(n, reg). recordName_digits n \<noteq> None) entries" and ?f = "\<lambda>e. projr (the (chain_entry F P D ob pub e))"
    and ?g = "\<lambda>r. (RecordName (SE_Generation r), True)" and ?key = "\<lambda>r. unat (SE_Generation r)"
  have named: "set ?named = ?g ` set rs" using mset_eq_setD [OF assms(2)] by simp
  have entry: "recordName_digits n = None \<or> (\<exists>r. n = RecordName (SE_Generation r) \<and> reg \<and> holds F P D ob pub r)"
    if "(n, reg) \<in> set entries" for n reg
  proof (cases "recordName_digits n")
    case (Some ds)
    with that have "(n, reg) \<in> set ?named" by simp
    then obtain r where "r \<in> set rs" "(n, reg) = ?g r" unfolding named by blast
    with assms(3) show ?thesis by auto
  qed simp
  have Inr: "the (chain_entry F P D ob pub e) = Inr (?f e)" if "e \<in> set ?named" for e
  proof -
    from that obtain r where "r \<in> set rs" "e = ?g r" unfolding named by blast
    then show ?thesis using chain_entry_holds [OF assms(3)] by simp
  qed
  have "chain_entries F P D ob pub entries = map (\<lambda>(n, reg). the (chain_entry F P D ob pub (n, reg))) ?named"
    by (rule chain_entries_holds [OF entry])
  also have "\<dots> = map (\<lambda>e. Inr (?f e)) ?named" using Inr by (intro map_cong) auto
  finally have es: "chain_entries F P D ob pub entries = map (\<lambda>e. Inr (?f e)) ?named" .
  have "mset (map ?f ?named) = image_mset ?f (mset (map ?g rs))" using assms(2) by simp
  also have "\<dots> = mset (map (\<lambda>r. ?f (?g r)) rs)" by (simp only: mset_map [symmetric] map_map comp_def)
  also have "map (\<lambda>r. ?f (?g r)) rs = rs" using chain_entry_holds [OF assms(3)] by (intro map_idI) simp
  finally have ms: "mset (map ?f ?named) = mset rs" .
  have "sort_key ?key (map ?f ?named) = rs"
    by (rule sort_key_unique [OF ms rising_sorted [OF assms(5)]])
  then show ?thesis
    using link_records_complete [of "[]" rs] assms(4) by (simp add: ReadChain_def assms(1) es Let_def)
qed

theorem sealed_chain_is_read_back_witness:
  "\<exists>D rec. ReadChain (\<lambda>n. Inr None) plain_prims D demo_store demo_pin = Inr ([rec], []) \<and> SE_Generation rec = 0"
proof -
  let ?F = "\<lambda>n. Inr None"
  obtain sig where sig: "sentinel_verify SealRecord_signable ?F plain_prims (demo_seal\<lparr>SE_Signature := sig\<rparr>) demo_pin = None"
    using demo_seal_verifies [of ?F] by blast
  let ?rec = "demo_seal\<lparr>SE_Signature := sig\<rparr>"
  have g: "SE_Generation ?rec = 0" by (simp add: demo_seal_of_def)
  have "holds ?F plain_prims (seal_decoders sig) demo_store demo_pin ?rec"
    using sig by (simp add: holds_def demo_store_files) (simp add: seal_decoders_of_def)
  then have "ReadChain ?F plain_prims (seal_decoders sig) demo_store demo_pin = Inr ([?rec], [])"
    by (intro sealed_chain_is_read_back [where entries = "[(BundleName 0, True), (EscrowName 0, True), (RecordName 0, True)]"])
      (simp_all add: demo_entries g del: One_nat_def, simp add: demo_store_def)
  with g show ?thesis by blast
qed

section \<open>The genome that is chosen\<close>

lemma rpo_reason_Nil:
  assumes "rpo_reason p g = []"
  shows "sint (seconds (FP_MaxRPOSeconds p)) \<le> 0 \<or> sint (CG_RPO g) \<le> sint (seconds (FP_MaxRPOSeconds p))"
  using assms by (auto simp: rpo_reason_def Let_def not_less split: if_splits)

lemma choose_loop_reason:
  assumes "choose_loop judge p cutoff recs c = (c', [])" "CH_Chosen c = None"
    and "\<And>r reason why. judge r = Contradiction reason why \<Longrightarrow> why \<noteq> []"
  shows "CH_Chosen c' \<noteq> None"
  using assms by (induction recs arbitrary: c) (auto simp: Let_def split: verdict_on.splits)

lemma contradiction_reason: "record_verdict F T ob p t tag primary lst cutoff r = Contradiction reason why \<Longrightarrow> why \<noteq> []"
  by (auto simp: record_verdict_def position_verdict_def split: if_splits option.splits sum.splits prod.splits)

text \<open>C20: A failover restores only a genome that is vouched for: whatever the outbox holds, a genome that is
  chosen has a record of the verified chain, signed by the pinned sentinel, not past the last generation the
  trigger's own record names and the same bundle if it is that one, sealed by the cutoff, attested as the
  policy pins; its bundle file hashes to what the record says and its key is escrowed to this authority;
  it is within the policy's bound on lost state; and every newer record of the chain was set aside.\<close>

theorem chosen_genome_is_vouched_for:
  assumes "Choose F P D T ob p t escrowTag primary = Inr (c, [])"
  shows "\<exists>g lst older newer content. CH_Chosen c = Some g \<and> reportedLast t = Some lst \<and>
    (let rec = CG_Record g in
     (\<exists>rejected. ReadChain F P D ob (Policy_Sentinel p) = Inr (older @ rec # newer, rejected)) \<and>
     sentinel_verify SealRecord_signable F P rec (Policy_Sentinel p) = None \<and>
     SE_Generation rec \<le> LK_Generation lst \<and> (SE_Generation rec = LK_Generation lst \<longrightarrow> SE_BundleSHA256 rec = LK_BundleSHA256 lst) \<and>
     SE_SealedAt rec \<le> time_Add (TR_At t) (- seconds (FP_QuarantineSeconds p)) \<and>
     (\<exists>m. vouched SealRecord_signable F p primary rec m) \<and>
     ob_open ob (SE_Bundle rec) = Inr content \<and> hex_encode (SHA256 content) = SE_BundleSHA256 rec \<and>
     EN_KeyID (CG_Envelope g) = SE_KeyID rec \<and> EN_EscrowKey (CG_Envelope g) = escrowTag \<and>
     (sint (seconds (FP_MaxRPOSeconds p)) \<le> 0 \<or> sint (time_Sub (TR_At t) (SE_SealedAt rec)) \<le> sint (seconds (FP_MaxRPOSeconds p))) \<and>
     (\<forall>r \<in> set newer. \<exists>reason. \<lparr>RJ_File = RecordName (SE_Generation r), RJ_Reason = reason\<rparr> \<in> set (CH_SetAside c)))"
proof -
  let ?cutoff = "time_Add (TR_At t) (- seconds (FP_QuarantineSeconds p))"
  obtain chain rejected where chain: "ReadChain F P D ob (Policy_Sentinel p) = Inr (chain, rejected)" "chain \<noteq> []"
    using assms by (auto simp: Choose_def Let_def split: if_splits)
  obtain lst where lst1: "reportedLast t = Some lst"
    using assms chain by (auto simp: Choose_def Let_def split: if_splits option.splits)
  define c1 where "c1 = \<lparr>CH_Chosen = None, CH_ChainEnd = Some (SE_Generation (last chain)), CH_SetAside = rejected\<rparr>"
  have lst: "reportedLast t = Some lst" "CH_Chosen c1 = None"
      "choose_loop (record_verdict F T ob p t escrowTag primary lst ?cutoff) p ?cutoff (rev chain) c1 = (c, [])"
    using assms chain lst1 by (simp_all add: Choose_def Let_def c1_def)
  obtain g where g: "CH_Chosen c = Some g" using choose_loop_reason [OF lst(3,2)] contradiction_reason by blast
  obtain newer rec older where walk: "rev chain = newer @ rec # older" "record_verdict F T ob p t escrowTag primary lst ?cutoff rec = Take g"
      "[] = rpo_reason p g"
      "\<And>r. r \<in> set newer \<Longrightarrow> \<exists>reason. record_verdict F T ob p t escrowTag primary lst ?cutoff r = Aside reason \<and>
         \<lparr>RJ_File = RecordName (SE_Generation r), RJ_Reason = reason\<rparr> \<in> set (CH_SetAside c)"
    by (rule choose_loop_chosen [OF lst(3,2) g]) (rule that, assumption, assumption, assumption, blast)
  note take = record_verdict_Take [OF walk(2)]
  obtain files where files: "genome_files T ob escrowTag rec = Inr (CG_Identity g, CG_Envelope g, files)" using take by blast
  note gf = genome_files_ok [OF files]
  have ch: "chain = rev older @ rec # rev newer" using arg_cong [OF walk(1), of rev] by simp
  obtain entries where "ob_entries ob = Inr entries" "Inr rec \<in> set (chain_entries F P D ob (Policy_Sentinel p) entries)"
    by (rule ReadChain_ok [OF chain(1)]) (use ch in auto)
  then obtain n reg where "chain_entry F P D ob (Policy_Sentinel p) (n, reg) = Some (Inr rec)"
    by (auto simp: chain_entries_def)
  then have v: "sentinel_verify SealRecord_signable F P rec (Policy_Sentinel p) = None" by (rule chain_entry_Inr)
  have "\<exists>m. vouched SealRecord_signable F p primary rec m"
    using take by (auto simp: chain_attested_def vouched_def PinsPrimary_def chk_def split: option.splits sum.splits if_splits)
  moreover have "sint (seconds (FP_MaxRPOSeconds p)) \<le> 0 \<or> sint (time_Sub (TR_At t) (SE_SealedAt rec)) \<le> sint (seconds (FP_MaxRPOSeconds p))"
    using rpo_reason_Nil [OF walk(3) [symmetric]] take by simp
  moreover obtain content where "ob_open ob (SE_Bundle rec) = Inr content" "hex_encode (SHA256 content) = SE_BundleSHA256 rec" using gf by blast
  moreover have "\<forall>r \<in> set (rev newer). \<exists>reason. \<lparr>RJ_File = RecordName (SE_Generation r), RJ_Reason = reason\<rparr> \<in> set (CH_SetAside c)"
    using walk(4) by auto
  ultimately show ?thesis
    using g lst(1) chain(1) ch v take gf
    by (intro exI [of _ g] exI [of _ lst] exI [of _ "rev older"] exI [of _ "rev newer"] exI [of _ content]) (simp add: Let_def)
qed

theorem chosen_genome_is_vouched_for_witness:
  "\<exists>g c D content. CH_Chosen (c :: Choice) = Some g \<and>
    sentinel_verify SealRecord_signable (\<lambda>n. Inr None) plain_prims (CG_Record g) demo_pin = None \<and>
    ob_open demo_store (SE_Bundle (CG_Record g)) = Inr content \<and> hex_encode (SHA256 content) = SE_BundleSHA256 (CG_Record g) \<and>
    Choose (\<lambda>n. Inr None) plain_prims D demo_codec demo_store (demo_policy 60) demo_trigger ''escrow'' None = Inr (c, [])"
proof -
  let ?F = "\<lambda>n. Inr None"
  obtain sig where "sentinel_verify SealRecord_signable ?F plain_prims (demo_seal\<lparr>SE_Signature := sig\<rparr>) demo_pin = None"
    using demo_seal_verifies [of ?F] by blast
  from demo_choice [OF this] obtain c
    where c: "Choose ?F plain_prims (seal_decoders sig) demo_codec demo_store (demo_policy 60) demo_trigger ''escrow'' None = Inr (c, [])" by blast
  from chosen_genome_is_vouched_for [OF c] obtain g content where
    "CH_Chosen c = Some g" "sentinel_verify SealRecord_signable ?F plain_prims (CG_Record g) demo_pin = None"
    "ob_open demo_store (SE_Bundle (CG_Record g)) = Inr content" "hex_encode (SHA256 content) = SE_BundleSHA256 (CG_Record g)"
    by (auto simp: Let_def)
  with c show ?thesis by blast
qed

end
