(* ===== verification/ReleaseTokens.thy ===== *)
theory ReleaseTokens
  imports ReleaseContracts Tee SentinelRecords
begin

text \<open>
  The two contracts of a key release across clouds (src/internal/contracts/cross_cloud_handshake_request and
  key_release_token): the signed request that opens a handshake with a destination, and the signed token that
  carries the wrapped keys to it, each with its gate, its JSON fields by key and the shared signing operations.
\<close>

definition schema_gate2 :: "u16 \<Rightarrow> string \<Rightarrow> go_error option" where
  "schema_gate2 v name =
     chk (v < 1 \<or> v > 2) (Structural CodeSchemaVersionUnsupported (name @ '': schema_version out of supported range'') None)"

definition missing :: "string \<Rightarrow> go_error" where
  "missing msg = Structural CodeRequiredFieldMissing msg None"

section \<open>Handshake request\<close>

record CrossCloudHandshakeRequest =
  HR_SchemaVersion :: u16
  HR_RequestID :: string
  HR_DecisionID :: string
  HR_DestinationTEEKind :: Provider
  HR_DestinationEndpoint :: string
  HR_HandshakeNonce :: bytes
  HR_KEMSuites :: "string list"
  HR_SourceEvidence :: bytes
  HR_SourceMeasurement :: bytes
  HR_InitiatedAt :: gotime
  HR_SigningKeyID :: KeyID
  HR_Alg :: SignatureSuite
  HR_Signature :: bytes
  HR_AuditEventID :: string

definition isKnownProvider :: "Provider \<Rightarrow> bool" where
  "isKnownProvider p \<longleftrightarrow> p \<in> set AllProviders"

text \<open>The scan of the suites: none empty, none twice.\<close>

fun scan_suites :: "nat \<Rightarrow> string set \<Rightarrow> string list \<Rightarrow> go_error option" where
  "scan_suites i seen [] = None"
| "scan_suites i seen (s # ss) =
     (if s = [] then Some (Structural CodeFieldValueInvalid (''cross_cloud_handshake_request: kem_suites['' @ fmt_d i @ ''] is empty'') None)
      else if s \<in> seen
      then Some (Structural CodeFieldValueInvalid (''cross_cloud_handshake_request: kem_suites names '' @ fmt_q s @ '' twice'') None)
      else scan_suites (Suc i) (insert s seen) ss)"

definition kem_suites_gate :: "CrossCloudHandshakeRequest \<Rightarrow> go_error option" where
  "kem_suites_gate r =
     (if HR_SchemaVersion r \<ge> 2
      then (if HR_KEMSuites r = [] then Some (missing ''cross_cloud_handshake_request: kem_suites required from schema 2 (ADR 0029)'')
            else scan_suites 0 {} (HR_KEMSuites r))
      else chk (HR_KEMSuites r \<noteq> []) (Structural CodeCrossFieldInconsistent
             ''cross_cloud_handshake_request: kem_suites is a schema-2 field; a schema-1 request names no suite'' None))"

definition source_measurement_gate :: "string \<Rightarrow> bytes \<Rightarrow> go_error option" where
  "source_measurement_gate what m =
     (if m = [] then None
      else (case MeasurementFromBytes m of
              Inr x \<Rightarrow> None
            | Inl err \<Rightarrow> Some (Structural CodeFieldValueInvalid
                (what @ '' must be 32, 48 or 64 bytes when present; got '' @ fmt_d (length m)) (Some err))))"

definition CrossCloudHandshakeRequest_Validate :: "CrossCloudHandshakeRequest \<Rightarrow> go_error option" where
  "CrossCloudHandshakeRequest_Validate r =
     first_err
       [schema_gate2 (HR_SchemaVersion r) ''cross_cloud_handshake_request'',
        chk (HR_RequestID r = []) (missing ''cross_cloud_handshake_request: request_id required''),
        chk (HR_DecisionID r = []) (missing ''cross_cloud_handshake_request: decision_id required''),
        chk (HR_DestinationTEEKind r = []) (missing ''cross_cloud_handshake_request: destination_tee_kind required''),
        chk (\<not> isKnownProvider (HR_DestinationTEEKind r))
          (Structural CodeFieldValueInvalid (''cross_cloud_handshake_request: unknown destination_tee_kind '' @ fmt_q (HR_DestinationTEEKind r)) None),
        chk (HR_DestinationEndpoint r = []) (missing ''cross_cloud_handshake_request: destination_endpoint required''),
        chk (length (HR_HandshakeNonce r) < NonceMinBytes)
          (Structural CodeFieldValueInvalid (''cross_cloud_handshake_request: handshake_nonce must be at least '' @ fmt_d NonceMinBytes @ '' bytes'') None),
        kem_suites_gate r,
        source_measurement_gate ''cross_cloud_handshake_request: source_measurement'' (HR_SourceMeasurement r),
        chk (HR_InitiatedAt r = zero_time) (missing ''cross_cloud_handshake_request: initiated_at required''),
        chk (HR_SigningKeyID r = []) (missing ''cross_cloud_handshake_request: signing_key_id required''),
        chk (HR_Signature r = []) (missing ''cross_cloud_handshake_request: signature required''),
        chk (HR_AuditEventID r = []) (missing ''cross_cloud_handshake_request: audit_event_id required (un-evidenced handshakes are invalid)'')]"

definition suites_json :: "string list \<Rightarrow> jval option" where
  "suites_json ss = (if ss = [] then None else Some (JArr (map JStr ss)))"

lemma suites_json_inj: "suites_json a = suites_json b \<longleftrightarrow> a = b"
  by (auto simp: suites_json_def inj_map_eq_map inj_def)

definition CrossCloudHandshakeRequest_fields :: "CrossCloudHandshakeRequest \<Rightarrow> (string \<times> wire) list" where
  "CrossCloudHandshakeRequest_fields r =
     [(''alg'', WOpt (HR_Alg r)),
      (''audit_event_id'', WStr (HR_AuditEventID r)),
      (''decision_id'', WStr (HR_DecisionID r)),
      (''destination_endpoint'', WStr (HR_DestinationEndpoint r)),
      (''destination_tee_kind'', WStr (HR_DestinationTEEKind r)),
      (''handshake_nonce'', WBytes (HR_HandshakeNonce r)),
      (''initiated_at'', WTime (HR_InitiatedAt r)),
      (''kem_suites'', WTree (Inr (suites_json (HR_KEMSuites r)))),
      (''request_id'', WStr (HR_RequestID r)),
      (''schema_version'', WNum (unat (HR_SchemaVersion r))),
      (''signature'', WBytes (HR_Signature r)),
      (''signing_key_id'', WStr (HR_SigningKeyID r)),
      (''source_evidence'', WTree (Inr (opt_bytes (HR_SourceEvidence r)))),
      (''source_measurement'', WTree (Inr (opt_bytes (HR_SourceMeasurement r))))]"

definition CrossCloudHandshakeRequest_contract :: "CrossCloudHandshakeRequest contract" where
  "CrossCloudHandshakeRequest_contract =
     \<lparr>ct_Name = ''cross_cloud_handshake_request'', ct_Purpose = PurposeSigningAuthority,
      ct_Validate = CrossCloudHandshakeRequest_Validate, ct_Wire = CrossCloudHandshakeRequest_fields,
      ct_KeyID = HR_SigningKeyID, ct_Alg = HR_Alg, ct_Sig = HR_Signature,
      ct_SetAlg = (\<lambda>a r. r\<lparr>HR_Alg := a\<rparr>), ct_SetSig = (\<lambda>s r. r\<lparr>HR_Signature := s\<rparr>)\<rparr>"

definition CrossCloudHandshakeRequest_CanonicalBytes :: "floats \<Rightarrow> CrossCloudHandshakeRequest \<Rightarrow> go_error + bytes" where
  "CrossCloudHandshakeRequest_CanonicalBytes = contract_CanonicalBytes CrossCloudHandshakeRequest_contract"

definition CrossCloudHandshakeRequest_SignWith :: "floats \<Rightarrow> CrossCloudHandshakeRequest \<Rightarrow> Signer \<Rightarrow> go_error option \<times> CrossCloudHandshakeRequest" where
  "CrossCloudHandshakeRequest_SignWith = contract_SignWith CrossCloudHandshakeRequest_contract"

definition CrossCloudHandshakeRequest_VerifySignature ::
    "floats \<Rightarrow> prims \<Rightarrow> CrossCloudHandshakeRequest \<Rightarrow> Resolver option \<Rightarrow> go_error option" where
  "CrossCloudHandshakeRequest_VerifySignature = contract_VerifySignature CrossCloudHandshakeRequest_contract"

interpretation handshake_contract: contract_ring ring_ok fst ring_signer ring_resolver CrossCloudHandshakeRequest_contract
  by unfold_locales
    (auto simp: CrossCloudHandshakeRequest_contract_def CrossCloudHandshakeRequest_fields_def shape_def contract_clean_def fields_ok_def word_unat_eq_iff [where 'a = 16] opt_bytes_inj suites_json_inj
      intro: CrossCloudHandshakeRequest.equality)

section \<open>Key release token\<close>

definition token_PurposeSealing :: byte where
  "token_PurposeSealing = 3"

record WrappedKey =
  WK_KeyID :: KeyID
  WK_Purpose :: byte
  WK_Suite :: string
  WK_Ciphertext :: bytes
  WK_AAD :: bytes

record KeyReleaseToken =
  KT_SchemaVersion :: u16
  KT_TokenID :: string
  KT_DecisionID :: string
  KT_RequestID :: string
  KT_DestinationMeasurement :: bytes
  KT_Wrapped :: "WrappedKey list"
  KT_PolicyVersion :: string
  KT_AuthorizedAt :: gotime
  KT_SigningKeyID :: KeyID
  KT_Alg :: SignatureSuite
  KT_Signature :: bytes
  KT_AuditEventID :: string

definition ValidMeasurementLen :: "nat \<Rightarrow> bool" where
  "ValidMeasurementLen n \<longleftrightarrow> n = 32 \<or> n = 48 \<or> n = 64"

definition wrapped_gate :: "u16 \<Rightarrow> nat \<Rightarrow> WrappedKey \<Rightarrow> go_error option" where
  "wrapped_gate v i w =
     (let at = ''key_release_token: wrapped['' @ fmt_d i @ '']'' in
      first_err
        [chk (WK_KeyID w = []) (missing (at @ ''.key_id required'')),
         chk (WK_Purpose w \<noteq> token_PurposeSealing)
           (Structural CodeFieldValueInvalid (at @ ''.purpose must be 3 (sealing); got '' @ fmt_d (unat (WK_Purpose w))) None),
         chk (v \<ge> 2 \<and> WK_Suite w = []) (missing (at @ ''.suite required from schema 2 (ADR 0029)'')),
         chk (v < 2 \<and> WK_Suite w \<noteq> [])
           (Structural CodeCrossFieldInconsistent (at @ ''.suite is a schema-2 field; a schema-1 token names no suite'') None),
         chk (WK_Ciphertext w = []) (missing (at @ ''.ciphertext required'')),
         chk (WK_AAD w = []) (missing (at @ ''.aad required''))])"

fun wrapped_gates :: "u16 \<Rightarrow> nat \<Rightarrow> WrappedKey list \<Rightarrow> go_error option" where
  "wrapped_gates v i [] = None"
| "wrapped_gates v i (w # ws) = (case wrapped_gate v i w of Some err \<Rightarrow> Some err | None \<Rightarrow> wrapped_gates v (Suc i) ws)"

definition KeyReleaseToken_Validate :: "KeyReleaseToken \<Rightarrow> go_error option" where
  "KeyReleaseToken_Validate t =
     first_err
       [schema_gate2 (KT_SchemaVersion t) ''key_release_token'',
        chk (KT_TokenID t = []) (missing ''key_release_token: token_id required''),
        chk (KT_DecisionID t = []) (missing ''key_release_token: decision_id required''),
        chk (KT_RequestID t = []) (missing ''key_release_token: request_id required''),
        chk (\<not> ValidMeasurementLen (length (KT_DestinationMeasurement t)))
          (Structural CodeFieldValueInvalid (''key_release_token: destination_measurement must be 32, 48 or 64 bytes; got '' @
             fmt_d (length (KT_DestinationMeasurement t))) None),
        chk (KT_Wrapped t = []) (missing ''key_release_token: wrapped must contain at least one key''),
        wrapped_gates (KT_SchemaVersion t) 0 (KT_Wrapped t),
        chk (KT_PolicyVersion t = []) (missing ''key_release_token: policy_version required''),
        chk (KT_AuthorizedAt t = zero_time) (missing ''key_release_token: authorized_at required''),
        chk (KT_SigningKeyID t = []) (missing ''key_release_token: signing_key_id required''),
        chk (KT_Signature t = []) (missing ''key_release_token: signature required''),
        chk (KT_AuditEventID t = []) (missing ''key_release_token: audit_event_id required (un-evidenced releases are invalid)'')]"

definition wrapped_key_json :: "WrappedKey \<Rightarrow> jval" where
  "wrapped_key_json w =
     JObj ([(''aad'', json_bytes (WK_AAD w)), (''ciphertext'', json_bytes (WK_Ciphertext w)), (''key_id'', JStr (WK_KeyID w)),
            (''purpose'', JNum (fmt_d (unat (WK_Purpose w))))] @ opt_member ''suite'' (WK_Suite w))"

definition wrapped_json :: "WrappedKey list \<Rightarrow> jval" where
  "wrapped_json ws = (if ws = [] then JNull else JArr (map wrapped_key_json ws))"

lemma wrapped_json_inj: "wrapped_json s = wrapped_json t \<longleftrightarrow> s = t"
proof -
  have "x = y" if "wrapped_key_json x = wrapped_key_json y" for x y
    using that by (auto simp: wrapped_key_json_def opt_member_def json_bytes_inj word_unat_eq_iff dest: fmt_d_inj
        split: if_splits intro!: WrappedKey.equality)
  then have "inj wrapped_key_json" by (auto simp: inj_def)
  then show ?thesis by (auto simp: wrapped_json_def)
qed

definition KeyReleaseToken_fields :: "KeyReleaseToken \<Rightarrow> (string \<times> wire) list" where
  "KeyReleaseToken_fields r =
     [(''alg'', WOpt (KT_Alg r)),
      (''audit_event_id'', WStr (KT_AuditEventID r)),
      (''authorized_at'', WTime (KT_AuthorizedAt r)),
      (''decision_id'', WStr (KT_DecisionID r)),
      (''destination_measurement'', WBytes (KT_DestinationMeasurement r)),
      (''policy_version'', WStr (KT_PolicyVersion r)),
      (''request_id'', WStr (KT_RequestID r)),
      (''schema_version'', WNum (unat (KT_SchemaVersion r))),
      (''signature'', WBytes (KT_Signature r)),
      (''signing_key_id'', WStr (KT_SigningKeyID r)),
      (''token_id'', WStr (KT_TokenID r)),
      (''wrapped'', WTree (Inr (Some (wrapped_json (KT_Wrapped r)))))]"

definition KeyReleaseToken_contract :: "KeyReleaseToken contract" where
  "KeyReleaseToken_contract =
     \<lparr>ct_Name = ''key_release_token'', ct_Purpose = PurposeSigningAuthority,
      ct_Validate = KeyReleaseToken_Validate, ct_Wire = KeyReleaseToken_fields,
      ct_KeyID = KT_SigningKeyID, ct_Alg = KT_Alg, ct_Sig = KT_Signature,
      ct_SetAlg = (\<lambda>a r. r\<lparr>KT_Alg := a\<rparr>), ct_SetSig = (\<lambda>s r. r\<lparr>KT_Signature := s\<rparr>)\<rparr>"

definition KeyReleaseToken_CanonicalBytes :: "floats \<Rightarrow> KeyReleaseToken \<Rightarrow> go_error + bytes" where
  "KeyReleaseToken_CanonicalBytes = contract_CanonicalBytes KeyReleaseToken_contract"

definition KeyReleaseToken_SignWith :: "floats \<Rightarrow> KeyReleaseToken \<Rightarrow> Signer \<Rightarrow> go_error option \<times> KeyReleaseToken" where
  "KeyReleaseToken_SignWith = contract_SignWith KeyReleaseToken_contract"

definition KeyReleaseToken_VerifySignature ::
    "floats \<Rightarrow> prims \<Rightarrow> KeyReleaseToken \<Rightarrow> Resolver option \<Rightarrow> go_error option" where
  "KeyReleaseToken_VerifySignature = contract_VerifySignature KeyReleaseToken_contract"

interpretation token_contract: contract_ring ring_ok fst ring_signer ring_resolver KeyReleaseToken_contract
  by unfold_locales
    (auto simp: KeyReleaseToken_contract_def KeyReleaseToken_fields_def shape_def contract_clean_def fields_ok_def word_unat_eq_iff [where 'a = 16] wrapped_json_inj
      intro: KeyReleaseToken.equality)

end
