(* ===== verification/KemSuites.thy ===== *)
theory KemSuites
  imports Signatures GoText
begin

text \<open>
  The KEM suites a data key is encapsulated under (src/internal/vault/kms/suite.go), the cryptographic
  profiles that choose among them (profile.go), and the X25519 wrapper of earlier releases (kem.go).

  \<open>crypto/hpke\<close>, \<open>crypto/ecdh\<close> and HKDF of the standard library are the fields of a record
  \<open>hpke\<close>. A sender's fields give the encapsulation its randomness leads to. An HPKE context that exports
  keys is its \<open>Export\<close> function. SHA-512 is an argument. \<open>hk_FIPSOnly\<close> says whether the process runs under \<open>fips140=only\<close>.
\<close>

type_synonym exporter = "string \<Rightarrow> nat \<Rightarrow> go_error + bytes"

record hpke =
  hk_FIPSOnly :: bool
  hk_NewPublicKey :: "u16 \<Rightarrow> bytes \<Rightarrow> go_error option"
  hk_NewPrivateKey :: "u16 \<Rightarrow> bytes \<Rightarrow> go_error option"
  hk_GenerateKey :: "u16 \<Rightarrow> go_error + bytes"
  hk_KeyBytes :: "u16 \<Rightarrow> bytes \<Rightarrow> go_error + bytes"
  hk_PublicKey :: "u16 \<Rightarrow> bytes \<Rightarrow> bytes"
  hk_NewSender :: "u16 \<Rightarrow> u16 \<Rightarrow> bytes \<Rightarrow> bytes \<Rightarrow> go_error + bytes \<times> exporter"
  hk_NewRecipient :: "u16 \<Rightarrow> u16 \<Rightarrow> bytes \<Rightarrow> bytes \<Rightarrow> bytes \<Rightarrow> go_error + exporter"
  hk_NewRecipientAEAD :: "u16 \<Rightarrow> u16 \<Rightarrow> u16 \<Rightarrow> bytes \<Rightarrow> bytes \<Rightarrow> bytes \<Rightarrow> go_error + (bytes \<Rightarrow> bytes \<Rightarrow> go_error + bytes)"
  hk_x_Generate :: "go_error + bytes"
  hk_x_NewPublicKey :: "bytes \<Rightarrow> go_error option"
  hk_x_NewPrivateKey :: "bytes \<Rightarrow> go_error option"
  hk_x_PublicKey :: "bytes \<Rightarrow> bytes"
  hk_x_ECDH :: "bytes \<Rightarrow> bytes \<Rightarrow> go_error + bytes"
  hk_HKDF :: "bytes \<Rightarrow> bytes \<Rightarrow> bytes \<Rightarrow> nat \<Rightarrow> go_error + bytes"

section \<open>The table\<close>

type_synonym Suite = string

definition SuiteHPKEX25519 :: Suite where "SuiteHPKEX25519 = ''hpke-x25519-v2''"
definition SuiteHPKEP384 :: Suite where "SuiteHPKEP384 = ''hpke-p384-v2''"
definition SuiteHPKEMLKEM768 :: Suite where "SuiteHPKEMLKEM768 = ''hpke-mlkem768-v2''"
definition SuiteHPKEMLKEM1024P384 :: Suite where "SuiteHPKEMLKEM1024P384 = ''hpke-mlkem1024-p384-v2''"
definition SuiteHPKEXWing :: Suite where "SuiteHPKEXWing = ''hpke-xwing-v2''"
definition SuiteHPKEX25519V1 :: Suite where "SuiteHPKEX25519V1 = ''hpke-x25519-v1''"
definition SuiteHPKEP384V1 :: Suite where "SuiteHPKEP384V1 = ''hpke-p384-v1''"
definition SuiteHPKEMLKEM768V1 :: Suite where "SuiteHPKEMLKEM768V1 = ''hpke-mlkem768-v1''"
definition SuiteHPKEMLKEM1024P384V1 :: Suite where "SuiteHPKEMLKEM1024P384V1 = ''hpke-mlkem1024-p384-v1''"
definition SuiteHPKEXWingV1 :: Suite where "SuiteHPKEXWingV1 = ''hpke-xwing-v1''"
definition SuiteLegacyX25519 :: Suite where "SuiteLegacyX25519 = ''x25519-kem-v1''"

lemmas suite_names = SuiteHPKEX25519_def SuiteHPKEP384_def SuiteHPKEMLKEM768_def SuiteHPKEMLKEM1024P384_def SuiteHPKEXWing_def
  SuiteHPKEX25519V1_def SuiteHPKEP384V1_def SuiteHPKEMLKEM768V1_def SuiteHPKEMLKEM1024P384V1_def SuiteHPKEXWingV1_def

definition PurposeCrossCloudDEK :: string where "PurposeCrossCloudDEK = ''xcc-dek''"
definition PurposeEscrowDEK :: string where "PurposeEscrowDEK = ''escrow-dek''"
definition PurposeEscrowRecovery :: string where "PurposeEscrowRecovery = ''escrow-recovery''"
definition hpkeInfoLabel :: string where "hpkeInfoLabel = ''vault-genome hpke v1''"
definition hpkeExportContext :: string where "hpkeExportContext = ''vault-genome hpke v2 wrap key''"
definition kemBindLabelV2 :: string where "kemBindLabelV2 = ''vault-genome xcc-kem-bind v2''"
definition kemBindLabel :: string where "kemBindLabel = ''vault-genome xcc-kem-bind v1''"
definition kemInfoLabel :: string where "kemInfoLabel = ''vault-genome-xcc-kem-v1''"
definition aeadTagSize :: nat where "aeadTagSize = 16"

record suiteSpec =
  ss_kemID :: u16
  ss_kdfID :: u16
  ss_aeadID :: u16
  ss_pkLen :: nat
  ss_encLen :: nat
  ss_x25519 :: bool
  ss_export :: bool
  ss_family :: string
  ss_readOnly :: bool

definition v2_spec :: "u16 \<Rightarrow> u16 \<Rightarrow> nat \<Rightarrow> nat \<Rightarrow> bool \<Rightarrow> string \<Rightarrow> suiteSpec" where
  "v2_spec kem kdf pk el x family =
     \<lparr>ss_kemID = kem, ss_kdfID = kdf, ss_aeadID = 0xFFFF, ss_pkLen = pk, ss_encLen = el, ss_x25519 = x, ss_export = True,
      ss_family = family, ss_readOnly = False\<rparr>"

definition v1_spec :: "u16 \<Rightarrow> u16 \<Rightarrow> nat \<Rightarrow> nat \<Rightarrow> bool \<Rightarrow> string \<Rightarrow> suiteSpec" where
  "v1_spec kem kdf pk el x family =
     \<lparr>ss_kemID = kem, ss_kdfID = kdf, ss_aeadID = 0x0002, ss_pkLen = pk, ss_encLen = el, ss_x25519 = x, ss_export = False,
      ss_family = family, ss_readOnly = True\<rparr>"

definition suiteSpecs :: "(Suite \<times> suiteSpec) list" where
  "suiteSpecs =
     [(SuiteHPKEX25519, v2_spec 0x0020 0x0001 32 32 True ''hpke-x25519''),
      (SuiteHPKEP384, v2_spec 0x0011 0x0002 97 97 False ''hpke-p384''),
      (SuiteHPKEMLKEM768, v2_spec 0x0041 0x0001 1184 1088 False ''hpke-mlkem768''),
      (SuiteHPKEMLKEM1024P384, v2_spec 0x0051 0x0002 1665 1665 False ''hpke-mlkem1024-p384''),
      (SuiteHPKEXWing, v2_spec 0x647a 0x0001 1216 1120 False ''hpke-xwing''),
      (SuiteHPKEX25519V1, v1_spec 0x0020 0x0001 32 32 True ''hpke-x25519''),
      (SuiteHPKEP384V1, v1_spec 0x0011 0x0002 97 97 False ''hpke-p384''),
      (SuiteHPKEMLKEM768V1, v1_spec 0x0041 0x0001 1184 1088 False ''hpke-mlkem768''),
      (SuiteHPKEMLKEM1024P384V1, v1_spec 0x0051 0x0002 1665 1665 False ''hpke-mlkem1024-p384''),
      (SuiteHPKEXWingV1, v1_spec 0x647a 0x0001 1216 1120 False ''hpke-xwing'')]"

definition allSuites :: "Suite list" where
  "allSuites =
     [SuiteHPKEX25519, SuiteHPKEP384, SuiteHPKEMLKEM768, SuiteHPKEMLKEM1024P384, SuiteHPKEXWing,
      SuiteHPKEX25519V1, SuiteHPKEP384V1, SuiteHPKEMLKEM768V1, SuiteHPKEMLKEM1024P384V1, SuiteHPKEXWingV1]"

definition currentSuites :: "Suite list" where
  "currentSuites = [SuiteHPKEX25519, SuiteHPKEP384, SuiteHPKEMLKEM768, SuiteHPKEMLKEM1024P384, SuiteHPKEXWing]"

definition Suite_Known :: "Suite \<Rightarrow> bool" where
  "Suite_Known s \<longleftrightarrow> map_of suiteSpecs s \<noteq> None"

definition Suite_Family :: "Suite \<Rightarrow> string" where
  "Suite_Family s = (case map_of suiteSpecs s of None \<Rightarrow> [] | Some sp \<Rightarrow> ss_family sp)"

definition Suite_ReadOnly :: "Suite \<Rightarrow> bool" where
  "Suite_ReadOnly s \<longleftrightarrow> (case map_of suiteSpecs s of None \<Rightarrow> False | Some sp \<Rightarrow> ss_readOnly sp)"

definition Kem_Available :: "hpke \<Rightarrow> Suite \<Rightarrow> bool" where
  "Kem_Available H s \<longleftrightarrow>
     (case map_of suiteSpecs s of
        None \<Rightarrow> False
      | Some sp \<Rightarrow> \<not> ss_readOnly sp \<and> (if ss_x25519 sp \<or> s = SuiteHPKEXWing then \<not> hk_FIPSOnly H else True))"

definition Suite_Latest :: "Suite \<Rightarrow> Suite" where
  "Suite_Latest s =
     (if \<not> Suite_Known s \<or> \<not> Suite_ReadOnly s then s
      else (case List.find (\<lambda>c. Suite_Family c = Suite_Family s) currentSuites of Some c \<Rightarrow> c | None \<Rightarrow> s))"

definition SameFamily :: "Suite \<Rightarrow> Suite \<Rightarrow> bool" where
  "SameFamily s t \<longleftrightarrow> Suite_Known s \<and> Suite_Known t \<and> Suite_Family s = Suite_Family t"

definition kms_invalid :: "string \<Rightarrow> go_error option \<Rightarrow> go_error" where
  "kms_invalid msg err = Structural CodeFieldValueInvalid msg err"

definition ParseSuite :: "string \<Rightarrow> go_error + Suite" where
  "ParseSuite s =
     (if Suite_Known s then Inr s
      else Inl (kms_invalid (''kms: unknown KEM suite '' @ fmt_q s @ '' (this build knows '' @ fmt_list allSuites @ '')'') None))"

definition spec_of :: "Suite \<Rightarrow> go_error + suiteSpec" where
  "spec_of s =
     (case map_of suiteSpecs s of
        None \<Rightarrow> Inl (kms_invalid (''kms: unknown KEM suite '' @ fmt_q s) None)
      | Some sp \<Rightarrow> Inr sp)"

definition Suite_PublicKeySize :: "Suite \<Rightarrow> nat" where
  "Suite_PublicKeySize s = (case map_of suiteSpecs s of None \<Rightarrow> 0 | Some sp \<Rightarrow> ss_pkLen sp)"

definition EncapsulationSize :: "Suite \<Rightarrow> nat" where
  "EncapsulationSize s = (case map_of suiteSpecs s of None \<Rightarrow> 0 | Some sp \<Rightarrow> ss_encLen sp)"

definition Suite_IDs :: "Suite \<Rightarrow> u16 \<times> u16 \<times> u16" where
  "Suite_IDs s = (case map_of suiteSpecs s of None \<Rightarrow> (0, 0, 0) | Some sp \<Rightarrow> (ss_kemID sp, ss_kdfID sp, ss_aeadID sp))"

section \<open>X25519 keys\<close>

definition legacyX25519Refusal :: "string \<Rightarrow> go_error" where
  "legacyX25519Refusal op =
     kms_invalid (''kms: '' @ op @ '': x25519-kem-v1 is unavailable under fips140=only (the module refuses X25519); re-encapsulate under a suite of the fips or cnsa profile on a build without enforcement'') None"

definition ValidateRecipientPublicKey :: "hpke \<Rightarrow> bytes \<Rightarrow> go_error option" where
  "ValidateRecipientPublicKey H pub =
     (if hk_FIPSOnly H then Some (legacyX25519Refusal ''ValidateRecipientPublicKey'')
      else if length pub \<noteq> 32 then Some (kms_invalid ''kms: recipient public key must be a 32-byte X25519 key'' None)
      else (case hk_x_NewPublicKey H pub of
              Some err \<Rightarrow> Some (kms_invalid ''kms: invalid X25519 recipient public key'' (Some err))
            | None \<Rightarrow>
                (case hk_x_Generate H of
                   Inl err \<Rightarrow> Some (Operational CodeResourceExhausted ''kms: probe key generation failed'' (Some err))
                 | Inr probe \<Rightarrow>
                     (case hk_x_ECDH H probe pub of
                        Inl err \<Rightarrow> Some (Integrity CodeFieldValueInvalid ''kms: recipient public key is a low-order point'' (Some err))
                      | Inr shared \<Rightarrow> None))))"

definition Suite_ValidateRecipientPublicKey :: "hpke \<Rightarrow> Suite \<Rightarrow> bytes \<Rightarrow> go_error option" where
  "Suite_ValidateRecipientPublicKey H s pub =
     (case spec_of s of
        Inl err \<Rightarrow> Some err
      | Inr sp \<Rightarrow>
          if length pub \<noteq> ss_pkLen sp
          then Some (kms_invalid (''kms: a '' @ s @ '' recipient public key is '' @ fmt_d (ss_pkLen sp) @ '' bytes; got '' @ fmt_d (length pub)) None)
          else (case hk_NewPublicKey H (ss_kemID sp) pub of
                  Some err \<Rightarrow> Some (kms_invalid (''kms: invalid '' @ s @ '' recipient public key'') (Some err))
                | None \<Rightarrow> if ss_x25519 sp then ValidateRecipientPublicKey H pub else None))"

definition GenerateRecipientKey :: "hpke \<Rightarrow> Suite \<Rightarrow> go_error + bytes \<times> bytes" where
  "GenerateRecipientKey H s =
     bindR (spec_of s) (\<lambda>sp.
       case hk_GenerateKey H (ss_kemID sp) of
         Inl err \<Rightarrow> Inl (Operational CodeResourceExhausted (''kms: '' @ s @ '' recipient key generation failed'') (Some err))
       | Inr k \<Rightarrow>
           (case hk_KeyBytes H (ss_kemID sp) k of
              Inl err \<Rightarrow> Inl (kms_invalid (''kms: '' @ s @ '' recipient private key serialization failed'') (Some err))
            | Inr priv \<Rightarrow> Inr (priv, hk_PublicKey H (ss_kemID sp) k)))"

definition PublicKeyOf :: "hpke \<Rightarrow> Suite \<Rightarrow> bytes \<Rightarrow> go_error + bytes" where
  "PublicKeyOf H s priv =
     bindR (spec_of s) (\<lambda>sp.
       case hk_NewPrivateKey H (ss_kemID sp) priv of
         Some err \<Rightarrow> Inl (kms_invalid (''kms: invalid '' @ s @ '' private key'') (Some err))
       | None \<Rightarrow> Inr (hk_PublicKey H (ss_kemID sp) priv))"

section \<open>Wrapping\<close>

definition suiteInfo :: "Suite \<Rightarrow> string \<Rightarrow> bytes" where
  "suiteInfo s purpose =
     len_prefixed (string_bytes hpkeInfoLabel) @ len_prefixed (string_bytes s) @ len_prefixed (string_bytes purpose)"

definition challenge_input :: "Suite \<Rightarrow> bytes \<Rightarrow> bytes \<Rightarrow> bytes" where
  "challenge_input s recipientPub nonce =
     string_bytes kemBindLabelV2 @ len_prefixed (string_bytes s) @ len_prefixed recipientPub @ len_prefixed nonce"

definition RecipientChallengeV2 :: "(bytes \<Rightarrow> bytes) \<Rightarrow> Suite \<Rightarrow> bytes \<Rightarrow> bytes \<Rightarrow> bytes" where
  "RecipientChallengeV2 sha512 s recipientPub nonce =
     sha512 (challenge_input s recipientPub nonce)"

definition RecipientChallenge :: "(bytes \<Rightarrow> bytes) \<Rightarrow> bytes \<Rightarrow> bytes \<Rightarrow> bytes" where
  "RecipientChallenge sha512 recipientPub nonce =
     sha512 (string_bytes kemBindLabel @ len_prefixed recipientPub @ len_prefixed nonce)"

definition Suite_Wrap :: "prims \<Rightarrow> hpke \<Rightarrow> Suite \<Rightarrow> string \<Rightarrow> bytes \<Rightarrow> bytes \<Rightarrow> bytes \<Rightarrow> go_error + bytes" where
  "Suite_Wrap P H s purpose plaintext recipientPub aad =
     (if plaintext = [] then Inl (Structural CodeRequiredFieldMissing ''kms.Wrap: plaintext required'' None)
      else if purpose = [] then Inl (Structural CodeRequiredFieldMissing ''kms.Wrap: purpose required'' None)
      else bindR (spec_of s) (\<lambda>sp.
        guardR (Suite_ValidateRecipientPublicKey H s recipientPub)
          (case hk_NewPublicKey H (ss_kemID sp) recipientPub of
             Some err \<Rightarrow> Inl (kms_invalid (''kms.Wrap: invalid '' @ s @ '' recipient public key'') (Some err))
           | None \<Rightarrow>
               if ss_readOnly sp
               then Inl (kms_invalid (''kms.Wrap: '' @ s @ '' is read-only since 0.8 (ADR 0030): its AEAD takes a nonce from outside the cryptographic module; write '' @
                      Suite_Latest s) None)
               else (case hk_NewSender H (ss_kemID sp) (ss_kdfID sp) recipientPub (suiteInfo s purpose) of
                       Inl err \<Rightarrow> Inl (Integrity CodeFieldValueInvalid (''kms.Wrap: '' @ s @ '' encapsulation failed'') (Some err))
                     | Inr (encapsulated, sender) \<Rightarrow>
                         if length encapsulated \<noteq> ss_encLen sp
                         then Inl (kms_invalid (''kms.Wrap: '' @ s @ '' encapsulated '' @ fmt_d (length encapsulated) @ '' bytes, not the '' @
                                fmt_d (ss_encLen sp) @ '' the suite table says'') None)
                         else (case sender (hpkeExportContext @ '':'' @ purpose) 32 of
                                 Inl err \<Rightarrow> Inl (kms_invalid (''kms.Wrap: '' @ s @ '' key export failed'') (Some err))
                               | Inr key \<Rightarrow>
                                   (case GCM_Seal P key plaintext aad of
                                      Inl err \<Rightarrow> Inl (kms_invalid (''kms.Wrap: '' @ s @ '' seal failed'') (Some err))
                                    | Inr (nonce, ct) \<Rightarrow> Inr (encapsulated @ nonce @ ct)))))))"

definition unwrap_refused :: "go_error \<Rightarrow> go_error" where
  "unwrap_refused err =
     Integrity CodeSignatureInvalid ''kms.Unwrap: tag verification failed (wrong key, suite, purpose or AAD, or tampering)'' (Some err)"

definition Suite_Unwrap :: "prims \<Rightarrow> hpke \<Rightarrow> Suite \<Rightarrow> string \<Rightarrow> bytes \<Rightarrow> bytes \<Rightarrow> bytes \<Rightarrow> go_error + bytes" where
  "Suite_Unwrap P H s purpose wrapped recipientPriv aad =
     (if purpose = [] then Inl (Structural CodeRequiredFieldMissing ''kms.Unwrap: purpose required'' None)
      else bindR (spec_of s) (\<lambda>sp.
        let minLen = ss_encLen sp + aeadTagSize + (if ss_export sp then 12 else 0);
            encapsulated = take (ss_encLen sp) wrapped; body = drop (ss_encLen sp) wrapped;
            no_decap = (\<lambda>err. Integrity CodeSignatureInvalid (''kms.Unwrap: '' @ s @ '' decapsulation failed'') (Some err))
        in if length wrapped < minLen
           then Inl (Integrity CodeSignatureInvalid (''kms.Unwrap: wrapped material too short for '' @ s @ '' ('' @ fmt_d (length wrapped) @
                  '' bytes; the encapsulation alone is '' @ fmt_d (ss_encLen sp) @ '')'') None)
           else if ss_readOnly sp \<and> hk_FIPSOnly H
           then Inl (kms_invalid (''kms.Unwrap: '' @ s @ '' cannot open under fips140=only (its AEAD takes a nonce from outside the cryptographic module); open it on a build without enforcement and re-wrap under '' @
                  Suite_Latest s) None)
           else (case hk_NewPrivateKey H (ss_kemID sp) recipientPriv of
                   Some err \<Rightarrow> Inl (kms_invalid (''kms.Unwrap: invalid '' @ s @ '' recipient private key'') (Some err))
                 | None \<Rightarrow>
                     if \<not> ss_export sp
                     then (case hk_NewRecipientAEAD H (ss_kemID sp) (ss_kdfID sp) (ss_aeadID sp) encapsulated recipientPriv (suiteInfo s purpose) of
                             Inl err \<Rightarrow> Inl (no_decap err)
                           | Inr rcpt \<Rightarrow> (case rcpt aad body of Inl err \<Rightarrow> Inl (unwrap_refused err) | Inr plain \<Rightarrow> Inr plain))
                     else (case hk_NewRecipient H (ss_kemID sp) (ss_kdfID sp) encapsulated recipientPriv (suiteInfo s purpose) of
                             Inl err \<Rightarrow> Inl (no_decap err)
                           | Inr rcpt \<Rightarrow>
                               (case rcpt (hpkeExportContext @ '':'' @ purpose) 32 of
                                  Inl err \<Rightarrow> Inl (kms_invalid (''kms.Unwrap: '' @ s @ '' key export failed'') (Some err))
                                | Inr key \<Rightarrow>
                                    (case GCM_Open P key (take 12 body) (drop 12 body) aad of
                                       Inl err \<Rightarrow> Inl (unwrap_refused err)
                                     | Inr plain \<Rightarrow> Inr plain))))))"

section \<open>The wrapper of earlier releases\<close>

definition deriveKEMKey :: "hpke \<Rightarrow> bytes \<Rightarrow> bytes \<Rightarrow> bytes \<Rightarrow> go_error + bytes" where
  "deriveKEMKey H shared ephPub recipientPub =
     (case hk_HKDF H [] shared (string_bytes kemInfoLabel @ ephPub @ recipientPub) 32 of
        Inl err \<Rightarrow> Inl (kms_invalid ''kms: HKDF derivation failed'' (Some err))
      | Inr k \<Rightarrow> Inr k)"

definition NewCipher :: "bytes \<Rightarrow> go_error option" where
  "NewCipher key = chk (length key \<notin> {16, 24, 32}) (errorsNew (''crypto/aes: invalid key size '' @ fmt_d (length key)))"

definition aeadSeal :: "prims \<Rightarrow> bytes \<Rightarrow> bytes \<Rightarrow> bytes \<Rightarrow> go_error + bytes" where
  "aeadSeal P key plaintext aad =
     (case NewCipher key of
        Some err \<Rightarrow> Inl (kms_invalid ''kms: aes init failed'' (Some err))
      | None \<Rightarrow> Inr (pr_gcm_seal P key plaintext aad))"

definition aeadOpen :: "prims \<Rightarrow> bytes \<Rightarrow> bytes \<Rightarrow> bytes \<Rightarrow> go_error + bytes" where
  "aeadOpen P key blob aad =
     (case NewCipher key of
        Some err \<Rightarrow> Inl (kms_invalid ''kms: aes init failed'' (Some err))
      | None \<Rightarrow>
          if length blob < 28 then Inl (Integrity CodeSignatureInvalid ''kms: ciphertext too short'' None)
          else (case pr_gcm_open P key blob aad of
                  Inl err \<Rightarrow> Inl (Integrity CodeSignatureInvalid ''kms: tag verification failed (wrong key, AAD, or tampering)'' (Some err))
                | Inr plain \<Rightarrow> Inr plain))"

definition X25519_Wrap :: "prims \<Rightarrow> hpke \<Rightarrow> bytes \<Rightarrow> bytes \<Rightarrow> bytes \<Rightarrow> go_error + bytes" where
  "X25519_Wrap P H plaintext recipientPub aad =
     (if hk_FIPSOnly H then Inl (legacyX25519Refusal ''Wrap'')
      else if plaintext = [] then Inl (Structural CodeRequiredFieldMissing ''kms.Wrap: plaintext required'' None)
      else (case hk_x_NewPublicKey H recipientPub of
              Some err \<Rightarrow> Inl (kms_invalid ''kms.Wrap: invalid recipient X25519 public key'' (Some err))
            | None \<Rightarrow>
                (case hk_x_Generate H of
                   Inl err \<Rightarrow> Inl (Operational CodeResourceExhausted ''kms.Wrap: ephemeral key generation failed'' (Some err))
                 | Inr eph \<Rightarrow>
                     (case hk_x_ECDH H eph recipientPub of
                        Inl err \<Rightarrow> Inl (Integrity CodeFieldValueInvalid ''kms.Wrap: ECDH failed'' (Some err))
                      | Inr shared \<Rightarrow>
                          bindR (deriveKEMKey H shared (hk_x_PublicKey H eph) recipientPub) (\<lambda>key.
                            bindR (aeadSeal P key plaintext aad) (\<lambda>ct. Inr (hk_x_PublicKey H eph @ ct)))))))"

definition X25519_Unwrap :: "prims \<Rightarrow> hpke \<Rightarrow> bytes \<Rightarrow> bytes \<Rightarrow> bytes \<Rightarrow> go_error + bytes" where
  "X25519_Unwrap P H wrapped recipientPriv aad =
     (if hk_FIPSOnly H then Inl (legacyX25519Refusal ''Unwrap'')
      else if length wrapped < 32 then Inl (Integrity CodeSignatureInvalid ''kms.Unwrap: wrapped material too short'' None)
      else (case hk_x_NewPrivateKey H recipientPriv of
              Some err \<Rightarrow> Inl (kms_invalid ''kms.Unwrap: invalid recipient X25519 private key'' (Some err))
            | None \<Rightarrow>
                (case hk_x_NewPublicKey H (take 32 wrapped) of
                   Some err \<Rightarrow> Inl (Integrity CodeSignatureInvalid ''kms.Unwrap: invalid ephemeral public key'' (Some err))
                 | None \<Rightarrow>
                     (case hk_x_ECDH H recipientPriv (take 32 wrapped) of
                        Inl err \<Rightarrow> Inl (Integrity CodeSignatureInvalid ''kms.Unwrap: ECDH failed'' (Some err))
                      | Inr shared \<Rightarrow>
                          bindR (deriveKEMKey H shared (take 32 wrapped) (hk_x_PublicKey H recipientPriv)) (\<lambda>key.
                            aeadOpen P key (drop 32 wrapped) aad)))))"

section \<open>Profiles\<close>

type_synonym Profile = string

definition ProfileGeneral :: Profile where "ProfileGeneral = ''general''"
definition ProfileFIPS :: Profile where "ProfileFIPS = ''fips''"
definition ProfileCNSA :: Profile where "ProfileCNSA = ''cnsa''"

lemmas profile_names = ProfileGeneral_def ProfileFIPS_def ProfileCNSA_def

definition profileSuites :: "(Profile \<times> Suite list) list" where
  "profileSuites =
     [(ProfileGeneral, [SuiteHPKEX25519, SuiteHPKEP384, SuiteHPKEMLKEM768, SuiteHPKEMLKEM1024P384, SuiteHPKEXWing]),
      (ProfileFIPS, [SuiteHPKEP384, SuiteHPKEMLKEM768, SuiteHPKEMLKEM1024P384]),
      (ProfileCNSA, [SuiteHPKEMLKEM1024P384])]"

definition AllProfiles :: "Profile list" where
  "AllProfiles = [ProfileGeneral, ProfileFIPS, ProfileCNSA]"

definition ParseProfile :: "hpke \<Rightarrow> string \<Rightarrow> go_error + Profile" where
  "ParseProfile H name =
     (if name = [] then Inr (if hk_FIPSOnly H then ProfileFIPS else ProfileGeneral)
      else if map_of profileSuites name = None
      then Inl (kms_invalid (''kms: unknown crypto profile '' @ fmt_q name @ '' (known: '' @ fmt_list AllProfiles @ '')'') None)
      else Inr name)"

definition Profile_Accepts :: "Profile \<Rightarrow> Suite list" where
  "Profile_Accepts p = (case map_of profileSuites p of None \<Rightarrow> [] | Some ss \<Rightarrow> ss)"

definition Profile_Writes :: "Profile \<Rightarrow> Suite" where
  "Profile_Writes p = (case Profile_Accepts p of s # ss \<Rightarrow> s | [] \<Rightarrow> [])"

record SuitePolicy =
  sp_profile :: Profile
  sp_suites :: "Suite list"

fun narrow_scan :: "Profile \<Rightarrow> Suite list \<Rightarrow> Suite set \<Rightarrow> Suite list \<Rightarrow> go_error option" where
  "narrow_scan p accepted seen [] = None"
| "narrow_scan p accepted seen (s # ss) =
     (if \<not> Suite_Known s then Some (kms_invalid (''kms: kem_suites names unknown suite '' @ fmt_q s) None)
      else if s \<notin> set accepted
      then Some (kms_invalid (''kms: kem_suites names '' @ fmt_q s @ '', which the '' @ p @ '' profile does not accept (it accepts '' @
             fmt_list accepted @ '')'') None)
      else if s \<in> seen then Some (kms_invalid (''kms: kem_suites names '' @ fmt_q s @ '' twice'') None)
      else narrow_scan p accepted (insert s seen) ss)"

definition NewSuitePolicy :: "Profile \<Rightarrow> Suite list \<Rightarrow> go_error + SuitePolicy" where
  "NewSuitePolicy p narrow =
     (case map_of profileSuites p of
        None \<Rightarrow> Inl (kms_invalid (''kms: unknown crypto profile '' @ fmt_q p) None)
      | Some accepted \<Rightarrow>
          if narrow = [] then Inr \<lparr>sp_profile = p, sp_suites = accepted\<rparr>
          else guardR (narrow_scan p accepted {} narrow) (Inr \<lparr>sp_profile = p, sp_suites = narrow\<rparr>))"

text \<open>The two errors of \<open>DefaultSuitePolicy\<close> are dropped; a failed constructor leaves the zero policy.\<close>

definition zero_policy :: SuitePolicy where
  "zero_policy = \<lparr>sp_profile = [], sp_suites = []\<rparr>"

definition DefaultSuitePolicy :: "hpke \<Rightarrow> SuitePolicy" where
  "DefaultSuitePolicy H =
     (case NewSuitePolicy (case ParseProfile H [] of Inr p \<Rightarrow> p | Inl e \<Rightarrow> []) [] of Inr pol \<Rightarrow> pol | Inl e \<Rightarrow> zero_policy)"

definition SuitePolicy_IsZero :: "SuitePolicy \<Rightarrow> bool" where
  "SuitePolicy_IsZero p \<longleftrightarrow> sp_profile p = []"

definition SuitePolicy_Writes :: "SuitePolicy \<Rightarrow> Suite" where
  "SuitePolicy_Writes p = (case sp_suites p of [] \<Rightarrow> [] | s # ss \<Rightarrow> s)"

definition SuitePolicy_Allows :: "SuitePolicy \<Rightarrow> Suite \<Rightarrow> bool" where
  "SuitePolicy_Allows p s \<longleftrightarrow> s \<in> set (sp_suites p)"

fun policy_Choose :: "SuitePolicy \<Rightarrow> string list \<Rightarrow> Suite option" where
  "policy_Choose p [] = None"
| "policy_Choose p (name # offered) = (case List.find (\<lambda>s. s = name) (sp_suites p) of Some s \<Rightarrow> Some s | None \<Rightarrow> policy_Choose p offered)"

definition NewSuitePolicyFromNames :: "hpke \<Rightarrow> string \<Rightarrow> string list \<Rightarrow> go_error + SuitePolicy" where
  "NewSuitePolicyFromNames H profile suites =
     bindR (ParseProfile H profile) (\<lambda>p.
       if p = ProfileGeneral \<and> hk_FIPSOnly H
       then Inl (kms_invalid (''kms: crypto.profile general offers '' @ Profile_Writes ProfileGeneral @
              '', which this process cannot make under fips140=only; name fips or cnsa'') None)
       else NewSuitePolicy p suites)"

section \<open>Laws\<close>

text \<open>What a table entry promises: the suites still written export a key, and the profiles name only those.\<close>

lemma written_suites_export: "map_of suiteSpecs s = Some sp \<Longrightarrow> \<not> ss_readOnly sp \<Longrightarrow> ss_export sp"
  by (drule map_of_SomeD) (auto simp: suiteSpecs_def v1_spec_def v2_spec_def)

lemma current_suites: "s \<in> set currentSuites \<Longrightarrow> Suite_Known s \<and> \<not> Suite_ReadOnly s"
  by (auto simp: currentSuites_def Suite_Known_def Suite_ReadOnly_def suiteSpecs_def suite_names v2_spec_def)

lemma profile_suites:
  assumes "map_of profileSuites p = Some accepted"
  shows "accepted \<noteq> []" "distinct accepted" "set accepted \<subseteq> set currentSuites" "Profile_Accepts p = accepted"
proof -
  have "(p, accepted) \<in> set profileSuites" using assms by (rule map_of_SomeD)
  then show "accepted \<noteq> []" "distinct accepted" "set accepted \<subseteq> set currentSuites"
    by (auto simp: profileSuites_def currentSuites_def suite_names)
qed (simp add: assms Profile_Accepts_def)

lemma narrow_scan_ok:
  "narrow_scan p accepted seen ss = None \<Longrightarrow> distinct ss \<and> set ss \<subseteq> set accepted \<and> set ss \<inter> seen = {}"
  by (induction ss arbitrary: seen) (auto split: if_splits)

lemma NewSuitePolicy_ok:
  assumes "NewSuitePolicy p narrow = Inr pol"
  shows "sp_profile pol = p" "sp_suites pol \<noteq> []" "distinct (sp_suites pol)" "set (sp_suites pol) \<subseteq> set (Profile_Accepts p)"
    "set (sp_suites pol) \<subseteq> set currentSuites"
proof -
  obtain accepted where a: "map_of profileSuites p = Some accepted"
      "if narrow = [] then pol = \<lparr>sp_profile = p, sp_suites = accepted\<rparr>
       else narrow_scan p accepted {} narrow = None \<and> pol = \<lparr>sp_profile = p, sp_suites = narrow\<rparr>"
    using assms by (auto simp: NewSuitePolicy_def split: option.splits if_splits)
  note acc = profile_suites [OF a(1)]
  have "sp_profile pol = p \<and> sp_suites pol \<noteq> [] \<and> distinct (sp_suites pol) \<and> set (sp_suites pol) \<subseteq> set accepted"
    using a(2) acc(1,2) narrow_scan_ok [of p accepted "{}" narrow] by (cases "narrow = []") simp_all
  with acc show "sp_profile pol = p" "sp_suites pol \<noteq> []" "distinct (sp_suites pol)" "set (sp_suites pol) \<subseteq> set (Profile_Accepts p)"
    "set (sp_suites pol) \<subseteq> set currentSuites" by auto
qed

lemma policy_Choose_find: "policy_Choose pol offered = List.find (\<lambda>s. s \<in> set (sp_suites pol)) offered"
proof (induction offered)
  case (Cons name offered)
  have "List.find (\<lambda>s. s = name) ss = (if name \<in> set ss then Some name else None)" for ss :: "string list"
    by (induction ss) auto
  with Cons show ?case by auto
qed simp

text \<open>
  What RFC 9180 promises of a sender's and a recipient's context: over one encapsulation to the recipient's
  own public key they export the same keys, whatever randomness each side's library used.
\<close>

definition hpke_agree :: "hpke \<Rightarrow> hpke \<Rightarrow> bool" where
  "hpke_agree H H' \<longleftrightarrow>
     (\<forall>kem kdf priv info encapsulated ctx.
        hk_NewSender H kem kdf (hk_PublicKey H' kem priv) info = Inr (encapsulated, ctx) \<and> hk_NewPrivateKey H' kem priv = None \<longrightarrow>
        hk_NewRecipient H' kem kdf encapsulated priv info = Inr ctx)"

lemma GCM_Seal_shape: "GCM_Seal P key plaintext aad = Inr (nonce, ct) \<Longrightarrow> length nonce = 12 \<and> 16 \<le> length ct"
  by (auto simp: GCM_Seal_def Let_def split: if_splits)

text \<open>What is wrapped to a recipient's own public key unwraps under the same suite, purpose and data.\<close>

lemma Suite_Wrap_opens:
  assumes "prims_ok P" and "hpke_agree H H'" and "PublicKeyOf H' s priv = Inr pub"
    and "Suite_Wrap P H s purpose k pub aad = Inr wrapped"
  shows "Suite_Unwrap P H' s purpose wrapped priv aad = Inr k"
proof -
  obtain sp where sp: "map_of suiteSpecs s = Some sp" "hk_NewPrivateKey H' (ss_kemID sp) priv = None" "pub = hk_PublicKey H' (ss_kemID sp) priv"
    using assms(3) by (auto simp: PublicKeyOf_def spec_of_def split: option.splits)
  obtain encd sender key nonce ct where w: "purpose \<noteq> []" "\<not> ss_readOnly sp"
    "hk_NewSender H (ss_kemID sp) (ss_kdfID sp) pub (suiteInfo s purpose) = Inr (encd, sender)" "length encd = ss_encLen sp"
    "sender (hpkeExportContext @ '':'' @ purpose) 32 = Inr key" "GCM_Seal P key k aad = Inr (nonce, ct)" "wrapped = encd @ nonce @ ct"
    using assms(4) sp(1)
    by (auto simp: Suite_Wrap_def spec_of_def split: if_splits option.splits sum.splits prod.splits)
  have "hk_NewRecipient H' (ss_kemID sp) (ss_kdfID sp) encd priv (suiteInfo s purpose) = Inr sender"
    using assms(2) w(3) sp(2,3) unfolding hpke_agree_def by blast
  then show ?thesis
    using w sp written_suites_export [OF sp(1) w(2)] GCM_Seal_shape [OF w(6)] GCM_roundtrip [OF assms(1) w(6)]
    by (simp add: Suite_Unwrap_def spec_of_def aeadTagSize_def Let_def)
qed

end
