(* ===== verification/ReleaseHost.thy ===== *)
theory ReleaseHost
  imports ReleaseTokens KemSuites KeyRelease AuditChain
begin

text \<open>
  What a release authority runs in: its clock, its identifier and nonce sources, its audit log and its
  network. A \<open>site\<close> is the log's state, the event counter of the emitter that writes to it
  (src/cmd/sagvd/crosscloud_emitter.go), and the trace of everything the authority read from or gave to
  its surroundings, oldest first. The surroundings are functions of the trace so far: whatever
  happened may decide what comes next, the random choices of a KEM included.

  Steps are functions from a site to an error or a value and the site as they leave it, composed with
  \<open>bindE\<close>.
\<close>

section \<open>Steps\<close>

type_synonym ('s, 'e, 'a) eff = "'s \<Rightarrow> ('e + 'a) \<times> 's"

definition bindE :: "('s, 'e, 'a) eff \<Rightarrow> ('a \<Rightarrow> ('s, 'e, 'b) eff) \<Rightarrow> ('s, 'e, 'b) eff" where
  "bindE m k s = (case m s of (Inl e, s') \<Rightarrow> (Inl e, s') | (Inr a, s') \<Rightarrow> k a s')"

definition pureE :: "'e + 'a \<Rightarrow> ('s, 'e, 'a) eff" where
  "pureE r s = (r, s)"

definition mapE :: "('d \<Rightarrow> 'e) \<Rightarrow> ('s, 'd, 'a) eff \<Rightarrow> ('s, 'e, 'a) eff" where
  "mapE f m s = (case m s of (Inl e, s') \<Rightarrow> (Inl (f e), s') | (Inr a, s') \<Rightarrow> (Inr a, s'))"

definition readE :: "('s \<Rightarrow> 'a \<times> 's) \<Rightarrow> ('s, 'e, 'a) eff" where
  "readE m s = (case m s of (a, s') \<Rightarrow> (Inr a, s'))"

definition guardE :: "'e option \<Rightarrow> ('s, 'e, 'a) eff \<Rightarrow> ('s, 'e, 'a) eff" where
  "guardE c m s = (case c of Some e \<Rightarrow> (Inl e, s) | None \<Rightarrow> m s)"

lemma bindE_cases:
  assumes "bindE m k s = (r, s')"
  obtains (stop) e where "m s = (Inl e, s')" "r = Inl e"
    | (go) a s1 where "m s = (Inr a, s1)" "k a s1 = (r, s')"
  using assms by (auto simp: bindE_def split: prod.splits sum.splits)

lemma pureE_eq [simp]: "pureE x s = (r, s') \<longleftrightarrow> r = x \<and> s' = s"
  by (auto simp: pureE_def)

lemma mapE_cases:
  assumes "mapE f m s = (r, s')"
  obtains (stop) e where "m s = (Inl e, s')" "r = Inl (f e)"
    | (go) a where "m s = (Inr a, s')" "r = Inr a"
  using assms by (auto simp: mapE_def split: prod.splits sum.splits)

lemma readE_eq [simp]: "readE m s = (r, s') \<longleftrightarrow> r = Inr (fst (m s)) \<and> s' = snd (m s)"
  by (auto simp: readE_def split: prod.splits)

lemma guardE_simps [simp]: "guardE None m s = m s" "guardE (Some e) m s = (Inl e, s)"
  by (simp_all add: guardE_def)

section \<open>Surroundings\<close>

record HandshakeResponse =
  HP_Evidence :: Evidence
  HP_MeasurementHint :: bytes
  HP_RecipientPublicKey :: bytes
  HP_RecipientKeySuite :: string

text \<open>A signed restore receipt as a destination serves it.\<close>

record Signed =
  SG_Receipt :: bytes
  SG_Evidence :: Evidence

datatype io =
    ReadClock gotime
  | ReadWall gotime
  | DrewID "go_error + string"
  | DrewNonce "go_error + bytes"
  | Logged AuditEvent
  | NotLogged go_error
  | SentHandshake string CrossCloudHandshakeRequest
  | SentToken string KeyReleaseToken
  | FetchedReceipt string KeyID
  | UsedKem
  | Slept

record env =
  ev_Clock :: "io list \<Rightarrow> gotime"
  ev_Wall :: "io list \<Rightarrow> gotime"
  ev_RequestID :: "io list \<Rightarrow> go_error + string"
  ev_DecisionID :: "io list \<Rightarrow> go_error + string"
  ev_Nonce :: "io list \<Rightarrow> nat \<Rightarrow> go_error + bytes"
  ev_Kem :: "io list \<Rightarrow> hpke"
  ev_Handshake :: "io list \<Rightarrow> string \<Rightarrow> CrossCloudHandshakeRequest \<Rightarrow> go_error + HandshakeResponse"
  ev_Token :: "io list \<Rightarrow> string \<Rightarrow> KeyReleaseToken \<Rightarrow> go_error option"
  ev_Receipt :: "io list \<Rightarrow> string \<Rightarrow> KeyID \<Rightarrow> go_error + Signed"

text \<open>
  The parts of a host that do not change: the surroundings, the audit log's \<open>Append\<close>, the emitter's signer,
  key and prefix, the text \<open>encoding/json\<close> makes of a tree, and the libraries.
\<close>

record 'c host =
  ho_env :: env
  ho_Append :: "'c appender"
  ho_signer :: Signer
  ho_signerKID :: KeyID
  ho_prefix :: string
  ho_J :: "jval \<Rightarrow> bytes"
  ho_F :: floats
  ho_P :: prims
  ho_SHA512 :: "bytes \<Rightarrow> bytes"

record 'c site =
  nd_chain :: 'c
  nd_counter :: u64
  nd_trace :: "io list"

definition record_io :: "io \<Rightarrow> 'c site \<Rightarrow> 'c site" where
  "record_io x s = s\<lparr>nd_trace := nd_trace s @ [x]\<rparr>"

definition clock_Now :: "'c host \<Rightarrow> 'c site \<Rightarrow> gotime \<times> 'c site" where
  "clock_Now h s = (let t = ev_Clock (ho_env h) (nd_trace s) in (t, record_io (ReadClock t) s))"

text \<open>\<open>time.Now()\<close>, read by the code itself and not through the injected clock.\<close>

definition wall_Now :: "'c host \<Rightarrow> 'c site \<Rightarrow> gotime \<times> 'c site" where
  "wall_Now h s = (let t = ev_Wall (ho_env h) (nd_trace s) in (t, record_io (ReadWall t) s))"

definition NewRequestID :: "'c host \<Rightarrow> ('c site, go_error, string) eff" where
  "NewRequestID h s = (let r = ev_RequestID (ho_env h) (nd_trace s) in (r, record_io (DrewID r) s))"

definition NewDecisionID :: "'c host \<Rightarrow> ('c site, go_error, string) eff" where
  "NewDecisionID h s = (let r = ev_DecisionID (ho_env h) (nd_trace s) in (r, record_io (DrewID r) s))"

definition nonceSource :: "'c host \<Rightarrow> nat \<Rightarrow> ('c site, go_error, bytes) eff" where
  "nonceSource h n s = (let r = ev_Nonce (ho_env h) (nd_trace s) n in (r, record_io (DrewNonce r) s))"

definition SendHandshakeRequest :: "'c host \<Rightarrow> string \<Rightarrow> CrossCloudHandshakeRequest \<Rightarrow> ('c site, go_error, HandshakeResponse) eff" where
  "SendHandshakeRequest h endpoint req s =
     (ev_Handshake (ho_env h) (nd_trace s) endpoint req, record_io (SentHandshake endpoint req) s)"

definition SendKeyReleaseToken :: "'c host \<Rightarrow> string \<Rightarrow> KeyReleaseToken \<Rightarrow> ('c site, go_error, unit) eff" where
  "SendKeyReleaseToken h endpoint token s =
     ((case ev_Token (ho_env h) (nd_trace s) endpoint token of Some err \<Rightarrow> Inl err | None \<Rightarrow> Inr ()),
      record_io (SentToken endpoint token) s)"

text \<open>One use of the KEM library, with the randomness of this moment.\<close>

definition use_kem :: "'c host \<Rightarrow> (hpke \<Rightarrow> 'a) \<Rightarrow> 'c site \<Rightarrow> 'a \<times> 'c site" where
  "use_kem h f s = (f (ev_Kem (ho_env h) (nd_trace s)), record_io UsedKem s)"

definition FetchRestoreReceipt :: "'c host \<Rightarrow> string \<Rightarrow> KeyID \<Rightarrow> ('c site, go_error, Signed) eff" where
  "FetchRestoreReceipt h endpoint kid s =
     (ev_Receipt (ho_env h) (nd_trace s) endpoint kid, record_io (FetchedReceipt endpoint kid) s)"

text \<open>\<open>json.Marshal\<close> of a struct with these fields: it fails on an instant outside the years JSON can write.\<close>

definition json_Marshal :: "'c host \<Rightarrow> (string \<times> wire) list \<Rightarrow> go_error + bytes" where
  "json_Marshal h ws = bindR (marshal_wire ws) (\<lambda>j. Inr (ho_J h j))"

section \<open>The emitter\<close>

definition emitter_build :: "'c host \<Rightarrow> string \<Rightarrow> bytes \<Rightarrow> string \<Rightarrow> string \<Rightarrow> string \<Rightarrow> 'c site \<Rightarrow> AuditEvent \<times> 'c site" where
  "emitter_build h kind payload sid mid rid s =
     (let counter = nd_counter s + 1; (now, s1) = clock_Now h (s\<lparr>nd_counter := counter\<rparr>) in
      (\<lparr>AE_SchemaVersion = audit_SchemaVersionMax, AE_EventID = ho_prefix h @ fmt_016x counter, AE_Kind = kind, AE_OccurredAt = now,
        AE_SessionID = sid, AE_ManifestID = mid, AE_RequestID = rid, AE_Payload = payload, AE_PrevHash = [], AE_Hash = [],
        AE_SigningKeyID = ho_signerKID h, AE_Alg = [], AE_Signature = []\<rparr>, s1))"

definition Emit_event :: "'c host \<Rightarrow> string \<Rightarrow> bytes \<Rightarrow> string \<Rightarrow> string \<Rightarrow> string \<Rightarrow> ('c site, go_error, string) eff" where
  "Emit_event h kind payload sid mid rid s =
     (let (evt, s1) = emitter_build h kind payload sid mid rid s in
      case ho_Append h (nd_chain s1) evt (Some (ho_signer h)) of
        (Inl err, c) \<Rightarrow> (Inl err, record_io (NotLogged err) (s1\<lparr>nd_chain := c\<rparr>))
      | (Inr e, c) \<Rightarrow> (Inr (AE_EventID e), record_io (Logged e) (s1\<lparr>nd_chain := c\<rparr>)))"

definition logged :: "io list \<Rightarrow> AuditEvent list" where
  "logged tr = concat (map (\<lambda>x. case x of Logged e \<Rightarrow> [e] | _ \<Rightarrow> []) tr)"

lemma logged_simps [simp]:
  "logged [] = []" "logged (xs @ ys) = logged xs @ logged ys" "logged (Logged e # xs) = e # logged xs"
  "logged (ReadClock now # xs) = logged xs" "logged (ReadWall now # xs) = logged xs" "logged (DrewID i # xs) = logged xs" "logged (DrewNonce n # xs) = logged xs"
  "logged (NotLogged err # xs) = logged xs" "logged (SentHandshake ep r # xs) = logged xs" "logged (SentToken ep tok # xs) = logged xs"
  "logged (FetchedReceipt ep k # xs) = logged xs" "logged (UsedKem # xs) = logged xs" "logged (Slept # xs) = logged xs"
  by (simp_all add: logged_def)

definition is_sent :: "io \<Rightarrow> bool" where
  "is_sent x \<longleftrightarrow> (\<exists>ep tok. x = SentToken ep tok)"

lemma is_sent_simps [simp]:
  "is_sent (SentToken ep tok)" "\<not> is_sent (ReadClock now)" "\<not> is_sent (DrewID i)" "\<not> is_sent (DrewNonce n)" "\<not> is_sent (Logged e)"
  "\<not> is_sent (NotLogged err)" "\<not> is_sent (SentHandshake ep r)" "\<not> is_sent (FetchedReceipt ep k)" "\<not> is_sent UsedKem" "\<not> is_sent Slept"
  "\<not> is_sent (ReadWall now)"
  by (simp_all add: is_sent_def)

text \<open>The events of a wait: readings of the wall clock, and sleeps.\<close>

definition is_wait :: "io \<Rightarrow> bool" where
  "is_wait x \<longleftrightarrow> x = Slept \<or> (\<exists>t. x = ReadWall t)"

lemma is_wait_simps [simp]:
  "is_wait Slept" "is_wait (ReadWall now)" "\<not> is_wait (SentToken ep tok)" "\<not> is_wait (ReadClock now)" "\<not> is_wait (DrewID i)"
  "\<not> is_wait (DrewNonce n)" "\<not> is_wait (Logged e)" "\<not> is_wait (NotLogged err)" "\<not> is_wait (SentHandshake ep r)"
  "\<not> is_wait (FetchedReceipt ep k)" "\<not> is_wait UsedKem"
  by (simp_all add: is_wait_def)

end
