(* ===== verification/Coordinator.thy ===== *)
theory Coordinator
  imports ReleaseHost
begin

text \<open>
  The release authority's coordinator (src/internal/vault/kms/coordinator.go): the cross-cloud handshake, the
  verification of the destination, the policy, the wrapping and the dispatch of the key release token, and the
  verifier registry it resolves destinations in (src/internal/shared/tee/registry.go, detail.go).

  \<open>CoordinateRestore\<close> is written as its five stretches, each ending where the code gives control to its
  surroundings for good. An error carries the partial result the code returns beside it.
\<close>

section \<open>The verifier registry\<close>

text \<open>A verifier that also implements \<open>DetailedVerifier\<close> has its second method; the detail is its JSON.\<close>

record Verifier =
  vf_Verify :: tee_Verifier
  vf_Detailed :: "(Evidence \<Rightarrow> Nonce \<Rightarrow> go_error + Measurement \<times> jval option) option"

definition VerifyDetailed :: "Verifier \<Rightarrow> Evidence \<Rightarrow> Nonce \<Rightarrow> go_error + Measurement \<times> jval option" where
  "VerifyDetailed v evidence nonce =
     (case vf_Detailed v of
        Some detailed \<Rightarrow> detailed evidence nonce
      | None \<Rightarrow> bindR (vf_Verify v evidence nonce) (\<lambda>m. Inr (m, None)))"

text \<open>The registry's map, as its entries in the order an iteration takes; \<open>None\<close> is a nil registry.\<close>

type_synonym Registry = "(Provider \<times> Verifier) list option"

definition Registry_Has :: "Registry \<Rightarrow> Provider \<Rightarrow> bool" where
  "Registry_Has r p \<longleftrightarrow> (case r of None \<Rightarrow> False | Some vs \<Rightarrow> map_of vs p \<noteq> None)"

definition Registry_Providers :: "Registry \<Rightarrow> Provider list" where
  "Registry_Providers r = (case r of None \<Rightarrow> [] | Some vs \<Rightarrow> sort (map fst vs))"

definition Registry_Resolve :: "Registry \<Rightarrow> Provider \<Rightarrow> go_error + Verifier" where
  "Registry_Resolve r p =
     (case r of
        None \<Rightarrow> Inl (Structural CodeFieldValueInvalid ''tee.Registry.Resolve: registry is nil'' None)
      | Some vs \<Rightarrow>
          (case map_of vs p of
             None \<Rightarrow> Inl (Structural CodeFieldValueInvalid
               (''tee.Registry.Resolve: provider '' @ fmt_q p @ '' not registered (available: '' @ fmt_list (map fst vs) @ '')'') None)
           | Some v \<Rightarrow> Inr v))"

fun registry_fill ::
    "('spec \<Rightarrow> go_error + Verifier) \<Rightarrow> ('spec \<Rightarrow> Provider) \<Rightarrow> (Provider \<times> Verifier) list \<Rightarrow> (Provider \<times> 'spec) list \<Rightarrow>
     go_error + (Provider \<times> Verifier) list" where
  "registry_fill build provider_of vs [] = Inr vs"
| "registry_fill build provider_of vs ((p, spec) # rest) =
     (if p = [] then Inl (Structural CodeRequiredFieldMissing ''tee.NewRegistry: RegistrySpec.Provider is empty'' None)
      else if map_of vs p \<noteq> None
      then Inl (Structural CodeFieldValueInvalid (''tee.NewRegistry: duplicate provider '' @ fmt_q p @ '' in registry spec'') None)
      else if provider_of spec \<noteq> p
      then Inl (Structural CodeFieldValueInvalid (''tee.NewRegistry: RegistrySpec.Provider '' @ fmt_q p @
             '' does not match VerifierSpec.Provider '' @ fmt_q (provider_of spec)) None)
      else (case build spec of
              Inl err \<Rightarrow> Inl (Structural CodeFieldValueInvalid (''tee.NewRegistry: BuildVerifier failed for provider '' @ fmt_q p) (Some err))
            | Inr v \<Rightarrow> registry_fill build provider_of (vs @ [(p, v)]) rest))"

definition NewRegistry ::
    "('spec \<Rightarrow> go_error + Verifier) \<Rightarrow> ('spec \<Rightarrow> Provider) \<Rightarrow> (Provider \<times> 'spec) list \<Rightarrow> go_error + Registry" where
  "NewRegistry build provider_of specs = bindR (registry_fill build provider_of [] specs) (\<lambda>vs. Inr (Some vs))"

section \<open>The coordinator\<close>

record KeyMaterial =
  KM_KeyID :: KeyID
  KM_Purpose :: byte
  KM_Plaintext :: bytes

record CoordinationRequest =
  CR_DecisionID :: string
  CR_DestinationKind :: Provider
  CR_DestinationEndpoint :: string
  CR_KeysToRelease :: "KeyMaterial list"
  CR_SessionID :: string
  CR_ManifestID :: string
  CR_SourceEvidence :: bytes
  CR_SourceMeasurement :: bytes

record CoordinationResult =
  RS_HandshakeRequestID :: string
  RS_HandshakeAuditID :: string
  RS_AttestationAuditID :: string
  RS_KeyReleaseAuditID :: string
  RS_DestinationMeasurement :: bytes
  RS_RecipientKeySHA256 :: bytes
  RS_RecipientKeySuite :: Suite
  RS_PolicyVersion :: string
  RS_TokenID :: string
  RS_DispatchedAt :: gotime

definition no_result :: CoordinationResult where
  "no_result =
     \<lparr>RS_HandshakeRequestID = [], RS_HandshakeAuditID = [], RS_AttestationAuditID = [], RS_KeyReleaseAuditID = [],
      RS_DestinationMeasurement = [], RS_RecipientKeySHA256 = [], RS_RecipientKeySuite = [], RS_PolicyVersion = [],
      RS_TokenID = [], RS_DispatchedAt = zero_time\<rparr>"

text \<open>
  The dependencies. Those that belong to the host (audit chain, transport, identifiers, nonces, clock, the
  optional receipt fetcher) are wired or not.
\<close>

record CoordinatorConfig =
  cf_AuditChain :: bool
  cf_Signer :: "Signer option"
  cf_Verifiers :: Registry
  cf_Policy :: "KeyReleasePolicy option"
  cf_Transport :: bool
  cf_IDGenerator :: bool
  cf_NonceSource :: bool
  cf_Clock :: bool
  cf_SigningKeyID :: KeyID
  cf_Receipts :: bool
  cf_Suites :: SuitePolicy

record Coordinator =
  co_keySigner :: Signer
  co_verifiers :: Registry
  co_policy :: KeyReleasePolicy
  co_signingKID :: KeyID
  co_receipts :: bool
  co_suites :: SuitePolicy

definition NewCoordinator :: "hpke \<Rightarrow> CoordinatorConfig \<Rightarrow> go_error + Coordinator" where
  "NewCoordinator H cfg =
     guardR
       (first_err
         [chk (\<not> cf_AuditChain cfg) (missing ''kms.NewCoordinator: AuditChain required''),
          chk (cf_Signer cfg = None) (missing ''kms.NewCoordinator: Signer required''),
          chk (cf_Verifiers cfg = None) (missing ''kms.NewCoordinator: Verifiers registry required''),
          chk (cf_Policy cfg = None) (missing ''kms.NewCoordinator: Policy required''),
          chk (\<not> cf_Transport cfg) (missing ''kms.NewCoordinator: Transport required''),
          chk (\<not> cf_IDGenerator cfg) (missing ''kms.NewCoordinator: IDGenerator required''),
          chk (\<not> cf_NonceSource cfg) (missing ''kms.NewCoordinator: NonceSource required''),
          chk (\<not> cf_Clock cfg) (missing ''kms.NewCoordinator: Clock required''),
          chk (cf_SigningKeyID cfg = []) (missing ''kms.NewCoordinator: SigningKeyID required'')])
       (Inr \<lparr>co_keySigner = the (cf_Signer cfg), co_verifiers = cf_Verifiers cfg, co_policy = the (cf_Policy cfg),
             co_signingKID = cf_SigningKeyID cfg, co_receipts = cf_Receipts cfg,
             co_suites = (if SuitePolicy_IsZero (cf_Suites cfg) then DefaultSuitePolicy H else cf_Suites cfg)\<rparr>)"

fun check_materials :: "nat \<Rightarrow> KeyMaterial list \<Rightarrow> go_error option" where
  "check_materials i [] = None"
| "check_materials i (m # ms) =
     (if KM_KeyID m = [] then Some (missing (''kms.CoordinateRestore: KeysToRelease['' @ fmt_d i @ ''].KeyID required''))
      else if KM_Plaintext m = [] then Some (missing (''kms.CoordinateRestore: KeysToRelease['' @ fmt_d i @ ''].Plaintext required''))
      else check_materials (Suc i) ms)"

definition validateRequest :: "Coordinator \<Rightarrow> CoordinationRequest \<Rightarrow> go_error option" where
  "validateRequest c req =
     first_err
       [chk (CR_DecisionID req = []) (missing ''kms.CoordinateRestore: DecisionID required''),
        chk (CR_DestinationKind req = []) (missing ''kms.CoordinateRestore: DestinationKind required''),
        chk (\<not> Registry_Has (co_verifiers c) (CR_DestinationKind req))
          (Structural CodeFieldValueInvalid (''kms.CoordinateRestore: no verifier registered for '' @ fmt_q (CR_DestinationKind req) @
             '' (available: '' @ fmt_list (Registry_Providers (co_verifiers c)) @ '')'') None),
        chk (CR_DestinationEndpoint req = []) (missing ''kms.CoordinateRestore: DestinationEndpoint required''),
        chk (CR_KeysToRelease req = []) (missing ''kms.CoordinateRestore: KeysToRelease must contain at least one key''),
        check_materials 0 (CR_KeysToRelease req),
        source_measurement_gate ''kms.CoordinateRestore: SourceMeasurement'' (CR_SourceMeasurement req)]"

definition canonicalWrapAAD :: "string \<Rightarrow> bytes \<Rightarrow> KeyID \<Rightarrow> bytes" where
  "canonicalWrapAAD tokenID destinationMeasurement keyID =
     SHA256 (string_bytes tokenID @ destinationMeasurement @ string_bytes keyID)"

section \<open>Audit payloads\<close>

definition KindHandshakeInitiated :: string where
  "KindHandshakeInitiated = ''CROSS_CLOUD_HANDSHAKE_INITIATED''"

definition KindAttestationVerified :: string where
  "KindAttestationVerified = ''CROSS_CLOUD_ATTESTATION_VERIFIED''"

definition KindKeyReleaseAuthorized :: string where
  "KindKeyReleaseAuthorized = ''KEY_RELEASE_AUTHORIZED''"

definition KindKeyReleaseDenied :: string where
  "KindKeyReleaseDenied = ''KEY_RELEASE_DENIED''"

definition denialAttestation :: string where "denialAttestation = ''attestation''"
definition denialPolicy :: string where "denialPolicy = ''policy''"

definition handshakeInitiated_payload :: "CoordinationRequest \<Rightarrow> string \<Rightarrow> bytes \<Rightarrow> gotime \<Rightarrow> (string \<times> wire) list" where
  "handshakeInitiated_payload req rid nonce now =
     [(''decision_id'', WStr (CR_DecisionID req)), (''request_id'', WStr rid), (''destination_kind'', WStr (CR_DestinationKind req)),
      (''destination_endpoint'', WStr (CR_DestinationEndpoint req)), (''handshake_nonce_hash'', WBytes (SHA256 nonce)),
      (''handshake_nonce_len'', WNum (length nonce)), (''initiated_at'', WTime now)]"

definition attestationVerified_payload ::
    "CoordinationRequest \<Rightarrow> string \<Rightarrow> Measurement \<Rightarrow> jval option \<Rightarrow> Evidence \<Rightarrow> bytes \<Rightarrow> Suite \<Rightarrow> gotime \<Rightarrow> (string \<times> wire) list" where
  "attestationVerified_payload req rid m detail ev pub suite now =
     [(''decision_id'', WStr (CR_DecisionID req)), (''request_id'', WStr rid), (''destination_kind'', WStr (CR_DestinationKind req)),
      (''destination_measurement'', WBytes m), (''destination_detail'', WTree (Inr detail)), (''evidence_hash'', WBytes (SHA256 ev)),
      (''recipient_key_sha256'', WBytes (SHA256 pub)), (''recipient_key_suite'', WStr suite), (''verified_at'', WTime now)]"

definition keyReleaseDenied_payload ::
    "Coordinator \<Rightarrow> CoordinationRequest \<Rightarrow> string \<Rightarrow> string \<Rightarrow> bytes \<Rightarrow> go_error \<Rightarrow> gotime \<Rightarrow> (string \<times> wire) list" where
  "keyReleaseDenied_payload c req rid stage m refusal now =
     [(''decision_id'', WStr (CR_DecisionID req)), (''request_id'', WStr rid), (''destination_kind'', WStr (CR_DestinationKind req)),
      (''destination_measurement'', WTree (Inr (opt_bytes m))), (''stage'', WStr stage), (''reason'', WStr (Error_String refusal)),
      (''policy_version'', WStr (kp_PolicyVersion (co_policy c))), (''denied_at'', WTime now)]"

definition keyReleaseAuthorized_payload ::
    "Coordinator \<Rightarrow> CoordinationRequest \<Rightarrow> string \<Rightarrow> string \<Rightarrow> Measurement \<Rightarrow> Suite \<Rightarrow> bytes \<Rightarrow> string \<Rightarrow> gotime \<Rightarrow> (string \<times> wire) list" where
  "keyReleaseAuthorized_payload c req rid tokenID m suite pub reason now =
     [(''decision_id'', WStr (CR_DecisionID req)), (''request_id'', WStr rid), (''token_id'', WStr tokenID),
      (''destination_kind'', WStr (CR_DestinationKind req)), (''destination_measurement'', WBytes m),
      (''key_ids'', WTree (Inr (Some (JArr (map (\<lambda>k. JStr (KM_KeyID k)) (CR_KeysToRelease req)))))),
      (''delivery_mode'', WStr suite), (''crypto_profile'', WStr (sp_profile (co_suites c))),
      (''recipient_key_sha256'', WBytes (SHA256 pub)), (''policy_version'', WStr (kp_PolicyVersion (co_policy c))),
      (''policy_reason'', WStr reason), (''authorized_at'', WTime now)]"

section \<open>Refusals\<close>

text \<open>\<open>errors.Join\<close> of the refusal and the failure to record it: its text is both texts, a line each.\<close>

definition refusal_unrecorded :: "go_error \<Rightarrow> go_error \<Rightarrow> go_error" where
  "refusal_unrecorded refusal err =
     PlainError (Error_String refusal @ [CHR 0x0A] @ ''kms.CoordinateRestore: recording the refusal failed: '' @ Error_String err) (Some refusal)"

definition Coordinator_deny ::
    "'c host \<Rightarrow> Coordinator \<Rightarrow> CoordinationRequest \<Rightarrow> string \<Rightarrow> string \<Rightarrow> bytes \<Rightarrow> go_error \<Rightarrow> 'c site \<Rightarrow> go_error \<times> 'c site" where
  "Coordinator_deny h c req rid stage m refusal s =
     (let (now, s1) = clock_Now h s in
      case bindE (pureE (json_Marshal h (keyReleaseDenied_payload c req rid stage m refusal now)))
             (\<lambda>payload. Emit_event h KindKeyReleaseDenied payload (CR_SessionID req) (CR_ManifestID req) rid) s1 of
        (Inl err, s2) \<Rightarrow> (refusal_unrecorded refusal err, s2)
      | (Inr eid, s2) \<Rightarrow> (refusal, s2))"

type_synonym ('c, 'a) coord = "('c site, CoordinationResult \<times> go_error, 'a) eff"

definition refuse ::
    "'c host \<Rightarrow> Coordinator \<Rightarrow> CoordinationRequest \<Rightarrow> string \<Rightarrow> string \<Rightarrow> bytes \<Rightarrow> CoordinationResult \<Rightarrow> go_error \<Rightarrow> ('c, 'a) coord" where
  "refuse h c req rid stage m early refusal s =
     (let (err, s1) = Coordinator_deny h c req rid stage m refusal s in (Inl (early, err), s1))"

definition denied_here :: "string \<Rightarrow> go_error option \<Rightarrow> go_error" where
  "denied_here msg cause = Integrity CodeAttestationDenied (''kms.CoordinateRestore: '' @ msg) cause"


section \<open>Opening the handshake\<close>

record handshake =
  hd_RequestID :: string
  hd_Nonce :: bytes
  hd_At :: gotime
  hd_AuditID :: string

definition coord_open :: "'c host \<Rightarrow> Coordinator \<Rightarrow> CoordinationRequest \<Rightarrow> ('c, handshake) coord" where
  "coord_open h c req =
     guardE (map_option (Pair no_result) (validateRequest c req))
       (bindE (mapE (\<lambda>err. (no_result, Structural CodeFieldValueInvalid ''kms.CoordinateRestore: request id generation failed'' (Some err)))
                (NewRequestID h)) (\<lambda>rid.
        bindE (mapE (\<lambda>err. (no_result, Operational CodeResourceExhausted ''kms.CoordinateRestore: nonce generation failed'' (Some err)))
                (nonceSource h NonceMinBytes)) (\<lambda>nonce.
        guardE (chk (length nonce < NonceMinBytes)
                  (no_result, Structural CodeFieldValueInvalid (''kms.CoordinateRestore: nonceSource returned '' @ fmt_d (length nonce) @
                     '' bytes; minimum is '' @ fmt_d NonceMinBytes) None))
       (bindE (readE (clock_Now h)) (\<lambda>now.
        bindE (mapE (\<lambda>err. (no_result, Structural CodeFieldValueInvalid ''kms.CoordinateRestore: handshake audit payload marshal failed'' (Some err)))
                (pureE (json_Marshal h (handshakeInitiated_payload req rid nonce now)))) (\<lambda>payload.
        bindE (mapE (Pair no_result) (Emit_event h KindHandshakeInitiated payload (CR_SessionID req) (CR_ManifestID req) rid)) (\<lambda>eid.
        pureE (Inr \<lparr>hd_RequestID = rid, hd_Nonce = nonce, hd_At = now, hd_AuditID = eid\<rparr>))))))))"

definition early_result :: "handshake \<Rightarrow> CoordinationResult" where
  "early_result hs = no_result\<lparr>RS_HandshakeRequestID := hd_RequestID hs, RS_HandshakeAuditID := hd_AuditID hs\<rparr>"

definition handshake_request :: "Coordinator \<Rightarrow> CoordinationRequest \<Rightarrow> handshake \<Rightarrow> CrossCloudHandshakeRequest" where
  "handshake_request c req hs =
     \<lparr>HR_SchemaVersion = 2, HR_RequestID = hd_RequestID hs, HR_DecisionID = CR_DecisionID req,
      HR_DestinationTEEKind = CR_DestinationKind req, HR_DestinationEndpoint = CR_DestinationEndpoint req,
      HR_HandshakeNonce = hd_Nonce hs, HR_KEMSuites = sp_suites (co_suites c), HR_SourceEvidence = CR_SourceEvidence req,
      HR_SourceMeasurement = CR_SourceMeasurement req, HR_InitiatedAt = hd_At hs, HR_SigningKeyID = co_signingKID c,
      HR_Alg = [], HR_Signature = [0], HR_AuditEventID = hd_AuditID hs\<rparr>"

definition coord_handshake :: "'c host \<Rightarrow> Coordinator \<Rightarrow> CoordinationRequest \<Rightarrow> handshake \<Rightarrow> ('c, HandshakeResponse) coord" where
  "coord_handshake h c req hs =
     (case CrossCloudHandshakeRequest_SignWith (ho_F h) (handshake_request c req hs) (co_keySigner c) of
        (Some err, hsReq) \<Rightarrow> pureE (Inl (early_result hs, err))
      | (None, hsReq) \<Rightarrow>
          bindE (mapE (\<lambda>err. (early_result hs, Operational CodeResourceExhausted ''kms.CoordinateRestore: handshake transport failed'' (Some err)))
                   (SendHandshakeRequest h (CR_DestinationEndpoint req) hsReq)) (\<lambda>hsResp.
          guardE (chk (HP_Evidence hsResp = []) (early_result hs, denied_here ''destination returned empty Evidence'' None))
            (pureE (Inr hsResp))))"

section \<open>Verifying the destination\<close>

record attested =
  at_Suite :: Suite
  at_Pub :: bytes
  at_Measurement :: Measurement
  at_AuditID :: string

definition coord_attest :: "'c host \<Rightarrow> Coordinator \<Rightarrow> CoordinationRequest \<Rightarrow> handshake \<Rightarrow> HandshakeResponse \<Rightarrow> ('c, attested) coord" where
  "coord_attest h c req hs hsResp =
     (let early = early_result hs; suite = HP_RecipientKeySuite hsResp; pub = HP_RecipientPublicKey hsResp; ev = HP_Evidence hsResp;
          deny = (\<lambda>msg cause. refuse h c req (hd_RequestID hs) denialAttestation [] early (denied_here msg cause))
      in if suite = []
         then deny ''destination named no KEM suite for its recipient key (ADR 0029: both daemons move together)'' None
         else if \<not> SuitePolicy_Allows (co_suites c) suite
         then deny (''destination answered under KEM suite '' @ fmt_q suite @ '', which the '' @ sp_profile (co_suites c) @
                '' profile does not accept (offered '' @ fmt_list (sp_suites (co_suites c)) @ '')'') None
         else bindE (readE (use_kem h (\<lambda>H. Suite_ValidateRecipientPublicKey H suite pub))) (\<lambda>verr.
           case verr of
             Some err \<Rightarrow> deny (''destination presented no usable '' @ suite @ '' recipient key'') (Some err)
           | None \<Rightarrow>
               (case Registry_Resolve (co_verifiers c) (CR_DestinationKind req) of
                  Inl err \<Rightarrow> pureE (Inl (early, err))
                | Inr verifier \<Rightarrow>
                    (case VerifyDetailed verifier ev (RecipientChallengeV2 (ho_SHA512 h) suite pub (hd_Nonce hs)) of
                       Inl err \<Rightarrow> deny ''destination Evidence does not verify for the presented recipient key and suite under this nonce'' (Some err)
                     | Inr (m, detail) \<Rightarrow>
                         bindE (readE (clock_Now h)) (\<lambda>now.
                         bindE (mapE (\<lambda>err. (early, Structural CodeFieldValueInvalid
                                  ''kms.CoordinateRestore: attestation audit payload marshal failed'' (Some err)))
                                (pureE (json_Marshal h (attestationVerified_payload req (hd_RequestID hs) m detail ev pub suite now)))) (\<lambda>payload.
                         bindE (mapE (Pair early)
                                (Emit_event h KindAttestationVerified payload (CR_SessionID req) (CR_ManifestID req) (hd_RequestID hs))) (\<lambda>eid.
                         pureE (Inr \<lparr>at_Suite = suite, at_Pub = pub, at_Measurement = m, at_AuditID = eid\<rparr>))))))))"

section \<open>Authorizing and wrapping\<close>

definition attested_result :: "handshake \<Rightarrow> attested \<Rightarrow> CoordinationResult" where
  "attested_result hs at =
     (early_result hs)\<lparr>RS_AttestationAuditID := at_AuditID at, RS_DestinationMeasurement := at_Measurement at\<rparr>"

fun wrap_keys :: "'c host \<Rightarrow> string \<Rightarrow> attested \<Rightarrow> nat \<Rightarrow> KeyMaterial list \<Rightarrow> ('c site, go_error, WrappedKey list) eff" where
  "wrap_keys h tokenID at i [] = pureE (Inr [])"
| "wrap_keys h tokenID at i (m # ms) =
     guardE (chk (KM_Purpose m \<noteq> token_PurposeSealing)
               (Structural CodeFieldValueInvalid (''kms.CoordinateRestore: KeysToRelease['' @ fmt_d i @
                  ''].Purpose must be PurposeSealing (=3); got '' @ fmt_d (unat (KM_Purpose m))) None))
      (let aad = canonicalWrapAAD tokenID (at_Measurement at) (KM_KeyID m) in
       bindE (readE (use_kem h (\<lambda>H. Suite_Wrap (ho_P h) H (at_Suite at) PurposeCrossCloudDEK (KM_Plaintext m) (at_Pub at) aad))) (\<lambda>wrapped.
       bindE (pureE wrapped) (\<lambda>ct.
       bindE (wrap_keys h tokenID at (Suc i) ms) (\<lambda>ws.
       pureE (Inr (\<lparr>WK_KeyID = KM_KeyID m, WK_Purpose = KM_Purpose m, WK_Suite = at_Suite at, WK_Ciphertext = ct, WK_AAD = aad\<rparr> # ws))))))"

record authorization =
  az_TokenID :: string
  az_Wrapped :: "WrappedKey list"
  az_At :: gotime
  az_AuditID :: string

definition coord_authorize :: "'c host \<Rightarrow> Coordinator \<Rightarrow> CoordinationRequest \<Rightarrow> handshake \<Rightarrow> attested \<Rightarrow> ('c, authorization) coord" where
  "coord_authorize h c req hs at =
     (let res = attested_result hs at; m = at_Measurement at; keyIDs = map KM_KeyID (CR_KeysToRelease req)
      in case kp_AuthorizeKeyRelease (co_policy c) (CR_DestinationKind req) m (CR_DecisionID req) keyIDs of
           Inl err \<Rightarrow> pureE (Inl (res, err))
         | Inr verdict \<Rightarrow>
             if \<not> PV_Authorized verdict
             then refuse h c req (hd_RequestID hs) denialPolicy m res
                    (Authority CodeAttestationDenied (''kms.CoordinateRestore: policy denied key release: '' @ PV_Reason verdict) None)
             else
               bindE (mapE (\<lambda>err. (res, Structural CodeFieldValueInvalid ''kms.CoordinateRestore: token id generation failed'' (Some err)))
                        (NewDecisionID h)) (\<lambda>tokenID.
               bindE (mapE (Pair res) (wrap_keys h tokenID at 0 (CR_KeysToRelease req))) (\<lambda>wrapped.
               bindE (readE (clock_Now h)) (\<lambda>authorizedAt.
               bindE (mapE (\<lambda>err. (res, Structural CodeFieldValueInvalid ''kms.CoordinateRestore: key release audit payload marshal failed'' (Some err)))
                        (pureE (json_Marshal h (keyReleaseAuthorized_payload c req (hd_RequestID hs) tokenID m (at_Suite at) (at_Pub at)
                           (PV_Reason verdict) authorizedAt)))) (\<lambda>payload.
               bindE (mapE (Pair res)
                        (Emit_event h KindKeyReleaseAuthorized payload (CR_SessionID req) (CR_ManifestID req) (hd_RequestID hs))) (\<lambda>eid.
               pureE (Inr \<lparr>az_TokenID = tokenID, az_Wrapped = wrapped, az_At = authorizedAt, az_AuditID = eid\<rparr>)))))))"

section \<open>Dispatching the token\<close>

definition release_token :: "Coordinator \<Rightarrow> CoordinationRequest \<Rightarrow> handshake \<Rightarrow> attested \<Rightarrow> authorization \<Rightarrow> KeyReleaseToken" where
  "release_token c req hs at az =
     \<lparr>KT_SchemaVersion = 2, KT_TokenID = az_TokenID az, KT_DecisionID = CR_DecisionID req, KT_RequestID = hd_RequestID hs,
      KT_DestinationMeasurement = at_Measurement at, KT_Wrapped = az_Wrapped az, KT_PolicyVersion = kp_PolicyVersion (co_policy c),
      KT_AuthorizedAt = az_At az, KT_SigningKeyID = co_signingKID c, KT_Alg = [], KT_Signature = [0], KT_AuditEventID = az_AuditID az\<rparr>"

definition coord_dispatch ::
    "'c host \<Rightarrow> Coordinator \<Rightarrow> CoordinationRequest \<Rightarrow> handshake \<Rightarrow> attested \<Rightarrow> authorization \<Rightarrow> ('c, CoordinationResult) coord" where
  "coord_dispatch h c req hs at az =
     (let res = (attested_result hs at)\<lparr>RS_KeyReleaseAuditID := az_AuditID az\<rparr>
      in case KeyReleaseToken_SignWith (ho_F h) (release_token c req hs at az) (co_keySigner c) of
           (Some err, token) \<Rightarrow> pureE (Inl (res, err))
         | (None, token) \<Rightarrow>
             bindE (mapE (\<lambda>err. (res, Operational CodeResourceExhausted ''kms.CoordinateRestore: token transport failed'' (Some err)))
                      (SendKeyReleaseToken h (CR_DestinationEndpoint req) token)) (\<lambda>u.
             pureE (Inr (res\<lparr>RS_RecipientKeySHA256 := SHA256 (at_Pub at), RS_RecipientKeySuite := at_Suite at,
                            RS_PolicyVersion := kp_PolicyVersion (co_policy c), RS_TokenID := az_TokenID az, RS_DispatchedAt := az_At az\<rparr>))))"

definition CoordinateRestore :: "'c host \<Rightarrow> Coordinator \<Rightarrow> CoordinationRequest \<Rightarrow> ('c, CoordinationResult) coord" where
  "CoordinateRestore h c req =
     bindE (coord_open h c req) (\<lambda>hs.
     bindE (coord_handshake h c req hs) (\<lambda>hsResp.
     bindE (coord_attest h c req hs hsResp) (\<lambda>at.
     bindE (coord_authorize h c req hs at) (\<lambda>az.
     coord_dispatch h c req hs at az))))"

end
