(* ===== verification/CoordinatorProofs.thy ===== *)
theory CoordinatorProofs
  imports Coordinator
begin

text \<open>
  What the coordinator's stretches do to the trace: which of them can send a token (the last), what a
  successful one logs, and what a refusal leaves on the record. The locale \<open>audit_recorder\<close> gives the
  events the emitter's appends add.
\<close>

section \<open>Inverting steps\<close>

lemma bindE_Inr [simp]: "bindE m k s = (Inr b, s') \<longleftrightarrow> (\<exists>a s1. m s = (Inr a, s1) \<and> k a s1 = (Inr b, s'))"
  by (auto simp: bindE_def split: prod.splits sum.splits)

lemma mapE_Inr [simp]: "mapE f m s = (Inr a, s') \<longleftrightarrow> m s = (Inr a, s')"
  by (auto simp: mapE_def split: prod.splits sum.splits)

lemma guardE_Inr [simp]: "guardE c m s = (Inr a, s') \<longleftrightarrow> c = None \<and> m s = (Inr a, s')"
  by (cases c) auto

lemma refuse_not_Inr [simp]: "refuse h c req rid stage m early refusal s \<noteq> (Inr a, s')"
  by (simp add: refuse_def split: prod.splits)

section \<open>What a step adds to the trace\<close>

text \<open>
  A step adds only events of a kind when every run of it extends the trace by such events alone. The locale
  takes a kind that admits what the coordinator's stretches do short of sending a token; its
  interpretations give the two kinds of use here: no token sent, and no waiting.
\<close>

definition adds :: "(io \<Rightarrow> bool) \<Rightarrow> 'c site \<Rightarrow> 'c site \<Rightarrow> bool" where
  "adds ok s s' \<longleftrightarrow> (\<exists>tr. nd_trace s' = nd_trace s @ tr \<and> list_all ok tr)"

definition adding :: "(io \<Rightarrow> bool) \<Rightarrow> ('c site, 'e, 'a) eff \<Rightarrow> bool" where
  "adding ok m \<longleftrightarrow> (\<forall>s r s'. m s = (r, s') \<longrightarrow> adds ok s s')"

lemma adds_refl [simp]: "adds ok s s"
  by (simp add: adds_def)

lemma adds_trans: "adds ok s s1 \<Longrightarrow> adds ok s1 s2 \<Longrightarrow> adds ok s s2"
  by (auto simp: adds_def)

lemma adds_record [simp]: "ok x \<Longrightarrow> adds ok s (record_io x s)"
  by (simp add: adds_def record_io_def)

lemma addingD: "adding ok m \<Longrightarrow> m s = (r, s') \<Longrightarrow> adds ok s s'"
  by (auto simp: adding_def)

lemma adding_bindE [intro]: "adding ok m \<Longrightarrow> (\<And>a. adding ok (k a)) \<Longrightarrow> adding ok (bindE m k)"
  unfolding adding_def by (blast elim: bindE_cases intro: adds_trans)

lemma adding_mapE [intro]: "adding ok m \<Longrightarrow> adding ok (mapE f m)"
  unfolding adding_def by (blast elim: mapE_cases)

lemma adding_pureE [intro, simp]: "adding ok (pureE r)"
  by (simp add: adding_def)

lemma adding_guardE [intro]: "adding ok m \<Longrightarrow> adding ok (guardE c m)"
  by (cases c) (auto simp: adding_def)

lemma adding_observe [intro, simp]: "adding ok (readE (\<lambda>s. (f s, s)))"
  by (simp add: adding_def)

locale plain_io =
  fixes ok :: "io \<Rightarrow> bool"
  assumes plain: "ok (ReadClock t)" "ok (DrewID i)" "ok (DrewNonce n)" "ok (Logged e)" "ok (NotLogged err)" "ok (SentHandshake ep hs)"
    "ok (FetchedReceipt ep kid)" "ok UsedKem"
begin

lemma adding_primitive [intro, simp]:
  "adding ok (NewRequestID h)" "adding ok (NewDecisionID h)" "adding ok (nonceSource h n)" "adding ok (SendHandshakeRequest h ep req)"
  "adding ok (FetchRestoreReceipt h ep kid)" "adding ok (readE (clock_Now h))" "adding ok (readE (use_kem h f))"
  by (auto simp: adding_def NewRequestID_def NewDecisionID_def nonceSource_def SendHandshakeRequest_def FetchRestoreReceipt_def
      clock_Now_def use_kem_def Let_def plain)

lemma adding_Emit [intro, simp]: "adding ok (Emit_event h kind payload sid mid rid)"
proof -
  have "adds ok s s'" if "Emit_event h kind payload sid mid rid s = (r, s')" for s r s'
    using that by (auto simp: Emit_event_def emitter_build_def clock_Now_def record_io_def Let_def adds_def plain
        split: prod.splits sum.splits)
  then show ?thesis by (auto simp: adding_def)
qed

lemma adding_refuse [intro, simp]: "adding ok (refuse h c req rid stage m early refusal)"
proof -
  have "adds ok s s1" if "Coordinator_deny h c req rid stage m refusal s = (e, s1)" for s e s1
  proof -
    obtain now s0 where n: "clock_Now h s = (now, s0)" by (cases "clock_Now h s")
    let ?m = "bindE (pureE (json_Marshal h (keyReleaseDenied_payload c req rid stage m refusal now)))
             (\<lambda>payload. Emit_event h KindKeyReleaseDenied payload (CR_SessionID req) (CR_ManifestID req) rid)"
    have "adding ok ?m" by (intro adding_bindE adding_pureE adding_Emit)
    moreover obtain r s2 where m: "?m s0 = (r, s2)" by (cases "?m s0")
    moreover have "s2 = s1" using that n m by (simp add: Coordinator_deny_def split: sum.splits)
    ultimately have "adds ok s0 s1" using addingD by blast
    moreover have "adds ok s s0" using n by (auto simp: clock_Now_def Let_def plain)
    ultimately show ?thesis by (blast intro: adds_trans)
  qed
  then show ?thesis by (auto simp: adding_def refuse_def split: prod.splits)
qed

lemma adding_wrap_keys [intro, simp]: "adding ok (wrap_keys h tokenID at i ms)"
  by (induction ms arbitrary: i) (auto simp: Let_def intro!: adding_guardE adding_bindE)

lemma adding_open: "adding ok (coord_open h c req)"
  unfolding coord_open_def by (intro adding_guardE adding_bindE adding_mapE adding_primitive adding_pureE adding_Emit)

lemma adding_handshake: "adding ok (coord_handshake h c req hs)"
  unfolding coord_handshake_def by (auto intro!: adding_guardE adding_bindE adding_mapE split: prod.splits option.splits)

lemma adding_attest: "adding ok (coord_attest h c req hs hsResp)"
  unfolding coord_attest_def Let_def
  by (auto intro!: adding_bindE adding_mapE split: option.splits sum.splits)

lemma adding_authorize: "adding ok (coord_authorize h c req hs at)"
  unfolding coord_authorize_def Let_def
  by (auto intro!: adding_bindE adding_mapE split: sum.splits)

lemma adding_dispatch: "(\<And>ep tok. ok (SentToken ep tok)) \<Longrightarrow> adding ok (coord_dispatch h c req hs at az)"
  unfolding coord_dispatch_def Let_def
  by (auto intro!: adding_bindE adding_mapE split: prod.splits option.splits)
    (simp add: adding_def SendKeyReleaseToken_def)

lemma adding_coordinate: "(\<And>ep tok. ok (SentToken ep tok)) \<Longrightarrow> adding ok (CoordinateRestore h c req)"
  unfolding CoordinateRestore_def
  by (intro adding_bindE adding_open adding_handshake adding_attest adding_authorize adding_dispatch)

end

interpretation sending_nothing: plain_io "\<lambda>x. \<not> is_sent x"
  by unfold_locales simp_all

interpretation waiting_never: plain_io "\<lambda>x. \<not> is_wait x"
  by unfold_locales simp_all

section \<open>What a successful stretch did\<close>

lemma clock_Now_eq: "clock_Now h s = (ev_Clock (ho_env h) (nd_trace s), record_io (ReadClock (ev_Clock (ho_env h) (nd_trace s))) s)"
  by (simp add: clock_Now_def Let_def)

lemma wall_Now_eq: "wall_Now h s = (ev_Wall (ho_env h) (nd_trace s), record_io (ReadWall (ev_Wall (ho_env h) (nd_trace s))) s)"
  by (simp add: wall_Now_def Let_def)

lemma record_io_simps [simp]:
  "nd_trace (record_io x s) = nd_trace s @ [x]" "nd_chain (record_io x s) = nd_chain s" "nd_counter (record_io x s) = nd_counter s"
  by (simp_all add: record_io_def)

text \<open>A wrapped key: its material's, under the attested suite and to the attested key, bound to this release.\<close>

definition wrapped_for :: "'c host \<Rightarrow> string \<Rightarrow> attested \<Rightarrow> KeyMaterial list \<Rightarrow> WrappedKey \<Rightarrow> bool" where
  "wrapped_for h tokenID at ms w \<longleftrightarrow>
     WK_Suite w = at_Suite at \<and> WK_AAD w = canonicalWrapAAD tokenID (at_Measurement at) (WK_KeyID w) \<and>
     (\<exists>m H. m \<in> set ms \<and> KM_KeyID m = WK_KeyID w \<and>
        Suite_Wrap (ho_P h) H (at_Suite at) PurposeCrossCloudDEK (KM_Plaintext m) (at_Pub at) (WK_AAD w) = Inr (WK_Ciphertext w))"

lemma wrapped_for_mono: "wrapped_for h tokenID at ms w \<Longrightarrow> set ms \<subseteq> set ms' \<Longrightarrow> wrapped_for h tokenID at ms' w"
  unfolding wrapped_for_def by blast

lemma wrap_keys_ok:
  assumes "wrap_keys h tokenID at i ms s = (Inr ws, s')"
  shows "nd_trace s' = nd_trace s @ replicate (length ms) UsedKem \<and> nd_chain s' = nd_chain s \<and> map WK_KeyID ws = map KM_KeyID ms \<and>
    list_all (\<lambda>m. KM_Purpose m = token_PurposeSealing) ms \<and> list_all (wrapped_for h tokenID at ms) ws"
  using assms
proof (induction ms arbitrary: i s ws s')
  case (Cons m ms)
  let ?aad = "canonicalWrapAAD tokenID (at_Measurement at) (KM_KeyID m)"
  from Cons.prems obtain ct ws' where
    w: "ws = \<lparr>WK_KeyID = KM_KeyID m, WK_Purpose = KM_Purpose m, WK_Suite = at_Suite at, WK_Ciphertext = ct, WK_AAD = ?aad\<rparr> # ws'" and
    p: "KM_Purpose m = token_PurposeSealing" and
    c: "Suite_Wrap (ho_P h) (ev_Kem (ho_env h) (nd_trace s)) (at_Suite at) PurposeCrossCloudDEK (KM_Plaintext m) (at_Pub at) ?aad = Inr ct" and
    r: "wrap_keys h tokenID at (Suc i) ms (record_io UsedKem s) = (Inr ws', s')"
    by (auto simp: Let_def use_kem_def)
  note IH = Cons.IH [OF r]
  have "list_all (wrapped_for h tokenID at (m # ms)) ws'"
    using IH wrapped_for_mono [of h tokenID at ms _ "m # ms"] by (auto simp: list_all_iff)
  moreover have "wrapped_for h tokenID at (m # ms) (hd ws)" unfolding w wrapped_for_def using c by auto
  ultimately show ?case using IH p unfolding w by simp
qed simp

text \<open>The destination proved itself: its Evidence verifies under this handshake's own challenge.\<close>

definition destination_proved :: "'c host \<Rightarrow> Coordinator \<Rightarrow> CoordinationRequest \<Rightarrow> io list \<Rightarrow> attested \<Rightarrow> bool" where
  "destination_proved h c req tr at \<longleftrightarrow>
     (\<exists>v ev detail nonce hsReq. DrewNonce (Inr nonce) \<in> set tr \<and> NonceMinBytes \<le> length nonce \<and>
        SentHandshake (CR_DestinationEndpoint req) hsReq \<in> set tr \<and> HR_HandshakeNonce hsReq = nonce \<and>
        Registry_Resolve (co_verifiers c) (CR_DestinationKind req) = Inr v \<and>
        VerifyDetailed v ev (RecipientChallengeV2 (ho_SHA512 h) (at_Suite at) (at_Pub at) nonce) = Inr (at_Measurement at, detail))"

context audit_recorder begin

definition steps :: "'c site \<Rightarrow> 'c site \<Rightarrow> io list \<Rightarrow> bool" where
  "steps s s' tr \<longleftrightarrow> nd_trace s' = nd_trace s @ tr \<and> events (nd_chain s') = events (nd_chain s) @ logged tr"

lemma steps_trans: "steps s s1 tr \<Longrightarrow> steps s1 s2 tr' \<Longrightarrow> steps s s2 (tr @ tr')"
  by (simp add: steps_def)

lemma Emit_logged:
  assumes "ho_Append h = app" "Emit_event h kind payload sid mid rid s = (Inr eid, s')"
  obtains now e where "steps s s' [ReadClock now, Logged e]" "AE_EventID e = eid" "AE_Kind e = kind" "AE_Payload e = payload"
proof -
  obtain c evt e where a: "app (nd_chain s) evt (Some (ho_signer h)) = (Inr e, c)" "AE_Kind evt = kind" "AE_Payload evt = payload"
      "eid = AE_EventID e" and s': "nd_chain s' = c" "nd_trace s' = nd_trace s @ [ReadClock (ev_Clock (ho_env h) (nd_trace s)), Logged e]"
    using assms by (auto simp: Emit_event_def emitter_build_def clock_Now_eq Let_def split: prod.splits sum.splits)
  then show thesis using recorded [OF a(1)] by (intro that [of _ e]) (auto simp: steps_def)
qed

lemma coord_open_ok:
  assumes "ho_Append h = app" "coord_open h c req s = (Inr hs, s')"
  obtains t t' e where "validateRequest c req = None" "NonceMinBytes \<le> length (hd_Nonce hs)"
    "steps s s' [DrewID (Inr (hd_RequestID hs)), DrewNonce (Inr (hd_Nonce hs)), ReadClock t, ReadClock t', Logged e]"
    "AE_Kind e = KindHandshakeInitiated" "AE_EventID e = hd_AuditID hs"
proof -
  obtain payload s1 where v: "validateRequest c req = None" "NonceMinBytes \<le> length (hd_Nonce hs)" and
    s1: "s1 = record_io (ReadClock (hd_At hs)) (record_io (DrewNonce (Inr (hd_Nonce hs))) (record_io (DrewID (Inr (hd_RequestID hs))) s))" and
    em: "Emit_event h KindHandshakeInitiated payload (CR_SessionID req) (CR_ManifestID req) (hd_RequestID hs) s1 = (Inr (hd_AuditID hs), s')"
    using assms(2) by (auto simp: coord_open_def NewRequestID_def nonceSource_def clock_Now_eq Let_def)
  from Emit_logged [OF assms(1) em] obtain t' e where e: "steps s1 s' [ReadClock t', Logged e]"
      "AE_EventID e = hd_AuditID hs" "AE_Kind e = KindHandshakeInitiated" by metis
  then show thesis using v s1 by (intro that [of "hd_At hs" t' e]) (auto simp: steps_def)
qed

lemma coord_handshake_ok:
  assumes "coord_handshake h c req hs s = (Inr resp, s')"
  obtains hsReq where "CrossCloudHandshakeRequest_SignWith (ho_F h) (handshake_request c req hs) (co_keySigner c) = (None, hsReq)"
    "steps s s' [SentHandshake (CR_DestinationEndpoint req) hsReq]" "HP_Evidence resp \<noteq> []"
  using assms by (auto simp: coord_handshake_def SendHandshakeRequest_def steps_def split: prod.splits option.splits)

lemma coord_attest_ok:
  assumes "ho_Append h = app" "coord_attest h c req hs resp s = (Inr at, s')"
  obtains t t' e v detail where "SuitePolicy_Allows (co_suites c) (at_Suite at)"
    "Registry_Resolve (co_verifiers c) (CR_DestinationKind req) = Inr v"
    "VerifyDetailed v (HP_Evidence resp) (RecipientChallengeV2 (ho_SHA512 h) (at_Suite at) (at_Pub at) (hd_Nonce hs)) = Inr (at_Measurement at, detail)"
    "steps s s' [UsedKem, ReadClock t, ReadClock t', Logged e]" "AE_Kind e = KindAttestationVerified" "AE_EventID e = at_AuditID at"
proof -
  obtain v detail t payload s1 where p: "SuitePolicy_Allows (co_suites c) (at_Suite at)"
    "Registry_Resolve (co_verifiers c) (CR_DestinationKind req) = Inr v"
    "VerifyDetailed v (HP_Evidence resp) (RecipientChallengeV2 (ho_SHA512 h) (at_Suite at) (at_Pub at) (hd_Nonce hs)) = Inr (at_Measurement at, detail)" and
    s1: "s1 = record_io (ReadClock t) (record_io UsedKem s)" and
    em: "Emit_event h KindAttestationVerified payload (CR_SessionID req) (CR_ManifestID req) (hd_RequestID hs) s1 = (Inr (at_AuditID at), s')"
    using assms(2) by (auto simp: coord_attest_def Let_def use_kem_def clock_Now_eq split: if_splits option.splits sum.splits prod.splits)
  from Emit_logged [OF assms(1) em] obtain t' e where e: "steps s1 s' [ReadClock t', Logged e]"
      "AE_EventID e = at_AuditID at" "AE_Kind e = KindAttestationVerified" by metis
  with p s1 show thesis by (intro that [of v detail t t' e]) (auto simp: steps_def)
qed

lemma coord_authorize_ok:
  assumes "ho_Append h = app" "coord_authorize h c req hs at s = (Inr az, s')"
  obtains t t' e s1 s2 where "authorized (co_policy c) (CR_DestinationKind req) (at_Measurement at) (CR_DecisionID req) (map KM_KeyID (CR_KeysToRelease req))"
    "wrap_keys h (az_TokenID az) at 0 (CR_KeysToRelease req) s1 = (Inr (az_Wrapped az), s2)"
    "steps s s' ([DrewID (Inr (az_TokenID az))] @ replicate (length (CR_KeysToRelease req)) UsedKem @ [ReadClock t, ReadClock t', Logged e])"
    "AE_Kind e = KindKeyReleaseAuthorized" "AE_EventID e = az_AuditID az"
proof -
  obtain s1 s2 s3 payload where p: "authorized (co_policy c) (CR_DestinationKind req) (at_Measurement at) (CR_DecisionID req) (map KM_KeyID (CR_KeysToRelease req))" and
    s1: "s1 = record_io (DrewID (Inr (az_TokenID az))) s" and
    w: "wrap_keys h (az_TokenID az) at 0 (CR_KeysToRelease req) s1 = (Inr (az_Wrapped az), s2)" and
    s3: "s3 = record_io (ReadClock (az_At az)) s2" and
    em: "Emit_event h KindKeyReleaseAuthorized payload (CR_SessionID req) (CR_ManifestID req) (hd_RequestID hs) s3 = (Inr (az_AuditID az), s')"
    using assms(2)
    by (auto simp: coord_authorize_def Let_def clock_Now_eq NewDecisionID_def authorized_def split: if_splits sum.splits)
  from Emit_logged [OF assms(1) em] obtain t' e where e: "steps s3 s' [ReadClock t', Logged e]"
      "AE_EventID e = az_AuditID az" "AE_Kind e = KindKeyReleaseAuthorized" by metis
  have l: "logged (replicate n UsedKem) = []" for n by (induction n) simp_all
  have "steps s s' ([DrewID (Inr (az_TokenID az))] @ replicate (length (CR_KeysToRelease req)) UsedKem @ [ReadClock (az_At az), ReadClock t', Logged e])"
    using wrap_keys_ok [OF w] s1 s3 e(1) by (simp add: steps_def l)
  then show thesis using p w e by (intro that [of s1 s2 "az_At az" t' e]) auto
qed


lemma handshake_sign_keeps:
  assumes "CrossCloudHandshakeRequest_SignWith F r sg = (None, r')"
  shows "HR_HandshakeNonce r' = HR_HandshakeNonce r"
  using handshake_contract.SignWith_ok_shape assms
  by (fastforce simp: CrossCloudHandshakeRequest_SignWith_def CrossCloudHandshakeRequest_contract_def)

lemma token_sign_keeps:
  assumes "KeyReleaseToken_SignWith F r sg = (None, r')"
  shows "\<exists>alg sig. r' = r\<lparr>KT_Alg := alg, KT_Signature := sig\<rparr>"
  using token_contract.SignWith_ok_shape assms
  by (fastforce simp: KeyReleaseToken_SignWith_def KeyReleaseToken_contract_def)

text \<open>Everything up to the dispatch: three events, the destination proved, the policy's consent.\<close>

lemma before_dispatch:
  assumes app: "ho_Append h = app"
    and run: "coord_open h c req s = (Inr hs, s1)" "coord_handshake h c req hs s1 = (Inr resp, s2)"
      "coord_attest h c req hs resp s2 = (Inr at, s3)" "coord_authorize h c req hs at s3 = (Inr az, s4)"
  obtains pre e1 e2 e3 where "steps s s4 pre" "list_all (\<lambda>x. \<not> is_sent x) pre" "logged pre = [e1, e2, e3]"
    "map AE_Kind [e1, e2, e3] = [KindHandshakeInitiated, KindAttestationVerified, KindKeyReleaseAuthorized]"
    "az_AuditID az = AE_EventID e3" "destination_proved h c req pre at" "SuitePolicy_Allows (co_suites c) (at_Suite at)"
    "authorized (co_policy c) (CR_DestinationKind req) (at_Measurement at) (CR_DecisionID req) (map KM_KeyID (CR_KeysToRelease req))"
    "map WK_KeyID (az_Wrapped az) = map KM_KeyID (CR_KeysToRelease req)"
    "list_all (wrapped_for h (az_TokenID az) at (CR_KeysToRelease req)) (az_Wrapped az)"
proof -
  obtain t1 t1' e1 where o: "NonceMinBytes \<le> length (hd_Nonce hs)"
    "steps s s1 [DrewID (Inr (hd_RequestID hs)), DrewNonce (Inr (hd_Nonce hs)), ReadClock t1, ReadClock t1', Logged e1]"
    "AE_Kind e1 = KindHandshakeInitiated" using coord_open_ok [OF app run(1)] by metis
  obtain hsReq where r: "CrossCloudHandshakeRequest_SignWith (ho_F h) (handshake_request c req hs) (co_keySigner c) = (None, hsReq)"
    "steps s1 s2 [SentHandshake (CR_DestinationEndpoint req) hsReq]" using coord_handshake_ok [OF run(2)] by metis
  obtain t2 t2' e2 v detail where a: "SuitePolicy_Allows (co_suites c) (at_Suite at)"
    "Registry_Resolve (co_verifiers c) (CR_DestinationKind req) = Inr v"
    "VerifyDetailed v (HP_Evidence resp) (RecipientChallengeV2 (ho_SHA512 h) (at_Suite at) (at_Pub at) (hd_Nonce hs)) = Inr (at_Measurement at, detail)"
    "steps s2 s3 [UsedKem, ReadClock t2, ReadClock t2', Logged e2]" "AE_Kind e2 = KindAttestationVerified"
    using coord_attest_ok [OF app run(3)] by metis
  obtain t3 t3' e3 u u' where z: "authorized (co_policy c) (CR_DestinationKind req) (at_Measurement at) (CR_DecisionID req) (map KM_KeyID (CR_KeysToRelease req))"
    "wrap_keys h (az_TokenID az) at 0 (CR_KeysToRelease req) u = (Inr (az_Wrapped az), u')"
    "steps s3 s4 ([DrewID (Inr (az_TokenID az))] @ replicate (length (CR_KeysToRelease req)) UsedKem @ [ReadClock t3, ReadClock t3', Logged e3])"
    "AE_Kind e3 = KindKeyReleaseAuthorized" "AE_EventID e3 = az_AuditID az" using coord_authorize_ok [OF app run(4)] by metis
  have nonce: "HR_HandshakeNonce hsReq = hd_Nonce hs"
    using handshake_sign_keeps [OF r(1)] by (simp add: handshake_request_def)
  have l: "logged (replicate n UsedKem) = []" "list_all (\<lambda>x. \<not> is_sent x) (replicate n UsedKem)" for n
    by (induction n) simp_all
  let ?pre = "(([DrewID (Inr (hd_RequestID hs)), DrewNonce (Inr (hd_Nonce hs)), ReadClock t1, ReadClock t1', Logged e1] @
      [SentHandshake (CR_DestinationEndpoint req) hsReq]) @ [UsedKem, ReadClock t2, ReadClock t2', Logged e2]) @
      ([DrewID (Inr (az_TokenID az))] @ replicate (length (CR_KeysToRelease req)) UsedKem @ [ReadClock t3, ReadClock t3', Logged e3])"
  have "steps s s4 ?pre" by (rule steps_trans [OF steps_trans [OF steps_trans [OF o(2) r(2)] a(4)] z(3)])
  moreover have "destination_proved h c req ?pre at"
    unfolding destination_proved_def using o(1) nonce a(2,3) by (intro exI [of _ v] exI [of _ "HP_Evidence resp"] exI [of _ detail]
        exI [of _ "hd_Nonce hs"] exI [of _ hsReq]) simp
  ultimately show thesis
    using o(3) a(1,5) z(1,4,5) wrap_keys_ok [OF z(2)] by (intro that [of ?pre e1 e2 e3]) (simp_all add: l)
qed

lemma CoordinateRestore_sent:
  assumes app: "ho_Append h = app" and run: "CoordinateRestore h c req s = (r, s')"
    and tr: "nd_trace s' = nd_trace s @ tr" "SentToken ep tok \<in> set tr"
  obtains pre at e1 e2 e3 where "tr = pre @ [SentToken ep tok]" "list_all (\<lambda>x. \<not> is_sent x) pre"
    "ep = CR_DestinationEndpoint req" "events (nd_chain s') = events (nd_chain s) @ [e1, e2, e3]" "logged pre = [e1, e2, e3]"
    "map AE_Kind [e1, e2, e3] = [KindHandshakeInitiated, KindAttestationVerified, KindKeyReleaseAuthorized]"
    "KT_AuditEventID tok = AE_EventID e3" "KT_DestinationMeasurement tok = at_Measurement at" "KT_DecisionID tok = CR_DecisionID req"
    "destination_proved h c req pre at" "SuitePolicy_Allows (co_suites c) (at_Suite at)"
    "authorized (co_policy c) (CR_DestinationKind req) (at_Measurement at) (CR_DecisionID req) (map KM_KeyID (CR_KeysToRelease req))"
    "map WK_KeyID (KT_Wrapped tok) = map KM_KeyID (CR_KeysToRelease req)"
    "list_all (wrapped_for h (KT_TokenID tok) at (CR_KeysToRelease req)) (KT_Wrapped tok)"
proof -
  have no: False if "adds (\<lambda>x. \<not> is_sent x) s s'"
    using that tr by (auto simp: adds_def list_all_iff)
  from run obtain hs s1 where 1: "coord_open h c req s = (Inr hs, s1)" and
    run1: "bindE (coord_handshake h c req hs) (\<lambda>hsResp. bindE (coord_attest h c req hs hsResp) (\<lambda>at.
      bindE (coord_authorize h c req hs at) (\<lambda>az. coord_dispatch h c req hs at az))) s1 = (r, s')"
    unfolding CoordinateRestore_def by (rule bindE_cases) (use no addingD [OF sending_nothing.adding_open] in blast)+
  note q1 = addingD [OF sending_nothing.adding_open 1]
  from run1 obtain resp s2 where 2: "coord_handshake h c req hs s1 = (Inr resp, s2)" and
    run2: "bindE (coord_attest h c req hs resp) (\<lambda>at. bindE (coord_authorize h c req hs at) (\<lambda>az. coord_dispatch h c req hs at az)) s2 = (r, s')"
    by (rule bindE_cases) (use no q1 addingD [OF sending_nothing.adding_handshake] adds_trans in blast)+
  note q2 = adds_trans [OF q1 addingD [OF sending_nothing.adding_handshake 2]]
  from run2 obtain at s3 where 3: "coord_attest h c req hs resp s2 = (Inr at, s3)" and
    run3: "bindE (coord_authorize h c req hs at) (\<lambda>az. coord_dispatch h c req hs at az) s3 = (r, s')"
    by (rule bindE_cases) (use no q2 addingD [OF sending_nothing.adding_attest] adds_trans in blast)+
  note q3 = adds_trans [OF q2 addingD [OF sending_nothing.adding_attest 3]]
  from run3 obtain az s4 where 4: "coord_authorize h c req hs at s3 = (Inr az, s4)" and
    run4: "coord_dispatch h c req hs at az s4 = (r, s')"
    by (rule bindE_cases) (use no q3 addingD [OF sending_nothing.adding_authorize] adds_trans in blast)+
  obtain pre e1 e2 e3 where p: "steps s s4 pre" "list_all (\<lambda>x. \<not> is_sent x) pre" "logged pre = [e1, e2, e3]"
    "map AE_Kind [e1, e2, e3] = [KindHandshakeInitiated, KindAttestationVerified, KindKeyReleaseAuthorized]"
    "az_AuditID az = AE_EventID e3" "destination_proved h c req pre at" "SuitePolicy_Allows (co_suites c) (at_Suite at)"
    "authorized (co_policy c) (CR_DestinationKind req) (at_Measurement at) (CR_DecisionID req) (map KM_KeyID (CR_KeysToRelease req))"
    "map WK_KeyID (az_Wrapped az) = map KM_KeyID (CR_KeysToRelease req)"
    "list_all (wrapped_for h (az_TokenID az) at (CR_KeysToRelease req)) (az_Wrapped az)"
    using before_dispatch [OF app 1 2 3 4] .
  show thesis
  proof (cases "KeyReleaseToken_SignWith (ho_F h) (release_token c req hs at az) (co_keySigner c)")
    case (Pair err token)
    have "err = None"
      using run4 Pair no adds_trans [OF q3 addingD [OF sending_nothing.adding_authorize 4]] by (cases err) (auto simp: coord_dispatch_def Let_def)
    with Pair obtain alg sig where token: "token = (release_token c req hs at az)\<lparr>KT_Alg := alg, KT_Signature := sig\<rparr>"
      using token_sign_keeps by blast
    have "nd_trace s' = nd_trace s4 @ [SentToken (CR_DestinationEndpoint req) token] \<and> nd_chain s' = nd_chain s4"
      using run4 Pair \<open>err = None\<close>
      by (auto simp: coord_dispatch_def Let_def SendKeyReleaseToken_def elim!: bindE_cases mapE_cases)
    moreover from this have "tr = pre @ [SentToken (CR_DestinationEndpoint req) token]" using p(1) tr(1) by (simp add: steps_def)
    moreover from this have "ep = CR_DestinationEndpoint req \<and> tok = token"
      using p(2) tr(2) by (auto simp: list_all_iff)
    ultimately show thesis
      using p by (intro that [of pre e1 e2 e3 at]) (simp_all add: steps_def token release_token_def)
  qed
qed

end

end
