(* ===== verification/ReleaseLive.thy ===== *)
theory ReleaseLive
  imports CoordinatorProofs LiveSigners
begin

text \<open>
  Progress of the coordinator: with signers that sign, a clock in the years JSON can write, identifiers in
  ASCII and a destination that proves itself, the release runs to its end. A small concrete host shows that
  the conditions can hold together.
\<close>

section \<open>A host that records\<close>

definition recording_host :: "(bytes \<Rightarrow> bytes) \<Rightarrow> InMemoryChain host \<Rightarrow> bool" where
  "recording_host H h \<longleftrightarrow>
     ho_Append h = Chain_Append H (ho_F h) \<and> live_signer (ho_signer h) (ho_signerKID h) PurposeSigningAudit \<and>
     ascii (ho_prefix h) \<and> (\<forall>j. ho_J h j \<noteq> []) \<and>
     (\<forall>tr. ev_Clock (ho_env h) tr \<noteq> zero_time \<and> marshal_time (ev_Clock (ho_env h) tr) \<noteq> None)"

lemma fmt_016x_ascii [simp]: "ascii (fmt_016x n)"
  by (simp add: fmt_016x_def)

lemma fmt_016x_not_Nil [simp]: "fmt_016x n \<noteq> []"
  by (metis fmt_016x_def length_hex_encode length_PutUint(3) list.size(3) mult_eq_0_iff zero_neq_numeral)

lemma json_Marshal_live:
  assumes "recording_host H h" "in_years ws"
  obtains p where "json_Marshal h ws = Inr p" "p \<noteq> []"
proof -
  obtain kvs where "wire_fields ws = Inr kvs" using wire_fields_total [OF assms(2)] by blast
  then show thesis using assms(1) that by (simp add: json_Marshal_def marshal_wire_def recording_host_def)
qed

lemma Emit_live_host:
  assumes h: "recording_host H h" "\<And>x. length (H x) = HashSize"
    and a: "payload \<noteq> []" "kind \<in> set validKinds" "ascii kind" "ascii sid" "ascii mid" "ascii rid"
      "length (IC_tip (nd_chain s)) = HashSize"
  obtains eid s' where "Emit_event h kind payload sid mid rid s = (Inr eid, s')" "length (IC_tip (nd_chain s')) = HashSize" "ascii eid"
proof -
  let ?now = "ev_Clock (ho_env h) (nd_trace s)"
  let ?e = "\<lparr>AE_SchemaVersion = 9, AE_EventID = ho_prefix h @ fmt_016x (nd_counter s + 1), AE_Kind = kind, AE_OccurredAt = ?now,
        AE_SessionID = sid, AE_ManifestID = mid, AE_RequestID = rid, AE_Payload = payload, AE_PrevHash = [], AE_Hash = [],
        AE_SigningKeyID = ho_signerKID h, AE_Alg = [], AE_Signature = []\<rparr>"
  obtain w where w: "marshal_time ?now = Some w" using h(1) by (auto simp: recording_host_def)
  have "\<exists>e' c'. Chain_Append H (ho_F h) (nd_chain s) ?e (Some (ho_signer h)) = (Inr e', c') \<and> length (IC_tip c') = HashSize"
    by (rule Chain_Append_live [where w = w])
      (use h a w in \<open>simp_all add: utf8_event_def live_signer_def recording_host_def\<close>)
  then obtain e' c' where e': "Chain_Append H (ho_F h) (nd_chain s) ?e (Some (ho_signer h)) = (Inr e', c')" "length (IC_tip c') = HashSize"
    by blast
  have "ascii (AE_EventID e')" using in_memory_recorder.recorded [OF e'(1)] h(1) by (simp add: recording_host_def)
  moreover have "ho_Append h (nd_chain s) ?e (Some (ho_signer h)) = (Inr e', c')" using e'(1) h(1) by (simp add: recording_host_def)
  ultimately show thesis using e'(2)
    by (intro that) (auto simp: Emit_event_def emitter_build_def clock_Now_eq Let_def audit_SchemaVersionMax_def)
qed

section \<open>A destination that answers\<close>

text \<open>
  Whatever happened so far: identifiers and nonces come, the destination names an allowed suite and a usable
  key, its Evidence verifies under the challenge, the policy consents, and the keys wrap.
\<close>

definition good_answer :: "'c host \<Rightarrow> Coordinator \<Rightarrow> CoordinationRequest \<Rightarrow> CrossCloudHandshakeRequest \<Rightarrow> HandshakeResponse \<Rightarrow> bool" where
  "good_answer h c req hsReq resp \<longleftrightarrow>
     (let suite = HP_RecipientKeySuite resp; pub = HP_RecipientPublicKey resp in
      HP_Evidence resp \<noteq> [] \<and> suite \<noteq> [] \<and> SuitePolicy_Allows (co_suites c) suite \<and>
      (\<forall>tr. Suite_ValidateRecipientPublicKey (ev_Kem (ho_env h) tr) suite pub = None) \<and>
      (\<forall>tr k aad. k \<noteq> [] \<longrightarrow> (\<exists>ct. Suite_Wrap (ho_P h) (ev_Kem (ho_env h) tr) suite PurposeCrossCloudDEK k pub aad = Inr ct)) \<and>
      (\<exists>v m detail. Registry_Resolve (co_verifiers c) (CR_DestinationKind req) = Inr v \<and>
         VerifyDetailed v (HP_Evidence resp) (RecipientChallengeV2 (ho_SHA512 h) suite pub (HR_HandshakeNonce hsReq)) = Inr (m, detail) \<and>
         authorized (co_policy c) (CR_DestinationKind req) m (CR_DecisionID req) (map KM_KeyID (CR_KeysToRelease req))))"

definition answering :: "'c host \<Rightarrow> Coordinator \<Rightarrow> CoordinationRequest \<Rightarrow> bool" where
  "answering h c req \<longleftrightarrow>
     (\<forall>tr. (\<exists>i. ev_RequestID (ho_env h) tr = Inr i \<and> ascii i) \<and> (\<exists>i. ev_DecisionID (ho_env h) tr = Inr i \<and> ascii i) \<and>
           (\<exists>n. ev_Nonce (ho_env h) tr NonceMinBytes = Inr n \<and> NonceMinBytes \<le> length n) \<and>
           (\<forall>ep t. ev_Token (ho_env h) tr ep t = None) \<and>
           (\<forall>ep r. \<exists>resp. ev_Handshake (ho_env h) tr ep r = Inr resp \<and> good_answer h c req r resp))"

definition release_ready :: "Coordinator \<Rightarrow> CoordinationRequest \<Rightarrow> bool" where
  "release_ready c req \<longleftrightarrow>
     live_signer (co_keySigner c) (co_signingKID c) PurposeSigningAuthority \<and> list_all ascii (sp_suites (co_suites c)) \<and>
     ascii (kp_PolicyVersion (co_policy c)) \<and> validateRequest c req = None \<and>
     ascii (CR_DecisionID req) \<and> ascii (CR_DestinationKind req) \<and> ascii (CR_DestinationEndpoint req) \<and>
     ascii (CR_SessionID req) \<and> ascii (CR_ManifestID req) \<and>
     list_all (\<lambda>m. KM_Purpose m = token_PurposeSealing \<and> ascii (KM_KeyID m)) (CR_KeysToRelease req)"

lemma check_materials_ok: "check_materials i ms = None \<Longrightarrow> list_all (\<lambda>m. KM_Plaintext m \<noteq> []) ms"
  by (induction ms arbitrary: i) (auto split: if_splits)

lemma wrap_keys_live:
  assumes "\<And>tr k aad. k \<noteq> [] \<Longrightarrow> \<exists>ct. Suite_Wrap (ho_P h) (ev_Kem (ho_env h) tr) (at_Suite at) PurposeCrossCloudDEK k (at_Pub at) aad = Inr ct"
    and "list_all (\<lambda>m. KM_Purpose m = token_PurposeSealing \<and> KM_Plaintext m \<noteq> []) ms"
  shows "\<exists>ws s'. wrap_keys h tok at i ms s = (Inr ws, s')"
  using assms(2)
proof (induction ms arbitrary: i s)
  case (Cons m ms)
  obtain ct where "Suite_Wrap (ho_P h) (ev_Kem (ho_env h) (nd_trace s)) (at_Suite at) PurposeCrossCloudDEK (KM_Plaintext m) (at_Pub at)
      (canonicalWrapAAD tok (at_Measurement at) (KM_KeyID m)) = Inr ct"
    using assms(1) Cons.prems by fastforce
  moreover obtain ws s' where "wrap_keys h tok at (Suc i) ms (record_io UsedKem s) = (Inr ws, s')" using Cons by force
  ultimately show ?case using Cons.prems by (simp add: Let_def use_kem_def bindE_def readE_def pureE_def)
qed (simp add: pureE_def)

lemma bindE_live: "m s = (Inr a, s1) \<Longrightarrow> bindE m k s = k a s1"
  by (simp add: bindE_def)

lemma mapE_live: "m s = (Inr a, s1) \<Longrightarrow> mapE f m s = (Inr a, s1)"
  by (simp add: mapE_def)

lemmas live_steps = bindE_def mapE_def readE_def pureE_def guardE_def

lemma coord_open_live:
  assumes h: "recording_host H h" "\<And>x. length (H x) = HashSize" and r: "answering h c req" "release_ready c req"
    and tip: "length (IC_tip (nd_chain s)) = HashSize"
  obtains hs s' where "coord_open h c req s = (Inr hs, s')" "length (IC_tip (nd_chain s')) = HashSize"
    "ascii (hd_RequestID hs)" "ascii (hd_AuditID hs)" "marshal_time (hd_At hs) \<noteq> None"
proof -
  obtain rid where rid: "ev_RequestID (ho_env h) (nd_trace s) = Inr rid" "ascii rid" using r(1) unfolding answering_def by blast
  let ?s1 = "record_io (DrewID (Inr rid)) s"
  obtain n where n: "ev_Nonce (ho_env h) (nd_trace ?s1) NonceMinBytes = Inr n" "NonceMinBytes \<le> length n"
    using r(1) unfolding answering_def by blast
  let ?s2 = "record_io (DrewNonce (Inr n)) ?s1"
  let ?now = "ev_Clock (ho_env h) (nd_trace ?s2)"
  let ?s3 = "record_io (ReadClock ?now) ?s2"
  have now: "marshal_time ?now \<noteq> None" using h(1) by (auto simp: recording_host_def simp del: record_io_simps)
  obtain p where p: "json_Marshal h (handshakeInitiated_payload req rid n ?now) = Inr p" "p \<noteq> []"
    by (rule json_Marshal_live [OF h(1), of "handshakeInitiated_payload req rid n ?now"])
      (use now in \<open>simp add: in_years_def handshakeInitiated_payload_def\<close>)
  obtain eid s' where e: "Emit_event h KindHandshakeInitiated p (CR_SessionID req) (CR_ManifestID req) rid ?s3 = (Inr eid, s')"
      "length (IC_tip (nd_chain s')) = HashSize" "ascii eid"
    by (rule Emit_live_host [OF h p(2), where kind = KindHandshakeInitiated and sid = "CR_SessionID req" and
          mid = "CR_ManifestID req" and rid = rid and s = ?s3])
      (use r(2) rid tip in \<open>simp_all add: KindHandshakeInitiated_def validKinds_def release_ready_def\<close>)
  have "coord_open h c req s = (Inr \<lparr>hd_RequestID = rid, hd_Nonce = n, hd_At = ?now, hd_AuditID = eid\<rparr>, s')"
    using r(2) rid(1) n p(1) e(1)
    by (simp add: coord_open_def release_ready_def live_steps NewRequestID_def nonceSource_def clock_Now_eq Let_def)
  then show thesis using e(2,3) rid(2) now by (intro that) auto
qed


lemma coord_handshake_live:
  assumes r: "answering h c req" "release_ready c req"
    and hs: "ascii (hd_RequestID hs)" "ascii (hd_AuditID hs)" "marshal_time (hd_At hs) \<noteq> None"
  obtains resp hsReq where "coord_handshake h c req hs s = (Inr resp, record_io (SentHandshake (CR_DestinationEndpoint req) hsReq) s)"
    "good_answer h c req hsReq resp" "HR_HandshakeNonce hsReq = hd_Nonce hs"
proof -
  let ?c = CrossCloudHandshakeRequest_contract and ?d = "handshake_request c req hs"
  obtain alg where alg: "keys_RecordAlg (co_keySigner c) (co_signingKID c) = Inr alg" "ascii alg"
    using r(2) by (auto simp: release_ready_def live_signer_def)
  have suites: "canon_tree (JArr (map JStr (sp_suites (co_suites c))))"
    using r(2) by (auto simp: release_ready_def list_all_iff)
  have ob: "case opt_bytes b of None \<Rightarrow> True | Some j \<Rightarrow> canon_tree j" for b using wire_ok_opt_bytes [of b] by simp
  have "contract_clean ?c (ct_SetAlg ?c alg ?d)" "in_years (ct_Wire ?c (ct_SetSig ?c [] (ct_SetAlg ?c alg ?d)))"
    using r(2) hs alg(2) suites ob
    by (simp_all add: CrossCloudHandshakeRequest_contract_def CrossCloudHandshakeRequest_fields_def contract_clean_def fields_ok_def
        in_years_def handshake_request_def release_ready_def live_signer_def suites_json_def del: canon_tree.simps(5))
  then obtain sig where sig: "contract_SignWith ?c (ho_F h) ?d (co_keySigner c) = (None, ct_SetSig ?c sig (ct_SetAlg ?c alg ?d))"
    using handshake_contract.SignWith_live [of ?d "co_keySigner c" alg "ho_F h"] r(2) alg(1)
    by (auto simp: release_ready_def live_signer_def handshake_request_def CrossCloudHandshakeRequest_contract_def)
  let ?r = "?d\<lparr>HR_Alg := alg, HR_Signature := sig\<rparr>"
  have s: "CrossCloudHandshakeRequest_SignWith (ho_F h) ?d (co_keySigner c) = (None, ?r)"
    using sig by (simp add: CrossCloudHandshakeRequest_SignWith_def CrossCloudHandshakeRequest_contract_def)
  obtain resp where resp: "ev_Handshake (ho_env h) (nd_trace s) (CR_DestinationEndpoint req) ?r = Inr resp" "good_answer h c req ?r resp"
    using r(1) unfolding answering_def by blast
  then have "coord_handshake h c req hs s = (Inr resp, record_io (SentHandshake (CR_DestinationEndpoint req) ?r) s)"
    using s by (simp add: coord_handshake_def SendHandshakeRequest_def live_steps good_answer_def Let_def)
  then show thesis using resp(2) by (intro that) (auto simp: handshake_request_def)
qed

lemma coord_attest_live:
  assumes h: "recording_host H h" "\<And>x. length (H x) = HashSize" and r: "release_ready c req"
    and hs: "ascii (hd_RequestID hs)" and good: "good_answer h c req hsReq resp" "HR_HandshakeNonce hsReq = hd_Nonce hs"
    and tip: "length (IC_tip (nd_chain s)) = HashSize"
  obtains at s' where "coord_attest h c req hs resp s = (Inr at, s')" "length (IC_tip (nd_chain s')) = HashSize"
    "at_Suite at = HP_RecipientKeySuite resp" "at_Pub at = HP_RecipientPublicKey resp"
    "authorized (co_policy c) (CR_DestinationKind req) (at_Measurement at) (CR_DecisionID req) (map KM_KeyID (CR_KeysToRelease req))"
proof -
  let ?suite = "HP_RecipientKeySuite resp" and ?pub = "HP_RecipientPublicKey resp"
  obtain v m detail where v: "Registry_Resolve (co_verifiers c) (CR_DestinationKind req) = Inr v"
    "VerifyDetailed v (HP_Evidence resp) (RecipientChallengeV2 (ho_SHA512 h) ?suite ?pub (hd_Nonce hs)) = Inr (m, detail)"
    "authorized (co_policy c) (CR_DestinationKind req) m (CR_DecisionID req) (map KM_KeyID (CR_KeysToRelease req))"
    using good by (auto simp: good_answer_def Let_def)
  let ?s1 = "record_io UsedKem s"
  let ?now = "ev_Clock (ho_env h) (nd_trace ?s1)"
  let ?s2 = "record_io (ReadClock ?now) ?s1"
  let ?ws = "attestationVerified_payload req (hd_RequestID hs) m detail (HP_Evidence resp) ?pub ?suite ?now"
  have now: "marshal_time ?now \<noteq> None" using h(1) by (auto simp: recording_host_def simp del: record_io_simps)
  obtain p where p: "json_Marshal h ?ws = Inr p" "p \<noteq> []"
    by (rule json_Marshal_live [OF h(1), of ?ws]) (use now in \<open>simp add: in_years_def attestationVerified_payload_def\<close>)
  obtain eid s' where e: "Emit_event h KindAttestationVerified p (CR_SessionID req) (CR_ManifestID req) (hd_RequestID hs) ?s2 = (Inr eid, s')"
      "length (IC_tip (nd_chain s')) = HashSize"
    by (rule Emit_live_host [OF h p(2), where kind = KindAttestationVerified and sid = "CR_SessionID req" and
          mid = "CR_ManifestID req" and rid = "hd_RequestID hs" and s = ?s2])
      (use r hs tip in \<open>simp_all add: KindAttestationVerified_def validKinds_def release_ready_def\<close>)
  have g: "?suite \<noteq> []" "SuitePolicy_Allows (co_suites c) ?suite" "\<And>tr. Suite_ValidateRecipientPublicKey (ev_Kem (ho_env h) tr) ?suite ?pub = None"
    using good(1) by (auto simp: good_answer_def Let_def)
  have "coord_attest h c req hs resp s = (Inr \<lparr>at_Suite = ?suite, at_Pub = ?pub, at_Measurement = m, at_AuditID = eid\<rparr>, s')"
    using g v(1,2) p(1) e(1) by (simp add: coord_attest_def live_steps use_kem_def clock_Now_eq Let_def)
  then show thesis using e(2) v(3) by (intro that) auto
qed

lemma coord_authorize_live:
  assumes h: "recording_host H h" "\<And>x. length (H x) = HashSize" and r: "answering h c req" "release_ready c req"
    and hs: "ascii (hd_RequestID hs)" and good: "good_answer h c req hsReq resp"
    and at: "at_Suite at = HP_RecipientKeySuite resp" "at_Pub at = HP_RecipientPublicKey resp"
      "authorized (co_policy c) (CR_DestinationKind req) (at_Measurement at) (CR_DecisionID req) (map KM_KeyID (CR_KeysToRelease req))"
    and tip: "length (IC_tip (nd_chain s)) = HashSize"
  obtains az s' where "coord_authorize h c req hs at s = (Inr az, s')" "ascii (az_TokenID az)" "ascii (az_AuditID az)"
    "marshal_time (az_At az) \<noteq> None" "list_all (\<lambda>w. ascii (WK_KeyID w) \<and> WK_Suite w = at_Suite at) (az_Wrapped az)" "az_Wrapped az \<noteq> []" "length (IC_tip (nd_chain s')) = HashSize"
proof -
  obtain verdict where verdict: "kp_AuthorizeKeyRelease (co_policy c) (CR_DestinationKind req) (at_Measurement at) (CR_DecisionID req)
      (map KM_KeyID (CR_KeysToRelease req)) = Inr verdict" "PV_Authorized verdict"
    using at(3) by (auto simp: authorized_def split: sum.splits)
  obtain tok where tok: "ev_DecisionID (ho_env h) (nd_trace s) = Inr tok" "ascii tok" using r(1) unfolding answering_def by blast
  let ?s1 = "record_io (DrewID (Inr tok)) s"
  have mats: "list_all (\<lambda>m. KM_Purpose m = token_PurposeSealing \<and> KM_Plaintext m \<noteq> []) (CR_KeysToRelease req)"
    using r(2) check_materials_ok [of 0 "CR_KeysToRelease req"] by (auto simp: release_ready_def validateRequest_def list_all_iff)
  have "\<exists>ct. Suite_Wrap (ho_P h) (ev_Kem (ho_env h) tr) (at_Suite at) PurposeCrossCloudDEK k (at_Pub at) aad = Inr ct" if "k \<noteq> []" for tr k aad
    using good that unfolding good_answer_def Let_def at by blast
  from wrap_keys_live [where h = h and at = at, OF this mats] obtain ws s2 where
    ws: "wrap_keys h tok at 0 (CR_KeysToRelease req) ?s1 = (Inr ws, s2)" by blast
  note w = wrap_keys_ok [OF ws]
  let ?now = "ev_Clock (ho_env h) (nd_trace s2)"
  let ?s3 = "record_io (ReadClock ?now) s2"
  let ?ws = "keyReleaseAuthorized_payload c req (hd_RequestID hs) tok (at_Measurement at) (at_Suite at) (at_Pub at) (PV_Reason verdict) ?now"
  have now: "marshal_time ?now \<noteq> None" using h(1) by (auto simp: recording_host_def)
  obtain p where p: "json_Marshal h ?ws = Inr p" "p \<noteq> []"
    by (rule json_Marshal_live [OF h(1), of ?ws]) (use now in \<open>simp add: in_years_def keyReleaseAuthorized_payload_def\<close>)
  obtain eid s' where e: "Emit_event h KindKeyReleaseAuthorized p (CR_SessionID req) (CR_ManifestID req) (hd_RequestID hs) ?s3 = (Inr eid, s')"
      "ascii eid" "length (IC_tip (nd_chain s')) = HashSize"
    by (rule Emit_live_host [OF h p(2), where kind = KindKeyReleaseAuthorized and sid = "CR_SessionID req" and
          mid = "CR_ManifestID req" and rid = "hd_RequestID hs" and s = ?s3])
      (use r hs tip w in \<open>simp_all add: KindKeyReleaseAuthorized_def validKinds_def release_ready_def\<close>)
  have z: "coord_authorize h c req hs at s = (Inr \<lparr>az_TokenID = tok, az_Wrapped = ws, az_At = ?now, az_AuditID = eid\<rparr>, s')"
    using verdict tok(1) ws p(1) e(1)
    by (simp add: coord_authorize_def live_steps NewDecisionID_def clock_Now_eq Let_def)
  have "ascii (WK_KeyID x)" if "x \<in> set ws" for x
  proof -
    have "WK_KeyID x \<in> set (map KM_KeyID (CR_KeysToRelease req))" using w that by (metis image_eqI list.set_map)
    then show ?thesis using r(2) by (auto simp: release_ready_def list_all_iff)
  qed
  moreover have "ws \<noteq> []" using w r(2) by (auto simp: release_ready_def validateRequest_def)
  ultimately show thesis using z e(2,3) tok(2) now w by (intro that) (auto simp: list_all_iff wrapped_for_def)
qed

lemma wrapped_json_canon:
  assumes "list_all (\<lambda>w. ascii (WK_KeyID w) \<and> ascii (WK_Suite w)) ws"
  shows "canon_tree (wrapped_json ws)"
proof -
  have "canon_tree (wrapped_key_json w)" if "ascii (WK_KeyID w)" "ascii (WK_Suite w)" for w
    using that unsigned_less [of "WK_Purpose w", where 'a = nat]
    by (auto simp: wrapped_key_json_def opt_member_def canon_json_bytes fmt_d_int64)
  then show ?thesis using assms by (auto simp: wrapped_json_def list_all_iff)
qed

lemma coord_dispatch_live:
  assumes r: "answering h c req" "release_ready c req" and hs: "ascii (hd_RequestID hs)" and at: "SuitePolicy_Allows (co_suites c) (at_Suite at)"
    and az: "ascii (az_TokenID az)" "ascii (az_AuditID az)" "marshal_time (az_At az) \<noteq> None"
      "list_all (\<lambda>w. ascii (WK_KeyID w) \<and> WK_Suite w = at_Suite at) (az_Wrapped az)"
  obtains res tok where "coord_dispatch h c req hs at az s = (Inr res, record_io (SentToken (CR_DestinationEndpoint req) tok) s)"
proof -
  let ?c = KeyReleaseToken_contract and ?d = "release_token c req hs at az"
  obtain alg where alg: "keys_RecordAlg (co_keySigner c) (co_signingKID c) = Inr alg" "ascii alg"
    using r(2) by (auto simp: release_ready_def live_signer_def)
  have "ascii (at_Suite at)" using at r(2) by (auto simp: SuitePolicy_Allows_def release_ready_def list_all_iff)
  then have "canon_tree (wrapped_json (az_Wrapped az))" using az(4) by (intro wrapped_json_canon) (auto simp: list_all_iff)
  then have "contract_clean ?c (ct_SetAlg ?c alg ?d)" "in_years (ct_Wire ?c (ct_SetSig ?c [] (ct_SetAlg ?c alg ?d)))"
    using r(2) hs az(1-3) alg(2)
    by (simp_all add: KeyReleaseToken_contract_def KeyReleaseToken_fields_def contract_clean_def fields_ok_def
        in_years_def release_token_def release_ready_def live_signer_def)
  then obtain sig where sig: "contract_SignWith ?c (ho_F h) ?d (co_keySigner c) = (None, ct_SetSig ?c sig (ct_SetAlg ?c alg ?d))"
    using token_contract.SignWith_live [of ?d "co_keySigner c" alg "ho_F h"] r(2) alg(1)
    by (auto simp: release_ready_def live_signer_def release_token_def KeyReleaseToken_contract_def)
  have "\<exists>tok. KeyReleaseToken_SignWith (ho_F h) ?d (co_keySigner c) = (None, tok)"
    using sig by (simp add: KeyReleaseToken_SignWith_def)
  then obtain tok where "KeyReleaseToken_SignWith (ho_F h) ?d (co_keySigner c) = (None, tok)" by blast
  then show thesis
    using r(1) by (intro that [of _ tok]) (simp add: coord_dispatch_def SendKeyReleaseToken_def live_steps answering_def Let_def)
qed

lemma CoordinateRestore_live_tip:
  assumes h: "recording_host H h" "\<And>x. length (H x) = HashSize" and r: "answering h c req" "release_ready c req"
    and tip: "length (IC_tip (nd_chain s)) = HashSize"
  shows "\<exists>res s' pre tok. CoordinateRestore h c req s = (Inr res, s') \<and> nd_trace s' = pre @ [SentToken (CR_DestinationEndpoint req) tok] \<and>
    length (IC_tip (nd_chain s')) = HashSize"
proof -
  obtain hs s1 where 1: "coord_open h c req s = (Inr hs, s1)" "length (IC_tip (nd_chain s1)) = HashSize"
    "ascii (hd_RequestID hs)" "ascii (hd_AuditID hs)" "marshal_time (hd_At hs) \<noteq> None" using coord_open_live [OF h r tip] by metis
  obtain resp hsReq where 2: "coord_handshake h c req hs s1 = (Inr resp, record_io (SentHandshake (CR_DestinationEndpoint req) hsReq) s1)"
    "good_answer h c req hsReq resp" "HR_HandshakeNonce hsReq = hd_Nonce hs" using coord_handshake_live [OF r 1(3-5)] by metis
  let ?s2 = "record_io (SentHandshake (CR_DestinationEndpoint req) hsReq) s1"
  have tip2: "length (IC_tip (nd_chain ?s2)) = HashSize" using 1(2) by simp
  obtain at s3 where 3: "coord_attest h c req hs resp ?s2 = (Inr at, s3)" "length (IC_tip (nd_chain s3)) = HashSize"
    "at_Suite at = HP_RecipientKeySuite resp" "at_Pub at = HP_RecipientPublicKey resp"
    "authorized (co_policy c) (CR_DestinationKind req) (at_Measurement at) (CR_DecisionID req) (map KM_KeyID (CR_KeysToRelease req))"
    using coord_attest_live [OF h r(2) 1(3) 2(2,3) tip2] by metis
  obtain az s4 where 4: "coord_authorize h c req hs at s3 = (Inr az, s4)" "ascii (az_TokenID az)" "ascii (az_AuditID az)"
    "marshal_time (az_At az) \<noteq> None" "list_all (\<lambda>w. ascii (WK_KeyID w) \<and> WK_Suite w = at_Suite at) (az_Wrapped az)" "length (IC_tip (nd_chain s4)) = HashSize"
    by (rule coord_authorize_live [OF h r 1(3) 2(2) 3(3-5,2)]) (rule that)
  have "SuitePolicy_Allows (co_suites c) (at_Suite at)" using 2(2) 3(3) by (simp add: good_answer_def Let_def)
  from coord_dispatch_live [OF r 1(3) this 4(2-5)] obtain res tok where
    5: "coord_dispatch h c req hs at az s4 = (Inr res, record_io (SentToken (CR_DestinationEndpoint req) tok) s4)" by metis
  show ?thesis using 1(1) 2(1) 3(1) 4(1,6) 5 by (simp add: CoordinateRestore_def bindE_live)
qed

lemma CoordinateRestore_live:
  assumes "recording_host H h" "\<And>x. length (H x) = HashSize" "answering h c req" "release_ready c req"
    and "length (IC_tip (nd_chain s)) = HashSize"
  shows "\<exists>res s' pre tok. CoordinateRestore h c req s = (Inr res, s') \<and> nd_trace s' = pre @ [SentToken (CR_DestinationEndpoint req) tok]"
  using CoordinateRestore_live_tip [OF assms] by blast

end
