(* ===== verification/ReleaseProperties.thy ===== *)
theory ReleaseProperties
  imports ReleaseLive SentinelRecords
begin

text \<open>
  The properties of key release across clouds: what stands on the record when a token leaves, what a
  refusal leaves, that a release runs to its end, and the KEM suites' round trip and policies. A small
  host with a simulated destination is the concrete instance.
\<close>

section \<open>A concrete release\<close>

definition demo_sha512 :: "bytes \<Rightarrow> bytes" where
  "demo_sha512 = fit 64"

definition demo_hpke :: hpke where
  "demo_hpke =
     \<lparr>hk_FIPSOnly = False, hk_NewPublicKey = (\<lambda>k p. None), hk_NewPrivateKey = (\<lambda>k p. None),
      hk_GenerateKey = (\<lambda>k. Inr []), hk_KeyBytes = (\<lambda>k b. Inr b), hk_PublicKey = (\<lambda>k b. zeros 1184),
      hk_NewSender = (\<lambda>kem kdf pub info. Inr (zeros 1088, \<lambda>ctx n. Inr (zeros n))),
      hk_NewRecipient = (\<lambda>kem kdf encd priv info. Inr (\<lambda>ctx n. Inr (zeros n))),
      hk_NewRecipientAEAD = (\<lambda>kem kdf aead encd priv info. Inr (\<lambda>aad ct. Inr ct)),
      hk_x_Generate = Inr [], hk_x_NewPublicKey = (\<lambda>p. None), hk_x_NewPrivateKey = (\<lambda>p. None),
      hk_x_PublicKey = (\<lambda>k. zeros 32), hk_x_ECDH = (\<lambda>k p. Inr (zeros 32)), hk_HKDF = (\<lambda>s k i n. Inr (zeros n))\<rparr>"

definition demo_tee :: Simulated where
  "demo_tee = sim_tee [1] (zeros 32)"

definition demo_answer :: "CrossCloudHandshakeRequest \<Rightarrow> go_error + HandshakeResponse" where
  "demo_answer r =
     bindR (Simulated_Quote plain_prims demo_tee (RecipientChallengeV2 demo_sha512 SuiteHPKEMLKEM768 (zeros 1184) (HR_HandshakeNonce r)))
       (\<lambda>ev. Inr \<lparr>HP_Evidence = ev, HP_MeasurementHint = [], HP_RecipientPublicKey = zeros 1184, HP_RecipientKeySuite = SuiteHPKEMLKEM768\<rparr>)"

definition demo_env :: env where
  "demo_env =
     \<lparr>ev_Clock = (\<lambda>tr. 0), ev_Wall = (\<lambda>tr. 0), ev_RequestID = (\<lambda>tr. Inr ''r1''), ev_DecisionID = (\<lambda>tr. Inr ''t1''), ev_Nonce = (\<lambda>tr n. Inr (zeros n)),
      ev_Kem = (\<lambda>tr. demo_hpke), ev_Handshake = (\<lambda>tr ep r. demo_answer r), ev_Token = (\<lambda>tr ep t. None),
      ev_Receipt = (\<lambda>tr ep kid. Inl (errorsNew ''not found''))\<rparr>"

definition demo_host :: "InMemoryChain host" where
  "demo_host =
     \<lparr>ho_env = demo_env, ho_Append = Chain_Append SHA256 no_floats, ho_signer = ring_signer audit_ring, ho_signerKID = ''a'',
      ho_prefix = ''xcc-evt-'', ho_J = (\<lambda>j. [1]), ho_F = no_floats, ho_P = plain_prims, ho_SHA512 = demo_sha512\<rparr>"

definition demo_release_policy :: KeyReleasePolicy where
  "demo_release_policy = allow_list \<lparr>al_version = ''v1'', al_allowed = [(ProviderSimulated, [MeasurementOf [1]])]\<rparr>"

definition demo_coordinator :: Coordinator where
  "demo_coordinator =
     \<lparr>co_keySigner = ring_signer demo_keys,
      co_verifiers = Some [(ProviderSimulated, \<lparr>vf_Verify = sim_tee_verifier plain_prims demo_tee, vf_Detailed = None\<rparr>)],
      co_policy = demo_release_policy, co_signingKID = ''k'', co_receipts = True,
      co_suites = \<lparr>sp_profile = ProfileGeneral, sp_suites = [SuiteHPKEMLKEM768]\<rparr>\<rparr>"

definition demo_release_request :: CoordinationRequest where
  "demo_release_request =
     \<lparr>CR_DecisionID = ''d1'', CR_DestinationKind = ProviderSimulated, CR_DestinationEndpoint = ''https://b'',
      CR_KeysToRelease = [\<lparr>KM_KeyID = ''genome'', KM_Purpose = token_PurposeSealing, KM_Plaintext = [7]\<rparr>],
      CR_SessionID = [], CR_ManifestID = [], CR_SourceEvidence = [], CR_SourceMeasurement = []\<rparr>"

definition demo_site :: "InMemoryChain site" where
  "demo_site = \<lparr>nd_chain = NewInMemoryChain, nd_counter = 0, nd_trace = []\<rparr>"

lemma demo_recording: "recording_host SHA256 demo_host"
  using demo_signers_live(1) demo_instants
  by (auto simp: recording_host_def demo_host_def demo_env_def zero_time_def)

lemma Suite_Wrap_demo:
  "k \<noteq> [] \<Longrightarrow> purpose \<noteq> [] \<Longrightarrow> \<exists>ct. Suite_Wrap plain_prims demo_hpke SuiteHPKEMLKEM768 purpose k (zeros 1184) aad = Inr ct"
  by (simp add: Suite_Wrap_def Suite_ValidateRecipientPublicKey_def spec_of_def suiteSpecs_def suite_names v2_spec_def
      demo_hpke_def GCM_Seal_def NewGCM_def plain_prims_def Let_def)

lemma demo_wrap: "k \<noteq> [] \<Longrightarrow> \<exists>ct. Suite_Wrap plain_prims demo_hpke SuiteHPKEMLKEM768 PurposeCrossCloudDEK k (zeros 1184) aad = Inr ct"
  by (rule Suite_Wrap_demo) (simp_all add: PurposeCrossCloudDEK_def)

lemma demo_key_ok: "Suite_ValidateRecipientPublicKey demo_hpke SuiteHPKEMLKEM768 (zeros 1184) = None"
  by (simp add: Suite_ValidateRecipientPublicKey_def spec_of_def suiteSpecs_def suite_names v2_spec_def demo_hpke_def)

text \<open>The demonstration destination answers any request for it, whatever receipts it serves.\<close>

lemma demo_quote:
  assumes "length n = 64"
  obtains ev where "Simulated_Quote plain_prims demo_tee n = Inr ev" "ev \<noteq> []" "sim_tee_verifier plain_prims demo_tee ev n = Inr (MeasurementOf [1])"
proof -
  obtain ev where ev: "Simulated_Quote plain_prims demo_tee n = Inr ev" "ev \<noteq> []"
    using assms by (simp add: Simulated_Quote_def NonceMinBytes_def simulatedEvidenceMagic_def)
  have "sim_tee_verifier plain_prims demo_tee ev n = Inr (MeasurementOf [1])"
    using simulated.quoted_verifies [of "[1]" "zeros 32" n ev] ev(1) assms by (simp add: demo_tee_def)
  with ev show thesis by (rule that)
qed

lemma demo_answers_to:
  assumes "CR_DestinationKind req = ProviderSimulated" and "CR_DecisionID req \<noteq> []" and "CR_KeysToRelease req \<noteq> []"
  shows "answering (demo_host\<lparr>ho_env := demo_env\<lparr>ev_Receipt := f\<rparr>\<rparr>) demo_coordinator req"
proof -
  let ?h = "demo_host\<lparr>ho_env := demo_env\<lparr>ev_Receipt := f\<rparr>\<rparr>"
  have "\<exists>resp. demo_answer r = Inr resp \<and> good_answer ?h demo_coordinator req r resp" for r
  proof -
    let ?n = "RecipientChallengeV2 demo_sha512 SuiteHPKEMLKEM768 (zeros 1184) (HR_HandshakeNonce r)"
    have "length ?n = 64" by (simp add: RecipientChallengeV2_def demo_sha512_def)
    then obtain ev where ev: "Simulated_Quote plain_prims demo_tee ?n = Inr ev" "ev \<noteq> []"
      "sim_tee_verifier plain_prims demo_tee ev ?n = Inr (MeasurementOf [1])" by (rule demo_quote)
    moreover have "authorized demo_release_policy ProviderSimulated (MeasurementOf [1]) (CR_DecisionID req) (map KM_KeyID (CR_KeysToRelease req))"
      using assms
      by (simp add: authorized_def demo_release_policy_def allow_list_def AllowList_Authorize_def guardR_def first_err_Cons chk_def
          MeasurementFromBytes_def MeasurementOf_def SHA256_length HashSize_def ProviderSimulated_def)
    ultimately show ?thesis
      using demo_wrap demo_key_ok assms
      by (auto simp: demo_answer_def good_answer_def Let_def demo_host_def demo_env_def demo_coordinator_def
          SuitePolicy_Allows_def Registry_Resolve_def VerifyDetailed_def suite_names)
  qed
  then show ?thesis by (simp add: answering_def demo_host_def demo_env_def)
qed

lemma demo_answers: "answering demo_host demo_coordinator demo_release_request"
  using demo_answers_to [of demo_release_request "ev_Receipt demo_env"] by (simp add: demo_release_request_def demo_host_def)

lemma demo_ready: "release_ready demo_coordinator demo_release_request"
  using demo_signers_live(2)
  by (simp add: release_ready_def demo_coordinator_def demo_release_request_def suite_names demo_release_policy_def allow_list_def
      validateRequest_def Registry_Has_def source_measurement_gate_def ProviderSimulated_def)

lemma demo_tip: "length (IC_tip (nd_chain demo_site)) = HashSize"
  by (simp add: demo_site_def NewInMemoryChain_def)


section \<open>What stands on the record when a token leaves\<close>

text \<open>C11: A key release token leaves only at the end of a run and only to the requested endpoint. By then the
  log has gained exactly three events of this run: the handshake, the verified attestation and the
  authorized release, the last named by the token. The destination's Evidence verified under the challenge
  of an allowed suite, its own key and this handshake's nonce; the policy authorized that measurement for
  this decision and these keys; and every key in the token is one of the requested ones, wrapped to the
  attested key and bound to the token, the measurement and the key.\<close>

theorem token_leaves_only_on_the_record:
  assumes "ho_Append h = Chain_Append H F" and "CoordinateRestore h c req s = (r, s')"
    and "nd_trace s' = nd_trace s @ tr" and "SentToken ep tok \<in> set tr"
  shows "\<exists>pre at e1 e2 e3. tr = pre @ [SentToken ep tok] \<and> list_all (\<lambda>x. \<not> is_sent x) pre \<and> ep = CR_DestinationEndpoint req \<and>
    IC_events (nd_chain s') = IC_events (nd_chain s) @ [e1, e2, e3] \<and> logged pre = [e1, e2, e3] \<and>
    map AE_Kind [e1, e2, e3] = [KindHandshakeInitiated, KindAttestationVerified, KindKeyReleaseAuthorized] \<and>
    KT_AuditEventID tok = AE_EventID e3 \<and> KT_DestinationMeasurement tok = at_Measurement at \<and> KT_DecisionID tok = CR_DecisionID req \<and>
    destination_proved h c req pre at \<and> SuitePolicy_Allows (co_suites c) (at_Suite at) \<and>
    authorized (co_policy c) (CR_DestinationKind req) (at_Measurement at) (CR_DecisionID req) (map KM_KeyID (CR_KeysToRelease req)) \<and>
    map WK_KeyID (KT_Wrapped tok) = map KM_KeyID (CR_KeysToRelease req) \<and>
    list_all (wrapped_for h (KT_TokenID tok) at (CR_KeysToRelease req)) (KT_Wrapped tok)"
  by (rule in_memory_recorder.CoordinateRestore_sent [OF assms]) (intro exI conjI, assumption+)

lemma demo_release_runs:
  "\<exists>res s' pre tok. CoordinateRestore demo_host demo_coordinator demo_release_request demo_site = (Inr res, s') \<and>
     nd_trace s' = pre @ [SentToken ''https://b'' tok]"
  using CoordinateRestore_live [OF demo_recording SHA256_length demo_answers demo_ready demo_tip] by (simp add: demo_release_request_def)

theorem token_leaves_only_on_the_record_witness:
  "\<exists>(s' :: InMemoryChain site) pre at tok e1 e2 e3. nd_trace s' = pre @ [SentToken ''https://b'' tok] \<and>
     IC_events (nd_chain s') = [e1, e2, e3] \<and> AE_Kind e3 = KindKeyReleaseAuthorized \<and> KT_AuditEventID tok = AE_EventID e3 \<and>
     destination_proved demo_host demo_coordinator demo_release_request pre at"
proof -
  obtain res s' pre tok where run: "CoordinateRestore demo_host demo_coordinator demo_release_request demo_site = (Inr res, s')"
    "nd_trace s' = pre @ [SentToken ''https://b'' tok]" using demo_release_runs by blast
  have a: "ho_Append demo_host = Chain_Append SHA256 no_floats" by (simp add: demo_host_def)
  have t: "nd_trace s' = nd_trace demo_site @ (pre @ [SentToken ''https://b'' tok])" using run(2) by (simp add: demo_site_def)
  have m: "SentToken ''https://b'' tok \<in> set (pre @ [SentToken ''https://b'' tok])" by simp
  from token_leaves_only_on_the_record [OF a run(1) t m] obtain pre' at e1 e2 e3 where
    "pre @ [SentToken ''https://b'' tok] = pre' @ [SentToken ''https://b'' tok]"
    "IC_events (nd_chain s') = IC_events (nd_chain demo_site) @ [e1, e2, e3]"
    "map AE_Kind [e1, e2, e3] = [KindHandshakeInitiated, KindAttestationVerified, KindKeyReleaseAuthorized]"
    "KT_AuditEventID tok = AE_EventID e3" "destination_proved demo_host demo_coordinator demo_release_request pre' at"
    by (elim exE conjE)
  then show ?thesis
    using run(2) by (intro exI [of _ s'] exI [of _ pre] exI [of _ at] exI [of _ tok] exI [of _ e1] exI [of _ e2] exI [of _ e3])
      (simp add: demo_site_def NewInMemoryChain_def)
qed

section \<open>A refusal is recorded\<close>

lemma Coordinator_deny_records:
  assumes app: "ho_Append h = Chain_Append H F" and d: "Coordinator_deny h c req rid stage m refusal s = (err, s')"
  shows "(err = refusal \<and> (\<exists>e now. IC_events (nd_chain s') = IC_events (nd_chain s) @ [e] \<and> AE_Kind e = KindKeyReleaseDenied \<and>
       json_Marshal h (keyReleaseDenied_payload c req rid stage m refusal now) = Inr (AE_Payload e))) \<or>
     (\<exists>why. err = refusal_unrecorded refusal why \<and> IC_events (nd_chain s') = IC_events (nd_chain s))"
proof -
  let ?now = "ev_Clock (ho_env h) (nd_trace s)"
  let ?s1 = "record_io (ReadClock ?now) s"
  show ?thesis
  proof (cases "json_Marshal h (keyReleaseDenied_payload c req rid stage m refusal ?now)")
    case (Inl why)
    with d show ?thesis by (auto simp: Coordinator_deny_def clock_Now_eq bindE_def pureE_def)
  next
    case (Inr payload)
    let ?em = "Emit_event h KindKeyReleaseDenied payload (CR_SessionID req) (CR_ManifestID req) rid ?s1"
    obtain r s2 where em: "?em = (r, s2)" by (cases ?em)
    show ?thesis
    proof (cases r)
      case (Inl why)
      with em Inr d have "err = refusal_unrecorded refusal why" "s' = s2"
        by (auto simp: Coordinator_deny_def clock_Now_eq bindE_def pureE_def)
      moreover have "IC_events (nd_chain s2) = IC_events (nd_chain s)"
        using em Inl app in_memory_recorder.not_recorded
        by (auto simp: Emit_event_def emitter_build_def clock_Now_eq Let_def split: prod.splits sum.splits)
      ultimately show ?thesis by auto
    next
      case r: (Inr eid)
      with em Inr d have "err = refusal" "s' = s2"
        by (auto simp: Coordinator_deny_def clock_Now_eq bindE_def pureE_def)
      moreover obtain now e where "in_memory_recorder.steps ?s1 s2 [ReadClock now, Logged e]" "AE_Kind e = KindKeyReleaseDenied" "AE_Payload e = payload"
        using in_memory_recorder.Emit_logged [OF app em [unfolded r]] by metis
      ultimately show ?thesis using Inr by (auto simp: in_memory_recorder.steps_def)
    qed
  qed
qed

text \<open>C28: When the policy refuses the verified destination the release ends there with an error of the
  authority category, and the refusal is on the record: one more event, of the kind of a denied release,
  whose payload names the stage, the measurement and the reason. If it could not be recorded the error says
  that too, still as a refusal of the same category, and the log is as it was.\<close>

theorem policy_refusal_is_recorded:
  fixes h :: "InMemoryChain host"
  defines "refusal v \<equiv> Authority CodeAttestationDenied (''kms.CoordinateRestore: policy denied key release: '' @ PV_Reason v) None"
  assumes "ho_Append h = Chain_Append H F"
    and "kp_AuthorizeKeyRelease (co_policy c) (CR_DestinationKind req) (at_Measurement at) (CR_DecisionID req) (map KM_KeyID (CR_KeysToRelease req)) = Inr v"
    and "\<not> PV_Authorized v" and "coord_authorize h c req hs at s = (r, s')"
  shows "\<exists>err. r = Inl (attested_result hs at, err) \<and> CategoryOf (Some err) = CategoryAuthority \<and>
    ((err = refusal v \<and> (\<exists>e now. IC_events (nd_chain s') = IC_events (nd_chain s) @ [e] \<and> AE_Kind e = KindKeyReleaseDenied \<and>
        json_Marshal h (keyReleaseDenied_payload c req (hd_RequestID hs) denialPolicy (at_Measurement at) (refusal v) now) = Inr (AE_Payload e))) \<or>
     (\<exists>why. err = refusal_unrecorded (refusal v) why \<and> IC_events (nd_chain s') = IC_events (nd_chain s)))"
proof -
  obtain err s1 where d: "Coordinator_deny h c req (hd_RequestID hs) denialPolicy (at_Measurement at) (refusal v) s = (err, s1)"
    by (cases "Coordinator_deny h c req (hd_RequestID hs) denialPolicy (at_Measurement at) (refusal v) s")
  have "r = Inl (attested_result hs at, err)" "s' = s1"
    using assms(3-5) d by (auto simp: coord_authorize_def refuse_def refusal_def Let_def)
  moreover have "CategoryOf (Some (refusal v)) = CategoryAuthority" "CategoryOf (Some (refusal_unrecorded (refusal v) why)) = CategoryAuthority" for why
    by (simp_all add: refusal_def refusal_unrecorded_def CategoryOf_def Authority_def)
  ultimately show ?thesis using Coordinator_deny_records [OF assms(2) d] by auto
qed

theorem policy_refusal_is_recorded_witness:
  "\<exists>err s'. coord_authorize demo_host demo_coordinator demo_release_request
       \<lparr>hd_RequestID = ''r1'', hd_Nonce = zeros 16, hd_At = 0, hd_AuditID = ''x''\<rparr>
       \<lparr>at_Suite = SuiteHPKEMLKEM768, at_Pub = zeros 1184, at_Measurement = zeros 48, at_AuditID = ''y''\<rparr> demo_site = (Inl err, s') \<and>
     CategoryOf (Some (snd err)) = CategoryAuthority"
proof -
  let ?hs = "\<lparr>hd_RequestID = ''r1'', hd_Nonce = zeros 16, hd_At = 0, hd_AuditID = ''x''\<rparr>"
  let ?at = "\<lparr>at_Suite = SuiteHPKEMLKEM768, at_Pub = zeros 1184, at_Measurement = zeros 48, at_AuditID = ''y''\<rparr>"
  have n: "zeros 48 \<noteq> MeasurementOf [1]"
  proof
    assume "zeros 48 = MeasurementOf [1]"
    then have "length (zeros 48) = length (SHA256 [1])" by (simp only: MeasurementOf_def)
    then show False by (simp add: SHA256_length HashSize_def)
  qed
  have "kp_AuthorizeKeyRelease (co_policy demo_coordinator) (CR_DestinationKind demo_release_request) (at_Measurement ?at) (CR_DecisionID demo_release_request)
      (map KM_KeyID (CR_KeysToRelease demo_release_request)) =
      Inr \<lparr>PV_Authorized = False, PV_Reason = ''destination measurement not in allow-list for '' @ fmt_q ProviderSimulated\<rparr>"
    using n by (simp add: demo_coordinator_def demo_release_request_def demo_release_policy_def allow_list_def AllowList_Authorize_def MeasurementFromBytes_def
        ProviderSimulated_def first_err_Cons chk_def)
  moreover obtain r s' where run: "coord_authorize demo_host demo_coordinator demo_release_request ?hs ?at demo_site = (r, s')"
    by (cases "coord_authorize demo_host demo_coordinator demo_release_request ?hs ?at demo_site")
  moreover have "ho_Append demo_host = Chain_Append SHA256 no_floats" by (simp add: demo_host_def)
  ultimately obtain err where "r = Inl (attested_result ?hs ?at, err)" "CategoryOf (Some err) = CategoryAuthority"
    using policy_refusal_is_recorded [of demo_host SHA256 no_floats demo_coordinator demo_release_request ?at _ ?hs demo_site r s'] by auto
  with run show ?thesis by (intro exI [of _ "(attested_result ?hs ?at, err)"] exI [of _ s']) simp
qed

section \<open>A release runs to its end\<close>

text \<open>C19: On a host whose chain records and whose clock JSON can write, a well-formed request to a destination
  that answers with an allowed suite, a usable key and Evidence that verifies and that the policy authorizes
  is carried out: the run succeeds and its last act is to send the token to the requested endpoint.\<close>

theorem release_reaches_the_destination:
  assumes "recording_host SHA256 h" and "answering h c req" and "release_ready c req" and "length (IC_tip (nd_chain s)) = HashSize"
  shows "\<exists>res s' pre tok. CoordinateRestore h c req s = (Inr res, s') \<and> nd_trace s' = pre @ [SentToken (CR_DestinationEndpoint req) tok]"
  using assms SHA256_length by (intro CoordinateRestore_live)

theorem release_reaches_the_destination_witness:
  "\<exists>res s'. CoordinateRestore demo_host demo_coordinator demo_release_request demo_site = (Inr res, s')"
  using release_reaches_the_destination [OF demo_recording demo_answers demo_ready demo_tip] by blast

section \<open>KEM suites\<close>

text \<open>What a sender wraps under a suite to a recipient's own public key, the recipient unwraps with its
  private key, the same suite, purpose and associated data, to the same plaintext, when the two sides'
  HPKE libraries agree and AES-GCM opens what it sealed.\<close>

theorem wrapped_key_unwraps:
  assumes "prims_ok P" and "hpke_agree H H'" and "PublicKeyOf H' s priv = Inr pub"
    and "Suite_Wrap P H s purpose k pub aad = Inr wrapped"
  shows "Suite_Unwrap P H' s purpose wrapped priv aad = Inr k"
  using assms by (rule Suite_Wrap_opens)

theorem wrapped_key_unwraps_witness:
  "\<exists>w. Suite_Wrap plain_prims demo_hpke SuiteHPKEMLKEM768 PurposeCrossCloudDEK [7] (zeros 1184) [] = Inr w \<and>
     Suite_Unwrap plain_prims demo_hpke SuiteHPKEMLKEM768 PurposeCrossCloudDEK w [] [] = Inr [7]"
proof -
  have "hpke_agree demo_hpke demo_hpke" by (simp add: hpke_agree_def demo_hpke_def)
  moreover have "PublicKeyOf demo_hpke SuiteHPKEMLKEM768 [] = Inr (zeros 1184)"
    by (simp add: PublicKeyOf_def spec_of_def suiteSpecs_def suite_names v2_spec_def demo_hpke_def)
  moreover obtain w where "Suite_Wrap plain_prims demo_hpke SuiteHPKEMLKEM768 PurposeCrossCloudDEK [7] (zeros 1184) [] = Inr w"
    using demo_wrap [of "[7]" "[]"] by auto
  ultimately show ?thesis using wrapped_key_unwraps [OF plain_prims_ok] by blast
qed

text \<open>C29: A suite policy that a configuration builds is well formed: it names at least one suite, none twice,
  every one known to this build, still written, and accepted by the named profile; and the suite it
  chooses for an offer is the first of the offered list that it names, or none when it names none.\<close>

theorem suite_policy_well_formed:
  assumes "NewSuitePolicyFromNames H profile names = Inr pol"
  shows "sp_suites pol \<noteq> [] \<and> distinct (sp_suites pol) \<and> set (sp_suites pol) \<subseteq> set (Profile_Accepts (sp_profile pol)) \<and>
    list_all (\<lambda>s. Suite_Known s \<and> \<not> Suite_ReadOnly s) (sp_suites pol) \<and>
    (profile \<noteq> [] \<longrightarrow> sp_profile pol = profile) \<and>
    policy_Choose pol offered = List.find (\<lambda>s. s \<in> set (sp_suites pol)) offered"
proof -
  obtain p where p: "ParseProfile H profile = Inr p" "NewSuitePolicy p names = Inr pol"
    using assms by (auto simp: NewSuitePolicyFromNames_def split: if_splits)
  note ok = NewSuitePolicy_ok [OF p(2)]
  have "profile \<noteq> [] \<longrightarrow> p = profile" using p(1) by (auto simp: ParseProfile_def split: if_splits)
  moreover have "list_all (\<lambda>s. Suite_Known s \<and> \<not> Suite_ReadOnly s) (sp_suites pol)"
    using ok(5) current_suites by (auto simp: list_all_iff)
  ultimately show ?thesis using ok by (simp add: policy_Choose_find)
qed

theorem suite_policy_well_formed_witness:
  "NewSuitePolicyFromNames demo_hpke ''cnsa'' [] = Inr \<lparr>sp_profile = ProfileCNSA, sp_suites = [SuiteHPKEMLKEM1024P384]\<rparr> \<and>
   policy_Choose \<lparr>sp_profile = ProfileCNSA, sp_suites = [SuiteHPKEMLKEM1024P384]\<rparr> [SuiteHPKEX25519, SuiteHPKEMLKEM1024P384] =
     List.find (\<lambda>s. s \<in> set [SuiteHPKEMLKEM1024P384]) [SuiteHPKEX25519, SuiteHPKEMLKEM1024P384]"
proof -
  have n: "NewSuitePolicyFromNames demo_hpke ''cnsa'' [] = Inr \<lparr>sp_profile = ProfileCNSA, sp_suites = [SuiteHPKEMLKEM1024P384]\<rparr>"
    by (simp add: NewSuitePolicyFromNames_def ParseProfile_def NewSuitePolicy_def profileSuites_def profile_names)
  show ?thesis using n suite_policy_well_formed [OF n, of "[SuiteHPKEX25519, SuiteHPKEMLKEM1024P384]"] by simp
qed

text \<open>The challenge a destination's Evidence must be quoted over fixes the suite, the recipient key and the
  nonce: equal challenges for different ones are a collision of SHA-512 on the two named inputs.\<close>

theorem challenge_binds_suite_key_nonce:
  assumes "length s < 2 ^ 32" "length pub < 2 ^ 32" "length nonce < 2 ^ 32"
    and "length s' < 2 ^ 32" "length pub' < 2 ^ 32" "length nonce' < 2 ^ 32"
    and "RecipientChallengeV2 sha512 s pub nonce = RecipientChallengeV2 sha512 s' pub' nonce'"
  shows "s = s' \<and> pub = pub' \<and> nonce = nonce' \<or> collides sha512 (challenge_input s pub nonce) (challenge_input s' pub' nonce')"
proof (cases "challenge_input s pub nonce = challenge_input s' pub' nonce'")
  case True
  then show ?thesis
    using assms(1-6) by (auto simp: challenge_input_def len_prefixed_append_inj len_prefixed_inj)
next
  case False
  with assms(7) show ?thesis by (simp add: RecipientChallengeV2_def collides_def)
qed

theorem challenge_binds_suite_key_nonce_witness:
  "\<not> collides id (challenge_input SuiteHPKEXWing [1] [2]) (challenge_input SuiteHPKEXWing [1] [2]) \<and>
   ([1] = [1 :: byte] \<and> [2] = [2 :: byte] \<or> collides id (challenge_input SuiteHPKEXWing [1] [2]) (challenge_input SuiteHPKEXWing [1] [2]))"
  using challenge_binds_suite_key_nonce [of SuiteHPKEXWing "[1]" "[2]" SuiteHPKEXWing "[1]" "[2]" id]
  by (simp add: collides_def suite_names)

end
