(* ===== verification/Escrow.thy ===== *)
theory Escrow
  imports KemSuites Outbox
begin

text \<open>
  Escrow of genome keys (src/internal/genome/escrow): the key pairs under a KEM suite (key.go), the envelope of a
  genome's key (escrow.go), the recovery envelope of an escrow key (recovery.go) and the escrow key sealed
  to a machine (sealed.go).

  \<open>encoding/pem\<close>, \<open>crypto/x509\<close> and the check of a curve point are the fields of a record \<open>pki\<close>; the decoders
  of the JSON documents and the \<open>Sealer\<close> of the platform are arguments. Wiping a key's buffer is not modelled.
\<close>

section \<open>Keys under a suite\<close>

definition LegacySuite :: Suite where
  "LegacySuite = SuiteHPKEX25519"

definition legacyKeySize :: nat where
  "legacyKeySize = 32"

record PublicKey =
  ep_suite :: Suite
  ep_raw :: bytes

record PrivateKey =
  ek_suite :: Suite
  ek_raw :: bytes
  ek_pub :: PublicKey

definition PublicKey_IsZero :: "PublicKey \<Rightarrow> bool" where
  "PublicKey_IsZero p \<longleftrightarrow> ep_suite p = []"

definition NewPublicKey :: "hpke \<Rightarrow> Suite \<Rightarrow> bytes \<Rightarrow> go_error + PublicKey" where
  "NewPublicKey H suite raw =
     (if \<not> Suite_Known suite then Inl (errorsNew (''escrow: unknown KEM suite '' @ fmt_q suite))
      else guardR (Suite_ValidateRecipientPublicKey H suite raw) (Inr \<lparr>ep_suite = suite, ep_raw = raw\<rparr>))"

definition escrow_GenerateKey :: "hpke \<Rightarrow> Suite \<Rightarrow> go_error + PrivateKey" where
  "escrow_GenerateKey H suite =
     bindR (GenerateRecipientKey H suite) (\<lambda>(priv, pub).
     bindR (NewPublicKey H suite pub) (\<lambda>public. Inr \<lparr>ek_suite = suite, ek_raw = priv, ek_pub = public\<rparr>))"

definition NewPrivateKey :: "hpke \<Rightarrow> Suite \<Rightarrow> bytes \<Rightarrow> go_error + PrivateKey" where
  "NewPrivateKey H suite raw =
     (if \<not> Suite_Known suite then Inl (errorsNew (''escrow: unknown KEM suite '' @ fmt_q suite))
      else bindR (PublicKeyOf H suite raw) (\<lambda>pub.
        bindR (NewPublicKey H suite pub) (\<lambda>public. Inr \<lparr>ek_suite = suite, ek_raw = raw, ek_pub = public\<rparr>)))"

definition PrivateKey_Equal :: "PrivateKey option \<Rightarrow> PrivateKey option \<Rightarrow> bool" where
  "PrivateKey_Equal k k' \<longleftrightarrow>
     (case (k, k') of (Some a, Some b) \<Rightarrow> ek_suite a = ek_suite b \<and> ek_raw a = ek_raw b | _ \<Rightarrow> False)"

definition escrow_KeyTag :: "PublicKey \<Rightarrow> string" where
  "escrow_KeyTag pub = hex_encode (take 8 (SHA256 (ep_raw pub)))"

section \<open>Key files\<close>

text \<open>A parsed PKIX key: on a named curve through \<open>crypto/ecdh\<close>, an ECDSA key with its own \<open>ECDH()\<close>, or another.\<close>

datatype pki_key =
    KeyECDH string bytes
  | KeyECDSA string "go_error + string \<times> bytes"
  | KeyOther string

record pki =
  pk_CurveKey :: "string \<Rightarrow> bytes \<Rightarrow> go_error option"
  pk_Marshal :: "string \<Rightarrow> bytes \<Rightarrow> go_error + bytes"
  pk_Parse :: "bytes \<Rightarrow> go_error + pki_key"
  pk_Encode :: "string \<Rightarrow> (string \<times> string) list \<Rightarrow> bytes \<Rightarrow> bytes"
  pk_Decode :: "bytes \<Rightarrow> (string \<times> (string \<times> string) list \<times> bytes) option"

definition pemHPKEPublic :: string where "pemHPKEPublic = ''VAULT GENOME HPKE PUBLIC KEY''"
definition pemHPKEPrivate :: string where "pemHPKEPrivate = ''VAULT GENOME HPKE PRIVATE KEY''"
definition pemSuiteHeader :: string where "pemSuiteHeader = ''Suite''"

definition header_of :: "(string \<times> string) list \<Rightarrow> string" where
  "header_of hs = (case map_of hs pemSuiteHeader of None \<Rightarrow> [] | Some s \<Rightarrow> s)"

definition PublicPEM :: "pki \<Rightarrow> PublicKey \<Rightarrow> go_error + bytes" where
  "PublicPEM X pub =
     (let family = Suite_Family (ep_suite pub) in
      if family = Suite_Family SuiteHPKEX25519 \<or> family = Suite_Family SuiteHPKEP384
      then let curve = (if family = Suite_Family SuiteHPKEP384 then ''P-384'' else ''X25519'') in
        (case pk_CurveKey X curve (ep_raw pub) of
           Some err \<Rightarrow> Inl (wrapf ''escrow'' err)
         | None \<Rightarrow> (case pk_Marshal X curve (ep_raw pub) of
                      Inl err \<Rightarrow> Inl (wrapf ''escrow'' err)
                    | Inr der \<Rightarrow> Inr (pk_Encode X ''PUBLIC KEY'' [] der)))
      else if family = [] then Inl (errorsNew ''escrow: no public key to encode'')
      else Inr (pk_Encode X pemHPKEPublic [(pemSuiteHeader, ep_suite pub)] (ep_raw pub)))"

definition pkix_public :: "hpke \<Rightarrow> pki_key \<Rightarrow> go_error + PublicKey" where
  "pkix_public H key =
     (case key of
        KeyECDH curve raw \<Rightarrow>
          if curve \<noteq> ''X25519'' then Inl (errorsNew (''escrow: key is on '' @ curve @ '', want X25519 or P-384''))
          else NewPublicKey H SuiteHPKEX25519 raw
      | KeyECDSA name ecdh \<Rightarrow>
          (case ecdh of
             Inr (curve, raw) \<Rightarrow>
               if curve \<noteq> ''P-384'' then Inl (errorsNew (''escrow: key is on '' @ name @ '', want X25519 or P-384''))
               else NewPublicKey H SuiteHPKEP384 raw
           | Inl err \<Rightarrow> Inl (errorsNew (''escrow: key is on '' @ name @ '', want X25519 or P-384'')))
      | KeyOther t \<Rightarrow> Inl (errorsNew (''escrow: key is '' @ t @ '', want an X25519 or P-384 public key'')))"

definition ParsePublicPEM :: "pki \<Rightarrow> hpke \<Rightarrow> bytes \<Rightarrow> go_error + PublicKey" where
  "ParsePublicPEM X H b =
     (case pk_Decode X b of
        None \<Rightarrow> Inl (errorsNew ''escrow: not a PEM public key'')
      | Some (t, hs, body) \<Rightarrow>
          if t = ''PUBLIC KEY''
          then (case pk_Parse X body of Inl err \<Rightarrow> Inl (wrapf ''escrow'' err) | Inr key \<Rightarrow> pkix_public H key)
          else if t = pemHPKEPublic
          then (case ParseSuite (header_of hs) of
                  Inl err \<Rightarrow> Inl (wrapf (''escrow: '' @ pemHPKEPublic) err)
                | Inr suite \<Rightarrow> NewPublicKey H (Suite_Latest suite) body)
          else Inl (errorsNew ''escrow: not a PEM public key''))"

definition PrivatePEM :: "pki \<Rightarrow> PrivateKey \<Rightarrow> bytes" where
  "PrivatePEM X k = pk_Encode X pemHPKEPrivate [(pemSuiteHeader, ek_suite k)] (ek_raw k)"

definition ParsePrivate :: "pki \<Rightarrow> hpke \<Rightarrow> bytes \<Rightarrow> go_error + PrivateKey" where
  "ParsePrivate X H raw =
     (if length raw = legacyKeySize then NewPrivateKey H LegacySuite raw
      else
        let refused = errorsNew (''escrow: not a private key (neither a raw '' @ fmt_d legacyKeySize @ ''-byte X25519 key nor a '' @
              pemHPKEPrivate @ '' PEM)'')
        in (case pk_Decode X raw of
              None \<Rightarrow> Inl refused
            | Some (t, hs, body) \<Rightarrow>
                if t \<noteq> pemHPKEPrivate then Inl refused
                else (case ParseSuite (header_of hs) of
                        Inl err \<Rightarrow> Inl (wrapf (''escrow: '' @ pemHPKEPrivate) err)
                      | Inr suite \<Rightarrow> NewPrivateKey H (Suite_Latest suite) body)))"

section \<open>The envelope of a genome's key\<close>

definition escrow_Schema :: string where "escrow_Schema = ''vault-genome/key-escrow/v1''"
definition escrow_SchemaV2 :: string where "escrow_SchemaV2 = ''vault-genome/key-escrow/v2''"

definition escrow_aad :: "string \<Rightarrow> bytes" where
  "escrow_aad keyID = string_bytes (''vault-genome key-escrow v1'' @ [CHR 0x00] @ keyID)"

definition escrow_aadV2 :: "string \<Rightarrow> bytes" where
  "escrow_aadV2 keyID = string_bytes (''vault-genome key-escrow v2'' @ [CHR 0x00] @ keyID)"

definition escrow_Seal :: "prims \<Rightarrow> hpke \<Rightarrow> bytes \<Rightarrow> string \<Rightarrow> PublicKey \<Rightarrow> go_error + Envelope" where
  "escrow_Seal P H dek keyID escrowPub =
     guardR (CheckKey keyID dek)
       (if PublicKey_IsZero escrowPub then Inl (errorsNew ''escrow: seal: no escrow public key'')
        else (case Suite_Wrap P H (ep_suite escrowPub) PurposeEscrowDEK dek (ep_raw escrowPub) (escrow_aadV2 keyID) of
                Inl err \<Rightarrow> Inl (wrapf ''escrow: seal'' err)
              | Inr ct \<Rightarrow> Inr \<lparr>EN_Schema = escrow_SchemaV2, EN_KeyID = keyID, EN_EscrowKey = escrow_KeyTag escrowPub,
                                EN_Suite = ep_suite escrowPub, EN_Ciphertext = ct\<rparr>))"

text \<open>The three ways an envelope's schema decides how it is opened; an error here is returned as it is.\<close>

definition envelope_unwrap :: "prims \<Rightarrow> hpke \<Rightarrow> Envelope \<Rightarrow> PrivateKey \<Rightarrow> go_error + (go_error + bytes)" where
  "envelope_unwrap P H env key =
     (if EN_Schema env = escrow_SchemaV2
      then if \<not> SameFamily (EN_Suite env) (ek_suite key)
        then Inl (errorsNew (''escrow: '' @ EN_KeyID env @ '' is under KEM suite '' @ fmt_q (EN_Suite env) @
               '', this authority's escrow key is under '' @ fmt_q (ek_suite key)))
        else Inr (Suite_Unwrap P H (EN_Suite env) PurposeEscrowDEK (EN_Ciphertext env) (ek_raw key) (escrow_aadV2 (EN_KeyID env)))
      else if EN_Schema env = escrow_Schema
      then if ek_suite key \<noteq> LegacySuite
        then Inl (errorsNew (''escrow: '' @ EN_KeyID env @ '' is a v1 envelope (X25519), this authority's escrow key is under '' @
               fmt_q (ek_suite key)))
        else if EN_Suite env \<noteq> []
        then Inl (errorsNew (''escrow: a v1 envelope names no suite; '' @ EN_KeyID env @ '' names '' @ fmt_q (EN_Suite env)))
        else Inr (X25519_Unwrap P H (EN_Ciphertext env) (ek_raw key) (escrow_aad (EN_KeyID env)))
      else Inl (errorsNew (''escrow: schema '' @ fmt_q (EN_Schema env) @ '', want '' @ fmt_q escrow_SchemaV2 @ '' or '' @ fmt_q escrow_Schema)))"

definition escrow_Open :: "prims \<Rightarrow> hpke \<Rightarrow> Envelope \<Rightarrow> PrivateKey option \<Rightarrow> go_error + bytes" where
  "escrow_Open P H env key =
     (case key of
        None \<Rightarrow> Inl (errorsNew (''escrow: no escrow private key to open '' @ EN_KeyID env @ '' with''))
      | Some k \<Rightarrow>
          if \<not> IsKeyID (EN_KeyID env) then Inl (errorsNew (''escrow: '' @ fmt_q (EN_KeyID env) @ '' is not a genome key id''))
          else if EN_EscrowKey env \<noteq> escrow_KeyTag (ek_pub k)
          then Inl (errorsNew (''escrow: sealed to escrow key '' @ EN_EscrowKey env @ '', this authority holds '' @ escrow_KeyTag (ek_pub k)))
          else bindR (envelope_unwrap P H env k) (\<lambda>r.
            case r of
              Inl err \<Rightarrow> Inl (wrapf (''escrow: open '' @ EN_KeyID env) err)
            | Inr dek \<Rightarrow> guardR (CheckKey (EN_KeyID env) dek) (Inr dek)))"

section \<open>The recovery envelope\<close>

definition RecoverySchema :: string where "RecoverySchema = ''vault-genome/escrow-recovery/v1''"
definition RecoverySchemaV2 :: string where "RecoverySchemaV2 = ''vault-genome/escrow-recovery/v2''"

record Recovery =
  RV_Schema :: string
  RV_EscrowKey :: string
  RV_RecoveryKey :: string
  RV_Suite :: Suite
  RV_RecoverySuite :: Suite
  RV_PublicKeyPEM :: bytes
  RV_Ciphertext :: bytes

definition recoveryAAD :: "string \<Rightarrow> string \<Rightarrow> bytes" where
  "recoveryAAD escrowTag recoveryTag =
     string_bytes (''vault-genome escrow-recovery v1'' @ [CHR 0x00] @ escrowTag @ [CHR 0x00] @ recoveryTag)"

definition recoveryAADV2 :: "string \<Rightarrow> string \<Rightarrow> bytes" where
  "recoveryAADV2 escrowTag recoveryTag =
     string_bytes (''vault-genome escrow-recovery v2'' @ [CHR 0x00] @ escrowTag @ [CHR 0x00] @ recoveryTag)"

definition WrapRecovery :: "prims \<Rightarrow> pki \<Rightarrow> hpke \<Rightarrow> PrivateKey option \<Rightarrow> PublicKey \<Rightarrow> go_error + Recovery" where
  "WrapRecovery P X H key recoveryPub =
     (case key of
        None \<Rightarrow> Inl (errorsNew ''escrow: escrow key and recovery public key required'')
      | Some k \<Rightarrow>
          if PublicKey_IsZero recoveryPub then Inl (errorsNew ''escrow: escrow key and recovery public key required'')
          else bindR (PublicPEM X (ek_pub k)) (\<lambda>pem.
            let escrowTag = escrow_KeyTag (ek_pub k); recoveryTag = escrow_KeyTag recoveryPub in
            (case Suite_Wrap P H (ep_suite recoveryPub) PurposeEscrowRecovery (ek_raw k) (ep_raw recoveryPub) (recoveryAADV2 escrowTag recoveryTag) of
               Inl err \<Rightarrow> Inl (wrapf ''escrow: wrap for recovery'' err)
             | Inr ct \<Rightarrow> Inr \<lparr>RV_Schema = RecoverySchemaV2, RV_EscrowKey = escrowTag, RV_RecoveryKey = recoveryTag, RV_Suite = ek_suite k,
                               RV_RecoverySuite = ep_suite recoveryPub, RV_PublicKeyPEM = pem, RV_Ciphertext = ct\<rparr>)))"

text \<open>The suite the recovered key is under, and the unwrapped bytes or why they do not open.\<close>

definition recovery_unwrap :: "prims \<Rightarrow> hpke \<Rightarrow> Recovery \<Rightarrow> PrivateKey \<Rightarrow> PublicKey \<Rightarrow> go_error + Suite \<times> (go_error + bytes)" where
  "recovery_unwrap P H r rk pub =
     (if RV_Schema r = RecoverySchemaV2
      then if \<not> SameFamily (RV_RecoverySuite r) (ek_suite rk)
        then Inl (errorsNew (''escrow: the envelope is wrapped under KEM suite '' @ fmt_q (RV_RecoverySuite r) @
               ''; this recovery key is under '' @ fmt_q (ek_suite rk)))
        else if \<not> SameFamily (RV_Suite r) (ep_suite pub)
        then Inl (errorsNew (''escrow: the envelope says its escrow key is under '' @ fmt_q (RV_Suite r) @
               '', its public key is under '' @ fmt_q (ep_suite pub)))
        else Inr (ep_suite pub, Suite_Unwrap P H (RV_RecoverySuite r) PurposeEscrowRecovery (RV_Ciphertext r) (ek_raw rk)
                    (recoveryAADV2 (RV_EscrowKey r) (RV_RecoveryKey r)))
      else if RV_Schema r = RecoverySchema
      then if ek_suite rk \<noteq> LegacySuite \<or> ep_suite pub \<noteq> LegacySuite
        then Inl (errorsNew ''escrow: a v1 recovery envelope holds an X25519 escrow key wrapped to an X25519 recovery key'')
        else if RV_Suite r \<noteq> [] \<or> RV_RecoverySuite r \<noteq> []
        then Inl (errorsNew ''escrow: a v1 recovery envelope names no suite'')
        else Inr (LegacySuite, X25519_Unwrap P H (RV_Ciphertext r) (ek_raw rk) (recoveryAAD (RV_EscrowKey r) (RV_RecoveryKey r)))
      else Inl (errorsNew (''escrow: recovery schema '' @ fmt_q (RV_Schema r) @ '', want '' @ fmt_q RecoverySchemaV2 @ '' or '' @
             fmt_q RecoverySchema)))"

definition Recovery_Open :: "prims \<Rightarrow> pki \<Rightarrow> hpke \<Rightarrow> Recovery \<Rightarrow> PrivateKey option \<Rightarrow> go_error + PrivateKey" where
  "Recovery_Open P X H r recoveryPriv =
     (case recoveryPriv of
        None \<Rightarrow> Inl (errorsNew ''escrow: recovery private key required'')
      | Some rk \<Rightarrow>
          if escrow_KeyTag (ek_pub rk) \<noteq> RV_RecoveryKey r
          then Inl (errorsNew (''escrow: the envelope is wrapped to recovery key '' @ RV_RecoveryKey r @ ''; this key is '' @ escrow_KeyTag (ek_pub rk)))
          else bindR (ParsePublicPEM X H (RV_PublicKeyPEM r)) (\<lambda>pub.
            if escrow_KeyTag pub \<noteq> RV_EscrowKey r
            then Inl (errorsNew (''escrow: the envelope's public key is '' @ escrow_KeyTag pub @ '', its tag says '' @ RV_EscrowKey r))
            else bindR (recovery_unwrap P H r rk pub) (\<lambda>(suite, res).
              case res of
                Inl err \<Rightarrow> Inl (wrapf ''escrow: open recovery envelope'' err)
              | Inr raw \<Rightarrow>
                  (case NewPrivateKey H suite raw of
                     Inl err \<Rightarrow> Inl (wrapf (''escrow: recovered bytes are not a '' @ suite @ '' key'') err)
                   | Inr key \<Rightarrow>
                       if ek_pub key \<noteq> pub
                       then Inl (errorsNew ''escrow: the recovered key is not the private half of the public key the envelope names'')
                       else Inr key))))"

definition ParseRecovery :: "(bytes \<Rightarrow> go_error + Recovery) \<Rightarrow> bytes \<Rightarrow> go_error + Recovery" where
  "ParseRecovery D raw =
     (case D raw of
        Inl err \<Rightarrow> Inl (wrapf ''escrow: recovery envelope'' err)
      | Inr r \<Rightarrow>
          guardR
            (first_err
              [chk (RV_Schema r \<noteq> RecoverySchema \<and> RV_Schema r \<noteq> RecoverySchemaV2)
                 (errorsNew (''escrow: recovery envelope schema '' @ fmt_q (RV_Schema r) @ '', want '' @ fmt_q RecoverySchemaV2 @ '' or '' @ fmt_q RecoverySchema)),
               chk (RV_EscrowKey r = [] \<or> RV_RecoveryKey r = [] \<or> RV_PublicKeyPEM r = [] \<or> RV_Ciphertext r = [])
                 (errorsNew ''escrow: recovery envelope is incomplete''),
               chk (RV_Schema r = RecoverySchemaV2 \<and> (RV_Suite r = [] \<or> RV_RecoverySuite r = []))
                 (errorsNew ''escrow: a v2 recovery envelope names its suites'')])
            (Inr r))"

section \<open>The escrow key sealed to a machine\<close>

definition SealedSchema :: string where "SealedSchema = ''vault-genome/sealed-escrow-key/v1''"
definition SealedSchemaV2 :: string where "SealedSchemaV2 = ''vault-genome/sealed-escrow-key/v2''"

record tee_Sealer =
  ts_Seal :: "bytes \<Rightarrow> bytes \<Rightarrow> go_error + bytes"
  ts_Unseal :: "bytes \<Rightarrow> bytes \<Rightarrow> go_error + bytes"

record SealedKey =
  SK_Schema :: string
  SK_TEE :: Provider
  SK_MeasurementHex :: string
  SK_EscrowKey :: string
  SK_Suite :: Suite
  SK_PublicKeyPEM :: bytes
  SK_Sealed :: bytes

definition sealedAAD :: "Provider \<Rightarrow> Measurement \<Rightarrow> string \<Rightarrow> bytes" where
  "sealedAAD provider m tag =
     string_bytes (''vault-genome sealed-escrow-key v1'' @ [CHR 0x00] @ provider @ [CHR 0x00] @ hex_encode m @ [CHR 0x00] @ tag)"

definition sealedAADV2 :: "Provider \<Rightarrow> Measurement \<Rightarrow> string \<Rightarrow> Suite \<Rightarrow> bytes" where
  "sealedAADV2 provider m tag suite =
     string_bytes (''vault-genome sealed-escrow-key v2'' @ [CHR 0x00] @ provider @ [CHR 0x00] @ hex_encode m @ [CHR 0x00] @ tag @ [CHR 0x00] @ suite)"

definition SealKey :: "pki \<Rightarrow> PrivateKey option \<Rightarrow> tee_Sealer option \<Rightarrow> Provider \<Rightarrow> Measurement \<Rightarrow> go_error + SealedKey" where
  "SealKey X key sealer provider m =
     (case (key, sealer) of
        (Some k, Some sl) \<Rightarrow>
          if provider = [] \<or> Measurement_IsZero m then Inl (errorsNew ''escrow: key, sealer, provider and measurement required'')
          else bindR (PublicPEM X (ek_pub k)) (\<lambda>pem.
            let tag = escrow_KeyTag (ek_pub k) in
            (case ts_Seal sl (ek_raw k) (sealedAADV2 provider m tag (ek_suite k)) of
               Inl err \<Rightarrow> Inl (wrapf (''escrow: seal to '' @ provider) err)
             | Inr sealed \<Rightarrow> Inr \<lparr>SK_Schema = SealedSchemaV2, SK_TEE = provider, SK_MeasurementHex = hex_encode m, SK_EscrowKey = tag,
                                   SK_Suite = ek_suite k, SK_PublicKeyPEM = pem, SK_Sealed = sealed\<rparr>))
      | _ \<Rightarrow> Inl (errorsNew ''escrow: key, sealer, provider and measurement required''))"

definition SealedKey_PublicKey :: "pki \<Rightarrow> hpke \<Rightarrow> SealedKey \<Rightarrow> go_error + PublicKey" where
  "SealedKey_PublicKey X H s =
     (if SK_Schema s \<noteq> SealedSchema \<and> SK_Schema s \<noteq> SealedSchemaV2
      then Inl (errorsNew (''escrow: schema '' @ fmt_q (SK_Schema s) @ '', want '' @ fmt_q SealedSchemaV2 @ '' or '' @ fmt_q SealedSchema))
      else bindR (ParsePublicPEM X H (SK_PublicKeyPEM s)) (\<lambda>pub.
        if escrow_KeyTag pub \<noteq> SK_EscrowKey s
        then Inl (errorsNew (''escrow: the sealed file's public key is '' @ escrow_KeyTag pub @ '', its tag says '' @ SK_EscrowKey s))
        else if SK_Schema s = SealedSchemaV2
        then if \<not> SameFamily (SK_Suite s) (ep_suite pub)
          then Inl (errorsNew (''escrow: the sealed file says suite '' @ fmt_q (SK_Suite s) @ '', its public key is under '' @ fmt_q (ep_suite pub)))
          else Inr pub
        else if SK_Suite s \<noteq> [] \<or> ep_suite pub \<noteq> LegacySuite
        then Inl (errorsNew ''escrow: a v1 sealed file holds an X25519 key and names no suite'')
        else Inr pub))"

definition short_digest :: "string \<Rightarrow> string" where
  "short_digest s = (if length s > 12 then take 12 s @ [CHR 0xE2, CHR 0x80, CHR 0xA6] else s)"

definition SealedKey_Open :: "pki \<Rightarrow> hpke \<Rightarrow> SealedKey \<Rightarrow> tee_Sealer option \<Rightarrow> Provider \<Rightarrow> Measurement \<Rightarrow> go_error + PrivateKey" where
  "SealedKey_Open X H s sealer provider m =
     bindR (SealedKey_PublicKey X H s) (\<lambda>pub.
       case sealer of
         None \<Rightarrow> Inl (errorsNew ''escrow: no TEE sealer to open the sealed escrow key with'')
       | Some sl \<Rightarrow>
           if SK_TEE s \<noteq> provider
           then Inl (errorsNew (''escrow: the escrow key was sealed to '' @ SK_TEE s @ ''; this host's TEE is '' @ provider))
           else if SK_MeasurementHex s \<noteq> hex_encode m
           then Inl (errorsNew (''escrow: the escrow key was sealed at measurement '' @ short_digest (SK_MeasurementHex s) @ ''; this host runs at '' @
                  short_digest (hex_encode m) @ '' (another image, or another build: re-provision it from its recovery envelope)''))
           else (case ts_Unseal sl (SK_Sealed s)
                       (if SK_Schema s = SealedSchemaV2 then sealedAADV2 provider m (SK_EscrowKey s) (SK_Suite s)
                        else sealedAAD provider m (SK_EscrowKey s)) of
                   Inl err \<Rightarrow> Inl (PlainError (''escrow: unseal on '' @ provider @ '': '' @ Error_String err @
                     '' (another chip, or a changed file: re-provision it from its recovery envelope)'') (Some err))
                 | Inr raw \<Rightarrow>
                     (case NewPrivateKey H (ep_suite pub) raw of
                        Inl err \<Rightarrow> Inl (wrapf (''escrow: unsealed bytes are not a '' @ ep_suite pub @ '' key'') err)
                      | Inr key \<Rightarrow>
                          if ek_pub key \<noteq> pub
                          then Inl (errorsNew ''escrow: the unsealed key is not the private half of the public key the file carries'')
                          else Inr key)))"

definition ParseSealed :: "(bytes \<Rightarrow> go_error + SealedKey) \<Rightarrow> bytes \<Rightarrow> go_error + SealedKey" where
  "ParseSealed D raw =
     (case D raw of
        Inl err \<Rightarrow> Inl (wrapf ''escrow: sealed key'' err)
      | Inr s \<Rightarrow>
          guardR
            (first_err
              [chk (SK_Schema s \<noteq> SealedSchema \<and> SK_Schema s \<noteq> SealedSchemaV2)
                 (errorsNew (''escrow: sealed key schema '' @ fmt_q (SK_Schema s) @ '', want '' @ fmt_q SealedSchemaV2 @ '' or '' @ fmt_q SealedSchema)),
               chk (SK_TEE s = [] \<or> SK_MeasurementHex s = [] \<or> SK_EscrowKey s = [] \<or> SK_PublicKeyPEM s = [] \<or> SK_Sealed s = [])
                 (errorsNew ''escrow: sealed key file is incomplete''),
               chk (SK_Schema s = SealedSchemaV2 \<and> SK_Suite s = []) (errorsNew ''escrow: a v2 sealed key file names its suite'')])
            (Inr s))"

definition IsSealed :: "bytes \<Rightarrow> bool" where
  "IsSealed raw \<longleftrightarrow>
     (if length raw = legacyKeySize then False
      else (case dropWhile (\<lambda>b. b \<in> set (string_bytes ('' '' @ [CHR 0x09, CHR 0x0D, CHR 0x0A]))) raw of
              [] \<Rightarrow> False
            | b # bs \<Rightarrow> [b] = string_bytes ''{''))"

section \<open>Laws\<close>

text \<open>What \<open>encoding/pem\<close> and \<open>crypto/x509\<close> promise: a block of the kinds written here, and a marshalled key,
  decode to themselves.\<close>

definition pki_ok :: "pki \<Rightarrow> bool" where
  "pki_ok X \<longleftrightarrow>
     (\<forall>b. pk_Decode X (pk_Encode X ''PUBLIC KEY'' [] b) = Some (''PUBLIC KEY'', [], b)) \<and>
     (\<forall>t s b. (t = pemHPKEPublic \<or> t = pemHPKEPrivate) \<and> Suite_Known s \<longrightarrow>
        pk_Decode X (pk_Encode X t [(pemSuiteHeader, s)] b) = Some (t, [(pemSuiteHeader, s)], b)) \<and>
     (\<forall>raw der. pk_Marshal X ''X25519'' raw = Inr der \<longrightarrow> pk_Parse X der = Inr (KeyECDH ''X25519'' raw)) \<and>
     (\<forall>raw der. pk_Marshal X ''P-384'' raw = Inr der \<longrightarrow> pk_Parse X der = Inr (KeyECDSA ''P-384'' (Inr (''P-384'', raw))))"

lemma NewPublicKey_ok: "NewPublicKey H s raw = Inr pub \<Longrightarrow> pub = \<lparr>ep_suite = s, ep_raw = raw\<rparr> \<and> Suite_Known s"
  by (auto simp: NewPublicKey_def split: if_splits)

lemma NewPrivateKey_ok:
  assumes "NewPrivateKey H s raw = Inr k"
  shows "ek_suite k = s" "ek_raw k = raw" "PublicKeyOf H s raw = Inr (ep_raw (ek_pub k))" "ep_suite (ek_pub k) = s"
    "NewPublicKey H s (ep_raw (ek_pub k)) = Inr (ek_pub k)" "Suite_Known s"
proof -
  obtain pub public where "PublicKeyOf H s raw = Inr pub" "NewPublicKey H s pub = Inr public" "Suite_Known s"
    "k = \<lparr>ek_suite = s, ek_raw = raw, ek_pub = public\<rparr>"
    using assms by (auto simp: NewPrivateKey_def split: if_splits)
  with NewPublicKey_ok [of H s pub public] show "ek_suite k = s" "ek_raw k = raw" "PublicKeyOf H s raw = Inr (ep_raw (ek_pub k))"
    "ep_suite (ek_pub k) = s" "NewPublicKey H s (ep_raw (ek_pub k)) = Inr (ek_pub k)" "Suite_Known s" by auto
qed

lemma Latest_current: "s \<in> set currentSuites \<Longrightarrow> Suite_Latest s = s"
  using current_suites by (simp add: Suite_Latest_def)

lemma current_families:
  assumes "s \<in> set currentSuites"
  shows "Suite_Family s \<noteq> []" "Suite_Family s = Suite_Family SuiteHPKEX25519 \<longleftrightarrow> s = SuiteHPKEX25519"
    "Suite_Family s = Suite_Family SuiteHPKEP384 \<longleftrightarrow> s = SuiteHPKEP384"
  using assms by (auto simp: currentSuites_def Suite_Family_def suiteSpecs_def suite_names v2_spec_def)

lemma PEM_roundtrip:
  assumes "pki_ok X" "ep_suite pub \<in> set currentSuites" "NewPublicKey H (ep_suite pub) (ep_raw pub) = Inr pub" "PublicPEM X pub = Inr pem"
  shows "ParsePublicPEM X H pem = Inr pub"
proof -
  note f = current_families [OF assms(2)]
  have known: "Suite_Known (ep_suite pub)" using NewPublicKey_ok [OF assms(3)] by simp
  have X: "pk_Decode X (pk_Encode X ''PUBLIC KEY'' [] b) = Some (''PUBLIC KEY'', [], b)"
    "pk_Decode X (pk_Encode X pemHPKEPublic [(pemSuiteHeader, ep_suite pub)] b) = Some (pemHPKEPublic, [(pemSuiteHeader, ep_suite pub)], b)"
    "pk_Marshal X ''X25519'' raw = Inr der \<Longrightarrow> pk_Parse X der = Inr (KeyECDH ''X25519'' raw)"
    "pk_Marshal X ''P-384'' raw = Inr der \<Longrightarrow> pk_Parse X der = Inr (KeyECDSA ''P-384'' (Inr (''P-384'', raw)))" for b raw der
    using assms(1) known by (auto simp: pki_ok_def)
  have ne: "SuiteHPKEX25519 \<noteq> SuiteHPKEP384" by (simp add: suite_names)
  consider "ep_suite pub = SuiteHPKEX25519" | "ep_suite pub = SuiteHPKEP384"
    | "ep_suite pub \<noteq> SuiteHPKEX25519" "ep_suite pub \<noteq> SuiteHPKEP384" by blast
  then show ?thesis
  proof cases
    case 1
    then obtain der where "pk_Marshal X ''X25519'' (ep_raw pub) = Inr der" "pem = pk_Encode X ''PUBLIC KEY'' [] der"
      using assms(4) f ne by (auto simp: PublicPEM_def Let_def split: option.splits sum.splits if_splits)
    then show ?thesis using assms(3) 1 X by (simp add: ParsePublicPEM_def pkix_public_def)
  next
    case 2
    then obtain der where "pk_Marshal X ''P-384'' (ep_raw pub) = Inr der" "pem = pk_Encode X ''PUBLIC KEY'' [] der"
      using assms(4) f ne by (auto simp: PublicPEM_def Let_def split: option.splits sum.splits if_splits)
    then show ?thesis using assms(3) 2 X by (simp add: ParsePublicPEM_def pkix_public_def)
  next
    case 3
    then have "pem = pk_Encode X pemHPKEPublic [(pemSuiteHeader, ep_suite pub)] (ep_raw pub)"
      using assms(4) f by (simp add: PublicPEM_def Let_def)
    moreover have "ParseSuite (ep_suite pub) = Inr (ep_suite pub)" using current_suites [OF assms(2)] by (simp add: ParseSuite_def)
    ultimately show ?thesis
      using assms(3) X Latest_current [OF assms(2)] by (simp add: ParsePublicPEM_def pemHPKEPublic_def header_of_def)
  qed
qed

end
