(* ===== verification/EscrowProperties.thy ===== *)
theory EscrowProperties
  imports Escrow ReleaseProperties BundleProofs FailoverLive
begin

text \<open>
  The properties of key escrow: the authority opens what was sealed to it, and the escrow key comes back
  from its recovery envelope and from the file sealed to its machine.
\<close>

section \<open>A concrete key file format\<close>

text \<open>A PEM block is a byte for its kind, its suite with a length, and its body; a PKIX key is a byte for
  its curve and its raw bytes.\<close>

definition demo_block :: "string \<Rightarrow> (string \<times> string) list \<Rightarrow> bytes \<Rightarrow> bytes" where
  "demo_block t hs b =
     (case hs of
        [] \<Rightarrow> 0 # b
      | (k, s) # r \<Rightarrow> (if t = pemHPKEPublic then 1 else 2) # of_nat (length s) # string_bytes s @ b)"

definition demo_unblock :: "bytes \<Rightarrow> (string \<times> (string \<times> string) list \<times> bytes) option" where
  "demo_unblock b =
     (case b of
        [] \<Rightarrow> None
      | x # r \<Rightarrow>
          if x = 0 then Some (''PUBLIC KEY'', [], r)
          else (case r of
                  [] \<Rightarrow> None
                | n # r' \<Rightarrow> Some (if x = 1 then pemHPKEPublic else pemHPKEPrivate,
                    [(pemSuiteHeader, map (\<lambda>c. char_of (unat c)) (take (unat n) r'))], drop (unat n) r')))"

definition demo_pki :: pki where
  "demo_pki =
     \<lparr>pk_CurveKey = (\<lambda>c b. None), pk_Marshal = (\<lambda>c b. Inr ((if c = ''X25519'' then 1 else 2) # b)),
      pk_Parse = (\<lambda>d. case d of [] \<Rightarrow> Inl (errorsNew ''asn1'')
         | x # b \<Rightarrow> Inr (if x = 1 then KeyECDH ''X25519'' b else KeyECDSA ''P-384'' (Inr (''P-384'', b)))),
      pk_Encode = demo_block, pk_Decode = demo_unblock\<rparr>"

lemma string_bytes_back: "map (\<lambda>c. char_of (unat c)) (string_bytes s) = s"
proof -
  have "char_of (unat (of_nat (of_char c) :: 8 word)) = c" for c :: char
    by (simp add: unat_of_nat)
  then show ?thesis by (simp add: string_bytes_def comp_def)
qed

lemma known_suite_short: "Suite_Known s \<Longrightarrow> length s < 256"
  by (auto simp: Suite_Known_def suiteSpecs_def suite_names split: if_splits)

lemma demo_pki_ok: "pki_ok demo_pki"
proof -
  have "demo_unblock (demo_block t [(pemSuiteHeader, s)] b) = Some (t, [(pemSuiteHeader, s)], b)"
    if t: "t = pemHPKEPublic \<or> t = pemHPKEPrivate" and s: "Suite_Known s" for t s b
  proof -
    have "unat (of_nat (length s) :: 8 word) = length s" using known_suite_short [OF s] by (simp add: unat_of_nat)
    moreover have "length (string_bytes s) = length s" by (simp add: string_bytes_def)
    moreover have "pemHPKEPrivate \<noteq> pemHPKEPublic" by (simp add: pemHPKEPrivate_def pemHPKEPublic_def)
    ultimately show ?thesis using t string_bytes_back [of s] by (auto simp: demo_unblock_def demo_block_def)
  qed
  then show ?thesis by (simp add: pki_ok_def demo_pki_def) (simp add: demo_unblock_def demo_block_def)
qed

definition demo_escrow :: PrivateKey where
  "demo_escrow = \<lparr>ek_suite = SuiteHPKEMLKEM768, ek_raw = [9], ek_pub = \<lparr>ep_suite = SuiteHPKEMLKEM768, ep_raw = zeros 1184\<rparr>\<rparr>"

lemma demo_escrow_key: "NewPrivateKey demo_hpke SuiteHPKEMLKEM768 [9] = Inr demo_escrow"
proof -
  have "PublicKeyOf demo_hpke SuiteHPKEMLKEM768 [9] = Inr (zeros 1184)"
    by (simp add: PublicKeyOf_def spec_of_def suiteSpecs_def suite_names v2_spec_def demo_hpke_def)
  moreover have "Suite_Known SuiteHPKEMLKEM768" by (simp add: Suite_Known_def suiteSpecs_def suite_names)
  ultimately show ?thesis using demo_key_ok by (simp add: NewPrivateKey_def NewPublicKey_def demo_escrow_def)
qed

lemma CheckKey_IsKeyID: "CheckKey kid dek = None \<Longrightarrow> IsKeyID kid"
  by (cases "IsKeyID kid") (simp_all add: CheckKey_def KeyID_parts_def)

lemma demo_hpke_agrees: "hpke_agree demo_hpke demo_hpke"
  by (simp add: hpke_agree_def demo_hpke_def)

section \<open>The envelope\<close>

lemma escrow_Seal_opens:
  assumes "prims_ok P" and "hpke_agree H H'" and "NewPrivateKey H' suite raw = Inr k"
    and seal: "escrow_Seal P H dek kid (ek_pub k) = Inr env"
  shows "escrow_Open P H' env (Some k) = Inr dek" "EN_KeyID env = kid" "EN_EscrowKey env = escrow_KeyTag (ek_pub k)"
proof -
  note ok = NewPrivateKey_ok [OF assms(3)]
  have ck: "CheckKey kid dek = None" and nz: "\<not> PublicKey_IsZero (ek_pub k)"
    using seal by (auto simp: escrow_Seal_def guardR_Inr_iff split: if_splits)
  obtain ct where ct: "Suite_Wrap P H suite PurposeEscrowDEK dek (ep_raw (ek_pub k)) (escrow_aadV2 kid) = Inr ct"
    "env = \<lparr>EN_Schema = escrow_SchemaV2, EN_KeyID = kid, EN_EscrowKey = escrow_KeyTag (ek_pub k), EN_Suite = suite, EN_Ciphertext = ct\<rparr>"
    using seal ck nz ok(4)
    by (cases "Suite_Wrap P H suite PurposeEscrowDEK dek (ep_raw (ek_pub k)) (escrow_aadV2 kid)") (simp_all add: escrow_Seal_def)
  have "Suite_Unwrap P H' suite PurposeEscrowDEK ct raw (escrow_aadV2 kid) = Inr dek"
    using Suite_Wrap_opens [OF assms(1,2) ok(3) ct(1)] .
  then have "envelope_unwrap P H' env k = Inr (Inr dek)"
    using ok by (simp add: ct(2) envelope_unwrap_def SameFamily_def)
  then show "escrow_Open P H' env (Some k) = Inr dek"
    using CheckKey_IsKeyID [OF ck] ck by (simp add: escrow_Open_def ct(2))
  show "EN_KeyID env = kid" "EN_EscrowKey env = escrow_KeyTag (ek_pub k)" by (simp_all add: ct(2))
qed

lemma demo_escrow_seals:
  obtains env where "escrow_Seal plain_prims demo_hpke (zeros 32) (GH_KeyID demo_sealed) (ek_pub demo_escrow) = Inr env"
proof -
  have "CheckKey (GH_KeyID demo_sealed) (zeros 32) = None"
    using demo_sealed_key_ok CheckKey_own [of "PayloadDigest [1, 2, 3]" 0 "zeros 32"]
    by (simp add: demo_sealed_key KeyID_parts_def)
  moreover obtain ct where "Suite_Wrap plain_prims demo_hpke SuiteHPKEMLKEM768 PurposeEscrowDEK (zeros 32) (zeros 1184)
      (escrow_aadV2 (GH_KeyID demo_sealed)) = Inr ct"
    using Suite_Wrap_demo [of "zeros 32" PurposeEscrowDEK "escrow_aadV2 (GH_KeyID demo_sealed)"]
    by (auto simp: zeros_def PurposeEscrowDEK_def)
  moreover have "\<not> PublicKey_IsZero (ek_pub demo_escrow)" by (simp add: demo_escrow_def PublicKey_IsZero_def suite_names)
  ultimately have "\<exists>env. escrow_Seal plain_prims demo_hpke (zeros 32) (GH_KeyID demo_sealed) (ek_pub demo_escrow) = Inr env"
    by (simp add: escrow_Seal_def) (simp add: demo_escrow_def)
  then show thesis using that by blast
qed

text \<open>C17: A genome key that was sealed to the authority's escrow public key opens with its private key to
  the same key; and whatever envelope opens, the key that comes out is the one the envelope's key id
  names, from an envelope for this authority.\<close>

theorem escrowed_key_opens:
  assumes "prims_ok P" and "hpke_agree H H'" and "NewPrivateKey H' suite raw = Inr k"
  shows "(\<forall>dek kid env. escrow_Seal P H dek kid (ek_pub k) = Inr env \<longrightarrow> escrow_Open P H' env (Some k) = Inr dek) \<and>
    (\<forall>env dek. escrow_Open P H' env (Some k) = Inr dek \<longrightarrow>
       CheckKey (EN_KeyID env) dek = None \<and> EN_EscrowKey env = escrow_KeyTag (ek_pub k))"
proof -
  have "escrow_Open P H' env (Some k) = Inr dek" if "escrow_Seal P H dek kid (ek_pub k) = Inr env" for dek kid env
    using escrow_Seal_opens(1) [OF assms that] .
  moreover have "CheckKey (EN_KeyID env) dek = None \<and> EN_EscrowKey env = escrow_KeyTag (ek_pub k)"
    if op: "escrow_Open P H' env (Some k) = Inr dek" for env dek
  proof -
    from op obtain x where x: "envelope_unwrap P H' env k = Inr x" "EN_EscrowKey env = escrow_KeyTag (ek_pub k)" "IsKeyID (EN_KeyID env)"
      by (auto simp: escrow_Open_def split: if_splits)
    with op show ?thesis by (cases x) (simp_all add: escrow_Open_def)
  qed
  ultimately show ?thesis by blast
qed

theorem escrowed_key_opens_witness:
  "\<exists>env. escrow_Seal plain_prims demo_hpke (zeros 32) (GH_KeyID demo_sealed) (ek_pub demo_escrow) = Inr env \<and>
     escrow_Open plain_prims demo_hpke env (Some demo_escrow) = Inr (zeros 32)"
proof -
  obtain env where env: "escrow_Seal plain_prims demo_hpke (zeros 32) (GH_KeyID demo_sealed) (ek_pub demo_escrow) = Inr env"
    by (rule demo_escrow_seals)
  have "escrow_Open plain_prims demo_hpke env (Some demo_escrow) = Inr (zeros 32)"
    using escrowed_key_opens [OF plain_prims_ok demo_hpke_agrees demo_escrow_key] env by blast
  with env show ?thesis by blast
qed

section \<open>The escrow key itself\<close>

text \<open>C18: An escrow key comes back whole from both of its copies: from the recovery envelope, with the
  operator's recovery key, and from the file sealed to the machine, on that machine at the measurement
  it was sealed at.\<close>

theorem escrow_key_comes_back:
  assumes "prims_ok P" and "pki_ok X" and "hpke_agree H H'" and "NewPrivateKey H' suite raw = Inr k" and "suite \<in> set currentSuites"
  shows "(\<forall>rsuite rraw rk r. NewPrivateKey H' rsuite rraw = Inr rk \<and> WrapRecovery P X H (Some k) (ek_pub rk) = Inr r \<longrightarrow>
      Recovery_Open P X H' r (Some rk) = Inr k) \<and>
    (\<forall>sl provider m sk. (\<forall>b aad c. ts_Seal sl b aad = Inr c \<longrightarrow> ts_Unseal sl c aad = Inr b) \<and> SealKey X (Some k) (Some sl) provider m = Inr sk \<longrightarrow>
      SealedKey_Open X H' sk (Some sl) provider m = Inr k)"
proof -
  note ok = NewPrivateKey_ok [OF assms(4)]
  have pem: "ParsePublicPEM X H' pem = Inr (ek_pub k)" if "PublicPEM X (ek_pub k) = Inr pem" for pem
    using PEM_roundtrip [OF assms(2) _ _ that, of H'] ok(4,5) assms(5) by simp
  have same: "SameFamily suite suite" using ok(6) by (simp add: SameFamily_def)
  have "Recovery_Open P X H' r (Some rk) = Inr k"
    if rk: "NewPrivateKey H' rsuite rraw = Inr rk" and w: "WrapRecovery P X H (Some k) (ek_pub rk) = Inr r" for rsuite rraw rk r
  proof -
    note rok = NewPrivateKey_ok [OF rk]
    have nz: "\<not> PublicKey_IsZero (ek_pub rk)" using w by (auto simp: WrapRecovery_def split: if_splits)
    obtain pem where pm: "PublicPEM X (ek_pub k) = Inr pem" using w nz by (auto simp: WrapRecovery_def)
    obtain ct where ct: "Suite_Wrap P H rsuite PurposeEscrowRecovery raw (ep_raw (ek_pub rk))
        (recoveryAADV2 (escrow_KeyTag (ek_pub k)) (escrow_KeyTag (ek_pub rk))) = Inr ct"
      "r = \<lparr>RV_Schema = RecoverySchemaV2, RV_EscrowKey = escrow_KeyTag (ek_pub k), RV_RecoveryKey = escrow_KeyTag (ek_pub rk), RV_Suite = suite,
            RV_RecoverySuite = rsuite, RV_PublicKeyPEM = pem, RV_Ciphertext = ct\<rparr>"
      using w nz pm ok rok
      by (cases "Suite_Wrap P H rsuite PurposeEscrowRecovery raw (ep_raw (ek_pub rk))
          (recoveryAADV2 (escrow_KeyTag (ek_pub k)) (escrow_KeyTag (ek_pub rk)))") (simp_all add: WrapRecovery_def)
    note c = pm ct
    have "SameFamily rsuite rsuite" using rok(6) by (simp add: SameFamily_def)
    then show ?thesis
      using c pem [OF c(1)] same ok rok Suite_Wrap_opens [OF assms(1,3) rok(3) c(2)] assms(4)
      by (simp add: Recovery_Open_def recovery_unwrap_def)
  qed
  moreover have "SealedKey_Open X H' sk (Some sl) provider m = Inr k"
    if sl: "\<forall>b aad c. ts_Seal sl b aad = Inr c \<longrightarrow> ts_Unseal sl c aad = Inr b" and w: "SealKey X (Some k) (Some sl) provider m = Inr sk"
    for sl provider m sk
  proof -
    have nz: "\<not> (provider = [] \<or> Measurement_IsZero m)" using w by (auto simp: SealKey_def split: if_splits)
    obtain pem where pm: "PublicPEM X (ek_pub k) = Inr pem" using w nz by (auto simp: SealKey_def)
    obtain c where cs: "ts_Seal sl raw (sealedAADV2 provider m (escrow_KeyTag (ek_pub k)) suite) = Inr c"
      "sk = \<lparr>SK_Schema = SealedSchemaV2, SK_TEE = provider, SK_MeasurementHex = hex_encode m, SK_EscrowKey = escrow_KeyTag (ek_pub k),
             SK_Suite = suite, SK_PublicKeyPEM = pem, SK_Sealed = c\<rparr>"
      using w nz pm ok
      by (cases "ts_Seal sl raw (sealedAADV2 provider m (escrow_KeyTag (ek_pub k)) suite)") (simp_all add: SealKey_def)
    note c = pm cs
    show ?thesis
      using c pem [OF c(1)] same ok sl assms(4)
      by (simp add: SealedKey_Open_def SealedKey_PublicKey_def)
  qed
  ultimately show ?thesis by blast
qed

text \<open>A sealer that hands the bytes through.\<close>

definition demo_sealer :: tee_Sealer where
  "demo_sealer = \<lparr>ts_Seal = (\<lambda>b aad. Inr b), ts_Unseal = (\<lambda>c aad. Inr c)\<rparr>"

theorem escrow_key_comes_back_witness:
  "\<exists>r sk. WrapRecovery plain_prims demo_pki demo_hpke (Some demo_escrow) (ek_pub demo_escrow) = Inr r \<and>
     Recovery_Open plain_prims demo_pki demo_hpke r (Some demo_escrow) = Inr demo_escrow \<and>
     SealKey demo_pki (Some demo_escrow) (Some demo_sealer) ProviderSimulated [1] = Inr sk \<and>
     SealedKey_Open demo_pki demo_hpke sk (Some demo_sealer) ProviderSimulated [1] = Inr demo_escrow"
proof -
  have cur: "SuiteHPKEMLKEM768 \<in> set currentSuites" by (simp add: currentSuites_def)
  have nz: "\<not> PublicKey_IsZero (ek_pub demo_escrow)" by (simp add: demo_escrow_def PublicKey_IsZero_def suite_names)
  have "ep_suite (ek_pub demo_escrow) = SuiteHPKEMLKEM768" by (simp add: demo_escrow_def)
  then obtain pem where pem: "PublicPEM demo_pki (ek_pub demo_escrow) = Inr pem"
    using current_families [OF cur] by (simp add: PublicPEM_def suite_names)
  obtain ct where "Suite_Wrap plain_prims demo_hpke SuiteHPKEMLKEM768 PurposeEscrowRecovery [9] (zeros 1184)
      (recoveryAADV2 (escrow_KeyTag (ek_pub demo_escrow)) (escrow_KeyTag (ek_pub demo_escrow))) = Inr ct"
    using Suite_Wrap_demo [of "[9]" PurposeEscrowRecovery
        "recoveryAADV2 (escrow_KeyTag (ek_pub demo_escrow)) (escrow_KeyTag (ek_pub demo_escrow))"]
    by (auto simp: PurposeEscrowRecovery_def)
  then have "\<exists>r. WrapRecovery plain_prims demo_pki demo_hpke (Some demo_escrow) (ek_pub demo_escrow) = Inr r"
    using pem nz by (simp add: WrapRecovery_def Let_def) (simp add: demo_escrow_def)
  then obtain r where r: "WrapRecovery plain_prims demo_pki demo_hpke (Some demo_escrow) (ek_pub demo_escrow) = Inr r" ..
  have "\<not> Measurement_IsZero [1]" by (simp add: Measurement_IsZero_def)
  then have "\<exists>sk. SealKey demo_pki (Some demo_escrow) (Some demo_sealer) ProviderSimulated [1] = Inr sk"
    using pem by (simp add: SealKey_def demo_sealer_def ProviderSimulated_def)
  then obtain sk where sk: "SealKey demo_pki (Some demo_escrow) (Some demo_sealer) ProviderSimulated [1] = Inr sk" ..
  have "\<forall>b aad c. ts_Seal demo_sealer b aad = Inr c \<longrightarrow> ts_Unseal demo_sealer c aad = Inr b" by (simp add: demo_sealer_def)
  with escrow_key_comes_back [OF plain_prims_ok demo_pki_ok demo_hpke_agrees demo_escrow_key cur] demo_escrow_key r sk
  have "Recovery_Open plain_prims demo_pki demo_hpke r (Some demo_escrow) = Inr demo_escrow"
    "SealedKey_Open demo_pki demo_hpke sk (Some demo_sealer) ProviderSimulated [1] = Inr demo_escrow" by blast+
  with r sk show ?thesis by blast
qed

end
