(* ===== verification/Confirm.thy ===== *)
theory Confirm
  imports Coordinator FailoverChoose ReleaseHost
begin

text \<open>
  Restore receipts (src/internal/genome/receipt/receipt.go): the receipt, the gate's verdict in it, its
  validation, and signing and verifying it with a TEE.

  A \<open>float64\<close> is its IEEE 754 bits. The text \<open>encoding/json\<close> gives one is an argument \<open>ft\<close>, and so is \<open>D\<close>, which
  decodes one JSON value as a receipt (unknown fields refused) and leaves the bytes after it. The
  saving of a receipt in a file is not modelled.
\<close>

section \<open>Floats\<close>

type_synonym float64 = "64 word"

text \<open>\<open>x < 0\<close>: the sign is set, and it is neither minus zero nor a NaN.\<close>

definition float_negative :: "float64 \<Rightarrow> bool" where
  "float_negative x \<longleftrightarrow> 0x8000000000000000 < x \<and> x \<le> 0xFFF0000000000000"

section \<open>The receipt\<close>

definition ReceiptSchema :: string where
  "ReceiptSchema = ''vault-genome/restore-receipt/v1''"

definition receipt_challengeLabel :: string where
  "receipt_challengeLabel = ''vault-genome restore-receipt v1''"

definition GateFail :: string where
  "GateFail = ''FAIL''"

record Gate =
  GT_Level :: string
  GT_Door :: string
  GT_Fixtures :: i64
  GT_MaxAbsErr :: float64
  GT_MaxRelErr :: float64
  GT_Atol :: float64
  GT_Rtol :: float64
  GT_BackendSeconds :: float64

record Receipt =
  RC_Schema :: string
  RC_KeyID :: string
  RC_DecisionID :: string
  RC_RequestID :: string
  RC_TokenID :: string
  RC_DestinationKind :: string
  RC_DestinationMeasurement :: string
  RC_BundleSHA256 :: string
  RC_Generation :: u64
  RC_ContentKind :: string
  RC_PayloadSHA256 :: string
  RC_TreeSHA256 :: string
  RC_Files :: i64
  RC_Bytes :: i64
  RC_KeyReceivedAt :: gotime
  RC_RestoredAt :: gotime
  RC_RestoreSeconds :: float64
  RC_Gate :: "Gate option"

definition Gate_Meets :: "Gate option \<Rightarrow> string \<Rightarrow> bool" where
  "Gate_Meets g want \<longleftrightarrow>
     (case g of
        None \<Rightarrow> False
      | Some v \<Rightarrow>
          if want = GateExact then GT_Level v = GateExact
          else if want = GateEquivalent then GT_Level v = GateExact \<or> GT_Level v = GateEquivalent
          else False)"

text \<open>The required texts, in the order an iteration over the code's map may take.\<close>

definition receipt_required :: "Receipt \<Rightarrow> string list" where
  "receipt_required r =
     map (\<lambda>(n, v). n @ '' required'')
       (filter (\<lambda>(n, v). v = [])
         [(''key_id'', RC_KeyID r), (''decision_id'', RC_DecisionID r), (''request_id'', RC_RequestID r),
          (''token_id'', RC_TokenID r), (''destination_kind'', RC_DestinationKind r), (''content_kind'', RC_ContentKind r)])"

definition is_measurement_hex :: "string \<Rightarrow> bool" where
  "is_measurement_hex s \<longleftrightarrow> (length s = 64 \<or> length s = 96 \<or> length s = 128) \<and> is_lower_hex s"

definition say :: "bool \<Rightarrow> string \<Rightarrow> string list" where
  "say c msg = (if c then [msg] else [])"

definition gate_faults :: "Gate option \<Rightarrow> string list" where
  "gate_faults g =
     (case g of
        None \<Rightarrow> []
      | Some v \<Rightarrow>
          say (GT_Level v \<noteq> GateExact \<and> GT_Level v \<noteq> GateEquivalent \<and> GT_Level v \<noteq> GateFail) (''gate level '' @ fmt_q (GT_Level v)) @
          say (sint (GT_Fixtures v) \<le> 0 \<or> float_negative (GT_MaxAbsErr v) \<or> float_negative (GT_MaxRelErr v) \<or> float_negative (GT_Atol v) \<or>
               float_negative (GT_Rtol v) \<or> float_negative (GT_BackendSeconds v)) ''gate figures must be a real gate's'')"

definition receipt_faults :: "Receipt \<Rightarrow> string list" where
  "receipt_faults r =
     say (RC_Schema r \<noteq> ReceiptSchema) (''schema '' @ fmt_q (RC_Schema r) @ '', want '' @ fmt_q ReceiptSchema) @
     receipt_required r @
     say (\<not> is_measurement_hex (RC_DestinationMeasurement r)) ''destination_measurement must be 32, 48 or 64 bytes of hex'' @
     say (\<not> is_hex_digest (RC_BundleSHA256 r)) ''bundle_sha256 must be 64 hex'' @
     say (\<not> is_payload_digest (RC_PayloadSHA256 r)) ''payload_sha256 must be sha256:<64 hex>'' @
     say (\<not> is_hex_digest (RC_TreeSHA256 r)) ''tree_sha256 must be 64 hex'' @
     say (sint (RC_Files r) \<le> 0 \<or> sint (RC_Bytes r) < 0 \<or> float_negative (RC_RestoreSeconds r))
       ''files, bytes and restore_seconds must be a real restore's'' @
     say (RC_KeyReceivedAt r = zero_time \<or> RC_RestoredAt r = zero_time \<or> RC_RestoredAt r < RC_KeyReceivedAt r)
       ''key_received_at and restored_at required, in that order'' @
     gate_faults (RC_Gate r)"

text \<open>\<open>errors.Join\<close>: nothing, or the texts, a line each.\<close>

fun joined :: "string list \<Rightarrow> string" where
  "joined [] = []"
| "joined [m] = m"
| "joined (m # ms) = m @ [CHR 0x0A] @ joined ms"

definition Receipt_Validate :: "Receipt \<Rightarrow> go_error option" where
  "Receipt_Validate r =
     (if receipt_faults r = [] then None else Some (wrapf ''receipt'' (errorsNew (joined (receipt_faults r)))))"

section \<open>Its bytes\<close>

definition float_member :: "(float64 \<Rightarrow> go_error + string) \<Rightarrow> float64 \<Rightarrow> wire" where
  "float_member ft x = WTree (bindR (ft x) (\<lambda>t. Inr (Some (JNum t))))"

definition Gate_wire :: "(float64 \<Rightarrow> go_error + string) \<Rightarrow> Gate \<Rightarrow> (string \<times> wire) list" where
  "Gate_wire ft g =
     [(''level'', WStr (GT_Level g)), (''door'', WOpt (GT_Door g)), (''fixtures'', WInt (sint (GT_Fixtures g))),
      (''max_abs_err'', float_member ft (GT_MaxAbsErr g)), (''max_rel_err'', float_member ft (GT_MaxRelErr g)),
      (''atol'', float_member ft (GT_Atol g)), (''rtol'', float_member ft (GT_Rtol g)),
      (''backend_seconds'', float_member ft (GT_BackendSeconds g))]"

definition gate_member :: "(float64 \<Rightarrow> go_error + string) \<Rightarrow> Gate option \<Rightarrow> wire" where
  "gate_member ft g = WTree (case g of None \<Rightarrow> Inr None | Some v \<Rightarrow> bindR (marshal_wire (Gate_wire ft v)) (\<lambda>j. Inr (Some j)))"

definition Receipt_wire :: "(float64 \<Rightarrow> go_error + string) \<Rightarrow> Receipt \<Rightarrow> (string \<times> wire) list" where
  "Receipt_wire ft r =
     [(''schema'', WStr (RC_Schema r)), (''key_id'', WStr (RC_KeyID r)), (''decision_id'', WStr (RC_DecisionID r)),
      (''request_id'', WStr (RC_RequestID r)), (''token_id'', WStr (RC_TokenID r)),
      (''destination_kind'', WStr (RC_DestinationKind r)), (''destination_measurement'', WStr (RC_DestinationMeasurement r)),
      (''bundle_sha256'', WStr (RC_BundleSHA256 r)), (''generation'', WNum (unat (RC_Generation r))),
      (''content_kind'', WStr (RC_ContentKind r)), (''payload_sha256'', WStr (RC_PayloadSHA256 r)),
      (''tree_sha256'', WStr (RC_TreeSHA256 r)), (''files'', WInt (sint (RC_Files r))), (''bytes'', WInt (sint (RC_Bytes r))),
      (''key_received_at'', WTime (RC_KeyReceivedAt r)), (''restored_at'', WTime (RC_RestoredAt r)),
      (''restore_seconds'', float_member ft (RC_RestoreSeconds r)), (''gate'', gate_member ft (RC_Gate r))]"

definition Receipt_Marshal :: "(jval \<Rightarrow> bytes) \<Rightarrow> (float64 \<Rightarrow> go_error + string) \<Rightarrow> Receipt \<Rightarrow> go_error + bytes" where
  "Receipt_Marshal J ft r = guardR (Receipt_Validate r) (bindR (marshal_wire (Receipt_wire ft r)) (\<lambda>j. Inr (J j)))"

text \<open>\<open>dec.More()\<close> at the top level: a byte that is no space follows, and it closes no array or object.\<close>

definition decoder_More :: "bytes \<Rightarrow> bool" where
  "decoder_More rest =
     (case dropWhile (\<lambda>b. b \<in> set (string_bytes ('' '' @ [CHR 0x09, CHR 0x0D, CHR 0x0A]))) rest of
        [] \<Rightarrow> False
      | b # bs \<Rightarrow> [b] \<noteq> string_bytes '']'' \<and> [b] \<noteq> string_bytes ''}'')"

definition receipt_Parse :: "(bytes \<Rightarrow> go_error + Receipt \<times> bytes) \<Rightarrow> bytes \<Rightarrow> go_error + Receipt" where
  "receipt_Parse D b =
     (case D b of
        Inl err \<Rightarrow> Inl (wrapf ''receipt'' err)
      | Inr (r, rest) \<Rightarrow>
          if decoder_More rest then Inl (errorsNew ''receipt: trailing data'')
          else guardR (Receipt_Validate r) (Inr r))"

section \<open>Signing and verifying\<close>

definition receipt_Challenge :: "(bytes \<Rightarrow> bytes) \<Rightarrow> bytes \<Rightarrow> bytes" where
  "receipt_Challenge sha512 b = sha512 (string_bytes receipt_challengeLabel @ PutUint32 (of_nat (length b)) @ b)"

definition receipt_Sign ::
    "(bytes \<Rightarrow> bytes) \<Rightarrow> (jval \<Rightarrow> bytes) \<Rightarrow> (float64 \<Rightarrow> go_error + string) \<Rightarrow> (Nonce \<Rightarrow> go_error + Evidence) \<Rightarrow> Receipt \<Rightarrow> go_error + Signed" where
  "receipt_Sign sha512 J ft produce r =
     bindR (Receipt_Marshal J ft r) (\<lambda>b.
       case produce (receipt_Challenge sha512 b) of
         Inl err \<Rightarrow> Inl (wrapf ''receipt: quote'' err)
       | Inr ev \<Rightarrow> Inr \<lparr>SG_Receipt = b, SG_Evidence = ev\<rparr>)"

definition receipt_Verify ::
    "(bytes \<Rightarrow> bytes) \<Rightarrow> (bytes \<Rightarrow> go_error + Receipt \<times> bytes) \<Rightarrow> Signed \<Rightarrow> tee_Verifier \<Rightarrow> go_error + Receipt \<times> Measurement" where
  "receipt_Verify sha512 D sg verify =
     (case verify (SG_Evidence sg) (receipt_Challenge sha512 (SG_Receipt sg)) of
        Inl err \<Rightarrow> Inl (wrapf ''receipt: evidence does not verify'' err)
      | Inr m \<Rightarrow>
          bindR (receipt_Parse D (SG_Receipt sg)) (\<lambda>r.
            if hex_encode m \<noteq> RC_DestinationMeasurement r
            then Inl (errorsNew (''receipt: names measurement '' @ RC_DestinationMeasurement r @ '', but its Evidence attests '' @ hex_encode m))
            else Inr (r, m)))"

section \<open>What they keep\<close>

lemma receipt_Parse_ok: "receipt_Parse D b = Inr r \<Longrightarrow> Receipt_Validate r = None \<and> (\<exists>rest. D b = Inr (r, rest) \<and> \<not> decoder_More rest)"
  by (auto simp: receipt_Parse_def split: sum.splits if_splits)

lemma receipt_Verify_ok:
  assumes "receipt_Verify sha512 D sg verify = Inr (r, m)"
  shows "verify (SG_Evidence sg) (receipt_Challenge sha512 (SG_Receipt sg)) = Inr m" "receipt_Parse D (SG_Receipt sg) = Inr r"
    "RC_DestinationMeasurement r = hex_encode m"
  using assms by (auto simp: receipt_Verify_def split: sum.splits if_splits)

text \<open>A receipt that was signed verifies to itself, when the decoder reads back what was written.\<close>

lemma receipt_signed_verifies:
  assumes "receipt_Sign sha512 J ft produce r = Inr sg"
    and "\<And>n ev. produce n = Inr ev \<Longrightarrow> verify ev n = Inr m"
    and "\<And>j. marshal_wire (Receipt_wire ft r) = Inr j \<Longrightarrow> D (J j) = Inr (r, [])"
    and "RC_DestinationMeasurement r = hex_encode m"
  shows "receipt_Verify sha512 D sg verify = Inr (r, m)"
proof -
  obtain j where v: "Receipt_Validate r = None" "marshal_wire (Receipt_wire ft r) = Inr j"
    using assms(1) by (auto simp: receipt_Sign_def Receipt_Marshal_def)
  then have j: "SG_Receipt sg = J j" "produce (receipt_Challenge sha512 (J j)) = Inr (SG_Evidence sg)"
    using assms(1) by (auto simp: receipt_Sign_def Receipt_Marshal_def split: sum.splits)
  have "receipt_Parse D (J j) = Inr r" using v(1) assms(3) [OF v(2)] by (simp add: receipt_Parse_def decoder_More_def)
  then show ?thesis using j(1) assms(2) [OF j(2)] assms(4) by (simp add: receipt_Verify_def)
qed

text \<open>
  Confirming a restore (src/internal/vault/kms/confirm.go): the release the audit log recorded, and the
  destination's receipt held against it before the restore is recorded as completed.

  \<open>U\<close> decodes the payload of an authorized release; the other decoders are those of the receipt.
\<close>

section \<open>The recorded release\<close>

record AuthorizedRelease =
  AU_DecisionID :: string
  AU_RequestID :: string
  AU_TokenID :: string
  AU_DestinationKind :: Provider
  AU_DestinationMeasurement :: bytes
  AU_KeyIDs :: "KeyID list"
  AU_AuthorizedAt :: gotime
  AU_AuditID :: string

text \<open>The loop over the events, from the last; \<open>U\<close> gives the payload's fields with no audit id.\<close>

fun find_release ::
    "(bytes \<Rightarrow> go_error + AuthorizedRelease) \<Rightarrow> string \<Rightarrow> AuditEvent list \<Rightarrow> go_error + AuthorizedRelease" where
  "find_release U decisionID [] =
     Inl (Authority CodeRequiredFieldMissing
       (''kms.FindAuthorizedRelease: the audit log records no authorized release for decision '' @ fmt_q decisionID) None)"
| "find_release U decisionID (e # older) =
     (if AE_Kind e \<noteq> KindKeyReleaseAuthorized then find_release U decisionID older
      else (case U (AE_Payload e) of
              Inl err \<Rightarrow> Inl (Integrity CodeFieldValueInvalid
                (''kms.FindAuthorizedRelease: audit event '' @ AE_EventID e @ '' does not decode'') (Some err))
            | Inr p \<Rightarrow>
                if AU_DecisionID p \<noteq> decisionID then find_release U decisionID older
                else Inr (p\<lparr>AU_AuditID := AE_EventID e\<rparr>)))"

definition FindAuthorizedRelease ::
    "(bytes \<Rightarrow> go_error + AuthorizedRelease) \<Rightarrow> AuditEvent list \<Rightarrow> string \<Rightarrow> go_error + AuthorizedRelease" where
  "FindAuthorizedRelease U events decisionID = find_release U decisionID (rev events)"

section \<open>The request\<close>

record ConfirmRequest =
  FR_Release :: AuthorizedRelease
  FR_DestinationEndpoint :: string
  FR_KeyID :: KeyID
  FR_Expect :: "ExpectedGenome option"
  FR_RequireGate :: string
  FR_SessionID :: string
  FR_ManifestID :: string

record ConfirmResult =
  CN_Receipt :: Receipt
  CN_ReceiptSHA256 :: bytes
  CN_MatchedOperatorBundle :: bool
  CN_ConfirmedAt :: gotime
  CN_AuditID :: string

definition confirm_request_check :: "Coordinator \<Rightarrow> ConfirmRequest \<Rightarrow> go_error option" where
  "confirm_request_check c req =
     (let rel = FR_Release req in
      first_err
        [chk (\<not> co_receipts c) (missing ''kms.ConfirmRestore: no ReceiptFetcher configured''),
         chk (AU_DecisionID rel = [] \<or> AU_RequestID rel = [] \<or> AU_TokenID rel = [] \<or> AU_DestinationMeasurement rel = [])
           (missing ''kms.ConfirmRestore: the recorded release is incomplete''),
         chk (FR_DestinationEndpoint req = []) (missing ''kms.ConfirmRestore: DestinationEndpoint required''),
         chk (FR_RequireGate req \<noteq> [] \<and> FR_RequireGate req \<noteq> GateEquivalent \<and> FR_RequireGate req \<noteq> GateExact)
           (Structural CodeFieldValueInvalid
             (''kms.ConfirmRestore: RequireGate '' @ fmt_q (FR_RequireGate req) @ '' (want EQUIVALENT or EXACT)'') None),
         chk (FR_KeyID req \<notin> set (AU_KeyIDs rel))
           (Authority CodeAttestationDenied
             (''kms.ConfirmRestore: key '' @ fmt_q (FR_KeyID req) @ '' was not released under decision '' @ fmt_q (AU_DecisionID rel)) None)])"

section \<open>The receipt against the release\<close>

definition confirm_denied :: "string \<Rightarrow> go_error" where
  "confirm_denied msg = Integrity CodeAttestationDenied (''kms.ConfirmRestore: '' @ msg) None"

fun first_mismatch :: "(string \<Rightarrow> string \<Rightarrow> string \<Rightarrow> string) \<Rightarrow> (string \<times> string \<times> string) list \<Rightarrow> go_error option" where
  "first_mismatch say_it [] = None"
| "first_mismatch say_it ((field, got, want) # ms) =
     (if got \<noteq> want then Some (confirm_denied (say_it field got want)) else first_mismatch say_it ms)"

definition release_fields :: "ConfirmRequest \<Rightarrow> Receipt \<Rightarrow> (string \<times> string \<times> string) list" where
  "release_fields req rc =
     (let rel = FR_Release req in
      [(''decision_id'', RC_DecisionID rc, AU_DecisionID rel), (''request_id'', RC_RequestID rc, AU_RequestID rel),
       (''token_id'', RC_TokenID rc, AU_TokenID rel), (''key_id'', RC_KeyID rc, FR_KeyID req),
       (''destination_kind'', RC_DestinationKind rc, AU_DestinationKind rel)])"

definition genome_fields :: "ExpectedGenome \<Rightarrow> Receipt \<Rightarrow> (string \<times> string \<times> string) list" where
  "genome_fields e rc =
     [(''bundle_sha256'', RC_BundleSHA256 rc, EG_BundleSHA256 e), (''payload_sha256'', RC_PayloadSHA256 rc, EG_PayloadSHA256 e),
      (''tree_sha256'', RC_TreeSHA256 rc, EG_TreeSHA256 e)]"

definition gate_refusal :: "ConfirmRequest \<Rightarrow> Receipt \<Rightarrow> go_error option" where
  "gate_refusal req rc =
     chk (FR_RequireGate req \<noteq> [] \<and> \<not> Gate_Meets (RC_Gate rc) (FR_RequireGate req))
       (confirm_denied (''the destination signed '' @
          (case RC_Gate rc of None \<Rightarrow> ''no gate verdict'' | Some g \<Rightarrow> ''gate verdict '' @ GT_Level g) @
          ''; '' @ FR_RequireGate req @ '' or better is required''))"

definition receipt_refusal :: "ConfirmRequest \<Rightarrow> Receipt \<Rightarrow> Measurement \<Rightarrow> go_error option" where
  "receipt_refusal req rc m =
     first_err
       [chk (m \<noteq> AU_DestinationMeasurement (FR_Release req))
          (confirm_denied (''the receipt is signed by TEE measurement '' @ hex_encode m @ '', but the key was released to '' @
             hex_encode (AU_DestinationMeasurement (FR_Release req)))),
        first_mismatch (\<lambda>f g w. ''receipt '' @ f @ '' '' @ fmt_q g @ '', the recorded release says '' @ fmt_q w) (release_fields req rc),
        (case FR_Expect req of
           None \<Rightarrow> None
         | Some e \<Rightarrow> first_mismatch (\<lambda>f g w. ''the destination restored '' @ f @ '' '' @ g @ '', the operator's genome has '' @ w) (genome_fields e rc)),
        gate_refusal req rc]"

definition verify_receipt ::
    "'c host \<Rightarrow> (bytes \<Rightarrow> go_error + Receipt \<times> bytes) \<Rightarrow> Verifier \<Rightarrow> ConfirmRequest \<Rightarrow> Signed \<Rightarrow> go_error + Receipt" where
  "verify_receipt h D v req sg =
     (case receipt_Verify (ho_SHA512 h) D sg (vf_Verify v) of
        Inl err \<Rightarrow> Inl (Integrity CodeAttestationDenied ''kms.ConfirmRestore: receipt refused'' (Some err))
      | Inr (rc, m) \<Rightarrow> guardR (receipt_refusal req rc m) (Inr rc))"

section \<open>Recording the completion\<close>

definition KindCrossCloudRestoreCompleted :: string where
  "KindCrossCloudRestoreCompleted = ''CROSS_CLOUD_RESTORE_COMPLETED''"

definition restoreConfirmed_payload ::
    "(float64 \<Rightarrow> go_error + string) \<Rightarrow> ConfirmRequest \<Rightarrow> Receipt \<Rightarrow> Signed \<Rightarrow> gotime \<Rightarrow> (string \<times> wire) list" where
  "restoreConfirmed_payload ft req rc sg now =
     (let rel = FR_Release req in
      [(''decision_id'', WStr (AU_DecisionID rel)), (''request_id'', WStr (AU_RequestID rel)), (''token_id'', WStr (AU_TokenID rel)),
       (''key_id'', WStr (FR_KeyID req)), (''release_audit_id'', WStr (AU_AuditID rel)), (''destination_kind'', WStr (AU_DestinationKind rel)),
       (''destination_measurement'', WBytes (AU_DestinationMeasurement rel)), (''bundle_sha256'', WStr (RC_BundleSHA256 rc)),
       (''generation'', WNum (unat (RC_Generation rc))), (''payload_sha256'', WStr (RC_PayloadSHA256 rc)),
       (''tree_sha256'', WStr (RC_TreeSHA256 rc)), (''files'', WInt (sint (RC_Files rc))), (''bytes'', WInt (sint (RC_Bytes rc))),
       (''key_received_at'', WTime (RC_KeyReceivedAt rc)), (''restored_at'', WTime (RC_RestoredAt rc)),
       (''restore_seconds'', float_member ft (RC_RestoreSeconds rc)), (''receipt_sha256'', WBytes (SHA256 (SG_Receipt sg))),
       (''evidence_sha256'', WBytes (SHA256 (SG_Evidence sg))), (''matched_operator_bundle'', WBool (FR_Expect req \<noteq> None)),
       (''gate'', gate_member ft (RC_Gate rc)), (''required_gate'', WOpt (FR_RequireGate req)), (''confirmed_at'', WTime now)])"

definition record_restore ::
    "'c host \<Rightarrow> (float64 \<Rightarrow> go_error + string) \<Rightarrow> ConfirmRequest \<Rightarrow> Receipt \<Rightarrow> Signed \<Rightarrow> ('c site, go_error, ConfirmResult) eff" where
  "record_restore h ft req rc sg =
     bindE (readE (clock_Now h)) (\<lambda>now.
     bindE (mapE (\<lambda>err. Structural CodeFieldValueInvalid ''kms.ConfirmRestore: payload marshal failed'' (Some err))
              (pureE (json_Marshal h (restoreConfirmed_payload ft req rc sg now)))) (\<lambda>payload.
     bindE (Emit_event h KindCrossCloudRestoreCompleted payload (FR_SessionID req) (FR_ManifestID req) (AU_RequestID (FR_Release req))) (\<lambda>eid.
     pureE (Inr \<lparr>CN_Receipt = rc, CN_ReceiptSHA256 = SHA256 (SG_Receipt sg), CN_MatchedOperatorBundle = (FR_Expect req \<noteq> None),
                 CN_ConfirmedAt = now, CN_AuditID = eid\<rparr>))))"

definition ConfirmRestore ::
    "'c host \<Rightarrow> Coordinator \<Rightarrow> (bytes \<Rightarrow> go_error + Receipt \<times> bytes) \<Rightarrow> (float64 \<Rightarrow> go_error + string) \<Rightarrow> ConfirmRequest \<Rightarrow>
     ('c site, go_error, ConfirmResult) eff" where
  "ConfirmRestore h c D ft req =
     guardE (confirm_request_check c req)
       (bindE (pureE (Registry_Resolve (co_verifiers c) (AU_DestinationKind (FR_Release req)))) (\<lambda>verifier.
        bindE (FetchRestoreReceipt h (FR_DestinationEndpoint req) (FR_KeyID req)) (\<lambda>sg.
        bindE (pureE (verify_receipt h D verifier req sg)) (\<lambda>rc.
        record_restore h ft req rc sg))))"

section \<open>What a confirmation checked\<close>

text \<open>A receipt that proves the restore of a release: attested by the measurement the key went to, naming the
  release and the key, of the genome that was expected, and through the gate that was required.\<close>

definition proves_restore :: "'c host \<Rightarrow> Coordinator \<Rightarrow> (bytes \<Rightarrow> go_error + Receipt \<times> bytes) \<Rightarrow> ConfirmRequest \<Rightarrow> Signed \<Rightarrow> Receipt \<Rightarrow> bool" where
  "proves_restore h c D req sg rc \<longleftrightarrow>
     (let rel = FR_Release req in
      (\<exists>v. Registry_Resolve (co_verifiers c) (AU_DestinationKind rel) = Inr v \<and>
         vf_Verify v (SG_Evidence sg) (receipt_Challenge (ho_SHA512 h) (SG_Receipt sg)) = Inr (AU_DestinationMeasurement rel)) \<and>
      receipt_Parse D (SG_Receipt sg) = Inr rc \<and> Receipt_Validate rc = None \<and>
      RC_DestinationMeasurement rc = hex_encode (AU_DestinationMeasurement rel) \<and>
      RC_DecisionID rc = AU_DecisionID rel \<and> RC_RequestID rc = AU_RequestID rel \<and> RC_TokenID rc = AU_TokenID rel \<and>
      RC_KeyID rc = FR_KeyID req \<and> FR_KeyID req \<in> set (AU_KeyIDs rel) \<and> RC_DestinationKind rc = AU_DestinationKind rel \<and>
      (case FR_Expect req of
         None \<Rightarrow> True
       | Some e \<Rightarrow> RC_BundleSHA256 rc = EG_BundleSHA256 e \<and> RC_PayloadSHA256 rc = EG_PayloadSHA256 e \<and> RC_TreeSHA256 rc = EG_TreeSHA256 e) \<and>
      (FR_RequireGate req \<noteq> [] \<longrightarrow> Gate_Meets (RC_Gate rc) (FR_RequireGate req)))"

lemma first_mismatch_None: "first_mismatch f ms = None \<longleftrightarrow> (\<forall>(n, g, w) \<in> set ms. g = w)"
  by (induction ms) (auto split: if_splits)

lemma receipt_refusal_None:
  assumes "receipt_refusal req rc m = None"
  shows "m = AU_DestinationMeasurement (FR_Release req)" "first_mismatch f (release_fields req rc) = None"
    "FR_Expect req = Some e \<Longrightarrow> first_mismatch f (genome_fields e rc) = None"
    "FR_RequireGate req \<noteq> [] \<Longrightarrow> Gate_Meets (RC_Gate rc) (FR_RequireGate req)"
  using assms by (auto simp: receipt_refusal_def gate_refusal_def first_mismatch_None)

lemma verify_receipt_proves:
  assumes "confirm_request_check c req = None" "Registry_Resolve (co_verifiers c) (AU_DestinationKind (FR_Release req)) = Inr v"
    and "verify_receipt h D v req sg = Inr rc"
  shows "proves_restore h c D req sg rc"
proof -
  obtain m where m: "receipt_Verify (ho_SHA512 h) D sg (vf_Verify v) = Inr (rc, m)" "receipt_refusal req rc m = None"
    using assms(3) by (auto simp: verify_receipt_def split: sum.splits prod.splits)
  note r = receipt_refusal_None [OF m(2)] and q = receipt_Verify_ok [OF m(1)]
  have "FR_KeyID req \<in> set (AU_KeyIDs (FR_Release req))" using assms(1) by (simp add: confirm_request_check_def Let_def)
  moreover have "Receipt_Validate rc = None" using receipt_Parse_ok [OF q(2)] by simp
  moreover have "case FR_Expect req of None \<Rightarrow> True
       | Some e \<Rightarrow> RC_BundleSHA256 rc = EG_BundleSHA256 e \<and> RC_PayloadSHA256 rc = EG_PayloadSHA256 e \<and> RC_TreeSHA256 rc = EG_TreeSHA256 e"
  proof (cases "FR_Expect req")
    case (Some e)
    from r(3) [OF this, where f = "\<lambda>f g w. []"] show ?thesis by (simp add: first_mismatch_None genome_fields_def Some del: first_mismatch.simps)
  qed simp
  ultimately show ?thesis
    using r(1,4) r(2) [where f = "\<lambda>f g w. []"] q assms(2)
    by (simp add: proves_restore_def first_mismatch_None release_fields_def Let_def del: first_mismatch.simps)
qed

text \<open>And a receipt that proves the restore is not refused.\<close>

lemma proves_restore_verifies:
  assumes "proves_restore h c D req sg rc"
  obtains v where "Registry_Resolve (co_verifiers c) (AU_DestinationKind (FR_Release req)) = Inr v" "verify_receipt h D v req sg = Inr rc"
proof -
  let ?rel = "FR_Release req"
  obtain v where v: "Registry_Resolve (co_verifiers c) (AU_DestinationKind ?rel) = Inr v"
      "vf_Verify v (SG_Evidence sg) (receipt_Challenge (ho_SHA512 h) (SG_Receipt sg)) = Inr (AU_DestinationMeasurement ?rel)"
    using assms by (auto simp: proves_restore_def Let_def)
  have p: "receipt_Parse D (SG_Receipt sg) = Inr rc" "RC_DestinationMeasurement rc = hex_encode (AU_DestinationMeasurement ?rel)"
    using assms by (simp_all add: proves_restore_def Let_def)
  then have "receipt_Verify (ho_SHA512 h) D sg (vf_Verify v) = Inr (rc, AU_DestinationMeasurement ?rel)"
    using v(2) by (simp add: receipt_Verify_def)
  moreover have "receipt_refusal req rc (AU_DestinationMeasurement ?rel) = None"
    using assms by (auto simp: proves_restore_def Let_def receipt_refusal_def gate_refusal_def release_fields_def genome_fields_def
        split: option.splits)
  ultimately have "verify_receipt h D v req sg = Inr rc" by (simp add: verify_receipt_def)
  with v(1) show thesis by (rule that)
qed

text \<open>The latest authorized release of a decision is the one that is found.\<close>

lemma find_release_skips:
  assumes "\<And>e. e \<in> set newer \<Longrightarrow> AE_Kind e \<noteq> KindKeyReleaseAuthorized"
  shows "find_release U d (newer @ es) = find_release U d es"
  using assms by (induction newer) auto

end
