(* ===== verification/Executor.thy ===== *)
theory Executor
  imports Confirm Escrow FailoverWatch
begin

text \<open>
  The failover executor (src/internal/vault/failover/executor.go): on a trigger it chooses the genome,
  records the decision, opens the genome's key from escrow, releases it to the standby through the
  coordinator, and waits for the standby's receipt.

  The outbox is the directory as it stands when the choice reads it. \<open>libs\<close> are the decoders, the texts
  and the arithmetic of \<open>float64\<close>, the log's events, and whether the context has ended after a trace.
  Logging and the wiping of the key's buffer are not modelled.
\<close>

record 'c libs =
  lb_decoders :: decoders
  lb_tree :: tree_codec
  lb_receipt :: "bytes \<Rightarrow> go_error + Receipt \<times> bytes"
  lb_release :: "bytes \<Rightarrow> go_error + AuthorizedRelease"
  lb_decided :: "bytes \<Rightarrow> (string \<times> u64) option"
  lb_float :: "float64 \<Rightarrow> go_error + string"
  lb_Seconds :: "duration \<Rightarrow> float64"
  lb_add :: "float64 \<Rightarrow> float64 \<Rightarrow> float64"
  lb_events :: "'c \<Rightarrow> AuditEvent list"
  lb_cancelled :: "io list \<Rightarrow> go_error option"

section \<open>The executor\<close>

record Executor =
  ex_Policy :: Policy
  ex_Outbox :: Outbox
  ex_Escrow :: PrivateKey
  ex_Primary :: "tee_Verifier option"
  ex_Coordinator :: Coordinator
  ex_Poll :: duration
  ex_ConfirmWait :: duration

text \<open>The configuration: the parts that may be missing, and those of the host as wired or not.\<close>

record ExecutorConfig =
  xg_Policy :: Policy
  xg_Outbox :: Outbox
  xg_Escrow :: "PrivateKey option"
  xg_Primary :: "tee_Verifier option"
  xg_Coordinator :: "Coordinator option"
  xg_Audit :: bool
  xg_Events :: bool
  xg_IDs :: bool
  xg_Clock :: bool
  xg_Poll :: duration
  xg_ConfirmWait :: duration

definition NewExecutor :: "urls \<Rightarrow> (bytes \<Rightarrow> (string \<times> u64) option) \<Rightarrow> ExecutorConfig \<Rightarrow> AuditEvent list \<Rightarrow> go_error + Executor" where
  "NewExecutor N U cfg events =
     (let p = xg_Policy cfg in
      guardR
        (first_err
          [chk (ob_Dir (xg_Outbox cfg) = [] \<or> xg_Escrow cfg = None \<or> xg_Coordinator cfg = None \<or> \<not> xg_Audit cfg \<or> \<not> xg_Events cfg \<or>
                \<not> xg_IDs cfg \<or> \<not> xg_Clock cfg)
             (errorsNew ''failover: outbox, escrow key, coordinator, audit log, ID generator and clock required''),
           chk (sint (xg_Poll cfg) \<le> 0 \<or> sint (xg_ConfirmWait cfg) \<le> 0) (errorsNew ''failover: poll and confirm wait must be positive''),
           Policy_validate N p,
           (case FP_Primary p of
              None \<Rightarrow> None
            | Some pr \<Rightarrow> chk (xg_Primary cfg = None)
                (errorsNew (''failover: the policy pins the primary's '' @ PR_Kind pr @ '' TEE, and no verifier for it was given''))),
           CheckNotSpent U p events])
        (Inr \<lparr>ex_Policy = p, ex_Outbox = xg_Outbox cfg, ex_Escrow = the (xg_Escrow cfg), ex_Primary = xg_Primary cfg,
              ex_Coordinator = the (xg_Coordinator cfg), ex_Poll = xg_Poll cfg, ex_ConfirmWait = xg_ConfirmWait cfg\<rparr>))"

section \<open>Reports\<close>

record TriggerReport =
  TT_Kind :: string
  TT_At :: gotime
  TT_ObservedAt :: gotime
  TT_AliveObservedAt :: "gotime option"
  TT_EvidenceSHA256 :: string
  TT_PrimaryMeasurementHex :: string
  TT_Tripped :: "Trip list"
  TT_ReportedLast :: "Link option"

record DecisionReport =
  DD_Decision :: string
  DD_Reason :: string
  DD_DecisionID :: string
  DD_AuditID :: string
  DD_DecidedAt :: gotime

record GenomeReport =
  GM_Generation :: u64
  GM_Bundle :: string
  GM_BundleSHA256 :: string
  GM_BundleBytes :: i64
  GM_KeyID :: string
  GM_PayloadSHA256 :: string
  GM_TreeSHA256 :: string
  GM_SealedAt :: gotime
  GM_ChainEnd :: "u64 option"

record ReleaseReport =
  LR_RequestID :: string
  LR_TokenID :: string
  LR_DestinationKind :: string
  LR_DestinationMeasurement :: string
  LR_PolicyVersion :: string
  LR_AuthorizedAt :: gotime
  LR_AuditID :: string

record RestoreReport =
  RR_KeyReceivedAt :: gotime
  RR_RestoredAt :: gotime
  RR_RestoreSeconds :: float64
  RR_Files :: i64
  RR_Bytes :: i64
  RR_TreeSHA256 :: string
  RR_Gate :: "Gate option"
  RR_RequiredGate :: string
  RR_ReceiptSHA256 :: string
  RR_ConfirmedAt :: gotime
  RR_AuditID :: string

record Timing =
  TM_RPOSeconds :: float64
  TM_DetectSeconds :: float64
  TM_ReleaseSeconds :: float64
  TM_RestoreSeconds :: float64
  TM_GateSeconds :: float64
  TM_FailoverSeconds :: float64
  TM_RTOSeconds :: float64

record Report =
  RP_Status :: string
  RP_Error :: string
  RP_PolicySerial :: u64
  RP_PolicySHA256 :: string
  RP_Sentinel :: string
  RP_Trigger :: "TriggerReport option"
  RP_Decision :: "DecisionReport option"
  RP_Genome :: "GenomeReport option"
  RP_Release :: "ReleaseReport option"
  RP_Restore :: "RestoreReport option"
  RP_Timing :: "Timing option"
  RP_SetAside :: "Rejected list"
  RP_Ignored :: "string list"

definition StatusRestored :: string where "StatusRestored = ''restored''"
definition StatusDeclined :: string where "StatusDeclined = ''declined''"
definition StatusFailed :: string where "StatusFailed = ''failed''"

definition newReport :: "floats \<Rightarrow> Policy \<Rightarrow> Trigger \<Rightarrow> Report" where
  "newReport F p t =
     \<lparr>RP_Status = [], RP_Error = [], RP_PolicySerial = FP_Serial p, RP_PolicySHA256 = hex_encode (Policy_Digest F p),
      RP_Sentinel = sentinel_KeyID (Policy_Sentinel p),
      RP_Trigger = Some
        \<lparr>TT_Kind = TR_Kind t, TT_At = TR_At t, TT_ObservedAt = TR_ObservedAt t,
         TT_AliveObservedAt = (if TR_AliveObservedAt t = zero_time then None else Some (TR_AliveObservedAt t)),
         TT_EvidenceSHA256 = hex_encode (SHA256 (TR_Evidence t)), TT_PrimaryMeasurementHex = hex_encode (TR_PrimaryMeasurement t),
         TT_Tripped = (case TR_Compromise t of None \<Rightarrow> [] | Some c \<Rightarrow> CR_Tripped c), TT_ReportedLast = reportedLast t\<rparr>,
      RP_Decision = None, RP_Genome = None, RP_Release = None, RP_Restore = None, RP_Timing = None,
      RP_SetAside = [], RP_Ignored = TR_Ignored t\<rparr>"

definition Report_fail :: "Report \<Rightarrow> go_error \<Rightarrow> Report \<times> go_error" where
  "Report_fail r err = (r\<lparr>RP_Status := StatusFailed, RP_Error := Error_String err\<rparr>, err)"

definition genomeReport :: "Choice \<Rightarrow> Chosen \<Rightarrow> GenomeReport" where
  "genomeReport c g =
     (let rec = CG_Record g in
      \<lparr>GM_Generation = SE_Generation rec, GM_Bundle = SE_Bundle rec, GM_BundleSHA256 = SE_BundleSHA256 rec, GM_BundleBytes = SE_BundleBytes rec,
       GM_KeyID = SE_KeyID rec, GM_PayloadSHA256 = SE_PayloadSHA256 rec, GM_TreeSHA256 = EG_TreeSHA256 (CG_Expected g),
       GM_SealedAt = SE_SealedAt rec, GM_ChainEnd = CH_ChainEnd c\<rparr>)"

definition restoreReport :: "ConfirmResult \<Rightarrow> string \<Rightarrow> RestoreReport" where
  "restoreReport c required =
     (let rc = CN_Receipt c in
      \<lparr>RR_KeyReceivedAt = RC_KeyReceivedAt rc, RR_RestoredAt = RC_RestoredAt rc, RR_RestoreSeconds = RC_RestoreSeconds rc, RR_Files = RC_Files rc,
       RR_Bytes = RC_Bytes rc, RR_TreeSHA256 = RC_TreeSHA256 rc, RR_Gate = RC_Gate rc, RR_RequiredGate = required,
       RR_ReceiptSHA256 = hex_encode (CN_ReceiptSHA256 c), RR_ConfirmedAt = CN_ConfirmedAt c, RR_AuditID = CN_AuditID c\<rparr>)"

text \<open>\<open>max(0, x)\<close>.\<close>

definition float_max0 :: "float64 \<Rightarrow> float64" where
  "float_max0 x = (if float_negative x \<or> x = 0x8000000000000000 then 0 else x)"

definition failover_timing :: "'c libs \<Rightarrow> Trigger \<Rightarrow> Chosen \<Rightarrow> gotime \<Rightarrow> ConfirmResult \<Rightarrow> Timing" where
  "failover_timing L t g authorizedAt confirmed =
     (let rc = CN_Receipt confirmed;
          detect = (if TR_Kind t = TriggerHeartbeatTimeout \<and> TR_AliveObservedAt t \<noteq> zero_time
                    then lb_Seconds L (time_Sub (TR_ObservedAt t) (TR_AliveObservedAt t))
                    else float_max0 (lb_Seconds L (time_Sub (TR_ObservedAt t) (TR_At t))));
          failover = lb_Seconds L (time_Sub (CN_ConfirmedAt confirmed) (TR_ObservedAt t))
      in \<lparr>TM_RPOSeconds = lb_Seconds L (CG_RPO g), TM_DetectSeconds = detect,
          TM_ReleaseSeconds = lb_Seconds L (time_Sub authorizedAt (TR_ObservedAt t)), TM_RestoreSeconds = RC_RestoreSeconds rc,
          TM_GateSeconds = (case RC_Gate rc of None \<Rightarrow> 0 | Some v \<Rightarrow> GT_BackendSeconds v), TM_FailoverSeconds = failover,
          TM_RTOSeconds = lb_add L detect failover\<rparr>)"

section \<open>The decision\<close>

definition opt_wire :: "('a \<Rightarrow> wire) \<Rightarrow> 'a option \<Rightarrow> wire" where
  "opt_wire f x = WTree (case x of None \<Rightarrow> Inr None | Some y \<Rightarrow> wire_val (f y))"

definition decided_payload ::
    "'c libs \<Rightarrow> floats \<Rightarrow> Policy \<Rightarrow> Trigger \<Rightarrow> Choice \<Rightarrow> string \<Rightarrow> string \<Rightarrow> string \<Rightarrow> gotime \<Rightarrow> (string \<times> wire) list" where
  "decided_payload L F p t choice decision reason did decidedAt =
     (let g = CH_Chosen choice in
      [(''decision'', WStr decision), (''reason'', WStr reason), (''policy_serial'', WNum (unat (FP_Serial p))),
       (''policy_sha256'', WBytes (Policy_Digest F p)), (''sentinel'', WStr (sentinel_KeyID (Policy_Sentinel p))),
       (''trigger'', WStr (TR_Kind t)), (''trigger_at'', WTime (TR_At t)), (''evidence_sha256'', WBytes (SHA256 (TR_Evidence t))),
       (''primary_measurement_hex'', WOpt (hex_encode (TR_PrimaryMeasurement t))), (''decision_id'', WOpt did),
       (''generation'', opt_wire (\<lambda>g. WNum (unat (SE_Generation (CG_Record g)))) g),
       (''bundle_sha256'', opt_wire (\<lambda>g. WOpt (SE_BundleSHA256 (CG_Record g))) g), (''key_id'', opt_wire (\<lambda>g. WOpt (SE_KeyID (CG_Record g))) g),
       (''sealed_at'', opt_wire (\<lambda>g. WTime (SE_SealedAt (CG_Record g))) g),
       (''rpo_seconds'', opt_wire (\<lambda>g. float_member (lb_float L) (lb_Seconds L (CG_RPO g))) g),
       (''chain_end'', opt_wire (\<lambda>n. WNum (unat n)) (CH_ChainEnd choice)),
       (''reported_last'', opt_wire (\<lambda>l. WNum (unat (LK_Generation l))) (reportedLast t)),
       (''standby_kind'', WStr (SB_Kind (FP_Standby p))), (''standby_endpoint'', WStr (SB_Endpoint (FP_Standby p))),
       (''decided_at'', WTime decidedAt)])"

type_synonym ('c, 'a) exec = "('c site, Report \<times> go_error, 'a) eff"

definition failing :: "Report \<Rightarrow> ('c site, go_error, 'a) eff \<Rightarrow> ('c, 'a) exec" where
  "failing rep m = mapE (Report_fail rep) m"

text \<open>Why the policy declines, if it does: the choice's own reason, else whether the policy stands now.\<close>

definition standing_reason :: "'c host \<Rightarrow> Policy \<Rightarrow> string \<Rightarrow> ('c, string) exec" where
  "standing_reason h p why =
     (if why \<noteq> [] then pureE (Inr why)
      else bindE (readE (clock_Now h)) (\<lambda>now.
        pureE (Inr (case ActiveAt p now of None \<Rightarrow> [] | Some err \<Rightarrow> Error_String err))))"

text \<open>
  The decision, on the record: the report so far and, when a failover was decided, its identifier and the
  genome. An empty reason comes with a genome (\<open>Choose_reason\<close>).
\<close>

definition chosen_report :: "Report \<Rightarrow> Choice \<Rightarrow> Report" where
  "chosen_report rep choice = rep\<lparr>RP_SetAside := CH_SetAside choice, RP_Genome := map_option (genomeReport choice) (CH_Chosen choice)\<rparr>"

definition failover_reason :: "Policy \<Rightarrow> Trigger \<Rightarrow> Chosen \<Rightarrow> string" where
  "failover_reason p t g =
     TR_Kind t @ '' under failover policy serial '' @ fmt_d (unat (FP_Serial p)) @ '': restore generation '' @
     fmt_d (unat (SE_Generation (CG_Record g))) @ '' on the standby''"

definition record_decision ::
    "'c host \<Rightarrow> 'c libs \<Rightarrow> Executor \<Rightarrow> Trigger \<Rightarrow> Report \<Rightarrow> Choice \<Rightarrow> gotime \<Rightarrow> string \<Rightarrow> string \<Rightarrow> string \<Rightarrow> ('c, Report) exec" where
  "record_decision h L e t rep choice decidedAt decision reason did =
     bindE (failing rep (pureE (json_Marshal h (decided_payload L (ho_F h) (ex_Policy e) t choice decision reason did decidedAt)))) (\<lambda>raw.
     bindE (failing rep (Emit_event h KindFailoverDecided raw [] [] [])) (\<lambda>eid.
     pureE (Inr (rep\<lparr>RP_Decision := Some \<lparr>DD_Decision = decision, DD_Reason = reason, DD_DecisionID = did, DD_AuditID = eid,
                                           DD_DecidedAt = decidedAt\<rparr>\<rparr>))))"

definition conclude ::
    "'c host \<Rightarrow> 'c libs \<Rightarrow> Executor \<Rightarrow> Trigger \<Rightarrow> Choice \<Rightarrow> string \<Rightarrow> gotime \<Rightarrow> ('c, Report \<times> (string \<times> Chosen) option) exec" where
  "conclude h L e t choice why decidedAt =
     (let p = ex_Policy e; rep = chosen_report (newReport (ho_F h) p t) choice in
      case (why, CH_Chosen choice) of
        ([], Some g) \<Rightarrow>
          bindE (failing rep (NewDecisionID h)) (\<lambda>did.
          bindE (record_decision h L e t rep choice decidedAt DecisionFailover (failover_reason p t g) did) (\<lambda>rep1.
          pureE (Inr (rep1, Some (did, g)))))
      | _ \<Rightarrow>
          bindE (record_decision h L e t rep choice decidedAt DecisionDeclined why []) (\<lambda>rep1.
          pureE (Inr (rep1\<lparr>RP_Status := StatusDeclined\<rparr>, None))))"

definition exec_decide :: "'c host \<Rightarrow> 'c libs \<Rightarrow> Executor \<Rightarrow> Trigger \<Rightarrow> ('c, Report \<times> (string \<times> Chosen) option) exec" where
  "exec_decide h L e t =
     (let p = ex_Policy e in
      bindE (failing (newReport (ho_F h) p t) (pureE (Choose (ho_F h) (ho_P h) (lb_decoders L) (lb_tree L) (ex_Outbox e) p t
               (escrow_KeyTag (ek_pub (ex_Escrow e))) (ex_Primary e)))) (\<lambda>(choice, why0).
      bindE (standing_reason h p why0) (\<lambda>why.
      bindE (readE (clock_Now h)) (\<lambda>decidedAt.
      conclude h L e t choice why decidedAt))))"

section \<open>The release\<close>

definition failover_request :: "Policy \<Rightarrow> string \<Rightarrow> Chosen \<Rightarrow> bytes \<Rightarrow> CoordinationRequest" where
  "failover_request p did g dek =
     \<lparr>CR_DecisionID = did, CR_DestinationKind = SB_Kind (FP_Standby p), CR_DestinationEndpoint = SB_Endpoint (FP_Standby p),
      CR_KeysToRelease = [\<lparr>KM_KeyID = SE_KeyID (CG_Record g), KM_Purpose = token_PurposeSealing, KM_Plaintext = dek\<rparr>],
      CR_SessionID = [], CR_ManifestID = [], CR_SourceEvidence = [], CR_SourceMeasurement = []\<rparr>"

definition releaseReport :: "Policy \<Rightarrow> CoordinationResult \<Rightarrow> ReleaseReport" where
  "releaseReport p res =
     \<lparr>LR_RequestID = RS_HandshakeRequestID res, LR_TokenID = RS_TokenID res, LR_DestinationKind = SB_Kind (FP_Standby p),
      LR_DestinationMeasurement = hex_encode (RS_DestinationMeasurement res), LR_PolicyVersion = RS_PolicyVersion res,
      LR_AuthorizedAt = RS_DispatchedAt res, LR_AuditID = RS_KeyReleaseAuditID res\<rparr>"

definition exec_release ::
    "'c host \<Rightarrow> 'c libs \<Rightarrow> Executor \<Rightarrow> Report \<Rightarrow> string \<Rightarrow> Chosen \<Rightarrow> ('c, Report \<times> AuthorizedRelease) exec" where
  "exec_release h L e rep did g =
     (let p = ex_Policy e in
      bindE (readE (use_kem h (\<lambda>H. escrow_Open (ho_P h) H (CG_Envelope g) (Some (ex_Escrow e))))) (\<lambda>opened.
      bindE (failing rep (pureE opened)) (\<lambda>dek.
      bindE (failing rep (mapE snd (CoordinateRestore h (ex_Coordinator e) (failover_request p did g dek)))) (\<lambda>res.
      let rep1 = rep\<lparr>RP_Release := Some (releaseReport p res)\<rparr> in
      bindE (readE (\<lambda>s. (lb_events L (nd_chain s), s))) (\<lambda>events.
      bindE (failing rep1 (pureE (FindAuthorizedRelease (lb_release L) events did))) (\<lambda>rel.
      pureE (Inr (rep1, rel))))))))"

section \<open>The confirmation\<close>

text \<open>The loop: not returning is \<open>None\<close>. Its times are \<open>time.Now()\<close>, not the injected clock's.\<close>

partial_function (option) confirm_loop ::
    "'c host \<Rightarrow> 'c libs \<Rightarrow> Coordinator \<Rightarrow> duration \<Rightarrow> gotime \<Rightarrow> ConfirmRequest \<Rightarrow> 'c site \<Rightarrow> ((go_error + ConfirmResult) \<times> 'c site) option" where
  "confirm_loop h L c poll deadline req s =
     (case ConfirmRestore h c (lb_receipt L) (lb_float L) req s of
        (Inr res, s1) \<Rightarrow> Some (Inr res, s1)
      | (Inl err, s1) \<Rightarrow>
          if \<not> Is (Some err) CategoryOperational then Some (Inl err, s1)
          else (case wall_Now h s1 of (now, s2) \<Rightarrow>
            if \<not> time_Add now poll < deadline then Some (Inl err, s2)
            else (case lb_cancelled L (nd_trace s2 @ [Slept]) of
                    Some why \<Rightarrow> Some (Inl why, record_io Slept s2)
                  | None \<Rightarrow> confirm_loop h L c poll deadline req (record_io Slept s2))))"

definition exec_confirm :: "'c host \<Rightarrow> 'c libs \<Rightarrow> Executor \<Rightarrow> ConfirmRequest \<Rightarrow> 'c site \<Rightarrow> ((go_error + ConfirmResult) \<times> 'c site) option" where
  "exec_confirm h L e req s =
     (case wall_Now h s of (now, s1) \<Rightarrow>
        confirm_loop h L (ex_Coordinator e) (ex_Poll e) (time_Add now (ex_ConfirmWait e)) req s1)"

definition failover_confirm :: "Policy \<Rightarrow> Chosen \<Rightarrow> AuthorizedRelease \<Rightarrow> ConfirmRequest" where
  "failover_confirm p g rel =
     \<lparr>FR_Release = rel, FR_DestinationEndpoint = SB_Endpoint (FP_Standby p), FR_KeyID = SE_KeyID (CG_Record g),
      FR_Expect = Some (CG_Expected g), FR_RequireGate = FP_RequireGate p, FR_SessionID = [], FR_ManifestID = []\<rparr>"

definition finished_report :: "'c libs \<Rightarrow> Policy \<Rightarrow> Trigger \<Rightarrow> Chosen \<Rightarrow> Report \<Rightarrow> ConfirmResult \<Rightarrow> Report" where
  "finished_report L p t g rep confirmed =
     rep\<lparr>RP_Restore := Some (restoreReport confirmed (FP_RequireGate p)), RP_Status := StatusRestored,
         RP_Timing := Some (failover_timing L t g (case RP_Release rep of None \<Rightarrow> zero_time | Some r \<Rightarrow> LR_AuthorizedAt r) confirmed)\<rparr>"

definition Failover ::
    "'c host \<Rightarrow> 'c libs \<Rightarrow> Executor \<Rightarrow> Trigger \<Rightarrow> 'c site \<Rightarrow> ((Report \<times> go_error + Report) \<times> 'c site) option" where
  "Failover h L e t s =
     (case exec_decide h L e t s of
        (Inl failed, s1) \<Rightarrow> Some (Inl failed, s1)
      | (Inr (rep, None), s1) \<Rightarrow> Some (Inr rep, s1)
      | (Inr (rep, Some (did, g)), s1) \<Rightarrow>
          (case exec_release h L e rep did g s1 of
             (Inl failed, s2) \<Rightarrow> Some (Inl failed, s2)
           | (Inr (rep1, rel), s2) \<Rightarrow>
               (case exec_confirm h L e (failover_confirm (ex_Policy e) g rel) s2 of
                  None \<Rightarrow> None
                | Some (Inl err, s3) \<Rightarrow> Some (Inl (Report_fail rep1 err), s3)
                | Some (Inr confirmed, s3) \<Rightarrow> Some (Inr (finished_report L (ex_Policy e) t g rep1 confirmed), s3))))"

text \<open>\<open>Run\<close>: watch over the observations the polls make, then act on the trigger. The report of a watch that the
  context ended is empty.\<close>

definition no_report :: Report where
  "no_report =
     \<lparr>RP_Status = [], RP_Error = [], RP_PolicySerial = 0, RP_PolicySHA256 = [], RP_Sentinel = [], RP_Trigger = None, RP_Decision = None,
      RP_Genome = None, RP_Release = None, RP_Restore = None, RP_Timing = None, RP_SetAside = [], RP_Ignored = []\<rparr>"

definition Executor_Run ::
    "'c host \<Rightarrow> 'c libs \<Rightarrow> Executor \<Rightarrow> (Outbox \<times> gotime) list \<Rightarrow> go_error \<Rightarrow> 'c site \<Rightarrow> ((Report \<times> go_error + Report) \<times> 'c site) option" where
  "Executor_Run h L e obs ended s =
     (case fst (Watch (ho_F h) (ho_P h) (lb_decoders L) obs (NewWatcher (ex_Policy e) (ex_Primary e))) of
        None \<Rightarrow> Some (Inl (no_report, ended), s)
      | Some t \<Rightarrow> Failover h L e t s)"

end
