(* ===== verification/ExecutorProofs.thy ===== *)
theory ExecutorProofs
  imports Executor CoordinatorProofs FailoverProperties
begin

text \<open>
  The log gains exactly what a run logs: every step of the coordinator and of the executor, successful or
  not, adds to the audit log the events its trace shows as logged, in their order, and takes none away.
\<close>

context audit_recorder begin

definition runs :: "('c site, 'e, 'a) eff \<Rightarrow> bool" where
  "runs m \<longleftrightarrow> (\<forall>s r s'. m s = (r, s') \<longrightarrow> (\<exists>tr. steps s s' tr))"

lemma runsD: "runs m \<Longrightarrow> m s = (r, s') \<Longrightarrow> \<exists>tr. steps s s' tr"
  by (auto simp: runs_def)

lemma steps_refl [simp]: "steps s s []"
  by (simp add: steps_def)

lemma runs_bindE [intro]: "runs m \<Longrightarrow> (\<And>a. runs (k a)) \<Longrightarrow> runs (bindE m k)"
  unfolding runs_def by (blast elim: bindE_cases intro: steps_trans)

lemma runs_mapE [intro]: "runs m \<Longrightarrow> runs (mapE f m)"
  unfolding runs_def by (blast elim: mapE_cases)

lemma runs_same: "(\<And>s r s'. m s = (r, s') \<Longrightarrow> s' = s) \<Longrightarrow> runs m"
  unfolding runs_def using steps_refl by metis

lemma runs_pureE [intro, simp]: "runs (pureE r)"
  by (rule runs_same) simp

lemma runs_guardE [intro]: "runs m \<Longrightarrow> runs (guardE c m)"
  by (cases c) (auto intro: runs_same simp: guardE_def [abs_def])

lemma steps_record: "logged [x] = [] \<Longrightarrow> steps s (record_io x s) [x]"
  by (simp add: steps_def)

lemma runs_primitive [intro, simp]:
  "runs (NewRequestID h)" "runs (NewDecisionID h)" "runs (nonceSource h n)" "runs (SendHandshakeRequest h ep req)"
  "runs (SendKeyReleaseToken h ep tok)" "runs (FetchRestoreReceipt h ep kid)" "runs (readE (clock_Now h))" "runs (readE (use_kem h f))"
  using steps_record [of "DrewID i" for i] steps_record [of "DrewNonce n" for n] steps_record [of "SentHandshake ep' r" for ep' r]
    steps_record [of "SentToken ep' r" for ep' r] steps_record [of "FetchedReceipt ep' r" for ep' r] steps_record [of "ReadClock t" for t]
    steps_record [of UsedKem]
  by (fastforce simp: runs_def NewRequestID_def NewDecisionID_def nonceSource_def SendHandshakeRequest_def SendKeyReleaseToken_def
      FetchRestoreReceipt_def use_kem_def clock_Now_eq Let_def)+

lemma runs_observe [intro, simp]: "runs (readE (\<lambda>s. (f s, s)))"
  by (rule runs_same) simp

lemma runs_Emit:
  assumes "ho_Append h = app"
  shows "runs (Emit_event h kind payload sid mid rid)"
proof -
  have "\<exists>tr. steps s s' tr" if run: "Emit_event h kind payload sid mid rid s = (r, s')" for s r s'
  proof (cases r)
    case (Inr eid)
    with Emit_logged [OF assms run [unfolded Inr]] show ?thesis by metis
  next
    case (Inl err)
    with run have "steps s s' [ReadClock (ev_Clock (ho_env h) (nd_trace s)), NotLogged err]"
      by (auto simp: assms Emit_event_def emitter_build_def clock_Now_eq Let_def steps_def dest: not_recorded split: prod.splits sum.splits)
    then show ?thesis by blast
  qed
  then show ?thesis by (auto simp: runs_def)
qed

lemma runs_deny:
  assumes "ho_Append h = app" "Coordinator_deny h c req rid stage m refusal s = (err, s')"
  shows "\<exists>tr. steps s s' tr"
proof -
  let ?now = "ev_Clock (ho_env h) (nd_trace s)"
  let ?m = "bindE (pureE (json_Marshal h (keyReleaseDenied_payload c req rid stage m refusal ?now)))
             (\<lambda>payload. Emit_event h KindKeyReleaseDenied payload (CR_SessionID req) (CR_ManifestID req) rid)"
  obtain r s2 where m: "?m (record_io (ReadClock ?now) s) = (r, s2)" by (cases "?m (record_io (ReadClock ?now) s)")
  have "runs ?m" by (intro runs_bindE runs_pureE runs_Emit assms)
  then have "\<exists>tr. steps (record_io (ReadClock ?now) s) s2 tr" using m runsD by blast
  moreover have "s' = s2" using assms(2) m by (simp add: Coordinator_deny_def clock_Now_eq split: sum.splits)
  ultimately show ?thesis using steps_trans [OF steps_record [of "ReadClock ?now" s]] by auto
qed

lemma runs_refuse:
  assumes "ho_Append h = app"
  shows "runs (refuse h c req rid stage m early refusal)"
  using runs_deny [OF assms] by (auto simp: runs_def refuse_def split: prod.splits)

lemma runs_wrap_keys [intro, simp]: "runs (wrap_keys h tokenID at i ms)"
  by (induction ms arbitrary: i) (auto simp: Let_def intro!: runs_guardE runs_bindE)

lemma runs_coordinate:
  assumes "ho_Append h = app"
  shows "runs (CoordinateRestore h c req)"
proof -
  note steps_of = runs_guardE runs_bindE runs_mapE runs_primitive runs_pureE runs_Emit [OF assms] runs_refuse [OF assms] runs_wrap_keys
  have "runs (coord_open h c req)" unfolding coord_open_def by (intro steps_of)
  moreover have "runs (coord_handshake h c req hs)" for hs
    unfolding coord_handshake_def by (auto intro!: steps_of split: prod.splits option.splits)
  moreover have "runs (coord_attest h c req hs resp)" for hs resp
    unfolding coord_attest_def Let_def by (auto intro!: steps_of split: option.splits sum.splits)
  moreover have "runs (coord_authorize h c req hs at)" for hs at
    unfolding coord_authorize_def Let_def by (auto intro!: steps_of split: sum.splits)
  moreover have "runs (coord_dispatch h c req hs at az)" for hs at az
    unfolding coord_dispatch_def Let_def by (auto intro!: steps_of split: prod.splits option.splits)
  ultimately show ?thesis unfolding CoordinateRestore_def by (intro runs_bindE)
qed

lemma runs_confirm:
  assumes "ho_Append h = app"
  shows "runs (ConfirmRestore h c D ft req)"
  unfolding ConfirmRestore_def record_restore_def
  by (intro runs_guardE runs_bindE runs_mapE runs_pureE runs_Emit runs_primitive assms)

lemma runs_failing [intro]: "runs m \<Longrightarrow> runs (failing rep m)"
  unfolding failing_def by (rule runs_mapE)

lemma runs_decide:
  assumes "ho_Append h = app"
  shows "runs (exec_decide h L e t)"
proof -
  have r: "runs (record_decision h L e t rep choice at d r did)" for rep choice at d r did
    unfolding record_decision_def by (intro runs_bindE runs_failing runs_pureE runs_Emit assms)
  have "runs (conclude h L e t choice why at)" for choice why at
    unfolding conclude_def Let_def using r by (auto intro!: runs_bindE runs_failing split: list.split option.split)
  moreover have "runs (standing_reason h p why)" for p why
    by (auto simp: standing_reason_def)
  ultimately show ?thesis
    unfolding exec_decide_def Let_def by (auto intro!: runs_bindE runs_failing split: prod.split)
qed

lemma runs_release:
  assumes "ho_Append h = app"
  shows "runs (exec_release h L e rep did g)"
  unfolding exec_release_def Let_def
  by (intro runs_bindE runs_failing runs_mapE runs_primitive runs_pureE runs_observe runs_coordinate assms)

lemma runs_confirm_loop:
  assumes "ho_Append h = app" and "confirm_loop h L c poll deadline req s = Some (r, s')"
  shows "\<exists>tr. steps s s' tr"
proof -
  have "ho_Append h = app \<longrightarrow> (\<exists>tr. steps s (snd out) tr)" if "confirm_loop h L c poll deadline req s = Some out" for s out
    using that
  proof (induction rule: confirm_loop.raw_induct [rotated, consumes 1])
    case (1 loop h L c poll deadline req s out)
    obtain r1 s1 where run: "ConfirmRestore h c (lb_receipt L) (lb_float L) req s = (r1, s1)"
      by (cases "ConfirmRestore h c (lb_receipt L) (lb_float L) req s")
    note step = 1(2) [unfolded run]
    show ?case
    proof
      assume a: "ho_Append h = app"
      obtain tr where q: "steps s s1 tr" using runsD [OF runs_confirm [OF a] run] by blast
      let ?now = "ev_Wall (ho_env h) (nd_trace s1)"
      let ?s2 = "record_io (ReadWall ?now) s1"
      have q2: "steps s ?s2 (tr @ [ReadWall ?now])" by (rule steps_trans [OF q steps_record]) simp
      have q3: "steps s (record_io Slept ?s2) ((tr @ [ReadWall ?now]) @ [Slept])" by (rule steps_trans [OF q2 steps_record]) simp
      show "\<exists>tr. steps s (snd out) tr"
      proof (cases r1)
        case (Inl err)
        have *: "out = (Inl err, s1) \<or> out = (Inl err, ?s2) \<or> (\<exists>why. out = (Inl why, record_io Slept ?s2)) \<or>
            loop h L c poll deadline req (record_io Slept ?s2) = Some out"
          using step unfolding Inl by (auto simp: wall_Now_eq split: if_splits option.splits)
        have l: "\<exists>tr. steps s (snd out) tr" if lp: "loop h L c poll deadline req (record_io Slept ?s2) = Some out"
        proof -
          obtain tr' where "steps (record_io Slept ?s2) (snd out) tr'" using 1(1) [OF lp] a by blast
          from steps_trans [OF q3 this] show ?thesis by blast
        qed
        have e: "\<exists>tr. steps s s1 tr" "\<exists>tr. steps s ?s2 tr" "\<exists>tr. steps s (record_io Slept ?s2) tr" using q q2 q3 by blast+
        from * show ?thesis by (elim disjE exE) (use e l in \<open>simp_all only: snd_conv\<close>)
      next
        case (Inr x)
        with step q show ?thesis by auto
      qed
    qed
  qed
  from this [OF assms(2)] assms(1) show ?thesis by simp
qed

text \<open>A whole failover.\<close>

lemma Failover_steps:
  assumes app: "ho_Append h = app" and run: "Failover h L e t s = Some (r, s')"
  shows "\<exists>tr. steps s s' tr"
proof -
  obtain d s1 where d: "exec_decide h L e t s = (d, s1)" by (cases "exec_decide h L e t s")
  obtain tr1 where t1: "steps s s1 tr1" using runsD [OF runs_decide [OF app] d] by blast
  show ?thesis
  proof (cases "\<exists>rep did g. d = Inr (rep, Some (did, g))")
    case False
    then have "s' = s1" using run d by (auto simp: Failover_def split: sum.splits prod.splits option.splits)
    with t1 show ?thesis by blast
  next
    case True
    then obtain rep did g where dd: "d = Inr (rep, Some (did, g))" by blast
    obtain x s2 where x: "exec_release h L e rep did g s1 = (x, s2)" by (cases "exec_release h L e rep did g s1")
    obtain tr2 where t2: "steps s1 s2 tr2" using runsD [OF runs_release [OF app] x] by blast
    show ?thesis
    proof (cases x)
      case (Inl f)
      then have "s' = s2" using run d dd x by (simp add: Failover_def)
      with steps_trans [OF t1 t2] show ?thesis by blast
    next
      case (Inr y)
      obtain rep1 rel where y: "y = (rep1, rel)" by (cases y)
      obtain c where c: "exec_confirm h L e (failover_confirm (ex_Policy e) g rel) s2 = Some (c, s')"
        using run d dd x Inr y by (auto simp: Failover_def split: option.splits prod.splits sum.splits)
      let ?now = "ev_Wall (ho_env h) (nd_trace s2)"
      have "confirm_loop h L (ex_Coordinator e) (ex_Poll e) (time_Add ?now (ex_ConfirmWait e)) (failover_confirm (ex_Policy e) g rel)
          (record_io (ReadWall ?now) s2) = Some (c, s')"
        using c by (simp add: exec_confirm_def wall_Now_eq)
      from runs_confirm_loop [OF app this] obtain tr3 where "steps (record_io (ReadWall ?now) s2) s' tr3" ..
      with steps_trans [OF steps_trans [OF t1 t2] steps_trans [OF steps_record [of "ReadWall ?now" s2]]] show ?thesis by auto
    qed
  qed
qed

end

text \<open>
  What the executor's stretches do to the trace and the log: the decision and the confirmation send no
  token, a decision logs one event, a confirmation ends with the event of the completed restore, and the
  confirmation loop returns when time passes.
\<close>

section \<open>A choice gives its reason or a genome\<close>

lemma Choose_reason:
  assumes "Choose F P D T ob p t escrowTag primary = Inr (c, [])"
  obtains g where "CH_Chosen c = Some g"
proof -
  obtain chain rejected where chain: "ReadChain F P D ob (Policy_Sentinel p) = Inr (chain, rejected)" "chain \<noteq> []"
    using assms by (auto simp: Choose_def Let_def split: if_splits)
  obtain lst where lst: "reportedLast t = Some lst"
    using assms chain by (auto simp: Choose_def Let_def split: if_splits option.splits)
  let ?cutoff = "time_Add (TR_At t) (- seconds (FP_QuarantineSeconds p))"
  have "choose_loop (record_verdict F T ob p t escrowTag primary lst ?cutoff) p ?cutoff (rev chain)
      \<lparr>CH_Chosen = None, CH_ChainEnd = Some (SE_Generation (last chain)), CH_SetAside = rejected\<rparr> = (c, [])"
    using assms chain lst by (simp add: Choose_def Let_def)
  then show thesis using choose_loop_reason contradiction_reason that by fastforce
qed

section \<open>What the executor's steps add to the trace\<close>

lemma adding_failing [intro]: "adding ok m \<Longrightarrow> adding ok (failing rep m)"
  unfolding failing_def by (rule adding_mapE)

context plain_io begin

lemma adding_standing [intro, simp]: "adding ok (standing_reason h p why)"
  by (auto simp: standing_reason_def)

lemma adding_record_decision [intro, simp]: "adding ok (record_decision h L e t rep choice at d r did)"
  unfolding record_decision_def by (intro adding_bindE adding_failing adding_pureE adding_Emit)

lemma adding_conclude [intro, simp]: "adding ok (conclude h L e t choice why at)"
  unfolding conclude_def Let_def
  by (auto intro!: adding_bindE adding_failing split: list.split option.split)

lemma adding_decide: "adding ok (exec_decide h L e t)"
  unfolding exec_decide_def Let_def
  by (auto intro!: adding_bindE adding_failing split: prod.split)

lemma adding_release: "(\<And>ep tok. ok (SentToken ep tok)) \<Longrightarrow> adding ok (exec_release h L e rep did g)"
  unfolding exec_release_def Let_def
  by (intro adding_bindE adding_failing adding_mapE adding_primitive adding_pureE adding_observe adding_coordinate)

lemma adding_confirm: "adding ok (ConfirmRestore h c D ft req)"
  unfolding ConfirmRestore_def record_restore_def
  by (intro adding_guardE adding_bindE adding_mapE adding_pureE adding_Emit adding_primitive)

end

lemma confirm_loop_step:
  "confirm_loop h L c poll deadline req s =
     (case ConfirmRestore h c (lb_receipt L) (lb_float L) req s of
        (Inr res, s1) \<Rightarrow> Some (Inr res, s1)
      | (Inl err, s1) \<Rightarrow>
          if \<not> Is (Some err) CategoryOperational then Some (Inl err, s1)
          else (let now = ev_Wall (ho_env h) (nd_trace s1); s2 = record_io (ReadWall now) s1 in
            if \<not> time_Add now poll < deadline then Some (Inl err, s2)
            else (case lb_cancelled L (nd_trace s2 @ [Slept]) of
                    Some why \<Rightarrow> Some (Inl why, record_io Slept s2)
                  | None \<Rightarrow> confirm_loop h L c poll deadline req (record_io Slept s2))))"
  by (subst confirm_loop.simps) (simp only: wall_Now_eq Let_def prod.case)

lemma confirm_loop_quiet:
  assumes "confirm_loop h L c poll deadline req s = Some (r, s')"
  shows "adds (\<lambda>x. \<not> is_sent x) s s'"
proof -
  have "adds (\<lambda>x. \<not> is_sent x) s (snd out)" if "confirm_loop h L c poll deadline req s = Some out" for s out
    using that
  proof (induction rule: confirm_loop.raw_induct [rotated, consumes 1])
    case (1 loop h L c poll deadline req s out)
    obtain r1 s1 where run: "ConfirmRestore h c (lb_receipt L) (lb_float L) req s = (r1, s1)"
      by (cases "ConfirmRestore h c (lb_receipt L) (lb_float L) req s")
    note q = addingD [OF sending_nothing.adding_confirm run]
    let ?now = "ev_Wall (ho_env h) (nd_trace s1)"
    let ?s2 = "record_io (ReadWall ?now) s1"
    have q2: "adds (\<lambda>x. \<not> is_sent x) s ?s2" using q by (rule adds_trans) simp
    have q3: "adds (\<lambda>x. \<not> is_sent x) s (record_io Slept ?s2)" using q2 by (rule adds_trans) simp
    note step = 1(2) [unfolded run]
    show ?case
    proof (cases r1)
      case (Inl err)
      show ?thesis
        using step q q2 q3 1(1) adds_trans [OF q3] unfolding Inl
        by (auto simp: wall_Now_eq Let_def split: if_splits option.splits)
    next
      case (Inr res)
      with step q show ?thesis by auto
    qed
  qed
  from this [OF assms] show ?thesis by simp
qed

text \<open>The wait's deadline is the wait's length after the time its first reading gives.\<close>

lemma exec_confirm_eq:
  "exec_confirm h L e req s =
     (let now = ev_Wall (ho_env h) (nd_trace s) in
      confirm_loop h L (ex_Coordinator e) (ex_Poll e) (time_Add now (ex_ConfirmWait e)) req (record_io (ReadWall now) s))"
  by (simp add: exec_confirm_def wall_Now_eq Let_def)

lemma exec_confirm_quiet:
  assumes "exec_confirm h L e req s = Some (c, s')"
  shows "adds (\<lambda>x. \<not> is_sent x) s s'"
  using confirm_loop_quiet [OF assms [unfolded exec_confirm_eq Let_def]] by (rule adds_trans [OF adds_record, rotated]) simp

section \<open>The loop returns\<close>

text \<open>Time passes: the wall clock never runs back, and a sleep takes at least the poll interval.\<close>

definition time_passes :: "'c host \<Rightarrow> duration \<Rightarrow> bool" where
  "time_passes h poll \<longleftrightarrow>
     (\<forall>tr xs. ev_Wall (ho_env h) tr + (if Slept \<in> set xs then sint poll else 0) \<le> ev_Wall (ho_env h) (tr @ xs))"

text \<open>The times a trace read from the wall clock, and its sleeps.\<close>

definition walls :: "io list \<Rightarrow> gotime list" where
  "walls tr = concat (map (\<lambda>x. case x of ReadWall t \<Rightarrow> [t] | _ \<Rightarrow> []) tr)"

definition sleeps :: "io list \<Rightarrow> nat" where
  "sleeps tr = length (filter (\<lambda>x. x = Slept) tr)"

lemma walls_simps [simp]:
  "walls [] = []" "walls (xs @ ys) = walls xs @ walls ys" "walls (ReadWall t # xs) = t # walls xs" "walls (Slept # xs) = walls xs"
  by (simp_all add: walls_def)

lemma sleeps_simps [simp]:
  "sleeps [] = 0" "sleeps (xs @ ys) = sleeps xs + sleeps ys" "sleeps (ReadWall t # xs) = sleeps xs" "sleeps (Slept # xs) = Suc (sleeps xs)"
  by (simp_all add: sleeps_def)

lemma no_waits:
  assumes "list_all (\<lambda>x. \<not> is_wait x) tr"
  shows "walls tr = []" "sleeps tr = 0" "Slept \<notin> set tr"
  using assms by (induction tr) (auto simp: walls_def sleeps_def split: io.split)

text \<open>Every sleep begins when a whole poll interval is left before the deadline, by the reading just before it.\<close>

definition sleeps_before :: "gotime \<Rightarrow> duration \<Rightarrow> io list \<Rightarrow> bool" where
  "sleeps_before deadline poll tr \<longleftrightarrow>
     (\<forall>xs ys. tr = xs @ Slept # ys \<longrightarrow> (\<exists>ts t. walls xs = ts @ [t] \<and> time_Add t poll < deadline))"

lemma sleeps_before_none: "Slept \<notin> set tr \<Longrightarrow> sleeps_before deadline poll tr"
  by (auto simp: sleeps_before_def)

lemma split_at_Slept:
  assumes "pre @ tr = xs @ Slept # ys" and "Slept \<notin> set pre"
  obtains us where "xs = pre @ us" "tr = us @ Slept # ys"
  using assms by (auto simp: append_eq_append_conv2 append_eq_Cons_conv Cons_eq_append_conv)

lemma sleeps_before_append:
  assumes "Slept \<notin> set pre" and "sleeps_before deadline poll tr"
  shows "sleeps_before deadline poll (pre @ tr)"
  unfolding sleeps_before_def
proof (intro allI impI)
  fix xs ys
  assume e: "pre @ tr = xs @ Slept # ys"
  obtain us where "xs = pre @ us" "tr = us @ Slept # ys" by (rule split_at_Slept [OF e assms(1)])
  with assms(2) show "\<exists>ts t. walls xs = ts @ [t] \<and> time_Add t poll < deadline"
    by (fastforce simp: sleeps_before_def)
qed

lemma sleeps_before_Slept:
  assumes "time_Add now poll < deadline" and "sleeps_before deadline poll tr"
  shows "sleeps_before deadline poll (ReadWall now # Slept # tr)"
  unfolding sleeps_before_def
proof (intro allI impI)
  fix xs ys
  assume "ReadWall now # Slept # tr = xs @ Slept # ys"
  then consider "xs = [ReadWall now]" | us where "xs = ReadWall now # Slept # us" "tr = us @ Slept # ys"
    by (auto simp: Cons_eq_append_conv)
  then show "\<exists>ts t. walls xs = ts @ [t] \<and> time_Add t poll < deadline"
  proof cases
    case 1
    with assms(1) show ?thesis by auto
  next
    case 2
    with assms(2) obtain ts t where "walls us = ts @ [t]" "time_Add t poll < deadline" by (auto simp: sleeps_before_def)
    with 2(1) show ?thesis by (intro exI [of _ "now # ts"] exI [of _ t]) simp
  qed
qed

lemma confirm_loop_returns:
  assumes "time_passes h poll" and "0 < sint poll"
  shows "\<exists>r s' tr. confirm_loop h L c poll deadline req s = Some (r, s') \<and> nd_trace s' = nd_trace s @ tr \<and>
    sleeps_before deadline poll tr \<and>
    (sleeps tr = 0 \<or> ev_Wall (ho_env h) (nd_trace s) + int (sleeps tr) * sint poll < deadline)"
proof (induction "nat (deadline - ev_Wall (ho_env h) (nd_trace s))" arbitrary: s rule: less_induct)
  case less
  obtain r1 s1 where run: "ConfirmRestore h c (lb_receipt L) (lb_float L) req s = (r1, s1)"
    by (cases "ConfirmRestore h c (lb_receipt L) (lb_float L) req s")
  obtain xs where xs: "nd_trace s1 = nd_trace s @ xs" "list_all (\<lambda>x. \<not> is_wait x) xs"
    using addingD [OF waiting_never.adding_confirm run] by (auto simp: adds_def)
  note n = no_waits [OF xs(2)]
  let ?clk = "ev_Wall (ho_env h)"
  let ?now = "?clk (nd_trace s1)"
  let ?s2 = "record_io (ReadWall ?now) s1"
  let ?s3 = "record_io Slept ?s2"
  have a: "?clk (nd_trace s) \<le> ?now"
    using assms(1) [unfolded time_passes_def, rule_format, of "nd_trace s" xs] assms(2) xs by (simp split: if_splits)
  have "?clk (nd_trace s) + sint poll \<le> ?clk (nd_trace s @ (xs @ [ReadWall ?now, Slept]))"
    using assms(1) [unfolded time_passes_def, rule_format, of "nd_trace s" "xs @ [ReadWall ?now, Slept]"] by simp
  then have b: "?clk (nd_trace s) + sint poll \<le> ?clk (nd_trace ?s3)" using xs by simp
  have early: ?case if "confirm_loop h L c poll deadline req s = Some (r, s')" "s' = s1 \<or> s' = ?s2" for r s'
  proof -
    have "\<exists>tr. nd_trace s' = nd_trace s @ tr \<and> sleeps tr = 0 \<and> Slept \<notin> set tr"
      using that(2) xs(1) n by (elim disjE) (auto intro: exI [of _ xs] exI [of _ "xs @ [ReadWall ?now]"])
    with that(1) sleeps_before_none show ?thesis by blast
  qed
  show ?case
  proof (cases "\<exists>err. r1 = Inl err \<and> Is (Some err) CategoryOperational \<and> time_Add ?now poll < deadline")
    case False
    then have "\<exists>r s'. confirm_loop h L c poll deadline req s = Some (r, s') \<and> (s' = s1 \<or> s' = ?s2)"
      by (cases r1) (auto simp: confirm_loop_step [of h L c poll deadline req s] run Let_def)
    with early show ?thesis by blast
  next
    case True
    then obtain err where t: "r1 = Inl err" "Is (Some err) CategoryOperational" "time_Add ?now poll < deadline" by blast
    have next_run: "confirm_loop h L c poll deadline req s =
        (case lb_cancelled L (nd_trace ?s2 @ [Slept]) of Some why \<Rightarrow> Some (Inl why, ?s3) | None \<Rightarrow> confirm_loop h L c poll deadline req ?s3)"
      using t by (subst confirm_loop_step) (simp add: run Let_def del: record_io_simps)
    obtain r s' tr where rest: "confirm_loop h L c poll deadline req s = Some (r, s')" "nd_trace s' = nd_trace ?s3 @ tr"
      "sleeps_before deadline poll tr" "sleeps tr = 0 \<or> ?clk (nd_trace ?s3) + int (sleeps tr) * sint poll < deadline"
    proof (cases "lb_cancelled L (nd_trace ?s2 @ [Slept])")
      case (Some why)
      with next_run show thesis by (intro that [of "Inl why" ?s3 "[]"]) (auto simp: sleeps_before_none)
    next
      case None
      have "nat (deadline - ?clk (nd_trace ?s3)) < nat (deadline - ?clk (nd_trace s))"
        using a b assms(2) t(3) by (simp add: time_Add_def)
      from less [OF this] None next_run that show thesis by auto
    qed
    have "?clk (nd_trace s) + int (Suc (sleeps tr)) * sint poll < deadline"
      using a b rest(4) t(3) by (elim disjE) (auto simp: time_Add_def algebra_simps)
    moreover have "sleeps_before deadline poll (xs @ ReadWall ?now # Slept # tr)"
      by (rule sleeps_before_append [OF n(3) sleeps_before_Slept [OF t(3) rest(3)]])
    ultimately show ?thesis
      using rest(1,2) xs(1) n by (intro exI [of _ r] exI [of _ s'] exI [of _ "xs @ ReadWall ?now # Slept # tr"]) simp
  qed
qed

section \<open>What a successful stretch did\<close>

lemma pureE_Inr [simp]: "pureE x s = (Inr a, s') \<longleftrightarrow> x = Inr a \<and> s' = s"
  by (auto simp: pureE_def)

declare pureE_eq [simp del]

lemma failing_Inr [simp]: "failing rep m s = (Inr a, s') \<longleftrightarrow> m s = (Inr a, s')"
  by (simp add: failing_def)

lemma failing_pureE_cases:
  assumes "bindE (failing rep (pureE x)) k s = (r, s')"
  obtains (stop) err where "x = Inl err" "r = Inl (Report_fail rep err)" "s' = s"
    | (go) a where "x = Inr a" "k a s = (r, s')"
  using assms by (cases x) (auto simp: failing_def bindE_def mapE_def pureE_def)

lemma Error_String_ActiveAt: "ActiveAt p now = Some err \<Longrightarrow> Error_String err \<noteq> []"
  by (auto simp: ActiveAt_def first_err_Cons errorsNew_def chk_def split: if_splits)

definition decided_on_record :: "'c host \<Rightarrow> 'c libs \<Rightarrow> Executor \<Rightarrow> Trigger \<Rightarrow> Choice \<Rightarrow> string \<Rightarrow> string \<Rightarrow> string \<Rightarrow> AuditEvent \<Rightarrow> bool" where
  "decided_on_record h L e t choice decision reason did ev \<longleftrightarrow>
     AE_Kind ev = KindFailoverDecided \<and>
     (\<exists>decidedAt. json_Marshal h (decided_payload L (ho_F h) (ex_Policy e) t choice decision reason did decidedAt) = Inr (AE_Payload ev))"

text \<open>The choice that this executor makes on the trigger.\<close>

definition exec_choice :: "'c host \<Rightarrow> 'c libs \<Rightarrow> Executor \<Rightarrow> Trigger \<Rightarrow> go_error + Choice \<times> string" where
  "exec_choice h L e t =
     Choose (ho_F h) (ho_P h) (lb_decoders L) (lb_tree L) (ex_Outbox e) (ex_Policy e) t (escrow_KeyTag (ek_pub (ex_Escrow e))) (ex_Primary e)"

context audit_recorder begin

lemma record_decision_ok:
  assumes "ho_Append h = app" "record_decision h L e t rep choice at d r did s = (Inr rep1, s')"
  obtains now ev where "steps s s' [ReadClock now, Logged ev]" "decided_on_record h L e t choice d r did ev"
    "RP_Decision rep1 = Some \<lparr>DD_Decision = d, DD_Reason = r, DD_DecisionID = did, DD_AuditID = AE_EventID ev, DD_DecidedAt = at\<rparr>"
    "RP_Status rep1 = RP_Status rep"
proof -
  obtain raw eid where m: "json_Marshal h (decided_payload L (ho_F h) (ex_Policy e) t choice d r did at) = Inr raw" and
    em: "Emit_event h KindFailoverDecided raw [] [] [] s = (Inr eid, s')" and
    rep1: "rep1 = rep\<lparr>RP_Decision := Some \<lparr>DD_Decision = d, DD_Reason = r, DD_DecisionID = did, DD_AuditID = eid, DD_DecidedAt = at\<rparr>\<rparr>"
    using assms(2) by (auto simp: record_decision_def)
  from Emit_logged [OF assms(1) em] obtain now ev where "steps s s' [ReadClock now, Logged ev]" "AE_EventID ev = eid"
    "AE_Kind ev = KindFailoverDecided" "AE_Payload ev = raw" by metis
  with m rep1 show thesis by (intro that [of now ev]) (auto simp: decided_on_record_def)
qed

lemma standing_reason_ok:
  assumes "standing_reason h p why0 s = (Inr why, s')"
  shows "(why0 \<noteq> [] \<and> why = why0 \<and> s' = s) \<or>
    (why0 = [] \<and> (\<exists>now. steps s s' [ReadClock now] \<and> why = (case ActiveAt p now of None \<Rightarrow> [] | Some err \<Rightarrow> Error_String err)))"
  using assms by (auto simp: standing_reason_def clock_Now_eq steps_def split: if_splits)

lemma standing_reason_Nil:
  assumes "standing_reason h p why0 s = (Inr [], s')"
  obtains now where "why0 = []" "steps s s' [ReadClock now]" "ActiveAt p now = None"
proof -
  from standing_reason_ok [OF assms] obtain now where n: "why0 = []" "steps s s' [ReadClock now]"
    "[] = (case ActiveAt p now of None \<Rightarrow> [] | Some err \<Rightarrow> Error_String err)" by auto
  from n(3) have "ActiveAt p now = None" using Error_String_ActiveAt [of p now] by (cases "ActiveAt p now") auto
  with n(1,2) show thesis by (rule that)
qed

lemma exec_decide_failover:
  assumes app: "ho_Append h = app" and run: "exec_decide h L e t s = (Inr (rep, Some (did, g)), s')"
  obtains choice now at now' ev where "exec_choice h L e t = Inr (choice, [])" "CH_Chosen choice = Some g" "ActiveAt (ex_Policy e) now = None"
    "steps s s' [ReadClock now, ReadClock at, DrewID (Inr did), ReadClock now', Logged ev]"
    "decided_on_record h L e t choice DecisionFailover (failover_reason (ex_Policy e) t g) did ev"
    "RP_Status rep = []" "\<exists>at. RP_Decision rep = Some \<lparr>DD_Decision = DecisionFailover, DD_Reason = failover_reason (ex_Policy e) t g,
       DD_DecisionID = did, DD_AuditID = AE_EventID ev, DD_DecidedAt = at\<rparr>"
proof -
  obtain choice why0 why s1 where c: "exec_choice h L e t = Inr (choice, why0)" and st: "standing_reason h (ex_Policy e) why0 s = (Inr why, s1)" and
    rest: "conclude h L e t choice why (ev_Clock (ho_env h) (nd_trace s1)) (record_io (ReadClock (ev_Clock (ho_env h) (nd_trace s1))) s1) =
      (Inr (rep, Some (did, g)), s')"
    using run by (auto simp: exec_decide_def exec_choice_def Let_def clock_Now_eq)
  have w: "why = []" and g: "CH_Chosen choice = Some g" using rest by (auto simp: conclude_def Let_def split: list.splits option.splits)
  obtain now where now: "why0 = []" "steps s s1 [ReadClock now]" "ActiveAt (ex_Policy e) now = None"
    by (rule standing_reason_Nil [OF st [unfolded w]])
  let ?rep = "chosen_report (newReport (ho_F h) (ex_Policy e) t) choice"
  let ?at = "ev_Clock (ho_env h) (nd_trace s1)"
  let ?s2 = "record_io (ReadClock ?at) s1"
  have rd: "record_decision h L e t ?rep choice ?at DecisionFailover (failover_reason (ex_Policy e) t g) did
      (record_io (DrewID (Inr did)) ?s2) = (Inr rep, s')"
    using rest w g by (auto simp: conclude_def NewDecisionID_def Let_def)
  from record_decision_ok [OF app rd] obtain now' ev where r: "steps (record_io (DrewID (Inr did)) ?s2) s' [ReadClock now', Logged ev]"
    "decided_on_record h L e t choice DecisionFailover (failover_reason (ex_Policy e) t g) did ev"
    "RP_Decision rep = Some \<lparr>DD_Decision = DecisionFailover, DD_Reason = failover_reason (ex_Policy e) t g, DD_DecisionID = did,
       DD_AuditID = AE_EventID ev, DD_DecidedAt = ?at\<rparr>" "RP_Status rep = RP_Status ?rep" by metis
  have "steps s s' [ReadClock now, ReadClock ?at, DrewID (Inr did), ReadClock now', Logged ev]"
    using now(2) r(1) by (simp add: steps_def)
  moreover have "RP_Status rep = []" using r(4) by (simp add: chosen_report_def newReport_def)
  ultimately show thesis using c now g r by (intro that [of choice now ?at now' ev]) auto
qed

lemma exec_decide_declined:
  assumes app: "ho_Append h = app" and run: "exec_decide h L e t s = (Inr (rep, None), s')"
  obtains choice why tr ev where "\<exists>why0. exec_choice h L e t = Inr (choice, why0)" "why \<noteq> []" "steps s s' (tr @ [Logged ev])"
    "list_all (\<lambda>x. \<exists>now. x = ReadClock now) tr" "decided_on_record h L e t choice DecisionDeclined why [] ev"
    "RP_Status rep = StatusDeclined"
proof -
  obtain choice why0 why s1 where c: "exec_choice h L e t = Inr (choice, why0)" and st: "standing_reason h (ex_Policy e) why0 s = (Inr why, s1)" and
    rest: "conclude h L e t choice why (ev_Clock (ho_env h) (nd_trace s1)) (record_io (ReadClock (ev_Clock (ho_env h) (nd_trace s1))) s1) =
      (Inr (rep, None), s')"
    using run by (auto simp: exec_decide_def exec_choice_def Let_def clock_Now_eq)
  have w: "why \<noteq> []"
  proof
    assume "why = []"
    with standing_reason_ok [OF st] have "why0 = []" by auto
    obtain g where "CH_Chosen choice = Some g" by (rule Choose_reason [OF c [unfolded exec_choice_def \<open>why0 = []\<close>]])
    with rest \<open>why = []\<close> show False by (auto simp: conclude_def Let_def)
  qed
  let ?at = "ev_Clock (ho_env h) (nd_trace s1)"
  obtain rep1 where rd: "record_decision h L e t (chosen_report (newReport (ho_F h) (ex_Policy e) t) choice) choice ?at DecisionDeclined why []
      (record_io (ReadClock ?at) s1) = (Inr rep1, s')"
    "rep = rep1\<lparr>RP_Status := StatusDeclined\<rparr>" using rest w by (auto simp: conclude_def Let_def split: list.splits)
  from record_decision_ok [OF app rd(1)] obtain now' ev where r: "steps (record_io (ReadClock ?at) s1) s' [ReadClock now', Logged ev]"
    "decided_on_record h L e t choice DecisionDeclined why [] ev" by metis
  from standing_reason_ok [OF st] obtain xs where xs: "steps s s1 xs" "list_all (\<lambda>x. \<exists>now. x = ReadClock now) xs"
    by (auto simp: steps_def)
  have "steps s s' ((xs @ [ReadClock ?at, ReadClock now']) @ [Logged ev])"
    using xs(1) r(1) by (simp add: steps_def)
  then show thesis using c w r(2) rd(2) xs(2) by (intro that [of choice why "xs @ [ReadClock ?at, ReadClock now']" ev]) auto
qed

end

section \<open>The release\<close>

text \<open>
  What a coordination that succeeded put on the record last: the authorized release, with the destination's
  verified measurement, which the policy authorized. Then the token left.
\<close>

context audit_recorder begin

lemma CoordinateRestore_records:
  assumes app: "ho_Append h = app" and run: "CoordinateRestore h c req s = (Inr res, s')"
  obtains evs ev tok rid m suite pub reason now where
    "events (nd_chain s') = events (nd_chain s) @ evs @ [ev]" "AE_Kind ev = KindKeyReleaseAuthorized"
    "json_Marshal h (keyReleaseAuthorized_payload c req rid (RS_TokenID res) m suite pub reason now) = Inr (AE_Payload ev)"
    "RS_DestinationMeasurement res = m" "authorized (co_policy c) (CR_DestinationKind req) m (CR_DecisionID req) (map KM_KeyID (CR_KeysToRelease req))"
    "SentToken (CR_DestinationEndpoint req) tok \<in> set (nd_trace s')" "nd_trace s' = nd_trace s @ drop (length (nd_trace s)) (nd_trace s')"
    "SentToken (CR_DestinationEndpoint req) tok \<in> set (drop (length (nd_trace s)) (nd_trace s'))"
proof -
  from run obtain hs resp at az s1 s2 s3 s4 where st: "coord_open h c req s = (Inr hs, s1)" "coord_handshake h c req hs s1 = (Inr resp, s2)"
      "coord_attest h c req hs resp s2 = (Inr at, s3)" "coord_authorize h c req hs at s3 = (Inr az, s4)"
      "coord_dispatch h c req hs at az s4 = (Inr res, s')"
    by (auto simp: CoordinateRestore_def)
  obtain pre e1 e2 e3 where p: "steps s s4 pre" "logged pre = [e1, e2, e3]"
    "authorized (co_policy c) (CR_DestinationKind req) (at_Measurement at) (CR_DecisionID req) (map KM_KeyID (CR_KeysToRelease req))"
    "map AE_Kind [e1, e2, e3] = [KindHandshakeInitiated, KindAttestationVerified, KindKeyReleaseAuthorized]"
    by (rule before_dispatch [OF app st(1-4)]) (rule that)
  obtain reason now payload s3' s4' where z: "json_Marshal h (keyReleaseAuthorized_payload c req (hd_RequestID hs) (az_TokenID az)
        (at_Measurement at) (at_Suite at) (at_Pub at) reason now) = Inr payload"
      "Emit_event h KindKeyReleaseAuthorized payload (CR_SessionID req) (CR_ManifestID req) (hd_RequestID hs) s3' = (Inr (az_AuditID az), s4)"
    using st(4) by (auto simp: coord_authorize_def Let_def clock_Now_eq split: sum.splits if_splits)
  obtain now' ev where ev: "steps s3' s4 [ReadClock now', Logged ev]" "AE_Payload ev = payload"
    using Emit_logged [OF app z(2)] by metis
  obtain tok where d: "nd_trace s' = nd_trace s4 @ [SentToken (CR_DestinationEndpoint req) tok]" "nd_chain s' = nd_chain s4"
      "RS_DestinationMeasurement res = at_Measurement at" "RS_TokenID res = az_TokenID az"
    using st(5) by (auto simp: coord_dispatch_def SendKeyReleaseToken_def Let_def attested_result_def split: prod.splits option.splits)
  have "events (nd_chain s') = events (nd_chain s) @ [e1, e2] @ [e3]" using p(1,2) d(2) by (simp add: steps_def)
  moreover have "ev = e3" using p(1,2) ev(1) by (simp add: steps_def)
  ultimately show thesis
    using p z(1) ev(2) d by (intro that [of "[e1, e2]" e3 "hd_RequestID hs" "at_Measurement at" "at_Suite at" "at_Pub at" reason now tok])
      (auto simp: steps_def)
qed

end

text \<open>A release that ran: the key came out of the envelope, and the coordinator had it.\<close>

lemma exec_release_cases:
  assumes run: "exec_release h L e rep did g s = (r, s')"
  obtains (unopened) err where "nd_trace s' = nd_trace s @ [UsedKem]" "nd_chain s' = nd_chain s" "r = Inl err"
    | (coordinated) H dek cr where "escrow_Open (ho_P h) H (CG_Envelope g) (Some (ex_Escrow e)) = Inr dek"
      "CoordinateRestore h (ex_Coordinator e) (failover_request (ex_Policy e) did g dek) (record_io UsedKem s) = (cr, s')"
      "\<And>rep1 rel. r = Inr (rep1, rel) \<Longrightarrow> \<exists>res. cr = Inr res \<and> rep1 = rep\<lparr>RP_Release := Some (releaseReport (ex_Policy e) res)\<rparr> \<and>
         FindAuthorizedRelease (lb_release L) (lb_events L (nd_chain s')) did = Inr rel"
proof -
  let ?H = "ev_Kem (ho_env h) (nd_trace s)"
  show thesis
  proof (cases "escrow_Open (ho_P h) ?H (CG_Envelope g) (Some (ex_Escrow e))")
    case (Inl err)
    with run show ?thesis
      by (intro unopened [of "Report_fail rep err"]) (auto simp: exec_release_def use_kem_def bindE_def readE_def failing_def mapE_def pureE_def Let_def)
  next
    case (Inr dek)
    obtain cr s1 where c: "CoordinateRestore h (ex_Coordinator e) (failover_request (ex_Policy e) did g dek) (record_io UsedKem s) = (cr, s1)"
      by (cases "CoordinateRestore h (ex_Coordinator e) (failover_request (ex_Policy e) did g dek) (record_io UsedKem s)")
    show ?thesis
    proof (cases cr)
      case cr: (Inl x)
      have "s1 = s'" "\<exists>z. r = Inl z"
        using run Inr c cr by (auto simp: exec_release_def use_kem_def bindE_def readE_def failing_def mapE_def pureE_def Let_def)
      with c Inr show ?thesis by (intro coordinated [of ?H dek cr]) auto
    next
      case cr: (Inr res)
      let ?f = "FindAuthorizedRelease (lb_release L) (lb_events L (nd_chain s1)) did"
      let ?rep1 = "rep\<lparr>RP_Release := Some (releaseReport (ex_Policy e) res)\<rparr>"
      have "s1 = s' \<and> r = (case ?f of Inl err \<Rightarrow> Inl (Report_fail ?rep1 err) | Inr rel \<Rightarrow> Inr (?rep1, rel))"
        using run Inr c cr
        by (cases ?f) (auto simp: exec_release_def use_kem_def bindE_def readE_def failing_def mapE_def pureE_def Let_def)
      with c Inr cr show ?thesis by (intro coordinated [of ?H dek cr]) (auto split: sum.splits)
    qed
  qed
qed

section \<open>The confirmation\<close>

text \<open>The loop's result is one confirmation's, after steps that send nothing.\<close>

lemma confirm_loop_ok:
  assumes "confirm_loop h L c poll deadline req s = Some (Inr res, s')"
  obtains s0 where "ConfirmRestore h c (lb_receipt L) (lb_float L) req s0 = (Inr res, s')"
proof -
  have "fst out = Inr res \<longrightarrow> (\<exists>s0. ConfirmRestore h c (lb_receipt L) (lb_float L) req s0 = (Inr res, snd out))"
    if "confirm_loop h L c poll deadline req s = Some out" for s out
    using that
  proof (induction rule: confirm_loop.raw_induct [rotated, consumes 1])
    case (1 loop h L c poll deadline req s out)
    obtain r1 s1 where run: "ConfirmRestore h c (lb_receipt L) (lb_float L) req s = (r1, s1)"
      by (cases "ConfirmRestore h c (lb_receipt L) (lb_float L) req s")
    note step = 1(2) [unfolded run]
    show ?case
    proof (cases r1)
      case (Inl err)
      show ?thesis
        using step 1(1) unfolding Inl
        by (auto simp: wall_Now_eq Let_def split: if_splits option.splits)
    next
      case (Inr x)
      with step run show ?thesis by auto
    qed
  qed
  from this [OF assms] that show thesis by auto
qed

context audit_recorder begin

lemma ConfirmRestore_ok:
  assumes app: "ho_Append h = app" and run: "ConfirmRestore h c D ft req s = (Inr res, s')"
  obtains sg now now' ev where "proves_restore h c D req sg (CN_Receipt res)" "ev_Receipt (ho_env h) (nd_trace s) (FR_DestinationEndpoint req) (FR_KeyID req) = Inr sg"
    "steps s s' [FetchedReceipt (FR_DestinationEndpoint req) (FR_KeyID req), ReadClock now, ReadClock now', Logged ev]"
    "AE_Kind ev = KindCrossCloudRestoreCompleted" "AE_EventID ev = CN_AuditID res"
    "json_Marshal h (restoreConfirmed_payload ft req (CN_Receipt res) sg now) = Inr (AE_Payload ev)"
proof -
  let ?s1 = "record_io (FetchedReceipt (FR_DestinationEndpoint req) (FR_KeyID req)) s"
  from run obtain v sg rc where c: "confirm_request_check c req = None" "Registry_Resolve (co_verifiers c) (AU_DestinationKind (FR_Release req)) = Inr v"
    "ev_Receipt (ho_env h) (nd_trace s) (FR_DestinationEndpoint req) (FR_KeyID req) = Inr sg" "verify_receipt h D v req sg = Inr rc"
    "record_restore h ft req rc sg ?s1 = (Inr res, s')"
    by (auto simp: ConfirmRestore_def FetchRestoreReceipt_def)
  let ?now = "ev_Clock (ho_env h) (nd_trace ?s1)"
  obtain payload where p: "json_Marshal h (restoreConfirmed_payload ft req rc sg ?now) = Inr payload" and
    em: "Emit_event h KindCrossCloudRestoreCompleted payload (FR_SessionID req) (FR_ManifestID req) (AU_RequestID (FR_Release req))
      (record_io (ReadClock ?now) ?s1) = (Inr (CN_AuditID res), s')" and rc: "CN_Receipt res = rc"
    using c(5) by (auto simp: record_restore_def clock_Now_eq simp del: record_io_simps)
  from Emit_logged [OF app em] obtain now' ev where ev: "steps (record_io (ReadClock ?now) ?s1) s' [ReadClock now', Logged ev]"
    "AE_EventID ev = CN_AuditID res" "AE_Kind ev = KindCrossCloudRestoreCompleted" "AE_Payload ev = payload" by metis
  show thesis
    using verify_receipt_proves [OF c(1,2,4)] c(3) ev p rc
    by (intro that [of sg ?now now' ev]) (auto simp: steps_def)
qed

lemma Emit_refused:
  assumes "ho_Append h = app" "Emit_event h kind payload sid mid rid s = (Inl err, s')"
  shows "events (nd_chain s') = events (nd_chain s)"
  using assms(2) by (auto simp: assms(1) Emit_event_def emitter_build_def clock_Now_eq Let_def dest: not_recorded split: prod.splits sum.splits)

lemma ConfirmRestore_refused:
  assumes app: "ho_Append h = app" and run: "ConfirmRestore h c D ft req s = (Inl err, s')"
  shows "events (nd_chain s') = events (nd_chain s)"
proof (cases "confirm_request_check c req")
  case None
  let ?s1 = "record_io (FetchedReceipt (FR_DestinationEndpoint req) (FR_KeyID req)) s"
  show ?thesis
  proof (cases "\<exists>v sg rc. Registry_Resolve (co_verifiers c) (AU_DestinationKind (FR_Release req)) = Inr v \<and>
      ev_Receipt (ho_env h) (nd_trace s) (FR_DestinationEndpoint req) (FR_KeyID req) = Inr sg \<and> verify_receipt h D v req sg = Inr rc")
    case True
    then obtain sg rc where r: "record_restore h ft req rc sg ?s1 = (Inl err, s')"
      using run None by (auto simp: ConfirmRestore_def FetchRestoreReceipt_def bindE_def pureE_def)
    let ?now = "ev_Clock (ho_env h) (nd_trace ?s1)"
    show ?thesis
    proof (cases "json_Marshal h (restoreConfirmed_payload ft req rc sg ?now)")
      case (Inl x)
      with r show ?thesis by (auto simp: record_restore_def clock_Now_eq bindE_def readE_def mapE_def pureE_def)
    next
      case (Inr payload)
      obtain x s2 where em: "Emit_event h KindCrossCloudRestoreCompleted payload (FR_SessionID req) (FR_ManifestID req) (AU_RequestID (FR_Release req))
          (record_io (ReadClock ?now) ?s1) = (x, s2)" by (metis surj_pair)
      with r Inr have "x = Inl err" "s2 = s'"
        by (auto simp: record_restore_def clock_Now_eq bindE_def readE_def mapE_def pureE_def split: sum.splits)
      with Emit_refused [OF app em [unfolded \<open>x = Inl err\<close>]] show ?thesis by simp
    qed
  next
    case False
    then show ?thesis
      using run None by (auto simp: ConfirmRestore_def FetchRestoreReceipt_def bindE_def pureE_def split: sum.splits)
  qed
qed (use run in \<open>auto simp: ConfirmRestore_def\<close>)

end

text \<open>A confirmation that had its proof and yet reports an error could not make its record.\<close>

lemma ConfirmRestore_unrecorded:
  assumes run: "ConfirmRestore h c D ft req s = (Inl err, s')" and chk: "confirm_request_check c req = None"
    and served: "ev_Receipt (ho_env h) (nd_trace s) (FR_DestinationEndpoint req) (FR_KeyID req) = Inr sg"
    and proved: "proves_restore h c D req sg rc"
  obtains (unmarshalled) now e where "nd_trace s' = nd_trace s @ [FetchedReceipt (FR_DestinationEndpoint req) (FR_KeyID req), ReadClock now]"
      "json_Marshal h (restoreConfirmed_payload ft req rc sg now) = Inl e"
    | (refused) now now' e where "nd_trace s' = nd_trace s @ [FetchedReceipt (FR_DestinationEndpoint req) (FR_KeyID req), ReadClock now] @ [ReadClock now', NotLogged e]"
proof -
  let ?s1 = "record_io (FetchedReceipt (FR_DestinationEndpoint req) (FR_KeyID req)) s"
  obtain v where v: "Registry_Resolve (co_verifiers c) (AU_DestinationKind (FR_Release req)) = Inr v" "verify_receipt h D v req sg = Inr rc"
    by (rule proves_restore_verifies [OF proved])
  have r: "record_restore h ft req rc sg ?s1 = (Inl err, s')"
    using run chk served v by (simp add: ConfirmRestore_def FetchRestoreReceipt_def bindE_def pureE_def)
  let ?now = "ev_Clock (ho_env h) (nd_trace ?s1)"
  let ?s2 = "record_io (ReadClock ?now) ?s1"
  show thesis
  proof (cases "json_Marshal h (restoreConfirmed_payload ft req rc sg ?now)")
    case (Inl x)
    with r show ?thesis
      by (intro unmarshalled [of ?now x]) (auto simp: record_restore_def clock_Now_eq bindE_def readE_def mapE_def pureE_def)
  next
    case (Inr payload)
    obtain x s3 where em: "Emit_event h KindCrossCloudRestoreCompleted payload (FR_SessionID req) (FR_ManifestID req) (AU_RequestID (FR_Release req))
        ?s2 = (x, s3)" by (metis surj_pair)
    with r Inr have "x = Inl err" "s3 = s'"
      by (auto simp: record_restore_def clock_Now_eq bindE_def readE_def mapE_def pureE_def split: sum.splits)
    with em have "nd_trace s' = nd_trace ?s2 @ [ReadClock (ev_Clock (ho_env h) (nd_trace ?s2)), NotLogged err]"
      by (auto simp: Emit_event_def emitter_build_def clock_Now_eq Let_def split: prod.splits sum.splits)
    then show ?thesis by (intro refused) simp
  qed
qed

section \<open>The wait keeps its deadline\<close>

definition kept_deadline :: "Executor \<Rightarrow> io list \<Rightarrow> bool" where
  "kept_deadline e tr \<longleftrightarrow>
    (\<forall>xs ys. tr = xs @ Slept # ys \<longrightarrow>
       (\<exists>start readings now. walls xs = start # readings @ [now] \<and> time_Add now (ex_Poll e) < time_Add start (ex_ConfirmWait e))) \<and>
    (sleeps tr = 0 \<or> int (sleeps tr) * sint (ex_Poll e) < sint (ex_ConfirmWait e))"

lemma kept_deadline_no_waits: "list_all (\<lambda>x. \<not> is_wait x) tr \<Longrightarrow> kept_deadline e tr"
  using no_waits [of tr] by (auto simp: kept_deadline_def)

lemma exec_confirm_keeps_deadline:
  assumes "time_passes h (ex_Poll e)" and "0 < sint (ex_Poll e)" and "list_all (\<lambda>x. \<not> is_wait x) pre"
  shows "\<exists>r s' tr. exec_confirm h L e req s = Some (r, s') \<and> nd_trace s' = nd_trace s @ tr \<and> kept_deadline e (pre @ tr)"
proof -
  let ?now = "ev_Wall (ho_env h) (nd_trace s)" and ?poll = "ex_Poll e"
  let ?s1 = "record_io (ReadWall ?now) s" and ?d = "time_Add ?now (ex_ConfirmWait e)"
  note n = no_waits [OF assms(3)]
  obtain r s' tr where run: "confirm_loop h L (ex_Coordinator e) ?poll ?d req ?s1 = Some (r, s')" "nd_trace s' = nd_trace ?s1 @ tr"
    "sleeps_before ?d ?poll tr" "sleeps tr = 0 \<or> ev_Wall (ho_env h) (nd_trace ?s1) + int (sleeps tr) * sint ?poll < ?d"
    using confirm_loop_returns [OF assms(1,2)] by metis
  have "?now \<le> ev_Wall (ho_env h) (nd_trace ?s1)"
    using assms(1) [unfolded time_passes_def, rule_format, of "nd_trace s" "[ReadWall ?now]"] by simp
  then have count: "sleeps tr = 0 \<or> int (sleeps tr) * sint ?poll < sint (ex_ConfirmWait e)"
    using run(4) by (auto simp: time_Add_def)
  have "\<exists>start readings now. walls xs = start # readings @ [now] \<and> time_Add now ?poll < time_Add start (ex_ConfirmWait e)"
    if e: "pre @ ReadWall ?now # tr = xs @ Slept # ys" for xs ys
  proof -
    obtain us' where "xs = pre @ us'" "ReadWall ?now # tr = us' @ Slept # ys" by (rule split_at_Slept [OF e n(3)])
    then obtain us where us: "xs = pre @ ReadWall ?now # us" "tr = us @ Slept # ys" by (auto simp: Cons_eq_append_conv)
    then obtain ts now where "walls us = ts @ [now]" "time_Add now ?poll < ?d"
      using run(3) by (auto simp: sleeps_before_def)
    with us n show ?thesis by (intro exI [of _ ?now] exI [of _ ts] exI [of _ now]) simp
  qed
  then have "kept_deadline e (pre @ ReadWall ?now # tr)" using count n by (simp add: kept_deadline_def)
  with run(1,2) show ?thesis
    by (intro exI [of _ r] exI [of _ s'] exI [of _ "ReadWall ?now # tr"]) (simp add: exec_confirm_eq Let_def)
qed

lemma Failover_keeps_deadline:
  assumes "time_passes h (ex_Poll e)" and "0 < sint (ex_Poll e)"
  shows "\<exists>r s' tr. Failover h L e t s = Some (r, s') \<and> nd_trace s' = nd_trace s @ tr \<and> kept_deadline e tr"
proof -
  obtain d s1 where d: "exec_decide h L e t s = (d, s1)" by (cases "exec_decide h L e t s")
  obtain tr1 where t1: "nd_trace s1 = nd_trace s @ tr1" "list_all (\<lambda>x. \<not> is_wait x) tr1"
    using addingD [OF waiting_never.adding_decide d] by (auto simp: adds_def)
  show ?thesis
  proof (cases "\<exists>rep did g. d = Inr (rep, Some (did, g))")
    case False
    then have "\<exists>r. Failover h L e t s = Some (r, s1)" using d by (auto simp: Failover_def split: sum.split option.split prod.split)
    with t1 kept_deadline_no_waits show ?thesis by blast
  next
    case True
    then obtain rep did g where dd: "d = Inr (rep, Some (did, g))" by blast
    obtain x s2 where x: "exec_release h L e rep did g s1 = (x, s2)" by (cases "exec_release h L e rep did g s1")
    obtain tr2 where t2: "nd_trace s2 = nd_trace s1 @ tr2" "list_all (\<lambda>x. \<not> is_wait x) tr2"
      using addingD [OF waiting_never.adding_release x] by (auto simp: adds_def)
    have t12: "list_all (\<lambda>x. \<not> is_wait x) (tr1 @ tr2)" using t1(2) t2(2) by simp
    show ?thesis
    proof (cases x)
      case (Inl f)
      then have "Failover h L e t s = Some (Inl f, s2)" using d dd x by (simp add: Failover_def)
      with t1(1) t2(1) kept_deadline_no_waits [OF t12] show ?thesis by (intro exI [of _ "Inl f"] exI [of _ s2] exI [of _ "tr1 @ tr2"]) simp
    next
      case (Inr y)
      obtain rep1 rel where y: "y = (rep1, rel)" by (cases y)
      obtain r s3 tr3 where c: "exec_confirm h L e (failover_confirm (ex_Policy e) g rel) s2 = Some (r, s3)" "nd_trace s3 = nd_trace s2 @ tr3"
        "kept_deadline e ((tr1 @ tr2) @ tr3)"
        using exec_confirm_keeps_deadline [OF assms t12] by blast
      have "\<exists>r. Failover h L e t s = Some (r, s3)" using d dd x Inr y c(1) by (cases r) (simp_all add: Failover_def)
      with t1(1) t2(1) c(2,3) show ?thesis by (metis append.assoc)
    qed
  qed
qed

end
