(* ===== verification/ExecutorLive.thy ===== *)
theory ExecutorLive
  imports ExecutorProofs ReleaseProperties EscrowProperties
begin

text \<open>
  A failover that runs to its end: the demonstration outbox, its genome's key escrowed to the demonstration
  authority, and the standby of the demonstration release, which serves a receipt for what it restored.
\<close>

definition demo_failover_policy :: Policy where
  "demo_failover_policy = (demo_policy 60)\<lparr>FP_Standby :=
     \<lparr>SB_Kind = ProviderSimulated, SB_Endpoint = ''https://b'', SB_Measurements = [hex_encode (MeasurementOf [1])]\<rparr>\<rparr>"

definition demo_receipt :: Receipt where
  "demo_receipt =
     \<lparr>RC_Schema = ReceiptSchema, RC_KeyID = GH_KeyID demo_sealed, RC_DecisionID = ''t1'', RC_RequestID = ''r1'', RC_TokenID = ''t1'',
      RC_DestinationKind = ProviderSimulated, RC_DestinationMeasurement = hex_encode (MeasurementOf [1]),
      RC_BundleSHA256 = hex_encode (SHA256 demo_bundle), RC_Generation = 0, RC_ContentKind = ContentDir,
      RC_PayloadSHA256 = PayloadDigest [1, 2, 3], RC_TreeSHA256 = tree_Digest [(''adapter.bin'', PayloadDigest [1, 2, 3])],
      RC_Files = 1, RC_Bytes = 3, RC_KeyReceivedAt = 0, RC_RestoredAt = 0, RC_RestoreSeconds = 0, RC_Gate = None\<rparr>"

definition demo_release :: AuthorizedRelease where
  "demo_release =
     \<lparr>AU_DecisionID = ''t1'', AU_RequestID = ''r1'', AU_TokenID = ''t1'', AU_DestinationKind = ProviderSimulated,
      AU_DestinationMeasurement = MeasurementOf [1], AU_KeyIDs = [GH_KeyID demo_sealed], AU_AuthorizedAt = 0, AU_AuditID = []\<rparr>"

definition demo_libs :: "string \<Rightarrow> bytes \<Rightarrow> Envelope \<Rightarrow> InMemoryChain libs" where
  "demo_libs tag sig env =
     \<lparr>lb_decoders = seal_decoders_of tag sig, lb_tree = demo_codec_of env, lb_receipt = (\<lambda>b. Inr (demo_receipt, [])),
      lb_release = (\<lambda>b. Inr demo_release), lb_decided = (\<lambda>b. None), lb_float = (\<lambda>x. Inr ''0''), lb_Seconds = (\<lambda>d. 0), lb_add = (+),
      lb_events = IC_events, lb_cancelled = (\<lambda>tr. None)\<rparr>"

definition demo_serves :: "io list \<Rightarrow> string \<Rightarrow> KeyID \<Rightarrow> go_error + Signed" where
  "demo_serves tr ep kid =
     bindR (Simulated_Quote plain_prims demo_tee (receipt_Challenge demo_sha512 [1])) (\<lambda>ev. Inr \<lparr>SG_Receipt = [1], SG_Evidence = ev\<rparr>)"

definition demo_authority :: "InMemoryChain host" where
  "demo_authority = demo_host\<lparr>ho_env := demo_env\<lparr>ev_Receipt := demo_serves\<rparr>\<rparr>"

definition demo_executor :: Executor where
  "demo_executor =
     \<lparr>ex_Policy = demo_failover_policy, ex_Outbox = demo_store, ex_Escrow = demo_escrow, ex_Primary = None,
      ex_Coordinator = demo_coordinator, ex_Poll = 1, ex_ConfirmWait = 1\<rparr>"

lemma demo_authority_records: "recording_host SHA256 demo_authority"
  using demo_recording by (simp add: recording_host_def demo_authority_def demo_host_def demo_env_def)

lemma demo_authority_fields:
  "ho_F demo_authority = no_floats" "ho_P demo_authority = plain_prims" "ho_Append demo_authority = Chain_Append SHA256 no_floats"
  "ho_SHA512 demo_authority = demo_sha512" "ev_Clock (ho_env demo_authority) tr = 0" "ev_Wall (ho_env demo_authority) tr = 0" "ev_DecisionID (ho_env demo_authority) tr = Inr ''t1''"
  "ev_Kem (ho_env demo_authority) tr = demo_hpke" "ev_Receipt (ho_env demo_authority) tr = demo_serves tr"
  by (simp_all add: demo_authority_def demo_host_def demo_env_def)

lemma demo_key_ascii: "ascii (GH_KeyID demo_sealed)" "GH_KeyID demo_sealed \<noteq> []"
proof -
  have d: "fmt_d 0 = ''0''" by code_simp
  show "ascii (GH_KeyID demo_sealed)" "GH_KeyID demo_sealed \<noteq> []"
    by (simp_all add: demo_sealed_key NewKeyID_def PayloadDigest_def DEK_KeyTag_def ascii_take d)
qed

text \<open>The key that leaves: the request the executor makes of the coordinator is one the destination answers.\<close>

lemma demo_failover_request:
  assumes "SE_KeyID (CG_Record g) = GH_KeyID demo_sealed"
  shows "answering demo_authority demo_coordinator (failover_request demo_failover_policy ''t1'' g (zeros 32))"
    "release_ready demo_coordinator (failover_request demo_failover_policy ''t1'' g (zeros 32))"
proof -
  show "answering demo_authority demo_coordinator (failover_request demo_failover_policy ''t1'' g (zeros 32))"
    unfolding demo_authority_def by (rule demo_answers_to) (simp_all add: failover_request_def demo_failover_policy_def)
  have z: "zeros 32 \<noteq> []" by (simp add: zeros_def)
  show "release_ready demo_coordinator (failover_request demo_failover_policy ''t1'' g (zeros 32))"
    using demo_signers_live(2) demo_key_ascii assms z
    by (simp add: release_ready_def demo_coordinator_def failover_request_def demo_failover_policy_def suite_names demo_release_policy_def allow_list_def
        validateRequest_def Registry_Has_def source_measurement_gate_def ProviderSimulated_def)
qed

text \<open>The decision.\<close>

lemma demo_tag: "escrow_KeyTag (ek_pub demo_escrow) \<noteq> []" "ascii (escrow_KeyTag (ek_pub demo_escrow))"
  using length_hex_encode [of "take 8 (SHA256 (ep_raw (ek_pub demo_escrow)))"]
  by (auto simp: escrow_KeyTag_def SHA256_length HashSize_def simp flip: length_0_conv)

lemma demo_decides:
  assumes "sentinel_verify SealRecord_signable no_floats plain_prims (demo_seal_of tag\<lparr>SE_Signature := sig\<rparr>) demo_pin = None"
    and "tag = escrow_KeyTag (ek_pub demo_escrow)" and "EN_KeyID env = GH_KeyID demo_sealed" and "EN_EscrowKey env = tag"
  obtains rep g s1 where "exec_decide demo_authority (demo_libs tag sig env) demo_executor demo_trigger demo_site = (Inr (rep, Some (''t1'', g)), s1)"
    "CG_Envelope g = env" "SE_KeyID (CG_Record g) = GH_KeyID demo_sealed" "length (IC_tip (nd_chain s1)) = HashSize"
    "CG_Expected g = \<lparr>EG_BundleSHA256 = hex_encode (SHA256 demo_bundle), EG_PayloadSHA256 = PayloadDigest [1, 2, 3],
       EG_TreeSHA256 = tree_Digest [(''adapter.bin'', PayloadDigest [1, 2, 3])]\<rparr>"
proof -
  let ?L = "demo_libs tag sig env" and ?p = demo_failover_policy
  have p: "Policy_Sentinel ?p = demo_pin" "FP_Primary ?p = None" "FP_QuarantineSeconds ?p = 0" "FP_MaxRPOSeconds ?p = 0"
    using demo_policy_pin [of 60] by (simp_all add: demo_failover_policy_def demo_policy_def Policy_Sentinel_def)
  obtain c g where c: "Choose no_floats plain_prims (seal_decoders_of tag sig) (demo_codec_of env) demo_store ?p demo_trigger tag None = Inr (c, [])"
    "CH_Chosen c = Some g" "CG_Envelope g = env" "CG_Record g = demo_seal_of tag\<lparr>SE_Signature := sig\<rparr>"
    "CG_Expected g = \<lparr>EG_BundleSHA256 = hex_encode (SHA256 demo_bundle), EG_PayloadSHA256 = PayloadDigest [1, 2, 3],
       EG_TreeSHA256 = tree_Digest [(''adapter.bin'', PayloadDigest [1, 2, 3])]\<rparr>"
    by (rule demo_choice_of [OF assms(1,3,4) p]) (rule that)
  have k: "SE_KeyID (CG_Record g) = GH_KeyID demo_sealed" by (simp add: c(4) demo_seal_of_def)
  have act: "ActiveAt ?p 0 = None"
    by (simp add: ActiveAt_def demo_failover_policy_def demo_policy_def time_Add_def Second_def)
  let ?s = "record_io (DrewID (Inr ''t1'')) (record_io (ReadClock 0) (record_io (ReadClock 0) demo_site))"
  let ?ws = "decided_payload ?L no_floats ?p demo_trigger c DecisionFailover (failover_reason ?p demo_trigger g) ''t1'' 0"
  have "in_years ?ws"
    using demo_instants c(2)
    by (simp add: in_years_def decided_payload_def opt_wire_def float_member_def demo_libs_def Let_def c(4) demo_trigger_def
        split: option.split) (simp add: demo_seal_of_def)
  then obtain raw where raw: "json_Marshal demo_authority ?ws = Inr raw" "raw \<noteq> []"
    by (rule json_Marshal_live [OF demo_authority_records])
  obtain eid s1 where em: "Emit_event demo_authority KindFailoverDecided raw [] [] [] ?s = (Inr eid, s1)" "length (IC_tip (nd_chain s1)) = HashSize"
    by (rule Emit_live_host [OF demo_authority_records SHA256_length raw(2), where kind = KindFailoverDecided and sid = "[]" and mid = "[]"
          and rid = "[]" and s = ?s])
      (use demo_tip in \<open>simp_all add: KindFailoverDecided_def validKinds_def\<close>)
  have x: "ex_Policy demo_executor = ?p" "ex_Outbox demo_executor = demo_store" "ex_Escrow demo_executor = demo_escrow" "ex_Primary demo_executor = None"
    by (simp_all add: demo_executor_def)
  have l: "lb_decoders ?L = seal_decoders_of tag sig" "lb_tree ?L = demo_codec_of env" by (simp_all add: demo_libs_def)
  have "\<exists>rep. exec_decide demo_authority ?L demo_executor demo_trigger demo_site = (Inr (rep, Some (''t1'', g)), s1)"
    using c(1,2) act raw(1) em(1)
    by (simp add: exec_decide_def x l demo_authority_fields assms(2) [symmetric] failing_def live_steps standing_reason_def clock_Now_eq
        conclude_def NewDecisionID_def record_decision_def Let_def)
  with c k em(2) show thesis using that by blast
qed

text \<open>The release: the key comes out of the envelope, the token leaves, and the log's last release is this one.\<close>

lemma demo_releases:
  assumes g: "CG_Envelope g = env" "SE_KeyID (CG_Record g) = GH_KeyID demo_sealed"
    and env: "escrow_Seal plain_prims demo_hpke (zeros 32) (GH_KeyID demo_sealed) (ek_pub demo_escrow) = Inr env"
    and tip: "length (IC_tip (nd_chain s)) = HashSize"
  obtains rep1 s1 eid tok where "exec_release demo_authority (demo_libs tag sig env) demo_executor rep ''t1'' g s = (Inr (rep1, demo_release\<lparr>AU_AuditID := eid\<rparr>), s1)"
    "length (IC_tip (nd_chain s1)) = HashSize" "SentToken ''https://b'' tok \<in> set (nd_trace s1)"
proof -
  let ?h = demo_authority and ?L = "demo_libs tag sig env"
  let ?req = "failover_request demo_failover_policy ''t1'' g (zeros 32)"
  have op: "escrow_Open plain_prims demo_hpke env (Some demo_escrow) = Inr (zeros 32)"
    by (rule escrow_Seal_opens(1) [OF plain_prims_ok demo_hpke_agrees demo_escrow_key env])
  have tip1: "length (IC_tip (nd_chain (record_io UsedKem s))) = HashSize" using tip by simp
  obtain res s1 where run: "CoordinateRestore ?h demo_coordinator ?req (record_io UsedKem s) = (Inr res, s1)"
    "length (IC_tip (nd_chain s1)) = HashSize"
    using CoordinateRestore_live_tip [OF demo_authority_records SHA256_length demo_failover_request [OF g(2)] tip1] by blast
  obtain evs ev tok where r: "IC_events (nd_chain s1) = IC_events (nd_chain (record_io UsedKem s)) @ evs @ [ev]" "AE_Kind ev = KindKeyReleaseAuthorized"
    "SentToken (CR_DestinationEndpoint ?req) tok \<in> set (nd_trace s1)"
    by (rule in_memory_recorder.CoordinateRestore_records [OF demo_authority_fields(3) run(1)]) (rule that)
  have l: "lb_release ?L (AE_Payload ev) = Inr demo_release" "AU_DecisionID demo_release = ''t1''" "lb_events ?L = IC_events"
    by (simp_all add: demo_libs_def demo_release_def)
  have find: "FindAuthorizedRelease (lb_release ?L) (IC_events (nd_chain s1)) ''t1'' = Inr (demo_release\<lparr>AU_AuditID := AE_EventID ev\<rparr>)"
    using r(1,2) l by (simp add: FindAuthorizedRelease_def)
  have x: "ex_Policy demo_executor = demo_failover_policy" "ex_Escrow demo_executor = demo_escrow" "ex_Coordinator demo_executor = demo_coordinator"
    by (simp_all add: demo_executor_def)
  have "\<exists>rep1. exec_release ?h ?L demo_executor rep ''t1'' g s = (Inr (rep1, demo_release\<lparr>AU_AuditID := AE_EventID ev\<rparr>), s1)"
    using op run(1) find by (simp add: exec_release_def x l(3) demo_authority_fields use_kem_def g(1) failing_def live_steps Let_def)
  moreover have "SentToken ''https://b'' tok \<in> set (nd_trace s1)" using r(3) by (simp add: failover_request_def demo_failover_policy_def)
  ultimately show thesis using run(2) that by blast
qed

text \<open>The confirmation.\<close>

lemma demo_serves_proof:
  obtains sg where "demo_serves tr ep kid = Inr sg"
    "receipt_Verify demo_sha512 (\<lambda>b. Inr (demo_receipt, [])) sg (sim_tee_verifier plain_prims demo_tee) = Inr (demo_receipt, MeasurementOf [1])"
proof -
  let ?n = "receipt_Challenge demo_sha512 [1]"
  have "length ?n = 64" by (simp add: receipt_Challenge_def demo_sha512_def)
  then obtain ev where ev: "Simulated_Quote plain_prims demo_tee ?n = Inr ev" "sim_tee_verifier plain_prims demo_tee ev ?n = Inr (MeasurementOf [1])"
    by (rule demo_quote)
  have "\<not> sint (1 :: i64) \<le> 0" "\<not> sint (3 :: i64) < 0" by simp_all
  then have "Receipt_Validate demo_receipt = None"
    using demo_key_ascii(2)
    by (simp add: SHA256_length HashSize_def Receipt_Validate_def receipt_faults_def receipt_required_def demo_receipt_def say_def gate_faults_def ContentDir_def ProviderSimulated_def
        is_measurement_hex_def is_hex_digest_def is_payload_digest_def MeasurementOf_def PayloadDigest_def tree_Digest_def float_negative_def zero_time_def)
  then have "receipt_Verify demo_sha512 (\<lambda>b. Inr (demo_receipt, [])) \<lparr>SG_Receipt = [1], SG_Evidence = ev\<rparr> (sim_tee_verifier plain_prims demo_tee) =
      Inr (demo_receipt, MeasurementOf [1])"
    using ev(2) by (simp add: receipt_Verify_def receipt_Parse_def decoder_More_def) (simp add: demo_receipt_def)
  moreover have "demo_serves tr ep kid = Inr \<lparr>SG_Receipt = [1], SG_Evidence = ev\<rparr>" using ev(1) by (simp add: demo_serves_def)
  ultimately show thesis by (rule that [rotated])
qed

definition demo_confirm :: ConfirmRequest where
  "demo_confirm =
     \<lparr>FR_Release = demo_release, FR_DestinationEndpoint = ''https://b'', FR_KeyID = GH_KeyID demo_sealed,
      FR_Expect = Some \<lparr>EG_BundleSHA256 = hex_encode (SHA256 demo_bundle), EG_PayloadSHA256 = PayloadDigest [1, 2, 3],
        EG_TreeSHA256 = tree_Digest [(''adapter.bin'', PayloadDigest [1, 2, 3])]\<rparr>,
      FR_RequireGate = [], FR_SessionID = [], FR_ManifestID = []\<rparr>"

lemma demo_confirm_run:
  assumes tip: "length (IC_tip (nd_chain s)) = HashSize"
  obtains res s' where "ConfirmRestore demo_authority demo_coordinator (\<lambda>b. Inr (demo_receipt, [])) (\<lambda>x. Inr ''0'')
      (demo_confirm\<lparr>FR_Release := demo_release\<lparr>AU_AuditID := eid\<rparr>\<rparr>) s = (Inr res, s')"
proof -
  let ?h = demo_authority and ?D = "\<lambda>b. Inr (demo_receipt, [])" and ?ft = "\<lambda>x. Inr ''0''"
  define req where "req = demo_confirm\<lparr>FR_Release := demo_release\<lparr>AU_AuditID := eid\<rparr>\<rparr>"
  obtain sg where sg: "demo_serves (nd_trace s) ''https://b'' (GH_KeyID demo_sealed) = Inr sg"
    "receipt_Verify demo_sha512 ?D sg (sim_tee_verifier plain_prims demo_tee) = Inr (demo_receipt, MeasurementOf [1])"
    by (rule demo_serves_proof)
  let ?v = "\<lparr>vf_Verify = sim_tee_verifier plain_prims demo_tee, vf_Detailed = None\<rparr>"
  have m: "MeasurementOf [1] \<noteq> []" using SHA256_length [of "[1]"] by (auto simp: MeasurementOf_def HashSize_def simp flip: length_0_conv)
  have chk: "confirm_request_check demo_coordinator req = None"
    using m by (simp add: req_def confirm_request_check_def demo_confirm_def demo_release_def demo_coordinator_def)
  have res: "Registry_Resolve (co_verifiers demo_coordinator) ProviderSimulated = Inr ?v"
    by (simp add: Registry_Resolve_def demo_coordinator_def)
  have fields: "AU_DestinationKind (FR_Release req) = ProviderSimulated" "FR_DestinationEndpoint req = ''https://b''" "FR_KeyID req = GH_KeyID demo_sealed"
    "FR_SessionID req = []" "FR_ManifestID req = []" "AU_RequestID (FR_Release req) = ''r1''" "FR_RequireGate req = []"
    by (simp_all add: req_def demo_confirm_def demo_release_def)
  have "receipt_refusal req demo_receipt (MeasurementOf [1]) = None"
    by (simp add: receipt_refusal_def gate_refusal_def release_fields_def Let_def req_def demo_confirm_def genome_fields_def)
      (simp add: demo_receipt_def demo_release_def)
  then have ver: "verify_receipt ?h ?D ?v req sg = Inr demo_receipt"
    using sg(2) by (simp add: verify_receipt_def demo_authority_fields)
  let ?s2 = "record_io (ReadClock 0) (record_io (FetchedReceipt ''https://b'' (GH_KeyID demo_sealed)) s)"
  let ?ws = "restoreConfirmed_payload ?ft req demo_receipt sg 0"
  have "in_years ?ws"
    using demo_instants
    by (simp add: in_years_def restoreConfirmed_payload_def float_member_def gate_member_def Let_def demo_receipt_def)
  then obtain raw where raw: "json_Marshal ?h ?ws = Inr raw" "raw \<noteq> []"
    by (rule json_Marshal_live [OF demo_authority_records])
  obtain eid' s3 where em: "Emit_event ?h KindCrossCloudRestoreCompleted raw [] [] ''r1'' ?s2 = (Inr eid', s3)"
    by (rule Emit_live_host [OF demo_authority_records SHA256_length raw(2), where kind = KindCrossCloudRestoreCompleted and sid = "[]" and mid = "[]"
          and rid = "''r1''" and s = ?s2])
      (use tip in \<open>simp_all add: KindCrossCloudRestoreCompleted_def validKinds_def\<close>)
  have "\<exists>res. ConfirmRestore ?h demo_coordinator ?D ?ft req s = (Inr res, s3)"
    using chk res sg(1) ver raw(1) em
    by (simp add: ConfirmRestore_def FetchRestoreReceipt_def fields demo_authority_fields live_steps record_restore_def clock_Now_eq)
  with that show thesis unfolding req_def by blast
qed

lemma demo_confirm_succeeds:
  obtains res s' where "ConfirmRestore demo_authority demo_coordinator (\<lambda>b. Inr (demo_receipt, [])) (\<lambda>x. Inr ''0'') demo_confirm demo_site = (Inr res, s')"
proof -
  have "demo_confirm\<lparr>FR_Release := demo_release\<lparr>AU_AuditID := []\<rparr>\<rparr> = demo_confirm" by (simp add: demo_confirm_def demo_release_def)
  with demo_confirm_run [OF demo_tip, where eid = "[]"] that show thesis by metis
qed

lemma demo_confirms:
  assumes g: "SE_KeyID (CG_Record g) = GH_KeyID demo_sealed"
      "CG_Expected g = \<lparr>EG_BundleSHA256 = hex_encode (SHA256 demo_bundle), EG_PayloadSHA256 = PayloadDigest [1, 2, 3],
         EG_TreeSHA256 = tree_Digest [(''adapter.bin'', PayloadDigest [1, 2, 3])]\<rparr>"
    and tip: "length (IC_tip (nd_chain s)) = HashSize"
  shows "\<exists>res s'. exec_confirm demo_authority (demo_libs tag sig env) demo_executor
      (failover_confirm demo_failover_policy g (demo_release\<lparr>AU_AuditID := eid\<rparr>)) s = Some (Inr res, s')"
proof -
  let ?h = demo_authority and ?L = "demo_libs tag sig env"
  let ?req = "failover_confirm demo_failover_policy g (demo_release\<lparr>AU_AuditID := eid\<rparr>)"
  let ?s0 = "record_io (ReadWall 0) s"
  have req: "?req = demo_confirm\<lparr>FR_Release := demo_release\<lparr>AU_AuditID := eid\<rparr>\<rparr>"
    by (simp add: failover_confirm_def demo_confirm_def demo_failover_policy_def demo_policy_def g)
  have tip0: "length (IC_tip (nd_chain ?s0)) = HashSize" using tip by simp
  obtain res s3 where "ConfirmRestore ?h demo_coordinator (lb_receipt ?L) (lb_float ?L) ?req ?s0 = (Inr res, s3)"
    using demo_confirm_run [OF tip0, where eid = eid] by (auto simp: req demo_libs_def)
  then have "confirm_loop ?h ?L demo_coordinator 1 d ?req ?s0 = Some (Inr res, s3)" for d by (subst confirm_loop_step) simp
  moreover have "ex_Coordinator demo_executor = demo_coordinator" "ex_Poll demo_executor = 1" by (simp_all add: demo_executor_def)
  ultimately show ?thesis by (auto simp: exec_confirm_eq Let_def demo_authority_fields)
qed

text \<open>The whole failover.\<close>

lemma demo_fails_over:
  obtains L rep s' tok where "Failover demo_authority L demo_executor demo_trigger demo_site = Some (Inr rep, s')" "RP_Status rep = StatusRestored"
    "lb_events L = IC_events" "SentToken ''https://b'' tok \<in> set (nd_trace s')"
proof -
  define tag where "tag = escrow_KeyTag (ek_pub demo_escrow)"
  obtain env where env: "escrow_Seal plain_prims demo_hpke (zeros 32) (GH_KeyID demo_sealed) (ek_pub demo_escrow) = Inr env" by (rule demo_escrow_seals)
  note e = escrow_Seal_opens(2,3) [OF plain_prims_ok demo_hpke_agrees demo_escrow_key env]
  have "tag \<noteq> []" "valid_utf8 tag" using demo_tag by (simp_all add: tag_def ascii_utf8)
  then obtain sig where sig: "sentinel_verify SealRecord_signable no_floats plain_prims (demo_seal_of tag\<lparr>SE_Signature := sig\<rparr>) demo_pin = None"
    using demo_seal_of_verifies by blast
  let ?L = "demo_libs tag sig env"
  obtain rep g s1 where d: "exec_decide demo_authority ?L demo_executor demo_trigger demo_site = (Inr (rep, Some (''t1'', g)), s1)"
    "CG_Envelope g = env" "SE_KeyID (CG_Record g) = GH_KeyID demo_sealed" "length (IC_tip (nd_chain s1)) = HashSize"
    "CG_Expected g = \<lparr>EG_BundleSHA256 = hex_encode (SHA256 demo_bundle), EG_PayloadSHA256 = PayloadDigest [1, 2, 3],
       EG_TreeSHA256 = tree_Digest [(''adapter.bin'', PayloadDigest [1, 2, 3])]\<rparr>"
    by (rule demo_decides [OF sig tag_def e(1) e(2) [folded tag_def]]) (rule that)
  obtain rep1 s2 eid tok where r: "exec_release demo_authority ?L demo_executor rep ''t1'' g s1 = (Inr (rep1, demo_release\<lparr>AU_AuditID := eid\<rparr>), s2)"
    "length (IC_tip (nd_chain s2)) = HashSize" "SentToken ''https://b'' tok \<in> set (nd_trace s2)"
    by (rule demo_releases [OF d(2,3) env d(4)]) (rule that)
  obtain res s3 where c: "exec_confirm demo_authority ?L demo_executor
      (failover_confirm demo_failover_policy g (demo_release\<lparr>AU_AuditID := eid\<rparr>)) s2 = Some (Inr res, s3)"
    using demo_confirms [OF d(3,5) r(2)] by blast
  have x: "ex_Policy demo_executor = demo_failover_policy" by (simp add: demo_executor_def)
  have run: "Failover demo_authority ?L demo_executor demo_trigger demo_site = Some (Inr (finished_report ?L demo_failover_policy demo_trigger g rep1 res), s3)"
    using d(1) r(1) c by (simp add: Failover_def x)
  obtain post where "nd_trace s3 = nd_trace s2 @ post" using exec_confirm_quiet [OF c] by (auto simp: adds_def)
  then have "SentToken ''https://b'' tok \<in> set (nd_trace s3)" using r(3) by simp
  with run show thesis by (intro that [of ?L _ s3 tok]) (auto simp: finished_report_def demo_libs_def)
qed

end
