(* ===== verification/ExecutorProperties.thy ===== *)
theory ExecutorProperties
  imports ExecutorLive ExecutorProofs
begin

text \<open>
  The properties of a failover as it is carried out: the decision comes before the key, a declined failover
  releases nothing, a restore is reported only when the standby proved it, and the executor returns.
  One failover on a small host is the concrete instance.
\<close>

section \<open>The ways a failover goes\<close>

lemma Failover_cases:
  assumes "Failover h L e t s = Some (r, s')"
  obtains (undecided) f where "exec_decide h L e t s = (Inl f, s')" "r = Inl f"
    | (declined) rep where "exec_decide h L e t s = (Inr (rep, None), s')" "r = Inr rep"
    | (unreleased) rep did g s1 f where "exec_decide h L e t s = (Inr (rep, Some (did, g)), s1)" "exec_release h L e rep did g s1 = (Inl f, s')" "r = Inl f"
    | (released) rep did g s1 rep1 rel s2 c where "exec_decide h L e t s = (Inr (rep, Some (did, g)), s1)"
        "exec_release h L e rep did g s1 = (Inr (rep1, rel), s2)"
        "exec_confirm h L e (failover_confirm (ex_Policy e) g rel) s2 = Some (c, s')"
        "r = (case c of Inl err \<Rightarrow> Inl (Report_fail rep1 err) | Inr confirmed \<Rightarrow> Inr (finished_report L (ex_Policy e) t g rep1 confirmed))"
  using assms by (auto simp: Failover_def split: prod.splits sum.splits option.splits)

lemma destination_proved_mono: "destination_proved h c req tr at \<Longrightarrow> set tr \<subseteq> set tr' \<Longrightarrow> destination_proved h c req tr' at"
  unfolding destination_proved_def by blast

text \<open>A token in a failover's trace: the failover was decided and its key's release was coordinated.\<close>

lemma failover_sent:
  assumes app: "ho_Append h = Chain_Append Hs F" and run: "Failover h L e t s = Some (r, s')" and tr: "nd_trace s' = nd_trace s @ tr" "SentToken ep tok \<in> set tr"
  obtains rep did g s1 H dek cr s2 tr1 tr2 post where "exec_decide h L e t s = (Inr (rep, Some (did, g)), s1)"
    "escrow_Open (ho_P h) H (CG_Envelope g) (Some (ex_Escrow e)) = Inr dek"
    "CoordinateRestore h (ex_Coordinator e) (failover_request (ex_Policy e) did g dek) (record_io UsedKem s1) = (cr, s2)"
    "tr = tr1 @ [UsedKem] @ tr2 @ post" "nd_trace s1 = nd_trace s @ tr1" "nd_trace s2 = nd_trace (record_io UsedKem s1) @ tr2"
    "SentToken ep tok \<in> set tr2" "list_all (\<lambda>x. \<not> is_sent x) tr1" "list_all (\<lambda>x. \<not> is_sent x) post"
proof -
  have no: False if "adds (\<lambda>x. \<not> is_sent x) s s'" using that tr by (auto simp: adds_def list_all_iff)
  obtain rep did g s1 rr s2 post where d: "exec_decide h L e t s = (Inr (rep, Some (did, g)), s1)"
    and rel: "exec_release h L e rep did g s1 = (rr, s2)" and post: "nd_trace s' = nd_trace s2 @ post" "list_all (\<lambda>x. \<not> is_sent x) post"
    using run
  proof (cases rule: Failover_cases)
    case (undecided f)
    then show ?thesis using no addingD [OF sending_nothing.adding_decide] by blast
  next
    case (declined rep)
    then show ?thesis using no addingD [OF sending_nothing.adding_decide] by blast
  next
    case (unreleased rep did g s1 f)
    then show ?thesis by (intro that [of rep did g s1 "Inl f" s' "[]"]) auto
  next
    case (released rep did g s1 rep1 rel s2 c)
    obtain post where "nd_trace s' = nd_trace s2 @ post" "list_all (\<lambda>x. \<not> is_sent x) post"
      using exec_confirm_quiet [OF released(3)] by (auto simp: adds_def)
    with released show ?thesis by (intro that [of rep did g s1 "Inr (rep1, rel)" s2 post]) auto
  qed
  obtain tr1 where t1: "nd_trace s1 = nd_trace s @ tr1" "list_all (\<lambda>x. \<not> is_sent x) tr1"
    using addingD [OF sending_nothing.adding_decide d] by (auto simp: adds_def)
  show thesis
    using rel
  proof (cases rule: exec_release_cases)
    case (unopened err)
    then have "adds (\<lambda>x. \<not> is_sent x) s s'" using t1 post by (simp add: adds_def)
    with no show ?thesis by blast
  next
    case (coordinated H dek cr)
    obtain tr2 where t2: "nd_trace s2 = nd_trace (record_io UsedKem s1) @ tr2"
      using in_memory_recorder.runsD [OF in_memory_recorder.runs_coordinate [OF app] coordinated(2)]
      by (auto simp: in_memory_recorder.steps_def)
    have "nd_trace s' = nd_trace s @ tr1 @ [UsedKem] @ tr2 @ post" using post(1) t1(1) t2 by simp
    then have e: "tr = tr1 @ [UsedKem] @ tr2 @ post" using tr(1) by simp
    then have "SentToken ep tok \<in> set tr2" using tr(2) t1(2) post(2) by (auto simp: list_all_iff)
    then show ?thesis using d coordinated(1,2) e t1 t2 post(2) by (intro that)
  qed
qed

section \<open>The decision comes before the key\<close>

text \<open>C12: A genome's key leaves in a failover only after the decision is on the record. When a token leaves, the
  choice had found this genome and the policy stood at a moment read before; the log's next event of this run
  is the decision to fail over, and after it come the handshake, the verified attestation and the
  authorized release; the token goes to the policy's standby endpoint alone, under that decision, and carries
  one key: the chosen genome's, as the authority's escrow key opened it from the genome's envelope, wrapped
  to the attested standby that the release policy authorized.\<close>

theorem failover_key_leaves_only_after_the_decision:
  assumes "ho_Append h = Chain_Append H F" and "Failover h L e t s = Some (r, s')"
    and "nd_trace s' = nd_trace s @ tr" and "SentToken ep tok \<in> set tr"
  shows "\<exists>pre post choice g now d e1 e2 e3 did dek H' at.
    tr = pre @ [SentToken ep tok] @ post \<and> list_all (\<lambda>x. \<not> is_sent x) (pre @ post) \<and> ep = SB_Endpoint (FP_Standby (ex_Policy e)) \<and>
    exec_choice h L e t = Inr (choice, []) \<and> CH_Chosen choice = Some g \<and> ReadClock now \<in> set pre \<and> ActiveAt (ex_Policy e) now = None \<and>
    logged pre = [d, e1, e2, e3] \<and> IC_events (nd_chain s') = IC_events (nd_chain s) @ logged tr \<and>
    map AE_Kind [d, e1, e2, e3] = [KindFailoverDecided, KindHandshakeInitiated, KindAttestationVerified, KindKeyReleaseAuthorized] \<and>
    decided_on_record h L e t choice DecisionFailover (failover_reason (ex_Policy e) t g) did d \<and> KT_DecisionID tok = did \<and>
    escrow_Open (ho_P h) H' (CG_Envelope g) (Some (ex_Escrow e)) = Inr dek \<and>
    (let req = failover_request (ex_Policy e) did g dek in
      destination_proved h (ex_Coordinator e) req pre at \<and>
      authorized (co_policy (ex_Coordinator e)) (SB_Kind (FP_Standby (ex_Policy e))) (at_Measurement at) did [SE_KeyID (CG_Record g)] \<and>
      map WK_KeyID (KT_Wrapped tok) = [SE_KeyID (CG_Record g)] \<and>
      list_all (wrapped_for h (KT_TokenID tok) at [\<lparr>KM_KeyID = SE_KeyID (CG_Record g), KM_Purpose = token_PurposeSealing, KM_Plaintext = dek\<rparr>]) (KT_Wrapped tok))"
proof -
  obtain rep did g s1 H' dek cr s2 tr1 tr2 post where f: "exec_decide h L e t s = (Inr (rep, Some (did, g)), s1)"
    "escrow_Open (ho_P h) H' (CG_Envelope g) (Some (ex_Escrow e)) = Inr dek"
    "CoordinateRestore h (ex_Coordinator e) (failover_request (ex_Policy e) did g dek) (record_io UsedKem s1) = (cr, s2)"
    "tr = tr1 @ [UsedKem] @ tr2 @ post" "nd_trace s1 = nd_trace s @ tr1" "nd_trace s2 = nd_trace (record_io UsedKem s1) @ tr2"
    "SentToken ep tok \<in> set tr2" "list_all (\<lambda>x. \<not> is_sent x) tr1" "list_all (\<lambda>x. \<not> is_sent x) post"
    by (rule failover_sent [OF assms]) (rule that)
  obtain choice now at0 now' d where c: "exec_choice h L e t = Inr (choice, [])" "CH_Chosen choice = Some g" "ActiveAt (ex_Policy e) now = None"
    "in_memory_recorder.steps s s1 [ReadClock now, ReadClock at0, DrewID (Inr did), ReadClock now', Logged d]"
    "decided_on_record h L e t choice DecisionFailover (failover_reason (ex_Policy e) t g) did d"
    by (rule in_memory_recorder.exec_decide_failover [OF assms(1) f(1)]) (rule that)
  have t1: "tr1 = [ReadClock now, ReadClock at0, DrewID (Inr did), ReadClock now', Logged d]"
    using c(4) f(5) by (simp add: in_memory_recorder.steps_def)
  let ?req = "failover_request (ex_Policy e) did g dek"
  obtain pre at e1 e2 e3 where k: "tr2 = pre @ [SentToken ep tok]" "list_all (\<lambda>x. \<not> is_sent x) pre" "ep = CR_DestinationEndpoint ?req"
    "IC_events (nd_chain s2) = IC_events (nd_chain (record_io UsedKem s1)) @ [e1, e2, e3]" "logged pre = [e1, e2, e3]"
    "map AE_Kind [e1, e2, e3] = [KindHandshakeInitiated, KindAttestationVerified, KindKeyReleaseAuthorized]" "KT_DecisionID tok = CR_DecisionID ?req"
    "destination_proved h (ex_Coordinator e) ?req pre at"
    "authorized (co_policy (ex_Coordinator e)) (CR_DestinationKind ?req) (at_Measurement at) (CR_DecisionID ?req) (map KM_KeyID (CR_KeysToRelease ?req))"
    "map WK_KeyID (KT_Wrapped tok) = map KM_KeyID (CR_KeysToRelease ?req)" "list_all (wrapped_for h (KT_TokenID tok) at (CR_KeysToRelease ?req)) (KT_Wrapped tok)"
    by (rule in_memory_recorder.CoordinateRestore_sent [OF assms(1) f(3,6,7)]) (rule that)
  let ?pre = "tr1 @ [UsedKem] @ pre"
  have "destination_proved h (ex_Coordinator e) ?req ?pre at" using k(8) by (rule destination_proved_mono) auto
  moreover have "IC_events (nd_chain s') = IC_events (nd_chain s) @ logged tr"
    using in_memory_recorder.Failover_steps [OF assms(1,2)] assms(3) by (auto simp: in_memory_recorder.steps_def)
  ultimately show ?thesis
    using f(2,4,8,9) c(1,2,3,5) t1 k
    by - (rule exI [of _ ?pre], rule exI [of _ post], rule exI [of _ choice], rule exI [of _ g], rule exI [of _ now], rule exI [of _ d],
      rule exI [of _ e1], rule exI [of _ e2], rule exI [of _ e3], rule exI [of _ did], rule exI [of _ dek], rule exI [of _ H'], rule exI [of _ at],
      simp add: Let_def failover_request_def decided_on_record_def)
qed

theorem failover_key_leaves_only_after_the_decision_witness:
  "\<exists>(s' :: InMemoryChain site) pre tok post. nd_trace s' = nd_trace demo_site @ pre @ [SentToken ''https://b'' tok] @ post \<and>
     map AE_Kind (logged pre) = [KindFailoverDecided, KindHandshakeInitiated, KindAttestationVerified, KindKeyReleaseAuthorized]"
proof -
  obtain L rep s' tok where run: "Failover demo_authority L demo_executor demo_trigger demo_site = Some (Inr rep, s')"
    "SentToken ''https://b'' tok \<in> set (nd_trace s')" by (rule demo_fails_over)
  obtain tr where tr: "nd_trace s' = nd_trace demo_site @ tr"
    using in_memory_recorder.Failover_steps [OF demo_authority_fields(3) run(1)] by (auto simp: in_memory_recorder.steps_def)
  have "SentToken ''https://b'' tok \<in> set tr" using run(2) tr by (simp add: demo_site_def)
  from failover_key_leaves_only_after_the_decision [OF demo_authority_fields(3) run(1) tr this] obtain pre post d e1 e2 e3 where
    "tr = pre @ [SentToken ''https://b'' tok] @ post" "logged pre = [d, e1, e2, e3]"
    "map AE_Kind [d, e1, e2, e3] = [KindFailoverDecided, KindHandshakeInitiated, KindAttestationVerified, KindKeyReleaseAuthorized]"
    by (elim exE conjE) (rule that)
  with tr show ?thesis by (intro exI [of _ s'] exI [of _ pre] exI [of _ tok] exI [of _ post]) simp
qed

section \<open>A declined failover\<close>

text \<open>C14: A failover that the policy declines releases nothing: the whole run reads the clock and puts one event on the
  record, the declined decision with its reason; no identifier is drawn, the envelope is not opened, no
  handshake is begun and no token leaves.\<close>

theorem declined_failover_releases_nothing:
  assumes "ho_Append h = Chain_Append H F" and "Failover h L e t s = Some (Inr rep, s')" and "RP_Status rep = StatusDeclined"
  shows "\<exists>choice why0 why pre ev. exec_choice h L e t = Inr (choice, why0) \<and> why \<noteq> [] \<and> nd_trace s' = nd_trace s @ pre @ [Logged ev] \<and>
    list_all (\<lambda>x. \<exists>now. x = ReadClock now) pre \<and> IC_events (nd_chain s') = IC_events (nd_chain s) @ [ev] \<and>
    decided_on_record h L e t choice DecisionDeclined why [] ev"
  using assms(2)
proof (cases rule: Failover_cases)
  case (declined rep1)
  obtain choice why tr ev where d: "\<exists>why0. exec_choice h L e t = Inr (choice, why0)" "why \<noteq> []" "in_memory_recorder.steps s s' (tr @ [Logged ev])"
    "list_all (\<lambda>x. \<exists>now. x = ReadClock now) tr" "decided_on_record h L e t choice DecisionDeclined why [] ev"
    by (rule in_memory_recorder.exec_decide_declined [OF assms(1) declined(1)]) (rule that)
  have "logged tr = []" using d(4) by (induction tr) auto
  with d show ?thesis by (auto simp: in_memory_recorder.steps_def)
next
  case (released rep1 did g s1 rep2 rel s2 c)
  then have "RP_Status rep = StatusRestored" by (auto simp: finished_report_def split: sum.splits)
  with assms(3) show ?thesis by (simp add: StatusRestored_def StatusDeclined_def)
qed auto

text \<open>An outbox that holds nothing: the demonstration authority declines.\<close>

lemma demo_declines:
  obtains rep s' where "Failover demo_authority (demo_libs tag sig env) (demo_executor\<lparr>ex_Outbox := demo_outbox []\<rparr>) demo_trigger demo_site = Some (Inr rep, s')"
    "RP_Status rep = StatusDeclined"
proof -
  let ?L = "demo_libs tag sig env" and ?p = demo_failover_policy and ?e = "demo_executor\<lparr>ex_Outbox := demo_outbox []\<rparr>"
  let ?why = "''the outbox holds no genome the pinned sentinel sealed''"
  let ?c = "\<lparr>CH_Chosen = None, CH_ChainEnd = None, CH_SetAside = []\<rparr>"
  have ch: "Choose no_floats plain_prims D T (demo_outbox []) ?p demo_trigger tag' None = Inr (?c, ?why)" for D T tag'
    by (simp add: Choose_def ReadChain_def demo_outbox_def Let_def)
  let ?s = "record_io (ReadClock 0) demo_site"
  let ?ws = "decided_payload ?L no_floats ?p demo_trigger ?c DecisionDeclined ?why [] 0"
  have "in_years ?ws"
    using demo_instants
    by (simp add: in_years_def decided_payload_def opt_wire_def float_member_def demo_libs_def Let_def demo_trigger_def split: option.split)
  then obtain raw where raw: "json_Marshal demo_authority ?ws = Inr raw" "raw \<noteq> []"
    by (rule json_Marshal_live [OF demo_authority_records])
  obtain eid s1 where em: "Emit_event demo_authority KindFailoverDecided raw [] [] [] ?s = (Inr eid, s1)"
    by (rule Emit_live_host [OF demo_authority_records SHA256_length raw(2), where kind = KindFailoverDecided and sid = "[]" and mid = "[]"
          and rid = "[]" and s = ?s])
      (use demo_tip in \<open>simp_all add: KindFailoverDecided_def validKinds_def\<close>)
  have x: "ex_Policy ?e = ?p" "ex_Outbox ?e = demo_outbox []" "ex_Escrow ?e = demo_escrow" "ex_Primary ?e = None"
    by (simp_all add: demo_executor_def)
  have "\<exists>rep. exec_decide demo_authority ?L ?e demo_trigger demo_site = (Inr (rep, None), s1) \<and> RP_Status rep = StatusDeclined"
    using ch raw(1) em
    by (simp add: exec_decide_def x demo_authority_fields failing_def live_steps standing_reason_def clock_Now_eq
        conclude_def record_decision_def Let_def)
  then show thesis using that by (auto simp: Failover_def)
qed

theorem declined_failover_releases_nothing_witness:
  "\<exists>(s' :: InMemoryChain site) pre ev. nd_trace s' = nd_trace demo_site @ pre @ [Logged ev] \<and> list_all (\<lambda>x. \<exists>now. x = ReadClock now) pre \<and>
     AE_Kind ev = KindFailoverDecided"
proof -
  obtain rep s' where "Failover demo_authority (demo_libs [] [] demo_envelope) (demo_executor\<lparr>ex_Outbox := demo_outbox []\<rparr>) demo_trigger demo_site =
      Some (Inr rep, s')" "RP_Status rep = StatusDeclined" by (rule demo_declines)
  from declined_failover_releases_nothing [OF demo_authority_fields(3) this] show ?thesis
    by (elim exE conjE) (auto simp: decided_on_record_def)
qed

section \<open>A restore that is reported was proved\<close>

lemma find_release_decision: "find_release U did es = Inr rel \<Longrightarrow> AU_DecisionID rel = did"
  by (induction es) (auto split: if_splits sum.splits)

lemma found_release:
  assumes "FindAuthorizedRelease U (es @ [ev]) did = Inr rel" and "AE_Kind ev = KindKeyReleaseAuthorized"
  obtains p where "U (AE_Payload ev) = Inr p" "AU_DecisionID p = did \<Longrightarrow> rel = p\<lparr>AU_AuditID := AE_EventID ev\<rparr>" "AU_DecisionID rel = did"
proof -
  have f: "find_release U did (ev # rev es) = Inr rel" using assms(1) by (simp add: FindAuthorizedRelease_def)
  then obtain p where p: "U (AE_Payload ev) = Inr p" using assms(2) by (cases "U (AE_Payload ev)") auto
  have "AU_DecisionID p = did \<Longrightarrow> rel = p\<lparr>AU_AuditID := AE_EventID ev\<rparr>" using f p assms(2) by simp
  with p find_release_decision [OF f] show thesis by (intro that)
qed

text \<open>C13: A failover reports a restore only when the standby proved it. The genome is the one the choice found and
  its key was authorized, on the record, for the measurement the standby's Evidence attested; the release
  that the receipt was held against is read back from the log under this very decision (from that event,
  when its payload names the decision); the receipt is signed by the TEE of the measurement the key
  went to, names the release, and is of that bundle, payload and tree, through the gate the policy
  requires; and the last event of the log is the completed restore with that receipt.\<close>

theorem restored_means_proven:
  assumes "ho_Append h = Chain_Append H F" and "lb_events L = IC_events"
    and "Failover h L e t s = Some (Inr rep, s')" and "RP_Status rep = StatusRestored"
  shows "\<exists>choice g did dek m e3 p rel sg rc ev rr.
    exec_choice h L e t = Inr (choice, []) \<and> CH_Chosen choice = Some g \<and>
    authorized (co_policy (ex_Coordinator e)) (SB_Kind (FP_Standby (ex_Policy e))) m did [SE_KeyID (CG_Record g)] \<and>
    e3 \<in> set (IC_events (nd_chain s')) \<and> AE_Kind e3 = KindKeyReleaseAuthorized \<and>
    (\<exists>rid tok suite pub reason now. json_Marshal h (keyReleaseAuthorized_payload (ex_Coordinator e) (failover_request (ex_Policy e) did g dek)
       rid tok m suite pub reason now) = Inr (AE_Payload e3)) \<and>
    lb_release L (AE_Payload e3) = Inr p \<and> (AU_DecisionID p = did \<longrightarrow> rel = p\<lparr>AU_AuditID := AE_EventID e3\<rparr>) \<and> AU_DecisionID rel = did \<and>
    proves_restore h (ex_Coordinator e) (lb_receipt L) (failover_confirm (ex_Policy e) g rel) sg rc \<and>
    RC_TreeSHA256 rc = EG_TreeSHA256 (CG_Expected g) \<and>
    (\<exists>es. IC_events (nd_chain s') = es @ [ev]) \<and> AE_Kind ev = KindCrossCloudRestoreCompleted \<and>
    (\<exists>now. json_Marshal h (restoreConfirmed_payload (lb_float L) (failover_confirm (ex_Policy e) g rel) rc sg now) = Inr (AE_Payload ev)) \<and>
    RP_Restore rep = Some rr \<and> RR_AuditID rr = AE_EventID ev \<and> RR_TreeSHA256 rr = RC_TreeSHA256 rc"
  using assms(3)
proof (cases rule: Failover_cases)
  case (declined rep1)
  then have "RP_Status rep = StatusDeclined"
    by - (rule in_memory_recorder.exec_decide_declined [OF assms(1) declined(1)], simp)
  with assms(4) show ?thesis by (simp add: StatusRestored_def StatusDeclined_def)
next
  case (released rep0 did g s1 rep1 rel s2 c)
  let ?c = "ex_Coordinator e" and ?p = "ex_Policy e"
  obtain choice where ch: "exec_choice h L e t = Inr (choice, [])" "CH_Chosen choice = Some g"
    by (rule in_memory_recorder.exec_decide_failover [OF assms(1) released(1)]) (rule that)
  obtain dek cr where k: "CoordinateRestore h ?c (failover_request ?p did g dek) (record_io UsedKem s1) = (cr, s2)"
    "\<exists>res. cr = Inr res" "FindAuthorizedRelease (lb_release L) (IC_events (nd_chain s2)) did = Inr rel"
    using released(2) by (cases rule: exec_release_cases) (auto simp: assms(2))
  obtain res where res: "cr = Inr res" using k(2) by blast
  obtain evs e3 rid m suite pub reason now where r:
    "IC_events (nd_chain s2) = IC_events (nd_chain (record_io UsedKem s1)) @ evs @ [e3]" "AE_Kind e3 = KindKeyReleaseAuthorized"
    "json_Marshal h (keyReleaseAuthorized_payload ?c (failover_request ?p did g dek) rid (RS_TokenID res) m suite pub reason now) = Inr (AE_Payload e3)"
    "authorized (co_policy ?c) (CR_DestinationKind (failover_request ?p did g dek)) m (CR_DecisionID (failover_request ?p did g dek))
       (map KM_KeyID (CR_KeysToRelease (failover_request ?p did g dek)))"
    by (rule in_memory_recorder.CoordinateRestore_records [OF assms(1) k(1) [unfolded res]]) (rule that)
  obtain p where p: "lb_release L (AE_Payload e3) = Inr p" "AU_DecisionID p = did \<Longrightarrow> rel = p\<lparr>AU_AuditID := AE_EventID e3\<rparr>" "AU_DecisionID rel = did"
    by (rule found_release [OF k(3) [unfolded r(1) append_assoc [symmetric]] r(2)]) (rule that)
  obtain confirmed where c: "c = Inr confirmed" "rep = finished_report L ?p t g rep1 confirmed" using released(4) by (cases c) auto
  have "confirm_loop h L ?c (ex_Poll e) (time_Add (ev_Wall (ho_env h) (nd_trace s2)) (ex_ConfirmWait e)) (failover_confirm ?p g rel)
      (record_io (ReadWall (ev_Wall (ho_env h) (nd_trace s2))) s2) = Some (Inr confirmed, s')"
    using released(3) c(1) by (simp add: exec_confirm_eq Let_def)
  then obtain s0 where s0: "ConfirmRestore h ?c (lb_receipt L) (lb_float L) (failover_confirm ?p g rel) s0 = (Inr confirmed, s')"
    by (rule confirm_loop_ok)
  obtain sg now1 now2 ev where v: "proves_restore h ?c (lb_receipt L) (failover_confirm ?p g rel) sg (CN_Receipt confirmed)"
    "in_memory_recorder.steps s0 s' [FetchedReceipt (FR_DestinationEndpoint (failover_confirm ?p g rel)) (FR_KeyID (failover_confirm ?p g rel)), ReadClock now1, ReadClock now2, Logged ev]"
    "AE_Kind ev = KindCrossCloudRestoreCompleted" "AE_EventID ev = CN_AuditID confirmed"
    "json_Marshal h (restoreConfirmed_payload (lb_float L) (failover_confirm ?p g rel) (CN_Receipt confirmed) sg now1) = Inr (AE_Payload ev)"
    by (rule in_memory_recorder.ConfirmRestore_ok [OF assms(1) s0]) (rule that)
  obtain tr3 where "in_memory_recorder.steps (record_io (ReadWall (ev_Wall (ho_env h) (nd_trace s2))) s2) s' tr3"
    using in_memory_recorder.runs_confirm_loop [OF assms(1)] released(3) by (fastforce simp: exec_confirm_eq Let_def)
  then have e3: "e3 \<in> set (IC_events (nd_chain s'))" using r(1) by (simp add: in_memory_recorder.steps_def)
  have tree: "RC_TreeSHA256 (CN_Receipt confirmed) = EG_TreeSHA256 (CG_Expected g)"
    using v(1) by (simp add: proves_restore_def failover_confirm_def Let_def)
  have lst: "\<exists>es. IC_events (nd_chain s') = es @ [ev]" using v(2) by (simp add: in_memory_recorder.steps_def)
  have auth: "authorized (co_policy ?c) (SB_Kind (FP_Standby ?p)) m did [SE_KeyID (CG_Record g)]"
    using r(4) by (simp add: failover_request_def)
  have pay: "\<exists>rid tok suite pub reason now. json_Marshal h (keyReleaseAuthorized_payload ?c (failover_request ?p did g dek)
       rid tok m suite pub reason now) = Inr (AE_Payload e3)" using r(3) by blast
  have rel: "AU_DecisionID p = did \<longrightarrow> rel = p\<lparr>AU_AuditID := AE_EventID e3\<rparr>" using p(2) by blast
  have fin: "\<exists>now. json_Marshal h (restoreConfirmed_payload (lb_float L) (failover_confirm ?p g rel) (CN_Receipt confirmed) sg now) = Inr (AE_Payload ev)"
    using v(5) by blast
  have rep: "RP_Restore rep = Some (restoreReport confirmed (FP_RequireGate ?p))" "RR_AuditID (restoreReport confirmed (FP_RequireGate ?p)) = AE_EventID ev"
    "RR_TreeSHA256 (restoreReport confirmed (FP_RequireGate ?p)) = RC_TreeSHA256 (CN_Receipt confirmed)"
    using c(2) v(4) by (simp_all add: finished_report_def restoreReport_def Let_def)
  show ?thesis
    using ch auth e3 r(2) pay p(1) rel p(3) v(1) tree lst v(3) fin rep
    by - (rule exI [of _ choice], rule exI [of _ g], rule exI [of _ did], rule exI [of _ dek], rule exI [of _ m], rule exI [of _ e3],
      rule exI [of _ p], rule exI [of _ rel], rule exI [of _ sg], rule exI [of _ "CN_Receipt confirmed"], rule exI [of _ ev],
      rule exI [of _ "restoreReport confirmed (FP_RequireGate ?p)"], intro conjI)
qed auto

theorem restored_means_proven_witness:
  "\<exists>L rep (s' :: InMemoryChain site) es ev. Failover demo_authority L demo_executor demo_trigger demo_site = Some (Inr rep, s') \<and>
     IC_events (nd_chain s') = es @ [ev] \<and> AE_Kind ev = KindCrossCloudRestoreCompleted"
proof -
  obtain L rep s' where run: "Failover demo_authority L demo_executor demo_trigger demo_site = Some (Inr rep, s')" "RP_Status rep = StatusRestored"
    "lb_events L = IC_events" by (rule demo_fails_over)
  from restored_means_proven [OF demo_authority_fields(3) run(3,1,2)] obtain ev es where
    "IC_events (nd_chain s') = es @ [ev]" "AE_Kind ev = KindCrossCloudRestoreCompleted"
    by (elim exE conjE) (rule that)
  with run(1) show ?thesis by (intro exI [of _ L] exI [of _ rep] exI [of _ s'] exI [of _ es] exI [of _ ev] conjI)
qed

section \<open>A restore is recorded only with proof\<close>

text \<open>C15: A confirmation puts the completed restore on the record exactly when the destination's receipt proves it. On
  success the log gains one event, of that kind, with the receipt that the destination served, and the
  receipt proves the restore. On any error (a refused receipt, a mismatch, a verdict too low, a payload or an
  append that failed) the log is as it was; and when the request is well formed and the destination served a
  receipt that proves the restore, an error means only that the record itself could not be made: its payload
  did not marshal at the time read, or the log refused the event.\<close>

theorem restore_completed_only_on_proof:
  assumes "ho_Append h = Chain_Append H F" and "ConfirmRestore h c D ft req s = (r, s')"
  shows "case r of
      Inl err \<Rightarrow> IC_events (nd_chain s') = IC_events (nd_chain s) \<and>
        (\<forall>sg rc. confirm_request_check c req = None \<and>
           ev_Receipt (ho_env h) (nd_trace s) (FR_DestinationEndpoint req) (FR_KeyID req) = Inr sg \<and> proves_restore h c D req sg rc \<longrightarrow>
           (\<exists>tr now. nd_trace s' = nd_trace s @ [FetchedReceipt (FR_DestinationEndpoint req) (FR_KeyID req), ReadClock now] @ tr \<and>
              ((\<exists>e. json_Marshal h (restoreConfirmed_payload ft req rc sg now) = Inl e) \<or> (\<exists>now' e. tr = [ReadClock now', NotLogged e]))))
    | Inr res \<Rightarrow> (\<exists>sg ev now. IC_events (nd_chain s') = IC_events (nd_chain s) @ [ev] \<and> AE_Kind ev = KindCrossCloudRestoreCompleted \<and>
        AE_EventID ev = CN_AuditID res \<and> proves_restore h c D req sg (CN_Receipt res) \<and>
        ev_Receipt (ho_env h) (nd_trace s) (FR_DestinationEndpoint req) (FR_KeyID req) = Inr sg \<and>
        json_Marshal h (restoreConfirmed_payload ft req (CN_Receipt res) sg now) = Inr (AE_Payload ev))"
proof (cases r)
  case (Inl err)
  note run = assms(2) [unfolded Inl]
  have "\<exists>tr now. nd_trace s' = nd_trace s @ [FetchedReceipt (FR_DestinationEndpoint req) (FR_KeyID req), ReadClock now] @ tr \<and>
              ((\<exists>e. json_Marshal h (restoreConfirmed_payload ft req rc sg now) = Inl e) \<or> (\<exists>now' e. tr = [ReadClock now', NotLogged e]))"
    if "confirm_request_check c req = None" "ev_Receipt (ho_env h) (nd_trace s) (FR_DestinationEndpoint req) (FR_KeyID req) = Inr sg"
      "proves_restore h c D req sg rc" for sg rc
  proof (cases rule: ConfirmRestore_unrecorded [OF run that])
    case (1 now e)
    then show ?thesis by (intro exI [of _ "[]"] exI [of _ now]) auto
  next
    case (2 now now' e)
    then show ?thesis by (intro exI [of _ "[ReadClock now', NotLogged e]"] exI [of _ now]) auto
  qed
  with in_memory_recorder.ConfirmRestore_refused [OF assms(1) run] Inl show ?thesis by simp
next
  case (Inr res)
  obtain sg now now' ev where v: "proves_restore h c D req sg (CN_Receipt res)" "ev_Receipt (ho_env h) (nd_trace s) (FR_DestinationEndpoint req) (FR_KeyID req) = Inr sg"
    "in_memory_recorder.steps s s' [FetchedReceipt (FR_DestinationEndpoint req) (FR_KeyID req), ReadClock now, ReadClock now', Logged ev]"
    "AE_Kind ev = KindCrossCloudRestoreCompleted" "AE_EventID ev = CN_AuditID res"
    "json_Marshal h (restoreConfirmed_payload ft req (CN_Receipt res) sg now) = Inr (AE_Payload ev)"
    by (rule in_memory_recorder.ConfirmRestore_ok [OF assms(1) assms(2) [unfolded Inr]]) (rule that)
  have "IC_events (nd_chain s') = IC_events (nd_chain s) @ [ev]" using v(3) by (simp add: in_memory_recorder.steps_def)
  with v(1,2,4-6) Inr show ?thesis by auto
qed

text \<open>The demonstration standby proves its restore and the log gains the event; a key that was not released is refused.\<close>

theorem restore_completed_only_on_proof_witness:
  "(\<exists>res s' ev. ConfirmRestore demo_authority demo_coordinator (\<lambda>b. Inr (demo_receipt, [])) (\<lambda>x. Inr ''0'') demo_confirm demo_site = (Inr res, s') \<and>
     IC_events (nd_chain s') = [ev] \<and> AE_Kind ev = KindCrossCloudRestoreCompleted) \<and>
   (\<forall>D ft. \<exists>err s'. ConfirmRestore demo_authority demo_coordinator D ft (demo_confirm\<lparr>FR_KeyID := ''other''\<rparr>) demo_site = (Inl err, s') \<and>
     CategoryOf (Some err) = CategoryAuthority \<and> IC_events (nd_chain s') = [])"
proof (rule conjI)
  obtain res s' where ok: "ConfirmRestore demo_authority demo_coordinator (\<lambda>b. Inr (demo_receipt, [])) (\<lambda>x. Inr ''0'') demo_confirm demo_site = (Inr res, s')"
    by (rule demo_confirm_succeeds)
  from restore_completed_only_on_proof [OF demo_authority_fields(3) ok] ok
  show "\<exists>res s' ev. ConfirmRestore demo_authority demo_coordinator (\<lambda>b. Inr (demo_receipt, [])) (\<lambda>x. Inr ''0'') demo_confirm demo_site = (Inr res, s') \<and>
     IC_events (nd_chain s') = [ev] \<and> AE_Kind ev = KindCrossCloudRestoreCompleted"
    by (auto simp: demo_site_def NewInMemoryChain_def)
next
  show "\<forall>D ft. \<exists>err s'. ConfirmRestore demo_authority demo_coordinator D ft (demo_confirm\<lparr>FR_KeyID := ''other''\<rparr>) demo_site = (Inl err, s') \<and>
     CategoryOf (Some err) = CategoryAuthority \<and> IC_events (nd_chain s') = []"
  proof (intro allI)
    fix D ft
    let ?req = "demo_confirm\<lparr>FR_KeyID := ''other''\<rparr>"
    have "''other'' \<noteq> GH_KeyID demo_sealed"
      by (simp add: demo_sealed_key NewKeyID_def)
    moreover have "MeasurementOf [1] \<noteq> []" using SHA256_length [of "[1]"] by (auto simp: MeasurementOf_def HashSize_def simp flip: length_0_conv)
    ultimately obtain err where e: "confirm_request_check demo_coordinator ?req = Some err" "CategoryOf (Some err) = CategoryAuthority"
      by (simp add: confirm_request_check_def demo_confirm_def demo_release_def demo_coordinator_def first_err_Cons chk_def)
    then have run: "ConfirmRestore demo_authority demo_coordinator D ft ?req demo_site = (Inl err, demo_site)"
      by (simp add: ConfirmRestore_def)
    from restore_completed_only_on_proof [OF demo_authority_fields(3) run] run e(2)
    show "\<exists>err s'. ConfirmRestore demo_authority demo_coordinator D ft ?req demo_site = (Inl err, s') \<and> CategoryOf (Some err) = CategoryAuthority \<and>
        IC_events (nd_chain s') = []"
      by (intro exI [of _ err] exI [of _ demo_site]) (simp add: demo_site_def NewInMemoryChain_def)
  qed
qed

section \<open>The executor returns\<close>

text \<open>C16: When the wall clock never runs back and a sleep takes at least the poll interval, a failover returns, whatever
  the standby and the rest of the surroundings do, and its wait for the receipt keeps its deadline. All of its
  sleeps are the wait's: before each, the wall clock was read at the start of the wait and again just before
  the sleep, when more than a poll interval was left of the configured wait; and their number times the poll
  interval is below that wait.\<close>

theorem failover_returns:
  assumes "time_passes h (ex_Poll e)" and "0 < sint (ex_Poll e)"
  shows "\<exists>r s' tr. Failover h L e t s = Some (r, s') \<and> nd_trace s' = nd_trace s @ tr \<and>
    (\<forall>xs ys. tr = xs @ Slept # ys \<longrightarrow>
       (\<exists>start readings now. walls xs = start # readings @ [now] \<and> time_Add now (ex_Poll e) < time_Add start (ex_ConfirmWait e))) \<and>
    (sleeps tr = 0 \<or> int (sleeps tr) * sint (ex_Poll e) < sint (ex_ConfirmWait e))"
proof -
  obtain r s' where run: "Failover h L e t s = Some (r, s')" and tr: "\<exists>tr. nd_trace s' = nd_trace s @ tr \<and> kept_deadline e tr"
    using Failover_keeps_deadline [OF assms] by blast
  from tr obtain tr where "nd_trace s' = nd_trace s @ tr" "kept_deadline e tr" by blast
  with run show ?thesis unfolding kept_deadline_def by (intro exI [of _ r] exI [of _ s'] exI [of _ tr]) simp
qed

text \<open>A clock that counts what happened, and room for three polls: at most two sleeps, with any decoders.\<close>

theorem failover_returns_witness:
  "\<forall>L. \<exists>r s' tr. Failover (demo_host\<lparr>ho_env := demo_env\<lparr>ev_Wall := \<lambda>tr. int (length tr)\<rparr>\<rparr>) L (demo_executor\<lparr>ex_ConfirmWait := 3\<rparr>)
       demo_trigger demo_site = Some (r, s') \<and> nd_trace s' = nd_trace demo_site @ tr \<and> sleeps tr \<le> 2"
proof (rule allI)
  fix L
  let ?h = "demo_host\<lparr>ho_env := demo_env\<lparr>ev_Wall := \<lambda>tr. int (length tr)\<rparr>\<rparr>" and ?e = "demo_executor\<lparr>ex_ConfirmWait := 3\<rparr>"
  have "int (length tr) + (if Slept \<in> set xs then sint (1 :: i64) else 0) \<le> int (length (tr @ xs))" for tr xs
    by (cases xs) auto
  then have 1: "time_passes ?h (ex_Poll ?e)" by (simp add: time_passes_def demo_executor_def demo_host_def)
  have 2: "0 < sint (ex_Poll ?e)" by (simp add: demo_executor_def)
  obtain r s' tr where "Failover ?h L ?e demo_trigger demo_site = Some (r, s')" "nd_trace s' = nd_trace demo_site @ tr"
      "sleeps tr = 0 \<or> int (sleeps tr) * sint (ex_Poll ?e) < sint (ex_ConfirmWait ?e)"
    using failover_returns [OF 1 2, of L demo_trigger demo_site] by (elim exE conjE) (rule that)
  then show "\<exists>r s' tr. Failover ?h L ?e demo_trigger demo_site = Some (r, s') \<and> nd_trace s' = nd_trace demo_site @ tr \<and> sleeps tr \<le> 2"
    by (intro exI [of _ r] exI [of _ s'] exI [of _ tr]) (auto simp: demo_executor_def)
qed

end
