(* ===== verification/Spec2Isabelle.thy ===== *)
theory Spec2Isabelle
  imports LogProperties KeyProperties ChainProperties BootstrapProperties FlowMachine SessionProperties StagedProperties TrustProperties SentinelRecords BundleProperties WatchProperties FailoverProperties ReleaseProperties EscrowProperties ExecutorProperties
begin

text \<open>
  A verification development for the VaultGenome core (Go, src/internal). The platform keeps an AI
  genome in a vault, releases it in staged disclosures to an attested receiver, and leaves signed,
  hash-linked evidence of every decision. The development models the parts on which that evidence
  rests, the session issuer and the staged disclosure of the release side, and the receive-side orchestrator
  that consumes what they release:

  \<^item> errors and results (shared/errors): \<open>Errors\<close>; the \<open>(T, error)\<close> convention, byte strings,
    fixed-width integers and big-endian packing: \<open>Prelude\<close>;
  \<^item> hashing, signature suites, AES-GCM wrappers and canonical JSON (shared/crypto): \<open>Sha256\<close>,
    \<open>Signatures\<close>, \<open>JsonScalars\<close>, \<open>Canonical\<close>, \<open>Wire\<close>;
  \<^item> the vault's key store (vault/keys): \<open>KeyStore\<close>, \<open>KeyProperties\<close>;
  \<^item> the witness transparency log (contracts/witness and genome/witness/log.go): \<open>LogEntry\<close>,
    \<open>MerkleTree\<close>, \<open>TreeHead\<close>, \<open>ForkDetection\<close>, \<open>WitnessLog\<close>, with the proofs in \<open>MerkleSpec\<close>,
    \<open>MerkleProofs\<close>, \<open>Verifiers\<close>, \<open>LogProofs\<close> and the properties in \<open>LogProperties\<close>;
  \<^item> audit events and the in-memory audit chain (contracts/audit_event, audit/chain/chain.go):
    \<open>AuditEvent\<close>, \<open>AuditChain\<close>, \<open>ChainProperties\<close>;
  \<^item> the contract packages of the receive side (contracts/bootstrap_manifest,
    reconstruction_job_manifest, disclosure_message, received_disclosure, reconstitution_decision):
    \<open>SignedContract\<close>, \<open>BootstrapContracts\<close>;
  \<^item> the two state machines (vault/orchestration/state.go and machine.go, bootstrap/state.go):
    \<open>Transitions\<close>, \<open>FlowMachine\<close>, \<open>BootstrapStates\<close>;
  \<^item> the receive-side orchestrator (bootstrap/orchestrator.go, agreement.go): \<open>Bootstrap\<close>,
    \<open>BootstrapProofs\<close>, \<open>BootstrapLive\<close>, \<open>BootstrapProperties\<close>;
  \<^item> the contracts of the release side (contracts/recovery_request, attestation_result, session_object):
    \<open>ReleaseContracts\<close>; instants and \<open>time.Duration\<close> arithmetic: \<open>Durations\<close>;
  \<^item> the session issuer (vault/session/issuer.go): \<open>SessionIssuer\<close>, \<open>SessionProofs\<close>, \<open>SessionProperties\<close>;
  \<^item> staged disclosure (vault/disclosure/staged.go, sequencer.go and contracts/disclosure_message/aad.go):
    \<open>StagedDisclosure\<close>, \<open>StagedProofs\<close>, \<open>StagedProperties\<close>; the signers of a working vault: \<open>LiveSigners\<close>;
  \<^item> measurements, providers and the simulated TEE (shared/tee): \<open>Tee\<close>; the text functions of the standard
    library that these parts use: \<open>GoText\<close>; signed operator records: \<open>OperatorRecords\<close>;
  \<^item> key release policies (vault/kms/policy.go), the operator's stop list (vault/revocation) and trust
    admission (vault/trust): \<open>KeyRelease\<close>, \<open>Revocation\<close>, \<open>TrustAdmission\<close>, \<open>TrustProperties\<close>;
  \<^item> the records a sentinel signs about a genome (genome/sentinel/records.go): \<open>SentinelRecords\<close>,
    and how a release authority reads them back (genome/sentinel/outbox.go): \<open>Outbox\<close>, with
    outboxes of the examples in \<open>FailoverLive\<close>;
  \<^item> the sealed genome bundle (genome/bundle/bundle.go): \<open>GenomeBundle\<close>, \<open>BundleProofs\<close>, \<open>BundleProperties\<close>;
  \<^item> failover (vault/failover/policy.go, gate.go, watch.go, choose.go and genome/tree/tree.go): \<open>FailoverPolicy\<close>,
    \<open>FailoverWatch\<close>, \<open>FailoverChoose\<close>, with the properties in
    \<open>WatchProperties\<close>, \<open>FailoverProperties\<close>;
  \<^item> key release across clouds: the two contracts (contracts/cross_cloud_handshake_request,
    key_release_token) in \<open>ReleaseTokens\<close>, the KEM suites and profiles (vault/kms/suite.go, profile.go, kem.go) in
    \<open>KemSuites\<close>, the authority's surroundings and its audit emitter (cmd/sagvd/crosscloud_emitter.go) in
    \<open>ReleaseHost\<close>, the coordinator and the verifier registry (vault/kms/coordinator.go, shared/tee/registry.go) in
    \<open>Coordinator\<close>, with \<open>CoordinatorProofs\<close>, \<open>ReleaseLive\<close> and \<open>ReleaseProperties\<close>;
  \<^item> key escrow (genome/escrow/key.go, escrow.go, recovery.go, sealed.go): \<open>Escrow\<close>, \<open>EscrowProperties\<close>;
  \<^item> carrying a failover out: the destination's receipt (genome/receipt/receipt.go) and its
    confirmation (vault/kms/confirm.go) in \<open>Confirm\<close>, the executor (vault/failover/executor.go) in
    \<open>Executor\<close>, with \<open>ExecutorProofs\<close>, \<open>ExecutorLive\<close> and \<open>ExecutorProperties\<close>.

  \<^bold>\<open>How the parts meet.\<close> A component signs through a \<open>Signer\<close> and checks through a \<open>Resolver\<close>, the two
  interfaces of vault/keys, here records of functions that the store implements. The witness log
  packs and hashes entries, keeps their leaves, and answers with signed tree heads, inclusion and
  consistency proofs and receipts that the contract package's verifiers check. The audit chain seals
  events over canonical JSON. The orchestrator drives both: it records every acceptance in an audit
  chain, signs a receipt for it, and takes one signed decision. On the release side the session issuer pins a
  session to a policy, the staged issuer seals one component after the other for it, and the sequencer
  records each emission in an audit chain before it surfaces the message. Between clouds the coordinator
  verifies a destination through the verifier registry, asks the release policy behind its gates, and
  records every stage through the emitter before it acts. The failover executor joins them: a watcher's trigger
  and the outbox give a choice, the decision goes on the record, the escrow opens the chosen genome's key, the
  coordinator releases it to the standby, and the standby's receipt is confirmed against the recorded release.

  \<^bold>\<open>Correspondence.\<close> A Go struct is a record with prefixed fields, an enum a datatype, a method a
  function from the receiver to a result and the receiver as the call leaves it. A mutex makes a
  method one step, so runs are sequences of calls. \<open>error\<close> is \<open>go_error option\<close>, \<open>(T, error)\<close> is
  \<open>go_error + 'a\<close>, a pointer that the code checks for nil is an option. Sized integers are words
  (tree sizes, sequence numbers and counters wrap); \<open>int\<close> indices below the length of a slice are
  naturals; an instant is its nanoseconds since the epoch. A nil and an empty slice are one value.
  A loop that a bad argument could keep from ending or make panic (\<open>subproofInternal\<close>,
  \<open>path_loop\<close>) or that waits on its surroundings (\<open>confirm_loop\<close>) is a partial function into \<open>option\<close>, and the properties prove that it returns; every
  other loop is total, with a termination proof where it is not structural. No fuel is used. The coordinator's
  surroundings (clock, wall clock, identifiers, nonces, network, the randomness of a KEM) are functions of the trace of
  everything it has read and sent, so any reaction to what it did is covered. A Go
  slice has fewer than \<open>2 ^ 63\<close> elements, which is the capacity the append-only contracts assume.

  \<^bold>\<open>Interfaces.\<close> Each contract between parts is a locale with its client's lemmas, interpreted on the
  model: \<open>digest32\<close> (a hash with 32-byte results; SHA-256), \<open>keyring\<close> (what is signed resolves and
  checks; the vault's store), \<open>append_only\<close> (the witness log and the audit chain), \<open>witness_operator\<close>
  (a hash with a key ring), \<open>signed_contract\<close> and \<open>contract_ring\<close> (every contract package over the
  store), \<open>transition_machine\<close> (both state tables), \<open>audit_recorder\<close> (an audit chain as the orchestrator
  and the sequencer use it), \<open>sealing_link\<close> (two stores that share a sealing key),
  \<open>attestation_pair\<close> (a TEE's producer and verifier; the simulated backend), \<open>release_gate\<close> (a policy in
  front of a policy; the stop list's gate and the failover policy's), \<open>attested_record\<close> (a record that is signed and attested; the
  three records of a sentinel), \<open>plain_io\<close> (a kind of event that admits what the coordinator and the executor do short
  of sending a token; the steps that send nothing, and those that do not wait).

  \<^bold>\<open>Parameters.\<close> The standard library's signature primitives, AES-GCM, key generation and float
  formatting are arguments (\<open>prims\<close>, \<open>floats\<close>); what the properties need of them (a signature made with
  a key checks under its public key, sizes) is \<open>prims_ok\<close>, which a concrete instance satisfies.
  Where the code decodes JSON into a struct the decoder is an argument: it gives the struct and whether
  anything follows it, or an error. SHA-256 is concrete. Collision freedom is never assumed: a property that rests on it exhibits the
  collision.

  \<^bold>\<open>What is shown.\<close>
  \<^item> Witness log: accepted inclusion and consistency proofs show membership and prefix, unless
    SHA-256 collides; the operator's own proofs are always built and accepted; receipts verify; the
    Merkle root is the tree hash of RFC 6962; heads and roots commit to the history; the log is
    append-only; the fork detector clears exactly the consistent pairs, never accuses an honest
    operator, and classifies what it finds.
  \<^item> Keys: purposes are separated, registrations never overwrite, zeroizing wipes, sealing and opening
    round-trip, every reachable store is well-formed.
  \<^item> Canonical JSON: total and injective on trees of 64-bit signed integers and well-formed strings.
  \<^item> Audit chain: what was recorded verifies, the tip commits to the whole history (of events with well-formed
    identifiers; the gate does not check them, a finding), the chain is
    append-only, and a broken chain is an integrity error.
  \<^item> Flow machine: any driver's history is legal and of at most eleven steps, release is reached only
    through a signed decision, and every flow can be finished.
  \<^item> Receive side: over any calls an accepting decision means that every slot was received in order
    with its committed hash; the committed messages do lead to it; each call keeps the state or takes a row of
    the published table under a trigger of its own; decisions and rejections are final; every receipt is evidenced and verifies.
  \<^item> Sessions: an issued session verifies exactly until its expiry, an invalidated one never again, and a
    session is held for its whole life, over any history of calls.
  \<^item> Staged disclosure: a run surfaces a prefix of the components in order, one audit event per message,
    zeroes every plaintext, completes when its parts work, can be opened by a receiver with the sealing
    key, and its messages, committed in a manifest, lead the receive side to the accepting decision.
  \<^item> Trust: admission grants exactly what the peer's attestation, the served profiles and the stop list
    allow; the list halts admission and release alike and cannot be rolled back; and a revocation spelled
    by a family name is accepted and ignored (a finding).
  \<^item> Bundles: what is sealed opens, what opens is what the header describes, the reader always answers,
    and the limit on segments holds below the wrap of its 64-bit sum (above it, a finding).

  \<^item> Failover: a trigger rests on records that verify and are vouched for, a timeout means silence on the
    authority's own clock, every enabled sign of failure fires (where the durations do not wrap); a sentinel's chain reads back whole; the
    genome that is chosen is vouched for by the trigger's own record; a key goes to the policy's standby or
    nowhere, and one policy serial moves a genome once. Two findings: durations that wrap, and a standby
    named by its family.
  \<^item> Key release: a token leaves only after its three events are in the log, to a destination that proved
    itself under this handshake's own challenge and that the policy authorized, with keys wrapped to the
    attested key; a policy's refusal is recorded; a release whose parts work runs to its end. What is
    wrapped unwraps, suite policies are well formed, and the challenge fixes suite, key and nonce.
  \<^item> Escrow and the executor: a genome key opens from escrow to what was sealed, and the escrow key comes back from
    its recovery envelope and from its sealed file; a key leaves in a failover only after the decision is in the
    log and only to the standby; a declined failover releases nothing; a restore is reported only with a receipt
    that proves it, and a confirmation refuses no receipt that does; and a failover returns on a wall clock that
    moves on, its sleeps within the configured wait.

  \<^bold>\<open>Not modelled.\<close> JSON decoding hooks (\<open>UnmarshalJSON\<close>), key files and certificates, file modes and file writes (receipts, reports, sentinel outboxes), the persistent
  audit store and its segments, the other contract packages, the release-side flow driver, the
  validation and remaining genome packages, the sentinel's process, hardware TEE and KMS backends, HTTP
  and command-line programs, and the clock's and the scheduler's behaviour. Memory aliasing is not
  modelled either: a copy is the value itself, so what the code's defensive copies prevent is not
  stated (see the findings of the manifest for one place where a copy is missing).
\<close>

end
